(* ===== verification/Prelude.thy ===== *)
theory Prelude
  imports Main "HOL-Library.AList"
begin

text \<open>
  What every component theory of the development shares:
  \<^item> the exception classes of the code and the result type \<open>'a res\<close> (a raised exception is a
    value \<open>Inl e\<close>), with the sequencing combinator \<open>bind_res\<close>;
  \<^item> Python dictionaries as association lists: \<open>map_of\<close> is \<open>dict.get\<close>, \<open>AList.update\<close> is
    assignment (it replaces in place or appends, as a Python dict keeps insertion order);
  \<^item> the loops over lists that may raise, and lemmas on all of these.
\<close>

section \<open>Lemma collections\<close>

named_theorems res_simps \<open>unfolding of the exception combinators\<close>
named_theorems outcome_simps \<open>facts about the outcome of control-plane operations\<close>

section \<open>Exceptions\<close>

text \<open>
  The exception classes that the modelled code raises or that it lets through. \<open>OtherError\<close>
  stands for any class the code never names (errors of the file system, of a transport, ...).
\<close>

datatype exn_class =
    ValueError | FingerprintError | AuthChannelError | TargetRegistryError
    | ProviderRegistryError | ConfigValidationError | ACTProofError | AuditCheckpointError
    | AuditExportError | AuditRetentionPolicyError | SQLiteAuditError | TransportPolicyError
    | ArtifactPolicyError | HostResultValidationError | JSONDecodeError | RuntimeError
    | EmergencyStopActive | ApprovalCacheError | RealProviderNotEnabledError
    | PiKVMLiveValidationError | RedfishLiveValidationError
    | TransportError | TransportMethodNotAllowedError | TransportRouteNotFoundError
    | NotImplementedError | ProviderError | ProviderDisabledError | ProviderNotFoundError
    | TargetNotFoundError | UnsupportedCapabilityError | ProviderTimeoutError
    | ProviderTLSVerificationError | ProviderAuthenticationRequiredError
    | ProviderAuthenticationFailedError | ProviderAuthorizationError
    | ProviderConnectionError | ProviderProtocolError | PiKVMFingerprintMismatchError
    | RedfishFingerprintMismatchError | ProviderResponseValidationError
    | ProviderRateLimitedError | ProviderUnsafeOperationError | ProviderMutationBlockedError
    | ProviderSecretRequiredError | ProviderConfigError | TypeError | KeyError | IndexError
    | AttributeError | OSError | SQLiteError | OtherError

datatype exn = Exn exn_class string

fun exn_class_of :: "exn \<Rightarrow> exn_class" where
  "exn_class_of (Exn c m) = c"

fun exn_text :: "exn \<Rightarrow> string" where
  "exn_text (Exn c m) = m"

text \<open>The two superclasses the code catches by name: \<open>except ValueError\<close>, \<open>except RuntimeError\<close>.\<close>

definition VALUE_ERRORS :: "exn_class list" where
  "VALUE_ERRORS =
     [ValueError, FingerprintError, AuthChannelError, TargetRegistryError,
      ProviderRegistryError, ConfigValidationError, ACTProofError, AuditCheckpointError,
      AuditExportError, AuditRetentionPolicyError, SQLiteAuditError, TransportPolicyError,
      ArtifactPolicyError, HostResultValidationError, JSONDecodeError]"

definition PROVIDER_ERRORS :: "exn_class list" where
  "PROVIDER_ERRORS =
     [ProviderError, ProviderDisabledError, ProviderNotFoundError, TargetNotFoundError,
      UnsupportedCapabilityError, ProviderTimeoutError, ProviderTLSVerificationError,
      ProviderAuthenticationRequiredError, ProviderAuthenticationFailedError,
      ProviderAuthorizationError, ProviderConnectionError, ProviderProtocolError,
      PiKVMFingerprintMismatchError, RedfishFingerprintMismatchError,
      ProviderResponseValidationError, ProviderRateLimitedError, ProviderUnsafeOperationError,
      ProviderMutationBlockedError, ProviderSecretRequiredError, ProviderConfigError]"

definition RUNTIME_ERRORS :: "exn_class list" where
  "RUNTIME_ERRORS =
     [RuntimeError, EmergencyStopActive, ApprovalCacheError, RealProviderNotEnabledError,
      PiKVMLiveValidationError, RedfishLiveValidationError,
      TransportError, TransportMethodNotAllowedError, TransportRouteNotFoundError,
      NotImplementedError] @ PROVIDER_ERRORS"

definition is_value_error :: "exn \<Rightarrow> bool" where
  "is_value_error e \<longleftrightarrow> exn_class_of e \<in> set VALUE_ERRORS"

definition is_runtime_error :: "exn \<Rightarrow> bool" where
  "is_runtime_error e \<longleftrightarrow> exn_class_of e \<in> set RUNTIME_ERRORS"

definition is_provider_error :: "exn \<Rightarrow> bool" where
  "is_provider_error e \<longleftrightarrow> exn_class_of e \<in> set PROVIDER_ERRORS"

lemma value_not_runtime_error: "is_value_error e \<Longrightarrow> \<not> is_runtime_error e"
  by (cases "exn_class_of e")
    (simp_all add: is_value_error_def is_runtime_error_def VALUE_ERRORS_def RUNTIME_ERRORS_def PROVIDER_ERRORS_def)

text \<open>\<open>type(exc).__name__\<close>\<close>

fun exn_class_name :: "exn_class \<Rightarrow> string" where
  "exn_class_name ValueError = ''ValueError''"
| "exn_class_name FingerprintError = ''FingerprintError''"
| "exn_class_name AuthChannelError = ''AuthChannelError''"
| "exn_class_name TargetRegistryError = ''TargetRegistryError''"
| "exn_class_name ProviderRegistryError = ''ProviderRegistryError''"
| "exn_class_name ConfigValidationError = ''ConfigValidationError''"
| "exn_class_name ACTProofError = ''ACTProofError''"
| "exn_class_name AuditCheckpointError = ''AuditCheckpointError''"
| "exn_class_name AuditExportError = ''AuditExportError''"
| "exn_class_name AuditRetentionPolicyError = ''AuditRetentionPolicyError''"
| "exn_class_name SQLiteAuditError = ''SQLiteAuditError''"
| "exn_class_name TransportPolicyError = ''TransportPolicyError''"
| "exn_class_name ArtifactPolicyError = ''ArtifactPolicyError''"
| "exn_class_name HostResultValidationError = ''HostResultValidationError''"
| "exn_class_name JSONDecodeError = ''JSONDecodeError''"
| "exn_class_name RuntimeError = ''RuntimeError''"
| "exn_class_name EmergencyStopActive = ''EmergencyStopActive''"
| "exn_class_name ApprovalCacheError = ''ApprovalCacheError''"
| "exn_class_name RealProviderNotEnabledError = ''RealProviderNotEnabledError''"
| "exn_class_name PiKVMLiveValidationError = ''PiKVMLiveValidationError''"
| "exn_class_name RedfishLiveValidationError = ''RedfishLiveValidationError''"
| "exn_class_name TransportError = ''TransportError''"
| "exn_class_name TransportMethodNotAllowedError = ''TransportMethodNotAllowedError''"
| "exn_class_name TransportRouteNotFoundError = ''TransportRouteNotFoundError''"
| "exn_class_name NotImplementedError = ''NotImplementedError''"
| "exn_class_name ProviderError = ''ProviderError''"
| "exn_class_name ProviderDisabledError = ''ProviderDisabledError''"
| "exn_class_name ProviderNotFoundError = ''ProviderNotFoundError''"
| "exn_class_name TargetNotFoundError = ''TargetNotFoundError''"
| "exn_class_name UnsupportedCapabilityError = ''UnsupportedCapabilityError''"
| "exn_class_name ProviderTimeoutError = ''ProviderTimeoutError''"
| "exn_class_name ProviderTLSVerificationError = ''ProviderTLSVerificationError''"
| "exn_class_name ProviderAuthenticationRequiredError = ''ProviderAuthenticationRequiredError''"
| "exn_class_name ProviderAuthenticationFailedError = ''ProviderAuthenticationFailedError''"
| "exn_class_name ProviderAuthorizationError = ''ProviderAuthorizationError''"
| "exn_class_name ProviderConnectionError = ''ProviderConnectionError''"
| "exn_class_name ProviderProtocolError = ''ProviderProtocolError''"
| "exn_class_name PiKVMFingerprintMismatchError = ''PiKVMFingerprintMismatchError''"
| "exn_class_name RedfishFingerprintMismatchError = ''RedfishFingerprintMismatchError''"
| "exn_class_name ProviderResponseValidationError = ''ProviderResponseValidationError''"
| "exn_class_name ProviderRateLimitedError = ''ProviderRateLimitedError''"
| "exn_class_name ProviderUnsafeOperationError = ''ProviderUnsafeOperationError''"
| "exn_class_name ProviderMutationBlockedError = ''ProviderMutationBlockedError''"
| "exn_class_name ProviderSecretRequiredError = ''ProviderSecretRequiredError''"
| "exn_class_name ProviderConfigError = ''ProviderConfigError''"
| "exn_class_name TypeError = ''TypeError''"
| "exn_class_name KeyError = ''KeyError''"
| "exn_class_name IndexError = ''IndexError''"
| "exn_class_name AttributeError = ''AttributeError''"
| "exn_class_name OSError = ''OSError''"
| "exn_class_name SQLiteError = ''OperationalError''"
| "exn_class_name OtherError = ''Exception''"

abbreviation exn_name :: "exn \<Rightarrow> string" where
  "exn_name e \<equiv> exn_class_name (exn_class_of e)"

section \<open>Results\<close>

type_synonym 'a res = "exn + 'a"

definition bind_res :: "'a res \<Rightarrow> ('a \<Rightarrow> 'b res) \<Rightarrow> 'b res" where
  "bind_res r k = (case r of Inl e \<Rightarrow> Inl e | Inr x \<Rightarrow> k x)"

definition raise :: "exn_class \<Rightarrow> string \<Rightarrow> 'a res" where
  "raise c m = Inl (Exn c m)"

definition guard_res :: "bool \<Rightarrow> exn_class \<Rightarrow> string \<Rightarrow> unit res" where
  "guard_res ok c m = (if ok then Inr () else raise c m)"

lemma bind_res_simps [simp, res_simps]:
  "bind_res (Inl e) k = Inl e" "bind_res (Inr x) k = k x"
  by (simp_all add: bind_res_def)

lemma bind_res_Inr_iff [res_simps]:
  "bind_res r k = Inr y \<longleftrightarrow> (\<exists>x. r = Inr x \<and> k x = Inr y)"
  by (cases r) auto

lemma bind_res_Inl_iff:
  "bind_res r k = Inl e \<longleftrightarrow> r = Inl e \<or> (\<exists>x. r = Inr x \<and> k x = Inl e)"
  by (cases r) auto

lemma raise_neq_Inr [simp]: "raise c m \<noteq> Inr x" "Inr x \<noteq> raise c m"
  by (simp_all add: raise_def)

lemma guard_res_Inr_iff [simp, res_simps]: "guard_res ok c m = Inr u \<longleftrightarrow> ok"
  by (simp add: guard_res_def)

lemma guard_res_True [simp]: "guard_res True c m = Inr ()"
  by (simp add: guard_res_def)

lemma guard_res_False [simp]: "guard_res False c m = raise c m"
  by (simp add: guard_res_def)

lemma bind_raise [simp]: "bind_res (raise c m) k = raise c m"
  by (simp add: raise_def)

text \<open>\<open>[f(x) for x in xs]\<close> where \<open>f\<close> may raise: the first exception ends the loop.\<close>

fun map_res :: "('a \<Rightarrow> 'b res) \<Rightarrow> 'a list \<Rightarrow> 'b list res" where
  "map_res f [] = Inr []"
| "map_res f (x # xs) = bind_res (f x) (\<lambda>y. bind_res (map_res f xs) (\<lambda>ys. Inr (y # ys)))"

lemma map_res_cong [fundef_cong]:
  "xs = ys \<Longrightarrow> (\<And>x. x \<in> set ys \<Longrightarrow> f x = g x) \<Longrightarrow> map_res f xs = map_res g ys"
proof (induction xs arbitrary: ys)
  case (Cons x xs)
  then show ?case by (cases ys) auto
qed simp

lemma map_res_Inr_iff:
  "map_res f xs = Inr ys \<longleftrightarrow> list_all2 (\<lambda>x y. f x = Inr y) xs ys"
proof (induction xs arbitrary: ys)
  case (Cons x xs)
  then show ?case by (cases ys) (auto simp: bind_res_Inr_iff)
qed auto

lemma map_res_all_Inr: "(\<And>x. x \<in> set xs \<Longrightarrow> f x = Inr (g x)) \<Longrightarrow> map_res f xs = Inr (map g xs)"
  by (induction xs) auto

lemma map_res_length: "map_res f xs = Inr ys \<Longrightarrow> length ys = length xs"
  by (auto simp: map_res_Inr_iff list_all2_lengthD)

section \<open>Dictionaries\<close>

type_synonym ('k, 'v) dict = "('k \<times> 'v) list"

abbreviation dict_get :: "('k, 'v) dict \<Rightarrow> 'k \<Rightarrow> 'v option" where
  "dict_get \<equiv> map_of"

abbreviation dict_set :: "'k \<Rightarrow> 'v \<Rightarrow> ('k, 'v) dict \<Rightarrow> ('k, 'v) dict" where
  "dict_set \<equiv> AList.update"

abbreviation dict_has :: "('k, 'v) dict \<Rightarrow> 'k \<Rightarrow> bool" where
  "dict_has d k \<equiv> dict_get d k \<noteq> None"

definition dict_get_or :: "('k, 'v) dict \<Rightarrow> 'k \<Rightarrow> 'v \<Rightarrow> 'v" where
  "dict_get_or d k v = (case dict_get d k of None \<Rightarrow> v | Some w \<Rightarrow> w)"

lemma dict_get_set [simp]: "dict_get (dict_set k v d) k' = (if k' = k then Some v else dict_get d k')"
  by (simp add: update_conv')

lemma dict_set_distinct: "distinct (map fst d) \<Longrightarrow> distinct (map fst (dict_set k v d))"
  by (rule distinct_update)

text \<open>A dict comprehension \<open>{key(x): val(x) for x in xs}\<close>: a later equal key overwrites.\<close>

fun dict_of :: "('k \<times> 'v) list \<Rightarrow> ('k, 'v) dict \<Rightarrow> ('k, 'v) dict" where
  "dict_of [] d = d"
| "dict_of ((k, v) # kvs) d = dict_of kvs (dict_set k v d)"

lemma dict_of_distinct: "distinct (map fst d) \<Longrightarrow> distinct (map fst (dict_of kvs d))"
  by (induction kvs arbitrary: d) (auto simp: dict_set_distinct)

lemma dict_set_fresh: "k \<notin> fst ` set d \<Longrightarrow> dict_set k v d = d @ [(k, v)]"
  by (induction d) auto

lemma dict_of_fresh:
  "distinct (map fst kvs) \<Longrightarrow> fst ` set kvs \<inter> fst ` set d = {} \<Longrightarrow> dict_of kvs d = d @ kvs"
proof (induction kvs arbitrary: d)
  case (Cons kv kvs)
  obtain k v where kv: "kv = (k, v)" by (cases kv)
  from Cons.prems kv have "k \<notin> fst ` set d" by auto
  then have "dict_set k v d = d @ [(k, v)]" by (rule dict_set_fresh)
  moreover have "dict_of kvs (d @ [(k, v)]) = (d @ [(k, v)]) @ kvs"
    using Cons.prems kv by (intro Cons.IH) auto
  ultimately show ?case using kv by simp
qed simp

lemma dict_of_self [simp]: "distinct (map fst kvs) \<Longrightarrow> dict_of kvs [] = kvs"
  using dict_of_fresh [of kvs "[]"] by simp

section \<open>Searching\<close>

lemma find_Some_iff_first:
  "find P xs = Some x \<Longrightarrow> P x \<and> x \<in> set xs"
  by (auto simp: find_Some_iff)

text \<open>\<open>_first_mismatch\<close> of the code: the first field whose two values differ.\<close>

fun first_mismatch :: "(string \<times> 'a \<times> 'a) list \<Rightarrow> string option" where
  "first_mismatch [] = None"
| "first_mismatch ((name, actual, expected) # rest) =
     (if actual \<noteq> expected then Some name else first_mismatch rest)"

lemma first_mismatch_None_iff [simp]:
  "first_mismatch vs = None \<longleftrightarrow> (\<forall>(n, a, e) \<in> set vs. a = e)"
  by (induction vs rule: first_mismatch.induct) auto

lemma first_mismatch_Some:
  "first_mismatch vs = Some n \<Longrightarrow> \<exists>a e. (n, a, e) \<in> set vs \<and> a \<noteq> e"
  by (induction vs rule: first_mismatch.induct) (auto split: if_splits)

end
