(* ===== verification/PyText.thy ===== *)
theory PyText
  imports Prelude "HOL-Library.Sublist" "HOL-Library.List_Lexorder" "HOL-Library.Char_ord"
begin

text \<open>
  The operations of Python's \<open>str\<close> that the code uses. A Python string is modelled as an HOL
  \<open>string\<close>: a list of code points 0 to 255 (Latin-1). Code points beyond 255 are outside the
  model; on the modelled range \<open>isalnum\<close>, \<open>lower\<close> and the white space test agree with Python.
\<close>

section \<open>Characters\<close>

abbreviation code_of :: "char \<Rightarrow> nat" where
  "code_of c \<equiv> of_char c"

definition is_digit :: "char \<Rightarrow> bool" where
  "is_digit c \<longleftrightarrow> 48 \<le> code_of c \<and> code_of c \<le> 57"

definition is_ascii_upper :: "char \<Rightarrow> bool" where
  "is_ascii_upper c \<longleftrightarrow> 65 \<le> code_of c \<and> code_of c \<le> 90"

definition is_ascii_lower :: "char \<Rightarrow> bool" where
  "is_ascii_lower c \<longleftrightarrow> 97 \<le> code_of c \<and> code_of c \<le> 122"

text \<open>\<open>c.isalnum()\<close> on Latin-1: ASCII letters and digits, and the Latin-1 letters and numerals.\<close>

definition is_alnum :: "char \<Rightarrow> bool" where
  "is_alnum c \<longleftrightarrow> is_digit c \<or> is_ascii_upper c \<or> is_ascii_lower c \<or>
     code_of c \<in> {170, 178, 179, 181, 185, 186, 188, 189, 190} \<or>
     (192 \<le> code_of c \<and> code_of c \<noteq> 215 \<and> code_of c \<noteq> 247)"

text \<open>The class \<open>\w\<close> and the class \<open>\s\<close> (\<open>str.isspace\<close>) of Python's \<open>re\<close> on text.\<close>

definition is_word :: "char \<Rightarrow> bool" where
  "is_word c \<longleftrightarrow> is_alnum c \<or> code_of c = 95"

definition is_space :: "char \<Rightarrow> bool" where
  "is_space c \<longleftrightarrow> (9 \<le> code_of c \<and> code_of c \<le> 13) \<or> (28 \<le> code_of c \<and> code_of c \<le> 32) \<or>
     code_of c = 133 \<or> code_of c = 160"

definition lower_char :: "char \<Rightarrow> char" where
  "lower_char c = (if is_ascii_upper c \<or> (192 \<le> code_of c \<and> code_of c \<le> 222 \<and> code_of c \<noteq> 215)
                   then char_of (code_of c + 32) else c)"

definition upper_char :: "char \<Rightarrow> char" where
  "upper_char c = (if is_ascii_lower c \<or> (224 \<le> code_of c \<and> code_of c \<le> 254 \<and> code_of c \<noteq> 247)
                   then char_of (code_of c - 32) else c)"

text \<open>Evaluation of \<open>char_of\<close> on numerals, so that \<open>simp\<close> computes on literal text.\<close>

lemma bit_one_zero [simp]: "bit (Suc 0) 0"
  by (simp add: bit_0)

lemma char_of_numeral [simp]:
  "char_of (numeral k :: nat) =
     Char (bit (numeral k :: nat) 0) (bit (numeral k :: nat) 1) (bit (numeral k :: nat) 2)
       (bit (numeral k :: nat) 3) (bit (numeral k :: nat) 4) (bit (numeral k :: nat) 5)
       (bit (numeral k :: nat) 6) (bit (numeral k :: nat) 7)"
  by (simp add: char_of_def bit_0)

section \<open>Strings\<close>

definition str_lower :: "string \<Rightarrow> string" where
  "str_lower s = map lower_char s"

definition str_upper :: "string \<Rightarrow> string" where
  "str_upper s = map upper_char s"

definition lstrip :: "string \<Rightarrow> string" where
  "lstrip s = dropWhile is_space s"

definition str_strip :: "string \<Rightarrow> string" where
  "str_strip s = rev (dropWhile is_space (rev (dropWhile is_space s)))"

fun starts_with :: "string \<Rightarrow> string \<Rightarrow> bool" where
  "starts_with s [] = True"
| "starts_with [] (p # ps) = False"
| "starts_with (c # cs) (p # ps) = (c = p \<and> starts_with cs ps)"

definition ends_with :: "string \<Rightarrow> string \<Rightarrow> bool" where
  "ends_with s suf = starts_with (rev s) (rev suf)"

text \<open>\<open>needle in hay\<close>\<close>

fun contains :: "string \<Rightarrow> string \<Rightarrow> bool" where
  "contains [] needle = (needle = [])"
| "contains (c # cs) needle = (starts_with (c # cs) needle \<or> contains cs needle)"

definition str_join :: "string \<Rightarrow> string list \<Rightarrow> string" where
  "str_join sep xs = concat (case xs of [] \<Rightarrow> [] | x # xs' \<Rightarrow> x # map (\<lambda>y. sep @ y) xs')"

text \<open>\<open>s.partition(sep)\<close> for a one-character separator: (head, found, tail).\<close>

fun str_partition :: "char \<Rightarrow> string \<Rightarrow> string \<times> bool \<times> string" where
  "str_partition sep [] = ([], False, [])"
| "str_partition sep (c # cs) =
     (if c = sep then ([], True, cs)
      else (case str_partition sep cs of (h, f, t) \<Rightarrow> (c # h, f, t)))"

definition replace_char :: "char \<Rightarrow> string \<Rightarrow> string \<Rightarrow> string" where
  "replace_char c new s = concat (map (\<lambda>x. if x = c then new else [x]) s)"

text \<open>\<open>s.replace("..", ".")\<close>: left to right, without overlap.\<close>

fun collapse_pass :: "string \<Rightarrow> string" where
  "collapse_pass (c # d # cs) =
     (if c = CHR ''.'' \<and> d = CHR ''.'' then CHR ''.'' # collapse_pass cs
      else c # collapse_pass (d # cs))"
| "collapse_pass cs = cs"

lemma collapse_pass_length: "length (collapse_pass s) \<le> length s"
  by (induction s rule: collapse_pass.induct) auto

lemma collapse_pass_shrinks: "contains s ''..'' \<Longrightarrow> length (collapse_pass s) < length s"
proof (induction s rule: collapse_pass.induct)
  case (1 c d cs)
  then show ?case
    using collapse_pass_length [of cs] by (auto split: if_splits)
qed auto

text \<open>\<open>while ".." in message: message = message.replace("..", ".")\<close>\<close>

function collapse_dots :: "string \<Rightarrow> string" where
  "collapse_dots s = (if contains s ''..'' then collapse_dots (collapse_pass s) else s)"
  by pat_completeness auto
termination
  by (relation "measure length") (auto simp: collapse_pass_shrinks)

declare collapse_dots.simps [simp del]

lemma collapse_dots_no_dots: "\<not> contains (collapse_dots s) ''..''"
proof (induction s rule: collapse_dots.induct)
  case (1 s)
  show ?case
  proof (cases "contains s ''..''")
    case True
    then show ?thesis using 1 by (subst collapse_dots.simps) simp
  next
    case False
    then show ?thesis by (subst collapse_dots.simps) simp
  qed
qed

lemma collapse_dots_id: "\<not> contains s ''..'' \<Longrightarrow> collapse_dots s = s"
  by (subst collapse_dots.simps) simp

section \<open>Facts on prefixes and joins\<close>

lemma starts_with_prefix: "starts_with s p \<longleftrightarrow> prefix p s"
  by (induction s p rule: starts_with.induct) auto

lemma starts_with_append [simp]: "starts_with (p @ s) p"
  by (simp add: starts_with_prefix)

lemma contains_sublist: "contains s n \<longleftrightarrow> sublist n s"
proof (induction s)
  case (Cons c cs)
  then show ?case
    by (auto simp: starts_with_prefix sublist_Cons_right)
qed simp

lemma contains_append: "contains s n \<Longrightarrow> contains (t @ s) n" "contains s n \<Longrightarrow> contains (s @ t) n"
  by (auto simp: contains_sublist sublist_append)

text \<open>
  Joining with a separator that occurs in no part is injective: what a canonical signed text
  needs (the proof message of the clearance contract joins its fields with newlines).
\<close>

lemma append_sep_inj:
  assumes "c \<notin> set x" "c \<notin> set y" "x @ c # r = y @ c # s"
  shows "x = y \<and> r = s"
  using assms
proof (induction x arbitrary: y)
  case Nil
  then show ?case by (cases y) auto
next
  case (Cons a x)
  then show ?case by (cases y) auto
qed

lemma append_first_diff:
  assumes "c \<notin> set x" "y @ c # s = x"
  shows False
  using assms by auto

lemma str_join_Cons: "str_join sep (x # y # ys) = x @ sep @ str_join sep (y # ys)"
  by (simp add: str_join_def)

lemma str_join_single [simp]: "str_join sep [x] = x"
  by (simp add: str_join_def)

lemma str_join_Nil [simp]: "str_join sep [] = []"
  by (simp add: str_join_def)

lemma str_join_inj:
  assumes "length xs = length ys"
    and "\<forall>x \<in> set xs. c \<notin> set x" and "\<forall>y \<in> set ys. c \<notin> set y"
    and "str_join [c] xs = str_join [c] ys"
  shows "xs = ys"
  using assms
proof (induction xs ys rule: list_induct2)
  case (Cons x xs y ys)
  show ?case
  proof (cases xs)
    case Nil
    then show ?thesis using Cons by simp
  next
    case (Cons x' xs')
    then obtain y' ys' where ys: "ys = y' # ys'" using Cons.hyps by (cases ys) auto
    have "x @ c # str_join [c] xs = y @ c # str_join [c] ys"
      using Cons.prems(3) Cons ys by (simp add: str_join_Cons)
    then have "x = y \<and> str_join [c] xs = str_join [c] ys"
      using Cons.prems by (intro append_sep_inj) auto
    then show ?thesis using Cons.IH Cons.prems by simp
  qed
qed simp

section \<open>Decimal text of integers\<close>

text \<open>\<open>str(n)\<close>\<close>

fun nat_digits :: "nat \<Rightarrow> string" where
  "nat_digits n = (if n < 10 then [char_of (48 + n)]
                   else nat_digits (n div 10) @ [char_of (48 + n mod 10)])"

declare nat_digits.simps [simp del]

definition str_of_int :: "int \<Rightarrow> string" where
  "str_of_int i = (if i < 0 then CHR ''-'' # nat_digits (nat (- i)) else nat_digits (nat i))"

lemma digit_char_inj: "a < 10 \<Longrightarrow> b < 10 \<Longrightarrow> char_of (48 + a) = (char_of (48 + b) :: char) \<Longrightarrow> a = (b::nat)"
proof -
  assume h: "a < 10" "b < 10" "char_of (48 + a) = (char_of (48 + b) :: char)"
  then have "of_char (char_of (48 + a) :: char) = (of_char (char_of (48 + b) :: char) :: nat)"
    by simp
  with h show "a = b" by simp
qed

lemma nat_digits_nonempty [simp]: "nat_digits n \<noteq> []"
  by (subst nat_digits.simps) simp

lemma nat_digits_all: "c \<in> set (nat_digits n) \<Longrightarrow> is_digit c"
proof (induction n rule: nat_digits.induct)
  case (1 n)
  show ?case
  proof (cases "n < 10")
    case True
    then show ?thesis using 1(2) by (subst (asm) nat_digits.simps) (simp add: is_digit_def)
  next
    case False
    then have "c \<in> set (nat_digits (n div 10)) \<or> c = char_of (48 + n mod 10)"
      using 1(2) by (subst (asm) nat_digits.simps) auto
    then show ?thesis using 1(1) False by (auto simp: is_digit_def)
  qed
qed

lemma nat_digits_inj: "nat_digits m = nat_digits n \<Longrightarrow> m = n"
proof (induction m arbitrary: n rule: nat_digits.induct)
  case (1 m)
  have single: "k < 10 \<Longrightarrow> \<exists>c. nat_digits k = [c]" for k
    by (subst nat_digits.simps) simp
  have many: "\<not> k < 10 \<Longrightarrow> \<nexists>c. nat_digits k = [c]" for k
    by (subst nat_digits.simps) simp
  show ?case
  proof (cases "m < 10")
    case True
    then have n: "n < 10" using single [of m] many [of n] 1(2) by auto
    with True 1(2) show ?thesis
      using digit_char_inj by (subst (asm) (1 2) nat_digits.simps) simp
  next
    case False
    then have n: "\<not> n < 10" using single [of n] many [of m] 1(2) by auto
    from 1(2) have "nat_digits (m div 10) @ [char_of (48 + m mod 10)]
        = nat_digits (n div 10) @ [char_of (48 + n mod 10)]"
      using False n nat_digits.simps [of m] nat_digits.simps [of n] by simp
    then have "nat_digits (m div 10) = nat_digits (n div 10)"
      and "char_of (48 + m mod 10) = (char_of (48 + n mod 10) :: char)" by auto
    then have "m div 10 = n div 10" and "m mod 10 = n mod 10"
      using 1(1) False digit_char_inj by auto
    then show ?thesis by (metis div_mult_mod_eq)
  qed
qed

definition is_int_char :: "char \<Rightarrow> bool" where
  "is_int_char c \<longleftrightarrow> is_digit c \<or> c = CHR ''-''"

lemma str_of_int_chars: "c \<in> set (str_of_int i) \<Longrightarrow> is_int_char c"
  by (auto simp: str_of_int_def is_int_char_def dest: nat_digits_all split: if_splits)

lemma str_of_int_nonempty [simp]: "str_of_int i \<noteq> []"
  by (simp add: str_of_int_def)

lemma minus_not_digit: "\<not> is_digit (CHR ''-'')"
  by (simp add: is_digit_def)

lemma str_of_int_inj: "str_of_int i = str_of_int j \<longleftrightarrow> i = j"
proof
  assume eq: "str_of_int i = str_of_int j"
  have no_minus: "nat_digits n \<noteq> CHR ''-'' # r" for n r
    using nat_digits_all [of "CHR ''-''" n] minus_not_digit by (metis list.set_intros(1))
  have no_minus': "CHR ''-'' # r \<noteq> nat_digits n" for n r
    using no_minus by metis
  have "(i < 0) = (j < 0)"
    using eq no_minus no_minus' by (auto simp: str_of_int_def split: if_splits)
  then show "i = j"
    using eq by (auto simp: str_of_int_def dest!: nat_digits_inj split: if_splits)
qed simp

end
