(* ===== verification/PyJson.thy ===== *)
theory PyJson
  imports PyText
begin

text \<open>
  Python values as they reach the code in parameters and payloads (\<open>pyval\<close>), JSON values
  (\<open>json\<close>), and the text \<open>json.dumps(v, sort_keys=True, separators=(",", ":"))\<close> writes for them.
  The main result is that this text determines the value up to the order of object keys
  (\<open>dumps_inj\<close>): every fingerprint, signature and hash chain of the program is computed over such
  a text.
\<close>

section \<open>Python values\<close>

text \<open>
  A dictionary key is a string or another hashable value, of which only \<open>str(key)\<close> is ever
  observed. A float carries its JSON text, a set is a set of strings in iteration order, and
  \<open>PObj\<close> is any other object, with its type name and its \<open>str()\<close>.
\<close>

datatype pykey = KStr string | KOther string

datatype pyval =
    PNone
  | PBool bool
  | PInt int
  | PFloat string
  | PStr string
  | PBytes string
  | PList "pyval list"
  | PTuple "pyval list"
  | PSet "string list"
  | PDict "(pykey \<times> pyval) list"
  | PObj string string

fun key_text :: "pykey \<Rightarrow> string" where
  "key_text (KStr s) = s"
| "key_text (KOther s) = s"

fun is_mapping :: "pyval \<Rightarrow> bool" where
  "is_mapping (PDict d) = True"
| "is_mapping v = False"

text \<open>\<open>bool(v)\<close>; the JSON texts of the float zero are \<open>0.0\<close> and \<open>-0.0\<close>.\<close>

fun py_truthy :: "pyval \<Rightarrow> bool" where
  "py_truthy PNone = False"
| "py_truthy (PBool b) = b"
| "py_truthy (PInt i) = (i \<noteq> 0)"
| "py_truthy (PFloat s) = (s \<noteq> ''0.0'' \<and> s \<noteq> ''-0.0'')"
| "py_truthy (PStr s) = (s \<noteq> [])"
| "py_truthy (PBytes s) = (s \<noteq> [])"
| "py_truthy (PList xs) = (xs \<noteq> [])"
| "py_truthy (PTuple xs) = (xs \<noteq> [])"
| "py_truthy (PSet xs) = (xs \<noteq> [])"
| "py_truthy (PDict d) = (d \<noteq> [])"
| "py_truthy (PObj t s) = True"

definition pdict :: "(string \<times> pyval) list \<Rightarrow> pyval" where
  "pdict kvs = PDict (map (\<lambda>(k, v). (KStr k, v)) kvs)"

fun pyopt :: "string option \<Rightarrow> pyval" where
  "pyopt None = PNone"
| "pyopt (Some s) = PStr s"

section \<open>JSON values and their text\<close>

datatype json =
    JNull
  | JBool bool
  | JInt int
  | JFloat string
  | JStr string
  | JArr "json list"
  | JObj "(string \<times> json) list"

text \<open>String escapes, with \<open>ensure_ascii=True\<close>.\<close>

definition hex_digit :: "nat \<Rightarrow> char" where
  "hex_digit n = ''0123456789abcdef'' ! n"

definition esc_char :: "char \<Rightarrow> string" where
  "esc_char c =
     (if c = CHR ''\"'' then [CHR 0x5C, CHR ''\"'']
      else if c = CHR 0x5C then [CHR 0x5C, CHR 0x5C]
      else if c = CHR 0x0A then [CHR 0x5C, CHR ''n'']
      else if c = CHR 0x0D then [CHR 0x5C, CHR ''r'']
      else if c = CHR 0x09 then [CHR 0x5C, CHR ''t'']
      else if c = CHR 0x0C then [CHR 0x5C, CHR ''f'']
      else if c = CHR 0x08 then [CHR 0x5C, CHR ''b'']
      else if 32 \<le> code_of c \<and> code_of c \<le> 126 then [c]
      else [CHR 0x5C, CHR ''u'', CHR ''0'', CHR ''0'',
            hex_digit (code_of c div 16), hex_digit (code_of c mod 16)])"

definition esc_string :: "string \<Rightarrow> string" where
  "esc_string s = concat (map esc_char s)"

definition print_string :: "string \<Rightarrow> string" where
  "print_string s = CHR ''\"'' # esc_string s @ [CHR ''\"'']"

fun print_json :: "json \<Rightarrow> string"
  and print_elems :: "json list \<Rightarrow> string"
  and print_fields :: "(string \<times> json) list \<Rightarrow> string" where
  "print_json JNull = ''null''"
| "print_json (JBool b) = (if b then ''true'' else ''false'')"
| "print_json (JInt i) = str_of_int i"
| "print_json (JFloat s) = s"
| "print_json (JStr s) = print_string s"
| "print_json (JArr xs) = CHR ''['' # print_elems xs @ '']''"
| "print_json (JObj kvs) = CHR ''{'' # print_fields kvs @ ''}''"
| "print_elems [] = []"
| "print_elems [x] = print_json x"
| "print_elems (x # y # ys) = print_json x @ CHR '','' # print_elems (y # ys)"
| "print_fields [] = []"
| "print_fields [(k, v)] = print_string k @ CHR '':'' # print_json v"
| "print_fields ((k, v) # kv # kvs) =
     print_string k @ CHR '':'' # print_json v @ CHR '','' # print_fields (kv # kvs)"

text \<open>\<open>sort_keys=True\<close>: the fields of every object in the order of their keys.\<close>

fun canon :: "json \<Rightarrow> json" where
  "canon (JArr xs) = JArr (map canon xs)"
| "canon (JObj kvs) = JObj (sort_key fst (map (\<lambda>(k, v). (k, canon v)) kvs))"
| "canon v = v"

definition dumps :: "json \<Rightarrow> string" where
  "dumps v = print_json (canon v)"

section \<open>The text determines the value\<close>

text \<open>
  Texts of floats: no delimiter, a character no integer has, and a first character that starts
  no other JSON value.
\<close>

definition is_delim :: "char \<Rightarrow> bool" where
  "is_delim c \<longleftrightarrow> c = CHR '','' \<or> c = CHR '']'' \<or> c = CHR ''}''"

definition float_text :: "string \<Rightarrow> bool" where
  "float_text s \<longleftrightarrow> s \<noteq> [] \<and> (\<forall>c \<in> set s. \<not> is_delim c) \<and> (\<exists>c \<in> set s. \<not> is_int_char c) \<and>
     (is_int_char (hd s) \<or> hd s = CHR ''N'' \<or> hd s = CHR ''I'')"

fun json_ok :: "json \<Rightarrow> bool" where
  "json_ok (JFloat s) = float_text s"
| "json_ok (JArr xs) = (\<forall>x \<in> set xs. json_ok x)"
| "json_ok (JObj kvs) = (\<forall>kv \<in> set kvs. json_ok (snd kv))"
| "json_ok v = True"

text \<open>Escapes can be read back one character at a time.\<close>

definition hex_value :: "char \<Rightarrow> nat" where
  "hex_value c = (if is_digit c then code_of c - 48 else code_of c - 87)"

fun unesc_char :: "string \<Rightarrow> (char \<times> string) option" where
  "unesc_char [] = None"
| "unesc_char (c # cs) =
     (if c = CHR ''\"'' then None
      else if c \<noteq> CHR 0x5C then Some (c, cs)
      else (case cs of
              [] \<Rightarrow> None
            | d # ds \<Rightarrow>
                if d = CHR ''\"'' then Some (CHR ''\"'', ds)
                else if d = CHR 0x5C then Some (CHR 0x5C, ds)
                else if d = CHR ''n'' then Some (CHR 0x0A, ds)
                else if d = CHR ''r'' then Some (CHR 0x0D, ds)
                else if d = CHR ''t'' then Some (CHR 0x09, ds)
                else if d = CHR ''f'' then Some (CHR 0x0C, ds)
                else if d = CHR ''b'' then Some (CHR 0x08, ds)
                else (case ds of
                        z1 # z2 # a # b # r \<Rightarrow> Some (char_of (16 * hex_value a + hex_value b), r)
                      | _ \<Rightarrow> None)))"

lemma hex_value_digit: "n < 16 \<Longrightarrow> hex_value (hex_digit n) = n"
proof -
  have "\<forall>n \<in> set [0..<16]. hex_value (hex_digit n) = n"
    by code_simp
  then show "n < 16 \<Longrightarrow> ?thesis" by simp
qed

lemma char_of_hex: "char_of (16 * hex_value (hex_digit (code_of c div 16)) +
    hex_value (hex_digit (code_of c mod 16))) = c"
proof -
  have "code_of c < 256" by (rule nat_of_char_less_256)
  then have "code_of c div 16 < 16" by (simp only: less_mult_imp_div_less)
  then show ?thesis by (simp add: hex_value_digit)
qed

lemma unesc_esc: "unesc_char (esc_char c @ r) = Some (c, r)"
proof (cases "c \<in> {CHR ''\"'', CHR 0x5C, CHR 0x0A, CHR 0x0D, CHR 0x09, CHR 0x0C, CHR 0x08}")
  case True
  then show ?thesis by (elim insertE; simp add: esc_char_def)
next
  case False
  then have "esc_char c = (if 32 \<le> code_of c \<and> code_of c \<le> 126 then [c]
      else [CHR 0x5C, CHR ''u'', CHR ''0'', CHR ''0'',
            hex_digit (code_of c div 16), hex_digit (code_of c mod 16)])"
    by (simp add: esc_char_def)
  with False show ?thesis using char_of_hex [of c] by simp
qed

lemma esc_char_inj: "esc_char c @ r = esc_char d @ s \<Longrightarrow> c = d \<and> r = s"
  using unesc_esc [of c r] unesc_esc [of d s] by (metis option.inject prod.inject)

lemma unesc_none: "unesc_char [] = None" "unesc_char (CHR ''\"'' # r) = None"
  by simp_all

lemma esc_char_nonempty: "\<exists>h t. esc_char c = h # t \<and> h \<noteq> CHR ''\"''"
  using unesc_esc [of c "[]"] unesc_none
  by (cases "esc_char c") (metis append_Nil option.distinct(1), metis append_Cons option.distinct(1))

lemma esc_string_simps [simp]: "esc_string [] = []" "esc_string (c # s) = esc_char c @ esc_string s"
  by (simp_all add: esc_string_def)

lemma esc_char_no_quote: "esc_char c @ x \<noteq> CHR ''\"'' # y" "CHR ''\"'' # y \<noteq> esc_char c @ x"
  using esc_char_nonempty [of c] by auto

lemma esc_string_inj:
  "esc_string s @ CHR ''\"'' # r = esc_string t @ CHR ''\"'' # q \<Longrightarrow> s = t \<and> r = q"
proof (induction s arbitrary: t)
  case Nil
  then show ?case by (cases t) (simp_all add: esc_char_no_quote)
next
  case (Cons c s)
  show ?case
  proof (cases t)
    case Nil
    then show ?thesis using Cons.prems by (simp add: esc_char_no_quote)
  next
    case t: (Cons d t')
    have "esc_char c @ (esc_string s @ CHR ''\"'' # r) = esc_char d @ (esc_string t' @ CHR ''\"'' # q)"
      using Cons.prems t by simp
    then have "c = d \<and> esc_string s @ CHR ''\"'' # r = esc_string t' @ CHR ''\"'' # q"
      by (rule esc_char_inj)
    with Cons.IH t show ?thesis by simp
  qed
qed

lemma print_string_inj: "print_string s @ r = print_string t @ q \<Longrightarrow> s = t \<and> r = q"
  using esc_string_inj [of s r t q] by (simp add: print_string_def)

text \<open>Atoms are maximal runs of characters that are no delimiters.\<close>

definition ends_atom :: "string \<Rightarrow> bool" where
  "ends_atom r \<longleftrightarrow> r = [] \<or> is_delim (hd r)"

lemma ends_atom_simps [simp]:
  "ends_atom []" "ends_atom (CHR '','' # r)" "ends_atom (CHR '']'' # r)" "ends_atom (CHR ''}'' # r)"
  by (simp_all add: ends_atom_def is_delim_def)

lemma atom_split:
  assumes "\<forall>c \<in> set a. \<not> is_delim c" "\<forall>c \<in> set b. \<not> is_delim c"
    and "ends_atom r" "ends_atom q" "a @ r = b @ q"
  shows "a = b \<and> r = q"
proof -
  have "takeWhile (\<lambda>c. \<not> is_delim c) (x @ y) = x" if "\<forall>c \<in> set x. \<not> is_delim c" "ends_atom y" for x y
    using that by (cases y) (auto simp: ends_atom_def takeWhile_tail)
  then have "a = b" using assms by metis
  with assms(5) show ?thesis by simp
qed

fun is_atom :: "json \<Rightarrow> bool" where
  "is_atom (JStr s) = False"
| "is_atom (JArr xs) = False"
| "is_atom (JObj kvs) = False"
| "is_atom v = True"

lemma not_int_chars [simp]:
  "\<not> is_int_char (CHR ''\"'')" "\<not> is_int_char (CHR '','')" "\<not> is_int_char (CHR ''['')"
  "\<not> is_int_char (CHR '']'')" "\<not> is_int_char (CHR ''{'')" "\<not> is_int_char (CHR ''}'')"
  "\<not> is_int_char (CHR ''n'')" "\<not> is_int_char (CHR ''t'')" "\<not> is_int_char (CHR ''f'')"
  by (simp_all add: is_int_char_def is_digit_def)

lemma int_char_not_delim: "is_int_char c \<Longrightarrow> \<not> is_delim c"
  by (auto simp: is_delim_def)

lemma atom_no_delim: "is_atom v \<Longrightarrow> json_ok v \<Longrightarrow> \<forall>c \<in> set (print_json v). \<not> is_delim c"
  by (cases v) (auto simp: is_delim_def float_text_def dest!: str_of_int_chars int_char_not_delim)

text \<open>The first character tells the kind of a value.\<close>

lemma int_head: "\<exists>h t. str_of_int i = h # t \<and> is_int_char h"
  using str_of_int_chars str_of_int_nonempty by (metis list.set_intros(1) neq_Nil_conv)

definition head_class :: "char \<Rightarrow> nat" where
  "head_class c =
     (if c = CHR ''\"'' then 1 else if c = CHR ''['' then 2 else if c = CHR ''{'' then 3
      else if is_delim c then 4 else 0)"

lemma int_char_head: "is_int_char c \<Longrightarrow> head_class c = 0"
  using int_char_not_delim [of c] by (auto simp: head_class_def)

lemma head_class_chars [simp]:
  "head_class (CHR ''\"'') = 1" "head_class (CHR ''['') = 2" "head_class (CHR ''{'') = 3"
  "head_class (CHR '','') = 4" "head_class (CHR '']'') = 4" "head_class (CHR ''}'') = 4"
  "head_class (CHR ''n'') = 0" "head_class (CHR ''t'') = 0" "head_class (CHR ''f'') = 0"
  "head_class (CHR ''N'') = 0" "head_class (CHR ''I'') = 0"
  by (simp_all add: head_class_def is_delim_def)

fun kind :: "json \<Rightarrow> nat" where
  "kind (JStr s) = 1"
| "kind (JArr xs) = 2"
| "kind (JObj kvs) = 3"
| "kind v = 0"

lemma print_json_head:
  "json_ok v \<Longrightarrow> \<exists>h t. print_json v = h # t \<and> head_class h = kind v"
proof (cases v)
  case (JInt i)
  then show ?thesis using int_head [of i] int_char_head by auto
next
  case (JFloat s)
  assume "json_ok v"
  then obtain h t where "s = h # t" "is_int_char h \<or> h = CHR ''N'' \<or> h = CHR ''I''"
    using JFloat by (cases s) (auto simp: float_text_def)
  then show ?thesis using JFloat int_char_head by auto
qed (simp_all add: print_string_def)

lemma kind_atom: "kind v = 0 \<longleftrightarrow> is_atom v"
  by (cases v) auto

lemma int_not_literal [simp]:
  "str_of_int i \<noteq> CHR ''n'' # cs" "str_of_int i \<noteq> CHR ''t'' # cs" "str_of_int i \<noteq> CHR ''f'' # cs"
  using int_head [of i] by auto

lemma float_not_literal [simp]:
  "\<not> float_text (CHR ''n'' # cs)" "\<not> float_text (CHR ''t'' # cs)" "\<not> float_text (CHR ''f'' # cs)"
  by (simp_all add: float_text_def)

lemma float_not_int: "\<not> float_text (str_of_int i)"
  using str_of_int_chars by (auto simp: float_text_def)

lemma atom_inj:
  assumes "is_atom v" "is_atom w" "json_ok v" "json_ok w" "print_json v = print_json w"
  shows "v = w"
proof (cases v)
  case JNull
  with assms show ?thesis by (cases w) (auto split: if_splits dest: sym)
next
  case (JBool b)
  with assms show ?thesis by (cases w) (auto split: if_splits dest: sym)
next
  case (JInt i)
  with assms show ?thesis by (cases w) (auto split: if_splits simp: str_of_int_inj float_not_int dest: sym)
next
  case (JFloat s)
  with assms show ?thesis by (cases w) (auto split: if_splits simp: float_not_int)
qed (use assms in auto)

lemma elems_first: "print_elems (x # xs) = print_json x @ (if xs = [] then [] else CHR '','' # print_elems xs)"
  by (cases xs) auto

lemma fields_first:
  "print_fields ((k, v) # kvs) =
     print_string k @ CHR '':'' # print_json v @ (if kvs = [] then [] else CHR '','' # print_fields kvs)"
  by (cases kvs) auto

text \<open>
  What may follow a value inside an array or an object: nothing, a delimiter. Two texts that start
  with values and go on with such a rest agree on the value and on the rest.
\<close>

lemma same_kind:
  assumes "json_ok v" "json_ok w" "print_json v @ r = print_json w @ q"
  shows "kind v = kind w"
proof -
  obtain h t where "print_json v = h # t" "head_class h = kind v" using print_json_head assms(1) by blast
  moreover obtain h' t' where "print_json w = h' # t'" "head_class h' = kind w"
    using print_json_head assms(2) by blast
  ultimately show ?thesis using assms(3) by simp
qed

lemma kind_cases:
  "kind w = 1 \<Longrightarrow> \<exists>s. w = JStr s" "kind w = 2 \<Longrightarrow> \<exists>xs. w = JArr xs" "kind w = 3 \<Longrightarrow> \<exists>kvs. w = JObj kvs"
  by (cases w; simp)+

lemma print_json_not_head:
  assumes "json_ok v" "head_class c = 4"
  shows "print_json v @ r \<noteq> c # q"
proof -
  have "kind v \<noteq> 4" by (cases v) simp_all
  then show ?thesis using print_json_head [OF assms(1)] assms(2) by fastforce
qed

lemma print_json_not_delim:
  "json_ok v \<Longrightarrow> print_json v @ r \<noteq> CHR '']'' # q" "json_ok v \<Longrightarrow> print_json v @ r \<noteq> CHR '','' # q"
  "json_ok v \<Longrightarrow> CHR '']'' # q \<noteq> print_json v @ r"
  using print_json_not_head [of v] by (simp, simp, metis head_class_chars(5))

lemma atom_text_split:
  assumes "is_atom v" "json_ok v" "json_ok w" "ends_atom r" "ends_atom q"
    and "print_json v @ r = print_json w @ q"
  shows "v = w \<and> r = q"
proof -
  have w: "is_atom w" using same_kind [OF assms(2,3,6)] assms(1) kind_atom by metis
  have "print_json v = print_json w \<and> r = q"
    by (rule atom_split) (use assms w atom_no_delim in auto)
  with atom_inj [OF assms(1) w assms(2,3)] show ?thesis by simp
qed

lemma print_elems_split:
  assumes "\<And>v w r q. v \<in> set xs \<Longrightarrow> json_ok v \<Longrightarrow> json_ok w \<Longrightarrow> ends_atom r \<Longrightarrow> ends_atom q \<Longrightarrow>
     print_json v @ r = print_json w @ q \<Longrightarrow> v = w \<and> r = q"
    and "\<forall>x \<in> set xs. json_ok x" "\<forall>y \<in> set ys. json_ok y"
    and "print_elems xs @ CHR '']'' # r = print_elems ys @ CHR '']'' # q"
  shows "xs = ys \<and> r = q"
  using assms
proof (induction xs arbitrary: ys)
  case Nil
  show ?case using Nil.prems(3,4) by (cases ys) (simp_all add: elems_first print_json_not_delim)
next
  case (Cons x xs)
  show ?case
  proof (cases ys)
    case Nil
    then show ?thesis using Cons.prems(2,4) by (simp add: elems_first print_json_not_delim)
  next
    case ys: (Cons y ys')
    let ?r = "\<lambda>zs r. (if zs = [] then [] else CHR '','' # print_elems zs) @ CHR '']'' # r"
    have "print_json x @ ?r xs r = print_json y @ ?r ys' q"
      using Cons.prems(4) ys by (simp add: elems_first)
    then have "x = y \<and> ?r xs r = ?r ys' q"
      using Cons.prems(2,3) ys by (intro Cons.prems(1)) auto
    then have xy: "x = y" "?r xs r = ?r ys' q" by simp_all
    then have nil: "xs = [] \<longleftrightarrow> ys' = []" by (auto split: if_splits)
    have "xs = ys' \<and> r = q"
    proof (cases "xs = []")
      case False
      show ?thesis
        by (rule Cons.IH [OF Cons.prems(1) [OF list.set_intros(2)]])
          (use Cons.prems(2,3) ys xy nil False in auto)
    qed (use nil xy in simp)
    then show ?thesis using xy ys by simp
  qed
qed

lemma print_fields_split:
  assumes "\<And>k v w r q. (k, v) \<in> set kvs \<Longrightarrow> json_ok v \<Longrightarrow> json_ok w \<Longrightarrow> ends_atom r \<Longrightarrow> ends_atom q \<Longrightarrow>
     print_json v @ r = print_json w @ q \<Longrightarrow> v = w \<and> r = q"
    and "\<forall>x \<in> set kvs. json_ok (snd x)" "\<forall>y \<in> set lvs. json_ok (snd y)"
    and "print_fields kvs @ CHR ''}'' # r = print_fields lvs @ CHR ''}'' # q"
  shows "kvs = lvs \<and> r = q"
  using assms
proof (induction kvs arbitrary: lvs)
  case Nil
  show ?case using Nil.prems(4) by (cases lvs) (auto simp: fields_first print_string_def)
next
  case (Cons kv kvs)
  obtain k v where kv: "kv = (k, v)" by (cases kv)
  show ?case
  proof (cases lvs)
    case Nil
    then show ?thesis using Cons.prems(4) kv by (simp add: fields_first print_string_def)
  next
    case lvs: (Cons lw lvs')
    obtain l w where lw: "lw = (l, w)" by (cases lw)
    let ?r = "\<lambda>zs r. (if zs = [] then [] else CHR '','' # print_fields zs) @ CHR ''}'' # r"
    have "print_string k @ CHR '':'' # print_json v @ ?r kvs r =
          print_string l @ CHR '':'' # print_json w @ ?r lvs' q"
      using Cons.prems(4) kv lw lvs by (simp add: fields_first)
    then have "k = l \<and> CHR '':'' # print_json v @ ?r kvs r = CHR '':'' # print_json w @ ?r lvs' q"
      by (rule print_string_inj)
    then have kl: "k = l" "print_json v @ ?r kvs r = print_json w @ ?r lvs' q" by simp_all
    then have "v = w \<and> ?r kvs r = ?r lvs' q"
      using Cons.prems(2,3) lvs kv lw by (intro Cons.prems(1)) auto
    then have xy: "v = w" "?r kvs r = ?r lvs' q" by simp_all
    then have nil: "kvs = [] \<longleftrightarrow> lvs' = []" by (auto split: if_splits)
    have "kvs = lvs' \<and> r = q"
    proof (cases "kvs = []")
      case False
      show ?thesis
        by (rule Cons.IH [OF Cons.prems(1) [OF list.set_intros(2)]])
          (use Cons.prems(2,3) lvs xy nil False in auto)
    qed (use nil xy in simp)
    then show ?thesis using xy kl kv lw lvs by simp
  qed
qed

lemma print_json_split:
  "json_ok v \<Longrightarrow> json_ok w \<Longrightarrow> ends_atom r \<Longrightarrow> ends_atom q \<Longrightarrow>
     print_json v @ r = print_json w @ q \<Longrightarrow> v = w \<and> r = q"
proof (induction v arbitrary: w r q)
  case (JStr s)
  then obtain t where w: "w = JStr t" using same_kind [OF JStr.prems(1,2,5)] kind_cases(1) [of w] by auto
  then show ?case using print_string_inj [of s r t q] JStr.prems by simp
next
  case (JArr xs)
  then obtain ys where w: "w = JArr ys" using same_kind [OF JArr.prems(1,2,5)] kind_cases(2) [of w] by auto
  have "xs = ys \<and> r = q"
    by (rule print_elems_split [OF JArr.IH]) (use JArr.prems w in auto)
  then show ?case using w by simp
next
  case (JObj kvs)
  then obtain lvs where w: "w = JObj lvs" using same_kind [OF JObj.prems(1,2,5)] kind_cases(3) [of w] by auto
  have "kvs = lvs \<and> r = q"
  proof (rule print_fields_split)
    fix k v w' r' q'
    assume "(k, v) \<in> set kvs" "json_ok v" "json_ok w'" "ends_atom r'" "ends_atom q'"
      "print_json v @ r' = print_json w' @ q'"
    then show "v = w' \<and> r' = q'" using JObj.IH [of "(k, v)" v w' r' q'] by simp
  qed (use JObj.prems w in auto)
  then show ?case using w by simp
qed (rule atom_text_split; simp)+

theorem print_json_inj: "json_ok v \<Longrightarrow> json_ok w \<Longrightarrow> print_json v = print_json w \<Longrightarrow> v = w"
  using print_json_split [of v w "[]" "[]"] by simp

lemma json_ok_canon [simp]: "json_ok (canon v) = json_ok v"
  by (induction v rule: canon.induct) (auto simp: split_beta)

theorem dumps_inj: "json_ok v \<Longrightarrow> json_ok w \<Longrightarrow> dumps v = dumps w \<Longrightarrow> canon v = canon w"
  by (simp add: dumps_def print_json_inj)

text \<open>Objects with the same sorted fields have the same value under every key.\<close>

lemma canon_obj_lookup:
  assumes "canon (JObj kvs) = canon (JObj lvs)" "distinct (map fst kvs)" "distinct (map fst lvs)"
  shows "map_option canon (map_of kvs k) = map_option canon (map_of lvs k)"
proof -
  let ?f = "map (\<lambda>(k, v). (k, canon v))"
  have "set (?f kvs) = set (?f lvs)"
    using arg_cong [OF assms(1), of "\<lambda>v. case v of JObj kvs \<Rightarrow> set kvs | _ \<Rightarrow> {}"] by simp
  moreover have "distinct (map fst (?f kvs))" "distinct (map fst (?f lvs))"
    using assms(2,3) by (simp_all add: comp_def split_beta)
  ultimately have "map_of (?f kvs) = map_of (?f lvs)" by (simp add: map_of_inject_set)
  then have "map_of (?f kvs) k = map_of (?f lvs) k" by (rule fun_cong)
  then show ?thesis by (simp add: map_of_map)
qed

end
