(* ===== verification/PyRegex.thy ===== *)
theory PyRegex
  imports PyText
begin

text \<open>
  The part of Python's \<open>re\<close> that the code uses: character classes, bounded and unbounded greedy
  repetition of a class, sequence, ordered alternation, one capture group, word boundary and
  look-ahead. \<open>matches r\<close> lists the ways the pattern matches from a position, in the order the
  backtracking matcher tries them; the first one is the match Python reports.
\<close>

section \<open>Patterns and positions\<close>

datatype regex =
    Empty
  | Class "char \<Rightarrow> bool"
  | Many "char \<Rightarrow> bool" nat "nat option" \<comment> \<open>greedy \<open>[..]{m,n}\<close>; \<open>None\<close>: no upper bound\<close>
  | Cat regex regex
  | Alt regex regex
  | Boundary \<comment> \<open>\<open>\b\<close>\<close>
  | Ahead regex \<comment> \<open>\<open>(?=..)\<close>\<close>
  | Group regex \<comment> \<open>the capture group 1\<close>

record pos =
  last_char :: "char option" \<comment> \<open>the character just before the position\<close>
  rest :: string
  group1 :: string

definition at_boundary :: "pos \<Rightarrow> bool" where
  "at_boundary p =
     ((case last_char p of None \<Rightarrow> False | Some c \<Rightarrow> is_word c) \<noteq>
      (case rest p of [] \<Rightarrow> False | c # _ \<Rightarrow> is_word c))"

fun advance :: "pos \<Rightarrow> pos" where
  "advance p = (case rest p of [] \<Rightarrow> p | c # cs \<Rightarrow> p\<lparr>last_char := Some c, rest := cs\<rparr>)"

text \<open>The positions after 0, 1, 2, ... characters of the class, at most the bound.\<close>

fun class_run :: "(char \<Rightarrow> bool) \<Rightarrow> nat option \<Rightarrow> char option \<Rightarrow> string \<Rightarrow> (char option \<times> string) list" where
  "class_run P n b [] = [(b, [])]"
| "class_run P n b (c # cs) =
     (b, c # cs) #
     (if n \<noteq> Some 0 \<and> P c then class_run P (map_option (\<lambda>k. k - 1) n) (Some c) cs else [])"

fun matches :: "regex \<Rightarrow> pos \<Rightarrow> pos list" where
  "matches Empty p = [p]"
| "matches (Class P) p =
     (case rest p of [] \<Rightarrow> [] | c # cs \<Rightarrow> if P c then [p\<lparr>last_char := Some c, rest := cs\<rparr>] else [])"
| "matches (Many P m n) p =
     rev (map (\<lambda>(b, s). p\<lparr>last_char := b, rest := s\<rparr>) (drop m (class_run P n (last_char p) (rest p))))"
| "matches (Cat r s) p = concat (map (matches s) (matches r p))"
| "matches (Alt r s) p = matches r p @ matches s p"
| "matches Boundary p = (if at_boundary p then [p] else [])"
| "matches (Ahead r) p = (if matches r p = [] then [] else [p])"
| "matches (Group r) p =
     map (\<lambda>q. q\<lparr>group1 := take (length (rest p) - length (rest q)) (rest p)\<rparr>) (matches r p)"

section \<open>Search and substitution\<close>

text \<open>\<open>bool(R.search(s))\<close>: a match from some position.\<close>

fun search_from :: "regex \<Rightarrow> char option \<Rightarrow> string \<Rightarrow> bool" where
  "search_from r b [] = (matches r \<lparr>last_char = b, rest = [], group1 = []\<rparr> \<noteq> [])"
| "search_from r b (c # cs) =
     (matches r \<lparr>last_char = b, rest = c # cs, group1 = []\<rparr> \<noteq> [] \<or> search_from r (Some c) cs)"

definition search :: "regex \<Rightarrow> string \<Rightarrow> bool" where
  "search r s = search_from r None s"

text \<open>
  \<open>R.sub(f, s)\<close>: the leftmost matches, without overlap, each replaced by \<open>f whole group1\<close>. The
  patterns of the code never match the empty text; an empty match is left alone here.
\<close>

function sub_from :: "regex \<Rightarrow> (string \<Rightarrow> string \<Rightarrow> string) \<Rightarrow> char option \<Rightarrow> string \<Rightarrow> string" where
  "sub_from r f b s =
     (case s of [] \<Rightarrow> []
      | c # cs \<Rightarrow>
        (case matches r \<lparr>last_char = b, rest = s, group1 = []\<rparr> of
           [] \<Rightarrow> c # sub_from r f (Some c) cs
         | q # _ \<Rightarrow>
             if length (rest q) < length s
             then f (take (length s - length (rest q)) s) (group1 q)
                  @ sub_from r f (last_char q) (rest q)
             else c # sub_from r f (Some c) cs))"
  by pat_completeness auto
termination
  by (relation "measure (\<lambda>(r, f, b, s). length s)") auto

declare sub_from.simps [simp del]

definition sub :: "regex \<Rightarrow> (string \<Rightarrow> string \<Rightarrow> string) \<Rightarrow> string \<Rightarrow> string" where
  "sub r f s = sub_from r f None s"

section \<open>Facts\<close>

lemma sub_from_no_match:
  "\<not> search_from r b s \<Longrightarrow> sub_from r f b s = s"
proof (induction s arbitrary: b)
  case Nil
  show ?case by (subst sub_from.simps) simp
next
  case (Cons c cs)
  then show ?case by (subst sub_from.simps) simp
qed

lemma sub_no_match: "\<not> search r s \<Longrightarrow> sub r f s = s"
  by (simp add: search_def sub_def sub_from_no_match)

text \<open>A pattern needs as many characters as its mandatory parts consume.\<close>

fun min_width :: "regex \<Rightarrow> nat" where
  "min_width Empty = 0"
| "min_width (Class P) = 1"
| "min_width (Many P m n) = m"
| "min_width (Cat r s) = min_width r + min_width s"
| "min_width (Alt r s) = min (min_width r) (min_width s)"
| "min_width Boundary = 0"
| "min_width (Ahead r) = 0"
| "min_width (Group r) = min_width r"

lemma class_run_width:
  "i < length (class_run P n b s) \<Longrightarrow> length (snd (class_run P n b s ! i)) + i = length s"
proof (induction P n b s arbitrary: i rule: class_run.induct)
  case (2 P n b c cs)
  then show ?case by (cases i) (auto split: if_splits)
qed auto

lemma matches_width: "q \<in> set (matches r p) \<Longrightarrow> length (rest q) + min_width r \<le> length (rest p)"
proof (induction r arbitrary: p q)
  case (Class P)
  then show ?case by (cases "rest p") (auto split: if_splits)
next
  case (Many P m n)
  let ?run = "class_run P n (last_char p) (rest p)"
  from Many obtain b s where bs: "(b, s) \<in> set (drop m ?run)" and q: "rest q = s"
    by auto
  then obtain i where i: "i < length (drop m ?run)" "drop m ?run ! i = (b, s)"
    by (metis in_set_conv_nth)
  then have "length (snd (?run ! (m + i))) + (m + i) = length (rest p)"
    by (intro class_run_width) auto
  with i q show ?case by simp
next
  case (Cat r s)
  then obtain x where "x \<in> set (matches r p)" "q \<in> set (matches s x)" by auto
  with Cat.IH show ?case by fastforce
next
  case (Alt r s)
  then show ?case by fastforce
next
  case (Group r)
  then show ?case by fastforce
qed (auto split: if_splits)

lemma search_from_width: "search_from r b s \<Longrightarrow> min_width r \<le> length s"
proof (induction s arbitrary: b)
  case Nil
  then obtain q where "q \<in> set (matches r \<lparr>last_char = b, rest = [], group1 = []\<rparr>)"
    by (metis search_from.simps(1) list.set_intros(1) neq_Nil_conv)
  from matches_width [OF this] show ?case by simp
next
  case (Cons c cs)
  show ?case
  proof (cases "matches r \<lparr>last_char = b, rest = c # cs, group1 = []\<rparr> = []")
    case True
    with Cons show ?thesis by fastforce
  next
    case False
    then obtain q where "q \<in> set (matches r \<lparr>last_char = b, rest = c # cs, group1 = []\<rparr>)"
      by (metis list.set_intros(1) neq_Nil_conv)
    from matches_width [OF this] show ?thesis by simp
  qed
qed

lemma search_short: "length s < min_width r \<Longrightarrow> \<not> search r s"
  using search_from_width by (fastforce simp: search_def)

end
