(* ===== verification/Redaction.thy ===== *)
theory Redaction
  imports PyJson PyRegex
begin

text \<open>
  \<open>redaction.py\<close>: which keys and texts are secret, the redaction of nested values, and the text
  backstop of the full-capture posture. Every audit event and every result the program returns
  passes through \<open>redact_mapping\<close>.
\<close>

section \<open>Keys\<close>

definition REDACTED :: string where
  "REDACTED = ''[REDACTED]''"

definition REDACTED_BYTES :: string where
  "REDACTED_BYTES = ''[REDACTED-BYTES]''"

definition HID_TEXT_KEYS :: "string list" where
  "HID_TEXT_KEYS = [''text'', ''typed_text'', ''hid_text'', ''keyboard_text'', ''screen_text'',
     ''screen_content'', ''content'']"

definition CREDENTIAL_FIELD_KEYS :: "string list" where
  "CREDENTIAL_FIELD_KEYS =
     [''password'', ''passphrase'', ''pin'', ''otp'', ''totp'', ''mfa'', ''mfa_code'',
      ''recovery_key'', ''secret'', ''token'', ''api_key'', ''api_token'', ''access_token'',
      ''refresh_token'', ''auth_token'', ''private_key'', ''credential'', ''credential_ref'',
      ''bearer'', ''session_cookie'', ''otp_secret'', ''token_example'']"

definition RAW_ARTIFACT_KEYS :: "string list" where
  "RAW_ARTIFACT_KEYS = [''raw_bytes'', ''image_bytes'', ''raw_image'', ''screenshot_bytes'', ''bytes'']"

definition STRUCTURAL_TOKEN_KEYS :: "string list" where
  "STRUCTURAL_TOKEN_KEYS =
     [''id'', ''event_hash'', ''previous_hash'', ''last_event_hash'', ''checkpoint_hash'',
      ''params_fingerprint'', ''fingerprint'', ''cert_fingerprint'', ''sha256_fingerprint'']"

definition is_hid_text_key :: "string \<Rightarrow> bool" where
  "is_hid_text_key key \<longleftrightarrow> str_lower key \<in> set HID_TEXT_KEYS"

definition is_credential_field_key :: "string \<Rightarrow> bool" where
  "is_credential_field_key key \<longleftrightarrow> str_lower key \<in> set CREDENTIAL_FIELD_KEYS"

definition is_structural_token_key :: "string \<Rightarrow> bool" where
  "is_structural_token_key key \<longleftrightarrow>
     (let lowered = str_lower key in
      lowered \<in> set STRUCTURAL_TOKEN_KEYS \<or> ends_with lowered ''_id'' \<or>
      ends_with lowered ''_hash'' \<or> ends_with lowered ''_fingerprint'')"

section \<open>Secret patterns\<close>

fun seq :: "regex list \<Rightarrow> regex" where
  "seq [] = Empty"
| "seq [r] = r"
| "seq (r # s # rs) = Cat r (seq (s # rs))"

fun alts :: "regex list \<Rightarrow> regex" where
  "alts [] = Class (\<lambda>c. False)"
| "alts [r] = r"
| "alts (r # s # rs) = Alt r (alts (s # rs))"

text \<open>A literal under \<open>IGNORECASE\<close>, given in lower case.\<close>

definition lit :: "string \<Rightarrow> regex" where
  "lit s = seq (map (\<lambda>c. Class (\<lambda>d. lower_char d = c)) s)"

definition one_of :: "string \<Rightarrow> char \<Rightarrow> bool" where
  "one_of s c \<longleftrightarrow> c \<in> set s"

abbreviation maybe :: "(char \<Rightarrow> bool) \<Rightarrow> regex" where
  "maybe P \<equiv> Many P 0 (Some 1)"

abbreviation spaces :: regex where
  "spaces \<equiv> Many is_space 0 None"

definition SECRET_ASSIGNMENT_RE :: regex where
  "SECRET_ASSIGNMENT_RE =
     seq [Boundary,
          Group (alts [lit ''password'', lit ''passphrase'', lit ''token'', lit ''secret'',
                       seq [lit ''api'', maybe (one_of ''_-''), lit ''key''],
                       seq [lit ''private'', maybe (one_of ''_-''), lit ''key''],
                       lit ''bearer'',
                       seq [lit ''session'', maybe (one_of ''_-''), lit ''cookie''],
                       lit ''mfa'', lit ''otp'', lit ''totp'',
                       seq [lit ''recovery'', maybe (one_of ''_ -''), lit ''key'']]),
          Boundary, spaces, Class (one_of '':=''), spaces, Many (\<lambda>c. \<not> is_space c) 1 None]"

definition is_token_char :: "char \<Rightarrow> bool" where
  "is_token_char c \<longleftrightarrow> is_ascii_upper c \<or> is_ascii_lower c \<or> is_digit c \<or> one_of ''+/=_-'' c"

definition any_then :: "(char \<Rightarrow> bool) \<Rightarrow> regex" where
  "any_then P = Ahead (Cat (Many (\<lambda>c. c \<noteq> CHR 0x0A) 0 None) (Class P))"

definition HIGH_ENTROPY_RE :: regex where
  "HIGH_ENTROPY_RE =
     seq [Boundary, Ahead (Cat (Many is_token_char 20 None) Boundary),
          any_then is_ascii_upper, any_then is_ascii_lower, any_then is_digit,
          Many is_token_char 20 None, Boundary]"

definition is_hex_char :: "char \<Rightarrow> bool" where
  "is_hex_char c \<longleftrightarrow> is_digit c \<or> one_of ''abcdefABCDEF'' c"

definition HEX_SECRET_RE :: regex where
  "HEX_SECRET_RE = seq [Boundary, Many is_hex_char 32 None, Boundary]"

definition MFA_CODE_RE :: regex where
  "MFA_CODE_RE =
     seq [Boundary, alts [lit ''mfa'', lit ''otp'', lit ''totp'', lit ''code''], spaces,
          maybe (one_of '':=''), spaces, Group (Many is_digit 6 (Some 8)), Boundary]"

definition contains_secret_pattern :: "string \<Rightarrow> bool" where
  "contains_secret_pattern v \<longleftrightarrow>
     search SECRET_ASSIGNMENT_RE v \<or> search HIGH_ENTROPY_RE v \<or> search HEX_SECRET_RE v \<or>
     search MFA_CODE_RE v"

text \<open>\<open>s.replace(old, new)\<close> for a non-empty \<open>old\<close> (the captured digits).\<close>

function str_replace :: "string \<Rightarrow> string \<Rightarrow> string \<Rightarrow> string" where
  "str_replace old new s =
     (case s of [] \<Rightarrow> []
      | c # cs \<Rightarrow>
          if old \<noteq> [] \<and> starts_with s old then new @ str_replace old new (drop (length old) s)
          else c # str_replace old new cs)"
  by pat_completeness auto
termination
  by (relation "measure (\<lambda>(old, new, s). length s)") auto

declare str_replace.simps [simp del]

definition strip_secret_text :: "string \<Rightarrow> string" where
  "strip_secret_text v =
     (let r1 = sub SECRET_ASSIGNMENT_RE (\<lambda>whole g. g @ ''='' @ REDACTED) v;
          r2 = sub MFA_CODE_RE (\<lambda>whole g. str_replace g REDACTED whole) r1;
          r3 = sub HIGH_ENTROPY_RE (\<lambda>whole g. REDACTED) r2
      in sub HEX_SECRET_RE (\<lambda>whole g. REDACTED) r3)"

section \<open>Redaction of nested values\<close>

record redaction_result =
  red_value :: pyval
  red_flag :: bool
  red_reasons :: "string list"

abbreviation redaction :: "pyval \<Rightarrow> bool \<Rightarrow> string list \<Rightarrow> redaction_result" where
  "redaction v f rs \<equiv> \<lparr>red_value = v, red_flag = f, red_reasons = rs\<rparr>"

definition hid_capture_posture :: "bool \<Rightarrow> (string \<times> pyval) list" where
  "hid_capture_posture full_capture =
     [(''full_capture'', PBool full_capture),
      (''posture'', PStr (if full_capture then ''full_capture_reduced_protection''
                          else ''default_redacted'')),
      (''warning'', PStr (if full_capture
         then ''full capture reduces HID text protection; credential-class strings are still stripped''
         else ''HID and screen text are redacted by default''))]"

fun explicit_full_capture_enabled :: "pyval \<Rightarrow> bool" where
  "explicit_full_capture_enabled (PBool b) = b"
| "explicit_full_capture_enabled (PStr s) =
     (str_lower (str_strip s) \<in> {''1'', ''true'', ''yes'', ''on'', ''full''})"
| "explicit_full_capture_enabled v = False"

definition first_present :: "string list \<Rightarrow> (pykey \<times> pyval) list \<Rightarrow> pyval option" where
  "first_present keys d =
     (case find (\<lambda>k. dict_has d (KStr k)) keys of None \<Rightarrow> None | Some k \<Rightarrow> dict_get d (KStr k))"

definition mapping_full_capture :: "(pykey \<times> pyval) list \<Rightarrow> bool \<Rightarrow> bool" where
  "mapping_full_capture values inherited =
     (case dict_get values (KStr ''hid_capture'') of
        Some (PDict posture) \<Rightarrow>
          explicit_full_capture_enabled
            (case dict_get posture (KStr ''full_capture'') of None \<Rightarrow> PNone | Some v \<Rightarrow> v)
      | _ \<Rightarrow>
          (case first_present [''PIKVM_FULL_CAPTURE'', ''pikvm_full_capture'', ''full_capture''] values of
             Some v \<Rightarrow> explicit_full_capture_enabled v
           | None \<Rightarrow> inherited))"

definition redact_hid_text :: "string \<Rightarrow> bool \<Rightarrow> redaction_result" where
  "redact_hid_text v full_capture =
     (if \<not> full_capture then redaction (PStr REDACTED) True [''hid_text_default'']
      else let r = strip_secret_text v; changed = (r \<noteq> v)
           in redaction (PStr r) changed (if changed then [''credential_backstop''] else []))"

text \<open>The reasons of a redacted child that are paths below it, or the child's own path.\<close>

definition child_redactions :: "string \<times> redaction_result \<Rightarrow> string list" where
  "child_redactions = (\<lambda>(path, child).
     if red_flag child
     then (let nested = filter (\<lambda>r. r = path \<or> starts_with r (path @ ''.'') \<or> starts_with r (path @ ''[''))
                          (red_reasons child)
           in if nested = [] then [path] else nested)
     else [])"

definition field_path :: "string \<Rightarrow> string \<Rightarrow> string" where
  "field_path path key = (if path \<noteq> [] then path @ ''.'' @ key else key)"

definition item_path :: "string \<Rightarrow> nat \<Rightarrow> string" where
  "item_path path i = path @ ''['' @ str_of_int (int i) @ '']''"

definition fields_value :: "(string \<times> string \<times> redaction_result) list \<Rightarrow> (string \<times> pyval) list" where
  "fields_value fs = dict_of (map (\<lambda>(k, p, r). (k, red_value r)) fs) []"

definition fields_redactions :: "(string \<times> string \<times> redaction_result) list \<Rightarrow> string list" where
  "fields_redactions fs = concat (map (\<lambda>(k, p, r). child_redactions (p, r)) fs)"

definition items_value :: "(string \<times> redaction_result) list \<Rightarrow> pyval list" where
  "items_value rs = map (\<lambda>(p, r). red_value r) rs"

definition items_redactions :: "(string \<times> redaction_result) list \<Rightarrow> string list" where
  "items_redactions rs = concat (map child_redactions rs)"

text \<open>
  \<open>redact_fields\<close> and \<open>redact_items\<close> are the loops over a mapping and over a list; a tuple is
  redacted as the list of its items.
\<close>

fun redact_value :: "bool \<Rightarrow> string \<Rightarrow> string \<Rightarrow> pyval \<Rightarrow> redaction_result"
  and redact_fields :: "bool \<Rightarrow> string \<Rightarrow> (pykey \<times> pyval) list \<Rightarrow> (string \<times> string \<times> redaction_result) list"
  and redact_items :: "bool \<Rightarrow> string \<Rightarrow> string \<Rightarrow> nat \<Rightarrow> pyval list \<Rightarrow> (string \<times> redaction_result) list" where
  "redact_value fc key path v =
     (if str_lower key = ''redactions'' \<and> (case v of PList xs \<Rightarrow> True | _ \<Rightarrow> False)
      then redaction v False []
      else if is_credential_field_key key \<or> str_lower key \<in> set RAW_ARTIFACT_KEYS
      then redaction (PStr REDACTED) True [''credential_field'']
      else (case v of
         PStr s \<Rightarrow>
           if is_hid_text_key key then redact_hid_text s fc
           else if \<not> is_structural_token_key key \<and> contains_secret_pattern s
           then redaction (PStr REDACTED) True [''secret_pattern'']
           else redaction v False []
       | PBytes b \<Rightarrow> redaction (PStr REDACTED_BYTES) True [''bytes'']
       | PDict d \<Rightarrow>
           (let fs = redact_fields (mapping_full_capture d fc) path d; rs = fields_redactions fs
            in redaction (pdict (fields_value fs)) (rs \<noteq> []) rs)
       | PList xs \<Rightarrow>
           (let is = redact_items fc key path 0 xs; rs = items_redactions is
            in redaction (PList (items_value is)) (rs \<noteq> []) rs)
       | PTuple xs \<Rightarrow>
           if str_lower key = ''redactions'' then redaction v False []
           else (let is = redact_items fc key path 0 xs; rs = items_redactions is
                 in redaction (PTuple (items_value is)) (rs \<noteq> []) rs)
       | _ \<Rightarrow> redaction v False []))"
| "redact_fields fc path [] = []"
| "redact_fields fc path ((k, v) # kvs) =
     (let p = field_path path (key_text k)
      in (key_text k, p, redact_value fc (key_text k) p v) # redact_fields fc path kvs)"
| "redact_items fc key path i [] = []"
| "redact_items fc key path i (x # xs) =
     (item_path path i, redact_value fc key (item_path path i) x)
     # redact_items fc key path (Suc i) xs"

declare redact_value.simps [simp del]

text \<open>\<open>redact_mapping\<close>: the redacted mapping and the redacted paths.\<close>

definition redact_mapping ::
    "bool option \<Rightarrow> (string \<times> pyval) list \<Rightarrow> (string \<times> pyval) list \<times> string list" where
  "redact_mapping full_capture values =
     (let d = map (\<lambda>(k, v). (KStr k, v)) values;
          fc = mapping_full_capture d (full_capture = Some True);
          fs = redact_fields fc [] d
      in (fields_value fs, fields_redactions fs))"

section \<open>No secret survives\<close>

text \<open>
  \<open>leak_free lenient key v\<close>: no credential or raw-artifact field of \<open>v\<close> keeps its value, no byte
  string is left, no string outside structural and HID fields shows a secret pattern; unless
  \<open>lenient\<close> no HID text is left. What stands in a list under the key \<open>redactions\<close> is exempt.
\<close>

fun leak_free :: "bool \<Rightarrow> string \<Rightarrow> pyval \<Rightarrow> bool" where
  "leak_free lenient key v =
     (if str_lower key = ''redactions'' \<and> (case v of PList xs \<Rightarrow> True | PTuple xs \<Rightarrow> True | _ \<Rightarrow> False) then True
      else if is_credential_field_key key \<or> str_lower key \<in> set RAW_ARTIFACT_KEYS then v = PStr REDACTED
      else (case v of
         PStr s \<Rightarrow>
           if is_hid_text_key key then lenient \<or> s \<in> {REDACTED, REDACTED_BYTES}
           else is_structural_token_key key \<or> \<not> contains_secret_pattern s
       | PBytes b \<Rightarrow> False
       | PDict d \<Rightarrow> \<forall>(k, x) \<in> set d. leak_free lenient (key_text k) x
       | PList xs \<Rightarrow> \<forall>x \<in> set xs. leak_free lenient key x
       | PTuple xs \<Rightarrow> \<forall>x \<in> set xs. leak_free lenient key x
       | _ \<Rightarrow> True))"

declare leak_free.simps [simp del]

text \<open>No mapping of the value switches the full-capture posture on.\<close>

fun capture_free :: "pyval \<Rightarrow> bool" where
  "capture_free (PDict d) = (\<not> mapping_full_capture d False \<and> (\<forall>(k, x) \<in> set d. capture_free x))"
| "capture_free (PList xs) = (\<forall>x \<in> set xs. capture_free x)"
| "capture_free (PTuple xs) = (\<forall>x \<in> set xs. capture_free x)"
| "capture_free v = True"

lemma no_pattern_redacted: "\<not> contains_secret_pattern REDACTED" "\<not> contains_secret_pattern REDACTED_BYTES"
proof -
  note chars = at_boundary_def lit_def lower_char_def is_word_def is_alnum_def is_digit_def
    is_ascii_upper_def is_ascii_lower_def one_of_def
  have "\<not> search HEX_SECRET_RE s \<and> \<not> search HIGH_ENTROPY_RE s" if "length s < 20" for s
    using that by (intro conjI search_short) (simp_all add: HEX_SECRET_RE_def HIGH_ENTROPY_RE_def any_then_def)
  moreover have "\<not> search MFA_CODE_RE REDACTED" "\<not> search MFA_CODE_RE REDACTED_BYTES"
    by (simp_all add: MFA_CODE_RE_def search_def REDACTED_def REDACTED_BYTES_def chars)
  moreover have "\<not> search SECRET_ASSIGNMENT_RE REDACTED" "\<not> search SECRET_ASSIGNMENT_RE REDACTED_BYTES"
    by (simp_all add: SECRET_ASSIGNMENT_RE_def search_def REDACTED_def REDACTED_BYTES_def chars)
  ultimately show "\<not> contains_secret_pattern REDACTED" "\<not> contains_secret_pattern REDACTED_BYTES"
    by (simp_all add: contains_secret_pattern_def REDACTED_def REDACTED_BYTES_def)
qed

lemma dict_of_mem: "(k, v) \<in> set (dict_of kvs d) \<Longrightarrow> (k, v) \<in> set kvs \<or> (k, v) \<in> set d"
proof (induction kvs d rule: dict_of.induct)
  case (2 k' v' kvs d)
  then have "(k, v) \<in> set kvs \<or> (k, v) \<in> set (dict_set k' v' d)" by simp
  moreover have "(k, v) \<in> set (dict_set k' v' d) \<Longrightarrow> (k, v) = (k', v') \<or> (k, v) \<in> set d"
    by (induction d) (auto split: if_splits)
  ultimately show ?case by auto
qed simp

lemma fields_value_mem:
  "(k, v) \<in> set (fields_value fs) \<Longrightarrow> \<exists>p r. (k, p, r) \<in> set fs \<and> v = red_value r"
  unfolding fields_value_def by (drule dict_of_mem) auto

lemma hid_value: "\<exists>s. red_value (redact_hid_text t fc) = PStr s \<and> (\<not> fc \<longrightarrow> s = REDACTED)"
  by (simp add: redact_hid_text_def Let_def)

lemma redact_leak_free:
  "(\<not> lenient \<longrightarrow> \<not> fc \<and> capture_free v) \<Longrightarrow> leak_free lenient key (red_value (redact_value fc key path v))"
  "(\<not> lenient \<longrightarrow> \<not> fc \<and> (\<forall>kv \<in> set d. capture_free (snd kv))) \<Longrightarrow>
     \<forall>(k, p, r) \<in> set (redact_fields fc path d). leak_free lenient k (red_value r)"
  "(\<not> lenient \<longrightarrow> \<not> fc \<and> (\<forall>x \<in> set xs. capture_free x)) \<Longrightarrow>
     \<forall>(p, r) \<in> set (redact_items fc key path i xs). leak_free lenient key (red_value r)"
proof (induction fc key path v and fc path d and fc key path i xs
    rule: redact_value_redact_fields_redact_items.induct)
  case (1 fc key path v)
  show ?case
  proof (cases "str_lower key = ''redactions'' \<and> (case v of PList xs \<Rightarrow> True | _ \<Rightarrow> False)")
    case True
    then show ?thesis by (cases v) (simp_all add: redact_value.simps leak_free.simps)
  next
    case not_redactions: False
    show ?thesis
    proof (cases "is_credential_field_key key \<or> str_lower key \<in> set RAW_ARTIFACT_KEYS")
      case True
      have "redact_value fc key path v = redaction (PStr REDACTED) True [''credential_field'']"
        by (simp only: redact_value.simps [of fc key path v] if_not_P [OF not_redactions] if_P [OF True])
      then show ?thesis using True by (simp add: leak_free.simps)
    next
      case plain: False
      note IH = "1.IH" [OF not_redactions plain]
      show ?thesis
      proof (cases v)
        case (PStr s)
        with plain hid_value [of s fc] "1.prems" show ?thesis
          by (auto simp: redact_value.simps leak_free.simps no_pattern_redacted)
      next
        case (PBytes b)
        with plain show ?thesis
          by (auto simp: redact_value.simps leak_free.simps no_pattern_redacted)
      next
        case (PDict d)
        have "\<forall>(k, p, r) \<in> set (redact_fields (mapping_full_capture d fc) path d). leak_free lenient k (red_value r)"
          using "1.prems" PDict by (intro IH(3) [OF PDict]) (auto simp: split_beta)
        then have "\<forall>(k, x) \<in> set (fields_value (redact_fields (mapping_full_capture d fc) path d)). leak_free lenient k x"
          using fields_value_mem by fastforce
        with PDict plain not_redactions show ?thesis
          by (subst leak_free.simps) (auto simp: redact_value.simps Let_def pdict_def)
      next
        case (PList xs)
        have "\<forall>(p, r) \<in> set (redact_items fc key path 0 xs). leak_free lenient key (red_value r)"
          using IH(1) [OF PList] "1.prems" PList by auto
        with PList plain not_redactions show ?thesis
          by (subst leak_free.simps) (auto simp: redact_value.simps Let_def items_value_def)
      next
        case (PTuple xs)
        show ?thesis
        proof (cases "str_lower key = ''redactions''")
          case True
          with PTuple plain show ?thesis
            by (subst leak_free.simps) (simp add: redact_value.simps)
        next
          case False
          have "\<forall>(p, r) \<in> set (redact_items fc key path 0 xs). leak_free lenient key (red_value r)"
            using IH(2) [OF PTuple False] "1.prems" PTuple by auto
          with PTuple plain False show ?thesis
            by (subst leak_free.simps) (auto simp: redact_value.simps Let_def items_value_def)
        qed
      qed (use plain in \<open>simp_all add: redact_value.simps leak_free.simps\<close>)
    qed
  qed
next
  case (3 fc path k v kvs)
  then show ?case by (simp add: Let_def)
qed simp_all

lemma redact_mapping_leak_free:
  assumes "redact_mapping full_capture values = (out, paths)"
  shows "\<forall>(k, v) \<in> set out. leak_free True k v"
    and "full_capture \<noteq> Some True \<Longrightarrow> capture_free (pdict values) \<Longrightarrow> \<forall>(k, v) \<in> set out. leak_free False k v"
proof -
  let ?d = "map (\<lambda>(k, v). (KStr k, v)) values"
  let ?fs = "redact_fields (mapping_full_capture ?d (full_capture = Some True)) [] ?d"
  have out: "out = fields_value ?fs" using assms by (simp add: redact_mapping_def Let_def)
  have "\<forall>(k, p, r) \<in> set ?fs. leak_free True k (red_value r)"
    by (rule redact_leak_free(2)) simp
  with out show "\<forall>(k, v) \<in> set out. leak_free True k v" using fields_value_mem by fastforce
  assume "full_capture \<noteq> Some True" "capture_free (pdict values)"
  then have "\<forall>(k, p, r) \<in> set ?fs. leak_free False k (red_value r)"
    by (intro redact_leak_free(2)) (auto simp: pdict_def split_beta)
  with out show "\<forall>(k, v) \<in> set out. leak_free False k v" using fields_value_mem by fastforce
qed

section \<open>What redaction leaves alone\<close>

text \<open>Every key of a mapping is kept; only values are replaced.\<close>

lemma dict_of_keys: "fst ` set (dict_of kvs d) = fst ` set kvs \<union> fst ` set d"
proof (induction kvs d rule: dict_of.induct)
  case (2 k v kvs d)
  have "fst ` set (dict_set k v d) = insert k (fst ` set d)" by (induction d) auto
  with 2 show ?case by auto
qed simp

lemma redact_fields_keys: "map fst (redact_fields fc path d) = map (key_text \<circ> fst) d"
  by (induction d) (auto simp: Let_def)

lemma redact_mapping_keys:
  "redact_mapping full_capture values = (out, paths) \<Longrightarrow> fst ` set out = fst ` set values"
proof -
  assume a: "redact_mapping full_capture values = (out, paths)"
  let ?d = "map (\<lambda>(k, v). (KStr k, v)) values"
  obtain fs where out: "out = fields_value fs" and fs: "map fst fs = map (key_text \<circ> fst) ?d"
    using a redact_fields_keys by (auto simp: redact_mapping_def Let_def)
  have "fst ` set out = fst ` set fs" using out by (force simp: fields_value_def dict_of_keys)
  also have "\<dots> = fst ` set values"
    using arg_cong [OF fs, of set] by (simp add: image_comp comp_def split_beta)
  finally show ?thesis .
qed

lemma redact_other:
  "\<not> is_credential_field_key key \<Longrightarrow> str_lower key \<notin> set RAW_ARTIFACT_KEYS \<Longrightarrow>
     (case v of PNone \<Rightarrow> True | PBool b \<Rightarrow> True | PInt i \<Rightarrow> True | PFloat f \<Rightarrow> True | _ \<Rightarrow> False) \<Longrightarrow>
     redact_value fc key path v = redaction v False []"
  by (cases v) (simp_all add: redact_value.simps)

end
