(* ===== verification/Capabilities.thy ===== *)
theory Capabilities
  imports PyJson
begin

text \<open>
  The control-plane vocabulary: \<open>decisions.py\<close> (control modes, policy decisions, their text),
  \<open>capabilities.py\<close> (the capability registry and its table, one definition per group of
  families) and \<open>risk_families.py\<close> (the risk label sent to ACT).
\<close>

section \<open>Modes and decisions\<close>

datatype control_mode = OBSERVE | ASSISTED | SUPERVISED | FULL_CONTROL | CUSTOM

datatype policy_decision = DENY | ASK_EACH_TIME | ASK_ONCE_PER_SESSION | ALLOW | ALLOW_WITH_LIMITS

fun mode_value :: "control_mode \<Rightarrow> string" where
  "mode_value OBSERVE = ''Observe''"
| "mode_value ASSISTED = ''Assisted''"
| "mode_value SUPERVISED = ''Supervised''"
| "mode_value FULL_CONTROL = ''Full Control''"
| "mode_value CUSTOM = ''Custom''"

fun decision_value :: "policy_decision \<Rightarrow> string" where
  "decision_value DENY = ''deny''"
| "decision_value ASK_EACH_TIME = ''ask_each_time''"
| "decision_value ASK_ONCE_PER_SESSION = ''ask_once_per_session''"
| "decision_value ALLOW = ''allow''"
| "decision_value ALLOW_WITH_LIMITS = ''allow_with_limits''"

definition mode_aliases :: "(string, control_mode) dict" where
  "mode_aliases =
     [(''observe'', OBSERVE), (''assisted'', ASSISTED), (''supervised'', SUPERVISED),
      (''full control'', FULL_CONTROL), (''fullcontrol'', FULL_CONTROL), (''custom'', CUSTOM)]"

definition normalize_control_mode :: "string \<Rightarrow> control_mode res" where
  "normalize_control_mode v =
     (case dict_get mode_aliases
         (str_lower (replace_char (CHR ''-'') '' '' (replace_char (CHR ''_'') '' '' (str_strip v)))) of
        Some m \<Rightarrow> Inr m
      | None \<Rightarrow> raise ValueError (''Unknown control mode: '' @ v))"

definition all_decisions :: "policy_decision list" where
  "all_decisions = [DENY, ASK_EACH_TIME, ASK_ONCE_PER_SESSION, ALLOW, ALLOW_WITH_LIMITS]"

definition normalize_policy_decision :: "string \<Rightarrow> policy_decision res" where
  "normalize_policy_decision v =
     (case find (\<lambda>d. decision_value d = v) all_decisions of
        Some d \<Rightarrow> Inr d
      | None \<Rightarrow> raise ValueError (''Unknown policy decision: '' @ v))"

text \<open>
  Two orders that the code does not have but its design means: how much a decision permits, and
  how much a mode permits.
\<close>

fun decision_rank :: "policy_decision \<Rightarrow> nat" where
  "decision_rank DENY = 0"
| "decision_rank ASK_EACH_TIME = 1"
| "decision_rank ASK_ONCE_PER_SESSION = 2"
| "decision_rank ALLOW_WITH_LIMITS = 3"
| "decision_rank ALLOW = 4"

fun mode_rank :: "control_mode \<Rightarrow> nat" where
  "mode_rank CUSTOM = 0"
| "mode_rank OBSERVE = 1"
| "mode_rank ASSISTED = 2"
| "mode_rank SUPERVISED = 3"
| "mode_rank FULL_CONTROL = 4"

lemma decision_rank_inj: "decision_rank a = decision_rank b \<longleftrightarrow> a = b"
  by (cases a; cases b) auto

lemma mode_rank_inj: "mode_rank a = mode_rank b \<longleftrightarrow> a = b"
  by (cases a; cases b) auto

instantiation policy_decision :: linorder
begin

definition less_eq_policy_decision :: "policy_decision \<Rightarrow> policy_decision \<Rightarrow> bool" where
  "a \<le> b \<longleftrightarrow> decision_rank a \<le> decision_rank b"

definition less_policy_decision :: "policy_decision \<Rightarrow> policy_decision \<Rightarrow> bool" where
  "a < b \<longleftrightarrow> decision_rank a < decision_rank b"

instance
  by intro_classes (auto simp: less_eq_policy_decision_def less_policy_decision_def decision_rank_inj)

end

instantiation control_mode :: linorder
begin

definition less_eq_control_mode :: "control_mode \<Rightarrow> control_mode \<Rightarrow> bool" where
  "a \<le> b \<longleftrightarrow> mode_rank a \<le> mode_rank b"

definition less_control_mode :: "control_mode \<Rightarrow> control_mode \<Rightarrow> bool" where
  "a < b \<longleftrightarrow> mode_rank a < mode_rank b"

instance
  by intro_classes (auto simp: less_eq_control_mode_def less_control_mode_def mode_rank_inj)

end

lemma policy_decision_exhaust: "d \<in> set all_decisions"
  by (cases d) (simp_all add: all_decisions_def)

lemma normalize_policy_decision_value: "normalize_policy_decision (decision_value d) = Inr d"
  by (cases d) (simp_all add: normalize_policy_decision_def all_decisions_def)

lemma normalize_policy_decision_Inr:
  "normalize_policy_decision v = Inr d \<longleftrightarrow> v = decision_value d"
proof
  assume "normalize_policy_decision v = Inr d"
  then show "v = decision_value d"
    by (auto simp: normalize_policy_decision_def split: option.splits dest: find_Some_iff_first)
qed (simp add: normalize_policy_decision_value)

lemma normalize_control_mode_value: "normalize_control_mode (mode_value m) = Inr m"
proof -
  have "\<forall>m \<in> set [OBSERVE, ASSISTED, SUPERVISED, FULL_CONTROL, CUSTOM]. normalize_control_mode (mode_value m) = Inr m"
    by code_simp
  then show ?thesis by (cases m) simp_all
qed

section \<open>Capabilities\<close>

datatype risk_level = RL_LOW | RL_MEDIUM | RL_HIGH | RL_CRITICAL

record capability =
  cap_id :: string
  cap_family :: string
  cap_action :: string
  cap_title :: string
  cap_description :: string
  cap_risk :: risk_level
  cap_dangerous :: bool
  cap_destructive :: bool
  cap_required_scope :: "string list"
  cap_audit_fields :: "string list"

definition CAPABILITY_FAMILIES :: "string list" where
  "CAPABILITY_FAMILIES =
     [''session'', ''observe'', ''input'', ''power'', ''media'', ''boot'', ''bios'', ''firmware'',
      ''storage'', ''network'', ''bmc'', ''secrets'', ''runtime'']"

text \<open>\<open>Capability.__post_init__\<close>: the checks every constructed capability has passed.\<close>

definition make_capability :: "capability \<Rightarrow> capability res" where
  "make_capability c =
     (if cap_family c \<notin> set CAPABILITY_FAMILIES
      then raise ValueError (''Unknown capability family: '' @ cap_family c)
      else if CHR ''.'' \<notin> set (cap_id c)
      then raise ValueError (''Capability id must be family.action: '' @ cap_id c)
      else (case str_partition (CHR ''.'') (cap_id c) of (pre, _, act) \<Rightarrow>
        if pre \<noteq> cap_family c then raise ValueError (''Capability id family mismatch: '' @ cap_id c)
        else if act \<noteq> cap_action c then raise ValueError (''Capability action mismatch: '' @ cap_id c)
        else Inr c))"

definition default_scope :: "string list" where
  "default_scope = [''target'', ''session'']"

text \<open>\<open>_capability\<close>\<close>

definition capability_row ::
    "string \<Rightarrow> string \<Rightarrow> string \<Rightarrow> risk_level \<Rightarrow> bool \<Rightarrow> bool \<Rightarrow> string list \<Rightarrow> capability res" where
  "capability_row capability_id title description risk dangerous destructive required_scope =
     (case str_partition (CHR ''.'') capability_id of (family, found, act) \<Rightarrow>
        if \<not> found then raise ValueError ''not enough values to unpack''
        else make_capability
          \<lparr>cap_id = capability_id, cap_family = family, cap_action = act, cap_title = title,
           cap_description = description, cap_risk = risk, cap_dangerous = dangerous,
           cap_destructive = destructive, cap_required_scope = required_scope,
           cap_audit_fields = [''capability'', ''target_id'', ''session_id'']\<rparr>)"

type_synonym registry = "(string, capability) dict"

fun make_registry :: "capability list \<Rightarrow> registry \<Rightarrow> registry res" where
  "make_registry [] reg = Inr reg"
| "make_registry (c # cs) reg =
     (if dict_has reg (cap_id c) then raise ValueError (''Duplicate capability id: '' @ cap_id c)
      else make_registry cs (dict_set (cap_id c) c reg))"

definition registry_get :: "registry \<Rightarrow> string \<Rightarrow> capability option" where
  "registry_get reg i = dict_get reg i"

definition registry_require :: "registry \<Rightarrow> string \<Rightarrow> capability res" where
  "registry_require reg i =
     (case registry_get reg i of None \<Rightarrow> raise KeyError i | Some c \<Rightarrow> Inr c)"

definition registry_families :: "registry \<Rightarrow> string set" where
  "registry_families reg = set (map (cap_family \<circ> snd) reg)"

subsection \<open>The table\<close>

definition session_observe_capabilities :: "capability res list" where
  "session_observe_capabilities =
   [capability_row ''session.start'' ''Start session''
     ''Open a scoped operator session.''
     RL_LOW False False [''session''],
    capability_row ''session.end'' ''End session''
     ''Close a scoped operator session.''
     RL_LOW False False [''session''],
    capability_row ''session.select_target'' ''Select target''
     ''Select an in-scope target for a session.''
     RL_MEDIUM False False [''target'', ''session''],
    capability_row ''session.modify_policy'' ''Modify active policy''
     ''Change the active policy for the requesting agent.''
     RL_CRITICAL True False [''session''],
    capability_row ''session.disable_audit'' ''Disable audit''
     ''Disable audit logging for the active session.''
     RL_CRITICAL True False [''session''],
    capability_row ''session.disable_emergency_stop'' ''Disable emergency stop''
     ''Disable emergency stop for the active session.''
     RL_CRITICAL True False [''session''],
    capability_row ''observe.status'' ''Observe status''
     ''Read a provider-neutral target status summary.''
     RL_LOW False False default_scope,
    capability_row ''observe.screen'' ''Observe screen''
     ''Read provider-neutral screen metadata or text without input.''
     RL_MEDIUM False False default_scope,
    capability_row ''observe.screenshot'' ''Observe screenshot''
     ''Capture or retrieve a current screen observation.''
     RL_MEDIUM False False default_scope,
    capability_row ''observe.power_state'' ''Observe power state''
     ''Read target power state.''
     RL_LOW False False default_scope,
    capability_row ''observe.hardware_inventory'' ''Observe hardware inventory''
     ''Read non-secret hardware inventory.''
     RL_LOW False False default_scope,
    capability_row ''observe.sensors'' ''Observe sensors''
     ''Read thermal, power, fan, or health sensors.''
     RL_LOW False False default_scope,
    capability_row ''observe.event_logs'' ''Observe event logs''
     ''Read BMC or platform event logs.''
     RL_MEDIUM False False default_scope,
    capability_row ''observe.boot_status'' ''Observe boot status''
     ''Read boot phase or boot override status.''
     RL_LOW False False default_scope]"

definition input_power_media_capabilities :: "capability res list" where
  "input_power_media_capabilities =
   [capability_row ''input.mouse_move'' ''Move mouse''
     ''Move the remote pointer inside session scope.''
     RL_HIGH True False default_scope,
    capability_row ''input.mouse_click'' ''Click mouse''
     ''Click the remote pointer inside session scope.''
     RL_HIGH True False default_scope,
    capability_row ''input.keyboard_type'' ''Type text''
     ''Type text through a remote input device.''
     RL_HIGH True False default_scope,
    capability_row ''input.keyboard_key'' ''Send keyboard key''
     ''Send one non-secret key through a remote input device.''
     RL_MEDIUM False False default_scope,
    capability_row ''input.keyboard_shortcut'' ''Send keyboard shortcut''
     ''Send a keyboard shortcut through a remote input device.''
     RL_HIGH True False default_scope,
    capability_row ''power.on'' ''Power on''
     ''Power on an in-scope target.''
     RL_HIGH True False default_scope,
    capability_row ''power.graceful_shutdown'' ''Graceful shutdown''
     ''Request an orderly shutdown.''
     RL_HIGH True False default_scope,
    capability_row ''power.graceful_restart'' ''Graceful restart''
     ''Request an orderly restart.''
     RL_HIGH True False default_scope,
    capability_row ''power.force_off'' ''Force power off''
     ''Force a target off without relying on the operating system.''
     RL_CRITICAL True True default_scope,
    capability_row ''power.force_restart'' ''Force restart''
     ''Force an immediate target restart.''
     RL_CRITICAL True True default_scope,
    capability_row ''power.power_cycle'' ''Power cycle''
     ''Force a target off and back on.''
     RL_CRITICAL True True default_scope,
    capability_row ''power.reset'' ''ATX reset''
     ''Trigger a hardware reset through the out-of-band controller.''
     RL_CRITICAL True True default_scope,
    capability_row ''power.nmi'' ''Send NMI''
     ''Trigger a non-maskable interrupt.''
     RL_CRITICAL True True default_scope,
    capability_row ''media.mount_approved_iso'' ''Mount approved ISO''
     ''Mount a pre-approved virtual media image.''
     RL_HIGH True False default_scope,
    capability_row ''media.mount_arbitrary_iso'' ''Mount arbitrary ISO''
     ''Mount an operator-provided arbitrary virtual media image.''
     RL_CRITICAL True False default_scope,
    capability_row ''media.eject'' ''Eject media''
     ''Eject virtual media from a target.''
     RL_MEDIUM False False default_scope]"

definition boot_storage_capabilities :: "capability res list" where
  "boot_storage_capabilities =
   [capability_row ''boot.override'' ''Boot override''
     ''Set a one-time or persistent boot override.''
     RL_CRITICAL True False default_scope,
    capability_row ''boot.enter_bios'' ''Enter BIOS''
     ''Request boot into BIOS or setup environment.''
     RL_HIGH True False default_scope,
    capability_row ''bios.view_settings'' ''View BIOS settings''
     ''Read BIOS settings without changing them.''
     RL_MEDIUM False False default_scope,
    capability_row ''bios.change_setting'' ''Change BIOS setting''
     ''Modify a BIOS setting.''
     RL_CRITICAL True False default_scope,
    capability_row ''firmware.update_bios'' ''Update BIOS firmware''
     ''Update system BIOS firmware.''
     RL_CRITICAL True True default_scope,
    capability_row ''firmware.update_bmc'' ''Update BMC firmware''
     ''Update BMC firmware.''
     RL_CRITICAL True True default_scope,
    capability_row ''storage.view_disk_layout'' ''View disk layout''
     ''Read disk or volume layout.''
     RL_MEDIUM False False default_scope,
    capability_row ''storage.wipe_disk'' ''Wipe disk''
     ''Erase a disk.''
     RL_CRITICAL True True default_scope,
    capability_row ''storage.repartition_disk'' ''Repartition disk''
     ''Modify disk partitions.''
     RL_CRITICAL True True default_scope,
    capability_row ''storage.restore_backup'' ''Restore backup''
     ''Restore data from a backup.''
     RL_CRITICAL True True default_scope]"

definition network_runtime_capabilities :: "capability res list" where
  "network_runtime_capabilities =
   [capability_row ''network.read_config'' ''Read network config''
     ''Read host or BMC network configuration.''
     RL_MEDIUM False False default_scope,
    capability_row ''network.change_bmc_ip'' ''Change BMC IP''
     ''Modify BMC network address configuration.''
     RL_CRITICAL True False default_scope,
    capability_row ''network.change_host_ip'' ''Change host IP''
     ''Modify host network address configuration.''
     RL_CRITICAL True False default_scope,
    capability_row ''bmc.account_list'' ''List BMC accounts''
     ''Read non-secret BMC account metadata.''
     RL_MEDIUM False False default_scope,
    capability_row ''bmc.rotate_password'' ''Rotate BMC password''
     ''Change a BMC account password.''
     RL_CRITICAL True False default_scope,
    capability_row ''bmc.reset'' ''Reset BMC''
     ''Restart or reset a BMC.''
     RL_CRITICAL True False default_scope,
    capability_row ''secrets.inject_reference'' ''Inject secret reference''
     ''Use a scoped secret reference without revealing raw secret material.''
     RL_HIGH True False default_scope,
    capability_row ''secrets.raw_reveal'' ''Reveal raw secret''
     ''Reveal raw secret material to the requester.''
     RL_CRITICAL True False [''target'', ''session'', ''credential''],
    capability_row ''runtime.noop'' ''Runtime no-op''
     ''Exercise the control plane without provider side effects.''
     RL_LOW False False [''session''],
    capability_row ''runtime.request_clearance'' ''Request clearance''
     ''Request ACT clearance without granting or executing provider actions.''
     RL_LOW False False [''session''],
    capability_row ''runtime.deny_clearance'' ''Deny clearance''
     ''Record a clearance denial intent without granting or executing provider actions.''
     RL_LOW False False [''session''],
    capability_row ''runtime.run_approved_playbook'' ''Run approved playbook''
     ''Run a pre-approved playbook inside explicit scope.''
     RL_HIGH True False default_scope,
    capability_row ''runtime.execute_untrusted_script'' ''Execute untrusted script''
     ''Execute an untrusted script or playbook.''
     RL_CRITICAL True True default_scope,
    capability_row ''runtime.call_external_webhook'' ''Call external webhook''
     ''Call an external webhook from the runtime.''
     RL_CRITICAL True False default_scope,
    capability_row ''runtime.spawn_subagent'' ''Spawn subagent''
     ''Create another agent or delegated runtime.''
     RL_CRITICAL True False default_scope]"

definition DEFAULT_CAPABILITIES :: "capability list res" where
  "DEFAULT_CAPABILITIES =
     map_res (\<lambda>c. c) (session_observe_capabilities @ input_power_media_capabilities @
                       boot_storage_capabilities @ network_runtime_capabilities)"

definition DEFAULT_CAPABILITY_REGISTRY :: registry where
  "DEFAULT_CAPABILITY_REGISTRY =
     (case bind_res DEFAULT_CAPABILITIES (\<lambda>cs. make_registry cs []) of Inr reg \<Rightarrow> reg | Inl e \<Rightarrow> [])"

section \<open>Risk families\<close>

text \<open>\<open>ClearanceRiskFamily\<close>: the two labels the program assigns, and those only ACT assigns.\<close>

datatype risk_family =
    LOW_RISK | HIGH_RISK
  | RF_OBSERVE | RF_READ_ONLY | RF_ROUTINE | RF_EXTERNAL_EFFECT | RF_DESTRUCTIVE
  | RF_CREDENTIAL_OR_SECRET | RF_SAFETY_CRITICAL | RF_IRREVERSIBLE

fun risk_family_value :: "risk_family \<Rightarrow> string" where
  "risk_family_value LOW_RISK = ''low_risk''"
| "risk_family_value HIGH_RISK = ''high_risk''"
| "risk_family_value RF_OBSERVE = ''observe''"
| "risk_family_value RF_READ_ONLY = ''read_only''"
| "risk_family_value RF_ROUTINE = ''routine''"
| "risk_family_value RF_EXTERNAL_EFFECT = ''external_effect''"
| "risk_family_value RF_DESTRUCTIVE = ''destructive''"
| "risk_family_value RF_CREDENTIAL_OR_SECRET = ''credential_or_secret''"
| "risk_family_value RF_SAFETY_CRITICAL = ''safety_critical''"
| "risk_family_value RF_IRREVERSIBLE = ''irreversible''"

definition all_risk_families :: "risk_family list" where
  "all_risk_families =
     [LOW_RISK, HIGH_RISK, RF_OBSERVE, RF_READ_ONLY, RF_ROUTINE, RF_EXTERNAL_EFFECT,
      RF_DESTRUCTIVE, RF_CREDENTIAL_OR_SECRET, RF_SAFETY_CRITICAL, RF_IRREVERSIBLE]"

definition LOW_RISK_CAPABILITY_IDS :: "string list" where
  "LOW_RISK_CAPABILITY_IDS =
     [''observe.status'', ''observe.screen'', ''observe.screenshot'', ''observe.power_state'',
      ''observe.hardware_inventory'', ''observe.sensors'', ''observe.event_logs'',
      ''observe.boot_status'', ''bios.view_settings'', ''storage.view_disk_layout'',
      ''network.read_config'', ''bmc.account_list'', ''runtime.request_clearance'',
      ''runtime.deny_clearance'']"

definition HIGH_RISK_CAPABILITY_FAMILIES :: "string list" where
  "HIGH_RISK_CAPABILITY_FAMILIES = [''input'', ''power'', ''media'', ''boot'', ''firmware'', ''secrets'']"

definition HIGH_RISK_CAPABILITY_IDS :: "string list" where
  "HIGH_RISK_CAPABILITY_IDS =
     [''session.modify_policy'', ''session.disable_audit'', ''session.disable_emergency_stop'',
      ''bios.change_setting'', ''storage.wipe_disk'', ''storage.repartition_disk'',
      ''storage.restore_backup'', ''network.change_bmc_ip'', ''network.change_host_ip'',
      ''bmc.rotate_password'', ''bmc.reset'', ''runtime.run_approved_playbook'',
      ''runtime.execute_untrusted_script'', ''runtime.call_external_webhook'',
      ''runtime.spawn_subagent'']"

fun clearance_risk_family_for_capability :: "capability option \<Rightarrow> risk_family" where
  "clearance_risk_family_for_capability None = HIGH_RISK"
| "clearance_risk_family_for_capability (Some c) =
     (if cap_id c \<in> set LOW_RISK_CAPABILITY_IDS then LOW_RISK
      else if cap_id c \<in> set HIGH_RISK_CAPABILITY_IDS then HIGH_RISK
      else if cap_family c \<in> set HIGH_RISK_CAPABILITY_FAMILIES then HIGH_RISK
      else HIGH_RISK)"

section \<open>What the registry guarantees\<close>

lemma make_capability_Inr:
  "make_capability c = Inr d \<Longrightarrow>
     d = c \<and> cap_family c \<in> set CAPABILITY_FAMILIES \<and> cap_id c = cap_family c @ ''.'' @ cap_action c"
proof -
  assume a: "make_capability c = Inr d"
  have "CHR ''.'' \<in> set s \<Longrightarrow> str_partition (CHR ''.'') s = (p, b, q) \<Longrightarrow> s = p @ ''.'' @ q" for s p b q
    by (induction s arbitrary: p) (auto split: if_splits prod.splits)
  then show ?thesis
    using a by (auto simp: make_capability_def split: if_splits prod.splits)
qed

definition registry_ok :: "registry \<Rightarrow> bool" where
  "registry_ok reg \<longleftrightarrow> distinct (map fst reg) \<and> (\<forall>(i, c) \<in> set reg. cap_id c = i)"

lemma make_registry_ok: "registry_ok reg \<Longrightarrow> make_registry cs reg = Inr out \<Longrightarrow> registry_ok out"
proof (induction cs reg rule: make_registry.induct)
  case (2 c cs reg)
  have "registry_ok (dict_set (cap_id c) c reg)" if "\<not> dict_has reg (cap_id c)"
  proof -
    from that have "cap_id c \<notin> fst ` set reg" by (simp add: map_of_eq_None_iff)
    with "2.prems"(1) show ?thesis by (auto simp: registry_ok_def dict_set_fresh)
  qed
  with 2 show ?case by (auto split: if_splits)
qed simp

lemma default_registry_ok: "registry_ok DEFAULT_CAPABILITY_REGISTRY"
proof -
  have "registry_ok []" by (simp add: registry_ok_def)
  then show ?thesis
    by (auto simp: DEFAULT_CAPABILITY_REGISTRY_def bind_res_def split: sum.splits dest: make_registry_ok)
qed

lemma registry_get_id: "registry_ok reg \<Longrightarrow> registry_get reg i = Some c \<Longrightarrow> cap_id c = i"
  by (auto simp: registry_ok_def registry_get_def dest: map_of_SomeD)

text \<open>The rows of the table all pass their checks, and their ids are distinct.\<close>

definition row_cap :: "capability res \<Rightarrow> capability" where
  "row_cap r = projr r"

definition default_caps :: "capability list" where
  "default_caps = map row_cap (session_observe_capabilities @ input_power_media_capabilities @
                       boot_storage_capabilities @ network_runtime_capabilities)"

lemmas row_eval = capability_row_def make_capability_def CAPABILITY_FAMILIES_def row_cap_def default_scope_def

lemma session_observe_rows:
  "map_res (\<lambda>c. c) session_observe_capabilities = Inr (map row_cap session_observe_capabilities)"
  by (simp add: session_observe_capabilities_def row_eval)

lemma session_observe_ids:
  "map (cap_id \<circ> row_cap) session_observe_capabilities =
     [''session.start'', ''session.end'', ''session.select_target'', ''session.modify_policy'',
      ''session.disable_audit'', ''session.disable_emergency_stop'', ''observe.status'', ''observe.screen'',
      ''observe.screenshot'', ''observe.power_state'', ''observe.hardware_inventory'', ''observe.sensors'',
      ''observe.event_logs'', ''observe.boot_status'']"
  by (simp add: session_observe_capabilities_def row_eval)

lemma input_power_media_rows:
  "map_res (\<lambda>c. c) input_power_media_capabilities = Inr (map row_cap input_power_media_capabilities)"
  by (simp add: input_power_media_capabilities_def row_eval)

lemma input_power_media_ids:
  "map (cap_id \<circ> row_cap) input_power_media_capabilities =
     [''input.mouse_move'', ''input.mouse_click'', ''input.keyboard_type'', ''input.keyboard_key'',
      ''input.keyboard_shortcut'', ''power.on'', ''power.graceful_shutdown'', ''power.graceful_restart'',
      ''power.force_off'', ''power.force_restart'', ''power.power_cycle'', ''power.reset'',
      ''power.nmi'', ''media.mount_approved_iso'', ''media.mount_arbitrary_iso'', ''media.eject'']"
  by (simp add: input_power_media_capabilities_def row_eval)

lemma boot_storage_rows:
  "map_res (\<lambda>c. c) boot_storage_capabilities = Inr (map row_cap boot_storage_capabilities)"
  by (simp add: boot_storage_capabilities_def row_eval)

lemma boot_storage_ids:
  "map (cap_id \<circ> row_cap) boot_storage_capabilities =
     [''boot.override'', ''boot.enter_bios'', ''bios.view_settings'', ''bios.change_setting'',
      ''firmware.update_bios'', ''firmware.update_bmc'', ''storage.view_disk_layout'', ''storage.wipe_disk'',
      ''storage.repartition_disk'', ''storage.restore_backup'']"
  by (simp add: boot_storage_capabilities_def row_eval)

lemma network_runtime_rows:
  "map_res (\<lambda>c. c) network_runtime_capabilities = Inr (map row_cap network_runtime_capabilities)"
  by (simp add: network_runtime_capabilities_def row_eval)

lemma network_runtime_ids:
  "map (cap_id \<circ> row_cap) network_runtime_capabilities =
     [''network.read_config'', ''network.change_bmc_ip'', ''network.change_host_ip'', ''bmc.account_list'',
      ''bmc.rotate_password'', ''bmc.reset'', ''secrets.inject_reference'', ''secrets.raw_reveal'',
      ''runtime.noop'', ''runtime.request_clearance'', ''runtime.deny_clearance'', ''runtime.run_approved_playbook'',
      ''runtime.execute_untrusted_script'', ''runtime.call_external_webhook'', ''runtime.spawn_subagent'']"
  by (simp add: network_runtime_capabilities_def row_eval)

lemma map_res_append:
  "map_res f xs = Inr ys \<Longrightarrow> map_res f xs' = Inr ys' \<Longrightarrow> map_res f (xs @ xs') = Inr (ys @ ys')"
  by (auto simp: map_res_Inr_iff intro: list_all2_appendI)

lemma default_capabilities: "DEFAULT_CAPABILITIES = Inr default_caps"
  unfolding DEFAULT_CAPABILITIES_def default_caps_def map_append
  by (intro map_res_append session_observe_rows input_power_media_rows boot_storage_rows network_runtime_rows)

lemma default_ids_distinct: "distinct (map cap_id default_caps)"
  by (simp add: default_caps_def session_observe_ids input_power_media_ids boot_storage_ids network_runtime_ids)

lemma make_registry_fresh:
  "distinct (map cap_id cs) \<Longrightarrow> cap_id ` set cs \<inter> fst ` set reg = {} \<Longrightarrow>
     make_registry cs reg = Inr (reg @ map (\<lambda>c. (cap_id c, c)) cs)"
proof (induction cs arbitrary: reg)
  case (Cons c cs)
  then have "cap_id c \<notin> fst ` set reg" by auto
  then have "\<not> dict_has reg (cap_id c)" "dict_set (cap_id c) c reg = reg @ [(cap_id c, c)]"
    by (simp_all add: map_of_eq_None_iff dict_set_fresh)
  with Cons show ?case by auto
qed simp

lemma default_registry: "DEFAULT_CAPABILITY_REGISTRY = map (\<lambda>c. (cap_id c, c)) default_caps"
  using make_registry_fresh [OF default_ids_distinct, of "[]"]
  by (simp add: DEFAULT_CAPABILITY_REGISTRY_def default_capabilities)

lemma default_lookup_iff:
  "registry_get DEFAULT_CAPABILITY_REGISTRY i = Some c \<longleftrightarrow> c \<in> set default_caps \<and> cap_id c = i"
  using default_ids_distinct
  by (auto simp: registry_get_def default_registry map_of_eq_Some_iff comp_def)

definition row_sane :: "capability \<Rightarrow> bool" where
  "row_sane c \<longleftrightarrow>
     (cap_destructive c \<longrightarrow> cap_dangerous c \<and> cap_risk c = RL_CRITICAL) \<and>
     (cap_risk c = RL_CRITICAL \<longrightarrow> cap_dangerous c) \<and>
     (cap_id c = ''secrets.raw_reveal'' \<longrightarrow>
        cap_dangerous c \<and> cap_family c = ''secrets'' \<and> ''credential'' \<in> set (cap_required_scope c)) \<and>
     ''session'' \<in> set (cap_required_scope c) \<and>
     (cap_family c \<notin> {''session'', ''runtime''} \<longrightarrow> ''target'' \<in> set (cap_required_scope c)) \<and>
     (cap_family c = ''observe'' \<longrightarrow> \<not> cap_dangerous c) \<and>
     (cap_dangerous c \<longrightarrow> cap_id c \<notin> set LOW_RISK_CAPABILITY_IDS)"

lemma session_observe_sane: "list_all (row_sane \<circ> row_cap) session_observe_capabilities"
  by (simp add: session_observe_capabilities_def row_eval row_sane_def LOW_RISK_CAPABILITY_IDS_def)

lemma input_power_media_sane: "list_all (row_sane \<circ> row_cap) input_power_media_capabilities"
  by (simp add: input_power_media_capabilities_def row_eval row_sane_def LOW_RISK_CAPABILITY_IDS_def)

lemma boot_storage_sane: "list_all (row_sane \<circ> row_cap) boot_storage_capabilities"
  by (simp add: boot_storage_capabilities_def row_eval row_sane_def LOW_RISK_CAPABILITY_IDS_def)

lemma network_runtime_sane: "list_all (row_sane \<circ> row_cap) network_runtime_capabilities"
  by (simp add: network_runtime_capabilities_def row_eval row_sane_def LOW_RISK_CAPABILITY_IDS_def)

lemma default_row_sane: "c \<in> set default_caps \<Longrightarrow> row_sane c"
  using session_observe_sane input_power_media_sane boot_storage_sane network_runtime_sane
  by (auto simp: default_caps_def list_all_iff)

end
