(* ===== verification/Fingerprints.thy ===== *)
theory Fingerprints
  imports PyJson
begin

text \<open>
  The fingerprints that bind approvals to parameters: \<open>control_plane/fingerprints.py\<close> (operator
  approvals and grants) and \<open>control_plane/act_fingerprint.py\<close> (the values the ACT tower computes
  and the program predicts). The SHA-256 hex digest is a parameter \<open>H\<close>; what is proved says that
  two inputs with one fingerprint are equal, or exhibits two distinct texts with one digest.
\<close>

section \<open>Approval parameters\<close>

fun type_name :: "pyval \<Rightarrow> string" where
  "type_name PNone = ''NoneType''"
| "type_name (PBool b) = ''bool''"
| "type_name (PInt i) = ''int''"
| "type_name (PFloat s) = ''float''"
| "type_name (PStr s) = ''str''"
| "type_name (PBytes s) = ''bytes''"
| "type_name (PList xs) = ''list''"
| "type_name (PTuple xs) = ''tuple''"
| "type_name (PSet xs) = ''set''"
| "type_name (PDict d) = ''dict''"
| "type_name (PObj t s) = t"

fun require_str_key :: "pykey \<Rightarrow> string res" where
  "require_str_key (KStr s) = Inr s"
| "require_str_key (KOther s) = raise FingerprintError ''approval parameter keys must be strings''"

text \<open>\<open>_normalize\<close>, with the JSON value it hands to \<open>json.dumps\<close>.\<close>

fun normalize_value :: "pyval \<Rightarrow> json res" where
  "normalize_value PNone = Inr JNull"
| "normalize_value (PBool b) = Inr (JBool b)"
| "normalize_value (PInt i) = Inr (JInt i)"
| "normalize_value (PFloat s) = Inr (JFloat s)"
| "normalize_value (PStr s) = Inr (JStr s)"
| "normalize_value (PBytes s) =
     raise FingerprintError ''raw bytes cannot be fingerprinted for approval payloads''"
| "normalize_value (PDict d) =
     bind_res (map_res (\<lambda>(k, v).
       bind_res (require_str_key k) (\<lambda>key. bind_res (normalize_value v) (\<lambda>j. Inr (key, j)))) d)
       (\<lambda>kvs. Inr (JObj kvs))"
| "normalize_value (PList xs) = bind_res (map_res normalize_value xs) (\<lambda>js. Inr (JArr js))"
| "normalize_value (PTuple xs) = bind_res (map_res normalize_value xs) (\<lambda>js. Inr (JArr js))"
| "normalize_value (PSet xs) = raise FingerprintError ''unsupported approval parameter value: set''"
| "normalize_value (PObj t s) =
     raise FingerprintError (''unsupported approval parameter value: '' @ t)"

definition canonical_json :: "pyval \<Rightarrow> string res" where
  "canonical_json v = map_sum id dumps (normalize_value v)"

type_synonym params = "(string \<times> pyval) list"

definition fingerprint_parameters :: "(string \<Rightarrow> string) \<Rightarrow> params \<Rightarrow> string res" where
  "fingerprint_parameters H parameters = map_sum id H (canonical_json (pdict parameters))"

section \<open>ACT parity\<close>

text \<open>
  \<open>default=str\<close>: sets, bytes and other objects are written as their \<open>str\<close>. \<open>py_repr\<close> is \<open>repr\<close>
  of a string of Latin-1 characters. Keys that are no strings are written as their text.
\<close>

definition repr_char :: "char \<Rightarrow> char \<Rightarrow> bool \<Rightarrow> string" where
  "repr_char quote c ascii =
     (if c = quote \<or> c = CHR 0x5C then [CHR 0x5C, c]
      else if c = CHR 0x0A then [CHR 0x5C, CHR ''n'']
      else if c = CHR 0x0D then [CHR 0x5C, CHR ''r'']
      else if c = CHR 0x09 then [CHR 0x5C, CHR ''t'']
      else if (32 \<le> code_of c \<and> code_of c \<le> 126) \<or>
              (\<not> ascii \<and> 161 \<le> code_of c \<and> code_of c \<noteq> 173) then [c]
      else [CHR 0x5C, CHR ''x'', hex_digit (code_of c div 16), hex_digit (code_of c mod 16)])"

definition py_repr :: "bool \<Rightarrow> string \<Rightarrow> string" where
  "py_repr ascii s =
     (let quote = (if CHR 0x27 \<in> set s \<and> CHR ''\"'' \<notin> set s then CHR ''\"'' else CHR 0x27)
      in [quote] @ concat (map (\<lambda>c. repr_char quote c ascii) s) @ [quote])"

text \<open>\<open>str(v)\<close> of a value parsed from JSON text.\<close>

definition float_repr :: "string \<Rightarrow> string" where
  "float_repr s =
     (if s = ''NaN'' then ''nan'' else if s = ''Infinity'' then ''inf''
      else if s = ''-Infinity'' then ''-inf'' else s)"

fun json_repr :: "json \<Rightarrow> string" where
  "json_repr JNull = ''None''"
| "json_repr (JBool b) = (if b then ''True'' else ''False'')"
| "json_repr (JInt i) = str_of_int i"
| "json_repr (JFloat s) = float_repr s"
| "json_repr (JStr s) = py_repr False s"
| "json_repr (JArr xs) = ''['' @ str_join '', '' (map json_repr xs) @ '']''"
| "json_repr (JObj kvs) =
     ''{'' @ str_join '', '' (map (\<lambda>(k, v). py_repr False k @ '': '' @ json_repr v) kvs) @ ''}''"

fun json_str :: "json \<Rightarrow> string" where
  "json_str (JStr s) = s"
| "json_str v = json_repr v"

fun act_json :: "pyval \<Rightarrow> json" where
  "act_json PNone = JNull"
| "act_json (PBool b) = JBool b"
| "act_json (PInt i) = JInt i"
| "act_json (PFloat s) = JFloat s"
| "act_json (PStr s) = JStr s"
| "act_json (PBytes s) = JStr (''b'' @ py_repr True s)"
| "act_json (PList xs) = JArr (map act_json xs)"
| "act_json (PTuple xs) = JArr (map act_json xs)"
| "act_json (PSet xs) =
     JStr (if xs = [] then ''set()'' else ''{'' @ str_join '', '' (map (py_repr False) xs) @ ''}'')"
| "act_json (PDict d) = JObj (map (\<lambda>(k, v). (key_text k, act_json v)) d)"
| "act_json (PObj t s) = JStr s"

definition act_canonical_json :: "pyval \<Rightarrow> string" where
  "act_canonical_json v = dumps (act_json v)"

definition act_content_hash :: "(string \<Rightarrow> string) \<Rightarrow> pyval \<Rightarrow> string" where
  "act_content_hash H v = H (act_canonical_json v)"

definition or_empty :: "params option \<Rightarrow> params" where
  "or_empty m = (case m of None \<Rightarrow> [] | Some d \<Rightarrow> d)"

definition act_params_fingerprint :: "(string \<Rightarrow> string) \<Rightarrow> params \<Rightarrow> params option \<Rightarrow> string" where
  "act_params_fingerprint H payload_redacted extensions =
     act_content_hash H (pdict [(''payload_redacted'', pdict payload_redacted),
                                (''extensions'', pdict (or_empty extensions))])"

definition act_extensions_digest :: "(string \<Rightarrow> string) \<Rightarrow> params option \<Rightarrow> string" where
  "act_extensions_digest H extensions = act_content_hash H (pdict (or_empty extensions))"

definition act_short_code :: "(string \<Rightarrow> string) \<Rightarrow> string \<Rightarrow> string \<Rightarrow> string" where
  "act_short_code H approval_id params_fingerprint =
     str_upper (take 10 (H (approval_id @ '':'' @ params_fingerprint)))"

definition act_agentickvm_extensions ::
    "string option \<Rightarrow> string option \<Rightarrow> string option \<Rightarrow> string option \<Rightarrow> params option \<Rightarrow>
     string option \<Rightarrow> params" where
  "act_agentickvm_extensions target provider capability risk_summary policy_context session_id =
     [(''agentickvm'', pdict
        [(''target'', pyopt target), (''provider'', pyopt provider),
         (''capability'', pyopt capability), (''session_id'', pyopt session_id),
         (''risk_summary'', pyopt risk_summary),
         (''policy_context'', pdict (or_empty policy_context))])]"

section \<open>Well-formed values\<close>

text \<open>What every Python dictionary and float satisfies: distinct keys, a float's JSON text.\<close>

fun py_ok :: "pyval \<Rightarrow> bool" where
  "py_ok (PFloat s) = float_text s"
| "py_ok (PList xs) = (\<forall>x \<in> set xs. py_ok x)"
| "py_ok (PTuple xs) = (\<forall>x \<in> set xs. py_ok x)"
| "py_ok (PDict d) = (distinct (map (key_text \<circ> fst) d) \<and> (\<forall>kv \<in> set d. py_ok (snd kv)))"
| "py_ok v = True"

definition params_ok :: "params \<Rightarrow> bool" where
  "params_ok p = py_ok (pdict p)"

lemma params_ok_iff: "params_ok p \<longleftrightarrow> distinct (map fst p) \<and> (\<forall>(k, v) \<in> set p. py_ok v)"
  by (auto simp: params_ok_def pdict_def comp_def split_beta)

lemma list_all2_member: "list_all2 R xs ys \<Longrightarrow> y \<in> set ys \<Longrightarrow> \<exists>x \<in> set xs. R x y"
  by (induction xs ys rule: list_all2_induct) auto

lemma pair_Inr_iff:
  "(\<exists>a. r = Inr a \<and> (\<exists>b. t = Inr b \<and> (a, b) = y)) \<longleftrightarrow> r = Inr (fst y) \<and> t = Inr (snd y)"
  by (cases y) auto

lemma normalize_dict:
  "normalize_value (PDict d) = Inr j \<longleftrightarrow>
     (\<exists>kvs. j = JObj kvs \<and>
        list_all2 (\<lambda>x y. require_str_key (fst x) = Inr (fst y) \<and> normalize_value (snd x) = Inr (snd y)) d kvs)"
  by (auto simp: bind_res_Inr_iff map_res_Inr_iff split_beta pair_Inr_iff)

lemma normalize_json_ok: "py_ok v \<Longrightarrow> normalize_value v = Inr j \<Longrightarrow> json_ok j"
proof (induction v arbitrary: j)
  case (PList xs)
  then show ?case
    by (auto simp: bind_res_Inr_iff map_res_Inr_iff list_all2_conv_all_nth in_set_conv_nth) (metis nth_mem)
next
  case (PTuple xs)
  then show ?case
    by (auto simp: bind_res_Inr_iff map_res_Inr_iff list_all2_conv_all_nth in_set_conv_nth) (metis nth_mem)
next
  case (PDict d)
  then obtain kvs where j: "j = JObj kvs"
    and kvs: "list_all2 (\<lambda>x y. require_str_key (fst x) = Inr (fst y) \<and> normalize_value (snd x) = Inr (snd y)) d kvs"
    by (auto simp only: normalize_dict)
  have "json_ok (snd kv)" if "kv \<in> set kvs" for kv
  proof -
    from list_all2_member [OF kvs that] obtain dv where "dv \<in> set d" "normalize_value (snd dv) = Inr (snd kv)"
      by blast
    with PDict show ?thesis by (cases dv) auto
  qed
  with j show ?case by simp
qed auto

lemma act_json_ok: "py_ok v \<Longrightarrow> json_ok (act_json v)"
  by (induction v) auto

section \<open>What a fingerprint binds\<close>

lemma normalize_pdict:
  "normalize_value (pdict p) = Inr j \<longleftrightarrow>
     (\<exists>kvs. j = JObj kvs \<and> list_all2 (\<lambda>x y. fst x = fst y \<and> normalize_value (snd x) = Inr (snd y)) p kvs)"
  by (simp only: pdict_def normalize_dict list_all2_map1) (simp add: split_beta)

lemma list_all2_lookup:
  assumes "list_all2 (\<lambda>x y. fst x = fst y \<and> R (snd x) (snd y)) p kvs"
  shows "map fst kvs = map fst p" "rel_option R (map_of p k) (map_of kvs k)"
  using assms by (induction p kvs rule: list_all2_induct) auto

fun is_scalar :: "pyval \<Rightarrow> bool" where
  "is_scalar PNone = True"
| "is_scalar (PBool b) = True"
| "is_scalar (PInt i) = True"
| "is_scalar (PFloat s) = True"
| "is_scalar (PStr s) = True"
| "is_scalar v = False"

lemma scalar_normalize_inj:
  "is_scalar v \<Longrightarrow> normalize_value v = Inr i \<Longrightarrow> normalize_value w = Inr j \<Longrightarrow> canon i = canon j \<Longrightarrow> w = v"
  by (cases v; cases w) (auto simp: bind_res_Inr_iff)

lemma normalize_lookup:
  assumes "normalize_value (pdict p) = Inr i" "normalize_value (pdict q) = Inr j" "canon i = canon j"
    and "params_ok p" "params_ok q" "is_scalar v" "dict_get p k = Some v"
  shows "dict_get q k = Some v"
proof -
  let ?R = "\<lambda>v jv. normalize_value v = Inr jv"
  obtain kvs where i: "i = JObj kvs" "list_all2 (\<lambda>x y. fst x = fst y \<and> ?R (snd x) (snd y)) p kvs"
    using assms(1) by (auto simp: normalize_pdict)
  obtain lvs where j: "j = JObj lvs" "list_all2 (\<lambda>x y. fst x = fst y \<and> ?R (snd x) (snd y)) q lvs"
    using assms(2) by (auto simp: normalize_pdict)
  from i(2) have "distinct (map fst kvs)" and ki: "rel_option ?R (dict_get p k) (dict_get kvs k)"
    using list_all2_lookup [of ?R p kvs] assms(4) by (auto simp: params_ok_iff)
  moreover from j(2) have "distinct (map fst lvs)" and kj: "rel_option ?R (dict_get q k) (dict_get lvs k)"
    using list_all2_lookup [of ?R q lvs] assms(5) by (auto simp: params_ok_iff)
  ultimately have "map_option canon (dict_get kvs k) = map_option canon (dict_get lvs k)"
    using canon_obj_lookup assms(3) i(1) j(1) by blast
  moreover obtain ji where ji: "dict_get kvs k = Some ji" "normalize_value v = Inr ji"
    using ki assms(7) by (auto simp: option_rel_Some1)
  ultimately obtain jj where jj: "dict_get lvs k = Some jj" "canon ji = canon jj"
    by (cases "dict_get lvs k") simp_all
  then obtain w where "dict_get q k = Some w" "normalize_value w = Inr jj"
    using kj by (auto simp: option_rel_Some2)
  with scalar_normalize_inj [OF assms(6) ji(2) _ jj(2)] show ?thesis by simp
qed

definition collision :: "(string \<Rightarrow> string) \<Rightarrow> bool" where
  "collision H \<longleftrightarrow> (\<exists>s t. s \<noteq> t \<and> H s = H t)"

lemma collisionI: "H s = H t \<Longrightarrow> s \<noteq> t \<Longrightarrow> collision H"
  by (auto simp: collision_def)

lemma collision_free_inj: "\<not> collision H \<longleftrightarrow> inj H"
  by (auto simp: collision_def inj_def)

lemma fingerprint_Inr:
  "fingerprint_parameters H p = Inr f \<longleftrightarrow>
     (\<exists>j. normalize_value (pdict p) = Inr j \<and> f = H (dumps j))"
  by (cases "normalize_value (pdict p)") (auto simp: fingerprint_parameters_def canonical_json_def)

lemma map_res_Inl:
  "map_res f xs = Inl e \<Longrightarrow> \<exists>x \<in> set xs. f x = Inl e"
  by (induction xs) (auto simp: bind_res_Inl_iff)

lemma normalize_error: "normalize_value v = Inl e \<Longrightarrow> exn_class_of e = FingerprintError"
proof (induction v)
  case (PDict d)
  from PDict.prems obtain k v where kv: "(k, v) \<in> set d"
    "require_str_key k = Inl e \<or> normalize_value v = Inl e"
    by (auto simp: bind_res_Inl_iff dest!: map_res_Inl)
  then show ?case using PDict.IH [of "(k, v)" v] by (cases k) (auto simp: raise_def)
qed (auto simp: bind_res_Inl_iff raise_def dest!: map_res_Inl)

lemma fingerprint_error:
  "fingerprint_parameters H p = Inl e \<Longrightarrow> exn_class_of e = FingerprintError"
  by (cases "normalize_value (pdict p)")
    (auto simp: fingerprint_parameters_def canonical_json_def normalize_error)

lemma fingerprint_binds_value:
  assumes "fingerprint_parameters H p = Inr f" "fingerprint_parameters H q = Inr f"
    and "params_ok p" "params_ok q"
  shows "(\<exists>i j. normalize_value (pdict p) = Inr i \<and> normalize_value (pdict q) = Inr j \<and> canon i = canon j)
    \<or> collision H"
proof -
  obtain i j where ij: "normalize_value (pdict p) = Inr i" "normalize_value (pdict q) = Inr j"
      "H (dumps i) = H (dumps j)"
    using assms(1,2) by (auto simp: fingerprint_Inr)
  have ok: "json_ok i" "json_ok j"
    using ij assms(3,4) normalize_json_ok by (auto simp: params_ok_def)
  show ?thesis
  proof (cases "dumps i = dumps j")
    case True
    with dumps_inj ok ij show ?thesis by blast
  next
    case False
    with ij show ?thesis by (blast intro: collisionI)
  qed
qed

lemma fingerprint_binds_scalars:
  assumes "fingerprint_parameters H p = Inr f" "fingerprint_parameters H q = Inr f"
    and "params_ok p" "params_ok q" "\<not> collision H" "is_scalar v"
  shows "dict_get p k = Some v \<longleftrightarrow> dict_get q k = Some v"
proof -
  obtain i j where "normalize_value (pdict p) = Inr i" "normalize_value (pdict q) = Inr j" "canon i = canon j"
    using fingerprint_binds_value [OF assms(1-4)] assms(5) by blast
  then show ?thesis using normalize_lookup assms(3,4,6) by metis
qed

text \<open>The tower's fingerprint binds the redacted payload and the extensions envelope.\<close>

lemma act_pdict: "act_json (pdict p) = JObj (map (\<lambda>(k, v). (k, act_json v)) p)"
  by (simp add: pdict_def comp_def split_beta)

lemma act_hash_binds:
  assumes "act_content_hash H v = act_content_hash H w" "py_ok v" "py_ok w" "\<not> collision H"
  shows "canon (act_json v) = canon (act_json w)"
proof -
  have "dumps (act_json v) = dumps (act_json w)"
    using assms(1,4) by (auto simp: act_content_hash_def act_canonical_json_def collision_def)
  with assms(2,3) show ?thesis by (simp add: dumps_inj act_json_ok)
qed

lemma act_fingerprint_binds:
  assumes "act_params_fingerprint H p e = act_params_fingerprint H q f"
    and "params_ok p" "params_ok q" "params_ok (or_empty e)" "params_ok (or_empty f)" "\<not> collision H"
  shows "canon (act_json (pdict p)) = canon (act_json (pdict q))"
    and "canon (act_json (pdict (or_empty e))) = canon (act_json (pdict (or_empty f)))"
proof -
  let ?kvs = "\<lambda>p e. [(''payload_redacted'', act_json (pdict p)), (''extensions'', act_json (pdict (or_empty e)))]"
  have "canon (JObj (?kvs p e)) = canon (JObj (?kvs q f))"
    using act_hash_binds [OF assms(1) [unfolded act_params_fingerprint_def]] assms(2-6)
    by (simp add: params_ok_iff act_pdict) (simp add: pdict_def params_ok_iff comp_def split_beta)
  then have "map_option canon (map_of (?kvs p e) k) = map_option canon (map_of (?kvs q f) k)" for k
    by (rule canon_obj_lookup) simp_all
  from this [of "''payload_redacted''"] this [of "''extensions''"]
  show "canon (act_json (pdict p)) = canon (act_json (pdict q))"
    and "canon (act_json (pdict (or_empty e))) = canon (act_json (pdict (or_empty f)))"
    by simp_all
qed

end
