(* ===== verification/PyTime.thy ===== *)
theory PyTime
  imports PyText
begin

text \<open>
  Python's \<open>datetime\<close> as the code uses it: comparison, conversion to UTC, adding seconds, and
  ISO text. Times are counted in microseconds from 1970-01-01T00:00:00 UTC. Years outside 1 to
  9999, where Python raises \<open>OverflowError\<close>, are outside the model.
\<close>

section \<open>Values\<close>

text \<open>
  An aware value is its instant and its UTC offset in seconds. A naive value is its wall time and
  the instant the host's local zone assigns to it (what \<open>astimezone\<close> computes on that host).
\<close>

datatype datetime =
    Aware int int \<comment> \<open>instant, offset\<close>
  | Naive int int \<comment> \<open>wall time, instant in the local zone\<close>

fun is_aware :: "datetime \<Rightarrow> bool" where
  "is_aware (Aware i off) = True"
| "is_aware (Naive w i) = False"

fun instant :: "datetime \<Rightarrow> int" where
  "instant (Aware i off) = i"
| "instant (Naive w i) = i"

text \<open>\<open>a < b\<close>: comparing an aware with a naive value raises \<open>TypeError\<close>.\<close>

fun dt_less :: "datetime \<Rightarrow> datetime \<Rightarrow> bool res" where
  "dt_less (Aware i a) (Aware j b) = Inr (i < j)"
| "dt_less (Naive v i) (Naive w j) = Inr (v < w)"
| "dt_less x y = raise TypeError ''can't compare offset-naive and offset-aware datetimes''"

definition dt_geq :: "datetime \<Rightarrow> datetime \<Rightarrow> bool res" where
  "dt_geq x y = bind_res (dt_less x y) (\<lambda>b. Inr (\<not> b))"

definition dt_leq :: "datetime \<Rightarrow> datetime \<Rightarrow> bool res" where
  "dt_leq x y = bind_res (dt_less y x) (\<lambda>b. Inr (\<not> b))"

text \<open>\<open>t.astimezone(UTC)\<close>\<close>

definition to_utc :: "datetime \<Rightarrow> datetime" where
  "to_utc t = Aware (instant t) 0"

text \<open>\<open>t + timedelta(seconds=n)\<close> on an aware value (naive: the wall time moves with it).\<close>

fun plus_seconds :: "datetime \<Rightarrow> int \<Rightarrow> datetime" where
  "plus_seconds (Aware i off) n = Aware (i + 1000000 * n) off"
| "plus_seconds (Naive w i) n = Naive (w + 1000000 * n) (i + 1000000 * n)"

lemma to_utc_simps [simp]: "is_aware (to_utc t)" "instant (to_utc t) = instant t"
  by (simp_all add: to_utc_def)

lemma dt_less_utc [simp]: "dt_less (to_utc x) (to_utc y) = Inr (instant x < instant y)"
  by (simp add: to_utc_def)

lemma dt_geq_utc [simp]: "dt_geq (to_utc x) (to_utc y) = Inr (instant y \<le> instant x)"
  by (auto simp: dt_geq_def)

lemma dt_less_aware: "is_aware x \<Longrightarrow> is_aware y \<Longrightarrow> dt_less x y = Inr (instant x < instant y)"
  by (cases x; cases y) auto

lemma dt_less_total_iff: "(\<exists>b. dt_less x y = Inr b) \<longleftrightarrow> is_aware x = is_aware y"
  by (cases x; cases y) auto

lemma dt_geq_Inr: "dt_geq x y = Inr b \<longleftrightarrow> dt_less x y = Inr (\<not> b)"
  by (cases "dt_less x y") (auto simp: dt_geq_def)

lemma dt_leq_Inr: "dt_leq x y = Inr b \<longleftrightarrow> dt_less y x = Inr (\<not> b)"
  by (cases "dt_less y x") (auto simp: dt_leq_def)

lemma plus_seconds_simps [simp]:
  "is_aware (plus_seconds t n) = is_aware t"
  "instant (plus_seconds t n) = instant t + 1000000 * n"
  by (cases t; simp)+

text \<open>Comparison is transitive in the way the expiry checks use it.\<close>

lemma dt_less_trans_leq:
  "dt_less x y = Inr True \<Longrightarrow> dt_less z x = Inr False \<Longrightarrow> is_aware x \<Longrightarrow> instant x < instant y \<and> instant x \<le> instant z"
  by (cases x; cases y; cases z) auto

section \<open>ISO text\<close>

text \<open>The proleptic Gregorian date of a day number (days since 1970-01-01).\<close>

definition civil_of_days :: "int \<Rightarrow> int \<times> int \<times> int" where
  "civil_of_days days =
     (let z = days + 719468; era = z div 146097; doe = z - era * 146097;
          yoe = (doe - doe div 1460 + doe div 36524 - doe div 146096) div 365;
          doy = doe - (365 * yoe + yoe div 4 - yoe div 100);
          mp = (5 * doy + 2) div 153;
          d = doy - (153 * mp + 2) div 5 + 1;
          m = (if mp < 10 then mp + 3 else mp - 9);
          y = yoe + era * 400 + (if m \<le> 2 then 1 else 0)
      in (y, m, d))"

definition padded :: "nat \<Rightarrow> int \<Rightarrow> string" where
  "padded n i = (let s = str_of_int i in replicate (n - length s) (CHR ''0'') @ s)"

definition iso_offset :: "int \<Rightarrow> string" where
  "iso_offset off =
     (let a = \<bar>off\<bar> in
      (if off < 0 then ''-'' else ''+'') @ padded 2 (a div 3600) @ '':'' @ padded 2 (a div 60 mod 60) @
      (if a mod 60 = 0 then [] else '':'' @ padded 2 (a mod 60)))"

definition iso_wall :: "int \<Rightarrow> string" where
  "iso_wall w =
     (let us = w mod 1000000; secs = w div 1000000; day = secs div 86400; t = secs mod 86400
      in (case civil_of_days day of (y, m, d) \<Rightarrow>
           padded 4 y @ ''-'' @ padded 2 m @ ''-'' @ padded 2 d @ ''T'' @
           padded 2 (t div 3600) @ '':'' @ padded 2 (t div 60 mod 60) @ '':'' @ padded 2 (t mod 60) @
           (if us = 0 then [] else ''.'' @ padded 6 us)))"

text \<open>\<open>t.isoformat()\<close>\<close>

fun isoformat :: "datetime \<Rightarrow> string" where
  "isoformat (Aware i off) = iso_wall (i + 1000000 * off) @ iso_offset off"
| "isoformat (Naive w i) = iso_wall w"

text \<open>
  \<open>datetime.fromisoformat\<close> on the extended format that \<open>isoformat\<close> writes, with \<open>Z\<close> as well:
  \<open>YYYY-MM-DD?HH:MM:SS[.f..][(+|-)HH:MM[:SS]|Z]\<close>. The other ISO 8601 forms Python reads are outside
  the model. The local zone's instant of a naive value is its wall time (a host on UTC).
\<close>

definition days_from_civil :: "int \<Rightarrow> int \<Rightarrow> int \<Rightarrow> int" where
  "days_from_civil y m d =
     (let y' = (if m \<le> 2 then y - 1 else y); era = y' div 400; yoe = y' - era * 400;
          doy = (153 * (if m > 2 then m - 3 else m + 9) + 2) div 5 + d - 1;
          doe = yoe * 365 + yoe div 4 - yoe div 100 + doy
      in era * 146097 + doe - 719468)"

definition days_in_month :: "int \<Rightarrow> int \<Rightarrow> int" where
  "days_in_month y m =
     (if m = 2 then (if y mod 4 = 0 \<and> (y mod 100 \<noteq> 0 \<or> y mod 400 = 0) then 29 else 28)
      else if m \<in> {4, 6, 9, 11} then 30 else 31)"

fun digits_value :: "string \<Rightarrow> int \<Rightarrow> int option" where
  "digits_value [] acc = Some acc"
| "digits_value (c # cs) acc =
     (if is_digit c then digits_value cs (10 * acc + int (code_of c) - 48) else None)"

text \<open>Exactly \<open>n\<close> digits, and the text after them.\<close>

definition take_number :: "nat \<Rightarrow> string \<Rightarrow> (int \<times> string) option" where
  "take_number n s =
     (if length s < n then None
      else map_option (\<lambda>v. (v, drop n s)) (digits_value (take n s) 0))"

definition take_char :: "char \<Rightarrow> string \<Rightarrow> string option" where
  "take_char c s = (case s of [] \<Rightarrow> None | d # ds \<Rightarrow> if d = c then Some ds else None)"

definition parse_date :: "string \<Rightarrow> (int \<times> string) option" where
  "parse_date s =
     Option.bind (take_number 4 s) (\<lambda>(y, s1). Option.bind (take_char (CHR ''-'') s1) (\<lambda>s2.
     Option.bind (take_number 2 s2) (\<lambda>(m, s3). Option.bind (take_char (CHR ''-'') s3) (\<lambda>s4.
     Option.bind (take_number 2 s4) (\<lambda>(d, s5).
       if 1 \<le> y \<and> 1 \<le> m \<and> m \<le> 12 \<and> 1 \<le> d \<and> d \<le> days_in_month y m
       then Some (days_from_civil y m d, s5) else None)))))"

definition parse_hms :: "string \<Rightarrow> (int \<times> string) option" where
  "parse_hms s =
     Option.bind (take_number 2 s) (\<lambda>(h, s1). Option.bind (take_char (CHR '':'') s1) (\<lambda>s2.
     Option.bind (take_number 2 s2) (\<lambda>(m, s3). Option.bind (take_char (CHR '':'') s3) (\<lambda>s4.
     Option.bind (take_number 2 s4) (\<lambda>(sec, s5).
       if h < 24 \<and> m < 60 \<and> sec < 60 then Some (h * 3600 + m * 60 + sec, s5) else None)))))"

text \<open>The fraction: up to six digits count, further digits are dropped.\<close>

definition parse_fraction :: "string \<Rightarrow> (int \<times> string) option" where
  "parse_fraction s =
     (case take_char (CHR ''.'') s of
        None \<Rightarrow> Some (0, s)
      | Some t \<Rightarrow>
          let ds = takeWhile is_digit t; six = take 6 ds
          in if ds = [] then None
             else map_option (\<lambda>v. (v * 10 ^ (6 - length six), drop (length ds) t)) (digits_value six 0))"

definition parse_offset :: "string \<Rightarrow> int option option" where
  "parse_offset s =
     (case s of
        [] \<Rightarrow> Some None
      | c # cs \<Rightarrow>
          if c = CHR ''Z'' \<and> cs = [] then Some (Some 0)
          else if c = CHR ''+'' \<or> c = CHR ''-'' then
            Option.bind (take_number 2 cs) (\<lambda>(h, s1). Option.bind (take_char (CHR '':'') s1) (\<lambda>s2.
            Option.bind (take_number 2 s2) (\<lambda>(m, s3).
            Option.bind (if s3 = [] then Some (0, [])
                         else Option.bind (take_char (CHR '':'') s3) (take_number 2)) (\<lambda>(sec, s4).
              if s4 = [] \<and> h < 24 \<and> m < 60 \<and> sec < 60
              then Some (Some ((if c = CHR ''-'' then -1 else 1) * (h * 3600 + m * 60 + sec)))
              else None))))
          else None)"

definition fromisoformat :: "string \<Rightarrow> datetime res" where
  "fromisoformat s =
     (case Option.bind (parse_date s) (\<lambda>(day, s1).
           Option.bind (if s1 = [] then None else parse_hms (tl s1)) (\<lambda>(t, s2).
           Option.bind (parse_fraction s2) (\<lambda>(us, s3).
           Option.bind (parse_offset s3) (\<lambda>off.
             let wall = (day * 86400 + t) * 1000000 + us
             in Some (case off of None \<Rightarrow> Naive wall wall | Some o' \<Rightarrow> Aware (wall - 1000000 * o') o'))))) of
        Some d \<Rightarrow> Inr d
      | None \<Rightarrow> raise ValueError (''Invalid isoformat string''))"

end
