(* ===== verification/StateRes.thy ===== *)
theory StateRes
  imports Prelude
begin

text \<open>
  Operations that read and update a state and may raise: a function from the state to a result and
  the state left behind, also by an exception (the code rolls nothing back). With the sequencing
  combinator come its inversion rule and the relations that every step of a sequence keeps.
\<close>

type_synonym ('s, 'a) op = "'s \<Rightarrow> 'a res \<times> 's"

definition ret :: "'a \<Rightarrow> ('s, 'a) op" where
  "ret x s = (Inr x, s)"

definition throw :: "exn_class \<Rightarrow> string \<Rightarrow> ('s, 'a) op" where
  "throw c m s = (raise c m, s)"

definition lift_res :: "'a res \<Rightarrow> ('s, 'a) op" where
  "lift_res r s = (r, s)"

definition modify_op :: "('s \<Rightarrow> 's) \<Rightarrow> ('s, unit) op" where
  "modify_op f s = (Inr (), f s)"

definition get_op :: "('s \<Rightarrow> 'a) \<Rightarrow> ('s, 'a) op" where
  "get_op f s = (Inr (f s), s)"

definition bind_op :: "('s, 'a) op \<Rightarrow> ('a \<Rightarrow> ('s, 'b) op) \<Rightarrow> ('s, 'b) op" where
  "bind_op m k s = (case m s of (Inl e, s') \<Rightarrow> (Inl e, s') | (Inr x, s') \<Rightarrow> k x s')"

definition seq_op :: "('s, unit) op \<Rightarrow> ('s, 'b) op \<Rightarrow> ('s, 'b) op" where
  "seq_op m n = bind_op m (\<lambda>_. n)"

lemma op_simps [simp]:
  "ret x s = (Inr x, s)" "throw c m s = (raise c m, s)" "lift_res r s = (r, s)"
  "modify_op f s = (Inr (), f s)" "get_op g s = (Inr (g s), s)"
  by (simp_all add: ret_def throw_def lift_res_def modify_op_def get_op_def)

lemma bind_op_simps [simp]:
  "bind_op (ret x) k s = k x s" "bind_op (get_op g) k2 s = k2 (g s) s"
  "bind_op (modify_op f) k' s = k' () (f s)" "bind_op (throw c m) k'' s = (raise c m, s)"
  "seq_op (modify_op f) n s = n (f s)"
  by (simp_all add: bind_op_def seq_op_def raise_def)

lemma bind_op_lift [simp]:
  "bind_op (lift_res r) k s = (case r of Inl e \<Rightarrow> (Inl e, s) | Inr x \<Rightarrow> k x s)"
  by (auto simp: bind_op_def split: sum.splits)

lemma bind_opE:
  assumes "bind_op m k s = (x, s')"
  obtains (raised) e where "m s = (Inl e, s')" "x = Inl e"
  | (went_on) y s1 where "m s = (Inr y, s1)" "k y s1 = (x, s')"
  using assms by (auto simp: bind_op_def split: prod.splits sum.splits)

lemma seq_opE:
  assumes "seq_op m n s = (x, s')"
  obtains (raised) e where "m s = (Inl e, s')" "x = Inl e"
  | (went_on) s1 where "m s = (Inr (), s1)" "n s1 = (x, s')"
  using assms by (auto simp: seq_op_def elim!: bind_opE)

lemma bind_op_Inr:
  "bind_op m k s = (Inr z, s') \<longleftrightarrow> (\<exists>y s1. m s = (Inr y, s1) \<and> k y s1 = (Inr z, s'))"
  by (auto simp: bind_op_def split: prod.splits sum.splits)

lemma seq_op_Inr:
  "seq_op m n s = (Inr z, s') \<longleftrightarrow> (\<exists>s1. m s = (Inr (), s1) \<and> n s1 = (Inr z, s'))"
  by (auto simp: seq_op_def bind_op_Inr)

section \<open>Relations kept by every step\<close>

definition keeps :: "('s \<Rightarrow> 's \<Rightarrow> bool) \<Rightarrow> ('s, 'a) op \<Rightarrow> bool" where
  "keeps R m \<longleftrightarrow> (\<forall>s x s'. m s = (x, s') \<longrightarrow> R s s')"

named_theorems keeps_intros \<open>an operation keeps a relation\<close>

lemma keepsD: "keeps R m \<Longrightarrow> m s = (x, s') \<Longrightarrow> R s s'"
  by (auto simp: keeps_def)

locale step_relation =
  fixes R :: "'s \<Rightarrow> 's \<Rightarrow> bool"
  assumes refl: "R s s" and trans: "R s t \<Longrightarrow> R t u \<Longrightarrow> R s u"
begin

lemma keeps_ret: "keeps R (ret x)" and keeps_throw: "keeps R (throw c m)"
  and keeps_lift: "keeps R (lift_res r)" and keeps_get: "keeps R (get_op f)"
  by (auto simp: keeps_def refl)

lemma keeps_bind: "keeps R m \<Longrightarrow> (\<And>x. keeps R (k x)) \<Longrightarrow> keeps R (bind_op m k)"
  unfolding keeps_def by (blast elim: bind_opE intro: trans)

lemma keeps_seq: "keeps R m \<Longrightarrow> keeps R n \<Longrightarrow> keeps R (seq_op m n)"
  by (simp add: seq_op_def keeps_bind)

lemma keeps_if: "keeps R m \<Longrightarrow> keeps R n \<Longrightarrow> keeps R (if b then m else n)"
  by simp

lemma keeps_modify: "(\<And>s. R s (f s)) \<Longrightarrow> keeps R (modify_op f)"
  by (auto simp: keeps_def)

lemmas keeps_rules = keeps_ret keeps_throw keeps_lift keeps_get keeps_bind keeps_seq keeps_if

end

text \<open>Every preorder on a projection of the state is such a relation.\<close>

lemma step_relation_of: "(\<And>x. Q x x) \<Longrightarrow> (\<And>x y z. Q x y \<Longrightarrow> Q y z \<Longrightarrow> Q x z) \<Longrightarrow> step_relation (\<lambda>s t. Q (f s) (f t))"
  by unfold_locales blast+

section \<open>Pre- and postconditions\<close>

text \<open>
  From \<open>P\<close>, the operation returns \<open>y\<close> in a state with \<open>Q y\<close> or raises in a state with \<open>X\<close>. The
  rules follow the shape of the operation.
\<close>

definition triple :: "('s \<Rightarrow> bool) \<Rightarrow> ('s, 'a) op \<Rightarrow> ('a \<Rightarrow> 's \<Rightarrow> bool) \<Rightarrow> ('s \<Rightarrow> bool) \<Rightarrow> bool" where
  "triple P m Q X \<longleftrightarrow>
     (\<forall>s x s'. P s \<longrightarrow> m s = (x, s') \<longrightarrow> (case x of Inl e \<Rightarrow> X s' | Inr y \<Rightarrow> Q y s'))"

lemma tripleI:
  assumes "\<And>s y s'. P s \<Longrightarrow> m s = (Inr y, s') \<Longrightarrow> Q y s'" "\<And>s e s'. P s \<Longrightarrow> m s = (Inl e, s') \<Longrightarrow> X s'"
  shows "triple P m Q X"
  using assms by (auto simp: triple_def split: sum.splits)

lemma tripleD:
  assumes "triple P m Q X" "m s = (x, s')" "P s"
  shows "case x of Inl e \<Rightarrow> X s' | Inr y \<Rightarrow> Q y s'"
  using assms by (auto simp: triple_def)

lemma triple_ret: "(\<And>s. P s \<Longrightarrow> Q y s) \<Longrightarrow> triple P (ret y) Q X"
  by (auto simp: triple_def)

lemma triple_throw: "(\<And>s. P s \<Longrightarrow> X s) \<Longrightarrow> triple P (throw c m) Q X"
  by (auto simp: triple_def raise_def)

lemma triple_lift: "(\<And>y s. r = Inr y \<Longrightarrow> P s \<Longrightarrow> Q y s) \<Longrightarrow> (\<And>s. P s \<Longrightarrow> X s) \<Longrightarrow> triple P (lift_res r) Q X"
  by (auto simp: triple_def split: sum.splits)

lemma triple_get: "(\<And>s. P s \<Longrightarrow> Q (f s) s) \<Longrightarrow> triple P (get_op f) Q X"
  by (auto simp: triple_def)

lemma triple_modify: "(\<And>s. P s \<Longrightarrow> Q () (f s)) \<Longrightarrow> triple P (modify_op f) Q X"
  by (auto simp: triple_def)

lemma triple_bind:
  "triple P m R X \<Longrightarrow> (\<And>y. triple (R y) (k y) Q X) \<Longrightarrow> triple P (bind_op m k) Q X"
  unfolding triple_def by (fastforce simp: bind_op_def split: prod.splits sum.splits)

lemma triple_seq:
  "triple P m (\<lambda>_. R) X \<Longrightarrow> triple R n Q X \<Longrightarrow> triple P (seq_op m n) Q X"
  unfolding seq_op_def by (rule triple_bind) auto

lemma triple_if:
  "(b \<Longrightarrow> triple P m Q X) \<Longrightarrow> (\<not> b \<Longrightarrow> triple P n Q X) \<Longrightarrow> triple P (if b then m else n) Q X"
  by simp

lemma triple_option:
  "(v = None \<Longrightarrow> triple P m Q X) \<Longrightarrow> (\<And>y. v = Some y \<Longrightarrow> triple P (k y) Q X) \<Longrightarrow>
     triple P (case v of None \<Rightarrow> m | Some y \<Rightarrow> k y) Q X"
  by (cases v) auto

lemma triple_weaken:
  "triple P' m Q' X' \<Longrightarrow> (\<And>s. P s \<Longrightarrow> P' s) \<Longrightarrow> (\<And>y s. Q' y s \<Longrightarrow> Q y s) \<Longrightarrow> (\<And>s. X' s \<Longrightarrow> X s) \<Longrightarrow>
     triple P m Q X"
  unfolding triple_def by (fastforce split: sum.splits)

text \<open>A fact that holds of no state change may be assumed outright.\<close>

lemma triple_pure: "(b \<Longrightarrow> triple P m Q X) \<Longrightarrow> triple (\<lambda>s. b \<and> P s) m Q X"
  by (auto simp: triple_def)

lemma triple_keeps: "(\<And>s t. R s t \<Longrightarrow> P s \<Longrightarrow> P t) \<Longrightarrow> keeps R m \<Longrightarrow> triple P m (\<lambda>_. P) P"
  by (fastforce simp: triple_def keeps_def split: sum.splits)

lemmas triple_rules = triple_ret triple_throw triple_lift triple_get triple_modify triple_if triple_option

end
