(* ===== verification/Providers.thy ===== *)
theory Providers
  imports Redaction Capabilities Fingerprints PyTime StateRes
begin

text \<open>
  \<open>providers/base.py\<close>: what a provider adapter is asked and answers, its local validation, and the
  redacted envelope of a result; and \<open>providers/mock.py\<close>: the simulated target. \<open>adapter\<close> is the
  contract of an adapter that the callers rely on.
\<close>

section \<open>Requests and results\<close>

record provider_request =
  prq_capability :: string
  prq_action :: string
  prq_target_id :: string
  prq_session_id :: string
  prq_correlation_id :: string
  prq_parameters :: params

definition redacted_parameters :: "provider_request \<Rightarrow> params" where
  "redacted_parameters r = fst (redact_mapping None (prq_parameters r))"

record provider_result =
  prs_ok :: bool
  prs_provider_id :: string
  prs_capability :: string
  prs_action :: string
  prs_target_id :: string
  prs_performed_on_hardware :: bool
  prs_message :: string
  prs_data :: params
  prs_provider_type :: "string option"
  prs_warnings :: "string list"
  prs_redacted :: bool
  prs_error_code :: "string option"
  prs_error_message :: "string option"
  prs_retryable :: bool
  prs_timestamp :: "string option"

text \<open>A result with the defaults of the dataclass.\<close>

definition base_result ::
    "bool \<Rightarrow> string \<Rightarrow> string \<Rightarrow> string \<Rightarrow> string \<Rightarrow> bool \<Rightarrow> string \<Rightarrow> params \<Rightarrow> provider_result" where
  "base_result ok provider_id capability action target_id performed message data =
     \<lparr>prs_ok = ok, prs_provider_id = provider_id, prs_capability = capability, prs_action = action,
      prs_target_id = target_id, prs_performed_on_hardware = performed, prs_message = message,
      prs_data = data, prs_provider_type = None, prs_warnings = [], prs_redacted = True,
      prs_error_code = None, prs_error_message = None, prs_retryable = False, prs_timestamp = None\<rparr>"

definition or_empty :: "string option \<Rightarrow> string" where
  "or_empty s = (case s of None \<Rightarrow> [] | Some t \<Rightarrow> t)"

definition text_or :: "string option \<Rightarrow> string \<Rightarrow> string" where
  "text_or s d = (if or_empty s = [] then d else or_empty s)"

definition redacted :: "pyval \<Rightarrow> pyval" where
  "redacted v = red_value (redact_value False [] [] v)"

definition normalized :: "provider_result \<Rightarrow> params" where
  "normalized r =
     [(''status'', PStr (if prs_ok r then ''ok'' else ''error'')),
      (''provider_id'', PStr (prs_provider_id r)),
      (''provider_type'', PStr (text_or (prs_provider_type r) (prs_provider_id r))),
      (''target'', PStr (prs_target_id r)), (''capability'', PStr (prs_capability r)),
      (''data'', redacted (pdict (prs_data r))),
      (''warnings'', PList (map PStr (prs_warnings r))), (''redacted'', PBool (prs_redacted r)),
      (''error_code'', pyopt (prs_error_code r)),
      (''error_message'', redacted (PStr (or_empty (prs_error_message r)))),
      (''retryable'', PBool (prs_retryable r)),
      (''performed_on_hardware'', PBool (prs_performed_on_hardware r))] @
     (case prs_timestamp r of None \<Rightarrow> [] | Some t \<Rightarrow> [(''timestamp'', PStr t)])"

section \<open>Adapters\<close>

text \<open>The class attributes of an adapter.\<close>

record adapter_info =
  ad_provider_id :: string
  ad_provider_kind :: string
  ad_enabled :: bool
  ad_is_real_hardware :: bool
  ad_risk_class :: string
  ad_supported :: "string list"

record provider_status =
  pst_provider_id :: string
  pst_provider_kind :: string
  pst_enabled :: bool
  pst_is_real_hardware :: bool
  pst_risk_class :: string
  pst_supported :: "string list"
  pst_message :: string

record provider_validation =
  pvr_ok :: bool
  pvr_provider_id :: string
  pvr_capability :: string
  pvr_message :: string

definition supports :: "adapter_info \<Rightarrow> string \<Rightarrow> bool" where
  "supports a capability \<longleftrightarrow> capability \<in> set (ad_supported a)"

definition status_of :: "adapter_info \<Rightarrow> provider_status" where
  "status_of a =
     \<lparr>pst_provider_id = ad_provider_id a, pst_provider_kind = ad_provider_kind a,
      pst_enabled = ad_enabled a, pst_is_real_hardware = ad_is_real_hardware a,
      pst_risk_class = ad_risk_class a, pst_supported = sort (remdups (ad_supported a)),
      pst_message = ''provider status is local only''\<rparr>"

definition validate_authorized :: "adapter_info \<Rightarrow> provider_request \<Rightarrow> provider_validation" where
  "validate_authorized a r =
     (let answer = (\<lambda>ok message. \<lparr>pvr_ok = ok, pvr_provider_id = ad_provider_id a,
                                  pvr_capability = prq_capability r, pvr_message = message\<rparr>)
      in if \<not> ad_enabled a then answer False ''provider is disabled''
         else if \<not> supports a (prq_capability r) then answer False ''unsupported capability''
         else answer True ''provider request is locally valid'')"

lemma validate_authorized_ok [simp]:
  "pvr_ok (validate_authorized a r) \<longleftrightarrow> ad_enabled a \<and> supports a (prq_capability r)"
  by (simp add: validate_authorized_def Let_def)

text \<open>
  The contract of an adapter: its answers name the request they answer, and an adapter that is not
  real hardware never reports an action on hardware.
\<close>

locale adapter =
  fixes info :: adapter_info
    and execute :: "provider_request \<Rightarrow> ('s, provider_result) op"
  assumes answers_request: "execute r s = (Inr x, s') \<Longrightarrow>
      prs_provider_id x = ad_provider_id info \<and> prs_capability x = prq_capability r \<and>
      prs_action x = prq_action r \<and> prs_target_id x = prq_target_id r"
    and no_hardware: "execute r s = (Inr x, s') \<Longrightarrow> \<not> ad_is_real_hardware info \<Longrightarrow>
      \<not> prs_performed_on_hardware x"
    and ok_validated: "execute r s = (Inr x, s') \<Longrightarrow> prs_ok x \<Longrightarrow> pvr_ok (validate_authorized info r)"
begin

lemma unsupported_fails:
  "execute r s = (Inr x, s') \<Longrightarrow> \<not> supports info (prq_capability r) \<Longrightarrow> \<not> prs_ok x"
  using ok_validated by fastforce

lemma answer_determines_target:
  "execute r s = (Inr x, s') \<Longrightarrow> execute q t = (Inr x, t') \<Longrightarrow>
     prq_capability r = prq_capability q \<and> prq_target_id r = prq_target_id q"
  using answers_request by metis

end

section \<open>The mock provider\<close>

text \<open>\<open>str\<close> and \<open>repr\<close> of a value.\<close>

fun value_repr :: "pyval \<Rightarrow> string" where
  "value_repr PNone = ''None''"
| "value_repr (PBool b) = (if b then ''True'' else ''False'')"
| "value_repr (PInt i) = str_of_int i"
| "value_repr (PFloat s) = s"
| "value_repr (PStr s) = py_repr False s"
| "value_repr (PBytes s) = ''b'' @ py_repr True s"
| "value_repr (PList xs) = ''['' @ str_join '', '' (map value_repr xs) @ '']''"
| "value_repr (PTuple xs) =
     ''('' @ str_join '', '' (map value_repr xs) @ (if length xs = 1 then '',)'' else '')'')"
| "value_repr (PSet xs) =
     (if xs = [] then ''set()'' else ''{'' @ str_join '', '' (map (py_repr False) xs) @ ''}'')"
| "value_repr (PDict d) =
     ''{'' @ str_join '', '' (map (\<lambda>(k, v).
        (case k of KStr s \<Rightarrow> py_repr False s | KOther s \<Rightarrow> s) @ '': '' @ value_repr v) d) @ ''}''"
| "value_repr (PObj t s) = s"

definition value_str :: "pyval \<Rightarrow> string" where
  "value_str v = (case v of PStr s \<Rightarrow> s | _ \<Rightarrow> value_repr v)"

record mock_state =
  ms_power_state :: string
  ms_screen_text :: string
  ms_boot_status :: string
  ms_mounted_media :: "string option"
  ms_boot_override :: "string option"
  ms_input_events :: "pyval list"
  ms_simulated_events :: "pyval list"
  ms_network_config :: params
  ms_storage_layout :: params

definition initial_mock_state :: mock_state where
  "initial_mock_state =
     \<lparr>ms_power_state = ''off'', ms_screen_text = ''AgenticKVM mock screen'',
      ms_boot_status = ''mock firmware prompt'', ms_mounted_media = None, ms_boot_override = None,
      ms_input_events = [], ms_simulated_events = [],
      ms_network_config = [(''bmc_ip'', PStr ''192.0.2.10''), (''host_ip'', PStr ''192.0.2.20'')],
      ms_storage_layout = [(''disks'', PList [pdict [(''id'', PStr ''mock-disk-0''), (''size_gb'', PInt 64)]])]\<rparr>"

record mock_provider =
  mk_requests :: "provider_request list"
  mk_state :: mock_state

definition mock_info :: adapter_info where
  "mock_info =
     \<lparr>ad_provider_id = ''mock'', ad_provider_kind = ''mock'', ad_enabled = True,
      ad_is_real_hardware = False, ad_risk_class = ''unknown'',
      ad_supported = map fst DEFAULT_CAPABILITY_REGISTRY\<rparr>"

definition new_mock_provider :: mock_provider where
  "new_mock_provider = \<lparr>mk_requests = [], mk_state = initial_mock_state\<rparr>"

definition mock_reset :: "mock_provider \<Rightarrow> mock_provider" where
  "mock_reset m = m\<lparr>mk_requests := [], mk_state := initial_mock_state\<rparr>"

definition simulated_event :: "provider_request \<Rightarrow> pyval" where
  "simulated_event r =
     pdict [(''capability'', PStr (prq_capability r)), (''action'', PStr (prq_action r)),
            (''target_id'', PStr (prq_target_id r)), (''simulated'', PBool True)]"

definition record_simulated_event :: "provider_request \<Rightarrow> mock_state \<Rightarrow> mock_state" where
  "record_simulated_event r s = s\<lparr>ms_simulated_events := ms_simulated_events s @ [simulated_event r]\<rparr>"

definition state_summary :: "mock_state \<Rightarrow> pyval" where
  "state_summary s =
     pdict [(''power_state'', PStr (ms_power_state s)), (''boot_status'', PStr (ms_boot_status s)),
            (''mounted_media'', pyopt (ms_mounted_media s)), (''boot_override'', pyopt (ms_boot_override s)),
            (''input_event_count'', PInt (int (length (ms_input_events s)))),
            (''simulated_event_count'', PInt (int (length (ms_simulated_events s))))]"

definition first_truthy :: "params \<Rightarrow> string list \<Rightarrow> string \<Rightarrow> string" where
  "first_truthy d keys dflt =
     (case find (\<lambda>k. py_truthy (dict_get_or d k PNone)) keys of
        Some k \<Rightarrow> value_str (dict_get_or d k PNone) | None \<Rightarrow> dflt)"

text \<open>\<open>_simulate\<close>: the entries added to the answer, and the state after it.\<close>

definition is_family :: "provider_request \<Rightarrow> string \<Rightarrow> bool" where
  "is_family r family \<longleftrightarrow> starts_with (prq_capability r) family"

definition simulate_entries :: "provider_request \<Rightarrow> mock_state \<Rightarrow> params \<times> mock_state" where
  "simulate_entries r s =
     (let parameters = redacted_parameters r; c = prq_capability r; recorded = record_simulated_event r in
      if c = ''observe.status'' then ([(''state'', state_summary s)], s)
      else if c \<in> {''observe.screen'', ''observe.screenshot''}
      then ([(''screen'', pdict [(''kind'', PStr ''text_snapshot''), (''content'', PStr (ms_screen_text s))])], s)
      else if c = ''observe.power_state'' then ([(''power_state'', PStr (ms_power_state s))], s)
      else if c = ''observe.hardware_inventory''
      then ([(''inventory'', pdict [(''provider'', PStr ''mock''), (''model'', PStr ''AgenticKVM Mock Target'')])], s)
      else if c = ''observe.sensors''
      then ([(''sensors'', PList [pdict [(''name'', PStr ''mock-temp''), (''value'', PInt 25), (''unit'', PStr ''C'')]])], s)
      else if c = ''observe.event_logs'' then ([(''events'', PList (ms_simulated_events s))], s)
      else if c = ''observe.boot_status''
      then ([(''boot_status'', pdict [(''phase'', PStr (ms_boot_status s)),
                                     (''boot_override'', pyopt (ms_boot_override s))])], s)
      else if is_family r ''input.''
      then (let event = pdict [(''capability'', PStr c), (''parameters'', pdict parameters),
                               (''hid_capture'', pdict (hid_capture_posture False))];
                s1 = s\<lparr>ms_input_events := ms_input_events s @ [event]\<rparr>
            in ([(''input_events'', PList (ms_input_events s1))], s1))
      else if c = ''power.on'' then ([(''power_state'', PStr ''on'')], s\<lparr>ms_power_state := ''on''\<rparr>)
      else if c \<in> {''power.graceful_shutdown'', ''power.force_off''}
      then ([(''power_state'', PStr ''off'')], recorded (s\<lparr>ms_power_state := ''off''\<rparr>))
      else if c \<in> {''power.graceful_restart'', ''power.force_restart'', ''power.power_cycle''}
      then ([(''power_state'', PStr ''on'')], recorded (s\<lparr>ms_power_state := ''on''\<rparr>))
      else if c = ''power.nmi'' then ([(''power_state'', PStr (ms_power_state s))], recorded s)
      else if c \<in> {''media.mount_approved_iso'', ''media.mount_arbitrary_iso''}
      then (let media = first_truthy parameters [''image'', ''url'', ''media''] ''mock.iso''
            in ([(''mounted_media'', PStr media)], recorded (s\<lparr>ms_mounted_media := Some media\<rparr>)))
      else if c = ''media.eject'' then ([(''mounted_media'', PNone)], s\<lparr>ms_mounted_media := None\<rparr>)
      else if c = ''boot.override''
      then (let device = value_str (dict_get_or parameters ''device'' (PStr ''mock-override''))
            in ([(''boot_override'', PStr device)], recorded (s\<lparr>ms_boot_override := Some device\<rparr>)))
      else if is_family r ''bios.'' \<or> is_family r ''firmware.''
      then ([(''event'', simulated_event r)], recorded s)
      else if c = ''storage.view_disk_layout'' then ([(''storage_layout'', pdict (ms_storage_layout s))], s)
      else if is_family r ''storage.''
      then ([(''storage_layout'', pdict (ms_storage_layout s)), (''destructive_effect_simulated'', PBool True)],
            recorded s)
      else if c = ''network.read_config'' then ([(''network_config'', pdict (ms_network_config s))], s)
      else if is_family r ''network.'' then ([(''network_config'', pdict (ms_network_config s))], recorded s)
      else if is_family r ''bmc.'' then ([(''event'', simulated_event r)], recorded s)
      else if is_family r ''secrets.'' then ([(''secret_material_revealed'', PBool False)], recorded s)
      else if is_family r ''runtime.''
      then ([(''runtime'', pdict [(''status'', PStr ''simulated'')])], recorded s)
      else ([], s))"

definition simulate :: "provider_request \<Rightarrow> mock_state \<Rightarrow> params \<times> mock_state" where
  "simulate r s =
     (let (entries, s1) = simulate_entries r s in
      ([(''mock'', PBool True), (''simulated'', PBool True), (''performed'', PBool False),
        (''parameters'', pdict (redacted_parameters r))] @ entries, s1))"

definition mock_execute :: "provider_request \<Rightarrow> (mock_provider, provider_result) op" where
  "mock_execute r m =
     (let v = validate_authorized mock_info r in
      if \<not> pvr_ok v
      then (Inr ((base_result False ''mock'' (prq_capability r) (prq_action r) (prq_target_id r) False
                    (pvr_message v @ ''; no hardware action performed.'')
                    [(''mock'', PBool True), (''performed'', PBool False)])
                 \<lparr>prs_provider_type := Some ''mock'', prs_error_code := Some ''unsupported_capability'',
                  prs_error_message := Some (pvr_message v)\<rparr>), m)
      else let (data, s) = simulate r (mk_state m) in
        (Inr ((base_result True ''mock'' (prq_capability r) (prq_action r) (prq_target_id r) False
                 ''Mock provider recorded authorized request; no hardware action performed.'' data)
              \<lparr>prs_provider_type := Some ''mock''\<rparr>),
         m\<lparr>mk_requests := mk_requests m @ [r], mk_state := s\<rparr>))"

lemma mock_info_simps [simp]:
  "ad_provider_id mock_info = ''mock''" "ad_is_real_hardware mock_info = False" "ad_enabled mock_info"
  by (simp_all add: mock_info_def)

interpretation mock_adapter: adapter mock_info mock_execute
proof
  fix r s x s' assume "mock_execute r s = (Inr x, s')"
  then show "prs_provider_id x = ad_provider_id mock_info \<and> prs_capability x = prq_capability r \<and>
      prs_action x = prq_action r \<and> prs_target_id x = prq_target_id r"
    and "\<not> prs_performed_on_hardware x" and "prs_ok x \<Longrightarrow> pvr_ok (validate_authorized mock_info r)"
    by (auto simp: mock_execute_def base_result_def Let_def split: if_splits prod.splits)
qed

lemma mock_never_raises: "\<exists>x m'. mock_execute r m = (Inr x, m')"
  by (auto simp: mock_execute_def Let_def split: prod.splits)

lemma mock_ok_iff: "mock_execute r m = (Inr x, m') \<Longrightarrow> prs_ok x \<longleftrightarrow> supports mock_info (prq_capability r)"
  by (auto simp: mock_execute_def base_result_def Let_def split: if_splits prod.splits)

lemma mock_records: "mock_execute r m = (Inr x, m') \<Longrightarrow>
    mk_requests m' = (if prs_ok x then mk_requests m @ [r] else mk_requests m)"
  by (auto simp: mock_execute_def base_result_def Let_def split: if_splits prod.splits)

text \<open>Reading leaves the simulated target as it was.\<close>

lemma mock_observe_pure:
  assumes "starts_with (prq_capability r) ''observe.''" "prq_capability r \<in>
      {''observe.status'', ''observe.screen'', ''observe.screenshot'', ''observe.power_state'',
       ''observe.hardware_inventory'', ''observe.sensors'', ''observe.event_logs'', ''observe.boot_status''}"
    and "mock_execute r m = (x, m')"
  shows "mk_state m' = mk_state m"
  using assms(2,3)
  by (auto simp: mock_execute_def simulate_def simulate_entries_def Let_def split: if_splits)

text \<open>The echoed parameters carry no secret: they are the redacted ones.\<close>

lemma simulate_parameters: "dict_get (fst (simulate r s)) ''parameters'' = Some (pdict (redacted_parameters r))"
  by (simp add: simulate_def split: prod.splits)

end
