(* ===== verification/Policy.thy ===== *)
theory Policy
  imports Capabilities Fingerprints
begin

text \<open>
  \<open>control_plane/policy.py\<close>: scopes, rules, the decision for a capability request, the built-in
  modes, and loading a policy document. Entries of a scope are JSON values because a policy file
  may hold others than names; only a string is ever equal to a target or session id.
\<close>

section \<open>Data\<close>

definition HARD_DENY_CAPABILITIES :: "string list" where
  "HARD_DENY_CAPABILITIES =
     [''session.modify_policy'', ''session.disable_audit'', ''session.disable_emergency_stop'']"

type_synonym limits = "(string \<times> json) list"

record target_scope =
  ts_allow :: "json list"
  ts_deny :: "json list"
  ts_allow_real_hardware :: bool

record session_scope =
  ss_allow :: "json list"
  ss_deny :: "json list"
  ss_require_audit_log :: bool
  ss_emergency_stop :: bool

record policy_rule =
  rule_decision :: policy_decision
  rule_limits :: limits
  rule_reason :: "string option"

record policy_result =
  pr_capability_id :: string
  pr_decision :: policy_decision
  pr_reason :: string
  pr_matched_rule :: "string option"
  pr_limits :: limits
  pr_material_risks :: "string list"

record capability_policy =
  pol_name :: string
  pol_mode :: control_mode
  pol_target_scope :: target_scope
  pol_session_scope :: session_scope
  pol_rules :: "(string, policy_rule) dict"

definition scope_allows :: "json list \<Rightarrow> json list \<Rightarrow> string option \<Rightarrow> bool" where
  "scope_allows allow deny i =
     (case i of
        None \<Rightarrow> allow = [] \<and> deny = []
      | Some s \<Rightarrow> if JStr s \<in> set deny then False else allow = [] \<or> JStr s \<in> set allow)"

definition target_scope_allows :: "target_scope \<Rightarrow> string option \<Rightarrow> bool" where
  "target_scope_allows s t = scope_allows (ts_allow s) (ts_deny s) t"

definition session_scope_allows :: "session_scope \<Rightarrow> string option \<Rightarrow> bool" where
  "session_scope_allows s t = scope_allows (ss_allow s) (ss_deny s) t"

definition make_session_scope :: "session_scope \<Rightarrow> session_scope res" where
  "make_session_scope s =
     (if \<not> ss_require_audit_log s then raise ValueError ''Policy cannot disable audit logging''
      else if \<not> ss_emergency_stop s then raise ValueError ''Policy cannot disable emergency stop''
      else Inr s)"

definition default_target_scope :: target_scope where
  "default_target_scope = \<lparr>ts_allow = [], ts_deny = [], ts_allow_real_hardware = False\<rparr>"

definition default_session_scope :: session_scope where
  "default_session_scope =
     \<lparr>ss_allow = [], ss_deny = [], ss_require_audit_log = True, ss_emergency_stop = True\<rparr>"

definition requires_approval :: "policy_result \<Rightarrow> bool" where
  "requires_approval r \<longleftrightarrow> pr_decision r \<in> {ASK_EACH_TIME, ASK_ONCE_PER_SESSION}"

section \<open>Decisions\<close>

definition risks_for :: "capability \<Rightarrow> string list" where
  "risks_for c =
     (if cap_dangerous c then [''dangerous action''] else []) @
     (if cap_destructive c then [''destructive action''] else []) @
     (if cap_id c = ''secrets.raw_reveal'' then [''raw secret reveal''] else [])"

definition default_decision_for_mode :: "control_mode \<Rightarrow> capability \<Rightarrow> policy_decision" where
  "default_decision_for_mode mode c =
     (if cap_id c \<in> set HARD_DENY_CAPABILITIES then DENY
      else (case mode of
         CUSTOM \<Rightarrow> DENY
       | OBSERVE \<Rightarrow>
           if cap_family c \<in> {''observe'', ''session''} \<and> \<not> cap_dangerous c then ALLOW else DENY
       | ASSISTED \<Rightarrow>
           if cap_family c \<in> {''observe'', ''session''} \<and> \<not> cap_dangerous c then ALLOW
           else if cap_destructive c \<or> cap_risk c = RL_CRITICAL then DENY
           else ASK_EACH_TIME
       | SUPERVISED \<Rightarrow>
           if cap_family c \<in> {''observe'', ''session''} \<and> \<not> cap_dangerous c then ALLOW
           else if cap_id c \<in> {''media.mount_approved_iso'', ''secrets.inject_reference''}
           then ASK_ONCE_PER_SESSION
           else if cap_dangerous c then ASK_EACH_TIME
           else ALLOW_WITH_LIMITS
       | FULL_CONTROL \<Rightarrow>
           if cap_id c = ''secrets.raw_reveal'' then ASK_EACH_TIME else ALLOW))"

definition denied :: "string \<Rightarrow> string \<Rightarrow> string list \<Rightarrow> policy_result" where
  "denied capability_id reason risks =
     \<lparr>pr_capability_id = capability_id, pr_decision = DENY, pr_reason = reason,
      pr_matched_rule = None, pr_limits = [], pr_material_risks = risks\<rparr>"

definition reason_or :: "string option \<Rightarrow> string \<Rightarrow> string" where
  "reason_or r d = (case r of None \<Rightarrow> d | Some s \<Rightarrow> if s = [] then d else s)"

definition decision_for ::
    "capability_policy \<Rightarrow> string \<Rightarrow> string option \<Rightarrow> string option \<Rightarrow> string option \<Rightarrow> registry \<Rightarrow>
     policy_result" where
  "decision_for pol capability_id target_id session_id credential_id reg =
     (case registry_get reg capability_id of
        None \<Rightarrow> denied capability_id ''unknown capability'' []
      | Some c \<Rightarrow>
          if capability_id \<in> set HARD_DENY_CAPABILITIES
          then denied capability_id ''hard invariant'' (risks_for c)
          else if ''target'' \<in> set (cap_required_scope c) \<and> target_id = None
          then denied capability_id ''missing required target scope'' (risks_for c)
          else if ''session'' \<in> set (cap_required_scope c) \<and> session_id = None
          then denied capability_id ''missing required session scope'' (risks_for c)
          else if ''credential'' \<in> set (cap_required_scope c) \<and> credential_id = None
          then denied capability_id ''missing required credential scope'' (risks_for c)
          else if \<not> target_scope_allows (pol_target_scope pol) target_id
          then denied capability_id ''target outside policy scope'' (risks_for c)
          else if \<not> session_scope_allows (pol_session_scope pol) session_id
          then denied capability_id ''session outside policy scope'' (risks_for c)
          else (case dict_get (pol_rules pol) capability_id of
             Some rule \<Rightarrow>
               \<lparr>pr_capability_id = capability_id, pr_decision = rule_decision rule,
                pr_reason = reason_or (rule_reason rule) ''explicit policy rule'',
                pr_matched_rule = Some capability_id, pr_limits = rule_limits rule,
                pr_material_risks = risks_for c\<rparr>
           | None \<Rightarrow>
               \<lparr>pr_capability_id = capability_id,
                pr_decision = default_decision_for_mode (pol_mode pol) c,
                pr_reason = ''default '' @ mode_value (pol_mode pol) @ '' mode decision'',
                pr_matched_rule = None, pr_limits = [], pr_material_risks = risks_for c\<rparr>))"

definition mode_preset :: "control_mode \<Rightarrow> string option \<Rightarrow> capability_policy" where
  "mode_preset mode name =
     \<lparr>pol_name = reason_or name (''default '' @ mode_value mode), pol_mode = mode,
      pol_target_scope = default_target_scope, pol_session_scope = default_session_scope,
      pol_rules = []\<rparr>"

section \<open>Loading a policy document\<close>

text \<open>
  The document is the parsed JSON text. A \<open>notes\<close> entry that is no text is kept as its \<open>str\<close>; keys
  of a \<open>limits\<close> entry are strings.
\<close>

type_synonym jobject = "(string \<times> json) list"

fun json_get :: "json \<Rightarrow> string \<Rightarrow> json option" where
  "json_get (JObj kvs) k = dict_get kvs k"
| "json_get v k = None"

fun is_json_obj :: "json \<Rightarrow> bool" where
  "is_json_obj (JObj kvs) = True"
| "is_json_obj v = False"

fun json_truthy :: "json \<Rightarrow> bool" where
  "json_truthy JNull = False"
| "json_truthy (JBool b) = b"
| "json_truthy (JInt i) = (i \<noteq> 0)"
| "json_truthy (JFloat s) = (s \<noteq> ''0.0'' \<and> s \<noteq> ''-0.0'')"
| "json_truthy (JStr s) = (s \<noteq> [])"
| "json_truthy (JArr xs) = (xs \<noteq> [])"
| "json_truthy (JObj kvs) = (kvs \<noteq> [])"

fun is_hashable :: "json \<Rightarrow> bool" where
  "is_hashable (JArr xs) = False"
| "is_hashable (JObj kvs) = False"
| "is_hashable v = True"

fun json_iter :: "json \<Rightarrow> json list res" where
  "json_iter (JArr xs) = Inr xs"
| "json_iter (JStr s) = Inr (map (\<lambda>c. JStr [c]) s)"
| "json_iter (JObj kvs) = Inr (map (JStr \<circ> fst) kvs)"
| "json_iter v = raise TypeError ''object is not iterable''"

definition json_frozenset :: "json \<Rightarrow> json list res" where
  "json_frozenset v =
     bind_res (json_iter v) (\<lambda>xs. if list_all is_hashable xs then Inr xs else raise TypeError ''unhashable type'')"

fun json_pair :: "json \<Rightarrow> (string \<times> json) res" where
  "json_pair (JArr [JStr k, v]) = Inr (k, v)"
| "json_pair (JStr [a, b]) = Inr ([a], JStr [b])"
| "json_pair v = raise ValueError ''dictionary update sequence element has the wrong length''"

text \<open>\<open>dict(v)\<close>\<close>

fun json_limits :: "json \<Rightarrow> limits res" where
  "json_limits (JObj kvs) = Inr kvs"
| "json_limits v =
     bind_res (json_iter v) (\<lambda>xs. bind_res (map_res json_pair xs) (\<lambda>kvs. Inr (dict_of kvs [])))"

fun json_notes :: "json \<Rightarrow> string option" where
  "json_notes (JStr s) = Some s"
| "json_notes v = (if json_truthy v then Some (json_str v) else None)"

definition str_get :: "jobject \<Rightarrow> string \<Rightarrow> string \<Rightarrow> string" where
  "str_get d k s = (case dict_get d k of None \<Rightarrow> s | Some v \<Rightarrow> json_str v)"

definition get_or :: "json \<Rightarrow> string \<Rightarrow> json \<Rightarrow> json" where
  "get_or v k d = (case json_get v k of None \<Rightarrow> d | Some w \<Rightarrow> w)"

definition load_rule :: "registry \<Rightarrow> json \<Rightarrow> (string \<times> policy_rule) res" where
  "load_rule reg item =
     (if \<not> is_json_obj item then raise ValueError ''Policy rules must be objects''
      else (case json_get item ''capability'' of
         Some (JStr capability_id) \<Rightarrow>
           if registry_get reg capability_id = None
           then raise ValueError (''Unknown capability in policy: '' @ capability_id)
           else
             bind_res (case get_or item ''decision'' (JStr []) of
                         JStr d \<Rightarrow> normalize_policy_decision d
                       | v \<Rightarrow> raise ValueError (''Unknown policy decision: '' @ json_str v)) (\<lambda>d.
             bind_res (json_limits (get_or item ''limits'' (JObj []))) (\<lambda>limits.
             Inr (capability_id,
                  \<lparr>rule_decision = d, rule_limits = limits,
                   rule_reason = json_notes (get_or item ''notes'' JNull)\<rparr>)))
       | _ \<Rightarrow> raise ValueError ''Policy rule capability must be a string''))"

definition load_policy_file :: "registry \<Rightarrow> json \<Rightarrow> capability_policy res" where
  "load_policy_file reg raw =
     (if \<not> is_json_obj raw then raise ValueError ''Policy file must contain a JSON object''
      else
        let defaults = get_or raw ''defaults'' JNull in
        if \<not> is_json_obj defaults then raise ValueError ''Policy file must contain defaults''
        else if json_get defaults ''unknown_capability'' \<noteq> Some (JStr (decision_value DENY))
        then raise ValueError ''Policy defaults must deny unknown capabilities''
        else if json_get defaults ''audit'' \<noteq> Some (JStr ''mandatory'')
        then raise ValueError ''Policy defaults must require mandatory audit''
        else if json_get defaults ''secrets'' \<noteq> Some (JStr ''redact_by_default'')
        then raise ValueError ''Policy defaults must redact secrets by default''
        else
          let scope = (case json_get raw ''scope'' of Some (JObj kvs) \<Rightarrow> JObj kvs | _ \<Rightarrow> JObj []) in
          bind_res (json_frozenset (get_or scope ''targets'' (JArr []))) (\<lambda>targets.
          bind_res (json_frozenset (get_or scope ''sessions'' (JArr []))) (\<lambda>sessions.
          bind_res (make_session_scope (default_session_scope\<lparr>ss_allow := sessions\<rparr>)) (\<lambda>session_scope.
          bind_res (json_iter (get_or raw ''rules'' (JArr []))) (\<lambda>items.
          bind_res (map_res (load_rule reg) items) (\<lambda>rules.
          (case json_get raw ''mode'' of
             None \<Rightarrow> raise KeyError ''mode''
           | Some m \<Rightarrow>
               bind_res (normalize_control_mode (json_str m)) (\<lambda>mode.
               Inr \<lparr>pol_name = json_str (get_or raw ''name'' (JStr ''unnamed policy'')), pol_mode = mode,
                    pol_target_scope = default_target_scope
                      \<lparr>ts_allow := targets,
                       ts_allow_real_hardware := json_truthy (get_or scope ''allow_real_hardware'' (JBool False))\<rparr>,
                    pol_session_scope = session_scope, pol_rules = dict_of rules []\<rparr>)))))))) "

section \<open>What a decision guarantees\<close>

abbreviation permits :: "policy_decision \<Rightarrow> bool" where
  "permits d \<equiv> d \<noteq> DENY"

lemma denied_simps [simp]:
  "pr_decision (denied i r ms) = DENY" "pr_capability_id (denied i r ms) = i"
  "pr_limits (denied i r ms) = []" "pr_reason (denied i r ms) = r" "pr_material_risks (denied i r ms) = ms"
  by (simp_all add: denied_def)

lemma decision_for_id [simp]: "pr_capability_id (decision_for pol i t s cr reg) = i"
  by (simp add: decision_for_def split: option.splits)

text \<open>The whole meaning of a decision that is not a denial.\<close>

lemma decision_for_permits:
  "permits (pr_decision (decision_for pol i t s cr reg)) \<longleftrightarrow>
     (\<exists>c. registry_get reg i = Some c \<and> i \<notin> set HARD_DENY_CAPABILITIES \<and>
        (''target'' \<in> set (cap_required_scope c) \<longrightarrow> t \<noteq> None) \<and>
        (''session'' \<in> set (cap_required_scope c) \<longrightarrow> s \<noteq> None) \<and>
        (''credential'' \<in> set (cap_required_scope c) \<longrightarrow> cr \<noteq> None) \<and>
        target_scope_allows (pol_target_scope pol) t \<and> session_scope_allows (pol_session_scope pol) s \<and>
        permits (case dict_get (pol_rules pol) i of Some rule \<Rightarrow> rule_decision rule
                 | None \<Rightarrow> default_decision_for_mode (pol_mode pol) c))"
  by (cases "registry_get reg i") (auto simp: decision_for_def split: option.splits)

lemma decision_for_value:
  "permits (pr_decision (decision_for pol i t s cr reg)) \<Longrightarrow>
   pr_decision (decision_for pol i t s cr reg) =
     (case dict_get (pol_rules pol) i of Some rule \<Rightarrow> rule_decision rule
      | None \<Rightarrow> default_decision_for_mode (pol_mode pol) (the (registry_get reg i)))"
  by (cases "registry_get reg i") (auto simp: decision_for_def split: option.splits if_splits)

lemma decision_for_hard_deny:
  "i \<in> set HARD_DENY_CAPABILITIES \<Longrightarrow> pr_decision (decision_for pol i t s cr reg) = DENY"
  using decision_for_permits by blast

lemma decision_for_unknown:
  "registry_get reg i = None \<Longrightarrow> decision_for pol i t s cr reg = denied i ''unknown capability'' []"
  by (simp add: decision_for_def)

lemma decision_for_out_of_scope:
  "\<not> target_scope_allows (pol_target_scope pol) t \<Longrightarrow> pr_decision (decision_for pol i t s cr reg) = DENY"
  "\<not> session_scope_allows (pol_session_scope pol) s \<Longrightarrow> pr_decision (decision_for pol i t s cr reg) = DENY"
  using decision_for_permits by blast+

lemma default_mode_mono:
  assumes "row_sane c" "m \<le> m'"
  shows "default_decision_for_mode m c \<le> default_decision_for_mode m' c"
proof -
  have "cap_id c = ''secrets.raw_reveal'' \<Longrightarrow> cap_dangerous c \<and> cap_id c \<notin> set HARD_DENY_CAPABILITIES"
    using assms(1) by (simp add: row_sane_def HARD_DENY_CAPABILITIES_def)
  then show ?thesis
    using assms(2)
    by (cases m; cases m')
      (auto simp: default_decision_for_mode_def less_eq_policy_decision_def less_eq_control_mode_def)
qed

lemma decision_for_mode_mono:
  assumes "m \<le> m'" "pol_mode pol = m"
  shows "pr_decision (decision_for pol i t s cr DEFAULT_CAPABILITY_REGISTRY) \<le>
         pr_decision (decision_for (pol\<lparr>pol_mode := m'\<rparr>) i t s cr DEFAULT_CAPABILITY_REGISTRY)"
proof (cases "registry_get DEFAULT_CAPABILITY_REGISTRY i")
  case None
  then show ?thesis by (simp add: decision_for_def)
next
  case (Some c)
  then have "row_sane c" using default_lookup_iff default_row_sane by blast
  then have "default_decision_for_mode m c \<le> default_decision_for_mode m' c"
    using assms(1) default_mode_mono by blast
  with Some assms(2) show ?thesis by (simp add: decision_for_def split: option.splits)
qed

lemma observe_mode_only_observes:
  assumes "pol_mode pol = OBSERVE" "pol_rules pol = []"
    and "permits (pr_decision (decision_for pol i t s cr reg))"
  shows "\<exists>c. registry_get reg i = Some c \<and> cap_family c \<in> {''observe'', ''session''} \<and> \<not> cap_dangerous c \<and>
           pr_decision (decision_for pol i t s cr reg) = ALLOW"
proof -
  obtain c where c: "registry_get reg i = Some c" using assms(3) decision_for_permits by blast
  have "pr_decision (decision_for pol i t s cr reg) = default_decision_for_mode OBSERVE c"
    using decision_for_value [OF assms(3)] assms(1,2) c by simp
  with assms(3) c show ?thesis by (auto simp: default_decision_for_mode_def split: if_splits)
qed

text \<open>Only full control and explicit rules let a dangerous capability run without an approval.\<close>

lemma dangerous_needs_approval:
  assumes "pr_decision (decision_for pol i t s cr reg) \<in> {ALLOW, ALLOW_WITH_LIMITS}"
    and "dict_get (pol_rules pol) i = None" "pol_mode pol \<noteq> FULL_CONTROL"
    and "registry_get reg i = Some c" "cap_id c = i"
  shows "\<not> cap_dangerous c"
proof -
  have "pr_decision (decision_for pol i t s cr reg) = default_decision_for_mode (pol_mode pol) c"
    using assms(1,2,4) decision_for_value [of pol i t s cr reg] by force
  with assms show ?thesis
    by (cases "pol_mode pol") (auto simp: default_decision_for_mode_def split: if_splits)
qed

section \<open>What a loaded policy guarantees\<close>

lemma load_rule_Inr:
  "load_rule reg item = Inr (i, r) \<Longrightarrow>
     registry_get reg i \<noteq> None \<and> json_get item ''capability'' = Some (JStr i)"
  by (auto simp: load_rule_def bind_res_Inr_iff split: if_splits option.splits json.splits)

lemma load_policy_Inr:
  assumes "load_policy_file reg raw = Inr pol"
  shows "json_get (get_or raw ''defaults'' JNull) ''unknown_capability'' = Some (JStr ''deny'')"
    and "json_get (get_or raw ''defaults'' JNull) ''audit'' = Some (JStr ''mandatory'')"
    and "json_get (get_or raw ''defaults'' JNull) ''secrets'' = Some (JStr ''redact_by_default'')"
    and "ss_require_audit_log (pol_session_scope pol) \<and> ss_emergency_stop (pol_session_scope pol)"
    and "\<And>i. dict_has (pol_rules pol) i \<Longrightarrow> registry_get reg i \<noteq> None"
    and "ts_deny (pol_target_scope pol) = []"
proof -
  from assms obtain rules items where
    r: "json_iter (get_or raw ''rules'' (JArr [])) = Inr items"
       "map_res (load_rule reg) items = Inr rules" "pol_rules pol = dict_of rules []"
    and d: "json_get (get_or raw ''defaults'' JNull) ''unknown_capability'' = Some (JStr ''deny'')"
      "json_get (get_or raw ''defaults'' JNull) ''audit'' = Some (JStr ''mandatory'')"
      "json_get (get_or raw ''defaults'' JNull) ''secrets'' = Some (JStr ''redact_by_default'')"
      "ss_require_audit_log (pol_session_scope pol) \<and> ss_emergency_stop (pol_session_scope pol)"
      "ts_deny (pol_target_scope pol) = []"
    by (auto simp: load_policy_file_def Let_def bind_res_Inr_iff make_session_scope_def
        default_session_scope_def default_target_scope_def split: if_splits option.splits)
  show "json_get (get_or raw ''defaults'' JNull) ''unknown_capability'' = Some (JStr ''deny'')"
    "json_get (get_or raw ''defaults'' JNull) ''audit'' = Some (JStr ''mandatory'')"
    "json_get (get_or raw ''defaults'' JNull) ''secrets'' = Some (JStr ''redact_by_default'')"
    "ss_require_audit_log (pol_session_scope pol) \<and> ss_emergency_stop (pol_session_scope pol)"
    "ts_deny (pol_target_scope pol) = []"
    using d by blast+
  fix i
  have "dict_has (dict_of rules d) i \<Longrightarrow> i \<in> fst ` set rules \<or> dict_has d i" for d
    by (induction rules d rule: dict_of.induct) (auto split: if_splits)
  moreover assume "dict_has (pol_rules pol) i"
  ultimately obtain rl where "(i, rl) \<in> set rules" using r(3) by fastforce
  then obtain item where "load_rule reg item = Inr (i, rl)"
    using r(2) by (auto simp: map_res_Inr_iff list_all2_conv_all_nth in_set_conv_nth)
  then show "registry_get reg i \<noteq> None" using load_rule_Inr by blast
qed

lemma load_policy_missing_defaults:
  "is_json_obj raw \<Longrightarrow> \<not> is_json_obj (get_or raw ''defaults'' JNull) \<Longrightarrow>
     load_policy_file reg raw = raise ValueError ''Policy file must contain defaults''"
  by (simp add: load_policy_file_def)

end
