(* ===== verification/Approvals.thy ===== *)
theory Approvals
  imports Policy Fingerprints PyTime
begin

text \<open>
  \<open>control_plane/approvals.py\<close>: actors, approval requests and responses, the grants made from
  them, and the in-memory \<open>ApprovalStore\<close> in which the engine looks grants up and marks one-time
  grants as consumed. \<open>consumable_store\<close> is the contract of such a store.
\<close>

section \<open>Actors, requests, responses\<close>

datatype actor_type = AGENT | OPERATOR | SERVICE | PROVIDER | TEST

fun actor_type_value :: "actor_type \<Rightarrow> string" where
  "actor_type_value AGENT = ''agent''"
| "actor_type_value OPERATOR = ''operator''"
| "actor_type_value SERVICE = ''service''"
| "actor_type_value PROVIDER = ''provider''"
| "actor_type_value TEST = ''test''"

datatype approval_outcome = GRANTED | DENIED | EXPIRED

fun outcome_value :: "approval_outcome \<Rightarrow> string" where
  "outcome_value GRANTED = ''granted''"
| "outcome_value DENIED = ''denied''"
| "outcome_value EXPIRED = ''expired''"

datatype grant_scope = ONE_TIME | SESSION

fun grant_scope_value :: "grant_scope \<Rightarrow> string" where
  "grant_scope_value ONE_TIME = ''one_time''"
| "grant_scope_value SESSION = ''session''"

definition RESUMPTION_BLOCKED :: "string list" where
  "RESUMPTION_BLOCKED =
     [''session.modify_policy'', ''session.disable_audit'', ''session.disable_emergency_stop'',
      ''secrets.raw_reveal'']"

record actor =
  actor_kind :: actor_type
  actor_id :: string

definition make_actor :: "actor_type \<Rightarrow> string \<Rightarrow> actor res" where
  "make_actor t i =
     (if i = [] then raise ValueError ''Actor id is required'' else Inr \<lparr>actor_kind = t, actor_id = i\<rparr>)"

definition actor_to_dict :: "actor \<Rightarrow> (string \<times> pyval) list" where
  "actor_to_dict a = [(''type'', PStr (actor_type_value (actor_kind a))), (''id'', PStr (actor_id a))]"

record capability_ref =
  ref_id :: string
  ref_family :: string
  ref_action :: string

definition ref_of_capability :: "capability \<Rightarrow> capability_ref" where
  "ref_of_capability c = \<lparr>ref_id = cap_id c, ref_family = cap_family c, ref_action = cap_action c\<rparr>"

definition ref_to_dict :: "capability_ref \<Rightarrow> (string \<times> pyval) list" where
  "ref_to_dict r = [(''id'', PStr (ref_id r)), (''family'', PStr (ref_family r)), (''action'', PStr (ref_action r))]"

record approval_request =
  ar_id :: string
  ar_created_at :: datetime
  ar_expires_at :: datetime
  ar_session_id :: string
  ar_requester :: actor
  ar_capability :: capability_ref
  ar_target_ids :: "string list"
  ar_policy_decision :: policy_decision
  ar_operator_message :: string
  ar_material_risks :: "string list"
  ar_proposed_audit_event_id :: string
  ar_provider_id :: "string option"
  ar_limits :: limits

definition make_approval_request :: "approval_request \<Rightarrow> approval_request res" where
  "make_approval_request r =
     (if ar_policy_decision r \<notin> {ASK_EACH_TIME, ASK_ONCE_PER_SESSION}
      then raise ValueError ''Approval requests require an ask policy decision''
      else if ar_target_ids r = [] then raise ValueError ''Approval request requires target scope''
      else if ar_material_risks r = [] then raise ValueError ''Approval request requires material risks''
      else bind_res (dt_leq (ar_expires_at r) (ar_created_at r)) (\<lambda>late.
        if late then raise ValueError ''Approval request expiry must be after creation'' else Inr r))"

fun pyval_of_json :: "json \<Rightarrow> pyval" where
  "pyval_of_json JNull = PNone"
| "pyval_of_json (JBool b) = PBool b"
| "pyval_of_json (JInt i) = PInt i"
| "pyval_of_json (JFloat s) = PFloat s"
| "pyval_of_json (JStr s) = PStr s"
| "pyval_of_json (JArr xs) = PList (map pyval_of_json xs)"
| "pyval_of_json (JObj kvs) = PDict (map (\<lambda>(k, v). (KStr k, pyval_of_json v)) kvs)"

abbreviation pystrs :: "string list \<Rightarrow> pyval" where
  "pystrs ss \<equiv> PList (map PStr ss)"

abbreviation pylimits :: "limits \<Rightarrow> pyval" where
  "pylimits l \<equiv> pyval_of_json (JObj l)"

definition request_to_dict :: "approval_request \<Rightarrow> (string \<times> pyval) list" where
  "request_to_dict r =
     [(''id'', PStr (ar_id r)),
      (''created_at'', PStr (isoformat (ar_created_at r))),
      (''expires_at'', PStr (isoformat (ar_expires_at r))),
      (''session_id'', PStr (ar_session_id r)),
      (''requester'', pdict (actor_to_dict (ar_requester r))),
      (''capability'', pdict (ref_to_dict (ar_capability r))),
      (''target_scope'', pdict [(''targets'', pystrs (ar_target_ids r)),
                                (''allow_real_hardware'', PBool False)]),
      (''policy_decision'', PStr (decision_value (ar_policy_decision r))),
      (''operator_message'', PStr (ar_operator_message r)),
      (''material_risks'', pystrs (ar_material_risks r)),
      (''proposed_audit_event_id'', PStr (ar_proposed_audit_event_id r))] @
     (if ar_limits r \<noteq> [] then [(''limits'', pylimits (ar_limits r))] else []) @
     (case ar_provider_id r of None \<Rightarrow> [] | Some p \<Rightarrow> [(''provider_id'', PStr p)])"

record approval_response =
  resp_id :: string
  resp_request_id :: string
  resp_outcome :: approval_outcome
  resp_operator :: actor
  resp_decided_at :: datetime
  resp_reason :: "string option"

definition make_approval_response :: "approval_response \<Rightarrow> approval_response res" where
  "make_approval_response r =
     (if actor_kind (resp_operator r) \<noteq> OPERATOR
      then raise ValueError ''Approval responses require an operator actor'' else Inr r)"

text \<open>\<open>build_approval_request\<close>; \<open>ttl\<close> in seconds, the two fresh ids are arguments.\<close>

definition build_approval_request ::
    "policy_result \<Rightarrow> capability \<Rightarrow> string \<Rightarrow> actor \<Rightarrow> string list \<Rightarrow> string \<Rightarrow> int \<Rightarrow> datetime \<Rightarrow>
     string \<Rightarrow> string \<Rightarrow> string option \<Rightarrow> approval_request res" where
  "build_approval_request res c session_id requester target_ids intended_effect ttl now new_id audit_id provider_id =
     (if \<not> requires_approval res then raise ValueError ''Policy decision does not require approval''
      else make_approval_request
        \<lparr>ar_id = new_id, ar_created_at = now, ar_expires_at = plus_seconds now ttl,
         ar_session_id = session_id, ar_requester = requester, ar_capability = ref_of_capability c,
         ar_target_ids = target_ids, ar_policy_decision = pr_decision res,
         ar_operator_message =
           actor_id requester @ '' requests '' @ cap_id c @ '' for targets '' @
           str_join '', '' target_ids @ ''. Intended effect: '' @ intended_effect @
           ''. Policy decision: '' @ decision_value (pr_decision res) @ ''.'',
         ar_material_risks =
           (if pr_material_risks res = [] then [''operator approval required''] else pr_material_risks res),
         ar_proposed_audit_event_id = audit_id, ar_provider_id = provider_id,
         ar_limits = pr_limits res\<rparr>)"

section \<open>The action fingerprint\<close>

text \<open>
  \<open>fingerprint_parameters\<close> of this module, which binds an action grant to its parameters. Unlike
  the one of \<open>fingerprints.py\<close> it accepts every value: keys become text, sets are sorted, and
  other objects are written by \<open>default=str\<close>.
\<close>

fun action_json :: "pyval \<Rightarrow> json" where
  "action_json PNone = JNull"
| "action_json (PBool b) = JBool b"
| "action_json (PInt i) = JInt i"
| "action_json (PFloat s) = JFloat s"
| "action_json (PStr s) = JStr s"
| "action_json (PBytes s) = JStr (''b'' @ py_repr True s)"
| "action_json (PList xs) = JArr (map action_json xs)"
| "action_json (PTuple xs) = JArr (map action_json xs)"
| "action_json (PSet xs) = JArr (map JStr (sort xs))"
| "action_json (PDict d) = JObj (dict_of (map (\<lambda>(k, v). (key_text k, action_json v)) d) [])"
| "action_json (PObj t s) = JStr s"

definition action_fingerprint :: "(string \<Rightarrow> string) \<Rightarrow> params \<Rightarrow> string" where
  "action_fingerprint H parameters = H (dumps (action_json (pdict parameters)))"

section \<open>Grants\<close>

record session_grant =
  sg_request_id :: string
  sg_capability_id :: string
  sg_session_id :: string
  sg_target_ids :: "string list"
  sg_expires_at :: datetime
  sg_limits :: limits

definition session_grant_matches ::
    "session_grant \<Rightarrow> string \<Rightarrow> string \<Rightarrow> string \<Rightarrow> datetime \<Rightarrow> bool res" where
  "session_grant_matches g capability_id session_id target_id now =
     (if capability_id = sg_capability_id g \<and> session_id = sg_session_id g \<and>
         target_id \<in> set (sg_target_ids g)
      then dt_less now (sg_expires_at g) else Inr False)"

record action_grant =
  ag_request_id :: string
  ag_response_id :: string
  ag_capability_id :: string
  ag_session_id :: string
  ag_target_id :: string
  ag_provider_id :: string
  ag_params_fingerprint :: string
  ag_expires_at :: datetime
  ag_scope :: grant_scope
  ag_operator :: actor

definition make_action_grant :: "action_grant \<Rightarrow> action_grant res" where
  "make_action_grant g =
     (if ag_capability_id g \<in> set RESUMPTION_BLOCKED
      then raise ValueError (''Capability cannot be approval-resumed: '' @ ag_capability_id g)
      else if actor_kind (ag_operator g) \<noteq> OPERATOR
      then raise ValueError ''Approval grants require an operator actor'' else Inr g)"

definition reusable :: "action_grant \<Rightarrow> bool" where
  "reusable g \<longleftrightarrow> ag_scope g = SESSION"

text \<open>The exact action a lookup asks for.\<close>

record action_query =
  q_capability_id :: string
  q_session_id :: string
  q_target_id :: string
  q_provider_id :: string
  q_params_fingerprint :: string
  q_now :: datetime

definition grant_bound :: "action_grant \<Rightarrow> action_query \<Rightarrow> bool" where
  "grant_bound g q \<longleftrightarrow>
     q_capability_id q = ag_capability_id g \<and> q_session_id q = ag_session_id g \<and>
     q_target_id q = ag_target_id g \<and> q_provider_id q = ag_provider_id g \<and>
     q_params_fingerprint q = ag_params_fingerprint g"

definition action_grant_matches :: "action_grant \<Rightarrow> action_query \<Rightarrow> bool res" where
  "action_grant_matches g q =
     (if grant_bound g q then dt_less (q_now q) (ag_expires_at g) else Inr False)"

definition action_grant_to_dict :: "action_grant \<Rightarrow> (string \<times> pyval) list" where
  "action_grant_to_dict g =
     [(''request_id'', PStr (ag_request_id g)), (''response_id'', PStr (ag_response_id g)),
      (''capability_id'', PStr (ag_capability_id g)), (''session_id'', PStr (ag_session_id g)),
      (''target_id'', PStr (ag_target_id g)), (''provider_id'', PStr (ag_provider_id g)),
      (''params_fingerprint'', PStr (ag_params_fingerprint g)),
      (''expires_at'', PStr (isoformat (ag_expires_at g))),
      (''scope'', PStr (grant_scope_value (ag_scope g))),
      (''operator'', pdict (actor_to_dict (ag_operator g)))]"

section \<open>The store\<close>

record approval_store =
  st_grants :: "session_grant list"
  st_action_grants :: "action_grant list"
  st_consumed :: "string list"

definition empty_store :: approval_store where
  "empty_store = \<lparr>st_grants = [], st_action_grants = [], st_consumed = []\<rparr>"

definition store_add :: "session_grant \<Rightarrow> approval_store \<Rightarrow> approval_store" where
  "store_add g st = st\<lparr>st_grants := st_grants st @ [g]\<rparr>"

definition store_add_action_grant :: "action_grant \<Rightarrow> approval_store \<Rightarrow> approval_store" where
  "store_add_action_grant g st = st\<lparr>st_action_grants := st_action_grants st @ [g]\<rparr>"

fun find_res :: "('a \<Rightarrow> bool res) \<Rightarrow> 'a list \<Rightarrow> 'a option res" where
  "find_res p [] = Inr None"
| "find_res p (x # xs) = bind_res (p x) (\<lambda>b. if b then Inr (Some x) else find_res p xs)"

definition store_find ::
    "approval_store \<Rightarrow> string \<Rightarrow> string \<Rightarrow> string \<Rightarrow> datetime \<Rightarrow> session_grant option res" where
  "store_find st capability_id session_id target_id now =
     find_res (\<lambda>g. session_grant_matches g capability_id session_id target_id now) (st_grants st)"

definition find_action_grant :: "approval_store \<Rightarrow> action_query \<Rightarrow> action_grant option res" where
  "find_action_grant st q =
     find_res (\<lambda>g. if \<not> reusable g \<and> ag_response_id g \<in> set (st_consumed st) then Inr False
                   else action_grant_matches g q) (st_action_grants st)"

definition store_consume :: "action_grant \<Rightarrow> approval_store \<Rightarrow> approval_store" where
  "store_consume g st =
     (if \<not> reusable g then st\<lparr>st_consumed := List.insert (ag_response_id g) (st_consumed st)\<rparr> else st)"

definition grant_from_response ::
    "(string \<Rightarrow> string) \<Rightarrow> approval_store \<Rightarrow> approval_request \<Rightarrow> approval_response \<Rightarrow> string \<Rightarrow> params \<Rightarrow>
     grant_scope \<Rightarrow> (action_grant \<times> approval_store) res" where
  "grant_from_response H st request response provider_id parameters scope =
     (if resp_request_id response \<noteq> ar_id request
      then raise ValueError ''Approval response does not match request''
      else if resp_outcome response \<noteq> GRANTED
      then raise ValueError ''Only granted approval responses create grants''
      else if ref_id (ar_capability request) \<in> set RESUMPTION_BLOCKED
      then raise ValueError (''Capability cannot be approval-resumed: '' @ ref_id (ar_capability request))
      else if provider_id \<noteq> reason_or (ar_provider_id request) provider_id
      then raise ValueError ''Approval provider does not match request provider''
      else bind_res (make_action_grant
          \<lparr>ag_request_id = ar_id request, ag_response_id = resp_id response,
           ag_capability_id = ref_id (ar_capability request), ag_session_id = ar_session_id request,
           ag_target_id = hd (ar_target_ids request), ag_provider_id = provider_id,
           ag_params_fingerprint = action_fingerprint H parameters,
           ag_expires_at = ar_expires_at request, ag_scope = scope,
           ag_operator = resp_operator response\<rparr>)
        (\<lambda>g. Inr (g, store_add_action_grant g st)))"

record emergency_stop =
  es_active :: bool
  es_reason :: "string option"
  es_activated_by :: "actor option"

definition require_clear :: "emergency_stop \<Rightarrow> unit res" where
  "require_clear s =
     (if es_active s
      then raise EmergencyStopActive (''Emergency stop is active'' @
             (case es_reason s of None \<Rightarrow> [] | Some r \<Rightarrow> if r = [] then [] else '': '' @ r))
      else Inr ())"

section \<open>The contract of a store of consumable grants\<close>

locale consumable_store =
  fixes find :: "'s \<Rightarrow> 'q \<Rightarrow> 'g option res"
    and consume :: "'g \<Rightarrow> 's \<Rightarrow> 's"
    and is_reusable :: "'g \<Rightarrow> bool"
    and token :: "'g \<Rightarrow> string"
    and bound :: "'g \<Rightarrow> 'q \<Rightarrow> bool"
    and spent :: "'s \<Rightarrow> string set"
  assumes find_bound: "find s q = Inr (Some g) \<Longrightarrow> bound g q"
    and find_unspent: "find s q = Inr (Some g) \<Longrightarrow> is_reusable g \<or> token g \<notin> spent s"
    and consume_spent: "spent (consume g s) = (if is_reusable g then spent s else insert (token g) (spent s))"
begin

lemma spent_mono: "spent s \<subseteq> spent (consume g s)"
  by (auto simp: consume_spent)

lemma spent_mono_fold: "spent s \<subseteq> spent (fold consume gs s)"
proof (induction gs arbitrary: s)
  case (Cons g gs)
  have "spent (consume g s) \<subseteq> spent (fold consume gs (consume g s))" by (rule Cons.IH)
  with spent_mono [of s g] show ?case by (simp add: order_trans)
qed simp

text \<open>Once consumed, a one-time grant is never found again, whatever is consumed later.\<close>

lemma consumed_never_found:
  assumes "\<not> is_reusable g" "find (fold consume gs (consume g s)) q = Inr (Some g')" "token g' = token g"
  shows "is_reusable g'"
proof -
  have "token g \<in> spent (consume g s)" using assms(1) by (simp add: consume_spent)
  with spent_mono_fold have "token g \<in> spent (fold consume gs (consume g s))" by blast
  with find_unspent [OF assms(2)] assms(3) show ?thesis by auto
qed

lemma found_twice_reusable:
  assumes "find s q = Inr (Some g)" "find (fold consume gs (consume g s)) q' = Inr (Some g)"
  shows "is_reusable g"
  using consumed_never_found [of g gs s q' g] assms(2) by auto

end

lemma find_res_Some: "find_res p xs = Inr (Some x) \<Longrightarrow> x \<in> set xs \<and> p x = Inr True"
  by (induction xs) (auto simp: bind_res_Inr_iff split: if_splits)

lemma find_res_None: "find_res p xs = Inr None \<Longrightarrow> \<forall>x \<in> set xs. p x = Inr False"
  by (induction xs) (auto simp: bind_res_Inr_iff split: if_splits)

lemma find_action_grant_Some:
  assumes "find_action_grant st q = Inr (Some g)"
  shows "g \<in> set (st_action_grants st)" "grant_bound g q" "dt_less (q_now q) (ag_expires_at g) = Inr True"
    "reusable g \<or> ag_response_id g \<notin> set (st_consumed st)"
  using find_res_Some [OF assms [unfolded find_action_grant_def]]
  by (auto simp: action_grant_matches_def split: if_splits)

interpretation approvals: consumable_store find_action_grant store_consume reusable ag_response_id
  grant_bound "\<lambda>st. set (st_consumed st)"
proof
  show "find_action_grant s q = Inr (Some g) \<Longrightarrow> grant_bound g q" for s q g
    by (rule find_action_grant_Some(2))
  show "find_action_grant s q = Inr (Some g) \<Longrightarrow> reusable g \<or> ag_response_id g \<notin> set (st_consumed s)" for s q g
    by (rule find_action_grant_Some(4))
  show "set (st_consumed (store_consume g s)) =
      (if reusable g then set (st_consumed s) else insert (ag_response_id g) (set (st_consumed s)))" for g s
    by (simp add: store_consume_def)
qed

section \<open>Facts\<close>

lemma make_approval_request_Inr:
  "make_approval_request r = Inr q \<longleftrightarrow>
     q = r \<and> ar_policy_decision r \<in> {ASK_EACH_TIME, ASK_ONCE_PER_SESSION} \<and> ar_target_ids r \<noteq> [] \<and>
     ar_material_risks r \<noteq> [] \<and> dt_less (ar_created_at r) (ar_expires_at r) = Inr True"
  by (auto simp: make_approval_request_def dt_leq_Inr bind_res_Inr_iff)

lemma build_approval_request_Inr:
  assumes "build_approval_request res c sid who ts eff ttl now nid aid p = Inr r"
  shows "requires_approval res" "0 < ttl" "ar_session_id r = sid" "ar_target_ids r = ts"
    "ref_id (ar_capability r) = cap_id c" "ar_provider_id r = p" "ar_requester r = who" "ar_id r = nid"
    "ar_expires_at r = plus_seconds now ttl" "ar_policy_decision r = pr_decision res"
proof -
  from assms have "dt_less now (plus_seconds now ttl) = Inr True"
    by (auto simp: build_approval_request_def make_approval_request_Inr split: if_splits)
  then show "0 < ttl" by (cases now) auto
qed (use assms in \<open>auto simp: build_approval_request_def make_approval_request_Inr ref_of_capability_def split: if_splits\<close>)

lemma build_approval_request_ok:
  assumes "requires_approval res" "0 < ttl" "ts \<noteq> []"
  shows "\<exists>r. build_approval_request res c sid who ts eff ttl now nid aid p = Inr r"
proof -
  have "dt_less now (plus_seconds now ttl) = Inr True" using assms(2) by (cases now) auto
  with assms show ?thesis
    by (auto simp: build_approval_request_def make_approval_request_def requires_approval_def dt_leq_def)
qed

text \<open>A grant made from a response is bound to the request, the provider and the parameters.\<close>

lemma grant_from_response_Inr:
  assumes "grant_from_response H st req resp p params scope = Inr (g, st')"
  shows "resp_request_id resp = ar_id req" "resp_outcome resp = GRANTED"
    "ref_id (ar_capability req) \<notin> set RESUMPTION_BLOCKED" "actor_kind (resp_operator resp) = OPERATOR"
    "ag_capability_id g = ref_id (ar_capability req)" "ag_session_id g = ar_session_id req"
    "ag_provider_id g = p" "ag_params_fingerprint g = action_fingerprint H params"
    "ag_expires_at g = ar_expires_at req" "ag_response_id g = resp_id resp" "ag_scope g = scope"
    "st' = store_add_action_grant g st"
  using assms
  by (auto simp: grant_from_response_def make_action_grant_def bind_res_Inr_iff split: if_splits)

lemma require_clear_iff: "require_clear s = Inr () \<longleftrightarrow> \<not> es_active s"
  by (simp add: require_clear_def)

end
