(* ===== verification/Grants.thy ===== *)
theory Grants
  imports Approvals
begin

text \<open>
  Signed approval grants: the payload and its canonical text (\<open>control_plane/grants.py\<close>), signers,
  broker requests and the grant verifier (\<open>approval_broker.py\<close>), the keychain signer and the trust
  registry (\<open>signer_trust.py\<close>), the lookup in the signed-grant cache (\<open>approval_store.py\<close>) and the
  local notifier (\<open>notifiers.py\<close>). The digest of HMAC-SHA256 is a parameter \<open>mac key message\<close>
  giving the raw bytes.
\<close>

section \<open>Payloads\<close>

definition GRANT_PAYLOAD_VERSION :: string where
  "GRANT_PAYLOAD_VERSION = ''approval-grant-v1''"

datatype approval_channel = HOST_NATIVE | OUT_OF_BAND | WATCH_TUI | CONVERSATIONAL | TEST_CHANNEL

fun approval_channel_value :: "approval_channel \<Rightarrow> string" where
  "approval_channel_value HOST_NATIVE = ''host_native''"
| "approval_channel_value OUT_OF_BAND = ''out_of_band''"
| "approval_channel_value WATCH_TUI = ''watch_tui''"
| "approval_channel_value CONVERSATIONAL = ''conversational''"
| "approval_channel_value TEST_CHANNEL = ''test''"

definition approval_channel_of :: "string \<Rightarrow> approval_channel res" where
  "approval_channel_of s =
     (case find (\<lambda>c. approval_channel_value c = s)
             [HOST_NATIVE, OUT_OF_BAND, WATCH_TUI, CONVERSATIONAL, TEST_CHANNEL] of
        Some c \<Rightarrow> Inr c
      | None \<Rightarrow> raise ValueError (py_repr False s @ '' is not a valid ApprovalChannel''))"

datatype verification_status = VALID | REJECTED | GRANT_EXPIRED | CONSUMED | MALFORMED | UNSIGNED

fun status_value :: "verification_status \<Rightarrow> string" where
  "status_value VALID = ''valid''"
| "status_value REJECTED = ''rejected''"
| "status_value GRANT_EXPIRED = ''expired''"
| "status_value CONSUMED = ''consumed''"
| "status_value MALFORMED = ''malformed''"
| "status_value UNSIGNED = ''unsigned''"

record risk_summary =
  rs_risk_family :: string
  rs_summary :: string
  rs_material_risks :: "string list"

definition make_risk_summary :: "risk_summary \<Rightarrow> risk_summary res" where
  "make_risk_summary r =
     (if rs_risk_family r = [] then raise ValueError ''risk family is required''
      else if rs_summary r = [] then raise ValueError ''risk summary is required'' else Inr r)"

definition risk_summary_to_dict :: "risk_summary \<Rightarrow> params" where
  "risk_summary_to_dict r =
     [(''risk_family'', PStr (rs_risk_family r)), (''summary'', PStr (rs_summary r)),
      (''material_risks'', pystrs (rs_material_risks r))]"

definition make_short_code :: "string \<Rightarrow> string res" where
  "make_short_code v =
     (if v = [] then raise ValueError ''short code is required''
      else let bare = filter (\<lambda>c. c \<noteq> CHR ''-'') v in
        if bare = [] \<or> \<not> list_all is_alnum bare
        then raise ValueError ''short code must be alphanumeric or hyphenated''
        else Inr v)"

record grant_payload =
  gp_grant_id :: string
  gp_request_id :: string
  gp_session_id :: string
  gp_target :: string
  gp_provider :: string
  gp_capability :: string
  gp_params_fingerprint :: string
  gp_risk_family :: string
  gp_channel :: approval_channel
  gp_expires_at :: datetime
  gp_one_time :: bool
  gp_consumed_at :: "datetime option"
  gp_policy_constraints :: params
  gp_signer_key_id :: string
  gp_payload_version :: string

definition payload_required :: "grant_payload \<Rightarrow> (string \<times> string) list" where
  "payload_required p =
     [(''grant_id'', gp_grant_id p), (''request_id'', gp_request_id p), (''session_id'', gp_session_id p),
      (''target'', gp_target p), (''provider'', gp_provider p), (''capability'', gp_capability p),
      (''params_fingerprint'', gp_params_fingerprint p), (''risk_family'', gp_risk_family p),
      (''signer_key_id'', gp_signer_key_id p)]"

definition make_payload :: "grant_payload \<Rightarrow> grant_payload res" where
  "make_payload p =
     (let missing = map fst (filter (\<lambda>(n, v). v = []) (payload_required p)) in
      if missing \<noteq> [] then raise ValueError (''grant payload missing required fields: '' @ str_join '', '' missing)
      else if \<not> is_aware (gp_expires_at p) then raise ValueError ''grant expiry must be timezone-aware''
      else Inr p)"

definition payload_to_dict :: "grant_payload \<Rightarrow> params" where
  "payload_to_dict p =
     [(''payload_version'', PStr (gp_payload_version p)), (''grant_id'', PStr (gp_grant_id p)),
      (''request_id'', PStr (gp_request_id p)), (''session_id'', PStr (gp_session_id p)),
      (''target'', PStr (gp_target p)), (''provider'', PStr (gp_provider p)),
      (''capability'', PStr (gp_capability p)), (''params_fingerprint'', PStr (gp_params_fingerprint p)),
      (''risk_family'', PStr (gp_risk_family p)),
      (''channel'', PStr (approval_channel_value (gp_channel p))),
      (''expires_at'', PStr (isoformat (to_utc (gp_expires_at p)))),
      (''one_time'', PBool (gp_one_time p)),
      (''consumed_at'', pyopt (map_option (isoformat \<circ> to_utc) (gp_consumed_at p))),
      (''policy_constraints'', pdict (gp_policy_constraints p)),
      (''signer_key_id'', PStr (gp_signer_key_id p))]"

definition canonical_payload :: "grant_payload \<Rightarrow> string res" where
  "canonical_payload p = canonical_json (pdict (payload_to_dict p))"

definition with_consumed_at :: "grant_payload \<Rightarrow> datetime \<Rightarrow> grant_payload res" where
  "with_consumed_at p t = make_payload (p\<lparr>gp_consumed_at := Some t\<rparr>)"

definition required_str :: "(pykey \<times> pyval) list \<Rightarrow> string \<Rightarrow> string res" where
  "required_str d key =
     (case dict_get d (KStr key) of
        Some (PStr s) \<Rightarrow> if s = [] then raise ValueError (key @ '' is required'') else Inr s
      | _ \<Rightarrow> raise ValueError (key @ '' is required''))"

definition parse_datetime :: "string \<Rightarrow> datetime res" where
  "parse_datetime s =
     bind_res (fromisoformat s) (\<lambda>t.
       if is_aware t then Inr t else raise ValueError ''datetime value must be timezone-aware'')"

fun parse_optional_datetime :: "pyval \<Rightarrow> datetime option res" where
  "parse_optional_datetime PNone = Inr None"
| "parse_optional_datetime (PStr s) = bind_res (parse_datetime s) (\<lambda>t. Inr (Some t))"
| "parse_optional_datetime v = raise ValueError ''optional datetime must be a string''"

fun mapping_of :: "pyval \<Rightarrow> params res" where
  "mapping_of (PDict d) = Inr (map (\<lambda>(k, v). (key_text k, v)) d)"
| "mapping_of v = raise ValueError ''mapping value is required''"

definition value_or :: "(pykey \<times> pyval) list \<Rightarrow> string \<Rightarrow> pyval \<Rightarrow> pyval" where
  "value_or d key v = dict_get_or d (KStr key) v"

definition payload_from_dict :: "(pykey \<times> pyval) list \<Rightarrow> grant_payload res" where
  "payload_from_dict d =
     bind_res (required_str d ''payload_version'') (\<lambda>version.
     bind_res (required_str d ''grant_id'') (\<lambda>grant_id.
     bind_res (required_str d ''request_id'') (\<lambda>request_id.
     bind_res (required_str d ''session_id'') (\<lambda>session_id.
     bind_res (required_str d ''target'') (\<lambda>target.
     bind_res (required_str d ''provider'') (\<lambda>provider.
     bind_res (required_str d ''capability'') (\<lambda>capability.
     bind_res (required_str d ''params_fingerprint'') (\<lambda>fingerprint.
     bind_res (required_str d ''risk_family'') (\<lambda>risk_family.
     bind_res (bind_res (required_str d ''channel'') approval_channel_of) (\<lambda>channel.
     bind_res (bind_res (required_str d ''expires_at'') parse_datetime) (\<lambda>expires_at.
     bind_res (parse_optional_datetime (value_or d ''consumed_at'' PNone)) (\<lambda>consumed_at.
     bind_res (mapping_of (value_or d ''policy_constraints'' (PDict []))) (\<lambda>constraints.
     bind_res (required_str d ''signer_key_id'') (\<lambda>signer_key_id.
     make_payload
       \<lparr>gp_grant_id = grant_id, gp_request_id = request_id, gp_session_id = session_id,
        gp_target = target, gp_provider = provider, gp_capability = capability,
        gp_params_fingerprint = fingerprint, gp_risk_family = risk_family, gp_channel = channel,
        gp_expires_at = expires_at, gp_one_time = py_truthy (value_or d ''one_time'' (PBool True)),
        gp_consumed_at = consumed_at, gp_policy_constraints = constraints,
        gp_signer_key_id = signer_key_id, gp_payload_version = version\<rparr>))))))))))))))"

record signed_grant =
  sgn_payload :: grant_payload
  sgn_signature :: string
  sgn_algorithm :: string

definition make_signed_grant :: "signed_grant \<Rightarrow> signed_grant res" where
  "make_signed_grant g =
     (if sgn_signature g = [] then raise ValueError ''signature is required''
      else if sgn_algorithm g = [] then raise ValueError ''signature algorithm is required'' else Inr g)"

definition signed_to_dict :: "signed_grant \<Rightarrow> params" where
  "signed_to_dict g =
     [(''payload'', pdict (payload_to_dict (sgn_payload g))), (''signature'', PStr (sgn_signature g)),
      (''signature_algorithm'', PStr (sgn_algorithm g))]"

definition signed_from_dict :: "(pykey \<times> pyval) list \<Rightarrow> signed_grant res" where
  "signed_from_dict d =
     (case dict_get d (KStr ''payload'') of
        Some (PDict p) \<Rightarrow>
          bind_res (payload_from_dict p) (\<lambda>payload.
          bind_res (required_str d ''signature'') (\<lambda>signature.
          bind_res (required_str d ''signature_algorithm'') (\<lambda>algorithm.
          make_signed_grant \<lparr>sgn_payload = payload, sgn_signature = signature, sgn_algorithm = algorithm\<rparr>)))
      | _ \<Rightarrow> raise ValueError ''signed grant payload is required'')"

record verification_result =
  vr_status :: verification_status
  vr_reason :: string
  vr_request_id :: "string option"
  vr_grant_id :: "string option"
  vr_signer_key_id :: "string option"

definition vr_valid :: "verification_result \<Rightarrow> bool" where
  "vr_valid r \<longleftrightarrow> vr_status r = VALID"

definition verification_to_dict :: "verification_result \<Rightarrow> params" where
  "verification_to_dict r =
     [(''status'', PStr (status_value (vr_status r))), (''reason'', PStr (vr_reason r)),
      (''request_id'', pyopt (vr_request_id r)), (''grant_id'', pyopt (vr_grant_id r)),
      (''signer_key_id'', pyopt (vr_signer_key_id r))]"

section \<open>Signers\<close>

text \<open>
  \<open>hmac.compare_digest\<close> raises on text that is not ASCII; \<open>hexdigest\<close> writes two hexadecimal
  digits per byte.
\<close>

definition is_ascii :: "string \<Rightarrow> bool" where
  "is_ascii s \<longleftrightarrow> list_all (\<lambda>c. code_of c < 128) s"

definition compare_digest :: "string \<Rightarrow> string \<Rightarrow> bool res" where
  "compare_digest a b =
     (if is_ascii a \<and> is_ascii b then Inr (a = b)
      else raise TypeError ''comparing strings with non-ASCII characters is not supported'')"

definition hexdigest :: "string \<Rightarrow> string" where
  "hexdigest bs = concat (map (\<lambda>b. [hex_digit (code_of b div 16), hex_digit (code_of b mod 16)]) bs)"

type_synonym mac = "string \<Rightarrow> string \<Rightarrow> string"

record signer =
  signer_key :: string
  signer_algorithm :: string
  signer_sign :: "grant_payload \<Rightarrow> signed_grant res"
  signer_verify :: "signed_grant \<Rightarrow> bool res"

text \<open>\<open>HMACDevelopmentSigner\<close>\<close>

definition make_hmac_signer :: "string \<Rightarrow> string \<Rightarrow> unit res" where
  "make_hmac_signer key_id secret =
     (if key_id = [] then raise ValueError ''signer key id is required''
      else if secret = [] then raise ValueError ''development signer secret is required'' else Inr ())"

definition signature_for :: "mac \<Rightarrow> string \<Rightarrow> grant_payload \<Rightarrow> string res" where
  "signature_for mac secret p = bind_res (canonical_payload p) (\<lambda>m. Inr (hexdigest (mac secret m)))"

definition hmac_sign :: "mac \<Rightarrow> string \<Rightarrow> string \<Rightarrow> string \<Rightarrow> grant_payload \<Rightarrow> signed_grant res" where
  "hmac_sign mac algorithm key_id secret p =
     (if gp_signer_key_id p \<noteq> key_id then raise ValueError ''payload signer key id does not match signer''
      else bind_res (signature_for mac secret p) (\<lambda>s.
        make_signed_grant \<lparr>sgn_payload = p, sgn_signature = s, sgn_algorithm = algorithm\<rparr>))"

definition hmac_verify :: "mac \<Rightarrow> string \<Rightarrow> string \<Rightarrow> string \<Rightarrow> signed_grant \<Rightarrow> bool res" where
  "hmac_verify mac algorithm key_id secret g =
     (if sgn_algorithm g \<noteq> algorithm then Inr False
      else if gp_signer_key_id (sgn_payload g) \<noteq> key_id then Inr False
      else bind_res (signature_for mac secret (sgn_payload g)) (\<lambda>expected.
        compare_digest expected (sgn_signature g)))"

text \<open>The keychain backend of tests and the development fallback, and the keychain signer.\<close>

type_synonym backend_sign = "string \<Rightarrow> string \<Rightarrow> string res"
type_synonym backend_verify = "string \<Rightarrow> string \<Rightarrow> string \<Rightarrow> bool res"

definition key_material :: "(string, string) dict \<Rightarrow> string \<Rightarrow> string option" where
  "key_material keys key_id =
     (case dict_get keys key_id of Some s \<Rightarrow> if s = [] then None else Some s | None \<Rightarrow> None)"

definition memory_sign :: "mac \<Rightarrow> (string, string) dict \<Rightarrow> backend_sign" where
  "memory_sign mac keys key_id message =
     (case key_material keys key_id of
        None \<Rightarrow> raise KeyError (''no key material for '' @ py_repr False key_id)
      | Some secret \<Rightarrow> Inr (hexdigest (mac secret message)))"

definition memory_verify :: "mac \<Rightarrow> (string, string) dict \<Rightarrow> backend_verify" where
  "memory_verify mac keys key_id message signature =
     (case key_material keys key_id of
        None \<Rightarrow> Inr False
      | Some secret \<Rightarrow> compare_digest (hexdigest (mac secret message)) signature)"

definition keychain_sign :: "backend_sign \<Rightarrow> string \<Rightarrow> string \<Rightarrow> grant_payload \<Rightarrow> signed_grant res" where
  "keychain_sign bsign algorithm key_id p =
     (if gp_signer_key_id p \<noteq> key_id then raise ValueError ''payload signer key id does not match signer''
      else bind_res (canonical_payload p) (\<lambda>m. bind_res (bsign key_id m) (\<lambda>s.
        make_signed_grant \<lparr>sgn_payload = p, sgn_signature = s, sgn_algorithm = algorithm\<rparr>)))"

definition keychain_verify :: "backend_verify \<Rightarrow> string \<Rightarrow> string \<Rightarrow> signed_grant \<Rightarrow> bool res" where
  "keychain_verify bverify algorithm key_id g =
     (if sgn_algorithm g \<noteq> algorithm then Inr False
      else if gp_signer_key_id (sgn_payload g) \<noteq> key_id then Inr False
      else bind_res (canonical_payload (sgn_payload g)) (\<lambda>m. bverify key_id m (sgn_signature g)))"

section \<open>The contracts of signers and of keychain backends\<close>

locale approval_signer =
  fixes key :: string
    and sign :: "grant_payload \<Rightarrow> signed_grant res"
    and verify :: "signed_grant \<Rightarrow> bool res"
  assumes sign_payload: "sign p = Inr g \<Longrightarrow> sgn_payload g = p"
    and sign_verifies: "sign p = Inr g \<Longrightarrow> verify g = Inr True"
    and verify_key: "verify g = Inr True \<Longrightarrow> gp_signer_key_id (sgn_payload g) = key"
begin

lemma sign_key: "sign p = Inr g \<Longrightarrow> gp_signer_key_id p = key"
  using sign_payload sign_verifies verify_key by blast

lemma foreign_key_never_verifies: "gp_signer_key_id (sgn_payload g) \<noteq> key \<Longrightarrow> verify g \<noteq> Inr True"
  using verify_key by blast

lemma no_signature_for_foreign_key: "gp_signer_key_id p \<noteq> key \<Longrightarrow> sign p \<noteq> Inr g"
  using sign_key by blast

end

locale keychain_backend =
  fixes bsign :: backend_sign and bverify :: backend_verify
  assumes backend_verifies: "bsign k m = Inr s \<Longrightarrow> bverify k m s = Inr True"
begin

lemma keychain_roundtrip:
  assumes "keychain_sign bsign algorithm key p = Inr g"
  shows "sgn_payload g = p" "keychain_verify bverify algorithm key g = Inr True"
  using assms backend_verifies
  by (auto simp: keychain_sign_def keychain_verify_def make_signed_grant_def bind_res_Inr_iff split: if_splits)

end

sublocale keychain_backend \<subseteq> keychain: approval_signer key "keychain_sign bsign algorithm key"
    "keychain_verify bverify algorithm key" for algorithm key
proof
  show "keychain_verify bverify algorithm key g = Inr True \<Longrightarrow> gp_signer_key_id (sgn_payload g) = key" for g
    by (auto simp: keychain_verify_def split: if_splits)
qed (rule keychain_roundtrip; assumption)+

lemma hex_digit_ascii: "n < 16 \<Longrightarrow> code_of (hex_digit n) < 128"
proof -
  have "\<forall>n \<in> set [0..<16]. code_of (hex_digit n) < 128" by code_simp
  then show "n < 16 \<Longrightarrow> ?thesis" by simp
qed

lemma hexdigest_ascii: "is_ascii (hexdigest bs)"
proof (induction bs)
  case (Cons b bs)
  have "code_of b < 256" by (rule nat_of_char_less_256)
  then have "code_of b div 16 < 16" by (simp only: less_mult_imp_div_less)
  with Cons show ?case by (simp add: hexdigest_def is_ascii_def hex_digit_ascii)
qed (simp add: hexdigest_def is_ascii_def)

lemma compare_hexdigest: "compare_digest (hexdigest bs) (hexdigest bs) = Inr True"
  by (simp add: compare_digest_def hexdigest_ascii)

interpretation memory_backend: keychain_backend "memory_sign mac keys" "memory_verify mac keys" for mac keys
  by unfold_locales
    (auto simp: memory_sign_def memory_verify_def compare_hexdigest split: option.splits)

interpretation hmac_signer: approval_signer key_id "hmac_sign mac algorithm key_id secret"
    "hmac_verify mac algorithm key_id secret" for mac algorithm key_id secret
  by unfold_locales
    (auto simp: hmac_sign_def hmac_verify_def make_signed_grant_def bind_res_Inr_iff signature_for_def
      compare_hexdigest split: if_splits)

section \<open>Verification of a signed grant\<close>

record grant_context =
  gc_request_id :: string
  gc_session_id :: string
  gc_target :: string
  gc_provider :: string
  gc_capability :: string
  gc_params_fingerprint :: string
  gc_risk_family :: string
  gc_now :: datetime
  gc_conversational :: "string list"

definition BANNED_CONVERSATIONAL :: "string list" where
  "BANNED_CONVERSATIONAL =
     [''power'', ''input'', ''boot'', ''media'', ''provider_mutation'', ''credentials'', ''policy'',
      ''audit'', ''emergency_stop'']"

definition context_from_parameters ::
    "(string \<Rightarrow> string) \<Rightarrow> string \<Rightarrow> string \<Rightarrow> string \<Rightarrow> string \<Rightarrow> string \<Rightarrow> params \<Rightarrow> string \<Rightarrow> datetime \<Rightarrow>
     grant_context res" where
  "context_from_parameters H request_id session_id target provider capability parameters risk_family now =
     bind_res (fingerprint_parameters H parameters) (\<lambda>f. Inr
       \<lparr>gc_request_id = request_id, gc_session_id = session_id, gc_target = target,
        gc_provider = provider, gc_capability = capability, gc_params_fingerprint = f,
        gc_risk_family = risk_family, gc_now = now, gc_conversational = [''observe'', ''runtime'']\<rparr>)"

definition payload_bindings :: "grant_payload \<Rightarrow> grant_context \<Rightarrow> (string \<times> string \<times> string) list" where
  "payload_bindings p c =
     [(''request_id'', gp_request_id p, gc_request_id c),
      (''session_id'', gp_session_id p, gc_session_id c),
      (''target'', gp_target p, gc_target c),
      (''provider'', gp_provider p, gc_provider c),
      (''capability'', gp_capability p, gc_capability c),
      (''params_fingerprint'', gp_params_fingerprint p, gc_params_fingerprint c),
      (''risk_family'', gp_risk_family p, gc_risk_family c)]"

definition verification :: "grant_payload \<Rightarrow> verification_status \<Rightarrow> string \<Rightarrow> verification_result" where
  "verification p status reason =
     \<lparr>vr_status = status, vr_reason = reason, vr_request_id = Some (gp_request_id p),
      vr_grant_id = Some (gp_grant_id p), vr_signer_key_id = Some (gp_signer_key_id p)\<rparr>"

definition verify_grant ::
    "(string, signer) dict \<Rightarrow> signed_grant option \<Rightarrow> grant_context \<Rightarrow> verification_result res" where
  "verify_grant signers signed c =
     (case signed of
        None \<Rightarrow> Inr \<lparr>vr_status = UNSIGNED, vr_reason = ''signed grant is required'',
                   vr_request_id = Some (gc_request_id c), vr_grant_id = None, vr_signer_key_id = None\<rparr>
      | Some g \<Rightarrow>
          let p = sgn_payload g in
          (case dict_get signers (gp_signer_key_id p) of
             None \<Rightarrow> Inr (verification p REJECTED ''untrusted signer key id'')
           | Some signer \<Rightarrow>
               bind_res (signer_verify signer g) (\<lambda>ok.
               if \<not> ok then Inr (verification p REJECTED ''invalid signature'')
               else (case first_mismatch (payload_bindings p c) of
                  Some m \<Rightarrow> Inr (verification p REJECTED (m @ '' mismatch''))
                | None \<Rightarrow>
                    if gp_capability p \<in> set RESUMPTION_BLOCKED
                    then Inr (verification p REJECTED ''hard invariant capability cannot be approved'')
                    else
                      bind_res (dt_geq (gc_now c) (gp_expires_at p)) (\<lambda>late.
                      if late then Inr (verification p GRANT_EXPIRED ''grant expired'')
                      else if gp_one_time p \<and> gp_consumed_at p \<noteq> None
                      then Inr (verification p CONSUMED ''one-time grant already consumed'')
                      else if gp_channel p = CONVERSATIONAL \<and> gp_risk_family p \<in> set BANNED_CONVERSATIONAL
                      then Inr (verification p REJECTED ''conversational approval banned for risk family'')
                      else if gp_channel p = CONVERSATIONAL \<and> gp_risk_family p \<notin> set (gc_conversational c)
                      then Inr (verification p REJECTED ''conversational approval not allowed for risk family'')
                      else Inr (verification p VALID ''grant verified''))))))"

definition build_grant_payload ::
    "(string \<Rightarrow> string) \<Rightarrow> string \<Rightarrow> string \<Rightarrow> string \<Rightarrow> string \<Rightarrow> string \<Rightarrow> string \<Rightarrow> params \<Rightarrow> string \<Rightarrow>
     approval_channel \<Rightarrow> datetime \<Rightarrow> string \<Rightarrow> bool \<Rightarrow> grant_payload res" where
  "build_grant_payload H grant_id request_id session_id target provider capability parameters
     risk_family channel expires_at signer_key_id one_time =
     bind_res (fingerprint_parameters H parameters) (\<lambda>f. make_payload
       \<lparr>gp_grant_id = grant_id, gp_request_id = request_id, gp_session_id = session_id,
        gp_target = target, gp_provider = provider, gp_capability = capability,
        gp_params_fingerprint = f, gp_risk_family = risk_family, gp_channel = channel,
        gp_expires_at = to_utc expires_at, gp_one_time = one_time, gp_consumed_at = None,
        gp_policy_constraints = [], gp_signer_key_id = signer_key_id,
        gp_payload_version = GRANT_PAYLOAD_VERSION\<rparr>)"

section \<open>Broker requests and notifications\<close>

definition DEFAULT_APPROVAL_TIMEOUT_SECONDS :: int where
  "DEFAULT_APPROVAL_TIMEOUT_SECONDS = 20"

record broker_request =
  br_request_id :: string
  br_session_id :: string
  br_target :: string
  br_provider :: string
  br_capability :: string
  br_params_fingerprint :: string
  br_risk_summary :: risk_summary
  br_channel :: approval_channel
  br_short_code :: string
  br_operator_message :: string
  br_retry_instructions :: string
  br_created_at :: datetime
  br_expires_at :: datetime
  br_timeout_seconds :: int

definition make_broker_request :: "broker_request \<Rightarrow> broker_request res" where
  "make_broker_request r =
     (if br_timeout_seconds r > DEFAULT_APPROVAL_TIMEOUT_SECONDS
      then raise ValueError ''approval timeout cannot exceed default maximum without explicit policy''
      else if \<not> is_aware (br_created_at r) \<or> \<not> is_aware (br_expires_at r)
      then raise ValueError ''approval timestamps must be timezone-aware''
      else bind_res (dt_leq (br_expires_at r) (br_created_at r)) (\<lambda>late.
        if late then raise ValueError ''approval request expiry must be after creation''
        else if contains (br_operator_message r) ''..''
        then raise ValueError ''operator message must not contain double periods''
        else Inr r))"

definition to_approval_required :: "broker_request \<Rightarrow> params" where
  "to_approval_required r =
     [(''status'', PStr ''approval_required''),
      (''approval_request'', pdict
        [(''id'', PStr (br_request_id r)), (''session_id'', PStr (br_session_id r)),
         (''target'', PStr (br_target r)), (''provider'', PStr (br_provider r)),
         (''capability'', PStr (br_capability r)),
         (''params_fingerprint'', PStr (br_params_fingerprint r)),
         (''risk_family'', PStr (rs_risk_family (br_risk_summary r))),
         (''channel'', PStr (approval_channel_value (br_channel r))),
         (''short_code'', PStr (br_short_code r)),
         (''operator_message'', PStr (br_operator_message r)),
         (''risk_summary'', pdict (risk_summary_to_dict (br_risk_summary r))),
         (''retry_instructions'', PStr (br_retry_instructions r)),
         (''created_at'', PStr (isoformat (to_utc (br_created_at r)))),
         (''expires_at'', PStr (isoformat (to_utc (br_expires_at r)))),
         (''timeout_seconds'', PInt (br_timeout_seconds r))])]"

definition short_code :: "(string \<Rightarrow> string) \<Rightarrow> string \<Rightarrow> string \<Rightarrow> string" where
  "short_code H request_id fingerprint =
     (let raw = str_upper (take 8 (H (request_id @ '':'' @ fingerprint)))
      in take 4 raw @ ''-'' @ drop 4 raw)"

definition operator_message :: "string \<Rightarrow> string \<Rightarrow> string \<Rightarrow> string \<Rightarrow> string \<Rightarrow> string \<Rightarrow> string" where
  "operator_message code capability target provider intended_effect risk =
     collapse_dots
       (''Approval '' @ code @ '' required for '' @ capability @ '' on target '' @ target @
        '' through provider '' @ provider @ ''. Intended effect: '' @ intended_effect @ ''. Risk: '' @
        risk @ ''. Surface this code to the operator and retry with identical parameters after approval.'')"

definition make_broker :: "int \<Rightarrow> unit res" where
  "make_broker timeout_seconds =
     (if timeout_seconds < 0 then raise ValueError ''approval timeout cannot be negative''
      else if timeout_seconds > DEFAULT_APPROVAL_TIMEOUT_SECONDS
      then raise ValueError ''approval timeout cannot exceed default maximum without explicit policy''
      else Inr ())"

definition request_approval ::
    "(string \<Rightarrow> string) \<Rightarrow> int \<Rightarrow> string \<Rightarrow> string \<Rightarrow> string \<Rightarrow> string \<Rightarrow> string \<Rightarrow> params \<Rightarrow> string \<Rightarrow> string \<Rightarrow>
     string list \<Rightarrow> string \<Rightarrow> datetime \<Rightarrow> datetime \<Rightarrow> approval_channel \<Rightarrow> broker_request res" where
  "request_approval H timeout request_id session_id target provider capability parameters risk_family
     risk_text material_risks intended_effect now expires_at channel =
     bind_res (fingerprint_parameters H parameters) (\<lambda>f.
     bind_res (make_short_code (short_code H request_id f)) (\<lambda>code.
     bind_res (make_risk_summary \<lparr>rs_risk_family = risk_family, rs_summary = risk_text,
                                  rs_material_risks = material_risks\<rparr>) (\<lambda>risk.
     make_broker_request
       \<lparr>br_request_id = request_id, br_session_id = session_id, br_target = target,
        br_provider = provider, br_capability = capability, br_params_fingerprint = f,
        br_risk_summary = risk, br_channel = channel, br_short_code = code,
        br_operator_message =
          operator_message code capability target provider intended_effect risk_text,
        br_retry_instructions =
          ''After operator approval, re-call the same tool with identical target, provider, capability, and parameters.'',
        br_created_at = to_utc now, br_expires_at = to_utc expires_at,
        br_timeout_seconds = timeout\<rparr>)))"

record notification =
  nt_request_id :: string
  nt_short_code :: string
  nt_operator_message :: string
  nt_risk_summary :: params
  nt_allow_action :: "(string \<times> string) list"
  nt_deny_action :: "(string \<times> string) list"

definition action_button :: "string \<Rightarrow> string \<Rightarrow> broker_request \<Rightarrow> (string \<times> string) list" where
  "action_button label act r =
     [(''label'', label), (''action'', act), (''request_id'', br_request_id r),
      (''short_code'', br_short_code r)]"

text \<open>\<open>LocalApprovalNotifier.notify\<close>; the state is the list \<open>sent\<close>.\<close>

definition notify :: "broker_request \<Rightarrow> notification list \<Rightarrow> notification \<times> notification list" where
  "notify r sent =
     (let n = \<lparr>nt_request_id = br_request_id r, nt_short_code = br_short_code r,
               nt_operator_message = br_operator_message r,
               nt_risk_summary = risk_summary_to_dict (br_risk_summary r),
               nt_allow_action = action_button ''Allow'' ''allow'' r,
               nt_deny_action = action_button ''Deny'' ''deny'' r\<rparr>
      in (n, sent @ [n]))"

section \<open>The trust registry and the grant cache\<close>

record signer_trust =
  tr_signer :: signer
  tr_development :: bool
  tr_label :: string

record trust_registry =
  tg_allow_development :: bool
  tg_trust :: "(string, signer_trust) dict"

definition register_signer ::
    "trust_registry \<Rightarrow> signer \<Rightarrow> bool \<Rightarrow> string option \<Rightarrow> trust_registry res" where
  "register_signer reg s development label =
     (if signer_key s = [] then raise ValueError ''signer key id is required''
      else Inr (reg\<lparr>tg_trust := dict_set (signer_key s)
        \<lparr>tr_signer = s, tr_development = development,
         tr_label = reason_or label (if development then ''development'' else ''production'')\<rparr>
        (tg_trust reg)\<rparr>))"

definition is_trusted :: "trust_registry \<Rightarrow> string \<Rightarrow> bool" where
  "is_trusted reg key_id =
     (case dict_get (tg_trust reg) key_id of
        None \<Rightarrow> False
      | Some t \<Rightarrow> if tr_development t \<and> \<not> tg_allow_development reg then False else True)"

definition signer_for :: "trust_registry \<Rightarrow> string \<Rightarrow> signer option" where
  "signer_for reg key_id =
     (if is_trusted reg key_id then map_option tr_signer (dict_get (tg_trust reg) key_id) else None)"

definition trusted_signers :: "trust_registry \<Rightarrow> (string, signer) dict" where
  "trusted_signers reg =
     map (\<lambda>(k, t). (k, tr_signer t)) (filter (\<lambda>(k, t). is_trusted reg k) (tg_trust reg))"

definition trust_summary :: "trust_registry \<Rightarrow> params list" where
  "trust_summary reg =
     map (\<lambda>(k, t).
       [(''key_id'', PStr k), (''signature_algorithm'', PStr (signer_algorithm (tr_signer t))),
        (''development'', PBool (tr_development t)), (''label'', PStr (tr_label t)),
        (''trusted'', PBool (is_trusted reg k))]) (sort_key fst (tg_trust reg))"

definition verifier_from_trust_registry :: "trust_registry \<Rightarrow> (string, signer) dict" where
  "verifier_from_trust_registry reg = trusted_signers reg"

text \<open>
  The cache file: what \<open>write_signed_grants\<close> writes, and reading it back. The argument of
  \<open>read_signed_grants\<close> is \<open>None\<close> for a missing file, \<open>Some None\<close> for text that is no JSON, and
  the parsed document otherwise.
\<close>

definition cache_document :: "signed_grant list \<Rightarrow> pyval" where
  "cache_document grants =
     pdict [(''version'', PInt 1), (''authority'', PStr ''cache_only_signature_required''),
            (''signed_grants'', PList (map (pdict \<circ> signed_to_dict) grants))]"

fun signed_from_item :: "pyval \<Rightarrow> signed_grant res" where
  "signed_from_item (PDict d) = signed_from_dict d"
| "signed_from_item v = raise AttributeError ''object has no attribute get''"

definition read_signed_grants :: "pyval option option \<Rightarrow> signed_grant list res" where
  "read_signed_grants file =
     (case file of
        None \<Rightarrow> Inr []
      | Some None \<Rightarrow> raise ApprovalCacheError ''approval cache is malformed''
      | Some (Some (PDict d)) \<Rightarrow>
          if dict_get d (KStr ''authority'') \<noteq> Some (PStr ''cache_only_signature_required'')
          then raise ApprovalCacheError ''approval cache authority marker is invalid''
          else (case dict_get d (KStr ''signed_grants'') of
             Some (PList items) \<Rightarrow>
               (case map_res signed_from_item items of
                  Inr gs \<Rightarrow> Inr gs
                | Inl e \<Rightarrow> raise ApprovalCacheError ''approval cache contains invalid signed grant'')
           | _ \<Rightarrow> raise ApprovalCacheError ''approval cache signed_grants must be a list'')
      | Some (Some v) \<Rightarrow> raise ApprovalCacheError ''approval cache root must be an object'')"

definition append_signed_grant :: "pyval option option \<Rightarrow> signed_grant \<Rightarrow> pyval res" where
  "append_signed_grant file g =
     bind_res (read_signed_grants file) (\<lambda>existing. Inr (cache_document (existing @ [g])))"

definition find_verified_grant ::
    "(string, signer) dict \<Rightarrow> grant_context \<Rightarrow> pyval option option \<Rightarrow> signed_grant option res" where
  "find_verified_grant signers c file =
     (case read_signed_grants file of
        Inl e \<Rightarrow> Inr None
      | Inr grants \<Rightarrow>
          find_res (\<lambda>g. bind_res (verify_grant signers (Some g) c) (\<lambda>r. Inr (vr_valid r))) grants)"

end
