(* ===== verification/Clearance.thy ===== *)
theory Clearance
  imports Grants
begin

text \<open>
  \<open>control_plane/clearance.py\<close>: the client-side mirror of the Agentic Control Tower's clearance
  requests and responses, building a request, and reading a tower response from its JSON payload.
\<close>

section \<open>Vocabulary\<close>

definition ACT_AIRCRAFT_ID :: string where
  "ACT_AIRCRAFT_ID = ''AgenticKVM''"

definition DEFAULT_CLEARANCE_TIMEOUT_SECONDS :: int where
  "DEFAULT_CLEARANCE_TIMEOUT_SECONDS = 20"

definition CONTRACT_VERSION_V2 :: string where
  "CONTRACT_VERSION_V2 = ''act.clearance.v2''"

definition AIRCRAFT_RISK_FAMILIES :: "risk_family list" where
  "AIRCRAFT_RISK_FAMILIES = [LOW_RISK, HIGH_RISK]"

datatype clearance_status =
    CLEARANCE_REQUIRED | CLEARED | CL_DENIED | CL_EXPIRED | INVALID | TOWER_UNAVAILABLE
  | VERIFICATION_FAILED

fun clearance_status_value :: "clearance_status \<Rightarrow> string" where
  "clearance_status_value CLEARANCE_REQUIRED = ''clearance_required''"
| "clearance_status_value CLEARED = ''cleared''"
| "clearance_status_value CL_DENIED = ''denied''"
| "clearance_status_value CL_EXPIRED = ''expired''"
| "clearance_status_value INVALID = ''invalid''"
| "clearance_status_value TOWER_UNAVAILABLE = ''tower_unavailable''"
| "clearance_status_value VERIFICATION_FAILED = ''verification_failed''"

definition act_state_to_status :: "(string, clearance_status) dict" where
  "act_state_to_status =
     [(''pending'', CLEARANCE_REQUIRED), (''approved'', CLEARED), (''denied'', CL_DENIED),
      (''expired'', CL_EXPIRED), (''cancelled'', CL_DENIED)]"

definition risk_family_of :: "string \<Rightarrow> risk_family res" where
  "risk_family_of v =
     (if v = [] then raise ValueError ''clearance risk_family is required''
      else (case find (\<lambda>f. risk_family_value f = v) all_risk_families of
         Some f \<Rightarrow> Inr f
       | None \<Rightarrow> raise ValueError (''unknown clearance risk_family: '' @ v)))"

definition check_params_fingerprint :: "string \<Rightarrow> unit res" where
  "check_params_fingerprint v = guard_res (v \<noteq> []) ValueError ''clearance params_fingerprint is required''"

definition check_short_code :: "string \<Rightarrow> unit res" where
  "check_short_code v = guard_res (v \<noteq> []) ValueError ''clearance short_code is required''"

definition check_operator_message :: "string \<Rightarrow> unit res" where
  "check_operator_message v =
     (if v = [] then raise ValueError ''clearance operator_message is required''
      else if contains v ''..'' then raise ValueError ''operator message must not contain double periods''
      else Inr ())"

section \<open>Requests and responses\<close>

record clearance_risk =
  cr_risk_family :: risk_family
  cr_summary :: string
  cr_material_risks :: "string list"

definition make_clearance_risk :: "clearance_risk \<Rightarrow> clearance_risk res" where
  "make_clearance_risk r =
     (if cr_summary r = [] then raise ValueError ''risk summary is required'' else Inr r)"

definition clearance_risk_to_dict :: "clearance_risk \<Rightarrow> params" where
  "clearance_risk_to_dict r =
     [(''risk_family'', PStr (risk_family_value (cr_risk_family r))), (''summary'', PStr (cr_summary r)),
      (''material_risks'', pystrs (cr_material_risks r))]"

record clearance_request =
  cq_request_id :: string
  cq_session_id :: string
  cq_target :: string
  cq_provider :: string
  cq_capability :: string
  cq_params_fingerprint :: string
  cq_risk_summary :: clearance_risk
  cq_operator_message :: string
  cq_requested_by :: string
  cq_created_at :: datetime
  cq_expires_at :: datetime
  cq_short_code :: string
  cq_policy_context :: params
  cq_audit_correlation_id :: string
  cq_aircraft :: string

definition clearance_required_fields :: "clearance_request \<Rightarrow> (string \<times> string) list" where
  "clearance_required_fields r =
     [(''request_id'', cq_request_id r), (''session_id'', cq_session_id r), (''target'', cq_target r),
      (''provider'', cq_provider r), (''capability'', cq_capability r),
      (''params_fingerprint'', cq_params_fingerprint r), (''operator_message'', cq_operator_message r),
      (''requested_by'', cq_requested_by r), (''short_code'', cq_short_code r),
      (''audit_correlation_id'', cq_audit_correlation_id r), (''aircraft'', cq_aircraft r)]"

definition make_clearance_request :: "clearance_request \<Rightarrow> clearance_request res" where
  "make_clearance_request r =
     (let missing = map fst (filter (\<lambda>(n, v). v = []) (clearance_required_fields r)) in
      if missing \<noteq> []
      then raise ValueError (''clearance request missing required fields: '' @ str_join '', '' missing)
      else
        bind_res (check_params_fingerprint (cq_params_fingerprint r)) (\<lambda>_.
        bind_res (check_operator_message (cq_operator_message r)) (\<lambda>_.
        bind_res (check_short_code (cq_short_code r)) (\<lambda>_.
        if \<not> is_aware (cq_created_at r) \<or> \<not> is_aware (cq_expires_at r)
        then raise ValueError ''clearance timestamps must be timezone-aware''
        else bind_res (dt_leq (cq_expires_at r) (cq_created_at r)) (\<lambda>late.
          if late then raise ValueError ''clearance expiry must be after creation'' else Inr r)))))"

definition clearance_request_to_dict :: "clearance_request \<Rightarrow> params" where
  "clearance_request_to_dict r =
     [(''aircraft'', PStr (cq_aircraft r)), (''request_id'', PStr (cq_request_id r)),
      (''session_id'', PStr (cq_session_id r)), (''target'', PStr (cq_target r)),
      (''provider'', PStr (cq_provider r)), (''capability'', PStr (cq_capability r)),
      (''params_fingerprint'', PStr (cq_params_fingerprint r)),
      (''risk_family'', PStr (risk_family_value (cr_risk_family (cq_risk_summary r)))),
      (''risk_summary'', pdict (clearance_risk_to_dict (cq_risk_summary r))),
      (''operator_message'', PStr (cq_operator_message r)),
      (''requested_by'', PStr (cq_requested_by r)),
      (''created_at'', PStr (isoformat (to_utc (cq_created_at r)))),
      (''expires_at'', PStr (isoformat (to_utc (cq_expires_at r)))),
      (''short_code'', PStr (cq_short_code r)), (''policy_context'', pdict (cq_policy_context r)),
      (''audit_correlation_id'', PStr (cq_audit_correlation_id r))]"

text \<open>A response keeps the proof as parsed, and the strings the tower signed.\<close>

record clearance_response =
  cp_status :: clearance_status
  cp_request_id :: string
  cp_session_id :: string
  cp_target :: string
  cp_provider :: string
  cp_capability :: string
  cp_params_fingerprint :: string
  cp_risk_family :: risk_family
  cp_short_code :: string
  cp_expires_at :: "datetime option"
  cp_tower_id :: "json option"
  cp_proof :: "jobject option"
  cp_audit_correlation_id :: string
  cp_operator_message :: string
  cp_reason :: string
  cp_contract_version :: string
  cp_bound_material :: "(string \<times> string) list option"

definition make_clearance_response :: "clearance_response \<Rightarrow> clearance_response res" where
  "make_clearance_response r =
     bind_res (check_params_fingerprint (cp_params_fingerprint r)) (\<lambda>_.
     bind_res (check_short_code (cp_short_code r)) (\<lambda>_.
     bind_res (if cp_operator_message r \<noteq> [] then check_operator_message (cp_operator_message r)
               else Inr ()) (\<lambda>_.
     (case cp_expires_at r of
        Some t \<Rightarrow> if is_aware t then Inr r
                  else raise ValueError ''clearance response expiry must be timezone-aware''
      | None \<Rightarrow> Inr r))))"

definition clearance_response_to_dict :: "clearance_response \<Rightarrow> params" where
  "clearance_response_to_dict r =
     [(''status'', PStr (clearance_status_value (cp_status r))), (''request_id'', PStr (cp_request_id r)),
      (''session_id'', PStr (cp_session_id r)), (''target'', PStr (cp_target r)),
      (''provider'', PStr (cp_provider r)), (''capability'', PStr (cp_capability r)),
      (''params_fingerprint'', PStr (cp_params_fingerprint r)),
      (''risk_family'', PStr (risk_family_value (cp_risk_family r))),
      (''short_code'', PStr (cp_short_code r)),
      (''expires_at'', pyopt (map_option (isoformat \<circ> to_utc) (cp_expires_at r))),
      (''tower_id'', (case cp_tower_id r of None \<Rightarrow> PNone | Some v \<Rightarrow> pyval_of_json v)),
      (''proof'', (case cp_proof r of None \<Rightarrow> PNone | Some p \<Rightarrow> pyval_of_json (JObj p))),
      (''audit_correlation_id'', PStr (cp_audit_correlation_id r)),
      (''operator_message'', PStr (cp_operator_message r)), (''reason'', PStr (cp_reason r)),
      (''contract_version'', PStr (cp_contract_version r))]"

record clearance_verification =
  cv_valid :: bool
  cv_status :: clearance_status
  cv_reason :: string
  cv_tower_id :: "json option"
  cv_request_id :: "string option"

definition clearance_verification_to_dict :: "clearance_verification \<Rightarrow> params" where
  "clearance_verification_to_dict v =
     [(''valid'', PBool (cv_valid v)), (''status'', PStr (clearance_status_value (cv_status v))),
      (''reason'', PStr (cv_reason v)),
      (''tower_id'', (case cv_tower_id v of None \<Rightarrow> PNone | Some j \<Rightarrow> pyval_of_json j)),
      (''request_id'', pyopt (cv_request_id v))]"

section \<open>Building a request\<close>

definition build_operator_message ::
    "string \<Rightarrow> string \<Rightarrow> string \<Rightarrow> string \<Rightarrow> string \<Rightarrow> string \<Rightarrow> string" where
  "build_operator_message code capability target provider intended_effect risk =
     collapse_dots
       (''Clearance '' @ code @ '' required for '' @ capability @ '' on target '' @ target @
        '' through provider '' @ provider @ ''. Intended effect: '' @ intended_effect @ ''. Risk: '' @
        risk @ ''. Surface this code to the operator and retry with identical parameters after approval.'')"

definition clearance_fingerprint_and_code ::
    "(string \<Rightarrow> string) \<Rightarrow> bool \<Rightarrow> string \<Rightarrow> string \<Rightarrow> string \<Rightarrow> string \<Rightarrow> string \<Rightarrow> params \<Rightarrow> string \<Rightarrow>
     params \<Rightarrow> (string \<times> string) res" where
  "clearance_fingerprint_and_code H act_parity request_id session_id target provider capability
     parameters risk_text policy_context =
     bind_res
       (if act_parity
        then Inr (act_params_fingerprint H [(''capability'', PStr capability)]
          (Some (act_agentickvm_extensions (Some target) (Some provider) (Some capability)
                  (Some risk_text) (Some policy_context) (Some session_id))))
        else fingerprint_parameters H parameters) (\<lambda>f.
     bind_res (check_params_fingerprint f) (\<lambda>_.
       let code = (if act_parity then act_short_code H request_id f else short_code H request_id f)
       in bind_res (check_short_code code) (\<lambda>_. Inr (f, code))))"

definition build_clearance_request ::
    "(string \<Rightarrow> string) \<Rightarrow> string \<Rightarrow> string \<Rightarrow> string \<Rightarrow> string \<Rightarrow> params \<Rightarrow> risk_family \<Rightarrow> string \<Rightarrow>
     string list \<Rightarrow> string \<Rightarrow> string \<Rightarrow> string \<Rightarrow> params \<Rightarrow> datetime \<Rightarrow> int \<Rightarrow> string \<Rightarrow> bool \<Rightarrow>
     clearance_request res" where
  "build_clearance_request H session_id target provider capability parameters family risk_text
     material_risks intended_effect requested_by correlation policy_context now ttl request_id act_parity =
     (if ttl < 0 then raise ValueError ''clearance ttl cannot be negative''
      else if ttl > DEFAULT_CLEARANCE_TIMEOUT_SECONDS
      then raise ValueError ''clearance ttl cannot exceed default without explicit policy''
      else
        bind_res (clearance_fingerprint_and_code H act_parity request_id session_id target provider
                    capability parameters risk_text policy_context) (\<lambda>(f, code).
        bind_res (make_clearance_risk \<lparr>cr_risk_family = family, cr_summary = risk_text,
                                       cr_material_risks = material_risks\<rparr>) (\<lambda>risk.
        make_clearance_request
          \<lparr>cq_request_id = request_id, cq_session_id = session_id, cq_target = target,
           cq_provider = provider, cq_capability = capability, cq_params_fingerprint = f,
           cq_risk_summary = risk,
           cq_operator_message =
             build_operator_message code capability target provider intended_effect risk_text,
           cq_requested_by = requested_by, cq_created_at = to_utc now,
           cq_expires_at = plus_seconds (to_utc now) ttl, cq_short_code = code,
           cq_policy_context = policy_context, cq_audit_correlation_id = correlation,
           cq_aircraft = ACT_AIRCRAFT_ID\<rparr>)))"

section \<open>Reading a tower response\<close>

definition parse_act_datetime :: "json \<Rightarrow> datetime res" where
  "parse_act_datetime v =
     (let text = json_str v in
      fromisoformat (if ends_with text ''Z'' then butlast text @ ''+00:00'' else text))"

text \<open>\<open>a.get(k) or b.get(k) or ""\<close>\<close>

definition get_truthy :: "jobject \<Rightarrow> string \<Rightarrow> json option" where
  "get_truthy d k =
     (case dict_get d k of Some v \<Rightarrow> if json_truthy v then Some v else None | None \<Rightarrow> None)"

definition str_or :: "json option \<Rightarrow> json option \<Rightarrow> string" where
  "str_or a b = (case a of Some v \<Rightarrow> json_str v | None \<Rightarrow> (case b of Some v \<Rightarrow> json_str v | None \<Rightarrow> []))"

definition akvm_extensions :: "jobject \<Rightarrow> jobject" where
  "akvm_extensions payload =
     (case dict_get payload ''extensions'' of
        Some (JObj e) \<Rightarrow> (case dict_get e ''agentickvm'' of Some (JObj a) \<Rightarrow> a | _ \<Rightarrow> [])
      | _ \<Rightarrow> [])"

definition clearance_response_from_act_payload :: "jobject \<Rightarrow> clearance_response res" where
  "clearance_response_from_act_payload payload =
     (let status = (case dict_get act_state_to_status (str_lower (str_get payload ''state'' [])) of
                      Some s \<Rightarrow> s | None \<Rightarrow> VERIFICATION_FAILED);
          request_id = str_or (get_truthy payload ''request_id'') (get_truthy payload ''approval_id'');
          akvm = akvm_extensions payload;
          core = (\<lambda>k. str_or (get_truthy payload k) (get_truthy akvm k));
          proof = (case dict_get payload ''proof'' of Some (JObj p) \<Rightarrow> Some p | _ \<Rightarrow> None);
          version = str_get payload ''contract_version'' CONTRACT_VERSION_V2
      in
      bind_res (case get_truthy payload ''expires_at'' of
                  None \<Rightarrow> Inr None
                | Some raw \<Rightarrow> bind_res (parse_act_datetime raw) (\<lambda>t. Inr (Some t))) (\<lambda>expires_at.
      bind_res (risk_family_of (str_get payload ''risk_family'' [])) (\<lambda>family.
      make_clearance_response
        \<lparr>cp_status = status, cp_request_id = request_id, cp_session_id = core ''session_id'',
         cp_target = core ''target'', cp_provider = core ''provider'', cp_capability = core ''capability'',
         cp_params_fingerprint = str_get payload ''params_fingerprint'' [], cp_risk_family = family,
         cp_short_code = str_get payload ''short_code'' [], cp_expires_at = expires_at,
         cp_tower_id = (case dict_get payload ''tower_id'' of Some JNull \<Rightarrow> None | t \<Rightarrow> t),
         cp_proof = proof,
         cp_audit_correlation_id = str_or (get_truthy payload ''audit_correlation_id'') None,
         cp_operator_message = str_or (get_truthy payload ''operator_message'') None,
         cp_reason = str_or (get_truthy payload ''reason'') None,
         cp_contract_version = version,
         cp_bound_material =
           map_option (\<lambda>p.
             [(''approval_id'', (case get_truthy payload ''approval_id'' of
                                   Some v \<Rightarrow> json_str v | None \<Rightarrow> request_id)),
              (''params_fingerprint'', str_get payload ''params_fingerprint'' []),
              (''short_code'', str_get payload ''short_code'' []),
              (''risk_family'', str_get payload ''risk_family'' []),
              (''expires_at'', str_or (get_truthy payload ''expires_at'') None),
              (''tower_id'', str_get payload ''tower_id'' []),
              (''contract_version'', version),
              (''extensions_digest'', str_get p ''extensions_digest'' [])]) proof\<rparr>)))"

section \<open>Facts\<close>

lemma make_clearance_request_Inr:
  assumes "make_clearance_request r = Inr q"
  shows "q = r" "\<forall>(n, v) \<in> set (clearance_required_fields r). v \<noteq> []"
    "\<not> contains (cq_operator_message r) ''..''" "is_aware (cq_created_at r)" "is_aware (cq_expires_at r)"
    "instant (cq_created_at r) < instant (cq_expires_at r)"
proof -
  have a: "make_clearance_request r = Inr q" by (rule assms)
  show "q = r" "\<forall>(n, v) \<in> set (clearance_required_fields r). v \<noteq> []"
    "\<not> contains (cq_operator_message r) ''..''"
    and t: "is_aware (cq_created_at r)" "is_aware (cq_expires_at r)"
    using a by (auto simp: make_clearance_request_def Let_def bind_res_Inr_iff check_operator_message_def
        filter_empty_conv split: if_splits)
  have "dt_less (cq_created_at r) (cq_expires_at r) = Inr True"
    using a by (auto simp: make_clearance_request_def Let_def bind_res_Inr_iff dt_leq_Inr split: if_splits)
  with t show "instant (cq_created_at r) < instant (cq_expires_at r)" by (simp add: dt_less_aware)
qed

text \<open>
  A clearance request lives at most 20 seconds, is complete, and its fingerprint and code are the
  ones computed from the request.
\<close>

lemma build_clearance_request_Inr:
  assumes "build_clearance_request H sid t p c params fam txt risks eff who corr ctx now ttl rid parity = Inr r"
  shows "0 < ttl" "ttl \<le> 20" "cq_request_id r = rid" "cq_session_id r = sid" "cq_target r = t"
    "cq_provider r = p" "cq_capability r = c" "cq_audit_correlation_id r = corr"
    "instant (cq_expires_at r) = instant now + 1000000 * ttl" "is_aware (cq_expires_at r)"
    "cr_risk_family (cq_risk_summary r) = fam" "cr_summary (cq_risk_summary r) = txt"
    "cq_policy_context r = ctx"
    "clearance_fingerprint_and_code H parity rid sid t p c params txt ctx =
       Inr (cq_params_fingerprint r, cq_short_code r)"
    "\<not> contains (cq_operator_message r) ''..''" "rid \<noteq> []" "sid \<noteq> []" "t \<noteq> []" "p \<noteq> []" "c \<noteq> []"
proof -
  obtain f code risk where fc:
      "clearance_fingerprint_and_code H parity rid sid t p c params txt ctx = Inr (f, code)"
    and risk: "risk = \<lparr>cr_risk_family = fam, cr_summary = txt, cr_material_risks = risks\<rparr>"
    and ttl: "ttl \<le> 20" "0 \<le> ttl"
    and mk: "make_clearance_request
          \<lparr>cq_request_id = rid, cq_session_id = sid, cq_target = t,
           cq_provider = p, cq_capability = c, cq_params_fingerprint = f, cq_risk_summary = risk,
           cq_operator_message = build_operator_message code c t p eff txt,
           cq_requested_by = who, cq_created_at = to_utc now,
           cq_expires_at = plus_seconds (to_utc now) ttl, cq_short_code = code,
           cq_policy_context = ctx, cq_audit_correlation_id = corr,
           cq_aircraft = ACT_AIRCRAFT_ID\<rparr> = Inr r"
    using assms
    by (auto simp: build_clearance_request_def bind_res_Inr_iff make_clearance_risk_def
        DEFAULT_CLEARANCE_TIMEOUT_SECONDS_def split: if_splits)
  note facts = make_clearance_request_Inr [OF mk]
  show "0 < ttl" using facts(6) by simp
  show "ttl \<le> 20" by (rule ttl(1))
  show "cq_request_id r = rid" "cq_session_id r = sid" "cq_target r = t"
    "cq_provider r = p" "cq_capability r = c" "cq_audit_correlation_id r = corr"
    "instant (cq_expires_at r) = instant now + 1000000 * ttl" "is_aware (cq_expires_at r)"
    "cr_risk_family (cq_risk_summary r) = fam" "cr_summary (cq_risk_summary r) = txt"
    "cq_policy_context r = ctx"
    "clearance_fingerprint_and_code H parity rid sid t p c params txt ctx =
       Inr (cq_params_fingerprint r, cq_short_code r)"
    using facts(1) fc risk by simp_all
  show "\<not> contains (cq_operator_message r) ''..''" using facts(1,3) by simp
  show "rid \<noteq> []" "sid \<noteq> []" "t \<noteq> []" "p \<noteq> []" "c \<noteq> []"
    using facts(2) by (simp_all add: clearance_required_fields_def)
qed

lemma operator_message_never_doubles_dots:
  "\<not> contains (build_operator_message code c t p eff txt) ''..''"
  by (simp add: build_operator_message_def collapse_dots_no_dots)

lemma risk_family_of_Inr: "risk_family_of v = Inr f \<longleftrightarrow> v = risk_family_value f"
proof
  assume "risk_family_of v = Inr f"
  then show "v = risk_family_value f"
    by (auto simp: risk_family_of_def split: if_splits option.splits dest: find_Some_iff_first)
next
  assume "v = risk_family_value f"
  then show "risk_family_of v = Inr f"
    by (cases f) (simp_all add: risk_family_of_def all_risk_families_def)
qed

lemma make_clearance_response_Inr: "make_clearance_response r = Inr q \<Longrightarrow> q = r"
  by (auto simp: make_clearance_response_def bind_res_Inr_iff split: option.splits if_splits)

text \<open>An unknown tower state is never read as a clearance.\<close>

lemma cleared_only_if_approved:
  assumes "clearance_response_from_act_payload payload = Inr r" "cp_status r = CLEARED"
  shows "str_lower (str_get payload ''state'' []) = ''approved''"
proof -
  have "cp_status r = (case dict_get act_state_to_status (str_lower (str_get payload ''state'' [])) of
      Some s \<Rightarrow> s | None \<Rightarrow> VERIFICATION_FAILED)"
    using assms(1)
    by (auto simp: clearance_response_from_act_payload_def Let_def bind_res_Inr_iff
        dest!: make_clearance_response_Inr)
  with assms(2) show ?thesis
    by (auto simp: act_state_to_status_def split: option.splits if_splits)
qed

text \<open>What the tower signed is what the response says.\<close>

lemma bound_material_of_payload:
  assumes "clearance_response_from_act_payload payload = Inr r" "cp_bound_material r = Some m"
  shows "dict_get m ''params_fingerprint'' = Some (cp_params_fingerprint r)"
    "dict_get m ''short_code'' = Some (cp_short_code r)"
    "dict_get m ''risk_family'' = Some (risk_family_value (cp_risk_family r))"
    "dict_get m ''contract_version'' = Some (cp_contract_version r)"
    "cp_proof r \<noteq> None"
  using assms
  by (auto simp: clearance_response_from_act_payload_def Let_def bind_res_Inr_iff risk_family_of_Inr
      dest!: make_clearance_response_Inr)

end
