(* ===== verification/ActProof.thy ===== *)
theory ActProof
  imports Clearance
begin

text \<open>
  \<open>control_plane/act_proof.py\<close>: the vendored Ed25519 verification, the tower key registry, the
  canonical proof message and its verification. SHA-512 is a parameter \<open>sha512\<close> from bytes to the
  bytes of the digest; byte strings are strings.
\<close>

section \<open>Arithmetic modulo 2^255 - 19\<close>

definition ed_P :: int where
  "ed_P = 2 ^ 255 - 19"

text \<open>\<open>pow(b, e, m)\<close>\<close>

function pow_mod :: "int \<Rightarrow> nat \<Rightarrow> int \<Rightarrow> int" where
  "pow_mod b e m =
     (if e = 0 then 1 mod m
      else let h = pow_mod b (e div 2) m; s = h * h mod m
           in if e mod 2 = 1 then s * b mod m else s)"
  by pat_completeness auto
termination
  by (relation "measure (\<lambda>(b, e, m). e)") auto

declare pow_mod.simps [simp del]

lemma pow_mod: "pow_mod b e m = b ^ e mod m"
proof (induction b e m rule: pow_mod.induct)
  case (1 b e m)
  show ?case
  proof (cases "e = 0")
    case True
    then show ?thesis by (subst pow_mod.simps) simp
  next
    case False
    have IH: "pow_mod b (e div 2) m = b ^ (e div 2) mod m" using "1.IH" False by simp
    have sq: "pow_mod b (e div 2) m * pow_mod b (e div 2) m mod m = b ^ (e div 2 + e div 2) mod m"
      by (simp add: IH power_add mod_mult_eq)
    show ?thesis
    proof (cases "e mod 2 = 1")
      case True
      have e: "e = e div 2 + e div 2 + 1" using True by presburger
      have "pow_mod b e m = b ^ (e div 2 + e div 2) mod m * b mod m"
        using False True sq by (subst pow_mod.simps) (simp add: Let_def)
      also have "\<dots> = b ^ (e div 2 + e div 2) * b mod m" by (simp add: mod_mult_left_eq)
      also have "\<dots> = b ^ (e div 2 + e div 2 + 1) mod m" by (simp add: mult.commute)
      also have "\<dots> = b ^ e mod m"
        by (rule arg_cong [OF e [symmetric], where f = "\<lambda>n. b ^ n mod m"])
      finally show ?thesis .
    next
      case odd: False
      then have e: "e = e div 2 + e div 2" by presburger
      have "pow_mod b e m = b ^ (e div 2 + e div 2) mod m"
        using False odd sq by (subst pow_mod.simps) (simp add: Let_def)
      then show ?thesis using e by simp
    qed
  qed
qed

definition ed_inv :: "int \<Rightarrow> int" where
  "ed_inv x = pow_mod x (nat (ed_P - 2)) ed_P"

definition ed_D :: int where
  "ed_D = (-121665 * pow_mod 121666 (nat (ed_P - 2)) ed_P) mod ed_P"

definition ed_I :: int where
  "ed_I = pow_mod 2 (nat ((ed_P - 1) div 4)) ed_P"

definition xrecover :: "int \<Rightarrow> int" where
  "xrecover y =
     (let xx = (y * y - 1) * ed_inv (ed_D * y * y + 1);
          x = pow_mod xx (nat ((ed_P + 3) div 8)) ed_P;
          x' = (if (x * x - xx) mod ed_P \<noteq> 0 then (x * ed_I) mod ed_P else x)
      in if x' mod 2 \<noteq> 0 then ed_P - x' else x')"

definition ed_B :: "int \<times> int" where
  "ed_B = (let by = (4 * ed_inv 5) mod ed_P in (xrecover by mod ed_P, by mod ed_P))"

definition edwards_add :: "int \<times> int \<Rightarrow> int \<times> int \<Rightarrow> int \<times> int" where
  "edwards_add p q =
     (case p of (x1, y1) \<Rightarrow> (case q of (x2, y2) \<Rightarrow>
        let x3 = (x1 * y2 + x2 * y1) * ed_inv (1 + ed_D * x1 * x2 * y1 * y2) mod ed_P;
            y3 = (y1 * y2 + x1 * x2) * ed_inv (1 - ed_D * x1 * x2 * y1 * y2) mod ed_P
        in (x3 mod ed_P, y3 mod ed_P)))"

function scalarmult :: "int \<times> int \<Rightarrow> nat \<Rightarrow> int \<times> int" where
  "scalarmult point scalar =
     (if scalar = 0 then (0, 1)
      else let half = scalarmult point (scalar div 2); doubled = edwards_add half half
           in if scalar mod 2 = 1 then edwards_add doubled point else doubled)"
  by pat_completeness auto
termination
  by (relation "measure snd") auto

declare scalarmult.simps [simp del]

text \<open>\<open>int.from_bytes(data, "little")\<close>\<close>

fun from_bytes_little :: "string \<Rightarrow> nat" where
  "from_bytes_little [] = 0"
| "from_bytes_little (b # bs) = code_of b + 256 * from_bytes_little bs"

definition decode_point :: "string \<Rightarrow> (int \<times> int) res" where
  "decode_point data =
     (let raw = from_bytes_little data; y = int (raw mod 2 ^ 255); x0 = xrecover y;
          x = (if x0 mod 2 \<noteq> int (raw div 2 ^ 255 mod 2) then ed_P - x0 else x0)
      in if (- x * x + y * y - 1 - ed_D * x * x * y * y) mod ed_P \<noteq> 0
         then raise ValueError ''point is not on the Ed25519 curve'' else Inr (x, y))"

definition ed25519_verify :: "(string \<Rightarrow> string) \<Rightarrow> string \<Rightarrow> string \<Rightarrow> string \<Rightarrow> bool" where
  "ed25519_verify sha512 public_key message signature =
     (if length public_key \<noteq> 32 \<or> length signature \<noteq> 64 then False
      else (case bind_res (decode_point (take 32 signature)) (\<lambda>sig_r.
                 bind_res (decode_point public_key) (\<lambda>pub_a.
                   let sig_s = from_bytes_little (drop 32 signature);
                       digest = from_bytes_little (sha512 (take 32 signature @ public_key @ message))
                   in Inr (scalarmult ed_B sig_s = edwards_add sig_r (scalarmult pub_a digest)))) of
              Inl e \<Rightarrow> False
            | Inr b \<Rightarrow> b))"

section \<open>base64url\<close>

text \<open>
  \<open>base64.urlsafe_b64decode(value + padding)\<close>: characters outside the alphabet are skipped, a
  padding character counts only after two characters of a group and ends the text when the group
  is full, and an unfinished group is an error.
\<close>

definition b64_value :: "char \<Rightarrow> nat option" where
  "b64_value c =
     (if is_ascii_upper c then Some (code_of c - 65)
      else if is_ascii_lower c then Some (code_of c - 71)
      else if is_digit c then Some (code_of c + 4)
      else if c = CHR ''+'' \<or> c = CHR ''-'' then Some 62
      else if c = CHR ''/'' \<or> c = CHR ''_'' then Some 63
      else None)"

text \<open>\<open>quad\<close> holds the values of the current group, \<open>pads\<close> the padding characters seen in it.\<close>

fun b64_bytes :: "nat list \<Rightarrow> string" where
  "b64_bytes [a, b] = [char_of (a * 4 + b div 16)]"
| "b64_bytes [a, b, c] = [char_of (a * 4 + b div 16), char_of (b mod 16 * 16 + c div 4)]"
| "b64_bytes [a, b, c, d] =
     [char_of (a * 4 + b div 16), char_of (b mod 16 * 16 + c div 4), char_of (c mod 4 * 64 + d)]"
| "b64_bytes _ = []"

fun b64_loop :: "string \<Rightarrow> nat list \<Rightarrow> nat \<Rightarrow> string res" where
  "b64_loop [] quad pads =
     (if quad = [] then Inr []
      else if length quad = 1
      then raise ValueError ''Invalid base64-encoded string: number of data characters cannot be 1 more than a multiple of 4''
      else raise ValueError ''Incorrect padding'')"
| "b64_loop (c # cs) quad pads =
     (if c = CHR ''='' then
        (if 2 \<le> length quad then
           (if 4 \<le> length quad + (pads + 1) then Inr (b64_bytes quad) else b64_loop cs quad (pads + 1))
         else b64_loop cs quad pads)
      else (case b64_value c of
         None \<Rightarrow> b64_loop cs quad pads
       | Some v \<Rightarrow>
           if length quad = 3
           then bind_res (b64_loop cs [] 0) (\<lambda>out. Inr (b64_bytes (quad @ [v]) @ out))
           else b64_loop cs (quad @ [v]) 0))"

definition decode_b64url :: "string \<Rightarrow> string res" where
  "decode_b64url v =
     (if is_ascii v then b64_loop (v @ replicate ((4 - length v mod 4) mod 4) (CHR ''='')) [] 0
      else raise ValueError ''string argument should contain only ASCII characters'')"

section \<open>The proof\<close>

definition ACT_PROOF_ALGORITHM :: string where
  "ACT_PROOF_ALGORITHM = ''Ed25519''"

definition ACT_PROOF_CANONICALIZATION :: string where
  "ACT_PROOF_CANONICALIZATION = ''ACT-CLEARANCE-PROOF-V1''"

definition ACT_PROOF_FIELD_ORDER :: "string list" where
  "ACT_PROOF_FIELD_ORDER =
     [''approval_id'', ''params_fingerprint'', ''short_code'', ''risk_family'', ''expires_at'',
      ''tower_id'', ''contract_version'', ''extensions_digest'']"

definition SUPPORTED_CONTRACT_VERSIONS :: "string list" where
  "SUPPORTED_CONTRACT_VERSIONS = [''act.clearance.v1'', ''act.clearance.v2'']"

type_synonym key_registry = "(string, string) dict"

definition registry_from_b64url :: "(string \<times> string) list \<Rightarrow> key_registry res" where
  "registry_from_b64url keys =
     bind_res (map_res (\<lambda>(key_id, encoded). bind_res (decode_b64url encoded) (\<lambda>raw.
       if length raw \<noteq> 32
       then raise ACTProofError (''tower key '' @ py_repr False key_id @ '' is not 32 bytes'')
       else Inr (key_id, raw))) keys) (\<lambda>kvs. Inr (dict_of kvs []))"

type_synonym material = "(string \<times> string) list"

definition LF :: string where
  "LF = [CHR 0x0A]"

definition build_clearance_proof_message :: "material \<Rightarrow> string res" where
  "build_clearance_proof_message m =
     bind_res (map_res (\<lambda>f. case dict_get m f of
         None \<Rightarrow> raise ACTProofError (''proof material missing field: '' @ f)
       | Some v \<Rightarrow> Inr v) ACT_PROOF_FIELD_ORDER)
     (\<lambda>vs. Inr (str_join LF (ACT_PROOF_CANONICALIZATION # vs)))"

text \<open>\<open>proof.get(k)\<close>: a missing entry and \<open>null\<close> are both \<open>None\<close>.\<close>

definition proof_get :: "jobject \<Rightarrow> string \<Rightarrow> json" where
  "proof_get p k = (case dict_get p k of None \<Rightarrow> JNull | Some v \<Rightarrow> v)"

definition verify_clearance_proof ::
    "(string \<Rightarrow> string) \<Rightarrow> material \<Rightarrow> jobject \<Rightarrow> key_registry \<Rightarrow> bool" where
  "verify_clearance_proof sha512 m p registry =
     (if proof_get p ''algorithm'' \<noteq> JStr ACT_PROOF_ALGORITHM then False
      else if proof_get p ''canonicalization'' \<noteq> JStr ACT_PROOF_CANONICALIZATION then False
      else if (case dict_get m ''contract_version'' of None \<Rightarrow> True
                 | Some v \<Rightarrow> v \<notin> set SUPPORTED_CONTRACT_VERSIONS) then False
      else if (let fields = proof_get p ''fields'' in
               fields \<noteq> JNull \<and> json_iter fields \<noteq> Inr (map JStr ACT_PROOF_FIELD_ORDER)) then False
      else if (let d = proof_get p ''extensions_digest'' in
               d \<noteq> JNull \<and> Some d \<noteq> map_option JStr (dict_get m ''extensions_digest'')) then False
      else (case (proof_get p ''key_id'', proof_get p ''signature'') of
         (JStr key_id, JStr signature) \<Rightarrow>
           (case dict_get registry key_id of
              None \<Rightarrow> False
            | Some public_key \<Rightarrow>
                (case build_clearance_proof_message m of
                   Inl e \<Rightarrow> False
                 | Inr message \<Rightarrow>
                     (case decode_b64url signature of
                        Inl e \<Rightarrow> False
                      | Inr sig \<Rightarrow> ed25519_verify sha512 public_key message sig)))
       | _ \<Rightarrow> False))"

text \<open>\<open>ACTClearanceProofVerifier.verify_proof\<close>\<close>

definition act_verify_proof :: "(string \<Rightarrow> string) \<Rightarrow> key_registry \<Rightarrow> clearance_response \<Rightarrow> bool" where
  "act_verify_proof sha512 registry response =
     (case cp_proof response of
        None \<Rightarrow> False
      | Some p \<Rightarrow>
          (case cp_bound_material response of
             None \<Rightarrow> False
           | Some m \<Rightarrow>
               if p = [] \<or> m = [] then False else verify_clearance_proof sha512 m p registry))"

section \<open>What a proof signs\<close>

definition field_of :: "material \<Rightarrow> string \<Rightarrow> string" where
  "field_of m f = (case dict_get m f of None \<Rightarrow> [] | Some v \<Rightarrow> v)"

lemma proof_message_Inr:
  "build_clearance_proof_message m = Inr msg \<longleftrightarrow>
     (\<forall>f \<in> set ACT_PROOF_FIELD_ORDER. dict_has m f) \<and>
     msg = str_join LF (ACT_PROOF_CANONICALIZATION # map (field_of m) ACT_PROOF_FIELD_ORDER)"
proof -
  have "map_res (\<lambda>f. case dict_get m f of
         None \<Rightarrow> raise ACTProofError (''proof material missing field: '' @ f) | Some v \<Rightarrow> Inr v) fs = Inr vs
       \<longleftrightarrow> (\<forall>f \<in> set fs. dict_has m f) \<and> vs = map (field_of m) fs" for fs vs
    by (induction fs arbitrary: vs) (auto simp: bind_res_Inr_iff field_of_def split: option.splits)
  then show ?thesis by (auto simp: build_clearance_proof_message_def bind_res_Inr_iff)
qed

lemma verify_clearance_proof_iff:
  "verify_clearance_proof sha512 m p registry \<longleftrightarrow>
     proof_get p ''algorithm'' = JStr ACT_PROOF_ALGORITHM \<and>
     proof_get p ''canonicalization'' = JStr ACT_PROOF_CANONICALIZATION \<and>
     (\<exists>v \<in> set SUPPORTED_CONTRACT_VERSIONS. dict_get m ''contract_version'' = Some v) \<and>
     (proof_get p ''fields'' = JNull \<or> json_iter (proof_get p ''fields'') = Inr (map JStr ACT_PROOF_FIELD_ORDER)) \<and>
     (proof_get p ''extensions_digest'' = JNull \<or>
      (\<exists>d. dict_get m ''extensions_digest'' = Some d \<and> proof_get p ''extensions_digest'' = JStr d)) \<and>
     (\<exists>k s pk msg sig. proof_get p ''key_id'' = JStr k \<and> proof_get p ''signature'' = JStr s \<and>
        dict_get registry k = Some pk \<and> build_clearance_proof_message m = Inr msg \<and>
        decode_b64url s = Inr sig \<and> ed25519_verify sha512 pk msg sig)"
  unfolding verify_clearance_proof_def Let_def
  by (cases "dict_get m ''contract_version''"; cases "dict_get m ''extensions_digest''";
      cases "proof_get p ''key_id''"; cases "proof_get p ''signature''")
    (auto split: option.splits sum.splits)

text \<open>
  Messages whose fields hold no line feed determine the fields; a signature over one message is
  then a signature over exactly these values.
\<close>

definition one_line :: "material \<Rightarrow> bool" where
  "one_line m \<longleftrightarrow> (\<forall>f \<in> set ACT_PROOF_FIELD_ORDER. CHR 0x0A \<notin> set (field_of m f))"

lemma proof_message_inj:
  assumes "build_clearance_proof_message m = Inr msg" "build_clearance_proof_message m' = Inr msg"
    and "one_line m" "one_line m'" "f \<in> set ACT_PROOF_FIELD_ORDER"
  shows "dict_get m f = dict_get m' f"
proof -
  let ?fs = "\<lambda>m. map (field_of m) ACT_PROOF_FIELD_ORDER"
  have nl: "CHR 0x0A \<notin> set ACT_PROOF_CANONICALIZATION" by (simp add: ACT_PROOF_CANONICALIZATION_def)
  have "str_join LF (ACT_PROOF_CANONICALIZATION # ?fs m) = str_join LF (ACT_PROOF_CANONICALIZATION # ?fs m')"
    using assms(1,2) by (simp add: proof_message_Inr)
  then have "?fs m = ?fs m'"
    using str_join_inj [of "ACT_PROOF_CANONICALIZATION # ?fs m" "ACT_PROOF_CANONICALIZATION # ?fs m'" "CHR 0x0A"]
      nl assms(3,4) by (auto simp: LF_def one_line_def)
  then have "field_of m f = field_of m' f" using assms(5) by auto
  moreover have "dict_has m f" "dict_has m' f" using assms(1,2,5) by (auto simp: proof_message_Inr)
  ultimately show ?thesis by (auto simp: field_of_def)
qed

lemma ed25519_needs_lengths:
  "ed25519_verify sha512 pk msg sig \<Longrightarrow> length pk = 32 \<and> length sig = 64"
  by (auto simp: ed25519_verify_def split: if_splits)

lemma act_verify_proof_signed:
  assumes "act_verify_proof sha512 registry response"
  shows "\<exists>m k pk msg sig. cp_bound_material response = Some m \<and> dict_get registry k = Some pk \<and>
    build_clearance_proof_message m = Inr msg \<and> ed25519_verify sha512 pk msg sig"
  using assms
  by (fastforce simp: act_verify_proof_def verify_clearance_proof_iff split: option.splits if_splits)

lemma no_keys_no_proof: "\<not> act_verify_proof sha512 [] response"
  by (fastforce simp: act_verify_proof_def verify_clearance_proof_iff split: option.splits if_splits)

end
