(* ===== verification/ActClient.thy ===== *)
theory ActClient
  imports ActProof
begin

text \<open>
  \<open>control_plane/act_client.py\<close> (the proof verifiers, \<open>ACTClearanceVerifier\<close>, \<open>MockACTClient\<close>) and
  \<open>control_plane/act_http_client.py\<close> (what the HTTP client sends, and how every failure of the
  transport becomes an answer that clears nothing). The transport is a parameter: a function from
  path, body, timeout and its own state. \<open>clearance_verifier\<close> and \<open>clearance_client\<close> are the
  contracts the engine relies on.
\<close>

section \<open>Verification of a response\<close>

text \<open>The proof verifiers; \<open>OtherVerifier\<close> is any other implementation of the protocol.\<close>

datatype proof_verifier =
    PendingVerifier
  | MockVerifier
  | Ed25519Verifier key_registry
  | OtherVerifier "clearance_request \<Rightarrow> clearance_response \<Rightarrow> bool res"

fun is_mock_verifier :: "proof_verifier \<Rightarrow> bool" where
  "is_mock_verifier MockVerifier = True"
| "is_mock_verifier pv = False"

definition mock_verify_proof :: "clearance_response \<Rightarrow> bool" where
  "mock_verify_proof response =
     (case cp_proof response of
        None \<Rightarrow> False
      | Some p \<Rightarrow> p \<noteq> [] \<and> proof_get p ''mock_act_proof'' = JStr ''verified'')"

fun verify_proof ::
    "(string \<Rightarrow> string) \<Rightarrow> proof_verifier \<Rightarrow> clearance_request \<Rightarrow> clearance_response \<Rightarrow> bool res" where
  "verify_proof sha512 PendingVerifier request response = Inr False"
| "verify_proof sha512 MockVerifier request response = Inr (mock_verify_proof response)"
| "verify_proof sha512 (Ed25519Verifier registry) request response =
     Inr (act_verify_proof sha512 registry response)"
| "verify_proof sha512 (OtherVerifier f) request response = f request response"

definition response_bindings ::
    "clearance_request \<Rightarrow> clearance_response \<Rightarrow> (string \<times> string \<times> string) list" where
  "response_bindings q r =
     [(''request_id'', cp_request_id r, cq_request_id q),
      (''session_id'', cp_session_id r, cq_session_id q),
      (''target'', cp_target r, cq_target q),
      (''provider'', cp_provider r, cq_provider q),
      (''capability'', cp_capability r, cq_capability q),
      (''params_fingerprint'', cp_params_fingerprint r, cq_params_fingerprint q),
      (''short_code'', cp_short_code r, cq_short_code q),
      (''audit_correlation_id'', cp_audit_correlation_id r, cq_audit_correlation_id q)] @
     (if cp_risk_family r \<in> set AIRCRAFT_RISK_FAMILIES
      then [(''risk_family'', risk_family_value (cp_risk_family r),
             risk_family_value (cr_risk_family (cq_risk_summary q)))]
      else [])"

definition clearance_result ::
    "clearance_response \<Rightarrow> bool \<Rightarrow> clearance_status \<Rightarrow> string \<Rightarrow> clearance_verification" where
  "clearance_result r valid status reason =
     \<lparr>cv_valid = valid, cv_status = status, cv_reason = reason, cv_tower_id = cp_tower_id r,
      cv_request_id = Some (cp_request_id r)\<rparr>"

record act_verifier =
  av_tower_id :: string
  av_proof_verifier :: proof_verifier
  av_test_mode :: bool

definition verify_clearance ::
    "(string \<Rightarrow> string) \<Rightarrow> act_verifier \<Rightarrow> clearance_request \<Rightarrow> clearance_response \<Rightarrow> datetime \<Rightarrow>
     clearance_verification res" where
  "verify_clearance sha512 v q r now =
     (if cp_status r \<noteq> CLEARED
      then Inr (clearance_result r False (cp_status r)
             (if cp_reason r \<noteq> [] then cp_reason r else ''clearance is not cleared''))
      else if cp_tower_id r \<noteq> Some (JStr (av_tower_id v))
      then Inr (clearance_result r False VERIFICATION_FAILED ''tower identity mismatch'')
      else (case first_mismatch (response_bindings q r) of
         Some m \<Rightarrow> Inr (clearance_result r False VERIFICATION_FAILED (m @ '' mismatch''))
       | None \<Rightarrow>
           (case cp_expires_at r of
              None \<Rightarrow> Inr (clearance_result r False VERIFICATION_FAILED ''clearance expiry is required'')
            | Some expires \<Rightarrow>
                bind_res (dt_geq (to_utc now) (to_utc expires)) (\<lambda>late.
                if late then Inr (clearance_result r False CL_EXPIRED ''clearance expired'')
                else if cp_proof r = None
                then Inr (clearance_result r False VERIFICATION_FAILED ''ACT clearance proof is required'')
                else if \<not> av_test_mode v \<and> is_mock_verifier (av_proof_verifier v)
                then Inr (clearance_result r False VERIFICATION_FAILED ''mock ACT proof verifier is test-only'')
                else
                  bind_res (verify_proof sha512 (av_proof_verifier v) q r) (\<lambda>ok.
                  if \<not> ok
                  then Inr (clearance_result r False VERIFICATION_FAILED ''ACT clearance proof verification failed'')
                  else Inr (clearance_result r True CLEARED ''ACT clearance verified''))))))"

section \<open>The mock client\<close>

record mock_client =
  mc_default_status :: clearance_status
  mc_tower_id :: string
  mc_responses :: "(string, clearance_response) dict"
  mc_denials :: "(string, string) dict"

definition echo_response ::
    "clearance_request \<Rightarrow> clearance_status \<Rightarrow> string \<Rightarrow> jobject option \<Rightarrow> string \<Rightarrow> clearance_response" where
  "echo_response q status tower proof reason =
     \<lparr>cp_status = status, cp_request_id = cq_request_id q, cp_session_id = cq_session_id q,
      cp_target = cq_target q, cp_provider = cq_provider q, cp_capability = cq_capability q,
      cp_params_fingerprint = cq_params_fingerprint q,
      cp_risk_family = cr_risk_family (cq_risk_summary q), cp_short_code = cq_short_code q,
      cp_expires_at = Some (cq_expires_at q), cp_tower_id = Some (JStr tower), cp_proof = proof,
      cp_audit_correlation_id = cq_audit_correlation_id q, cp_operator_message = cq_operator_message q,
      cp_reason = reason, cp_contract_version = CONTRACT_VERSION_V2, cp_bound_material = None\<rparr>"

definition mock_request_clearance ::
    "clearance_request \<Rightarrow> int \<Rightarrow> mock_client \<Rightarrow> clearance_response res \<times> mock_client" where
  "mock_request_clearance q timeout m =
     ((case dict_get (mc_responses m) (cq_request_id q) of
         Some r \<Rightarrow> Inr r
       | None \<Rightarrow> make_clearance_response
           (echo_response q (mc_default_status m) (mc_tower_id m)
              (if mc_default_status m = CLEARED then Some [(''mock_act_proof'', JStr ''verified'')] else None)
              (clearance_status_value (mc_default_status m)))), m)"

definition unknown_denial :: "string \<Rightarrow> json option \<Rightarrow> string \<Rightarrow> clearance_response" where
  "unknown_denial request_id tower reason =
     \<lparr>cp_status = CL_DENIED, cp_request_id = request_id, cp_session_id = ''unknown'',
      cp_target = ''unknown'', cp_provider = ''unknown'', cp_capability = ''runtime.deny_clearance'',
      cp_params_fingerprint = ''unknown'', cp_risk_family = HIGH_RISK, cp_short_code = ''UNKNOWN'',
      cp_expires_at = None, cp_tower_id = tower, cp_proof = None, cp_audit_correlation_id = [],
      cp_operator_message = [], cp_reason = reason, cp_contract_version = CONTRACT_VERSION_V2,
      cp_bound_material = None\<rparr>"

definition mock_deny_clearance ::
    "string \<Rightarrow> string \<Rightarrow> int \<Rightarrow> mock_client \<Rightarrow> clearance_response res \<times> mock_client" where
  "mock_deny_clearance request_id reason timeout m =
     (make_clearance_response (unknown_denial request_id (Some (JStr (mc_tower_id m))) reason),
      m\<lparr>mc_denials := dict_set request_id reason (mc_denials m)\<rparr>)"

definition cleared_response_for :: "clearance_request \<Rightarrow> string \<Rightarrow> clearance_response res" where
  "cleared_response_for q tower_id =
     make_clearance_response
       (echo_response q CLEARED tower_id (Some [(''mock_act_proof'', JStr ''verified'')]) ''mock cleared'')"

section \<open>The HTTP client\<close>

definition ACT_AIRCRAFT_AGENT_ID :: string where
  "ACT_AIRCRAFT_AGENT_ID = ''agentickvm''"

definition APPROVAL_REQUESTED_PATH :: string where
  "APPROVAL_REQUESTED_PATH = ''/hermes/tools/approval_requested''"

definition APPROVAL_STATUS_PATH :: string where
  "APPROVAL_STATUS_PATH = ''/hermes/tools/approval_status''"

definition act_wire_risk_family :: "string \<Rightarrow> string" where
  "act_wire_risk_family f =
     dict_get_or [(''high_risk'', ''external_effect''), (''low_risk'', ''routine'')] f f"

definition act_payload_redacted :: "clearance_request \<Rightarrow> params" where
  "act_payload_redacted q = [(''capability'', PStr (cq_capability q))]"

definition act_request_extensions :: "clearance_request \<Rightarrow> params" where
  "act_request_extensions q =
     act_agentickvm_extensions (Some (cq_target q)) (Some (cq_provider q)) (Some (cq_capability q))
       (Some (cr_summary (cq_risk_summary q))) (Some (cq_policy_context q)) (Some (cq_session_id q))"

definition predicted_act_params_fingerprint :: "(string \<Rightarrow> string) \<Rightarrow> clearance_request \<Rightarrow> string" where
  "predicted_act_params_fingerprint H q =
     act_params_fingerprint H (act_payload_redacted q) (Some (act_request_extensions q))"

definition predicted_act_short_code :: "(string \<Rightarrow> string) \<Rightarrow> clearance_request \<Rightarrow> string option \<Rightarrow> string" where
  "predicted_act_short_code H q approval_id =
     act_short_code H (reason_or approval_id (cq_request_id q)) (predicted_act_params_fingerprint H q)"

definition clearance_request_to_act_payload :: "clearance_request \<Rightarrow> string \<Rightarrow> int \<Rightarrow> params" where
  "clearance_request_to_act_payload q agent_id expires_in =
     (let family = risk_family_value (cr_risk_family (cq_risk_summary q)) in
      [(''requested_tool'', PStr (cq_capability q)), (''capability'', PStr (cq_capability q)),
       (''risk_level'', PStr (if family = ''high_risk'' then ''high'' else ''low'')),
       (''risk_family'', PStr (act_wire_risk_family family)),
       (''summary'', PStr (cr_summary (cq_risk_summary q))),
       (''payload_redacted'', pdict (act_payload_redacted q)), (''agent_id'', PStr agent_id),
       (''session_id'', PStr (cq_session_id q)), (''expires_in_seconds'', PInt expires_in),
       (''operator_message'', PStr (cq_operator_message q)), (''short_code'', PStr (cq_short_code q)),
       (''audit_correlation_id'', PStr (cq_audit_correlation_id q)),
       (''action_id'', PStr (cq_request_id q)), (''extensions'', pdict (act_request_extensions q))])"

type_synonym 's transport = "string \<Rightarrow> params \<Rightarrow> int \<Rightarrow> 's \<Rightarrow> jobject res \<times> 's"

definition unavailable :: "clearance_request \<Rightarrow> clearance_response res" where
  "unavailable q = make_clearance_response
     ((echo_response q TOWER_UNAVAILABLE [] None
         ''ACT gateway unavailable or returned an unparseable response'')
       \<lparr>cp_expires_at := None, cp_tower_id := None, cp_audit_correlation_id := [], cp_operator_message := []\<rparr>)"

definition http_request_clearance ::
    "'s transport \<Rightarrow> string \<Rightarrow> int \<Rightarrow> clearance_request \<Rightarrow> int \<Rightarrow> 's \<Rightarrow> clearance_response res \<times> 's" where
  "http_request_clearance post agent_id extra_status_seconds q timeout s =
     (let payload = clearance_request_to_act_payload q agent_id (timeout + extra_status_seconds) in
      case post APPROVAL_REQUESTED_PATH payload timeout s of
        (Inl e, s1) \<Rightarrow> (unavailable q, s1)
      | (Inr requested, s1) \<Rightarrow>
          let approval_id = (case get_truthy requested ''approval_id'' of
                Some v \<Rightarrow> json_str v
              | None \<Rightarrow> (case get_truthy requested ''request_id'' of
                           Some v \<Rightarrow> json_str v | None \<Rightarrow> cq_request_id q))
          in (case post APPROVAL_STATUS_PATH [(''approval_id'', PStr approval_id)] timeout s1 of
                (Inl e, s2) \<Rightarrow> (unavailable q, s2)
              | (Inr status, s2) \<Rightarrow>
                  (case clearance_response_from_act_payload status of
                     Inr r \<Rightarrow> (Inr r, s2)
                   | Inl e \<Rightarrow> (unavailable q, s2))))"

definition http_deny_clearance ::
    "'s transport \<Rightarrow> string \<Rightarrow> string \<Rightarrow> int \<Rightarrow> 's \<Rightarrow> clearance_response res \<times> 's" where
  "http_deny_clearance post request_id reason timeout s =
     (case post APPROVAL_STATUS_PATH
         [(''approval_id'', PStr request_id), (''intent'', PStr ''deny''), (''reason'', PStr reason)] timeout s of
        (_, s1) \<Rightarrow> (make_clearance_response (unknown_denial request_id None reason), s1))"

section \<open>The contracts the engine relies on\<close>

definition clearance_bound :: "clearance_request \<Rightarrow> clearance_response \<Rightarrow> bool" where
  "clearance_bound q r \<longleftrightarrow>
     cp_request_id r = cq_request_id q \<and> cp_session_id r = cq_session_id q \<and>
     cp_target r = cq_target q \<and> cp_provider r = cq_provider q \<and> cp_capability r = cq_capability q \<and>
     cp_params_fingerprint r = cq_params_fingerprint q \<and> cp_short_code r = cq_short_code q \<and>
     cp_audit_correlation_id r = cq_audit_correlation_id q"

locale clearance_verifier =
  fixes verify :: "clearance_request \<Rightarrow> clearance_response \<Rightarrow> datetime \<Rightarrow> clearance_verification res"
  assumes valid_cleared: "verify q r now = Inr v \<Longrightarrow> cv_valid v \<Longrightarrow> cp_status r = CLEARED"
    and valid_bound: "verify q r now = Inr v \<Longrightarrow> cv_valid v \<Longrightarrow> clearance_bound q r"
    and valid_fresh: "verify q r now = Inr v \<Longrightarrow> cv_valid v \<Longrightarrow>
       \<exists>t. cp_expires_at r = Some t \<and> instant now < instant t"
begin

text \<open>One response clears requests that agree on everything it is bound to.\<close>

lemma clears_one_binding:
  assumes "verify q r now = Inr v" "cv_valid v" "verify q' r now' = Inr v'" "cv_valid v'"
  shows "cq_request_id q' = cq_request_id q" "cq_session_id q' = cq_session_id q"
    "cq_target q' = cq_target q" "cq_provider q' = cq_provider q" "cq_capability q' = cq_capability q"
    "cq_params_fingerprint q' = cq_params_fingerprint q" "cq_short_code q' = cq_short_code q"
  using valid_bound [OF assms(1,2)] valid_bound [OF assms(3,4)] by (simp_all add: clearance_bound_def)

lemma not_cleared_not_valid: "cp_status r \<noteq> CLEARED \<Longrightarrow> verify q r now = Inr v \<Longrightarrow> \<not> cv_valid v"
  using valid_cleared by blast

end

locale clearance_client =
  fixes request :: "clearance_request \<Rightarrow> int \<Rightarrow> 's \<Rightarrow> clearance_response res \<times> 's"
  assumes answers: "make_clearance_request q = Inr q \<Longrightarrow> \<exists>r. fst (request q timeout s) = Inr r"
begin

lemma never_raises: "make_clearance_request q = Inr q \<Longrightarrow> fst (request q timeout s) \<noteq> Inl e"
  using answers by (metis Inl_Inr_False)

end

lemma verify_clearance_valid:
  assumes "verify_clearance sha512 v q r now = Inr res" "cv_valid res"
  shows "cp_status r = CLEARED" "cp_tower_id r = Some (JStr (av_tower_id v))" "clearance_bound q r"
    "\<exists>t. cp_expires_at r = Some t \<and> instant now < instant t"
    "cp_proof r \<noteq> None" "av_test_mode v \<or> \<not> is_mock_verifier (av_proof_verifier v)"
    "verify_proof sha512 (av_proof_verifier v) q r = Inr True" "cv_status res = CLEARED"
    "cp_risk_family r \<in> set AIRCRAFT_RISK_FAMILIES \<Longrightarrow>
       cp_risk_family r = cr_risk_family (cq_risk_summary q)"
proof -
  note unf = verify_clearance_def clearance_result_def response_bindings_def clearance_bound_def bind_res_Inr_iff
  have risk_inj: "risk_family_value a = risk_family_value b \<Longrightarrow> a = b" for a b
    by (cases a; cases b) simp_all
  show "cp_status r = CLEARED" "cp_tower_id r = Some (JStr (av_tower_id v))" "clearance_bound q r"
    "\<exists>t. cp_expires_at r = Some t \<and> instant now < instant t"
    "cp_proof r \<noteq> None" "av_test_mode v \<or> \<not> is_mock_verifier (av_proof_verifier v)"
    "verify_proof sha512 (av_proof_verifier v) q r = Inr True" "cv_status res = CLEARED"
    using assms by (auto simp: unf split: if_splits option.splits)
  assume "cp_risk_family r \<in> set AIRCRAFT_RISK_FAMILIES"
  then show "cp_risk_family r = cr_risk_family (cq_risk_summary q)"
    using assms risk_inj by (auto simp: unf split: if_splits option.splits)
qed

interpretation act: clearance_verifier "verify_clearance sha512 v" for sha512 v
  by unfold_locales (auto dest: verify_clearance_valid(1,3,4))

lemma make_response_ok:
  assumes "cp_params_fingerprint r \<noteq> []" "cp_short_code r \<noteq> []" "\<not> contains (cp_operator_message r) ''..''"
    and "\<forall>t. cp_expires_at r = Some t \<longrightarrow> is_aware t"
  shows "make_clearance_response r = Inr r"
  using assms
  by (auto simp: make_clearance_response_def check_params_fingerprint_def check_short_code_def
      check_operator_message_def split: option.splits)

lemma wf_request_fields:
  assumes "make_clearance_request q = Inr q"
  shows "cq_params_fingerprint q \<noteq> []" "cq_short_code q \<noteq> []" "\<not> contains (cq_operator_message q) ''..''"
    "is_aware (cq_expires_at q)"
  using make_clearance_request_Inr [OF assms] by (simp_all add: clearance_required_fields_def)

lemma unavailable_ok:
  "make_clearance_request q = Inr q \<Longrightarrow> \<exists>r. unavailable q = Inr r \<and> cp_status r = TOWER_UNAVAILABLE"
  unfolding unavailable_def by (subst make_response_ok) (simp_all add: wf_request_fields echo_response_def)

interpretation http: clearance_client "http_request_clearance post agent extra" for post agent extra
  by unfold_locales
    (auto simp: http_request_clearance_def Let_def split: sum.splits prod.splits dest!: unavailable_ok)

interpretation mock: clearance_client mock_request_clearance
proof
  show "make_clearance_request q = Inr q \<Longrightarrow> \<exists>r. fst (mock_request_clearance q timeout s) = Inr r" for q timeout s
    by (cases "dict_get (mc_responses s) (cq_request_id q)")
      (simp_all add: mock_request_clearance_def make_response_ok wf_request_fields echo_response_def)
qed

section \<open>Facts\<close>

lemma pending_never_valid:
  "av_proof_verifier v = PendingVerifier \<Longrightarrow> verify_clearance sha512 v q r now = Inr res \<Longrightarrow> \<not> cv_valid res"
  using verify_clearance_valid(7) by fastforce

lemma mock_never_valid_in_production:
  "av_proof_verifier v = MockVerifier \<Longrightarrow> \<not> av_test_mode v \<Longrightarrow>
     verify_clearance sha512 v q r now = Inr res \<Longrightarrow> \<not> cv_valid res"
  using verify_clearance_valid(6) by fastforce

text \<open>The request the HTTP client sends carries no raw parameter.\<close>

lemma act_payload_ignores_parameters:
  "act_payload_redacted q = [(''capability'', PStr (cq_capability q))]"
  by (rule act_payload_redacted_def)

text \<open>Building the request with ACT parity predicts what the tower computes from what is sent.\<close>

lemma parity_predicts_tower:
  assumes "build_clearance_request H sid t p c params fam txt risks eff who corr ctx now ttl rid True = Inr q"
  shows "cq_params_fingerprint q = predicted_act_params_fingerprint H q"
    "cq_short_code q = predicted_act_short_code H q None"
proof -
  note f = build_clearance_request_Inr [OF assms]
  have "clearance_fingerprint_and_code H True rid sid t p c params txt ctx =
      Inr (cq_params_fingerprint q, cq_short_code q)" by (rule f(14))
  then show "cq_params_fingerprint q = predicted_act_params_fingerprint H q"
    "cq_short_code q = predicted_act_short_code H q None"
    using f(3-7,12,13)
    by (auto simp: clearance_fingerprint_and_code_def predicted_act_params_fingerprint_def
        predicted_act_short_code_def act_payload_redacted_def act_request_extensions_def reason_or_def
        bind_res_Inr_iff Let_def)
qed

text \<open>Any transport failure or unreadable answer clears nothing.\<close>

lemma http_failure_not_cleared:
  assumes "make_clearance_request q = Inr q"
    and "http_request_clearance post agent extra q timeout s = (Inr r, s')" "cp_status r = CLEARED"
  shows "\<exists>req s1 i st. post APPROVAL_REQUESTED_PATH
       (clearance_request_to_act_payload q agent (timeout + extra)) timeout s = (Inr req, s1) \<and>
     post APPROVAL_STATUS_PATH [(''approval_id'', PStr i)] timeout s1 = (Inr st, s') \<and>
     clearance_response_from_act_payload st = Inr r \<and> str_lower (str_get st ''state'' []) = ''approved''"
proof -
  obtain u where "unavailable q = Inr u" "cp_status u = TOWER_UNAVAILABLE"
    using unavailable_ok [OF assms(1)] by blast
  with assms(2,3) show ?thesis
    by (auto simp: http_request_clearance_def Let_def split: sum.splits prod.splits
        dest: cleared_only_if_approved)
qed

end
