(* ===== verification/AuditLog.thy ===== *)
theory AuditLog
  imports Approvals Redaction
begin

text \<open>
  \<open>control_plane/audit.py\<close>: audit events, their redaction, and the tamper-evident hash chain of
  the JSONL sink. The file is a list of lines, each the JSON value it parses to; the SHA-256 hex
  digest is the parameter \<open>H\<close>. \<open>audit_sink\<close> is the contract of a sink.
\<close>

section \<open>Events\<close>

datatype audit_event_type =
    REQUEST_RECEIVED | CAPABILITY_RESOLVED | CAPABILITY_UNKNOWN_DENIED | POLICY_DECISION
  | APPROVAL_REQUESTED | APPROVAL_GRANTED | APPROVAL_DENIED | APPROVAL_EXPIRED | APPROVAL_REUSED
  | APPROVAL_VERIFIED | APPROVAL_REJECTED | APPROVAL_CONSUMED | PROVIDER_EXECUTION_STARTED
  | PROVIDER_EXECUTION_COMPLETED | PROVIDER_EXECUTION_FAILED | RESULT_RETURNED

fun event_type_value :: "audit_event_type \<Rightarrow> string" where
  "event_type_value REQUEST_RECEIVED = ''request_received''"
| "event_type_value CAPABILITY_RESOLVED = ''capability_resolved''"
| "event_type_value CAPABILITY_UNKNOWN_DENIED = ''capability_unknown_denied''"
| "event_type_value POLICY_DECISION = ''policy_decision''"
| "event_type_value APPROVAL_REQUESTED = ''approval_requested''"
| "event_type_value APPROVAL_GRANTED = ''approval_granted''"
| "event_type_value APPROVAL_DENIED = ''approval_denied''"
| "event_type_value APPROVAL_EXPIRED = ''approval_expired''"
| "event_type_value APPROVAL_REUSED = ''approval_reused''"
| "event_type_value APPROVAL_VERIFIED = ''approval_verified''"
| "event_type_value APPROVAL_REJECTED = ''approval_rejected''"
| "event_type_value APPROVAL_CONSUMED = ''approval_consumed''"
| "event_type_value PROVIDER_EXECUTION_STARTED = ''provider_execution_started''"
| "event_type_value PROVIDER_EXECUTION_COMPLETED = ''provider_execution_completed''"
| "event_type_value PROVIDER_EXECUTION_FAILED = ''provider_execution_failed''"
| "event_type_value RESULT_RETURNED = ''result_returned''"

record provider_ref =
  pv_id :: string
  pv_kind :: string
  pv_is_real_hardware :: bool

definition provider_ref_to_dict :: "provider_ref \<Rightarrow> params" where
  "provider_ref_to_dict p =
     [(''id'', PStr (pv_id p)), (''kind'', PStr (pv_kind p)),
      (''is_real_hardware'', PBool (pv_is_real_hardware p))]"

record audit_event =
  ev_id :: string
  ev_timestamp :: datetime
  ev_type :: audit_event_type
  ev_correlation_id :: string
  ev_session_id :: string
  ev_actor :: actor
  ev_capability :: capability_ref
  ev_policy_decision :: policy_decision
  ev_redactions :: "string list"
  ev_target_id :: "string option"
  ev_approval :: "params option"
  ev_provider :: "provider_ref option"
  ev_request :: "params option"
  ev_result :: "params option"
  ev_material_risks :: "string list"

definition make_audit_event :: "audit_event \<Rightarrow> audit_event res" where
  "make_audit_event e =
     (case ev_provider e of
        Some p \<Rightarrow>
          if pv_is_real_hardware p \<and> ev_type e = REQUEST_RECEIVED
          then raise ValueError (''Request event cannot mark real provider '' @ pv_id p)
          else Inr e
      | None \<Rightarrow> Inr e)"

definition opt_field :: "string \<Rightarrow> pyval option \<Rightarrow> params" where
  "opt_field k v = (case v of None \<Rightarrow> [] | Some x \<Rightarrow> [(k, x)])"

definition event_to_dict :: "audit_event \<Rightarrow> params" where
  "event_to_dict e =
     [(''id'', PStr (ev_id e)), (''timestamp'', PStr (isoformat (ev_timestamp e))),
      (''event_type'', PStr (event_type_value (ev_type e))),
      (''correlation_id'', PStr (ev_correlation_id e)), (''session_id'', PStr (ev_session_id e)),
      (''actor'', pdict (actor_to_dict (ev_actor e))),
      (''capability'', pdict (ref_to_dict (ev_capability e))),
      (''policy_decision'', PStr (decision_value (ev_policy_decision e))),
      (''redactions'', pystrs (ev_redactions e))] @
     opt_field ''target_id'' (map_option PStr (ev_target_id e)) @
     opt_field ''approval'' (map_option pdict (ev_approval e)) @
     opt_field ''provider'' (map_option (pdict \<circ> provider_ref_to_dict) (ev_provider e)) @
     opt_field ''request'' (map_option pdict (ev_request e)) @
     opt_field ''result'' (map_option pdict (ev_result e)) @
     (if ev_material_risks e \<noteq> [] then [(''material_risks'', pystrs (ev_material_risks e))] else [])"

definition prefixed :: "string \<Rightarrow> string list \<Rightarrow> string list" where
  "prefixed name paths = map (\<lambda>p. name @ ''.'' @ p) paths"

definition section_paths :: "string \<Rightarrow> (params \<times> string list) option \<Rightarrow> string list" where
  "section_paths name r = (case r of None \<Rightarrow> [] | Some (v, paths) \<Rightarrow> prefixed name paths)"

text \<open>\<open>build_audit_event\<close>; the fresh id and the current time are arguments.\<close>

definition build_audit_event ::
    "string \<Rightarrow> datetime \<Rightarrow> audit_event_type \<Rightarrow> string \<Rightarrow> string \<Rightarrow> actor \<Rightarrow> capability_ref \<Rightarrow>
     policy_decision \<Rightarrow> string option \<Rightarrow> params option \<Rightarrow> params option \<Rightarrow> string list \<Rightarrow>
     audit_event res" where
  "build_audit_event new_id now t correlation_id session_id who cap d target_id request result risks =
     (let rq = map_option (redact_mapping None) request; rs = map_option (redact_mapping None) result
      in make_audit_event
        \<lparr>ev_id = new_id, ev_timestamp = now, ev_type = t, ev_correlation_id = correlation_id,
         ev_session_id = session_id, ev_actor = who, ev_capability = cap, ev_policy_decision = d,
         ev_redactions = section_paths ''request'' rq @ section_paths ''result'' rs,
         ev_target_id = target_id, ev_approval = None, ev_provider = None,
         ev_request = map_option fst rq, ev_result = map_option fst rs, ev_material_risks = risks\<rparr>)"

text \<open>
  \<open>_redacted_event_payload\<close>: the three free-form sections of the event are redacted again before
  it is written; the redacted paths become a sorted list without duplicates.
\<close>

definition redacted_event :: "audit_event \<Rightarrow> audit_event" where
  "redacted_event e =
     (let rq = map_option (redact_mapping None) (ev_request e);
          rs = map_option (redact_mapping None) (ev_result e);
          ap = map_option (redact_mapping None) (ev_approval e)
      in e\<lparr>ev_request := map_option fst rq, ev_result := map_option fst rs,
           ev_approval := map_option fst ap,
           ev_redactions := sort (remdups (ev_redactions e @ section_paths ''request'' rq @
             section_paths ''result'' rs @ section_paths ''approval'' ap))\<rparr>)"

definition redacted_event_payload :: "audit_event \<Rightarrow> params" where
  "redacted_event_payload e = event_to_dict (redacted_event e)"

section \<open>The hash chain\<close>

text \<open>\<open>json.dumps\<close> without \<open>default\<close> raises \<open>TypeError\<close> on other objects.\<close>

fun py_serializable :: "pyval \<Rightarrow> bool" where
  "py_serializable (PBytes b) = False"
| "py_serializable (PSet xs) = False"
| "py_serializable (PObj t s) = False"
| "py_serializable (PList xs) = (\<forall>x \<in> set xs. py_serializable x)"
| "py_serializable (PTuple xs) = (\<forall>x \<in> set xs. py_serializable x)"
| "py_serializable (PDict d) = (\<forall>kv \<in> set d. py_serializable (snd kv))"
| "py_serializable v = True"

definition hash_mapping :: "(string \<Rightarrow> string) \<Rightarrow> json \<Rightarrow> string" where
  "hash_mapping H v = H (dumps v)"

definition unsigned_record :: "json \<Rightarrow> json \<Rightarrow> json" where
  "unsigned_record previous event = JObj [(''previous_hash'', previous), (''event'', event)]"

definition chain_record :: "json \<Rightarrow> json \<Rightarrow> string \<Rightarrow> json" where
  "chain_record previous event h =
     JObj [(''previous_hash'', previous), (''event'', event), (''event_hash'', JStr h)]"

datatype log_line = BlankLine | JsonLine json | BadLine

record jsonl_sink =
  jl_lines :: "log_line list"
  jl_previous_hash :: json

definition rget :: "jobject \<Rightarrow> string \<Rightarrow> json" where
  "rget r k = (case dict_get r k of None \<Rightarrow> JNull | Some v \<Rightarrow> v)"

fun last_event_hash_from :: "json \<Rightarrow> log_line list \<Rightarrow> json res" where
  "last_event_hash_from h [] = Inr h"
| "last_event_hash_from h (BlankLine # ls) = last_event_hash_from h ls"
| "last_event_hash_from h (JsonLine (JObj r) # ls) = last_event_hash_from (rget r ''event_hash'') ls"
| "last_event_hash_from h (JsonLine v # ls) = raise AttributeError ''object has no attribute get''"
| "last_event_hash_from h (BadLine # ls) = raise JSONDecodeError ''Expecting value''"

text \<open>\<open>LocalJSONLAuditSink(path)\<close> on a file with these lines, and \<open>emit\<close>.\<close>

definition open_jsonl :: "log_line list \<Rightarrow> jsonl_sink res" where
  "open_jsonl ls = bind_res (last_event_hash_from JNull ls) (\<lambda>h.
     Inr \<lparr>jl_lines = ls, jl_previous_hash = h\<rparr>)"

definition jsonl_emit :: "(string \<Rightarrow> string) \<Rightarrow> audit_event \<Rightarrow> jsonl_sink \<Rightarrow> jsonl_sink res" where
  "jsonl_emit H e s =
     (let payload = pdict (redacted_event_payload e);
          event_hash = hash_mapping H (unsigned_record (jl_previous_hash s) (act_json payload))
      in if py_serializable payload
         then Inr \<lparr>jl_lines = jl_lines s @
                     [JsonLine (canon (chain_record (jl_previous_hash s) (act_json payload) event_hash))],
                   jl_previous_hash = JStr event_hash\<rparr>
         else raise TypeError ''Object is not JSON serializable'')"

fun verify_lines :: "(string \<Rightarrow> string) \<Rightarrow> json \<Rightarrow> log_line list \<Rightarrow> bool res" where
  "verify_lines H previous [] = Inr True"
| "verify_lines H previous (JsonLine (JObj r) # ls) =
     (if rget r ''previous_hash'' \<noteq> previous then Inr False
      else if rget r ''event_hash'' \<noteq>
              JStr (hash_mapping H (unsigned_record (rget r ''previous_hash'') (rget r ''event'')))
      then Inr False
      else verify_lines H (rget r ''event_hash'') ls)"
| "verify_lines H previous (JsonLine v # ls) = raise AttributeError ''object has no attribute get''"
| "verify_lines H previous (BlankLine # ls) = raise JSONDecodeError ''Expecting value''"
| "verify_lines H previous (BadLine # ls) = raise JSONDecodeError ''Expecting value''"

definition verify_audit_chain :: "(string \<Rightarrow> string) \<Rightarrow> log_line list option \<Rightarrow> bool res" where
  "verify_audit_chain H file = (case file of None \<Rightarrow> Inr True | Some ls \<Rightarrow> verify_lines H JNull ls)"

text \<open>\<open>verify_audit_chain_records\<close> of \<open>audit_checkpoint.py\<close>, on records already loaded.\<close>

fun verify_records :: "(string \<Rightarrow> string) \<Rightarrow> json \<Rightarrow> jobject list \<Rightarrow> bool" where
  "verify_records H previous [] = True"
| "verify_records H previous (r # rs) =
     (if rget r ''previous_hash'' \<noteq> previous then False
      else if rget r ''event_hash'' \<noteq>
              JStr (hash_mapping H (unsigned_record (rget r ''previous_hash'') (rget r ''event'')))
      then False
      else verify_records H (case rget r ''event_hash'' of JStr s \<Rightarrow> JStr s | _ \<Rightarrow> JNull) rs)"

definition verify_audit_chain_records :: "(string \<Rightarrow> string) \<Rightarrow> jobject list \<Rightarrow> bool" where
  "verify_audit_chain_records H rs = verify_records H JNull rs"

text \<open>\<open>InMemoryAuditSink\<close>\<close>

definition memory_emit :: "audit_event \<Rightarrow> audit_event list \<Rightarrow> audit_event list res" where
  "memory_emit e evs = Inr (evs @ [e])"

section \<open>The contract of a sink\<close>

fun emit_all :: "('e \<Rightarrow> 's \<Rightarrow> 's res) \<Rightarrow> 'e list \<Rightarrow> 's \<Rightarrow> 's res" where
  "emit_all emit [] s = Inr s"
| "emit_all emit (e # es) s = bind_res (emit e s) (emit_all emit es)"

locale audit_sink =
  fixes emit :: "audit_event \<Rightarrow> 's \<Rightarrow> 's res"
    and log :: "'s \<Rightarrow> 'p list"
    and entry :: "audit_event \<Rightarrow> 'p"
    and intact :: "'s \<Rightarrow> bool"
  assumes emit_appends: "emit e s = Inr s' \<Longrightarrow> log s' = log s @ [entry e]"
    and emit_intact: "emit e s = Inr s' \<Longrightarrow> intact s \<Longrightarrow> intact s'"
begin

lemma emit_all_appends: "emit_all emit es s = Inr s' \<Longrightarrow> log s' = log s @ map entry es"
  by (induction es arbitrary: s) (auto simp: bind_res_Inr_iff emit_appends)

lemma emit_all_intact: "emit_all emit es s = Inr s' \<Longrightarrow> intact s \<Longrightarrow> intact s'"
  by (induction es arbitrary: s) (auto simp: bind_res_Inr_iff emit_intact)

lemma append_only: "emit_all emit es s = Inr s' \<Longrightarrow> i < length (log s) \<Longrightarrow> log s' ! i = log s ! i"
  by (auto simp: emit_all_appends nth_append)

end

interpretation memory_sink: audit_sink memory_emit "\<lambda>evs. evs" "\<lambda>e. e" "\<lambda>evs. True"
  by unfold_locales (auto simp: memory_emit_def)

section \<open>Facts about the chain\<close>

lemma rget_simps [simp]:
  "rget [] k = JNull" "rget ((j, v) # r) k = (if j = k then v else rget r k)"
  by (simp_all add: rget_def)

lemma canon_idem [simp]: "canon (canon v) = canon v"
proof (induction v rule: canon.induct)
  case (2 kvs)
  let ?f = "\<lambda>(k, v). (k, canon v)"
  have "map ?f (sort_key fst (map ?f kvs)) = sort_key fst (map ?f kvs)"
    using 2 by (intro map_idI) (auto simp: split_beta)
  then show ?case by (simp add: sort_key_id_if_sorted)
qed simp_all

lemma canon_dumps [simp]: "dumps (canon v) = dumps v"
  by (simp add: dumps_def)

lemma canon_chain_record:
  "canon (chain_record p e h) =
     JObj [(''event'', canon e), (''event_hash'', JStr h), (''previous_hash'', canon p)]"
  by (simp add: chain_record_def)

lemma dumps_unsigned_canon [simp]:
  "dumps (unsigned_record (canon p) (canon e)) = dumps (unsigned_record p e)"
  by (simp add: dumps_def unsigned_record_def)

lemma unsigned_record_inj:
  assumes "dumps (unsigned_record p e) = dumps (unsigned_record q f)"
    and "json_ok p" "json_ok e" "json_ok q" "json_ok f"
  shows "canon p = canon q" "canon e = canon f"
proof -
  let ?kvs = "\<lambda>p e. [(''previous_hash'', p), (''event'', e)]"
  have "canon (JObj (?kvs p e)) = canon (JObj (?kvs q f))"
    using dumps_inj [of "unsigned_record p e" "unsigned_record q f"] assms
    by (simp add: unsigned_record_def)
  then have "map_option canon (map_of (?kvs p e) k) = map_option canon (map_of (?kvs q f) k)" for k
    by (rule canon_obj_lookup) simp_all
  from this [of "''previous_hash''"] this [of "''event''"]
  show "canon p = canon q" "canon e = canon f" by simp_all
qed

text \<open>The head of a chain: the last event hash, or \<open>null\<close>.\<close>

fun head_hash :: "json \<Rightarrow> jobject list \<Rightarrow> json" where
  "head_hash p [] = p"
| "head_hash p (r # rs) = head_hash (rget r ''event_hash'') rs"

definition linked :: "(string \<Rightarrow> string) \<Rightarrow> json \<Rightarrow> jobject \<Rightarrow> bool" where
  "linked H p r \<longleftrightarrow> rget r ''previous_hash'' = p \<and>
     rget r ''event_hash'' = JStr (hash_mapping H (unsigned_record p (rget r ''event'')))"

lemma verify_records_Cons:
  "verify_records H p (r # rs) \<longleftrightarrow> linked H p r \<and> verify_records H (rget r ''event_hash'') rs"
  by (auto simp: linked_def)

lemma verify_records_append:
  "verify_records H p (rs @ ss) \<longleftrightarrow> verify_records H p rs \<and> verify_records H (head_hash p rs) ss"
  by (induction rs arbitrary: p) (auto simp: verify_records_Cons simp del: verify_records.simps(2))

lemma head_hash_append [simp]: "head_hash p (rs @ [r]) = rget r ''event_hash''"
  by (induction rs arbitrary: p) auto

lemma verify_lines_records:
  "verify_lines H p (map (\<lambda>r. JsonLine (JObj r)) rs) = Inr (verify_records H p rs)"
  by (induction rs arbitrary: p) auto

text \<open>A chain that verifies to the end is a sequence of objects.\<close>

lemma verify_lines_True:
  "verify_lines H p ls = Inr True \<longleftrightarrow> (\<exists>rs. ls = map (\<lambda>r. JsonLine (JObj r)) rs \<and> verify_records H p rs)"
proof
  show "verify_lines H p ls = Inr True \<Longrightarrow> \<exists>rs. ls = map (\<lambda>r. JsonLine (JObj r)) rs \<and> verify_records H p rs"
  proof (induction H p ls rule: verify_lines.induct)
    case (2 H p r ls)
    then obtain rs where "ls = map (\<lambda>r. JsonLine (JObj r)) rs" "verify_records H (rget r ''event_hash'') rs"
      by (auto split: if_splits)
    with 2 show ?case
      by (intro exI [of _ "r # rs"]) (auto simp: verify_records_Cons linked_def split: if_splits)
  qed (auto simp: raise_def)
qed (auto simp: verify_lines_records)

section \<open>Emitting keeps the chain, and the head determines it\<close>

definition records_of :: "log_line list \<Rightarrow> jobject list" where
  "records_of ls = map (\<lambda>l. case l of JsonLine (JObj r) \<Rightarrow> r | _ \<Rightarrow> []) ls"

lemma records_of_objects [simp]: "records_of (map (\<lambda>r. JsonLine (JObj r)) rs) = rs"
  by (induction rs) (simp_all add: records_of_def)

definition jsonl_intact :: "(string \<Rightarrow> string) \<Rightarrow> jsonl_sink \<Rightarrow> bool" where
  "jsonl_intact H s \<longleftrightarrow>
     verify_lines H JNull (jl_lines s) = Inr True \<and>
     jl_previous_hash s = head_hash JNull (records_of (jl_lines s))"

lemma head_hash_string:
  "verify_records H JNull rs \<Longrightarrow> head_hash JNull rs = JNull \<or> (\<exists>h. head_hash JNull rs = JStr h)"
  by (induction rs rule: rev_induct) (auto simp: verify_records_append linked_def verify_records_Cons simp del: verify_records.simps(2))

lemma jsonl_emit_intact:
  assumes "jsonl_emit H e s = Inr s'" "jsonl_intact H s"
  shows "jsonl_intact H s'"
proof -
  let ?p = "jl_previous_hash s" and ?e = "act_json (pdict (redacted_event_payload e))"
  let ?h = "hash_mapping H (unsigned_record ?p ?e)"
  obtain rs where rs: "jl_lines s = map (\<lambda>r. JsonLine (JObj r)) rs" "verify_records H JNull rs"
      "?p = head_hash JNull rs"
    using assms(2) by (auto simp: jsonl_intact_def verify_lines_True)
  then have cp: "canon ?p = ?p" using head_hash_string by fastforce
  let ?r = "[(''event'', canon ?e), (''event_hash'', JStr ?h), (''previous_hash'', canon ?p)]"
  have s': "jl_lines s' = map (\<lambda>r. JsonLine (JObj r)) (rs @ [?r])" "jl_previous_hash s' = JStr ?h"
    using assms(1) rs(1) by (auto simp: jsonl_emit_def Let_def canon_chain_record split: if_splits)
  have "hash_mapping H (unsigned_record ?p (canon ?e)) = ?h"
    using dumps_unsigned_canon [of ?p ?e] by (simp add: hash_mapping_def cp)
  then have "linked H ?p ?r" by (simp add: linked_def cp)
  then have "verify_records H JNull (rs @ [?r])"
    using rs(2,3) by (simp add: verify_records_append verify_records_Cons del: verify_records.simps(2))
  then show ?thesis
    unfolding jsonl_intact_def s' records_of_objects by (simp only: verify_lines_records head_hash_append) simp
qed

lemma jsonl_emit_appends:
  "jsonl_emit H e s = Inr s' \<Longrightarrow>
     map (\<lambda>r. rget r ''event'') (records_of (jl_lines s')) =
     map (\<lambda>r. rget r ''event'') (records_of (jl_lines s)) @ [canon (act_json (pdict (redacted_event_payload e)))]"
  by (auto simp: jsonl_emit_def Let_def canon_chain_record records_of_def split: if_splits)

interpretation jsonl_sink: audit_sink "jsonl_emit H"
  "\<lambda>s. map (\<lambda>r. rget r ''event'') (records_of (jl_lines s))"
  "\<lambda>e. canon (act_json (pdict (redacted_event_payload e)))" "jsonl_intact H" for H
  by unfold_locales (fact jsonl_emit_appends, fact jsonl_emit_intact)

text \<open>Reopening a file whose chain verifies resumes it.\<close>

lemma open_verified_intact:
  assumes "verify_lines H JNull ls = Inr True"
  shows "\<exists>s. open_jsonl ls = Inr s \<and> jl_lines s = ls \<and> jsonl_intact H s"
proof -
  obtain rs where rs: "ls = map (\<lambda>r. JsonLine (JObj r)) rs" "verify_records H JNull rs"
    using assms by (auto simp: verify_lines_True)
  have "last_event_hash_from p (map (\<lambda>r. JsonLine (JObj r)) rs) = Inr (head_hash p rs)" for p
    by (induction rs arbitrary: p) auto
  with rs assms show ?thesis by (simp add: open_jsonl_def jsonl_intact_def)
qed

text \<open>
  Tamper evidence. The chained content of a record is its event, up to the order of object keys,
  and its two hashes. Two verified chains with one head hash have the same content, unless two
  distinct texts with one digest exist.
\<close>

definition content :: "jobject \<Rightarrow> json \<times> json \<times> json" where
  "content r = (rget r ''previous_hash'', canon (rget r ''event''), rget r ''event_hash'')"

definition record_ok :: "jobject \<Rightarrow> bool" where
  "record_ok r \<longleftrightarrow> json_ok (JObj r)"

lemma record_ok_rget: "record_ok r \<Longrightarrow> json_ok (rget r k)"
  by (auto simp: record_ok_def rget_def split: option.splits dest!: map_of_SomeD)

lemma linked_inj:
  assumes "linked H p r" "linked H q s" "rget r ''event_hash'' = rget s ''event_hash''"
    and "record_ok r" "record_ok s" "\<not> collision H"
  shows "canon p = canon q" "canon (rget r ''event'') = canon (rget s ''event'')"
proof -
  have "H (dumps (unsigned_record p (rget r ''event''))) = H (dumps (unsigned_record q (rget s ''event'')))"
    using assms(1-3) by (simp add: linked_def hash_mapping_def)
  then have "dumps (unsigned_record p (rget r ''event'')) = dumps (unsigned_record q (rget s ''event''))"
    using assms(6) by (auto simp: collision_def)
  moreover have "json_ok p" "json_ok q" using assms record_ok_rget by (auto simp: linked_def)
  ultimately show "canon p = canon q" "canon (rget r ''event'') = canon (rget s ''event'')"
    using unsigned_record_inj record_ok_rget assms(4,5) by blast+
qed

lemma chain_determined:
  assumes "verify_records H JNull rs" "verify_records H JNull ss"
    and "head_hash JNull rs = head_hash JNull ss" "\<forall>r \<in> set (rs @ ss). record_ok r" "\<not> collision H"
  shows "map content rs = map content ss"
  using assms
proof (induction rs arbitrary: ss rule: rev_induct)
  case Nil
  show ?case
  proof (cases ss rule: rev_cases)
    case (snoc ss' s)
    with Nil show ?thesis
      by (auto simp: verify_records_append verify_records_Cons linked_def simp del: verify_records.simps(2))
  qed simp
next
  case (snoc r rs)
  show ?case
  proof (cases ss rule: rev_cases)
    case Nil
    with snoc.prems show ?thesis
      by (auto simp: verify_records_append verify_records_Cons linked_def simp del: verify_records.simps(2))
  next
    case ss: (snoc ss' s)
    let ?p = "head_hash JNull rs" and ?q = "head_hash JNull ss'"
    have v: "verify_records H JNull rs" "verify_records H JNull ss'" "linked H ?p r" "linked H ?q s"
      using snoc.prems(1,2) ss
      by (simp_all add: verify_records_append verify_records_Cons del: verify_records.simps(2))
    have ok: "record_ok r" "record_ok s" "\<forall>x \<in> set (rs @ ss'). record_ok x" using snoc.prems(4) ss by auto
    have h: "rget r ''event_hash'' = rget s ''event_hash''" using snoc.prems(3) ss by simp
    have pq: "canon ?p = canon ?q" and e: "canon (rget r ''event'') = canon (rget s ''event'')"
      using linked_inj [OF v(3,4) h ok(1,2) snoc.prems(5)] by blast+
    have "?p = ?q" using pq head_hash_string [OF v(1)] head_hash_string [OF v(2)] by auto
    then have "map content rs = map content ss'" using snoc.IH v(1,2) ok(3) snoc.prems(5) by blast
    moreover have "content r = content s" using v(3,4) h e \<open>?p = ?q\<close> by (simp add: content_def linked_def)
    ultimately show ?thesis using ss by simp
  qed
qed

end
