(* ===== verification/AuthChannel.thy ===== *)
theory AuthChannel
  imports Fingerprints
begin

text \<open>
  \<open>control_plane/auth_channel.py\<close>: the selection of the operator authorization channel. An
  unknown channel is an error, never a fallback.
\<close>

datatype auth_channel = MOBILE_SIGNED | LOCAL_TERMINAL

fun channel_value :: "auth_channel \<Rightarrow> string" where
  "channel_value MOBILE_SIGNED = ''mobile_signed''"
| "channel_value LOCAL_TERMINAL = ''local_terminal''"

definition DEFAULT_AUTH_CHANNEL :: auth_channel where
  "DEFAULT_AUTH_CHANNEL = MOBILE_SIGNED"

definition RECOMMENDED_AUTH_CHANNEL :: auth_channel where
  "RECOMMENDED_AUTH_CHANNEL = MOBILE_SIGNED"

fun authority_by_channel :: "auth_channel \<Rightarrow> string" where
  "authority_by_channel MOBILE_SIGNED = ''Agentic Control Tower''"
| "authority_by_channel LOCAL_TERMINAL = ''local signed-grant broker''"

definition LOCAL_TERMINAL_WARNING :: string where
  "LOCAL_TERMINAL_WARNING =
     ''local_terminal is a selectable opt-out: clearance is granted by the local '' @
     ''signed-grant broker on the agent host rather than the Agentic Control Tower '' @
     ''mobile approval. It is less secure and less supported than the recommended '' @
     ''mobile_signed (ACT) channel; prefer mobile_signed unless you understand the '' @
     ''trade-off.''"

record channel_selection =
  sel_channel :: auth_channel
  sel_is_default :: bool
  sel_recommended :: bool
  sel_authority :: string
  sel_warning :: "string option"

definition selection_to_dict :: "channel_selection \<Rightarrow> (string \<times> pyval) list" where
  "selection_to_dict s =
     [(''channel'', PStr (channel_value (sel_channel s))), (''is_default'', PBool (sel_is_default s)),
      (''recommended'', PBool (sel_recommended s)), (''authority'', PStr (sel_authority s)),
      (''warning'', pyopt (sel_warning s))]"

datatype raw_channel = ChannelNone | ChannelMember auth_channel | ChannelText string

definition channel_of_text :: "string \<Rightarrow> auth_channel option" where
  "channel_of_text s = find (\<lambda>c. channel_value c = s) [MOBILE_SIGNED, LOCAL_TERMINAL]"

definition select_channel :: "auth_channel \<Rightarrow> auth_channel \<Rightarrow> channel_selection" where
  "select_channel dflt channel =
     (let recommended = (channel = RECOMMENDED_AUTH_CHANNEL) in
      \<lparr>sel_channel = channel, sel_is_default = (channel = dflt), sel_recommended = recommended,
       sel_authority = authority_by_channel channel,
       sel_warning = (if recommended then None else Some LOCAL_TERMINAL_WARNING)\<rparr>)"

definition resolve_auth_channel :: "raw_channel \<Rightarrow> auth_channel \<Rightarrow> channel_selection res" where
  "resolve_auth_channel v dflt =
     (case v of
        ChannelNone \<Rightarrow> Inr (select_channel dflt dflt)
      | ChannelMember c \<Rightarrow> Inr (select_channel dflt c)
      | ChannelText s \<Rightarrow>
          (case channel_of_text (str_lower (str_strip s)) of
             Some c \<Rightarrow> Inr (select_channel dflt c)
           | None \<Rightarrow> raise AuthChannelError
               (''unknown auth_channel '' @ py_repr False s @
                ''; choose one of: local_terminal, mobile_signed'')))"

lemma channel_of_text_Some: "channel_of_text s = Some c \<longleftrightarrow> s = channel_value c"
  by (cases c) (auto simp: channel_of_text_def split: if_splits)

lemma select_channel_simps [simp]: "sel_channel (select_channel d c) = c"
  by (simp add: select_channel_def Let_def)

text \<open>The weaker channel is only ever selected by naming it, and is then warned about.\<close>

lemma resolve_local_only_explicit:
  assumes "resolve_auth_channel v DEFAULT_AUTH_CHANNEL = Inr sel" "sel_channel sel = LOCAL_TERMINAL"
  shows "(v = ChannelMember LOCAL_TERMINAL \<or> (\<exists>s. v = ChannelText s \<and> str_lower (str_strip s) = ''local_terminal''))
    \<and> sel_warning sel = Some LOCAL_TERMINAL_WARNING \<and> \<not> sel_is_default sel"
  using assms
  by (cases v)
    (auto simp: resolve_auth_channel_def DEFAULT_AUTH_CHANNEL_def channel_of_text_Some
      select_channel_def RECOMMENDED_AUTH_CHANNEL_def Let_def split: option.splits)

lemma resolve_total_on_members:
  "resolve_auth_channel (ChannelText (channel_value c)) d = Inr (select_channel d c)"
proof -
  have "\<forall>c \<in> set [MOBILE_SIGNED, LOCAL_TERMINAL].
      channel_of_text (str_lower (str_strip (channel_value c))) = Some c"
    by code_simp
  then show ?thesis by (cases c) (simp_all add: resolve_auth_channel_def)
qed

end
