(* ===== verification/Engine.thy ===== *)
theory Engine
  imports Providers ActClient AuditLog AuthChannel
begin

text \<open>
  \<open>control_plane/engine.py\<close>: \<open>ControlPlane.handle\<close>, the one path from a capability request to a
  provider. The collaborators (audit sink, provider, clearance client and verifier, grant verifier,
  clock, id source) are the fields of \<open>plane\<close>; the theories of those components supply them. The
  state left behind also by an exception is \<open>world\<close>: the states of the sink, the provider and the
  client, the approval store, the consumed signed-grant ids, the number of clock and id readings
  so far, and the trace of the effects in their order, which the statements speak about.
\<close>

section \<open>Requests, results, collaborators\<close>

datatype control_plane_status = CP_DENIED | APPROVAL_NEEDED | CLEARANCE_NEEDED | COMPLETED | FAILED

fun plane_status_value :: "control_plane_status \<Rightarrow> string" where
  "plane_status_value CP_DENIED = ''denied''"
| "plane_status_value APPROVAL_NEEDED = ''approval_required''"
| "plane_status_value CLEARANCE_NEEDED = ''clearance_required''"
| "plane_status_value COMPLETED = ''completed''"
| "plane_status_value FAILED = ''failed''"

record capability_request =
  rq_capability_id :: string
  rq_target_id :: string
  rq_session_id :: string
  rq_correlation_id :: string
  rq_requester :: actor
  rq_intended_effect :: string
  rq_parameters :: params
  rq_credential_id :: "string option"
  rq_approval_request_id :: "string option"
  rq_signed_grant :: "signed_grant option"

record plane_result =
  cpr_status :: control_plane_status
  cpr_decision :: policy_result
  cpr_approval_request :: "approval_request option"
  cpr_clearance_request :: "clearance_request option"
  cpr_clearance_response :: "clearance_response option"
  cpr_provider_result :: "provider_result option"
  cpr_message :: string

definition plane_result :: "control_plane_status \<Rightarrow> policy_result \<Rightarrow> string \<Rightarrow> plane_result" where
  "plane_result status d message =
     \<lparr>cpr_status = status, cpr_decision = d, cpr_approval_request = None, cpr_clearance_request = None,
      cpr_clearance_response = None, cpr_provider_result = None, cpr_message = message\<rparr>"

datatype effect = EmitE audit_event | ExecE provider_request | ClearE clearance_request

record ('a, 'p, 'c) world =
  w_sink :: 'a
  w_provider :: 'p
  w_client :: 'c
  w_store :: "approval_store option"
  w_consumed :: "string list"
  w_ticks :: nat
  w_trace :: "effect list"

type_synonym grant_verifier = "signed_grant option \<Rightarrow> grant_context \<Rightarrow> verification_result res"
type_synonym clearance_check =
  "clearance_request \<Rightarrow> clearance_response \<Rightarrow> datetime \<Rightarrow> clearance_verification res"
type_synonym 'c clearance_call = "clearance_request \<Rightarrow> int \<Rightarrow> 'c \<Rightarrow> clearance_response res \<times> 'c"

record ('a, 'p, 'c) plane =
  pl_policy :: capability_policy
  pl_registry :: registry
  pl_provider :: adapter_info
  pl_execute :: "provider_request \<Rightarrow> 'p \<Rightarrow> provider_result res \<times> 'p"
  pl_emit :: "audit_event \<Rightarrow> 'a \<Rightarrow> 'a res"
  pl_now :: "nat \<Rightarrow> datetime"
  pl_utcnow :: "nat \<Rightarrow> datetime"
  pl_uuid :: "nat \<Rightarrow> string"
  pl_grant_verifier :: "grant_verifier option"
  pl_client :: "'c clearance_call option"
  pl_clearance_verifier :: "clearance_check option"
  pl_timeout :: int
  pl_channel :: channel_selection
  pl_act_parity :: bool
  pl_sha256 :: "string \<Rightarrow> string"

section \<open>Steps\<close>

definition tick :: "(nat \<Rightarrow> 'x) \<Rightarrow> (('a, 'p, 'c) world, 'x) op" where
  "tick source w = (Inr (source (w_ticks w)), w\<lparr>w_ticks := Suc (w_ticks w)\<rparr>)"

definition sink_emit :: "('a, 'p, 'c) plane \<Rightarrow> audit_event \<Rightarrow> (('a, 'p, 'c) world, unit) op" where
  "sink_emit cp e w =
     (case pl_emit cp e (w_sink w) of
        Inl x \<Rightarrow> (Inl x, w)
      | Inr s \<Rightarrow> (Inr (), w\<lparr>w_sink := s, w_trace := w_trace w @ [EmitE e]\<rparr>))"

definition provider_execute ::
    "('a, 'p, 'c) plane \<Rightarrow> provider_request \<Rightarrow> (('a, 'p, 'c) world, provider_result) op" where
  "provider_execute cp r w =
     (let (x, s) = pl_execute cp r (w_provider w)
      in (x, w\<lparr>w_provider := s, w_trace := w_trace w @ [ExecE r]\<rparr>))"

definition client_request ::
    "'c clearance_call \<Rightarrow> clearance_request \<Rightarrow> int \<Rightarrow> (('a, 'p, 'c) world, clearance_response) op" where
  "client_request call q timeout w =
     (let (x, s) = call q timeout (w_client w)
      in (x, w\<lparr>w_client := s, w_trace := w_trace w @ [ClearE q]\<rparr>))"

definition plane_capability_ref :: "string \<Rightarrow> capability option \<Rightarrow> capability_ref" where
  "plane_capability_ref capability_id c =
     (case c of
        Some cap \<Rightarrow> ref_of_capability cap
      | None \<Rightarrow>
          let (family, _, action) = str_partition (CHR ''.'') capability_id in
          \<lparr>ref_id = capability_id,
           ref_family = (if family \<in> set CAPABILITY_FAMILIES then family else ''runtime''),
           ref_action = (if action = [] then ''unknown'' else action)\<rparr>)"

text \<open>\<open>_emit\<close>: build the event, add the approval payload and the provider, hand it to the sink.\<close>

definition emit ::
    "('a, 'p, 'c) plane \<Rightarrow> capability_request \<Rightarrow> capability_ref \<Rightarrow> policy_result \<Rightarrow> audit_event_type \<Rightarrow>
     params option \<Rightarrow> provider_ref option \<Rightarrow> params option \<Rightarrow> params option \<Rightarrow>
     (('a, 'p, 'c) world, unit) op" where
  "emit cp r ref d t approval provider request_payload result_payload =
     bind_op (tick (pl_uuid cp)) (\<lambda>new_id.
     bind_op (tick (pl_utcnow cp)) (\<lambda>now.
     bind_op (lift_res (build_audit_event new_id now t (rq_correlation_id r) (rq_session_id r)
        (rq_requester r) ref (pr_decision d) (Some (rq_target_id r)) request_payload result_payload
        (pr_material_risks d))) (\<lambda>event.
     bind_op (if approval \<noteq> None \<or> provider \<noteq> None
              then lift_res (make_audit_event (event\<lparr>ev_approval := approval, ev_provider := provider\<rparr>))
              else ret event) (\<lambda>e. sink_emit cp e))))"

definition emit_approval ::
    "('a, 'p, 'c) plane \<Rightarrow> capability_request \<Rightarrow> capability_ref \<Rightarrow> policy_result \<Rightarrow> audit_event_type \<Rightarrow>
     params \<Rightarrow> (('a, 'p, 'c) world, unit) op" where
  "emit_approval cp r ref d t payload = emit cp r ref d t (Some payload) None None None"

definition emit_result_returned ::
    "('a, 'p, 'c) plane \<Rightarrow> capability_request \<Rightarrow> capability_ref \<Rightarrow> policy_result \<Rightarrow> control_plane_status \<Rightarrow>
     (('a, 'p, 'c) world, unit) op" where
  "emit_result_returned cp r ref d status =
     emit cp r ref d RESULT_RETURNED None None None
       (Some [(''status'', PStr (plane_status_value status)), (''reason'', PStr (pr_reason d))])"

text \<open>\<open>_artifact_metadata\<close> and \<open>_provider_audit_result_payload\<close>\<close>

definition artifact_entry :: "(pykey \<times> pyval) list \<Rightarrow> pyval list" where
  "artifact_entry d =
     (case dict_get d (KStr ''artifact'') of
        Some (PDict a) \<Rightarrow>
          [PDict (case dict_get d (KStr ''raw_bytes_included'') of
             Some v \<Rightarrow> if dict_has a (KStr ''raw_bytes_included'') then a
                       else a @ [(KStr ''raw_bytes_included'', v)]
           | None \<Rightarrow> a)]
      | _ \<Rightarrow> [])"

fun artifact_metadata :: "pyval \<Rightarrow> pyval list" where
  "artifact_metadata (PDict d) = artifact_entry d @ concat (map (\<lambda>kv. artifact_metadata (snd kv)) d)"
| "artifact_metadata (PList xs) = concat (map artifact_metadata xs)"
| "artifact_metadata (PTuple xs) = concat (map artifact_metadata xs)"
| "artifact_metadata v = []"

definition provider_audit_result_payload :: "provider_result \<Rightarrow> params" where
  "provider_audit_result_payload x =
     [(''ok'', PBool (prs_ok x)), (''performed_on_hardware'', PBool (prs_performed_on_hardware x)),
      (''message'', PStr (prs_message x))] @
     (case prs_error_code x of
        None \<Rightarrow> []
      | Some c \<Rightarrow> [(''error_code'', PStr c), (''retryable'', PBool (prs_retryable x))]) @
     (let artifacts = artifact_metadata (pdict (prs_data x))
      in if artifacts \<noteq> [] then [(''artifacts'', PList artifacts)] else [])"

section \<open>Executing\<close>

definition provider_request_for :: "capability_request \<Rightarrow> capability \<Rightarrow> provider_request" where
  "provider_request_for r c =
     \<lparr>prq_capability = cap_id c, prq_action = cap_action c, prq_target_id = rq_target_id r,
      prq_session_id = rq_session_id r, prq_correlation_id = rq_correlation_id r,
      prq_parameters = rq_parameters r\<rparr>"

definition plane_provider_ref :: "('a, 'p, 'c) plane \<Rightarrow> provider_ref" where
  "plane_provider_ref cp =
     \<lparr>pv_id = ad_provider_id (pl_provider cp), pv_kind = ad_provider_kind (pl_provider cp),
      pv_is_real_hardware = ad_is_real_hardware (pl_provider cp)\<rparr>"

definition execute_provider ::
    "('a, 'p, 'c) plane \<Rightarrow> capability_request \<Rightarrow> capability \<Rightarrow> capability_ref \<Rightarrow> policy_result \<Rightarrow>
     (('a, 'p, 'c) world, plane_result) op" where
  "execute_provider cp r c ref d =
     seq_op (emit cp r ref d PROVIDER_EXECUTION_STARTED None (Some (plane_provider_ref cp)) None None)
     (bind_op (provider_execute cp (provider_request_for r c)) (\<lambda>x.
      seq_op (emit cp r ref d
         (if prs_ok x then PROVIDER_EXECUTION_COMPLETED else PROVIDER_EXECUTION_FAILED)
         None (Some (plane_provider_ref cp)) None (Some (provider_audit_result_payload x)))
      (let status = (if prs_ok x then COMPLETED else FAILED) in
       seq_op (emit_result_returned cp r ref d status)
       (ret ((plane_result status d (prs_message x))\<lparr>cpr_provider_result := Some x\<rparr>)))))"

section \<open>Signed grants\<close>

definition rejected_grant ::
    "('a, 'p, 'c) plane \<Rightarrow> capability_request \<Rightarrow> capability_ref \<Rightarrow> policy_result \<Rightarrow> params \<Rightarrow>
     (('a, 'p, 'c) world, bool) op" where
  "rejected_grant cp r ref d payload =
     seq_op (emit_approval cp r ref d APPROVAL_REJECTED payload) (ret False)"

text \<open>What follows the verifier's answer \<open>v\<close> about the grant \<open>g\<close>: a one-time grant is consumed.\<close>

definition apply_verification ::
    "('a, 'p, 'c) plane \<Rightarrow> capability_request \<Rightarrow> capability_ref \<Rightarrow> policy_result \<Rightarrow> signed_grant \<Rightarrow>
     verification_result \<Rightarrow> (('a, 'p, 'c) world, bool) op" where
  "apply_verification cp r ref d g v =
     seq_op (emit_approval cp r ref d
        (if vr_valid v then APPROVAL_VERIFIED else APPROVAL_REJECTED) (verification_to_dict v))
     (if \<not> vr_valid v then ret False
      else if gp_one_time (sgn_payload g)
      then seq_op (modify_op (\<lambda>w. w\<lparr>w_consumed := List.insert (gp_grant_id (sgn_payload g)) (w_consumed w)\<rparr>))
        (seq_op (emit_approval cp r ref d APPROVAL_CONSUMED (verification_to_dict v)) (ret True))
      else ret True)"

definition verify_signed_approval_grant ::
    "('a, 'p, 'c) plane \<Rightarrow> capability_request \<Rightarrow> capability_ref \<Rightarrow> policy_result \<Rightarrow>
     (('a, 'p, 'c) world, bool) op" where
  "verify_signed_approval_grant cp r ref d =
     (case rq_signed_grant r of
        None \<Rightarrow> ret False
      | Some g \<Rightarrow>
          (case (pl_grant_verifier cp, rq_approval_request_id r) of
             (None, _) \<Rightarrow>
               rejected_grant cp r ref d [(''reason'', PStr ''signed approval verifier is not configured'')]
           | (Some verifier, None) \<Rightarrow>
               rejected_grant cp r ref d [(''reason'', PStr ''approval request id is required'')]
           | (Some verifier, Some request_id) \<Rightarrow>
               let grant_id = gp_grant_id (sgn_payload g) in
               bind_op (get_op w_consumed) (\<lambda>consumed.
               if grant_id \<in> set consumed
               then rejected_grant cp r ref d
                 [(''grant_id'', PStr grant_id), (''reason'', PStr ''signed grant already consumed'')]
               else
                 bind_op (tick (pl_now cp)) (\<lambda>now.
                 bind_op (lift_res (context_from_parameters (pl_sha256 cp) request_id (rq_session_id r)
                    (rq_target_id r) (ad_provider_id (pl_provider cp)) (rq_capability_id r)
                    (rq_parameters r) (ref_family ref) now)) (\<lambda>context.
                 bind_op (lift_res (verifier (Some g) context)) (\<lambda>v.
                 apply_verification cp r ref d g v))))))"

definition matching_approval_grant ::
    "('a, 'p, 'c) plane \<Rightarrow> capability_request \<Rightarrow> (('a, 'p, 'c) world, action_grant option) op" where
  "matching_approval_grant cp r =
     bind_op (get_op w_store) (\<lambda>st.
       case st of
         None \<Rightarrow> ret None
       | Some store \<Rightarrow>
           bind_op (tick (pl_now cp)) (\<lambda>now.
           lift_res (find_action_grant store
             \<lparr>q_capability_id = rq_capability_id r, q_session_id = rq_session_id r,
              q_target_id = rq_target_id r, q_provider_id = ad_provider_id (pl_provider cp),
              q_params_fingerprint = action_fingerprint (pl_sha256 cp) (rq_parameters r), q_now = now\<rparr>)))"

section \<open>Clearance by the tower\<close>

definition clearance_request_id ::
    "('a, 'p, 'c) plane \<Rightarrow> capability_request \<Rightarrow> (('a, 'p, 'c) world, string) op" where
  "clearance_request_id cp r =
     (if or_empty (rq_approval_request_id r) \<noteq> [] then ret (or_empty (rq_approval_request_id r))
      else tick (pl_uuid cp))"

definition clearance_denied ::
    "('a, 'p, 'c) plane \<Rightarrow> capability_request \<Rightarrow> capability_ref \<Rightarrow> policy_result \<Rightarrow> clearance_request \<Rightarrow>
     clearance_response \<Rightarrow> string \<Rightarrow> (('a, 'p, 'c) world, plane_result) op" where
  "clearance_denied cp r ref d q resp message =
     seq_op (emit_result_returned cp r ref d CP_DENIED)
     (ret ((plane_result CP_DENIED d message)
             \<lparr>cpr_clearance_request := Some q, cpr_clearance_response := Some resp\<rparr>))"

text \<open>What follows the tower's answer \<open>resp\<close> to the request \<open>q\<close>.\<close>

definition clearance_answer ::
    "('a, 'p, 'c) plane \<Rightarrow> capability_request \<Rightarrow> capability \<Rightarrow> capability_ref \<Rightarrow> policy_result \<Rightarrow>
     clearance_request \<Rightarrow> clearance_response \<Rightarrow> datetime \<Rightarrow> (('a, 'p, 'c) world, plane_result) op" where
  "clearance_answer cp r c ref d q resp now =
     (let response = (''clearance_response'', pdict (clearance_response_to_dict resp)) in
      if cp_status resp = CLEARED
      then (case pl_clearance_verifier cp of
         None \<Rightarrow>
           seq_op (emit_approval cp r ref d APPROVAL_REJECTED
             [response, (''reason'', PStr ''ACT clearance verifier is not configured'')])
           (clearance_denied cp r ref d q resp ''ACT clearance verifier is not configured'')
       | Some check \<Rightarrow>
           bind_op (lift_res (check q resp now)) (\<lambda>v.
           seq_op (emit_approval cp r ref d
              (if cv_valid v then APPROVAL_VERIFIED else APPROVAL_REJECTED)
              [response, (''verification'', pdict (clearance_verification_to_dict v))])
           (if cv_valid v then execute_provider cp r c ref d
            else clearance_denied cp r ref d q resp (cv_reason v))))
      else if cp_status resp = CL_DENIED
      then seq_op (emit_approval cp r ref d APPROVAL_REJECTED [response])
           (clearance_denied cp r ref d q resp
              (if cp_reason resp \<noteq> [] then cp_reason resp else ''ACT denied clearance''))
      else
        seq_op (emit_result_returned cp r ref d CLEARANCE_NEEDED)
        (ret ((plane_result CLEARANCE_NEEDED d ''ACT clearance required'')
                \<lparr>cpr_clearance_request := Some q, cpr_clearance_response := Some resp\<rparr>)))"

definition handle_act_clearance ::
    "('a, 'p, 'c) plane \<Rightarrow> 'c clearance_call \<Rightarrow> capability_request \<Rightarrow> capability \<Rightarrow> capability_ref \<Rightarrow>
     policy_result \<Rightarrow> (('a, 'p, 'c) world, plane_result) op" where
  "handle_act_clearance cp call r c ref d =
     bind_op (tick (pl_now cp)) (\<lambda>now.
     bind_op (clearance_request_id cp r) (\<lambda>request_id.
     bind_op (lift_res (build_clearance_request (pl_sha256 cp) (rq_session_id r) (rq_target_id r)
        (ad_provider_id (pl_provider cp)) (rq_capability_id r) (rq_parameters r)
        (clearance_risk_family_for_capability (Some c)) (pr_reason d) (pr_material_risks d)
        (rq_intended_effect r) (actor_id (rq_requester r)) (rq_correlation_id r)
        [(''decision'', PStr (decision_value (pr_decision d)))] now (pl_timeout cp) request_id
        (pl_act_parity cp))) (\<lambda>q.
     seq_op (emit_approval cp r ref d APPROVAL_REQUESTED
       [(''clearance_request'', pdict (clearance_request_to_dict q)),
        (''authority'', PStr ''Agentic Control Tower''), (''contract_source'', PStr ''ACT''),
        (''auth_channel'', pdict (selection_to_dict (pl_channel cp)))])
     (bind_op (client_request call q (pl_timeout cp)) (\<lambda>resp.
        clearance_answer cp r c ref d q resp now)))))"

section \<open>Handling a request\<close>

text \<open>The three events that open the record of every request.\<close>

definition announce ::
    "('a, 'p, 'c) plane \<Rightarrow> capability_request \<Rightarrow> capability option \<Rightarrow> capability_ref \<Rightarrow> policy_result \<Rightarrow>
     (('a, 'p, 'c) world, unit) op" where
  "announce cp r c ref d =
     seq_op (emit cp r ref d REQUEST_RECEIVED None None
        (Some [(''capability_id'', PStr (rq_capability_id r)), (''parameters'', pdict (rq_parameters r)),
               (''intended_effect'', PStr (rq_intended_effect r))]) None)
     (seq_op (emit cp r ref d (if c \<noteq> None then CAPABILITY_RESOLVED else CAPABILITY_UNKNOWN_DENIED)
        None None None None)
     (emit cp r ref d POLICY_DECISION None None None
        (Some [(''decision'', PStr (decision_value (pr_decision d))), (''reason'', PStr (pr_reason d))])))"

definition deny ::
    "('a, 'p, 'c) plane \<Rightarrow> capability_request \<Rightarrow> capability_ref \<Rightarrow> policy_result \<Rightarrow>
     (('a, 'p, 'c) world, plane_result) op" where
  "deny cp r ref d =
     seq_op (emit_result_returned cp r ref d CP_DENIED) (ret (plane_result CP_DENIED d (pr_reason d)))"

definition hardware_denied :: "string \<Rightarrow> policy_result \<Rightarrow> policy_result" where
  "hardware_denied capability_id d =
     denied capability_id ''real hardware provider outside policy scope'' (pr_material_risks d)"

definition approval_ttl_seconds :: int where
  "approval_ttl_seconds = 15 * 60"

definition request_operator_approval ::
    "('a, 'p, 'c) plane \<Rightarrow> capability_request \<Rightarrow> capability \<Rightarrow> capability_ref \<Rightarrow> policy_result \<Rightarrow>
     (('a, 'p, 'c) world, plane_result) op" where
  "request_operator_approval cp r c ref d =
     bind_op (tick (pl_now cp)) (\<lambda>now.
     bind_op (tick (pl_uuid cp)) (\<lambda>new_id.
     bind_op (tick (pl_uuid cp)) (\<lambda>audit_id.
     bind_op (lift_res (build_approval_request d c (rq_session_id r) (rq_requester r)
        [rq_target_id r] (rq_intended_effect r) approval_ttl_seconds now new_id audit_id
        (Some (ad_provider_id (pl_provider cp))))) (\<lambda>a.
     seq_op (emit_approval cp r ref d APPROVAL_REQUESTED
        (request_to_dict a @ [(''auth_channel'', pdict (selection_to_dict (pl_channel cp)))]))
     (seq_op (emit_result_returned cp r ref d APPROVAL_NEEDED)
     (ret ((plane_result APPROVAL_NEEDED d ''operator approval required'')
             \<lparr>cpr_approval_request := Some a\<rparr>)))))))"

definition consume_grant :: "action_grant \<Rightarrow> (('a, 'p, 'c) world, unit) op" where
  "consume_grant g =
     bind_op (get_op w_store) (\<lambda>st.
       case st of
         None \<Rightarrow> throw RuntimeError ''Approval grant found without approval store''
       | Some store \<Rightarrow> modify_op (\<lambda>w. w\<lparr>w_store := Some (store_consume g store)\<rparr>))"

text \<open>A decision that needs approval: the tower, else a signed grant, else a stored grant, else ask.\<close>

definition handle_approval ::
    "('a, 'p, 'c) plane \<Rightarrow> capability_request \<Rightarrow> capability \<Rightarrow> capability_ref \<Rightarrow> policy_result \<Rightarrow>
     (('a, 'p, 'c) world, plane_result) op" where
  "handle_approval cp r c ref d =
     (case (sel_channel (pl_channel cp), pl_client cp) of
        (MOBILE_SIGNED, Some call) \<Rightarrow> handle_act_clearance cp call r c ref d
      | _ \<Rightarrow>
          bind_op (verify_signed_approval_grant cp r ref d) (\<lambda>signed.
          if signed then execute_provider cp r c ref d
          else bind_op (matching_approval_grant cp r) (\<lambda>found.
            case found of
              Some g \<Rightarrow>
                seq_op (consume_grant g)
                (seq_op (emit_approval cp r ref d APPROVAL_CONSUMED (action_grant_to_dict g))
                (execute_provider cp r c ref d))
            | None \<Rightarrow> request_operator_approval cp r c ref d)))"

definition plane_decision :: "('a, 'p, 'c) plane \<Rightarrow> capability_request \<Rightarrow> policy_result" where
  "plane_decision cp r =
     decision_for (pl_policy cp) (rq_capability_id r) (Some (rq_target_id r)) (Some (rq_session_id r))
       (rq_credential_id r) (pl_registry cp)"

definition handle ::
    "('a, 'p, 'c) plane \<Rightarrow> capability_request \<Rightarrow> (('a, 'p, 'c) world, plane_result) op" where
  "handle cp r =
     (let capability = registry_get (pl_registry cp) (rq_capability_id r);
          d = plane_decision cp r;
          ref = plane_capability_ref (rq_capability_id r) capability in
      seq_op (announce cp r capability ref d)
      (if pr_decision d = DENY then deny cp r ref d
       else if ad_is_real_hardware (pl_provider cp) \<and>
               \<not> ts_allow_real_hardware (pol_target_scope (pl_policy cp))
       then deny cp r ref (hardware_denied (rq_capability_id r) d)
       else if requires_approval d
       then (case capability of
          None \<Rightarrow> throw RuntimeError ''Unknown capabilities cannot require approval''
        | Some c \<Rightarrow> handle_approval cp r c ref d)
       else (case capability of
          None \<Rightarrow> throw RuntimeError ''Unknown capability reached provider execution''
        | Some c \<Rightarrow> execute_provider cp r c ref d)))"

text \<open>\<open>ControlPlane(...)\<close>: the channel is resolved first.\<close>

definition make_plane :: "raw_channel \<Rightarrow> ('a, 'p, 'c) plane \<Rightarrow> ('a, 'p, 'c) plane res" where
  "make_plane channel cp =
     bind_res (resolve_auth_channel channel DEFAULT_AUTH_CHANNEL) (\<lambda>sel. Inr (cp\<lparr>pl_channel := sel\<rparr>))"

text \<open>A sequence of requests handled by one control plane; exceptions end one request only.\<close>

fun run_requests ::
    "('a, 'p, 'c) plane \<Rightarrow> capability_request list \<Rightarrow> ('a, 'p, 'c) world \<Rightarrow> ('a, 'p, 'c) world" where
  "run_requests cp [] w = w"
| "run_requests cp (r # rs) w = run_requests cp rs (snd (handle cp r w))"

end
