(* ===== verification/EngineFacts.thy ===== *)
theory EngineFacts
  imports Engine "HOL-Library.Sublist"
begin

text \<open>
  What \<open>ControlPlane.handle\<close> guarantees: the order of its effects, that an execution is always
  authorised, that one-time approvals authorise one execution, and that the audit log it leaves is
  intact.
\<close>

section \<open>The effects of one step\<close>

datatype mark = Ev audit_event_type | Exec | Clear

fun mark_of :: "effect \<Rightarrow> mark" where
  "mark_of (EmitE e) = Ev (ev_type e)"
| "mark_of (ExecE r) = Exec"
| "mark_of (ClearE q) = Clear"

definition frame :: "('a, 'p, 'c) world \<Rightarrow> ('a, 'p, 'c) world \<Rightarrow> effect list \<Rightarrow> bool" where
  "frame w w' es \<longleftrightarrow> w_trace w' = w_trace w @ es \<and> w_store w' = w_store w \<and> w_consumed w' = w_consumed w \<and>
     w_ticks w \<le> w_ticks w'"

lemma frame_refl: "frame w w []"
  by (simp add: frame_def)

lemma frame_trans: "frame w w' es \<Longrightarrow> frame w' w'' fs \<Longrightarrow> frame w w'' (es @ fs)"
  by (simp add: frame_def)

lemma make_audit_event_Inr: "make_audit_event e = Inr e' \<Longrightarrow> e' = e"
  by (auto simp: make_audit_event_def split: option.splits if_splits)

lemma build_audit_event_type:
  "build_audit_event i now t co s who ref d tg rq rs risks = Inr e \<Longrightarrow>
     ev_type e = t \<and> ev_correlation_id e = co \<and> ev_policy_decision e = d"
  by (auto simp: build_audit_event_def Let_def dest!: make_audit_event_Inr)

lemma tick_eq: "tick f w = (Inr (f (w_ticks w)), w\<lparr>w_ticks := Suc (w_ticks w)\<rparr>)"
  by (simp add: tick_def)

lemma tick_frame: "tick f w = (x, w') \<Longrightarrow> frame w w' [] \<and> (\<exists>y. x = Inr y)"
  by (auto simp: tick_def frame_def)

lemma sink_emit_frame:
  "sink_emit cp e w = (x, w') \<Longrightarrow> (\<exists>err. x = Inl err \<and> frame w w' []) \<or> (x = Inr () \<and> frame w w' [EmitE e])"
  by (auto simp: sink_emit_def frame_def split: sum.splits)

lemma emit_frame:
  assumes "emit cp r ref d t ap pv rp sp w = (x, w')"
  obtains (raised) err where "x = Inl err" "frame w w' []"
  | (emitted) e where "x = Inr ()" "frame w w' [EmitE e]" "ev_type e = t"
proof -
  have "(\<exists>err. x = Inl err \<and> frame w w' []) \<or> (\<exists>e. x = Inr () \<and> frame w w' [EmitE e] \<and> ev_type e = t)"
    using assms unfolding emit_def
    by (auto elim!: bind_opE simp: tick_eq frame_def split: sum.splits if_splits
        dest!: build_audit_event_type make_audit_event_Inr sink_emit_frame)
  with that show ?thesis by blast
qed

section \<open>The protocol of effects\<close>

text \<open>
  The audit events, provider calls and clearance calls of one request follow this automaton. An
  execution is reached only from \<open>Starting\<close>, which a written \<open>PROVIDER_EXECUTION_STARTED\<close> opens.
\<close>

datatype phase =
    Opened | Received | Resolved | Decided | GrantRejected | Asked | Contacted | Refused | Verified
  | Consumed | Starting | Executed | Reported | Closed | Broken

definition allowed_steps :: "(phase \<times> mark \<times> phase) list" where
  "allowed_steps =
     [(Opened, Ev REQUEST_RECEIVED, Received),
      (Received, Ev CAPABILITY_RESOLVED, Resolved),
      (Received, Ev CAPABILITY_UNKNOWN_DENIED, Resolved),
      (Resolved, Ev POLICY_DECISION, Decided),
      (Decided, Ev RESULT_RETURNED, Closed),
      (Decided, Ev PROVIDER_EXECUTION_STARTED, Starting),
      (Decided, Ev APPROVAL_REJECTED, GrantRejected),
      (Decided, Ev APPROVAL_VERIFIED, Verified),
      (Decided, Ev APPROVAL_CONSUMED, Consumed),
      (Decided, Ev APPROVAL_REQUESTED, Asked),
      (GrantRejected, Ev APPROVAL_CONSUMED, Consumed),
      (GrantRejected, Ev APPROVAL_REQUESTED, Asked),
      (Asked, Ev RESULT_RETURNED, Closed),
      (Asked, Clear, Contacted),
      (Contacted, Ev APPROVAL_VERIFIED, Verified),
      (Contacted, Ev APPROVAL_REJECTED, Refused),
      (Contacted, Ev RESULT_RETURNED, Closed),
      (Refused, Ev RESULT_RETURNED, Closed),
      (Verified, Ev APPROVAL_CONSUMED, Consumed),
      (Verified, Ev PROVIDER_EXECUTION_STARTED, Starting),
      (Consumed, Ev PROVIDER_EXECUTION_STARTED, Starting),
      (Starting, Exec, Executed),
      (Executed, Ev PROVIDER_EXECUTION_COMPLETED, Reported),
      (Executed, Ev PROVIDER_EXECUTION_FAILED, Reported),
      (Reported, Ev RESULT_RETURNED, Closed)]"

definition next_phase :: "phase \<Rightarrow> mark \<Rightarrow> phase" where
  "next_phase p m =
     (case find (\<lambda>(q, n, r). q = p \<and> n = m) allowed_steps of Some (q, n, r) \<Rightarrow> r | None \<Rightarrow> Broken)"

lemmas phase_eval = next_phase_def allowed_steps_def

definition phase_of :: "effect list \<Rightarrow> phase" where
  "phase_of es = foldl next_phase Opened (map mark_of es)"

lemma phase_of_simps [simp]: "phase_of [] = Opened" "phase_of (es @ [e]) = next_phase (phase_of es) (mark_of e)"
  by (simp_all add: phase_of_def)

text \<open>After the effects \<open>tr\<close> that were there before, the request is in phase \<open>p\<close>.\<close>

definition at_phase :: "effect list \<Rightarrow> phase set \<Rightarrow> ('a, 'p, 'c) world \<Rightarrow> bool" where
  "at_phase tr ps w \<longleftrightarrow> (\<exists>es. w_trace w = tr @ es \<and> phase_of es \<in> ps)"

abbreviation sound_phase :: "effect list \<Rightarrow> ('a, 'p, 'c) world \<Rightarrow> bool" where
  "sound_phase tr \<equiv> at_phase tr (- {Broken})"

lemma at_phase_mono: "at_phase tr ps w \<Longrightarrow> ps \<subseteq> qs \<Longrightarrow> at_phase tr qs w"
  by (auto simp: at_phase_def)

lemma at_phase_frame: "at_phase tr ps w \<Longrightarrow> frame w w' [] \<Longrightarrow> at_phase tr ps w'"
  by (auto simp: at_phase_def frame_def)

lemma at_phase_snoc:
  assumes "at_phase tr ps w" "w_trace w' = w_trace w @ [e]" "\<And>p. p \<in> ps \<Longrightarrow> next_phase p (mark_of e) \<in> qs"
  shows "at_phase tr qs w'"
proof -
  from assms(1) obtain es where "w_trace w = tr @ es" "phase_of es \<in> ps" by (auto simp: at_phase_def)
  with assms(2,3) have "w_trace w' = tr @ (es @ [e])" "phase_of (es @ [e]) \<in> qs" by auto
  then show ?thesis unfolding at_phase_def by blast
qed

lemma emit_phase:
  assumes "Broken \<notin> ps" "\<And>p. p \<in> ps \<Longrightarrow> next_phase p (Ev t) \<in> qs"
  shows "triple (at_phase tr ps) (emit cp r ref d t ap pv rp sp) (\<lambda>_. at_phase tr qs) (sound_phase tr)"
proof (rule tripleI)
  fix s y s' assume s: "at_phase tr ps s" and "emit cp r ref d t ap pv rp sp s = (Inr y, s')"
  from this(2) obtain e where "w_trace s' = w_trace s @ [EmitE e]" "ev_type e = t"
    by (elim emit_frame) (auto simp: frame_def)
  with assms(2) show "at_phase tr qs s'" by (auto intro: at_phase_snoc [OF s])
next
  fix s e s' assume "at_phase tr ps s" "emit cp r ref d t ap pv rp sp s = (Inl e, s')"
  then show "sound_phase tr s'"
    using assms(1) by (elim emit_frame) (auto intro: at_phase_mono dest: at_phase_frame)
qed

lemma tick_phase: "Broken \<notin> ps \<Longrightarrow> triple (at_phase tr ps) (tick f) (\<lambda>_. at_phase tr ps) (sound_phase tr)"
  by (auto simp: triple_def tick_def at_phase_def)

lemma provider_execute_trace:
  "provider_execute cp q w = (x, w') \<Longrightarrow> frame w w' [ExecE q]"
  by (auto simp: provider_execute_def frame_def split: prod.splits)

lemma client_request_trace:
  "client_request call q timeout w = (x, w') \<Longrightarrow> frame w w' [ClearE q]"
  by (auto simp: client_request_def frame_def split: prod.splits)

lemma one_effect_phase:
  assumes "\<And>w x w'. m w = (x, w') \<Longrightarrow> frame w w' [e]" "\<And>p. p \<in> ps \<Longrightarrow> next_phase p (mark_of e) \<in> qs" "Broken \<notin> qs"
  shows "triple (at_phase tr ps) m (\<lambda>_. at_phase tr qs) (sound_phase tr)"
proof -
  have "at_phase tr qs w'" if "at_phase tr ps w" "m w = (x, w')" for w x w'
    using that(1) assms(1) [OF that(2)] assms(2) unfolding frame_def by (blast intro: at_phase_snoc)
  moreover have "at_phase tr qs w \<Longrightarrow> sound_phase tr w" for w
    using assms(3) by (auto elim: at_phase_mono)
  ultimately show ?thesis by (auto simp: triple_def split: sum.splits)
qed

lemma provider_execute_phase:
  "triple (at_phase tr {Starting}) (provider_execute cp q) (\<lambda>_. at_phase tr {Executed}) (sound_phase tr)"
  by (rule one_effect_phase) (auto simp: phase_eval dest: provider_execute_trace)

lemma client_request_phase:
  "triple (at_phase tr {Asked}) (client_request call q t) (\<lambda>_. at_phase tr {Contacted}) (sound_phase tr)"
  by (rule one_effect_phase) (auto simp: phase_eval dest: client_request_trace)

lemma sound_phaseI: "at_phase tr ps w \<Longrightarrow> Broken \<notin> ps \<Longrightarrow> sound_phase tr w"
  by (rule at_phase_mono) auto

lemma result_phase:
  assumes "\<And>p. p \<in> ps \<Longrightarrow> next_phase p (Ev RESULT_RETURNED) = Closed" "Broken \<notin> ps"
  shows "triple (at_phase tr ps) (seq_op (emit_result_returned cp r ref d status) (ret y))
    (\<lambda>_. at_phase tr {Closed}) (sound_phase tr)"
  unfolding emit_result_returned_def
  by (rule triple_seq [OF emit_phase [where qs = "{Closed}"] triple_ret]) (auto simp: assms)

lemma emit_then:
  assumes "Broken \<notin> ps" "\<And>p. p \<in> ps \<Longrightarrow> next_phase p (Ev t) \<in> qs"
    and "triple (at_phase tr qs) m Q (sound_phase tr)"
  shows "triple (at_phase tr ps) (seq_op (emit cp r ref d t ap pv rp sp) m) Q (sound_phase tr)"
  by (rule triple_seq [OF emit_phase [OF assms(1,2)] assms(3)])

lemma tick_then:
  assumes "Broken \<notin> ps" "\<And>y. triple (at_phase tr ps) (k y) Q (sound_phase tr)"
  shows "triple (at_phase tr ps) (bind_op (tick f) k) Q (sound_phase tr)"
  by (rule triple_bind [OF tick_phase [OF assms(1)] assms(2)])

lemma lift_then:
  assumes "Broken \<notin> ps" "\<And>y. v = Inr y \<Longrightarrow> triple (at_phase tr ps) (k y) Q (sound_phase tr)"
  shows "triple (at_phase tr ps) (bind_op (lift_res v) k) Q (sound_phase tr)"
proof -
  have "triple (at_phase tr ps) (lift_res v) (\<lambda>y w. v = Inr y \<and> at_phase tr ps w) (sound_phase tr)"
    by (rule triple_lift) (simp, erule sound_phaseI [OF _ assms(1)])
  then show ?thesis by (rule triple_bind) (rule triple_pure, rule assms(2))
qed

lemma get_then:
  assumes "Broken \<notin> ps" "\<And>y. triple (at_phase tr ps) (k y) Q (sound_phase tr)"
  shows "triple (at_phase tr ps) (bind_op (get_op f) k) Q (sound_phase tr)"
  by (rule triple_bind [OF triple_get assms(2)])

lemma execute_provider_phase:
  assumes "ps \<subseteq> {Decided, Verified, Consumed}"
  shows "triple (at_phase tr ps) (execute_provider cp r c ref d) (\<lambda>_. at_phase tr {Closed}) (sound_phase tr)"
  unfolding execute_provider_def Let_def
proof (rule emit_then [where qs = "{Starting}"], goal_cases)
  case 3
  show ?case
    by (rule triple_bind [OF provider_execute_phase], rule emit_then [where qs = "{Reported}"])
      (auto simp: phase_eval intro!: result_phase)
qed (use assms in \<open>auto simp: phase_eval\<close>)

lemma verify_signed_phase:
  "triple (at_phase tr {Decided}) (verify_signed_approval_grant cp r ref d)
     (\<lambda>b. at_phase tr (if b then {Verified, Consumed} else {Decided, GrantRejected})) (sound_phase tr)"
proof -
  have rej: "triple (at_phase tr {Decided}) (rejected_grant cp r ref d p)
     (\<lambda>b. at_phase tr (if b then {Verified, Consumed} else {Decided, GrantRejected})) (sound_phase tr)" for p
    unfolding rejected_grant_def emit_approval_def
    by (rule emit_then [where qs = "{GrantRejected}"], simp, simp add: phase_eval, rule triple_ret)
      (auto elim: at_phase_mono)
  have ok: "triple (at_phase tr {Verified})
      (if one then seq_op (modify_op (\<lambda>w. w\<lparr>w_consumed := F w\<rparr>))
         (seq_op (emit_approval cp r ref d APPROVAL_CONSUMED p) (ret True)) else ret True)
     (\<lambda>b. at_phase tr (if b then {Verified, Consumed} else {Decided, GrantRejected})) (sound_phase tr)" for F p one
  proof (rule triple_if)
    show "triple (at_phase tr {Verified}) (seq_op (modify_op (\<lambda>w. w\<lparr>w_consumed := F w\<rparr>))
         (seq_op (emit_approval cp r ref d APPROVAL_CONSUMED p) (ret True)))
     (\<lambda>b. at_phase tr (if b then {Verified, Consumed} else {Decided, GrantRejected})) (sound_phase tr)"
      unfolding emit_approval_def
      by (rule triple_seq [where R = "at_phase tr {Verified}"], rule triple_modify, simp add: at_phase_def,
          rule emit_then [where qs = "{Consumed}"], simp, simp add: phase_eval, rule triple_ret)
        (auto elim: at_phase_mono)
  qed (rule triple_ret, auto elim: at_phase_mono)
  show ?thesis
    unfolding verify_signed_approval_grant_def Let_def
  proof (intro triple_option, goal_cases)
    case 1
    show ?case by (rule triple_ret) (auto elim: at_phase_mono)
  next
    case (2 g)
    show ?case
    proof (cases "pl_grant_verifier cp")
      case (Some verifier)
      show ?thesis
      proof (cases "rq_approval_request_id r")
        case (Some rid)
        have "triple (at_phase tr {Decided}) (apply_verification cp r ref d g v)
         (\<lambda>b. at_phase tr (if b then {Verified, Consumed} else {Decided, GrantRejected})) (sound_phase tr)" for v
        proof (cases "vr_valid v")
          case True
          with ok show ?thesis unfolding apply_verification_def emit_approval_def
            by (intro emit_then [where qs = "{Verified}"]) (auto simp: phase_eval)
        next
          case False
          with rej show ?thesis by (simp add: rejected_grant_def apply_verification_def)
        qed
        with rej show ?thesis
          unfolding \<open>pl_grant_verifier cp = Some verifier\<close> Some
          by (auto intro!: get_then triple_if tick_then lift_then)
      qed (simp add: Some rej)
    qed (simp add: rej)
  qed
qed

lemma matching_phase:
  "Broken \<notin> ps \<Longrightarrow> triple (at_phase tr ps) (matching_approval_grant cp r) (\<lambda>_. at_phase tr ps) (sound_phase tr)"
  unfolding matching_approval_grant_def
  by (intro get_then triple_option tick_then triple_ret triple_lift) (auto elim: sound_phaseI)

lemma consume_phase:
  "Broken \<notin> ps \<Longrightarrow> triple (at_phase tr ps) (consume_grant g) (\<lambda>_. at_phase tr ps) (sound_phase tr)"
  unfolding consume_grant_def
  by (intro get_then triple_option triple_throw triple_modify) (auto elim: sound_phaseI simp: at_phase_def)

lemma request_operator_phase:
  assumes "ps \<subseteq> {Decided, GrantRejected}"
  shows "triple (at_phase tr ps) (request_operator_approval cp r c ref d) (\<lambda>_. at_phase tr {Closed}) (sound_phase tr)"
proof -
  have "Broken \<notin> ps" using assms by auto
  moreover have "p \<in> ps \<Longrightarrow> next_phase p (Ev APPROVAL_REQUESTED) \<in> {Asked}" for p
    using assms by (auto simp: phase_eval)
  ultimately show ?thesis
    unfolding request_operator_approval_def emit_approval_def
    by (intro tick_then lift_then emit_then [where qs = "{Asked}"] result_phase) (auto simp: phase_eval)
qed

lemma clearance_denied_phase:
  "ps \<subseteq> {Refused} \<Longrightarrow> triple (at_phase tr ps) (clearance_denied cp r ref d q resp msg) (\<lambda>_. at_phase tr {Closed}) (sound_phase tr)"
  unfolding clearance_denied_def by (rule result_phase) (auto simp: phase_eval)

lemma clearance_answer_phase:
  "triple (at_phase tr {Contacted}) (clearance_answer cp r c ref d q resp now) (\<lambda>_. at_phase tr {Closed}) (sound_phase tr)"
proof -
  have refuse: "triple (at_phase tr {Contacted})
      (seq_op (emit_approval cp r ref d APPROVAL_REJECTED p) (clearance_denied cp r ref d q resp msg))
      (\<lambda>_. at_phase tr {Closed}) (sound_phase tr)" for p msg
    unfolding emit_approval_def
    by (rule emit_then [where qs = "{Refused}"]) (auto simp: phase_eval intro: clearance_denied_phase)
  have accept: "triple (at_phase tr {Contacted})
      (seq_op (emit_approval cp r ref d APPROVAL_VERIFIED p) (execute_provider cp r c ref d))
      (\<lambda>_. at_phase tr {Closed}) (sound_phase tr)" for p
    unfolding emit_approval_def
    by (rule emit_then [where qs = "{Verified}"]) (auto simp: phase_eval intro: execute_provider_phase)
  have "triple (at_phase tr {Contacted}) (seq_op (emit_result_returned cp r ref d CLEARANCE_NEEDED) (ret y))
      (\<lambda>_. at_phase tr {Closed}) (sound_phase tr)" for y
    by (rule result_phase) (auto simp: phase_eval)
  then show ?thesis
    using accept refuse unfolding clearance_answer_def Let_def
    by (intro triple_if triple_option lift_then) auto
qed

lemma handle_act_phase:
  "triple (at_phase tr {Decided}) (handle_act_clearance cp call r c ref d) (\<lambda>_. at_phase tr {Closed}) (sound_phase tr)"
proof -
  have "triple (at_phase tr {Decided}) (clearance_request_id cp r) (\<lambda>_. at_phase tr {Decided}) (sound_phase tr)"
    unfolding clearance_request_id_def by (intro triple_if triple_ret tick_phase) auto
  then show ?thesis
    unfolding handle_act_clearance_def emit_approval_def
    by (intro tick_then lift_then emit_then [where qs = "{Asked}"]
        triple_bind [where R = "\<lambda>_. at_phase tr {Decided}"] triple_bind [OF client_request_phase]
        clearance_answer_phase) (auto simp: phase_eval)
qed

lemma handle_approval_phase:
  "triple (at_phase tr {Decided}) (handle_approval cp r c ref d) (\<lambda>_. at_phase tr {Closed}) (sound_phase tr)"
proof -
  have found: "triple (at_phase tr {Decided, GrantRejected})
      (seq_op (consume_grant g) (seq_op (emit_approval cp r ref d APPROVAL_CONSUMED p) (execute_provider cp r c ref d)))
      (\<lambda>_. at_phase tr {Closed}) (sound_phase tr)" for g p
    unfolding emit_approval_def
    by (rule triple_seq [OF consume_phase], simp, rule emit_then [where qs = "{Consumed}"])
      (auto simp: phase_eval intro: execute_provider_phase)
  have lookup: "triple (at_phase tr {Decided, GrantRejected})
      (bind_op (matching_approval_grant cp r) (\<lambda>found. case found of
         Some g \<Rightarrow> seq_op (consume_grant g)
           (seq_op (emit_approval cp r ref d APPROVAL_CONSUMED (action_grant_to_dict g)) (execute_provider cp r c ref d))
       | None \<Rightarrow> request_operator_approval cp r c ref d))
      (\<lambda>_. at_phase tr {Closed}) (sound_phase tr)"
    by (rule triple_bind [OF matching_phase], simp) (intro triple_option found request_operator_phase, simp)
  have "triple (at_phase tr {Decided})
      (bind_op (verify_signed_approval_grant cp r ref d) (\<lambda>signed.
        if signed then execute_provider cp r c ref d
        else bind_op (matching_approval_grant cp r) (\<lambda>found. case found of
         Some g \<Rightarrow> seq_op (consume_grant g)
           (seq_op (emit_approval cp r ref d APPROVAL_CONSUMED (action_grant_to_dict g)) (execute_provider cp r c ref d))
       | None \<Rightarrow> request_operator_approval cp r c ref d)))
      (\<lambda>_. at_phase tr {Closed}) (sound_phase tr)"
    by (rule triple_bind [OF verify_signed_phase], intro triple_if)
      (auto intro: lookup execute_provider_phase)
  with handle_act_phase show ?thesis
    unfolding handle_approval_def by (auto split: auth_channel.split option.split)
qed

lemma handle_phase:
  "triple (at_phase tr {Opened}) (handle cp r) (\<lambda>_. at_phase tr {Closed}) (sound_phase tr)"
proof -
  have deny: "triple (at_phase tr {Decided}) (deny cp r ref d) (\<lambda>_. at_phase tr {Closed}) (sound_phase tr)" for ref d
    unfolding deny_def by (rule result_phase) (auto simp: phase_eval)
  have throw: "triple (at_phase tr {Decided}) (throw e m) (\<lambda>_. at_phase tr {Closed}) (sound_phase tr)" for e m
    by (rule triple_throw) (auto elim: sound_phaseI)
  have "triple (at_phase tr {Opened}) (announce cp r c ref d) (\<lambda>_. at_phase tr {Decided}) (sound_phase tr)" for c ref d
    unfolding announce_def
    by (rule emit_then [where qs = "{Received}"], simp, simp add: phase_eval,
        rule emit_then [where qs = "{Resolved}"], simp, simp add: phase_eval, rule emit_phase)
      (auto simp: phase_eval)
  then show ?thesis
    unfolding handle_def Let_def
    by (rule triple_seq)
      (intro triple_if triple_option deny throw handle_approval_phase execute_provider_phase, simp)
qed

text \<open>What the automaton says of a single trace.\<close>

lemma phase_broken [simp]: "next_phase Broken m = Broken"
  by (simp add: phase_eval)

lemma phase_of_append_broken: "phase_of es = Broken \<Longrightarrow> phase_of (es @ fs) = Broken"
  by (induction fs rule: rev_induct) (simp_all flip: append_assoc)

lemma next_executed: "next_phase p Exec \<noteq> Broken \<Longrightarrow> p = Starting"
  by (cases p) (simp_all add: phase_eval)

lemma next_starting: "next_phase p m = Starting \<Longrightarrow> m = Ev PROVIDER_EXECUTION_STARTED"
  by (cases p; cases m) (auto simp: phase_eval split: if_splits)

lemma execution_preceded:
  assumes "phase_of (pre @ ExecE q # post) \<noteq> Broken"
  shows "\<exists>pre' e. pre = pre' @ [EmitE e] \<and> ev_type e = PROVIDER_EXECUTION_STARTED"
proof -
  have "phase_of ((pre @ [ExecE q]) @ post) \<noteq> Broken" using assms by simp
  then have "phase_of (pre @ [ExecE q]) \<noteq> Broken" using phase_of_append_broken by blast
  then have "phase_of pre = Starting" using next_executed by simp
  then show ?thesis
  proof (cases pre rule: rev_cases)
    case (snoc pre' x)
    then have "mark_of x = Ev PROVIDER_EXECUTION_STARTED" using \<open>phase_of pre = Starting\<close> next_starting by simp
    then show ?thesis using snoc by (cases x) auto
  qed simp
qed

end
