(* ===== verification/EngineAuthority.thy ===== *)
theory EngineAuthority
  imports EngineFacts
begin

text \<open>
  Every execution of \<open>ControlPlane.handle\<close> is authorised: what each way to the provider establishes
  before it, what consumed approvals rule out afterwards, and what no step ever undoes.
\<close>

section \<open>Steps that execute nothing\<close>

fun execution :: "effect \<Rightarrow> provider_request option" where
  "execution (ExecE q) = Some q"
| "execution e = None"

definition executions :: "('a, 'p, 'c) world \<Rightarrow> provider_request list" where
  "executions w = List.map_filter execution (w_trace w)"

lemma executions_frame:
  "frame w w' es \<Longrightarrow> executions w' = executions w @ List.map_filter execution es"
  by (simp add: frame_def executions_def map_filter_def)

lemma executions_update [simp]:
  "executions (w\<lparr>w_consumed := c\<rparr>) = executions w" "executions (w\<lparr>w_store := st\<rparr>) = executions w"
  "executions (w\<lparr>w_ticks := n\<rparr>) = executions w"
  by (simp_all add: executions_def)

text \<open>No execution, and the approval state is untouched.\<close>

definition quiet :: "('a, 'p, 'c) world \<Rightarrow> ('a, 'p, 'c) world \<Rightarrow> bool" where
  "quiet w w' \<longleftrightarrow> executions w' = executions w \<and> w_store w' = w_store w \<and> w_consumed w' = w_consumed w \<and>
     w_ticks w \<le> w_ticks w'"

interpretation quiet: step_relation quiet
  by unfold_locales (auto simp: quiet_def)

lemma frame_quiet: "frame w w' es \<Longrightarrow> List.map_filter execution es = [] \<Longrightarrow> quiet w w'"
  by (auto simp: quiet_def executions_frame) (simp_all add: frame_def)

lemma tick_quiet: "keeps quiet (tick f)"
  by (auto simp: keeps_def tick_def quiet_def executions_def)

lemma emit_quiet: "keeps quiet (emit cp r ref d t ap pv rp sp)"
  unfolding keeps_def by (intro allI impI, elim emit_frame; drule frame_quiet; simp add: map_filter_def)

lemma client_quiet: "keeps quiet (client_request call q t)"
  unfolding keeps_def by (intro allI impI, drule client_request_trace, drule frame_quiet; simp add: map_filter_def)

lemmas quiet_steps = tick_quiet emit_quiet client_quiet quiet.keeps_rules

lemma result_quiet: "keeps quiet (emit_result_returned cp r ref d st)"
  and approval_quiet: "keeps quiet (emit_approval cp r ref d t p)"
  by (simp_all add: emit_result_returned_def emit_approval_def emit_quiet)

lemma announce_quiet: "keeps quiet (announce cp r c ref d)"
  and deny_quiet: "keeps quiet (deny cp r ref d)"
  and rejected_quiet: "keeps quiet (rejected_grant cp r ref d p)"
  and clearance_denied_quiet: "keeps quiet (clearance_denied cp r ref d q resp m)"
  and request_id_quiet: "keeps quiet (clearance_request_id cp r)"
  and request_operator_quiet: "keeps quiet (request_operator_approval cp r cap ref d)"
  unfolding announce_def deny_def rejected_grant_def clearance_denied_def clearance_request_id_def
    request_operator_approval_def
  by (intro quiet_steps result_quiet approval_quiet)+

lemma matching_quiet: "keeps quiet (matching_approval_grant cp r)"
  unfolding matching_approval_grant_def
  by (intro quiet_steps) (auto split: option.split intro!: quiet_steps)

text \<open>The clearance client is not contacted.\<close>

definition same_client :: "('a, 'p, 'c) world \<Rightarrow> ('a, 'p, 'c) world \<Rightarrow> bool" where
  "same_client w w' \<longleftrightarrow> w_client w' = w_client w"

interpretation same_client: step_relation same_client
  by unfold_locales (auto simp: same_client_def)

lemma tick_same_client: "keeps same_client (tick f)"
  by (auto simp: keeps_def tick_def same_client_def)

lemma sink_emit_same_client: "keeps same_client (sink_emit cp e)"
  by (auto simp: keeps_def sink_emit_def same_client_def split: sum.splits)

lemma emit_same_client: "keeps same_client (emit cp r ref d t ap pv rp sp)"
  unfolding emit_def by (intro tick_same_client sink_emit_same_client same_client.keeps_rules)

lemmas same_client_steps = tick_same_client emit_same_client same_client.keeps_rules

lemma opening_same_client:
  "keeps same_client (announce cp r c ref d)" "keeps same_client (clearance_request_id cp r)"
  "keeps same_client (emit_approval cp r ref d t p)"
  unfolding announce_def clearance_request_id_def emit_approval_def by (intro same_client_steps)+

lemma execute_provider_executes:
  assumes "execute_provider cp r c ref d w = (x, w')"
  shows "w_store w' = w_store w \<and> w_consumed w' = w_consumed w \<and> w_ticks w \<le> w_ticks w' \<and>
    (executions w' = executions w \<or> executions w' = executions w @ [provider_request_for r c])"
proof -
  let ?q = "provider_request_for r c"
  have exec: "provider_execute cp ?q v = (y, v') \<Longrightarrow> w_store v' = w_store v \<and> w_consumed v' = w_consumed v \<and>
      w_ticks v \<le> w_ticks v' \<and>
      executions v' = executions v @ [?q]" for v y v'
    using provider_execute_trace [of cp ?q v y v']
    by (auto simp: executions_frame map_filter_def) (simp_all add: frame_def)
  have em: "emit cp r ref d t ap pv rp sp v = (y, v') \<Longrightarrow> quiet v v'" for t ap pv rp sp v y v'
    by (rule keepsD [OF emit_quiet])
  have fin: "emit_result_returned cp r ref d st v = (y, v') \<Longrightarrow> quiet v v'" for st v y v'
    by (rule keepsD [OF result_quiet])
  show ?thesis
    using assms unfolding execute_provider_def Let_def
    by (auto elim!: seq_opE bind_opE dest!: em exec fin simp: quiet_def)
qed

section \<open>What authorises an execution\<close>

definition query_for :: "('a, 'p, 'c) plane \<Rightarrow> capability_request \<Rightarrow> datetime \<Rightarrow> action_query" where
  "query_for cp r now =
     \<lparr>q_capability_id = rq_capability_id r, q_session_id = rq_session_id r, q_target_id = rq_target_id r,
      q_provider_id = ad_provider_id (pl_provider cp),
      q_params_fingerprint = action_fingerprint (pl_sha256 cp) (rq_parameters r), q_now = now\<rparr>"

text \<open>A time that the clock of the control plane shows from \<open>w\<close> on.\<close>

definition reads :: "('a, 'p, 'c) plane \<Rightarrow> ('a, 'p, 'c) world \<Rightarrow> datetime \<Rightarrow> bool" where
  "reads cp w now \<longleftrightarrow> (\<exists>n \<ge> w_ticks w. now = pl_now cp n)"

lemma reads_now [simp]: "reads cp w (pl_now cp (w_ticks w))"
  by (auto simp: reads_def)

lemma reads_later: "reads cp w1 now \<Longrightarrow> w_ticks w \<le> w_ticks w1 \<Longrightarrow> reads cp w now"
  unfolding reads_def by (elim exE conjE) (intro exI conjI, rule order_trans, assumption+)

text \<open>A signed grant that the verifier finds valid for exactly this request, not yet consumed.\<close>

definition signed_authority ::
    "('a, 'p, 'c) plane \<Rightarrow> capability_request \<Rightarrow> capability_ref \<Rightarrow> ('a, 'p, 'c) world \<Rightarrow> bool" where
  "signed_authority cp r ref w \<longleftrightarrow>
     (\<exists>verifier g request_id now context v.
        pl_grant_verifier cp = Some verifier \<and> rq_signed_grant r = Some g \<and>
        rq_approval_request_id r = Some request_id \<and> gp_grant_id (sgn_payload g) \<notin> set (w_consumed w) \<and> reads cp w now \<and>
        context_from_parameters (pl_sha256 cp) request_id (rq_session_id r) (rq_target_id r)
          (ad_provider_id (pl_provider cp)) (rq_capability_id r) (rq_parameters r) (ref_family ref) now = Inr context \<and>
        verifier (Some g) context = Inr v \<and> vr_valid v)"

text \<open>A grant of the approval store that matches the action and is not spent.\<close>

definition stored_authority ::
    "('a, 'p, 'c) plane \<Rightarrow> capability_request \<Rightarrow> ('a, 'p, 'c) world \<Rightarrow> bool" where
  "stored_authority cp r w \<longleftrightarrow>
     (\<exists>store g now. w_store w = Some store \<and> reads cp w now \<and> find_action_grant store (query_for cp r now) = Inr (Some g))"

text \<open>A tower response that clears the request built from exactly this action, and verifies.\<close>

definition tower_authority ::
    "('a, 'p, 'c) plane \<Rightarrow> capability_request \<Rightarrow> capability \<Rightarrow> policy_result \<Rightarrow> ('a, 'p, 'c) world \<Rightarrow>
     bool" where
  "tower_authority cp r c d w \<longleftrightarrow>
     (\<exists>call check q resp v now request_id s.
        pl_client cp = Some call \<and> pl_clearance_verifier cp = Some check \<and>
        build_clearance_request (pl_sha256 cp) (rq_session_id r) (rq_target_id r)
          (ad_provider_id (pl_provider cp)) (rq_capability_id r) (rq_parameters r)
          (clearance_risk_family_for_capability (Some c)) (pr_reason d) (pr_material_risks d)
          (rq_intended_effect r) (actor_id (rq_requester r)) (rq_correlation_id r)
          [(''decision'', PStr (decision_value (pr_decision d)))] now (pl_timeout cp) request_id
          (pl_act_parity cp) = Inr q \<and> reads cp w now \<and>
        call q (pl_timeout cp) (w_client w) = (Inr resp, s) \<and> cp_status resp = CLEARED \<and>
        check q resp now = Inr v \<and> cv_valid v)"

definition tower_channel :: "('a, 'p, 'c) plane \<Rightarrow> bool" where
  "tower_channel cp \<longleftrightarrow> sel_channel (pl_channel cp) = MOBILE_SIGNED \<and> pl_client cp \<noteq> None"

definition approved ::
    "('a, 'p, 'c) plane \<Rightarrow> capability_request \<Rightarrow> capability \<Rightarrow> policy_result \<Rightarrow> ('a, 'p, 'c) world \<Rightarrow> bool" where
  "approved cp r c d w \<longleftrightarrow>
     (if tower_channel cp then tower_authority cp r c d w
      else signed_authority cp r (ref_of_capability c) w \<or> stored_authority cp r w)"

definition permitted :: "('a, 'p, 'c) plane \<Rightarrow> capability_request \<Rightarrow> capability \<Rightarrow> ('a, 'p, 'c) world \<Rightarrow> bool" where
  "permitted cp r c w \<longleftrightarrow>
     registry_get (pl_registry cp) (rq_capability_id r) = Some c \<and> pr_decision (plane_decision cp r) \<noteq> DENY \<and>
     (ad_is_real_hardware (pl_provider cp) \<longrightarrow> ts_allow_real_hardware (pol_target_scope (pl_policy cp))) \<and>
     (requires_approval (plane_decision cp r) \<longrightarrow> approved cp r c (plane_decision cp r) w)"

text \<open>What is known after the signed grant was looked at, and how the consumed ids grow.\<close>

lemma rejected_not_true: "rejected_grant cp r ref d p w = (x, w') \<Longrightarrow> x \<noteq> Inr True"
  by (auto simp: rejected_grant_def elim!: seq_opE)

lemma apply_verification_facts:
  assumes "apply_verification cp r ref d g v w = (x, w')"
  shows "executions w' = executions w \<and> w_store w' = w_store w \<and> w_ticks w \<le> w_ticks w' \<and>
    (x = Inr True \<longrightarrow> vr_valid v \<and> (gp_one_time (sgn_payload g) \<longrightarrow>
       gp_grant_id (sgn_payload g) \<in> set (w_consumed w'))) \<and>
    set (w_consumed w) \<subseteq> set (w_consumed w')"
proof -
  have em: "emit_approval cp r ref d t p u = (y, u') \<Longrightarrow> quiet u u'" for t p u y u'
    by (rule keepsD [OF approval_quiet])
  show ?thesis
    using assms unfolding apply_verification_def
    by (cases "vr_valid v"; cases "gp_one_time (sgn_payload g)")
      (auto elim!: seq_opE dest!: em simp: quiet_def)
qed

lemma verify_signed_cases:
  assumes "verify_signed_approval_grant cp r ref d w = (x, w')"
  obtains (no_authority) "quiet w w'" "x \<noteq> Inr True"
  | (checked) verifier g rid ctx v w1 where
      "pl_grant_verifier cp = Some verifier" "rq_signed_grant r = Some g" "rq_approval_request_id r = Some rid"
      "gp_grant_id (sgn_payload g) \<notin> set (w_consumed w)"
      "context_from_parameters (pl_sha256 cp) rid (rq_session_id r) (rq_target_id r)
          (ad_provider_id (pl_provider cp)) (rq_capability_id r) (rq_parameters r) (ref_family ref)
          (pl_now cp (w_ticks w)) = Inr ctx"
      "verifier (Some g) ctx = Inr v" "quiet w w1" "apply_verification cp r ref d g v w1 = (x, w')"
proof -
  have "quiet w (w\<lparr>w_ticks := Suc (w_ticks w)\<rparr>)" by (simp add: quiet_def executions_def)
  moreover have rej: "rejected_grant cp r ref d p w = (x, w') \<Longrightarrow> quiet w w' \<and> x \<noteq> Inr True" for p
    using keepsD [OF rejected_quiet] rejected_not_true by blast
  ultimately show thesis
    using assms unfolding verify_signed_approval_grant_def Let_def
    by (auto simp: tick_eq bind_op_def quiet.refl split: option.splits if_splits sum.splits
        dest!: rej intro: that)
qed

lemma verify_signed_facts:
  assumes "verify_signed_approval_grant cp r ref d w = (x, w')"
  shows "executions w' = executions w" "w_store w' = w_store w" "set (w_consumed w) \<subseteq> set (w_consumed w')"
    "w_ticks w \<le> w_ticks w'" "x = Inr True \<Longrightarrow> signed_authority cp r ref w \<and>
       (\<exists>g. rq_signed_grant r = Some g \<and> (gp_one_time (sgn_payload g) \<longrightarrow>
          gp_grant_id (sgn_payload g) \<in> set (w_consumed w')))"
proof -
  have "executions w' = executions w \<and> w_store w' = w_store w \<and> set (w_consumed w) \<subseteq> set (w_consumed w') \<and>
    w_ticks w \<le> w_ticks w' \<and> (x = Inr True \<longrightarrow> signed_authority cp r ref w \<and>
       (\<exists>g. rq_signed_grant r = Some g \<and> (gp_one_time (sgn_payload g) \<longrightarrow>
          gp_grant_id (sgn_payload g) \<in> set (w_consumed w'))))"
    using assms
  proof (cases rule: verify_signed_cases)
    case (checked verifier g rid ctx v w1)
    with apply_verification_facts [OF checked(8)] show ?thesis
      unfolding signed_authority_def quiet_def by (fastforce intro: reads_now)
  qed (auto simp: quiet_def)
  then show "executions w' = executions w" "w_store w' = w_store w" "set (w_consumed w) \<subseteq> set (w_consumed w')"
    "w_ticks w \<le> w_ticks w'" "x = Inr True \<Longrightarrow> signed_authority cp r ref w \<and>
       (\<exists>g. rq_signed_grant r = Some g \<and> (gp_one_time (sgn_payload g) \<longrightarrow>
          gp_grant_id (sgn_payload g) \<in> set (w_consumed w')))" by blast+
qed

section \<open>Approvals are spent, and stay spent\<close>

definition spent :: "('a, 'p, 'c) world \<Rightarrow> string set" where
  "spent w = (case w_store w of None \<Rightarrow> {} | Some store \<Rightarrow> set (st_consumed store))"

definition advances :: "('a, 'p, 'c) world \<Rightarrow> ('a, 'p, 'c) world \<Rightarrow> bool" where
  "advances w w' \<longleftrightarrow> set (w_consumed w) \<subseteq> set (w_consumed w') \<and> spent w \<subseteq> spent w' \<and>
     (w_store w' = None \<longleftrightarrow> w_store w = None)"

lemma advances_refl [simp]: "advances w w"
  by (simp add: advances_def)

lemma advances_trans: "advances w w' \<Longrightarrow> advances w' w'' \<Longrightarrow> advances w w''"
  by (auto simp: advances_def)

lemma quiet_advances: "quiet w w' \<Longrightarrow> advances w w'"
  by (simp add: quiet_def advances_def spent_def)

text \<open>The outcome that every part of the path is shown to have: nothing executed, or \<open>q\<close> once, when \<open>P\<close>.\<close>

definition outcome :: "('a, 'p, 'c) world \<Rightarrow> ('a, 'p, 'c) world \<Rightarrow> provider_request \<Rightarrow> bool \<Rightarrow> bool" where
  "outcome w w' q P \<longleftrightarrow> advances w w' \<and>
     (executions w' = executions w \<or> executions w' = executions w @ [q] \<and> P)"

lemma quiet_outcome: "quiet w w' \<Longrightarrow> outcome w w' q P"
  by (simp add: outcome_def quiet_advances) (simp add: quiet_def)

lemma quiet_then: "quiet w w1 \<Longrightarrow> outcome w1 w' q P \<Longrightarrow> outcome w w' q P"
  using quiet_advances advances_trans by (fastforce simp: outcome_def quiet_def)

lemma outcome_weaken: "outcome w w' q P \<Longrightarrow> (P \<Longrightarrow> Q) \<Longrightarrow> outcome w w' q Q"
  by (auto simp: outcome_def)

text \<open>The execution from \<open>w\<close> to \<open>w'\<close> used an approval, which \<open>w'\<close> records if it is for one use.\<close>

definition spends :: "('a, 'p, 'c) plane \<Rightarrow> capability_request \<Rightarrow> capability_ref \<Rightarrow>
    ('a, 'p, 'c) world \<Rightarrow> ('a, 'p, 'c) world \<Rightarrow> bool" where
  "spends cp r ref w w' \<longleftrightarrow>
     signed_authority cp r ref w \<and>
       (\<exists>g. rq_signed_grant r = Some g \<and>
         (gp_one_time (sgn_payload g) \<longrightarrow> gp_grant_id (sgn_payload g) \<in> set (w_consumed w'))) \<or>
     (\<exists>store g now. w_store w = Some store \<and> reads cp w now \<and>
        find_action_grant store (query_for cp r now) = Inr (Some g) \<and>
        (\<not> reusable g \<longrightarrow> ag_response_id g \<in> spent w'))"

lemma signed_earlier: "quiet w w1 \<Longrightarrow> signed_authority cp r ref w1 \<Longrightarrow> signed_authority cp r ref w"
  unfolding signed_authority_def quiet_def using reads_later [of cp w1 _ w] by metis

lemma spends_earlier:
  assumes "quiet w w1" "spends cp r ref w1 w'"
  shows "spends cp r ref w w'"
  using assms(2) signed_earlier [OF assms(1), of cp r ref] reads_later [of cp w1 _ w] assms(1)
  unfolding spends_def by (auto simp: quiet_def)

lemma tower_earlier:
  "quiet w w1 \<Longrightarrow> same_client w w1 \<Longrightarrow> tower_authority cp r c d w1 \<Longrightarrow> tower_authority cp r c d w"
  unfolding tower_authority_def quiet_def same_client_def using reads_later [of cp w1 _ w] by metis

lemma consume_grant_facts:
  assumes "consume_grant g w = (x, w')"
  shows "executions w' = executions w" "advances w w'"
    "x = Inr () \<Longrightarrow> \<not> reusable g \<Longrightarrow> ag_response_id g \<in> spent w'"
  using assms
  by (auto simp: consume_grant_def bind_op_def advances_def spent_def approvals.consume_spent split: option.splits)

lemma matching_facts:
  assumes "matching_approval_grant cp r w = (x, w')"
  shows "quiet w w'" "x = Inr (Some g) \<Longrightarrow>
    \<exists>store now. w_store w = Some store \<and> reads cp w now \<and>
      find_action_grant store (query_for cp r now) = Inr (Some g)"
  using keepsD [OF matching_quiet assms] assms
  by (auto simp: matching_approval_grant_def query_for_def tick_eq bind_op_def split: option.splits
      intro!: exI [of _ "pl_now cp (w_ticks w)"])

lemma execute_advances: "execute_provider cp r c ref d w = (x, w') \<Longrightarrow> advances w w' \<and> spent w' = spent w \<and>
    w_consumed w' = w_consumed w"
  by (drule execute_provider_executes) (simp add: advances_def spent_def)

text \<open>The local approval path: signed grant, stored grant, or a request to the operator.\<close>

definition local_approval ::
    "('a, 'p, 'c) plane \<Rightarrow> capability_request \<Rightarrow> capability \<Rightarrow> capability_ref \<Rightarrow> policy_result \<Rightarrow>
     (('a, 'p, 'c) world, plane_result) op" where
  "local_approval cp r c ref d =
     bind_op (verify_signed_approval_grant cp r ref d) (\<lambda>signed.
          if signed then execute_provider cp r c ref d
          else bind_op (matching_approval_grant cp r) (\<lambda>found.
            case found of
              Some g \<Rightarrow>
                seq_op (consume_grant g)
                (seq_op (emit_approval cp r ref d APPROVAL_CONSUMED (action_grant_to_dict g))
                (execute_provider cp r c ref d))
            | None \<Rightarrow> request_operator_approval cp r c ref d))"

lemma handle_approval_split:
  "handle_approval cp r c ref d =
     (if tower_channel cp then handle_act_clearance cp (the (pl_client cp)) r c ref d
      else local_approval cp r c ref d)"
  by (auto simp: handle_approval_def tower_channel_def local_approval_def split: auth_channel.splits option.splits)

lemma use_stored_grant:
  assumes "seq_op (consume_grant g) (seq_op (emit_approval cp r ref d APPROVAL_CONSUMED p)
      (execute_provider cp r c ref d)) w = (x, w')"
  shows "advances w w' \<and> (executions w' = executions w \<or>
    executions w' = executions w @ [provider_request_for r c] \<and> (\<not> reusable g \<longrightarrow> ag_response_id g \<in> spent w'))"
  using assms
proof (cases rule: seq_opE)
  case raised
  with consume_grant_facts show ?thesis by blast
next
  case (went_on w1)
  note c = consume_grant_facts [OF went_on(1)]
  from went_on(2) show ?thesis
  proof (cases rule: seq_opE)
    case raised
    then have "quiet w1 w'" by (auto dest: keepsD [OF approval_quiet])
    with c quiet_advances [OF this] show ?thesis by (auto simp: quiet_def intro: advances_trans)
  next
    case (went_on w2)
    then have "quiet w1 w2" by (auto dest: keepsD [OF approval_quiet])
    with c quiet_advances [OF this] execute_provider_executes [OF went_on(2)] execute_advances [OF went_on(2)]
    show ?thesis by (auto simp: quiet_def advances_def spent_def)
  qed
qed

lemma local_approval_facts:
  assumes "local_approval cp r c ref d w = (x, w')"
  shows "advances w w' \<and> (executions w' = executions w \<or>
    executions w' = executions w @ [provider_request_for r c] \<and> spends cp r ref w w')"
  using assms unfolding local_approval_def
proof (cases rule: bind_opE)
  case raised
  with verify_signed_facts [OF raised(1)] show ?thesis by (auto simp: advances_def spent_def)
next
  case (went_on signed w1)
  note v = verify_signed_facts [OF went_on(1)]
  have adv: "advances w w1" using v by (simp add: advances_def spent_def)
  show ?thesis
  proof (cases signed)
    case True
    then have e: "execute_provider cp r c ref d w1 = (x, w')" using went_on(2) by simp
    with execute_provider_executes [OF e] execute_advances [OF e] v adv True show ?thesis
      by (auto simp: spends_def intro: advances_trans)
  next
    case False
    then have "bind_op (matching_approval_grant cp r) (\<lambda>found. case found of
              Some g \<Rightarrow> seq_op (consume_grant g)
                (seq_op (emit_approval cp r ref d APPROVAL_CONSUMED (action_grant_to_dict g))
                (execute_provider cp r c ref d))
            | None \<Rightarrow> request_operator_approval cp r c ref d) w1 = (x, w')" using went_on(2) by simp
    then show ?thesis
    proof (cases rule: bind_opE)
      case raised
      with matching_facts(1) have q: "quiet w1 w'" by blast
      with adv quiet_advances [OF q] v show ?thesis by (auto simp: quiet_def intro: advances_trans)
    next
      case (went_on found w2)
      note m = matching_facts [OF went_on(1)]
      have adv2: "advances w w2" "executions w2 = executions w" "w_store w2 = w_store w"
        using adv quiet_advances [OF m(1)] m(1) v by (auto simp: quiet_def intro: advances_trans)
      show ?thesis
      proof (cases found)
        case None
        with went_on(2) have q: "quiet w2 w'" by (auto dest: keepsD [OF request_operator_quiet])
        with adv2 quiet_advances [OF q] show ?thesis by (auto simp: quiet_def intro: advances_trans)
      next
        case (Some g)
        with m(2) v(2,4) obtain store now where "w_store w = Some store" "reads cp w now"
            "find_action_grant store (query_for cp r now) = Inr (Some g)"
          by (metis went_on(1) matching_facts(2) reads_later)
        then have "\<not> reusable g \<longrightarrow> ag_response_id g \<in> spent w' \<Longrightarrow> spends cp r ref w w'"
          unfolding spends_def by blast
        moreover have "advances w2 w' \<and> (executions w' = executions w2 \<or>
            executions w' = executions w2 @ [provider_request_for r c] \<and> (\<not> reusable g \<longrightarrow> ag_response_id g \<in> spent w'))"
          by (rule use_stored_grant) (use went_on(2) Some in simp)
        ultimately show ?thesis using adv2 by (auto intro: advances_trans)
      qed
    qed
  qed
qed

lemma clearance_answer_facts:
  assumes "clearance_answer cp r c ref d q resp now w = (x, w')"
  shows "advances w w' \<and> (executions w' = executions w \<or>
    executions w' = executions w @ [provider_request_for r c] \<and> cp_status resp = CLEARED \<and>
    (\<exists>check v. pl_clearance_verifier cp = Some check \<and> check q resp now = Inr v \<and> cv_valid v))"
proof -
  have em: "emit_approval cp r ref d t p v = (y, v') \<Longrightarrow> quiet v v'" for t p v y v'
    by (rule keepsD [OF approval_quiet])
  have res: "emit_result_returned cp r ref d st v = (y, v') \<Longrightarrow> quiet v v'" for st v y v'
    by (rule keepsD [OF result_quiet])
  have den: "clearance_denied cp r ref d q resp m v = (y, v') \<Longrightarrow> quiet v v'" for m v y v'
    by (rule keepsD [OF clearance_denied_quiet])
  have ex: "execute_provider cp r c ref d v = (y, v') \<Longrightarrow>
      (executions v' = executions v \<or> executions v' = executions v @ [provider_request_for r c]) \<and>
      w_store v' = w_store v \<and> w_consumed v' = w_consumed v" for v y v'
    by (drule execute_provider_executes) auto
  show ?thesis
    using assms unfolding clearance_answer_def Let_def
    by (auto elim!: seq_opE split: if_splits option.splits sum.splits dest!: em res den ex
        simp: quiet_def advances_def spent_def)
qed

lemma handle_act_facts:
  assumes "handle_act_clearance cp call r c ref d w = (x, w')" "pl_client cp = Some call"
  shows "outcome w w' (provider_request_for r c) (tower_authority cp r c d w)"
  using assms(1) unfolding handle_act_clearance_def
proof (cases rule: bind_opE)
  case raised
  then show ?thesis by (intro quiet_outcome keepsD [OF tick_quiet])
next
  case (went_on now w1)
  note tick = went_on(1)
  have q1: "quiet w w1" by (rule keepsD [OF tick_quiet tick])
  from went_on(2) show ?thesis
  proof (cases rule: bind_opE)
    case raised
    from q1 show ?thesis by (rule quiet_then) (rule quiet_outcome [OF keepsD [OF request_id_quiet raised(1)]])
  next
    case (went_on rid w2)
    note rid = went_on(1)
    have q2: "quiet w w2" by (rule quiet.trans [OF q1 keepsD [OF request_id_quiet went_on(1)]])
    let ?b = "build_clearance_request (pl_sha256 cp) (rq_session_id r) (rq_target_id r)
        (ad_provider_id (pl_provider cp)) (rq_capability_id r) (rq_parameters r)
        (clearance_risk_family_for_capability (Some c)) (pr_reason d) (pr_material_risks d)
        (rq_intended_effect r) (actor_id (rq_requester r)) (rq_correlation_id r)
        [(''decision'', PStr (decision_value (pr_decision d)))] now (pl_timeout cp) rid
        (pl_act_parity cp)"
    show ?thesis
    proof (cases ?b)
      case (Inl e)
      with went_on(2) q2 show ?thesis by (auto intro: quiet_outcome)
    next
      case (Inr q)
      from went_on(2) show ?thesis unfolding Inr bind_op_lift sum.case
      proof (cases rule: seq_opE)
        case raised
        from q2 show ?thesis by (rule quiet_then) (rule quiet_outcome [OF keepsD [OF approval_quiet raised(1)]])
      next
        case (went_on w3)
        note asked = went_on(1)
        have q3: "quiet w w3" by (rule quiet.trans [OF q2 keepsD [OF approval_quiet went_on(1)]])
        from went_on(2) show ?thesis
        proof (cases rule: bind_opE)
          case raised
          from q3 show ?thesis by (rule quiet_then) (rule quiet_outcome [OF keepsD [OF client_quiet raised(1)]])
        next
          case (went_on resp w4)
          have q4: "quiet w w4" by (rule quiet.trans [OF q3 keepsD [OF client_quiet went_on(1)]])
          have "w_client w3 = w_client w" "reads cp w now"
            using keepsD [OF tick_same_client tick] keepsD [OF opening_same_client(2) rid]
              keepsD [OF opening_same_client(3) asked] tick by (auto simp: same_client_def tick_eq)
          moreover from this(1) obtain s where "call q (pl_timeout cp) (w_client w) = (Inr resp, s)"
            using went_on(1) by (auto simp: client_request_def split: prod.splits)
          ultimately have "outcome w4 w' (provider_request_for r c) (tower_authority cp r c d w)"
            using clearance_answer_facts [OF went_on(2)] assms(2) Inr
            unfolding outcome_def tower_authority_def by blast
          with q4 show ?thesis by (rule quiet_then)
        qed
      qed
    qed
  qed
qed

lemma handle_approval_facts:
  assumes "handle_approval cp r c ref d w = (x, w')"
  shows "outcome w w' (provider_request_for r c)
    (if tower_channel cp then tower_authority cp r c d w else spends cp r ref w w')"
proof (cases "tower_channel cp")
  case True
  then obtain call where "pl_client cp = Some call" by (auto simp: tower_channel_def)
  with assms True handle_act_facts [of cp call] show ?thesis by (simp add: handle_approval_split)
next
  case False
  with assms local_approval_facts [of cp r c ref d w x w'] show ?thesis
    by (simp add: handle_approval_split outcome_def)
qed

section \<open>Handling a request\<close>

abbreviation ref_for :: "('a, 'p, 'c) plane \<Rightarrow> capability_request \<Rightarrow> capability_ref" where
  "ref_for cp r \<equiv> plane_capability_ref (rq_capability_id r) (registry_get (pl_registry cp) (rq_capability_id r))"

lemma decision_known:
  "pr_decision (plane_decision cp r) \<noteq> DENY \<Longrightarrow> \<exists>c. registry_get (pl_registry cp) (rq_capability_id r) = Some c"
  unfolding plane_decision_def by (cases "registry_get (pl_registry cp) (rq_capability_id r)") (auto simp: decision_for_def)

definition hardware_in_scope :: "('a, 'p, 'c) plane \<Rightarrow> bool" where
  "hardware_in_scope cp \<longleftrightarrow>
     (ad_is_real_hardware (pl_provider cp) \<longrightarrow> ts_allow_real_hardware (pol_target_scope (pl_policy cp)))"

lemma handle_facts:
  assumes "handle cp r w = (x, w')"
  shows "quiet w w' \<or>
    (\<exists>c. registry_get (pl_registry cp) (rq_capability_id r) = Some c \<and>
      outcome w w' (provider_request_for r c)
        (pr_decision (plane_decision cp r) \<noteq> DENY \<and> hardware_in_scope cp \<and>
         (requires_approval (plane_decision cp r) \<longrightarrow>
           (if tower_channel cp then tower_authority cp r c (plane_decision cp r) w
            else spends cp r (ref_for cp r) w w'))))"
  using assms unfolding handle_def Let_def
proof (cases rule: seq_opE)
  case raised
  then show ?thesis using keepsD [OF announce_quiet] by blast
next
  case (went_on w1)
  let ?d = "plane_decision cp r"
  have q: "quiet w w1" by (rule keepsD [OF announce_quiet went_on(1)])
  have sp: "spends cp r ref w1 w' \<Longrightarrow> spends cp r ref w w'" for ref using q by (rule spends_earlier)
  have tw: "tower_authority cp r c ?d w1 \<Longrightarrow> tower_authority cp r c ?d w" for c
    using q keepsD [OF opening_same_client(1) went_on(1)] by (rule tower_earlier)
  have den: "deny cp r ref d w1 = (x, w') \<Longrightarrow> quiet w w'" for ref d
    by (rule quiet.trans [OF q keepsD [OF deny_quiet]])
  show ?thesis
  proof (cases "pr_decision ?d = DENY \<or> \<not> hardware_in_scope cp")
    case True
    with went_on(2) den show ?thesis by (auto simp: hardware_in_scope_def split: if_splits)
  next
    case False
    then obtain c where c: "registry_get (pl_registry cp) (rq_capability_id r) = Some c"
      using decision_known by blast
    have "outcome w1 w' (provider_request_for r c) (requires_approval ?d \<longrightarrow>
           (if tower_channel cp then tower_authority cp r c ?d w else spends cp r (ref_for cp r) w w'))"
    proof (cases "requires_approval ?d")
      case True
      then have "handle_approval cp r c (ref_for cp r) ?d w1 = (x, w')"
        using went_on(2) False c by (auto simp: hardware_in_scope_def)
      from handle_approval_facts [OF this] show ?thesis by (rule outcome_weaken) (auto intro: sp tw split: if_splits)
    next
      case no: False
      then have e: "execute_provider cp r c (ref_for cp r) ?d w1 = (x, w')"
        using went_on(2) False c by (auto simp: hardware_in_scope_def)
      from execute_provider_executes [OF e] execute_advances [OF e] no show ?thesis
        by (simp add: outcome_def)
    qed
    with q have "outcome w w' (provider_request_for r c) (requires_approval ?d \<longrightarrow>
           (if tower_channel cp then tower_authority cp r c ?d w else spends cp r (ref_for cp r) w w'))"
      by (rule quiet_then)
    then show ?thesis using False c by (auto elim: outcome_weaken)
  qed
qed

lemma spends_authority:
  "spends cp r ref w w' \<Longrightarrow> signed_authority cp r ref w \<or> stored_authority cp r w"
  by (auto simp: spends_def stored_authority_def)

lemma plane_ref_known [simp]: "plane_capability_ref i (Some c) = ref_of_capability c"
  by (simp add: plane_capability_ref_def)

lemma handle_permitted:
  assumes "handle cp r w = (x, w')"
  shows "executions w' = executions w \<or>
    (\<exists>c. executions w' = executions w @ [provider_request_for r c] \<and> permitted cp r c w)"
proof -
  have "approved cp r c d w" if "registry_get (pl_registry cp) (rq_capability_id r) = Some c"
      "if tower_channel cp then tower_authority cp r c d w else spends cp r (ref_for cp r) w w'" for c d
    using that spends_authority [of cp r "ref_of_capability c" w w'] by (auto simp: approved_def split: if_splits)
  with handle_facts [OF assms] show ?thesis
    unfolding permitted_def outcome_def quiet_def hardware_in_scope_def by blast
qed

lemma handle_advances: "handle cp r w = (x, w') \<Longrightarrow> advances w w'"
  using handle_facts quiet_advances unfolding outcome_def by blast

lemma run_advances: "advances w (run_requests cp rs w)"
proof (induction rs arbitrary: w)
  case (Cons r rs)
  obtain x w1 where "handle cp r w = (x, w1)" by (cases "handle cp r w")
  with handle_advances [OF this] Cons show ?case by (auto intro: advances_trans)
qed simp

text \<open>Each request of a run executes at most once, and only as \<open>permitted\<close>.\<close>

lemma run_executions:
  "\<exists>qs. executions (run_requests cp rs w) = executions w @ qs \<and> length qs \<le> length rs \<and>
     (\<forall>q \<in> set qs. \<exists>r \<in> set rs. \<exists>c v. q = provider_request_for r c \<and> permitted cp r c v)"
proof (induction rs arbitrary: w)
  case (Cons r rs)
  obtain x w1 where h: "handle cp r w = (x, w1)" by (cases "handle cp r w")
  from Cons obtain qs where qs: "executions (run_requests cp rs w1) = executions w1 @ qs" "length qs \<le> length rs"
    "\<forall>q \<in> set qs. \<exists>r \<in> set rs. \<exists>c v. q = provider_request_for r c \<and> permitted cp r c v" by blast
  from handle_permitted [OF h] show ?case
  proof
    assume "executions w1 = executions w"
    with qs h show ?thesis by (intro exI [of _ qs]) auto
  next
    assume "\<exists>c. executions w1 = executions w @ [provider_request_for r c] \<and> permitted cp r c w"
    then obtain c where "executions w1 = executions w @ [provider_request_for r c]" "permitted cp r c w" by blast
    with qs h show ?thesis by (intro exI [of _ "provider_request_for r c # qs"]) auto
  qed
qed simp

end
