(* ===== verification/EngineAudit.thy ===== *)
theory EngineAudit
  imports EngineAuthority
begin

text \<open>
  The audit sink and the tower as \<open>ControlPlane.handle\<close> uses them: the events of the trace are
  exactly what the sink received, so a sink keeps its invariant through every request and a sink
  that refuses stops the execution; and the local channel never contacts the tower.
\<close>

section \<open>The sink receives the events of the trace\<close>

fun emitted_event :: "effect \<Rightarrow> audit_event option" where
  "emitted_event (EmitE e) = Some e"
| "emitted_event e = None"

definition emitted :: "effect list \<Rightarrow> audit_event list" where
  "emitted es = List.map_filter emitted_event es"

definition delivers ::
    "('a, 'p, 'c) plane \<Rightarrow> ('a, 'p, 'c) world \<Rightarrow> ('a, 'p, 'c) world \<Rightarrow> bool" where
  "delivers cp w w' \<longleftrightarrow> (\<exists>es. w_trace w' = w_trace w @ es \<and>
     emit_all (pl_emit cp) (emitted es) (w_sink w) = Inr (w_sink w'))"

lemma emitted_simps [simp]:
  "emitted [] = []" "emitted (e # es) = (case emitted_event e of None \<Rightarrow> emitted es | Some x \<Rightarrow> x # emitted es)"
  "emitted (es @ fs) = emitted es @ emitted fs"
  by (auto simp: emitted_def map_filter_def split: option.splits)

lemma emit_all_append:
  "emit_all f (xs @ ys) s = bind_res (emit_all f xs s) (emit_all f ys)"
proof (induction xs arbitrary: s)
  case (Cons x xs)
  then show ?case by (cases "f x s") auto
qed simp

lemma delivers_step: "step_relation (delivers cp)"
proof
  show "delivers cp s s" for s by (auto simp: delivers_def intro: exI [of _ "[]"])
next
  fix s t u :: "('a, 'b, 'c) world"
  assume "delivers cp s t" "delivers cp t u"
  then obtain es fs where "w_trace t = w_trace s @ es" "emit_all (pl_emit cp) (emitted es) (w_sink s) = Inr (w_sink t)"
    "w_trace u = w_trace t @ fs" "emit_all (pl_emit cp) (emitted fs) (w_sink t) = Inr (w_sink u)"
    by (auto simp: delivers_def)
  then show "delivers cp s u"
    unfolding delivers_def by (intro exI [of _ "es @ fs"]) (simp add: emit_all_append)
qed

interpretation delivery: step_relation "delivers cp" for cp
  by (rule delivers_step)

lemma delivers_same: "w_trace w' = w_trace w \<Longrightarrow> w_sink w' = w_sink w \<Longrightarrow> delivers cp w w'"
  by (auto simp: delivers_def intro: exI [of _ "[]"])

lemma tick_delivers: "keeps (delivers cp) (tick f)"
  by (auto simp: keeps_def tick_def intro: delivers_same)

lemma sink_emit_delivers: "keeps (delivers cp) (sink_emit cp e)"
  by (auto simp: keeps_def sink_emit_def delivers_def split: sum.splits intro: exI [of _ "[]"] exI [of _ "[EmitE e]"])

lemma provider_delivers: "keeps (delivers cp) (provider_execute cp q)"
  and client_delivers: "keeps (delivers cp) (client_request call cq t)"
  by (auto simp: keeps_def provider_execute_def client_request_def delivers_def split: prod.splits
      intro: exI [of _ "[ExecE q]"] exI [of _ "[ClearE cq]"])

lemma modify_delivers:
  "(\<And>w. w_trace (f w) = w_trace w \<and> w_sink (f w) = w_sink w) \<Longrightarrow> keeps (delivers cp) (modify_op f)"
  by (auto simp: keeps_def intro: delivers_same)

lemma emit_delivers: "keeps (delivers cp) (emit cp r ref d t ap pv rp sp)"
  unfolding emit_def by (intro delivery.keeps_rules tick_delivers sink_emit_delivers)

lemmas delivers_steps = delivery.keeps_rules tick_delivers emit_delivers provider_delivers client_delivers

lemma emits_deliver:
  "keeps (delivers cp) (emit_result_returned cp r ref d st)" "keeps (delivers cp) (emit_approval cp r ref d t p)"
  by (simp_all add: emit_result_returned_def emit_approval_def emit_delivers)

lemma execute_delivers: "keeps (delivers cp) (execute_provider cp r c ref d)"
  unfolding execute_provider_def Let_def by (intro delivers_steps emits_deliver)

lemma apply_verification_delivers: "keeps (delivers cp) (apply_verification cp r ref d g v)"
  unfolding apply_verification_def by (intro delivers_steps emits_deliver modify_delivers) simp_all

lemma rejected_delivers: "keeps (delivers cp) (rejected_grant cp r ref d p)"
  unfolding rejected_grant_def by (intro delivers_steps emits_deliver)

lemma verify_signed_delivers: "keeps (delivers cp) (verify_signed_approval_grant cp r ref d)"
  unfolding verify_signed_approval_grant_def Let_def
  by (auto split: option.split intro!: delivers_steps rejected_delivers apply_verification_delivers)

lemma request_operator_delivers: "keeps (delivers cp) (request_operator_approval cp r c ref d)"
  unfolding request_operator_approval_def by (intro delivers_steps emits_deliver)

lemma consume_delivers: "keeps (delivers cp) (consume_grant g)"
  unfolding consume_grant_def by (auto split: option.split intro!: delivers_steps modify_delivers)

lemma matching_delivers: "keeps (delivers cp) (matching_approval_grant cp r)"
  unfolding matching_approval_grant_def by (auto split: option.split intro!: delivers_steps)

lemma clearance_delivers: "keeps (delivers cp) (handle_act_clearance cp call r c ref d)"
  unfolding handle_act_clearance_def clearance_request_id_def clearance_answer_def clearance_denied_def Let_def
  by (intro delivers_steps emits_deliver execute_delivers)
    (auto split: option.split intro!: delivers_steps emits_deliver execute_delivers)

lemma handle_approval_delivers: "keeps (delivers cp) (handle_approval cp r c ref d)"
proof -
  have "keeps (delivers cp) (local_approval cp r c ref d)"
    unfolding local_approval_def
    by (intro delivers_steps verify_signed_delivers execute_delivers matching_delivers)
      (auto split: option.split intro!: delivers_steps emits_deliver consume_delivers execute_delivers
        request_operator_delivers)
  then show ?thesis by (simp add: handle_approval_split clearance_delivers)
qed

lemma handle_delivers: "keeps (delivers cp) (handle cp r)"
  unfolding handle_def Let_def announce_def deny_def
  by (intro delivers_steps emits_deliver)
    (auto split: option.split intro!: delivers_steps handle_approval_delivers execute_delivers)

lemma emit_all_accepts:
  "emit_all f es s = Inr s' \<Longrightarrow> e \<in> set es \<Longrightarrow> \<exists>t t'. f e t = Inr t'"
  by (induction es arbitrary: s) (auto simp: bind_res_Inr_iff)

lemma emitted_mem: "EmitE e \<in> set es \<Longrightarrow> e \<in> set (emitted es)"
  by (induction es) (auto split: option.splits)

section \<open>The local channel never contacts the tower\<close>

definition asked :: "('a, 'p, 'c) world \<Rightarrow> nat" where
  "asked w = length (filter (\<lambda>e. mark_of e = Clear) (w_trace w))"

definition untold :: "('a, 'p, 'c) world \<Rightarrow> ('a, 'p, 'c) world \<Rightarrow> bool" where
  "untold w w' \<longleftrightarrow> asked w' = asked w \<and> w_client w' = w_client w"

interpretation silence: step_relation untold
  by unfold_locales (auto simp: untold_def)

lemma tick_untold: "keeps untold (tick f)"
  by (auto simp: keeps_def tick_def untold_def asked_def)

lemma sink_emit_untold: "keeps untold (sink_emit cp e)"
  by (auto simp: keeps_def sink_emit_def untold_def asked_def split: sum.splits)

lemma provider_untold: "keeps untold (provider_execute cp q)"
  by (auto simp: keeps_def provider_execute_def untold_def asked_def split: prod.splits)

lemma modify_untold:
  "(\<And>w. w_trace (f w) = w_trace w \<and> w_client (f w) = w_client w) \<Longrightarrow> keeps untold (modify_op f)"
  by (auto simp: keeps_def untold_def asked_def)

lemma emit_untold: "keeps untold (emit cp r ref d t ap pv rp sp)"
  unfolding emit_def by (intro silence.keeps_rules tick_untold sink_emit_untold)

lemmas untold_steps = silence.keeps_rules tick_untold emit_untold provider_untold

lemma emits_untold:
  "keeps untold (emit_result_returned cp r ref d st)" "keeps untold (emit_approval cp r ref d t p)"
  by (simp_all add: emit_result_returned_def emit_approval_def emit_untold)

lemma execute_untold: "keeps untold (execute_provider cp r c ref d)"
  unfolding execute_provider_def Let_def by (intro untold_steps emits_untold)

lemma local_approval_untold: "keeps untold (local_approval cp r c ref d)"
proof -
  have rej: "keeps untold (rejected_grant cp r ref d p)" for p
    unfolding rejected_grant_def by (intro untold_steps emits_untold)
  have ap: "keeps untold (apply_verification cp r ref d g v)" for g v
    unfolding apply_verification_def by (intro untold_steps emits_untold modify_untold) simp_all
  have ver: "keeps untold (verify_signed_approval_grant cp r ref d)"
    unfolding verify_signed_approval_grant_def Let_def
    by (auto split: option.split intro!: untold_steps rej ap)
  have con: "keeps untold (consume_grant g)" for g
    unfolding consume_grant_def by (auto split: option.split intro!: untold_steps modify_untold)
  have mat: "keeps untold (matching_approval_grant cp r)"
    unfolding matching_approval_grant_def by (auto split: option.split intro!: untold_steps)
  have ask: "keeps untold (request_operator_approval cp r c ref d)"
    unfolding request_operator_approval_def by (intro untold_steps emits_untold)
  show ?thesis
    unfolding local_approval_def
    by (intro untold_steps ver execute_untold mat)
      (auto split: option.split intro!: untold_steps emits_untold con execute_untold ask)
qed

lemma handle_untold: "\<not> tower_channel cp \<Longrightarrow> keeps untold (handle cp r)"
  unfolding handle_def Let_def announce_def deny_def handle_approval_split
  by (intro untold_steps emits_untold)
    (auto split: option.split intro!: untold_steps local_approval_untold execute_untold)

end
