(* ===== verification/GrantFacts.thy ===== *)
theory GrantFacts
  imports Grants
begin

text \<open>
  What a valid verification of a signed grant establishes, which signers the trust registry hands
  to the verifier, and what a cached grant is worth: the file is only a cache, the signature decides.
\<close>

section \<open>The verifier\<close>

definition grant_acceptable :: "(string, signer) dict \<Rightarrow> signed_grant \<Rightarrow> grant_context \<Rightarrow> bool" where
  "grant_acceptable signers g c \<longleftrightarrow>
     (let p = sgn_payload g in
      (\<exists>s. dict_get signers (gp_signer_key_id p) = Some s \<and> signer_verify s g = Inr True) \<and>
      gp_request_id p = gc_request_id c \<and> gp_session_id p = gc_session_id c \<and> gp_target p = gc_target c \<and>
      gp_provider p = gc_provider c \<and> gp_capability p = gc_capability c \<and>
      gp_params_fingerprint p = gc_params_fingerprint c \<and> gp_risk_family p = gc_risk_family c \<and>
      gp_capability p \<notin> set RESUMPTION_BLOCKED \<and> dt_less (gc_now c) (gp_expires_at p) = Inr True \<and>
      (gp_one_time p \<longrightarrow> gp_consumed_at p = None) \<and>
      (gp_channel p = CONVERSATIONAL \<longrightarrow>
         gp_risk_family p \<notin> set BANNED_CONVERSATIONAL \<and> gp_risk_family p \<in> set (gc_conversational c)))"

lemma verify_grant_valid:
  assumes "verify_grant signers (Some g) c = Inr r" "vr_valid r"
  shows "grant_acceptable signers g c"
  using assms
  by (auto simp: verify_grant_def grant_acceptable_def Let_def vr_valid_def verification_def
      payload_bindings_def dt_geq_Inr bind_res_Inr_iff split: option.splits if_splits)

lemma acceptable_verifies:
  assumes "grant_acceptable signers g c"
  shows "verify_grant signers (Some g) c = Inr (verification (sgn_payload g) VALID ''grant verified'')"
proof -
  from assms have late: "dt_geq (gc_now c) (gp_expires_at (sgn_payload g)) = Inr False"
    by (simp add: grant_acceptable_def Let_def dt_geq_Inr)
  from assms show ?thesis
    by (auto simp: verify_grant_def grant_acceptable_def Let_def payload_bindings_def late split: option.splits)
qed

lemma unsigned_never_valid: "verify_grant signers None c = Inr r \<Longrightarrow> \<not> vr_valid r"
  by (auto simp: verify_grant_def vr_valid_def)

text \<open>A grant the development signer made for a request is accepted for that request.\<close>

lemma hmac_grant_accepted:
  assumes build: "build_grant_payload H gid rid sid t p c params family channel expires key_id one_time = Inr payload"
    and sign: "hmac_sign mac algorithm key_id secret payload = Inr g"
    and ctx: "context_from_parameters H rid sid t p c params family now = Inr ctx"
    and s: "dict_get signers key_id = Some s" "signer_verify s = hmac_verify mac algorithm key_id secret"
    and ok: "c \<notin> set RESUMPTION_BLOCKED" "is_aware now" "instant now < instant expires" "channel \<noteq> CONVERSATIONAL"
  shows "grant_acceptable signers g ctx"
proof -
  have g: "sgn_payload g = payload" "hmac_verify mac algorithm key_id secret g = Inr True"
    using hmac_signer.sign_payload [OF sign] hmac_signer.sign_verifies [OF sign] by auto
  obtain f where f: "fingerprint_parameters H params = Inr f" using ctx
    by (auto simp: context_from_parameters_def bind_res_Inr_iff)
  have "dt_less now (to_utc expires) = Inr True" using ok(2,3) by (simp add: dt_less_aware)
  moreover have "gp_request_id payload = rid" "gp_session_id payload = sid" "gp_target payload = t"
    "gp_provider payload = p" "gp_capability payload = c" "gp_params_fingerprint payload = f"
    "gp_risk_family payload = family" "gp_channel payload = channel" "gp_expires_at payload = to_utc expires"
    "gp_consumed_at payload = None" "gp_signer_key_id payload = key_id"
    using build f by (auto simp: build_grant_payload_def make_payload_def Let_def split: if_splits)
  moreover have "ctx =
       \<lparr>gc_request_id = rid, gc_session_id = sid, gc_target = t, gc_provider = p, gc_capability = c,
        gc_params_fingerprint = f, gc_risk_family = family, gc_now = now,
        gc_conversational = [''observe'', ''runtime'']\<rparr>"
    using ctx f by (auto simp: context_from_parameters_def)
  moreover note g s ok
  ultimately show ?thesis
    unfolding grant_acceptable_def Let_def by simp
qed

section \<open>Trusted signers\<close>

definition registry_wf :: "trust_registry \<Rightarrow> bool" where
  "registry_wf reg \<longleftrightarrow> distinct (map fst (tg_trust reg)) \<and> (\<forall>(k, t) \<in> set (tg_trust reg). signer_key (tr_signer t) = k)"

lemma registry_wf_empty: "registry_wf \<lparr>tg_allow_development = b, tg_trust = []\<rparr>"
  by (simp add: registry_wf_def)

lemma dict_set_mem: "kv \<in> set (dict_set k v d) \<Longrightarrow> kv = (k, v) \<or> kv \<in> set d"
  by (induction d) (auto split: if_splits)

lemma register_signer_wf:
  assumes "registry_wf reg" "register_signer reg s dev l = Inr reg'"
  shows "registry_wf reg'"
proof -
  have "tg_trust reg' = dict_set (signer_key s) \<lparr>tr_signer = s, tr_development = dev,
      tr_label = reason_or l (if dev then ''development'' else ''production'')\<rparr> (tg_trust reg)"
    using assms(2) by (auto simp: register_signer_def split: if_splits)
  with assms(1) show ?thesis
    by (auto simp: registry_wf_def dict_set_distinct dest!: dict_set_mem)
qed

lemma trusted_signers_lookup:
  assumes "registry_wf reg"
  shows "dict_get (trusted_signers reg) k = signer_for reg k"
proof -
  have *: "distinct (map fst ts) \<Longrightarrow> dict_get (map (\<lambda>(k, t). (k, tr_signer t)) (filter (\<lambda>(k, t). is_trusted reg k) ts)) k =
      (if is_trusted reg k then map_option tr_signer (dict_get ts k) else None)" for ts
  proof (induction ts)
    case (Cons kt ts)
    obtain j t where "kt = (j, t)" by (cases kt)
    with Cons show ?case by (cases "j = k") (auto simp: map_of_eq_None_iff image_iff)
  qed simp
  from * [of "tg_trust reg"] assms show ?thesis
    unfolding trusted_signers_def signer_for_def registry_wf_def by blast
qed

lemma development_signer_excluded:
  "dict_get (tg_trust reg) k = Some t \<Longrightarrow> tr_development t \<Longrightarrow> \<not> tg_allow_development reg \<Longrightarrow> signer_for reg k = None"
  by (simp add: signer_for_def is_trusted_def)

lemma registered_signer_trusted:
  "register_signer reg s dev l = Inr reg' \<Longrightarrow> \<not> dev \<or> tg_allow_development reg \<Longrightarrow> signer_for reg' (signer_key s) = Some s"
  by (auto simp: register_signer_def signer_for_def is_trusted_def split: if_splits)

section \<open>The grant cache\<close>

lemma find_verified_grant_sound:
  assumes "find_verified_grant signers c file = Inr (Some g)"
  shows "\<exists>gs. read_signed_grants file = Inr gs \<and> g \<in> set gs \<and> grant_acceptable signers g c"
proof -
  from assms obtain gs where gs: "read_signed_grants file = Inr gs"
      "find_res (\<lambda>g. bind_res (verify_grant signers (Some g) c) (\<lambda>r. Inr (vr_valid r))) gs = Inr (Some g)"
    by (auto simp: find_verified_grant_def split: sum.splits)
  from find_res_Some [OF gs(2)] gs(1) show ?thesis
    by (auto simp: bind_res_Inr_iff intro: verify_grant_valid)
qed

lemma find_verified_grant_complete:
  assumes "find_verified_grant signers c file = Inr None" "read_signed_grants file = Inr gs" "g \<in> set gs"
  shows "\<not> grant_acceptable signers g c"
proof
  assume "grant_acceptable signers g c"
  from acceptable_verifies [OF this]
  have "bind_res (verify_grant signers (Some g) c) (\<lambda>r. Inr (vr_valid r)) = Inr True"
    by (simp add: vr_valid_def verification_def)
  moreover have "\<forall>x \<in> set gs. bind_res (verify_grant signers (Some x) c) (\<lambda>r. Inr (vr_valid r)) = Inr False"
    using assms(1,2) by (intro find_res_None) (simp add: find_verified_grant_def)
  ultimately show False using assms(3) by fastforce
qed

lemma damaged_cache_grants_nothing:
  "read_signed_grants file = Inl e \<Longrightarrow> find_verified_grant signers c file = Inr None"
  by (simp add: find_verified_grant_def)

lemma read_cache_error: "read_signed_grants file = Inl e \<Longrightarrow> exn_class_of e = ApprovalCacheError"
  by (auto simp: read_signed_grants_def raise_def split: option.splits pyval.splits sum.splits if_splits)

section \<open>The broker\<close>

lemma request_approval_Inr:
  assumes "request_approval H timeout rid sid t p c params fam txt risks eff now expires ch = Inr r"
  shows "br_timeout_seconds r = timeout" "timeout \<le> 20" "br_request_id r = rid" "br_capability r = c" "br_target r = t"
    "fingerprint_parameters H params = Inr (br_params_fingerprint r)"
    "br_short_code r = short_code H rid (br_params_fingerprint r)"
    "instant now < instant expires" "\<not> contains (br_operator_message r) ''..''"
  using assms
  by (auto simp: request_approval_def make_broker_request_def make_short_code_def make_risk_summary_def
      DEFAULT_APPROVAL_TIMEOUT_SECONDS_def operator_message_def dt_leq_def Let_def bind_res_Inr_iff
      collapse_dots_no_dots simp del: collapse_dots.simps split: if_splits)

end
