(* ===== verification/EngineProps.thy ===== *)
theory EngineProps
  imports EngineAudit GrantFacts
begin

text \<open>
  The properties of \<open>ControlPlane.handle\<close>, and the small deployment their witnesses run: one
  dangerous capability, a policy that asks each time, the in-memory audit sink, a provider that
  answers, and a grant verifier that accepts.
\<close>

section \<open>A deployment for the witnesses\<close>

definition demo_capability :: capability where
  "demo_capability =
     \<lparr>cap_id = ''power.force_off'', cap_family = ''power'', cap_action = ''force_off'',
      cap_title = ''Force off'', cap_description = ''Cut power.'',
      cap_risk = RL_HIGH, cap_dangerous = True, cap_destructive = False,
      cap_required_scope = [''target'', ''session''], cap_audit_fields = []\<rparr>"

definition demo_policy :: capability_policy where
  "demo_policy =
     \<lparr>pol_name = ''demo'', pol_mode = CUSTOM, pol_target_scope = default_target_scope,
      pol_session_scope = default_session_scope,
      pol_rules = [(''power.force_off'', \<lparr>rule_decision = ASK_EACH_TIME, rule_limits = [], rule_reason = None\<rparr>)]\<rparr>"

definition demo_provider :: adapter_info where
  "demo_provider =
     \<lparr>ad_provider_id = ''p'', ad_provider_kind = ''mock'', ad_enabled = True, ad_is_real_hardware = False,
      ad_risk_class = ''unknown'', ad_supported = [''power.force_off'']\<rparr>"

definition demo_execute :: "provider_request \<Rightarrow> nat \<Rightarrow> provider_result res \<times> nat" where
  "demo_execute q n =
     (Inr (base_result True ''p'' (prq_capability q) (prq_action q) (prq_target_id q) False ''done'' []), Suc n)"

definition demo_grant_verifier :: grant_verifier where
  "demo_grant_verifier signed c =
     Inr \<lparr>vr_status = VALID, vr_reason = ''grant verified'', vr_request_id = None, vr_grant_id = None,
          vr_signer_key_id = None\<rparr>"

definition demo_plane :: "(audit_event list, nat, unit) plane" where
  "demo_plane =
     \<lparr>pl_policy = demo_policy, pl_registry = [(''power.force_off'', demo_capability)],
      pl_provider = demo_provider, pl_execute = demo_execute, pl_emit = memory_emit,
      pl_now = (\<lambda>n. Aware 0 0), pl_utcnow = (\<lambda>n. Aware 0 0), pl_uuid = (\<lambda>n. nat_digits n),
      pl_grant_verifier = Some demo_grant_verifier, pl_client = None, pl_clearance_verifier = None,
      pl_timeout = 20, pl_channel = select_channel MOBILE_SIGNED LOCAL_TERMINAL, pl_act_parity = False,
      pl_sha256 = (\<lambda>s. s)\<rparr>"

definition demo_signed :: signed_grant where
  "demo_signed =
     \<lparr>sgn_payload = \<lparr>gp_grant_id = ''g'', gp_request_id = ''rid'', gp_session_id = ''s'', gp_target = ''t'',
        gp_provider = ''p'', gp_capability = ''power.force_off'', gp_params_fingerprint = ''{}'',
        gp_risk_family = ''power'', gp_channel = OUT_OF_BAND, gp_expires_at = Aware 60 0, gp_one_time = True,
        gp_consumed_at = None, gp_policy_constraints = [], gp_signer_key_id = ''k'',
        gp_payload_version = GRANT_PAYLOAD_VERSION\<rparr>,
      sgn_signature = ''sig'', sgn_algorithm = ''hmac''\<rparr>"

definition demo_request :: "signed_grant option \<Rightarrow> capability_request" where
  "demo_request signed =
     \<lparr>rq_capability_id = ''power.force_off'', rq_target_id = ''t'', rq_session_id = ''s'',
      rq_correlation_id = ''c'', rq_requester = \<lparr>actor_kind = AGENT, actor_id = ''a''\<rparr>,
      rq_intended_effect = ''off'', rq_parameters = [], rq_credential_id = None,
      rq_approval_request_id = Some ''rid'', rq_signed_grant = signed\<rparr>"

definition demo_world :: "approval_store option \<Rightarrow> (audit_event list, nat, unit) world" where
  "demo_world st =
     \<lparr>w_sink = [], w_provider = 0, w_client = (), w_store = st, w_consumed = [], w_ticks = 0, w_trace = []\<rparr>"

definition demo_action_grant :: action_grant where
  "demo_action_grant =
     \<lparr>ag_request_id = ''rid'', ag_response_id = ''resp'', ag_capability_id = ''power.force_off'',
      ag_session_id = ''s'', ag_target_id = ''t'', ag_provider_id = ''p'', ag_params_fingerprint = ''{}'',
      ag_expires_at = Aware 60 0, ag_scope = ONE_TIME, ag_operator = \<lparr>actor_kind = OPERATOR, actor_id = ''o''\<rparr>\<rparr>"

definition demo_store :: approval_store where
  "demo_store = \<lparr>st_grants = [], st_action_grants = [demo_action_grant], st_consumed = []\<rparr>"

lemma demo_decision [simp]:
  "pr_decision (plane_decision demo_plane (demo_request g)) = ASK_EACH_TIME"
  "requires_approval (plane_decision demo_plane (demo_request g))"
  by (simp_all add: plane_decision_def decision_for_def demo_plane_def demo_request_def demo_policy_def
      demo_capability_def registry_get_def HARD_DENY_CAPABILITIES_def target_scope_allows_def
      session_scope_allows_def scope_allows_def default_target_scope_def default_session_scope_def
      requires_approval_def)

lemma demo_plane_simps [simp]:
  "pl_emit demo_plane = memory_emit" "pl_execute demo_plane = demo_execute" "pl_now demo_plane = (\<lambda>n. Aware 0 0)"
  "pl_grant_verifier demo_plane = Some demo_grant_verifier" "pl_client demo_plane = None"
  "pl_registry demo_plane = [(''power.force_off'', demo_capability)]" "pl_provider demo_plane = demo_provider"
  "ad_is_real_hardware (pl_provider demo_plane) = False" "pl_sha256 demo_plane = (\<lambda>s. s)"
  "\<not> tower_channel demo_plane"
  by (simp_all add: demo_plane_def demo_provider_def tower_channel_def)

lemma demo_request_simps [simp]:
  "rq_capability_id (demo_request g) = ''power.force_off''" "rq_target_id (demo_request g) = ''t''"
  "rq_session_id (demo_request g) = ''s''" "rq_parameters (demo_request g) = []"
  "rq_approval_request_id (demo_request g) = Some ''rid''" "rq_signed_grant (demo_request g) = g"
  "ad_is_real_hardware demo_provider = False" "ad_provider_id demo_provider = ''p''"
  "gp_grant_id (sgn_payload demo_signed) = ''g''" "gp_one_time (sgn_payload demo_signed)"
  by (simp_all add: demo_request_def demo_provider_def demo_signed_def)

lemma demo_world_simps [simp]:
  "w_store (demo_world st) = st" "w_consumed (demo_world st) = []" "w_trace (demo_world st) = []"
  "executions (demo_world st) = []" "w_sink (demo_world st) = []"
  by (simp_all add: demo_world_def executions_def map_filter_def)

text \<open>Where the sink accepts, emitting returns and adds one event.\<close>

lemma emit_returns:
  assumes "\<And>e s. \<exists>s'. pl_emit cp e s = Inr s'" "pv = None \<or> t \<noteq> REQUEST_RECEIVED"
  shows "\<exists>w'. emit cp r ref d t ap pv rp sp w = (Inr (), w')"
proof -
  have mk: "make_audit_event e = Inr e" if "ev_provider e = None \<or> ev_type e \<noteq> REQUEST_RECEIVED" for e
    using that by (auto simp: make_audit_event_def split: option.splits)
  have "\<exists>w'. sink_emit cp e v = (Inr (), w')" for e v
    using assms(1) [of e "w_sink v"] by (auto simp: sink_emit_def)
  with assms(2) show ?thesis
    unfolding emit_def by (auto simp: tick_eq bind_op_def build_audit_event_def Let_def mk)
qed

lemma seq_op_after: "fst (m w) = Inr () \<Longrightarrow> seq_op m n w = n (snd (m w))"
  by (cases "m w") (simp add: seq_op_def bind_op_def)

lemma demo_emit [simp]:
  "pl_emit cp = memory_emit \<Longrightarrow> pv = None \<or> t \<noteq> REQUEST_RECEIVED \<Longrightarrow>
     fst (emit cp r ref d t ap pv rp sp w) = Inr ()"
  using emit_returns [of cp pv t r ref d ap rp sp w] by (auto simp: memory_emit_def)

lemma emit_after [simp]:
  "executions (snd (emit cp r ref d t ap pv rp sp w)) = executions w"
  "w_store (snd (emit cp r ref d t ap pv rp sp w)) = w_store w"
  "w_consumed (snd (emit cp r ref d t ap pv rp sp w)) = w_consumed w"
  using keepsD [OF emit_quiet, of cp r ref d t ap pv rp sp w _ "snd (emit cp r ref d t ap pv rp sp w)"]
  by (simp_all add: quiet_def prod_eq_iff)

lemma demo_announce [simp]:
  assumes "pl_emit cp = memory_emit"
  shows "fst (announce cp r c ref d w) = Inr ()"
    "executions (snd (announce cp r c ref d w)) = executions w"
    "w_store (snd (announce cp r c ref d w)) = w_store w"
    "w_consumed (snd (announce cp r c ref d w)) = w_consumed w"
  using assms by (simp_all add: announce_def seq_op_after)

lemma executions_provider [simp]:
  "executions (w\<lparr>w_provider := s, w_trace := w_trace w @ [ExecE q]\<rparr>) = executions w @ [q]"
  by (simp add: executions_def map_filter_def)

lemma executions_client [simp]:
  "executions (w\<lparr>w_client := s, w_trace := w_trace w @ [ClearE q]\<rparr>) = executions w"
  by (simp add: executions_def map_filter_def)

lemma demo_executes [simp]:
  assumes "pl_emit cp = memory_emit" "pl_execute cp = demo_execute"
  shows "executions (snd (execute_provider cp r c ref d w)) = executions w @ [provider_request_for r c]"
  using assms by (simp_all add: execute_provider_def Let_def seq_op_after emit_result_returned_def bind_op_def
      provider_execute_def demo_execute_def base_result_def)

lemma demo_context:
  "context_from_parameters (\<lambda>s. s) rid s t p c [] f now = Inr
     \<lparr>gc_request_id = rid, gc_session_id = s, gc_target = t, gc_provider = p, gc_capability = c,
      gc_params_fingerprint = ''{}'', gc_risk_family = f, gc_now = now,
      gc_conversational = [''observe'', ''runtime'']\<rparr>"
  by (simp add: context_from_parameters_def fingerprint_parameters_def canonical_json_def pdict_def dumps_def)

text \<open>The deployment executes the request that brings the signed grant, and consumes the grant.\<close>

lemma demo_signed_run:
  "executions (snd (handle demo_plane (demo_request (Some demo_signed)) (demo_world None))) =
     [provider_request_for (demo_request (Some demo_signed)) demo_capability]"
proof -
  have reg: "registry_get (pl_registry demo_plane) (rq_capability_id (demo_request g)) = Some demo_capability" for g
    by (simp add: registry_get_def demo_request_def)
  show ?thesis
    unfolding handle_def Let_def reg
    by (simp add: seq_op_after handle_approval_split local_approval_def bind_op_def
        verify_signed_approval_grant_def apply_verification_def demo_context tick_eq
        demo_grant_verifier_def vr_valid_def emit_approval_def Let_def)
qed

lemma demo_stored_find:
  "find_action_grant demo_store (query_for demo_plane (demo_request g) (Aware 0 0)) = Inr (Some demo_action_grant)"
  by (simp add: find_action_grant_def demo_store_def demo_action_grant_def reusable_def action_grant_matches_def
      grant_bound_def query_for_def action_fingerprint_def pdict_def dumps_def)

lemma demo_stored_run:
  "executions (snd (handle demo_plane (demo_request None) (demo_world (Some demo_store)))) =
     [provider_request_for (demo_request None) demo_capability]"
proof -
  have reg: "registry_get (pl_registry demo_plane) (rq_capability_id (demo_request g)) = Some demo_capability" for g
    by (simp add: registry_get_def demo_request_def)
  have find: "find_action_grant demo_store
      \<lparr>q_capability_id = ''power.force_off'', q_session_id = ''s'', q_target_id = ''t'', q_provider_id = ''p'',
       q_params_fingerprint = action_fingerprint (\<lambda>s. s) [], q_now = Aware 0 0\<rparr> = Inr (Some demo_action_grant)"
    using demo_stored_find by (simp add: query_for_def)
  show ?thesis
    unfolding handle_def Let_def reg
    by (simp add: seq_op_after handle_approval_split local_approval_def bind_op_def
        verify_signed_approval_grant_def matching_approval_grant_def tick_eq find consume_grant_def
        emit_approval_def Let_def)
qed

text \<open>The same deployment behind a tower that clears every request.\<close>

definition demo_act :: act_verifier where
  "demo_act = \<lparr>av_tower_id = ''tower'', av_proof_verifier = MockVerifier, av_test_mode = True\<rparr>"

definition demo_call :: "unit clearance_call" where
  "demo_call q timeout s = (cleared_response_for q ''tower'', s)"

definition demo_tower_plane :: "(audit_event list, nat, unit) plane" where
  "demo_tower_plane = demo_plane\<lparr>pl_channel := select_channel MOBILE_SIGNED MOBILE_SIGNED,
     pl_client := Some demo_call, pl_clearance_verifier := Some (verify_clearance (\<lambda>s. s) demo_act)\<rparr>"

lemma demo_tower_simps [simp]:
  "pl_emit demo_tower_plane = memory_emit" "pl_execute demo_tower_plane = demo_execute"
  "pl_now demo_tower_plane = (\<lambda>n. Aware 0 0)" "pl_registry demo_tower_plane = pl_registry demo_plane"
  "pl_policy demo_tower_plane = pl_policy demo_plane"
  "pl_provider demo_tower_plane = demo_provider" "pl_sha256 demo_tower_plane = (\<lambda>s. s)"
  "pl_client demo_tower_plane = Some demo_call" "tower_channel demo_tower_plane" "pl_timeout demo_tower_plane = 20"
  "pl_clearance_verifier demo_tower_plane = Some (verify_clearance (\<lambda>s. s) demo_act)"
  "plane_decision demo_tower_plane = plane_decision demo_plane" "pl_act_parity demo_tower_plane = False"
  by (simp_all add: demo_tower_plane_def demo_plane_def tower_channel_def plane_decision_def fun_eq_iff)

lemma demo_clearance_request:
  "\<exists>q. build_clearance_request (\<lambda>s. s) ''s'' ''t'' ''p'' ''power.force_off'' []
     fam ''explicit policy rule'' risks ''off'' ''a'' ''c''
     ctx (Aware 0 0) 20 ''rid'' False = Inr q"
proof -
  have msg: "build_operator_message ''RID:-{}'' ''power.force_off'' ''t'' ''p'' ''off'' ''explicit policy rule'' \<noteq> []"
    by code_simp
  have code: "short_code (\<lambda>s. s) ''rid'' ''{}'' = ''RID:-{}''" by code_simp
  show ?thesis
    using msg
    by (simp add: build_clearance_request_def clearance_fingerprint_and_code_def code check_short_code_def
        check_params_fingerprint_def make_clearance_risk_def make_clearance_request_def clearance_required_fields_def
        check_operator_message_def build_operator_message_def collapse_dots_no_dots ACT_AIRCRAFT_ID_def
        DEFAULT_CLEARANCE_TIMEOUT_SECONDS_def fingerprint_parameters_def canonical_json_def pdict_def dumps_def
        dt_leq_def to_utc_def Let_def del: collapse_dots.simps)
qed

lemma demo_clears:
  assumes "make_clearance_request q = Inr q" "instant now < instant (cq_expires_at q)"
  shows "\<exists>resp v. cleared_response_for q ''tower'' = Inr resp \<and> cp_status resp = CLEARED \<and>
     verify_clearance (\<lambda>s. s) demo_act q resp now = Inr v \<and> cv_valid v"
proof -
  let ?resp = "echo_response q CLEARED ''tower'' (Some [(''mock_act_proof'', JStr ''verified'')]) ''mock cleared''"
  have "cleared_response_for q ''tower'' = Inr ?resp"
    unfolding cleared_response_for_def
    by (rule make_response_ok) (simp_all add: wf_request_fields [OF assms(1)] echo_response_def)
  moreover have "verify_clearance (\<lambda>s. s) demo_act q ?resp now = Inr (clearance_result ?resp True CLEARED ''ACT clearance verified'')"
    using assms(2)
    by (simp add: verify_clearance_def echo_response_def demo_act_def response_bindings_def mock_verify_proof_def
        proof_get_def)
  ultimately show ?thesis by (simp add: clearance_result_def echo_response_def)
qed

lemma demo_tower_run:
  "executions (snd (handle demo_tower_plane (demo_request None) (demo_world None))) =
     [provider_request_for (demo_request None) demo_capability]"
proof -
  have reg: "registry_get (pl_registry demo_tower_plane) (rq_capability_id (demo_request g)) = Some demo_capability" for g
    by (simp add: registry_get_def demo_request_def)
  have reason: "pr_reason (plane_decision demo_plane (demo_request None)) = ''explicit policy rule''"
    by (simp add: plane_decision_def decision_for_def demo_plane_def demo_request_def demo_policy_def
      demo_capability_def registry_get_def HARD_DENY_CAPABILITIES_def target_scope_allows_def reason_or_def
      session_scope_allows_def scope_allows_def default_target_scope_def default_session_scope_def)
  have who: "actor_id (rq_requester (demo_request None)) = ''a''" "rq_correlation_id (demo_request None) = ''c''"
    "rq_intended_effect (demo_request None) = ''off''" by (simp_all add: demo_request_def)
  have fam: "clearance_risk_family_for_capability (Some demo_capability) = HIGH_RISK"
    by code_simp
  let ?d = "plane_decision demo_plane (demo_request None)"
  obtain q where q: "build_clearance_request (\<lambda>s. s) ''s'' ''t'' ''p'' ''power.force_off'' []
     HIGH_RISK ''explicit policy rule''
     (pr_material_risks ?d) ''off'' ''a'' ''c''
     [(''decision'', PStr ''ask_each_time'')] (Aware 0 0) 20 ''rid'' False = Inr q"
    using demo_clearance_request by blast
  have wf: "make_clearance_request q = Inr q"
    using q by (auto simp: build_clearance_request_def bind_res_Inr_iff split: if_splits prod.splits
        dest: make_clearance_request_Inr)
  have "instant (Aware 0 0) < instant (cq_expires_at q)"
    using build_clearance_request_Inr(9) [OF q] by simp
  from demo_clears [OF wf this] obtain resp v where r: "cleared_response_for q ''tower'' = Inr resp"
    "cp_status resp = CLEARED" "verify_clearance (\<lambda>s. s) demo_act q resp (Aware 0 0) = Inr v" "cv_valid v" by blast
  show ?thesis
    unfolding handle_def Let_def reg
    by (simp add: seq_op_after handle_approval_split handle_act_clearance_def bind_op_def tick_eq reason who q
        clearance_request_id_def or_empty_def emit_approval_def client_request_def demo_call_def r
        clearance_answer_def Let_def fam del: clearance_risk_family_for_capability.simps)
qed

section \<open>Properties\<close>

text \<open>
  C1 (complete mediation). Handling a request either leaves the provider alone, or calls it exactly
  once, with exactly the requested capability, target, session and parameters, and then the request
  was permitted: the capability is known, the policy does not deny it, real hardware is in scope,
  and, if the decision needs approval, the tower's verified clearance, a valid unconsumed signed
  grant or a matching unspent stored grant was there.
\<close>

theorem handle_mediates:
  "executions (snd (handle cp r w)) = executions w \<or>
    (\<exists>c. executions (snd (handle cp r w)) = executions w @ [provider_request_for r c] \<and> permitted cp r c w)"
  by (rule handle_permitted [of cp r w "fst (handle cp r w)"]) simp

text \<open>
  C2 (order of effects). The effects of one request follow the protocol automaton: they are opened
  by REQUEST_RECEIVED, the resolution and the policy decision, an execution directly follows a
  written PROVIDER_EXECUTION_STARTED event, and if \<open>handle\<close> returns then a RESULT_RETURNED event
  closed the record.
\<close>

theorem handle_protocol:
  assumes "handle cp r w = (x, w')"
  shows "\<exists>es. w_trace w' = w_trace w @ es \<and> phase_of es \<noteq> Broken \<and>
    (\<forall>res. x = Inr res \<longrightarrow> phase_of es = Closed) \<and>
    (\<forall>before q after. es = before @ ExecE q # after \<longrightarrow>
      (\<exists>earlier e. before = earlier @ [EmitE e] \<and> ev_type e = PROVIDER_EXECUTION_STARTED))"
proof -
  have "at_phase (w_trace w) {Opened} w" by (auto simp: at_phase_def)
  from tripleD [OF handle_phase assms this]
  have "\<exists>es. w_trace w' = w_trace w @ es \<and> phase_of es \<noteq> Broken \<and> (\<forall>res. x = Inr res \<longrightarrow> phase_of es = Closed)"
    by (cases x) (auto simp: at_phase_def)
  with execution_preceded show ?thesis by blast
qed

theorem handle_protocol_witness:
  "\<exists>es. w_trace (snd (handle demo_plane (demo_request None) (demo_world None))) = es \<and> phase_of es \<noteq> Broken"
proof -
  have "handle demo_plane (demo_request None) (demo_world None) =
      (fst (handle demo_plane (demo_request None) (demo_world None)),
       snd (handle demo_plane (demo_request None) (demo_world None)))" by simp
  from handle_protocol [OF this] show ?thesis by auto
qed

text \<open>
  The sink holds the trace. The sink received exactly the events of the trace, in order, and
  accepted each of them: the state it is left in is the one that emitting them gives.
\<close>

theorem handle_sink_exact:
  "\<exists>es. w_trace (snd (handle cp r w)) = w_trace w @ es \<and>
    emit_all (pl_emit cp) (emitted es) (w_sink w) = Inr (w_sink (snd (handle cp r w)))"
  using keepsD [OF handle_delivers, of cp r w "fst (handle cp r w)" "snd (handle cp r w)"]
  by (simp add: delivers_def)

text \<open>
  C16 (audit failure stops the action). If the sink refuses every PROVIDER_EXECUTION_STARTED
  event, nothing is ever executed.
\<close>

theorem refused_audit_blocks:
  assumes "\<And>e s. ev_type e = PROVIDER_EXECUTION_STARTED \<Longrightarrow> \<exists>err. pl_emit cp e s = Inl err"
  shows "executions (snd (handle cp r w)) = executions w"
proof -
  let ?w' = "snd (handle cp r w)"
  have h: "handle cp r w = (fst (handle cp r w), ?w')" by simp
  have "at_phase (w_trace w) {Opened} w" by (auto simp: at_phase_def)
  from tripleD [OF handle_phase h this] obtain es where es: "w_trace ?w' = w_trace w @ es" "phase_of es \<noteq> Broken"
    by (cases "fst (handle cp r w)") (auto simp: at_phase_def)
  have acc: "emit_all (pl_emit cp) (emitted es) (w_sink w) = Inr (w_sink ?w')"
    using keepsD [OF handle_delivers h] es(1) by (auto simp: delivers_def)
  have "ExecE q \<notin> set es" for q
  proof
    assume "ExecE q \<in> set es"
    then obtain pre post where split: "es = pre @ ExecE q # post" by (meson split_list)
    obtain pre' e where e: "pre = pre' @ [EmitE e]" "ev_type e = PROVIDER_EXECUTION_STARTED"
      using execution_preceded [of pre q post] es(2) unfolding split by blast
    then have "EmitE e \<in> set es" using split by simp
    from emit_all_accepts [OF acc emitted_mem [OF this]] obtain t t' where "pl_emit cp e t = Inr t'" by blast
    with assms [OF e(2), of t] show False by auto
  qed
  then have "execution e = None" if "e \<in> set es" for e
    using that by (cases e) auto
  then have "List.map_filter execution es = []"
    by (simp add: map_filter_def filter_empty_conv)
  with es(1) show ?thesis by (simp add: executions_def map_filter_def)
qed

theorem refused_audit_blocks_witness:
  "executions (snd (handle (demo_plane\<lparr>pl_emit := \<lambda>e s. raise OSError ''disk full''\<rparr>)
     (demo_request (Some demo_signed)) (demo_world None))) = []"
  by (subst refused_audit_blocks) (simp_all add: raise_def)

text \<open>
  C14 (one-time signed grants). A one-time signed grant that let one request of a control plane
  without stored grants reach the provider lets no later request that needs approval reach it,
  whatever requests were handled in between.
\<close>

theorem signed_grant_once:
  assumes "\<not> tower_channel cp" "w_store w = None"
    and "requires_approval (plane_decision cp r)" "rq_signed_grant r = Some g" "gp_one_time (sgn_payload g)"
    and "executions (snd (handle cp r w)) \<noteq> executions w"
    and "requires_approval (plane_decision cp r')" "rq_signed_grant r' = Some g'"
    and "gp_grant_id (sgn_payload g') = gp_grant_id (sgn_payload g)"
  shows "executions (snd (handle cp r' (run_requests cp rs (snd (handle cp r w))))) =
     executions (run_requests cp rs (snd (handle cp r w)))"
proof -
  let ?w1 = "snd (handle cp r w)"
  let ?w2 = "run_requests cp rs ?w1"
  have h: "handle cp r w = (fst (handle cp r w), ?w1)" "handle cp r' ?w2 = (fst (handle cp r' ?w2), snd (handle cp r' ?w2))"
    by simp_all
  have "advances w ?w2" using handle_advances [OF h(1)] run_advances advances_trans by blast
  then have none: "w_store ?w2 = None" using assms(2) by (simp add: advances_def)
  obtain c where "spends cp r (ref_for cp r) w ?w1"
    using handle_facts [OF h(1)] assms(1,3,6) by (auto simp: quiet_def outcome_def)
  then have "gp_grant_id (sgn_payload g) \<in> set (w_consumed ?w1)"
    using assms(2,4,5) by (auto simp: spends_def)
  then have used: "gp_grant_id (sgn_payload g') \<in> set (w_consumed ?w2)"
    using run_advances [of ?w1 cp rs] assms(9) by (auto simp: advances_def)
  have "\<not> spends cp r' ref ?w2 w'" for ref w'
    using none used assms(8) by (auto simp: spends_def signed_authority_def)
  then show ?thesis using handle_facts [OF h(2)] assms(1,7) by (auto simp: quiet_def outcome_def)
qed

theorem signed_grant_once_witness:
  "executions (snd (handle demo_plane (demo_request (Some demo_signed))
     (snd (handle demo_plane (demo_request (Some demo_signed)) (demo_world None))))) =
   [provider_request_for (demo_request (Some demo_signed)) demo_capability]"
  using signed_grant_once [of demo_plane "demo_world None" "demo_request (Some demo_signed)" demo_signed
      "demo_request (Some demo_signed)" demo_signed "[]"]
  by (simp add: demo_signed_run)

text \<open>
  C15 (one-time stored grants). When a request without a signed grant that needs approval reached
  the provider, the store held a grant bound to exactly its capability, session, target, provider
  and parameter fingerprint and not expired at the clock reading; if that grant is for one use, the store never offers it again.
\<close>

theorem stored_grant_once:
  assumes "\<not> tower_channel cp" "requires_approval (plane_decision cp r)" "rq_signed_grant r = None"
    and "executions (snd (handle cp r w)) \<noteq> executions w"
  shows "\<exists>store g now. w_store w = Some store \<and> g \<in> set (st_action_grants store) \<and>
     grant_bound g (query_for cp r now) \<and> reads cp w now \<and> dt_less now (ag_expires_at g) = Inr True \<and>
     (reusable g \<or> (\<forall>store' q. w_store (run_requests cp rs (snd (handle cp r w))) = Some store' \<longrightarrow>
        find_action_grant store' q \<noteq> Inr (Some g)))"
proof -
  let ?w1 = "snd (handle cp r w)"
  have h: "handle cp r w = (fst (handle cp r w), ?w1)" by simp
  have "spends cp r (ref_for cp r) w ?w1"
    using handle_facts [OF h] assms(1,2,4) by (auto simp: quiet_def outcome_def)
  then obtain store g now where g: "w_store w = Some store" "find_action_grant store (query_for cp r now) = Inr (Some g)"
      "reads cp w now" "\<not> reusable g \<longrightarrow> ag_response_id g \<in> spent ?w1"
    using assms(3) by (auto simp: spends_def signed_authority_def)
  have "find_action_grant store' q \<noteq> Inr (Some g)"
    if "\<not> reusable g" "w_store (run_requests cp rs ?w1) = Some store'" for store' q
  proof
    assume "find_action_grant store' q = Inr (Some g)"
    from approvals.find_unspent [OF this] that(1) have "ag_response_id g \<notin> set (st_consumed store')" by simp
    moreover have "ag_response_id g \<in> set (st_consumed store')"
      using g(4) that run_advances [of ?w1 cp rs] by (auto simp: advances_def spent_def)
    ultimately show False by simp
  qed
  moreover have "q_now (query_for cp r now) = now" by (simp add: query_for_def)
  ultimately show ?thesis using g(1-3) find_action_grant_Some(1-3) [OF g(2)] by metis
qed

theorem stored_grant_once_witness:
  "\<exists>store g now. w_store (demo_world (Some demo_store)) = Some store \<and> grant_bound g (query_for demo_plane (demo_request None) now)"
  using stored_grant_once [of demo_plane "demo_request None" "demo_world (Some demo_store)" "[]"]
  by (auto simp: demo_stored_run)

text \<open>
  Channel isolation. With the local channel selected, the tower is never contacted,
  even if a clearance client is configured, and the client's state is untouched.
\<close>

theorem local_never_contacts_tower:
  assumes "sel_channel (pl_channel cp) = LOCAL_TERMINAL"
  shows "asked (snd (handle cp r w)) = asked w \<and> w_client (snd (handle cp r w)) = w_client w"
  using keepsD [OF handle_untold, of cp r w "fst (handle cp r w)" "snd (handle cp r w)"] assms
  by (simp_all add: tower_channel_def untold_def)

theorem local_never_contacts_tower_witness:
  "asked (snd (handle (demo_plane\<lparr>pl_channel := select_channel MOBILE_SIGNED LOCAL_TERMINAL\<rparr>)
     (demo_request None) (demo_world None))) = 0"
  using local_never_contacts_tower [of "demo_plane\<lparr>pl_channel := select_channel MOBILE_SIGNED LOCAL_TERMINAL\<rparr>"
      "demo_request None" "demo_world None"] by (simp add: asked_def)

text \<open>
  C3 (the tower's clearance). On the mobile channel with the ACT verifier, a request that needs
  approval reaches the provider only if the client, asked in the state it was in, returned a CLEARED
  response that is bound to a clearance request for this very action, had not expired when the
  control plane read its clock, comes from the configured tower and carries a proof that the proof
  verifier accepts.
\<close>

theorem tower_execution_proved:
  assumes "tower_channel cp" "pl_clearance_verifier cp = Some (verify_clearance sha512 v)"
    and "requires_approval (plane_decision cp r)" "executions (snd (handle cp r w)) \<noteq> executions w"
  shows "\<exists>call q resp s now. pl_client cp = Some call \<and> call q (pl_timeout cp) (w_client w) = (Inr resp, s) \<and>
     reads cp w now \<and> cp_status resp = CLEARED \<and> clearance_bound q resp \<and>
     cq_session_id q = rq_session_id r \<and> cq_target q = rq_target_id r \<and>
     cq_provider q = ad_provider_id (pl_provider cp) \<and> cq_capability q = rq_capability_id r \<and>
     cq_audit_correlation_id q = rq_correlation_id r \<and>
     (\<exists>t. cp_expires_at resp = Some t \<and> instant now < instant t) \<and>
     cp_tower_id resp = Some (JStr (av_tower_id v)) \<and> cp_proof resp \<noteq> None \<and>
     verify_proof sha512 (av_proof_verifier v) q resp = Inr True"
proof -
  have h: "handle cp r w = (fst (handle cp r w), snd (handle cp r w))" by simp
  obtain c where "tower_authority cp r c (plane_decision cp r) w"
    using handle_facts [OF h] assms(1,3,4) by (auto simp: quiet_def outcome_def)
  then obtain call q resp s ver now rid where
      call: "pl_client cp = Some call" "call q (pl_timeout cp) (w_client w) = (Inr resp, s)" "reads cp w now"
    and st: "cp_status resp = CLEARED" and q: "build_clearance_request (pl_sha256 cp) (rq_session_id r) (rq_target_id r)
          (ad_provider_id (pl_provider cp)) (rq_capability_id r) (rq_parameters r)
          (clearance_risk_family_for_capability (Some c)) (pr_reason (plane_decision cp r))
          (pr_material_risks (plane_decision cp r))
          (rq_intended_effect r) (actor_id (rq_requester r)) (rq_correlation_id r)
          [(''decision'', PStr (decision_value (pr_decision (plane_decision cp r))))] now (pl_timeout cp) rid
          (pl_act_parity cp) = Inr q"
    and v: "verify_clearance sha512 v q resp now = Inr ver" "cv_valid ver"
    unfolding tower_authority_def using assms(2) by auto
  note b = build_clearance_request_Inr [OF q] and f = verify_clearance_valid [OF v]
  from call st b(4-8) f(1-5,7) show ?thesis by blast
qed

theorem tower_execution_proved_witness:
  "\<exists>q resp now. cp_status resp = CLEARED \<and> clearance_bound q resp \<and> cq_target q = ''t'' \<and>
     cq_capability q = ''power.force_off'' \<and> (\<exists>t. cp_expires_at resp = Some t \<and> instant now < instant t)"
proof -
  have "executions (snd (handle demo_tower_plane (demo_request None) (demo_world None))) \<noteq> executions (demo_world None)"
    by (simp add: demo_tower_run)
  from tower_execution_proved [OF _ _ _ this] show ?thesis by simp blast
qed

end
