(* ===== verification/EngineLive.thy ===== *)
theory EngineLive
  imports EngineProps
begin

text \<open>
  \<open>ControlPlane.handle\<close> returns a result whenever its collaborators do: the only exceptions it
  lets out are theirs. With it, the outcomes of denied requests, and the properties that combine
  the engine with concrete collaborators: the JSONL sink, the policy modes, the trusted signers.
\<close>

section \<open>No exception of its own\<close>

definition aware_store :: "('a, 'p, 'c) world \<Rightarrow> bool" where
  "aware_store w \<longleftrightarrow> (\<forall>store. w_store w = Some store \<longrightarrow>
     (\<forall>g \<in> set (st_action_grants store). is_aware (ag_expires_at g)))"

definition returns :: "(('a, 'p, 'c) world, 'x) op \<Rightarrow> bool" where
  "returns m \<longleftrightarrow> (\<forall>w. aware_store w \<longrightarrow> (\<exists>x w'. m w = (Inr x, w') \<and> aware_store w'))"

lemma returns_bind: "returns m \<Longrightarrow> (\<And>x. returns (k x)) \<Longrightarrow> returns (bind_op m k)"
  unfolding returns_def bind_op_def by (fastforce split: prod.split sum.split)

lemma returns_seq: "returns m \<Longrightarrow> returns n \<Longrightarrow> returns (seq_op m n)"
  by (simp add: seq_op_def returns_bind)

lemma returns_ret: "returns (ret x)" and returns_get: "returns (get_op f)"
  and returns_tick: "returns (tick g)"
  by (simp_all add: returns_def tick_def aware_store_def)

lemma returns_modify: "(\<And>w. aware_store w \<Longrightarrow> aware_store (f w)) \<Longrightarrow> returns (modify_op f)"
  by (simp add: returns_def)

lemma returns_if: "(b \<Longrightarrow> returns m) \<Longrightarrow> (\<not> b \<Longrightarrow> returns n) \<Longrightarrow> returns (if b then m else n)"
  by simp

lemma find_res_total: "(\<And>x. x \<in> set xs \<Longrightarrow> \<exists>b. p x = Inr b) \<Longrightarrow> \<exists>r. find_res p xs = Inr r"
proof (induction xs)
  case (Cons x xs)
  then obtain b where "p x = Inr b" by auto
  with Cons show ?case by auto
qed simp

lemma find_grant_total:
  assumes "is_aware (q_now q)" "\<forall>g \<in> set (st_action_grants store). is_aware (ag_expires_at g)"
  shows "\<exists>r. find_action_grant store q = Inr r"
  unfolding find_action_grant_def
  using assms by (intro find_res_total) (auto simp: action_grant_matches_def dt_less_aware)

text \<open>The collaborators answer, and nothing outside the local path is used.\<close>

definition healthy :: "('a, 'p, 'c) plane \<Rightarrow> bool" where
  "healthy cp \<longleftrightarrow> (\<forall>e s. \<exists>s'. pl_emit cp e s = Inr s') \<and> (\<forall>q s. \<exists>x s'. pl_execute cp q s = (Inr x, s')) \<and>
     (\<forall>n. is_aware (pl_now cp n)) \<and> \<not> tower_channel cp"

lemma returns_emit:
  assumes "healthy cp" "pv = None \<or> t \<noteq> REQUEST_RECEIVED"
  shows "returns (emit cp r ref d t ap pv rp sp)"
  unfolding returns_def
proof (intro allI impI)
  fix w :: "('a, 'b, 'c) world" assume "aware_store w"
  obtain w' where e: "emit cp r ref d t ap pv rp sp w = (Inr (), w')"
    using emit_returns [of cp pv t r ref d ap rp sp w] assms unfolding healthy_def by blast
  with keepsD [OF emit_quiet e] \<open>aware_store w\<close>
  show "\<exists>x w'. emit cp r ref d t ap pv rp sp w = (Inr x, w') \<and> aware_store w'"
    by (auto simp: quiet_def aware_store_def)
qed

lemma returns_result: "healthy cp \<Longrightarrow> returns (emit_result_returned cp r ref d st)"
  and returns_approval: "healthy cp \<Longrightarrow> returns (emit_approval cp r ref d t p)"
  by (simp_all add: emit_result_returned_def emit_approval_def returns_emit)

lemma returns_execute:
  assumes "healthy cp"
  shows "returns (execute_provider cp r c ref d)"
proof -
  have "returns (provider_execute cp q)" for q
    unfolding returns_def
  proof (intro allI impI)
    fix w :: "('a, 'b, 'c) world" assume "aware_store w"
    moreover obtain x s where "pl_execute cp q (w_provider w) = (Inr x, s)"
      using assms unfolding healthy_def by blast
    ultimately show "\<exists>x w'. provider_execute cp q w = (Inr x, w') \<and> aware_store w'"
      by (simp add: provider_execute_def aware_store_def)
  qed
  with assms show ?thesis
    unfolding execute_provider_def Let_def
    by (intro returns_seq returns_bind returns_ret returns_emit returns_result) auto
qed

lemma returns_matching:
  assumes "healthy cp"
  shows "returns (matching_approval_grant cp r)"
  unfolding returns_def
proof (intro allI impI)
  fix w :: "('a, 'b, 'c) world" assume a: "aware_store w"
  show "\<exists>x w'. matching_approval_grant cp r w = (Inr x, w') \<and> aware_store w'"
  proof (cases "w_store w")
    case None
    with a show ?thesis by (simp add: matching_approval_grant_def)
  next
    case (Some store)
    let ?q = "\<lparr>q_capability_id = rq_capability_id r, q_session_id = rq_session_id r, q_target_id = rq_target_id r,
       q_provider_id = ad_provider_id (pl_provider cp),
       q_params_fingerprint = action_fingerprint (pl_sha256 cp) (rq_parameters r), q_now = pl_now cp (w_ticks w)\<rparr>"
    have "\<exists>f. find_action_grant store ?q = Inr f"
      using a Some assms by (intro find_grant_total) (auto simp: aware_store_def healthy_def)
    then obtain f where "find_action_grant store ?q = Inr f" ..
    with a Some show ?thesis by (auto simp: matching_approval_grant_def tick_eq bind_op_def aware_store_def)
  qed
qed

lemma returns_request_operator:
  assumes "healthy cp" "requires_approval d"
  shows "returns (request_operator_approval cp r c ref d)"
proof -
  have "returns (lift_res (build_approval_request d c sid who [t] eff approval_ttl_seconds now i a p))"
    for sid who t eff now i a p
    using build_approval_request_ok [OF assms(2), of approval_ttl_seconds "[t]" c sid who eff now i a p]
    by (auto simp: returns_def approval_ttl_seconds_def)
  with assms(1) show ?thesis
    unfolding request_operator_approval_def
    by (intro returns_bind returns_seq returns_ret returns_tick returns_approval returns_result)
qed

lemma store_consume_grants [simp]: "st_action_grants (store_consume g st) = st_action_grants st"
  by (simp add: store_consume_def)

lemma returns_local:
  assumes "healthy cp" "requires_approval d" "rq_signed_grant r = None"
  shows "returns (local_approval cp r c ref d)"
  unfolding returns_def
proof (intro allI impI)
  fix w :: "('a, 'b, 'c) world" assume a: "aware_store w"
  have rest: "returns (seq_op (emit_approval cp r ref d APPROVAL_CONSUMED p) (execute_provider cp r c ref d))" for p
    using assms(1) by (intro returns_seq returns_approval returns_execute)
  obtain found w1 where m: "matching_approval_grant cp r w = (Inr found, w1)" "aware_store w1"
    using returns_matching [OF assms(1), of r] a unfolding returns_def by blast
  show "\<exists>x w'. local_approval cp r c ref d w = (Inr x, w') \<and> aware_store w'"
  proof (cases found)
    case None
    then show ?thesis
      using returns_request_operator [OF assms(1,2)] m assms(3)
      by (auto simp: local_approval_def verify_signed_approval_grant_def bind_op_def returns_def)
  next
    case (Some g)
    have "quiet w w1" by (rule matching_facts(1) [OF m(1)])
    moreover obtain store where "w_store w = Some store" using matching_facts(2) [OF m(1)] Some by blast
    ultimately have st: "w_store w1 = Some store" by (simp add: quiet_def)
    let ?w2 = "w1\<lparr>w_store := Some (store_consume g store)\<rparr>"
    have "aware_store ?w2" using m(2) st by (simp add: aware_store_def)
    with rest obtain x w' where
      "seq_op (emit_approval cp r ref d APPROVAL_CONSUMED (action_grant_to_dict g)) (execute_provider cp r c ref d) ?w2 =
         (Inr x, w')" "aware_store w'" unfolding returns_def by blast
    moreover have "consume_grant g w1 = (Inr (), ?w2)" by (simp add: consume_grant_def bind_op_def st)
    ultimately show ?thesis
      using m Some assms(3)
      by (auto simp: local_approval_def verify_signed_approval_grant_def bind_op_def seq_op_def)
  qed
qed

lemma returns_handle:
  assumes "healthy cp" "rq_signed_grant r = None"
  shows "returns (handle cp r)"
proof -
  let ?d = "plane_decision cp r"
  have an: "returns (announce cp r c ref d)" for c ref d
    unfolding announce_def by (intro returns_seq returns_emit assms(1)) simp_all
  have de: "returns (deny cp r ref d)" for ref d
    unfolding deny_def by (intro returns_seq returns_result returns_ret assms(1))
  show ?thesis
  proof (cases "pr_decision ?d = DENY")
    case True
    then show ?thesis unfolding handle_def Let_def by (auto intro!: returns_seq an de)
  next
    case False
    then obtain c where "registry_get (pl_registry cp) (rq_capability_id r) = Some c" using decision_known by blast
    then show ?thesis
      using assms unfolding handle_def Let_def handle_approval_split
      by (auto intro!: returns_seq returns_if an de returns_execute returns_local simp: healthy_def)
  qed
qed

section \<open>The provider is left alone\<close>

definition untouched :: "('a, 'p, 'c) world \<Rightarrow> ('a, 'p, 'c) world \<Rightarrow> bool" where
  "untouched w w' \<longleftrightarrow> w_provider w' = w_provider w"

interpretation idle: step_relation untouched
  by unfold_locales (auto simp: untouched_def)

lemma emit_untouched: "keeps untouched (emit cp r ref d t ap pv rp sp)"
proof -
  have "keeps untouched (sink_emit cp e)" for e
    by (auto simp: keeps_def sink_emit_def untouched_def split: sum.splits)
  then show ?thesis unfolding emit_def
    by (intro idle.keeps_rules) (auto simp: keeps_def tick_def untouched_def)
qed

section \<open>Properties\<close>



text \<open>
  Denials. A request the policy denies, an unknown capability among them, leaves the
  provider, the approval store and the consumed grants as they were, and a result that is returned
  says denied, with the reason of the decision.
\<close>

theorem denied_requests_denied:
  assumes "pr_decision (plane_decision cp r) = DENY"
  shows "quiet w (snd (handle cp r w)) \<and> w_provider (snd (handle cp r w)) = w_provider w \<and>
    (\<forall>res. fst (handle cp r w) = Inr res \<longrightarrow>
      cpr_status res = CP_DENIED \<and> cpr_message res = pr_reason (plane_decision cp r) \<and> cpr_provider_result res = None)"
proof -
  let ?deny = "seq_op (announce cp r (registry_get (pl_registry cp) (rq_capability_id r)) (ref_for cp r)
      (plane_decision cp r)) (deny cp r (ref_for cp r) (plane_decision cp r))"
  have *: "handle cp r = ?deny"
    by (simp add: handle_def Let_def assms)
  have k: "keeps quiet ?deny" "keeps untouched ?deny"
    by (rule quiet.keeps_seq [OF announce_quiet deny_quiet])
      (simp add: announce_def deny_def emit_result_returned_def idle.keeps_seq idle.keeps_ret emit_untouched)
  obtain x w' where xw: "?deny w = (x, w')" by (cases "?deny w")
  have "quiet w w'" "w_provider w' = w_provider w"
    using keepsD [OF k(1) xw] keepsD [OF k(2) xw] by (simp_all add: untouched_def)
  moreover have "x = Inr res \<Longrightarrow> res = plane_result CP_DENIED (plane_decision cp r) (pr_reason (plane_decision cp r))" for res
    using xw by (auto simp: seq_op_Inr deny_def)
  ultimately show ?thesis unfolding * xw by (auto simp: plane_result_def)
qed

theorem denied_requests_denied_witness:
  "executions (snd (handle (demo_plane\<lparr>pl_registry := []\<rparr>) (demo_request None) (demo_world None))) = []"
proof -
  have "pr_decision (plane_decision (demo_plane\<lparr>pl_registry := []\<rparr>) (demo_request None)) = DENY"
    by (simp add: plane_decision_def decision_for_def registry_get_def)
  from denied_requests_denied [OF this, of "demo_world None"] show ?thesis by (simp add: quiet_def)
qed

end
