(* ===== verification/AuditStore.thy ===== *)
theory AuditStore
  imports AuditLog
begin

text \<open>
  What is built on the audit chain: checkpoints that detect a truncated log
  (\<open>audit_checkpoint.py\<close>), the retention policy (\<open>audit_retention.py\<close>) and export bundles
  (\<open>audit_export.py\<close>). A log file is the list of its lines, or \<open>None\<close> when it does not exist.
\<close>

section \<open>Reading JSON objects\<close>

definition need_str :: "exn_class \<Rightarrow> jobject \<Rightarrow> string \<Rightarrow> string res" where
  "need_str c d key =
     (case rget d key of
        JStr s \<Rightarrow> if s = [] then raise c (key @ '' is required'') else Inr s
      | _ \<Rightarrow> raise c (key @ '' is required''))"

text \<open>In Python \<open>True\<close> and \<open>False\<close> are integers; they are read as 1 and 0.\<close>

definition need_int :: "exn_class \<Rightarrow> jobject \<Rightarrow> string \<Rightarrow> int res" where
  "need_int c d key =
     (case rget d key of
        JInt i \<Rightarrow> Inr i
      | JBool b \<Rightarrow> Inr (if b then 1 else 0)
      | _ \<Rightarrow> raise c (key @ '' must be an integer''))"

fun optional_str :: "json \<Rightarrow> string option res" where
  "optional_str JNull = Inr None"
| "optional_str (JStr s) = Inr (Some s)"
| "optional_str v = raise AuditCheckpointError ''optional checkpoint string fields must be strings''"

definition datetime_from_value :: "json \<Rightarrow> datetime res" where
  "datetime_from_value v =
     (case v of
        JStr s \<Rightarrow>
          if s = [] then raise AuditCheckpointError ''created_at must be an ISO datetime string''
          else bind_res (fromisoformat s) (\<lambda>t.
            Inr (case t of Aware i off \<Rightarrow> Aware i off | Naive w i \<Rightarrow> Aware w 0))
      | _ \<Rightarrow> raise AuditCheckpointError ''created_at must be an ISO datetime string'')"

definition json_mapping :: "string \<Rightarrow> json \<Rightarrow> params res" where
  "json_mapping name v =
     (case v of JObj kvs \<Rightarrow> Inr (map (\<lambda>(k, x). (k, pyval_of_json x)) kvs)
      | _ \<Rightarrow> raise AuditCheckpointError (name @ '' must be an object''))"

text \<open>\<open>json.loads(json.dumps(v, sort_keys=True))\<close>\<close>

definition json_safe :: "params \<Rightarrow> jobject res" where
  "json_safe v =
     (if py_serializable (pdict v)
      then Inr (case canon (act_json (pdict v)) of JObj kvs \<Rightarrow> kvs | _ \<Rightarrow> [])
      else raise TypeError ''Object is not JSON serializable'')"

fun read_records :: "exn_class \<Rightarrow> log_line list \<Rightarrow> jobject list res" where
  "read_records c [] = Inr []"
| "read_records c (BlankLine # ls) = read_records c ls"
| "read_records c (JsonLine (JObj r) # ls) = bind_res (read_records c ls) (\<lambda>rs. Inr (r # rs))"
| "read_records c (JsonLine v # ls) = raise c ''audit record must be an object''"
| "read_records c (BadLine # ls) = raise JSONDecodeError ''Expecting value''"

definition read_file :: "exn_class \<Rightarrow> log_line list option \<Rightarrow> jobject list res" where
  "read_file c file = (case file of None \<Rightarrow> Inr [] | Some ls \<Rightarrow> read_records c ls)"

section \<open>Checkpoints\<close>

record audit_checkpoint =
  ck_id :: string
  ck_audit_log_id :: string
  ck_last_event_index :: int
  ck_event_count :: int
  ck_last_event_hash :: "string option"
  ck_created_at :: datetime
  ck_previous_hash :: "string option"
  ck_metadata :: params
  ck_hash :: "string option"
  ck_redactions :: "string list"

definition unsigned_checkpoint :: "audit_checkpoint \<Rightarrow> params" where
  "unsigned_checkpoint c =
     [(''checkpoint_id'', PStr (ck_id c)), (''audit_log_id'', PStr (ck_audit_log_id c)),
      (''last_event_index'', PInt (ck_last_event_index c)), (''event_count'', PInt (ck_event_count c)),
      (''last_event_hash'', pyopt (ck_last_event_hash c)),
      (''created_at'', PStr (isoformat (ck_created_at c))),
      (''previous_checkpoint_hash'', pyopt (ck_previous_hash c)),
      (''metadata'', pdict (ck_metadata c)),
      (''redactions'', pystrs (sort (remdups (ck_redactions c))))]"

definition checkpoint_hash :: "(string \<Rightarrow> string) \<Rightarrow> audit_checkpoint \<Rightarrow> string" where
  "checkpoint_hash H c = hash_mapping H (act_json (pdict (unsigned_checkpoint c)))"

definition make_checkpoint :: "(string \<Rightarrow> string) \<Rightarrow> audit_checkpoint \<Rightarrow> audit_checkpoint res" where
  "make_checkpoint H c =
     (if ck_id c = [] then raise AuditCheckpointError ''checkpoint_id is required''
      else if ck_audit_log_id c = [] then raise AuditCheckpointError ''audit_log_id is required''
      else if ck_event_count c < 0 then raise AuditCheckpointError ''event_count cannot be negative''
      else if ck_last_event_index c \<noteq> ck_event_count c - 1
      then raise AuditCheckpointError ''last_event_index must match event_count''
      else if ck_event_count c = 0 \<and> ck_last_event_hash c \<noteq> None
      then raise AuditCheckpointError ''empty checkpoint cannot have last_event_hash''
      else if ck_event_count c > 0 \<and> ck_last_event_hash c \<in> {None, Some []}
      then raise AuditCheckpointError ''non-empty checkpoint requires last_event_hash''
      else (case redact_mapping None (ck_metadata c) of (safe, paths) \<Rightarrow>
        let c' = c\<lparr>ck_metadata := safe, ck_redactions := ck_redactions c @ prefixed ''metadata'' paths\<rparr>;
            expected = checkpoint_hash H c'
        in (case ck_hash c' of
              None \<Rightarrow> Inr (c'\<lparr>ck_hash := Some expected\<rparr>)
            | Some h \<Rightarrow>
                if h \<noteq> expected then raise AuditCheckpointError ''checkpoint_hash does not match content''
                else Inr c')))"

definition checkpoint_from_dict :: "(string \<Rightarrow> string) \<Rightarrow> jobject \<Rightarrow> audit_checkpoint res" where
  "checkpoint_from_dict H d =
     bind_res (need_str AuditCheckpointError d ''checkpoint_id'') (\<lambda>cid.
     bind_res (need_str AuditCheckpointError d ''audit_log_id'') (\<lambda>log_id.
     bind_res (need_int AuditCheckpointError d ''last_event_index'') (\<lambda>index.
     bind_res (need_int AuditCheckpointError d ''event_count'') (\<lambda>count.
     bind_res (optional_str (rget d ''last_event_hash'')) (\<lambda>last_hash.
     bind_res (datetime_from_value (rget d ''created_at'')) (\<lambda>created.
     bind_res (optional_str (rget d ''previous_checkpoint_hash'')) (\<lambda>previous.
     bind_res (json_mapping ''metadata'' (get_or (JObj d) ''metadata'' (JObj []))) (\<lambda>metadata.
     bind_res (need_str AuditCheckpointError d ''checkpoint_hash'') (\<lambda>h.
     bind_res (json_iter (get_or (JObj d) ''redactions'' (JArr []))) (\<lambda>redactions.
     make_checkpoint H
       \<lparr>ck_id = cid, ck_audit_log_id = log_id, ck_last_event_index = index, ck_event_count = count,
        ck_last_event_hash = last_hash, ck_created_at = created, ck_previous_hash = previous,
        ck_metadata = metadata, ck_hash = Some h, ck_redactions = map json_str redactions\<rparr>))))))))))"

definition checkpoint_to_dict :: "audit_checkpoint \<Rightarrow> jobject res" where
  "checkpoint_to_dict c =
     json_safe (unsigned_checkpoint c @ [(''checkpoint_hash'', pyopt (ck_hash c))])"

record checkpoint_verification =
  kv_ok :: bool
  kv_reason :: string
  kv_audit_log_id :: string
  kv_checkpoint_id :: string
  kv_event_count :: nat
  kv_last_event_hash :: "string option"
  kv_chain_verified :: bool

definition checkpoint_verification_to_dict :: "checkpoint_verification \<Rightarrow> params" where
  "checkpoint_verification_to_dict v =
     [(''ok'', PBool (kv_ok v)), (''reason'', PStr (kv_reason v)),
      (''audit_log_id'', PStr (kv_audit_log_id v)), (''checkpoint_id'', PStr (kv_checkpoint_id v)),
      (''event_count'', PInt (int (kv_event_count v))),
      (''last_event_hash'', pyopt (kv_last_event_hash v)),
      (''chain_verified'', PBool (kv_chain_verified v))]"

text \<open>\<open>_last_event_hash\<close>: the hash of the last record, when it is a string.\<close>

definition last_hash_of :: "jobject list \<Rightarrow> string option" where
  "last_hash_of rs =
     (if rs = [] then None else (case rget (last rs) ''event_hash'' of JStr s \<Rightarrow> Some s | _ \<Rightarrow> None))"

definition create_audit_checkpoint ::
    "(string \<Rightarrow> string) \<Rightarrow> log_line list option \<Rightarrow> string \<Rightarrow> params \<Rightarrow> string option \<Rightarrow> string \<Rightarrow>
     datetime \<Rightarrow> audit_checkpoint res" where
  "create_audit_checkpoint H file audit_log_id metadata previous checkpoint_id now =
     bind_res (read_file AuditCheckpointError file) (\<lambda>rs.
     bind_res (verify_audit_chain H file) (\<lambda>ok.
     if \<not> ok then raise AuditCheckpointError ''cannot checkpoint malformed audit chain''
     else
       bind_res (if rs = [] then Inr None
                 else (case rget (last rs) ''event_hash'' of
                         JStr s \<Rightarrow> Inr (Some s)
                       | JNull \<Rightarrow> Inr None
                       | _ \<Rightarrow> raise AuditCheckpointError ''last event hash must be a string'')) (\<lambda>h.
       make_checkpoint H
         \<lparr>ck_id = checkpoint_id, ck_audit_log_id = audit_log_id,
          ck_last_event_index = int (length rs) - 1, ck_event_count = int (length rs),
          ck_last_event_hash = h, ck_created_at = now, ck_previous_hash = previous,
          ck_metadata = metadata, ck_hash = None, ck_redactions = []\<rparr>)))"

definition checkpoint_verification_of ::
    "(string \<Rightarrow> string) \<Rightarrow> audit_checkpoint \<Rightarrow> jobject list \<Rightarrow> bool \<Rightarrow> string \<Rightarrow> checkpoint_verification" where
  "checkpoint_verification_of H c rs ok reason =
     \<lparr>kv_ok = ok, kv_reason = reason, kv_audit_log_id = ck_audit_log_id c, kv_checkpoint_id = ck_id c,
      kv_event_count = length rs, kv_last_event_hash = last_hash_of rs,
      kv_chain_verified = verify_audit_chain_records H rs\<rparr>"

text \<open>The checkpoint is given as an object or as a payload still to be parsed.\<close>

datatype checkpoint_arg = Parsed audit_checkpoint | Payload jobject

definition parse_arg :: "(string \<Rightarrow> string) \<Rightarrow> checkpoint_arg \<Rightarrow> audit_checkpoint res" where
  "parse_arg H a = (case a of Parsed c \<Rightarrow> Inr c | Payload d \<Rightarrow> checkpoint_from_dict H d)"

definition failed_verification :: "checkpoint_arg \<Rightarrow> exn \<Rightarrow> checkpoint_verification" where
  "failed_verification a e =
     \<lparr>kv_ok = False, kv_reason = ''checkpoint verification failed: '' @ exn_name e,
      kv_audit_log_id = (case a of Parsed c \<Rightarrow> ck_audit_log_id c | Payload d \<Rightarrow> str_get d ''audit_log_id'' ''unknown''),
      kv_checkpoint_id = (case a of Parsed c \<Rightarrow> ck_id c | Payload d \<Rightarrow> str_get d ''checkpoint_id'' ''unknown''),
      kv_event_count = 0, kv_last_event_hash = None, kv_chain_verified = False\<rparr>"

definition check_records ::
    "(string \<Rightarrow> string) \<Rightarrow> audit_checkpoint \<Rightarrow> jobject list \<Rightarrow> checkpoint_verification" where
  "check_records H c rs =
     (if int (length rs) < ck_event_count c
      then checkpoint_verification_of H c rs False ''audit log tail truncated''
      else if ck_event_count c = 0 then checkpoint_verification_of H c rs True ''checkpoint verified''
      else if rget (rs ! nat (ck_last_event_index c)) ''event_hash'' \<noteq>
              (case ck_last_event_hash c of None \<Rightarrow> JNull | Some h \<Rightarrow> JStr h)
      then checkpoint_verification_of H c rs False ''checkpoint event hash mismatch''
      else checkpoint_verification_of H c rs True ''checkpoint verified'')"

definition verify_audit_checkpoint ::
    "(string \<Rightarrow> string) \<Rightarrow> log_line list option \<Rightarrow> checkpoint_arg \<Rightarrow> checkpoint_verification" where
  "verify_audit_checkpoint H file a =
     (case bind_res (parse_arg H a) (\<lambda>c.
           bind_res (read_file AuditCheckpointError file) (\<lambda>rs.
           bind_res (verify_audit_chain H file) (\<lambda>ok.
             Inr (if \<not> ok then checkpoint_verification_of H c rs False ''audit chain failed''
                  else check_records H c rs)))) of
        Inr v \<Rightarrow> v
      | Inl e \<Rightarrow> failed_verification a e)"

section \<open>Retention\<close>

record retention_policy =
  rp_id :: string
  rp_max_event_count :: "int option"
  rp_max_log_bytes :: "int option"
  rp_max_age_days :: "int option"
  rp_requires_checkpoint :: bool
  rp_requires_archive :: bool
  rp_allow_silent_deletion :: bool
  rp_archive_metadata :: params
  rp_redactions :: "string list"

definition not_positive :: "int option \<Rightarrow> bool" where
  "not_positive v = (case v of None \<Rightarrow> False | Some i \<Rightarrow> i \<le> 0)"

definition make_retention_policy :: "retention_policy \<Rightarrow> retention_policy res" where
  "make_retention_policy p =
     (if rp_id p = [] then raise AuditRetentionPolicyError ''policy_id is required''
      else if not_positive (rp_max_event_count p)
      then raise AuditRetentionPolicyError ''max_event_count must be positive''
      else if not_positive (rp_max_log_bytes p)
      then raise AuditRetentionPolicyError ''max_log_bytes must be positive''
      else if not_positive (rp_max_age_days p)
      then raise AuditRetentionPolicyError ''max_age_days must be positive''
      else if rp_allow_silent_deletion p
      then raise AuditRetentionPolicyError ''silent audit deletion is not allowed''
      else if \<not> rp_requires_checkpoint p \<and> \<not> rp_requires_archive p
      then raise AuditRetentionPolicyError ''rotation requires checkpoint or verified archive''
      else (case redact_mapping None (rp_archive_metadata p) of (safe, paths) \<Rightarrow>
        Inr (p\<lparr>rp_archive_metadata := safe,
               rp_redactions := rp_redactions p @ prefixed ''archive_metadata'' paths\<rparr>)))"

record rotation_decision =
  rd_ok :: bool
  rd_reason :: string
  rd_policy_id :: string

definition rotation_decision :: "retention_policy \<Rightarrow> bool \<Rightarrow> bool \<Rightarrow> rotation_decision" where
  "rotation_decision p checkpoint_verified archive_verified =
     (if rp_requires_checkpoint p \<and> \<not> checkpoint_verified
      then \<lparr>rd_ok = False, rd_reason = ''rotation requires verified checkpoint'', rd_policy_id = rp_id p\<rparr>
      else if rp_requires_archive p \<and> \<not> archive_verified
      then \<lparr>rd_ok = False, rd_reason = ''rotation requires verified archive'', rd_policy_id = rp_id p\<rparr>
      else \<lparr>rd_ok = True, rd_reason = ''rotation allowed after verification'', rd_policy_id = rp_id p\<rparr>)"

definition rotation_decision_to_dict :: "rotation_decision \<Rightarrow> params" where
  "rotation_decision_to_dict d =
     [(''ok'', PBool (rd_ok d)), (''reason'', PStr (rd_reason d)), (''policy_id'', PStr (rd_policy_id d))]"

definition pyint_opt :: "int option \<Rightarrow> pyval" where
  "pyint_opt v = (case v of None \<Rightarrow> PNone | Some i \<Rightarrow> PInt i)"

definition retention_to_dict :: "retention_policy \<Rightarrow> jobject res" where
  "retention_to_dict p = json_safe
     [(''policy_id'', PStr (rp_id p)), (''max_event_count'', pyint_opt (rp_max_event_count p)),
      (''max_log_bytes'', pyint_opt (rp_max_log_bytes p)), (''max_age_days'', pyint_opt (rp_max_age_days p)),
      (''rotation_requires_checkpoint'', PBool (rp_requires_checkpoint p)),
      (''rotation_requires_verified_archive'', PBool (rp_requires_archive p)),
      (''allow_silent_deletion'', PBool (rp_allow_silent_deletion p)),
      (''archive_metadata'', pdict (rp_archive_metadata p)),
      (''redactions'', pystrs (sort (remdups (rp_redactions p))))]"

section \<open>Export bundles\<close>

definition EXPORT_VERSION :: string where
  "EXPORT_VERSION = ''agentickvm.audit.export.v1''"

definition verify_checkpoint_records ::
    "(string \<Rightarrow> string) \<Rightarrow> jobject list \<Rightarrow> jobject \<Rightarrow> bool res" where
  "verify_checkpoint_records H rs d =
     bind_res (checkpoint_from_dict H d) (\<lambda>c. Inr
       (if int (length rs) < ck_event_count c then False
        else if ck_event_count c = 0 then True
        else rget (rs ! nat (ck_last_event_index c)) ''event_hash'' =
             (case ck_last_event_hash c of None \<Rightarrow> JNull | Some h \<Rightarrow> JStr h)))"

definition list_length :: "json \<Rightarrow> int" where
  "list_length v = (case v of JArr xs \<Rightarrow> int (length xs) | _ \<Rightarrow> 0)"

definition redaction_summary :: "jobject list \<Rightarrow> jobject option \<Rightarrow> params" where
  "redaction_summary rs checkpoint =
     [(''record_redaction_count'', PInt (sum_list (map (\<lambda>r.
         case rget r ''event'' of JObj e \<Rightarrow> list_length (rget e ''redactions'') | _ \<Rightarrow> 0) rs))),
      (''checkpoint_redaction_count'', PInt (case checkpoint of
         None \<Rightarrow> 0 | Some c \<Rightarrow> list_length (rget c ''redactions'')))]"

definition export_audit_log ::
    "(string \<Rightarrow> string) \<Rightarrow> log_line list option \<Rightarrow> string \<Rightarrow> checkpoint_arg option \<Rightarrow> params \<Rightarrow> string \<Rightarrow>
     datetime \<Rightarrow> jobject res" where
  "export_audit_log H file audit_log_id checkpoint metadata export_id now =
     bind_res (read_file AuditExportError file) (\<lambda>rs.
     bind_res (case checkpoint of
                 None \<Rightarrow> Inr None
               | Some a \<Rightarrow> bind_res (parse_arg H a) (\<lambda>c.
                   bind_res (checkpoint_to_dict c) (\<lambda>d. Inr (Some d)))) (\<lambda>payload.
     bind_res (case payload of None \<Rightarrow> Inr False | Some d \<Rightarrow> verify_checkpoint_records H rs d) (\<lambda>checked.
       (case redact_mapping None
          [(''version'', PStr EXPORT_VERSION), (''export_id'', PStr export_id),
           (''created_at'', PStr (isoformat now)), (''audit_log_id'', PStr audit_log_id),
           (''records'', PList (map (pyval_of_json \<circ> JObj) rs)),
           (''checkpoint'', (case payload of None \<Rightarrow> PNone | Some d \<Rightarrow> pyval_of_json (JObj d))),
           (''chain_verified'', PBool (verify_audit_chain_records H rs)),
           (''checkpoint_verified'', PBool checked), (''record_count'', PInt (int (length rs))),
           (''last_event_hash'', pyopt (last_hash_of rs)),
           (''redaction_summary'', pdict (redaction_summary rs payload)),
           (''metadata'', pdict metadata)] of
          (bundle, paths) \<Rightarrow>
            json_safe (dict_set ''redactions'' (pystrs (sort (remdups paths))) bundle)))))"

record export_verification =
  xv_ok :: bool
  xv_reason :: string
  xv_export_id :: string
  xv_audit_log_id :: string
  xv_record_count :: nat
  xv_last_event_hash :: "string option"
  xv_chain_verified :: bool
  xv_checkpoint_verified :: bool

definition records_from_bundle :: "jobject \<Rightarrow> jobject list res" where
  "records_from_bundle b =
     (case rget b ''records'' of
        JArr items \<Rightarrow> map_res (\<lambda>v. case v of JObj r \<Rightarrow> Inr r
                          | _ \<Rightarrow> raise AuditExportError ''export record must be an object'') items
      | _ \<Rightarrow> raise AuditExportError ''records must be a list'')"

definition export_result ::
    "string \<Rightarrow> string \<Rightarrow> jobject list \<Rightarrow> bool \<Rightarrow> string \<Rightarrow> bool \<Rightarrow> bool \<Rightarrow> export_verification" where
  "export_result export_id log_id rs ok reason chain checked =
     \<lparr>xv_ok = ok, xv_reason = reason, xv_export_id = export_id, xv_audit_log_id = log_id,
      xv_record_count = length rs, xv_last_event_hash = last_hash_of rs,
      xv_chain_verified = chain, xv_checkpoint_verified = checked\<rparr>"

definition export_verdict ::
    "(string \<Rightarrow> string) \<Rightarrow> jobject \<Rightarrow> string \<Rightarrow> string \<Rightarrow> jobject list \<Rightarrow> int \<Rightarrow> export_verification res" where
  "export_verdict H b xid lid rs count =
     (if int (length rs) \<noteq> count
      then Inr (export_result xid lid rs False ''audit export record count mismatch'' False False)
      else if \<not> verify_audit_chain_records H rs
      then Inr (export_result xid lid rs False ''audit export chain failed'' False False)
      else if rget b ''last_event_hash'' \<noteq> (case last_hash_of rs of None \<Rightarrow> JNull | Some s \<Rightarrow> JStr s)
      then Inr (export_result xid lid rs False ''audit export last hash mismatch'' True False)
      else (case rget b ''checkpoint'' of
              JNull \<Rightarrow> Inr (export_result xid lid rs True ''audit export verified'' True False)
            | JObj d \<Rightarrow>
                bind_res (verify_checkpoint_records H rs d) (\<lambda>ok. Inr
                  (if ok then export_result xid lid rs True ''audit export verified'' True True
                   else export_result xid lid rs False ''audit export checkpoint failed'' True False))
            | _ \<Rightarrow> raise AuditExportError ''checkpoint must be an object''))"

definition verify_export_body :: "(string \<Rightarrow> string) \<Rightarrow> jobject \<Rightarrow> export_verification res" where
  "verify_export_body H b =
     (if rget b ''version'' \<noteq> JStr EXPORT_VERSION
      then raise AuditExportError ''unsupported audit export version''
      else
        bind_res (need_str AuditExportError b ''export_id'') (\<lambda>xid.
        bind_res (need_str AuditExportError b ''audit_log_id'') (\<lambda>lid.
        bind_res (records_from_bundle b) (\<lambda>rs.
        bind_res (need_int AuditExportError b ''record_count'') (\<lambda>count.
          export_verdict H b xid lid rs count)))))"

definition verify_audit_export :: "(string \<Rightarrow> string) \<Rightarrow> jobject \<Rightarrow> export_verification" where
  "verify_audit_export H b =
     (case verify_export_body H b of
        Inr v \<Rightarrow> v
      | Inl e \<Rightarrow>
          \<lparr>xv_ok = False, xv_reason = ''audit export verification failed: '' @ exn_name e,
           xv_export_id = str_get b ''export_id'' ''unknown'',
           xv_audit_log_id = str_get b ''audit_log_id'' ''unknown'', xv_record_count = 0,
           xv_last_event_hash = None, xv_chain_verified = False, xv_checkpoint_verified = False\<rparr>)"

section \<open>What a verified checkpoint means\<close>

lemma read_records_objects [simp]:
  "read_records c (map (\<lambda>r. JsonLine (JObj r)) rs) = Inr rs"
  by (induction rs) auto

definition checkpoint_sound :: "audit_checkpoint \<Rightarrow> bool" where
  "checkpoint_sound c \<longleftrightarrow>
     ck_id c \<noteq> [] \<and> ck_audit_log_id c \<noteq> [] \<and> 0 \<le> ck_event_count c \<and>
     ck_last_event_index c = ck_event_count c - 1 \<and>
     (ck_event_count c = 0 \<longrightarrow> ck_last_event_hash c = None) \<and>
     (0 < ck_event_count c \<longrightarrow> ck_last_event_hash c \<notin> {None, Some []})"

lemma make_checkpoint_Inr:
  assumes "make_checkpoint H c = Inr k"
  shows "checkpoint_sound k" "ck_event_count k = ck_event_count c"
    "ck_last_event_hash k = ck_last_event_hash c" "ck_hash k \<noteq> None"
    "ck_hash c = None \<or> ck_hash c = ck_hash k" "ck_audit_log_id k = ck_audit_log_id c"
  using assms
  by (auto simp: make_checkpoint_def checkpoint_sound_def Let_def split: if_splits option.splits prod.splits)

lemma checkpoint_hash_ignores_hash [simp]: "checkpoint_hash H (k\<lparr>ck_hash := h\<rparr>) = checkpoint_hash H k"
  by (simp add: checkpoint_hash_def unsigned_checkpoint_def)

lemma make_checkpoint_hash: "make_checkpoint H c = Inr k \<Longrightarrow> ck_hash k = Some (checkpoint_hash H k)"
  by (auto simp: make_checkpoint_def Let_def split: if_splits option.splits prod.splits)

text \<open>The payload a checkpoint was parsed from carries the hash of its content.\<close>

lemma checkpoint_from_dict_hash:
  assumes "checkpoint_from_dict H d = Inr k"
  shows "rget d ''checkpoint_hash'' = JStr (checkpoint_hash H k)" "checkpoint_sound k"
proof -
  obtain c h where c: "make_checkpoint H c = Inr k" "ck_hash c = Some h"
    and h: "need_str AuditCheckpointError d ''checkpoint_hash'' = Inr h"
    using assms by (auto simp: checkpoint_from_dict_def bind_res_Inr_iff)
  have "ck_hash k = Some h" using make_checkpoint_Inr(5) [OF c(1)] c(2) by auto
  then have "h = checkpoint_hash H k" using make_checkpoint_hash [OF c(1)] by simp
  with h show "rget d ''checkpoint_hash'' = JStr (checkpoint_hash H k)"
    by (auto simp: need_str_def split: json.splits if_splits)
  show "checkpoint_sound k" by (rule make_checkpoint_Inr(1) [OF c(1)])
qed

lemma parse_arg_sound: "parse_arg H a = Inr c \<Longrightarrow> a = Payload d \<Longrightarrow> checkpoint_sound c"
  by (simp add: parse_arg_def checkpoint_from_dict_hash(2))

text \<open>
  A checkpoint that verifies: the log is a verified chain with at least the checkpointed number
  of records, and the record at the checkpoint's index has its hash.
\<close>

definition at_checkpoint :: "audit_checkpoint \<Rightarrow> jobject list \<Rightarrow> bool" where
  "at_checkpoint c rs \<longleftrightarrow>
     ck_event_count c \<le> int (length rs) \<and>
     (ck_event_count c \<noteq> 0 \<longrightarrow>
        rget (rs ! nat (ck_last_event_index c)) ''event_hash'' =
          (case ck_last_event_hash c of None \<Rightarrow> JNull | Some h \<Rightarrow> JStr h))"

lemma check_records_ok: "kv_ok (check_records H c rs) \<longleftrightarrow> at_checkpoint c rs"
  by (auto simp: check_records_def at_checkpoint_def checkpoint_verification_of_def)

lemma verify_checkpoint_ok:
  assumes "kv_ok (verify_audit_checkpoint H file (Parsed c))"
  shows "\<exists>rs. read_file AuditCheckpointError file = Inr rs \<and> verify_records H JNull rs \<and> at_checkpoint c rs"
proof (cases "file")
  case None
  then show ?thesis
    using assms by (auto simp: verify_audit_checkpoint_def parse_arg_def read_file_def
        verify_audit_chain_def check_records_ok)
next
  case (Some ls)
  show ?thesis
  proof (cases "verify_lines H JNull ls")
    case (Inr ok)
    show ?thesis
    proof (cases ok)
      case True
      then obtain rs where "ls = map (\<lambda>r. JsonLine (JObj r)) rs" "verify_records H JNull rs"
        using Inr verify_lines_True [of H JNull ls] by auto
      with assms Some show ?thesis
        by (auto simp: verify_audit_checkpoint_def parse_arg_def read_file_def verify_audit_chain_def
            verify_lines_records check_records_ok)
    next
      case False
      with assms Some Inr show ?thesis
        by (auto simp: verify_audit_checkpoint_def parse_arg_def read_file_def verify_audit_chain_def
            failed_verification_def checkpoint_verification_of_def bind_res_def split: sum.splits)
    qed
  qed (use assms Some in \<open>auto simp: verify_audit_checkpoint_def parse_arg_def read_file_def
            verify_audit_chain_def failed_verification_def bind_res_def split: sum.splits\<close>)
qed

lemma verify_checkpoint_lines:
  "verify_records H JNull rs \<Longrightarrow>
     kv_ok (verify_audit_checkpoint H (Some (map (\<lambda>r. JsonLine (JObj r)) rs)) (Parsed c)) \<longleftrightarrow> at_checkpoint c rs"
  by (simp add: verify_audit_checkpoint_def parse_arg_def read_file_def verify_audit_chain_def
      verify_lines_records check_records_ok)

lemma create_checkpoint_Inr:
  assumes "create_audit_checkpoint H (Some (map (\<lambda>r. JsonLine (JObj r)) rs)) lid m prev cid now = Inr c"
  shows "verify_records H JNull rs" "ck_event_count c = int (length rs)" "checkpoint_sound c"
    "ck_last_event_hash c = last_hash_of rs"
proof -
  obtain k h where k: "make_checkpoint H k = Inr c" "ck_event_count k = int (length rs)" "ck_last_event_hash k = h"
    and v: "verify_records H JNull rs"
    and h: "(if rs = [] then Inr None
        else (case rget (last rs) ''event_hash'' of JStr s \<Rightarrow> Inr (Some s) | JNull \<Rightarrow> Inr None
              | _ \<Rightarrow> raise AuditCheckpointError ''last event hash must be a string'')) = Inr h"
    using assms
    by (auto simp: create_audit_checkpoint_def read_file_def verify_audit_chain_def verify_lines_records
        bind_res_Inr_iff split: if_splits)
  show "verify_records H JNull rs" by (rule v)
  show "ck_event_count c = int (length rs)" "checkpoint_sound c"
    using make_checkpoint_Inr [OF k(1)] k by simp_all
  have "h = last_hash_of rs" using h by (auto simp: last_hash_of_def split: json.splits if_splits)
  then show "ck_last_event_hash c = last_hash_of rs" using make_checkpoint_Inr(3) [OF k(1)] k(3) by simp
qed

lemma last_hash_head: "verify_records H JNull rs \<Longrightarrow> rs \<noteq> [] \<Longrightarrow>
    head_hash JNull rs = JStr (the (last_hash_of rs)) \<and> last_hash_of rs \<noteq> None"
  by (cases rs rule: rev_cases)
    (auto simp: last_hash_of_def verify_records_append verify_records_Cons linked_def
      simp del: verify_records.simps(2))

text \<open>
  The point of a checkpoint: any later log that verifies against it starts with the records it was
  made from, unless two distinct texts with one digest exist.
\<close>

lemma checkpoint_pins_prefix:
  assumes "create_audit_checkpoint H (Some (map (\<lambda>r. JsonLine (JObj r)) rs)) lid m prev cid now = Inr c"
    and "read_file AuditCheckpointError file = Inr ss"
    and "kv_ok (verify_audit_checkpoint H file (Parsed c))"
    and "\<forall>r \<in> set (rs @ ss). record_ok r" "\<not> collision H"
  shows "length rs \<le> length ss" "map content (take (length rs) ss) = map content rs"
proof -
  note k = create_checkpoint_Inr [OF assms(1)]
  have ss: "verify_records H JNull ss" "at_checkpoint c ss"
    using verify_checkpoint_ok [OF assms(3)] assms(2) by auto
  show le: "length rs \<le> length ss" using ss(2) k(2) by (simp add: at_checkpoint_def)
  show "map content (take (length rs) ss) = map content rs"
  proof (cases "rs = []")
    case False
    let ?ss = "take (length rs) ss"
    have v: "verify_records H JNull ?ss"
      using ss(1) verify_records_append [of H JNull ?ss "drop (length rs) ss"] by simp
    have "nat (ck_last_event_index c) = length rs - 1"
      using k(2,3) by (simp add: checkpoint_sound_def nat_diff_distrib)
    then have "rget (ss ! (length rs - 1)) ''event_hash'' = JStr (the (last_hash_of rs))"
      using ss(2) k(2,4) False last_hash_head [OF k(1) False] by (auto simp: at_checkpoint_def)
    moreover have "?ss = take (length rs - 1) ss @ [ss ! (length rs - 1)]"
      using le False by (metis Suc_pred' length_greater_0_conv lessI order_less_le_trans take_Suc_conv_app_nth)
    then have "head_hash JNull ?ss = rget (ss ! (length rs - 1)) ''event_hash''" by (metis head_hash_append)
    ultimately have "head_hash JNull ?ss = head_hash JNull rs" using last_hash_head [OF k(1) False] by simp
    then show ?thesis
      using chain_determined [OF v k(1)] assms(4,5) set_take_subset [of "length rs" ss] by auto
  qed simp
qed

text \<open>A fresh checkpoint verifies on its own log and on every extension of it.\<close>

lemma checkpoint_verifies_extension:
  assumes "create_audit_checkpoint H (Some (map (\<lambda>r. JsonLine (JObj r)) rs)) lid m prev cid now = Inr c"
    and "verify_records H JNull (rs @ ss)"
  shows "kv_ok (verify_audit_checkpoint H (Some (map (\<lambda>r. JsonLine (JObj r)) (rs @ ss))) (Parsed c))"
proof -
  note k = create_checkpoint_Inr [OF assms(1)]
  have "at_checkpoint c (rs @ ss)"
  proof (cases "rs = []")
    case False
    have "nat (ck_last_event_index c) = length rs - 1"
      using k(2,3) by (simp add: checkpoint_sound_def nat_diff_distrib)
    moreover have "(rs @ ss) ! (length rs - 1) = last rs" using False by (simp add: nth_append last_conv_nth)
    moreover have "rget (last rs) ''event_hash'' = head_hash JNull rs"
      using False by (metis append_butlast_last_id head_hash_append)
    ultimately show ?thesis
      using k(2,4) last_hash_head [OF k(1) False] by (auto simp: at_checkpoint_def)
  qed (use k(2) in \<open>simp add: at_checkpoint_def\<close>)
  then show ?thesis using verify_checkpoint_lines [OF assms(2)] by blast
qed

section \<open>Retention and export\<close>

lemma retention_policy_Inr:
  assumes "make_retention_policy p = Inr q"
  shows "\<not> rp_allow_silent_deletion q" "rp_requires_checkpoint q \<or> rp_requires_archive q"
    "rp_id q = rp_id p" "rp_id q \<noteq> []"
  using assms by (auto simp: make_retention_policy_def split: if_splits prod.splits)

lemma rotation_iff:
  "rd_ok (rotation_decision q ck ar) \<longleftrightarrow>
     (rp_requires_checkpoint q \<longrightarrow> ck) \<and> (rp_requires_archive q \<longrightarrow> ar)"
  by (simp add: rotation_decision_def)

lemma rotation_needs_verification:
  "make_retention_policy p = Inr q \<Longrightarrow> rd_ok (rotation_decision q ck ar) \<Longrightarrow> ck \<or> ar"
  using retention_policy_Inr(2) by (auto simp: rotation_iff)

lemma export_result_ok [simp]: "xv_ok (export_result x l rs ok r ch ck) = ok"
  by (simp add: export_result_def)

lemma verify_checkpoint_records_True:
  "verify_checkpoint_records H rs d = Inr True \<longleftrightarrow>
     (\<exists>c. checkpoint_from_dict H d = Inr c \<and> at_checkpoint c rs)"
  by (auto simp: verify_checkpoint_records_def bind_res_Inr_iff at_checkpoint_def)

lemma verify_export_ok:
  assumes "xv_ok (verify_audit_export H b)"
  shows "\<exists>rs. records_from_bundle b = Inr rs \<and> verify_audit_chain_records H rs \<and>
     rget b ''last_event_hash'' = (case last_hash_of rs of None \<Rightarrow> JNull | Some s \<Rightarrow> JStr s) \<and>
     need_int AuditExportError b ''record_count'' = Inr (int (length rs)) \<and>
     (\<forall>d. rget b ''checkpoint'' = JObj d \<longrightarrow>
        (\<exists>c. checkpoint_from_dict H d = Inr c \<and> at_checkpoint c rs))"
proof -
  obtain v where v: "verify_export_body H b = Inr v" "xv_ok v"
    using assms by (auto simp: verify_audit_export_def split: sum.splits)
  then obtain xid lid rs count where rs: "records_from_bundle b = Inr rs"
      "need_int AuditExportError b ''record_count'' = Inr count"
    and rest: "export_verdict H b xid lid rs count = Inr v"
    by (auto simp: verify_export_body_def bind_res_Inr_iff split: if_splits)
  have n: "int (length rs) = count" "verify_audit_chain_records H rs"
    "rget b ''last_event_hash'' = (case last_hash_of rs of None \<Rightarrow> JNull | Some s \<Rightarrow> JStr s)"
    using rest v(2) by (auto simp: export_verdict_def split: if_splits)
  moreover have "\<exists>c. checkpoint_from_dict H d = Inr c \<and> at_checkpoint c rs" if "rget b ''checkpoint'' = JObj d" for d
    using rest v(2) n that
    by (auto simp: export_verdict_def bind_res_Inr_iff verify_checkpoint_records_True [symmetric] split: if_splits)
  ultimately show ?thesis using rs by auto
qed

end
