(* ===== verification/AuditSqlite.thy ===== *)
theory AuditSqlite
  imports AuditStore
begin

text \<open>
  \<open>control_plane/audit_sqlite.py\<close>: the SQLite-backed sink, its verification, listing, inspection,
  export and checkpoints. The table \<open>audit_events\<close> is the list of its rows in the order of
  \<open>event_index\<close>, with the next index of the autoincrement column; SQL text columns hold a string
  or \<open>NULL\<close>. A row whose \<open>event_json\<close> does not parse has the record \<open>None\<close>.
\<close>

section \<open>Rows and the sink\<close>

record sqlite_row =
  row_index :: int
  row_previous_hash :: json
  row_event_hash :: json
  row_record :: "json option"

record sqlite_db =
  db_rows :: "sqlite_row list"
  db_next :: int

definition empty_db :: sqlite_db where
  "empty_db = \<lparr>db_rows = [], db_next = 1\<rparr>"

definition sqlite_last_hash :: "sqlite_db \<Rightarrow> json" where
  "sqlite_last_hash db =
     (if db_rows db = [] then JNull else JStr (json_str (row_event_hash (last (db_rows db)))))"

definition sqlite_emit :: "(string \<Rightarrow> string) \<Rightarrow> audit_event \<Rightarrow> sqlite_db \<Rightarrow> sqlite_db res" where
  "sqlite_emit H e db =
     (let previous = sqlite_last_hash db; payload = pdict (redacted_event_payload e);
          event_hash = hash_mapping H (unsigned_record previous (act_json payload))
      in if py_serializable payload
         then Inr \<lparr>db_rows = db_rows db @
                [\<lparr>row_index = db_next db, row_previous_hash = previous, row_event_hash = JStr event_hash,
                  row_record = Some (canon (chain_record previous (act_json payload) event_hash))\<rparr>],
               db_next = db_next db + 1\<rparr>
         else raise TypeError ''Object is not JSON serializable'')"

section \<open>Verification\<close>

record sqlite_verification =
  sv_ok :: bool
  sv_event_count :: nat
  sv_reason :: string

definition sqlite_verification_to_dict :: "sqlite_verification \<Rightarrow> params" where
  "sqlite_verification_to_dict v =
     [(''ok'', PBool (sv_ok v)), (''event_count'', PInt (int (sv_event_count v))),
      (''reason'', PStr (sv_reason v))]"

text \<open>\<open>_sqlite_rows\<close>: every stored record is parsed first.\<close>

definition sqlite_rows :: "sqlite_db \<Rightarrow> (sqlite_row \<times> json) list res" where
  "sqlite_rows db = map_res (\<lambda>r. case row_record r of
       Some v \<Rightarrow> Inr (r, v) | None \<Rightarrow> raise JSONDecodeError ''Expecting value'') (db_rows db)"

definition record_get :: "json \<Rightarrow> string \<Rightarrow> json res" where
  "record_get v k = (case v of JObj r \<Rightarrow> Inr (rget r k) | _ \<Rightarrow> raise AttributeError ''object has no attribute get'')"

fun verify_rows ::
    "(string \<Rightarrow> string) \<Rightarrow> nat \<Rightarrow> json \<Rightarrow> (sqlite_row \<times> json) list \<Rightarrow> sqlite_verification res" where
  "verify_rows H n previous [] = Inr \<lparr>sv_ok = True, sv_event_count = n, sv_reason = []\<rparr>"
| "verify_rows H n previous ((r, v) # rs) =
     (if row_previous_hash r \<noteq> previous
      then Inr \<lparr>sv_ok = False, sv_event_count = n, sv_reason = ''previous hash mismatch''\<rparr>
      else bind_res (record_get v ''previous_hash'') (\<lambda>p.
        if p \<noteq> previous
        then Inr \<lparr>sv_ok = False, sv_event_count = n, sv_reason = ''previous hash mismatch''\<rparr>
        else bind_res (record_get v ''event'') (\<lambda>event.
          let expected = JStr (hash_mapping H (unsigned_record previous event)) in
          if row_event_hash r \<noteq> expected
          then Inr \<lparr>sv_ok = False, sv_event_count = n, sv_reason = ''event hash mismatch''\<rparr>
          else bind_res (record_get v ''event_hash'') (\<lambda>h.
            if h \<noteq> expected
            then Inr \<lparr>sv_ok = False, sv_event_count = n, sv_reason = ''event hash mismatch''\<rparr>
            else verify_rows H (n + 1) expected rs))))"

definition verify_sqlite_audit_chain :: "(string \<Rightarrow> string) \<Rightarrow> sqlite_db option \<Rightarrow> sqlite_verification res" where
  "verify_sqlite_audit_chain H db =
     (case db of
        None \<Rightarrow> Inr \<lparr>sv_ok = True, sv_event_count = 0, sv_reason = []\<rparr>
      | Some d \<Rightarrow>
          (case sqlite_rows d of
             Inl e \<Rightarrow> Inr \<lparr>sv_ok = False, sv_event_count = 0, sv_reason = exn_text e\<rparr>
           | Inr rows \<Rightarrow> verify_rows H 0 JNull rows))"

fun chain_rows :: "(string \<Rightarrow> string) \<Rightarrow> json \<Rightarrow> (sqlite_row \<times> json) list \<Rightarrow> bool" where
  "chain_rows H previous [] = True"
| "chain_rows H previous ((r, v) # rs) =
     (case v of
        JObj x \<Rightarrow>
          if row_previous_hash r \<noteq> previous \<or> rget x ''previous_hash'' \<noteq> previous then False
          else if row_event_hash r \<noteq> JStr (hash_mapping H (unsigned_record previous (rget x ''event'')))
          then False
          else chain_rows H (case row_event_hash r of JStr s \<Rightarrow> JStr s | _ \<Rightarrow> JNull) rs
      | _ \<Rightarrow> False)"

definition verify_sqlite_audit_chain_rows :: "(string \<Rightarrow> string) \<Rightarrow> (sqlite_row \<times> json) list \<Rightarrow> bool" where
  "verify_sqlite_audit_chain_rows H rows = chain_rows H JNull rows"

section \<open>Listing, inspection and export\<close>

definition listed_event :: "sqlite_row \<times> json \<Rightarrow> params res" where
  "listed_event = (\<lambda>(r, v).
     bind_res (record_get v ''event_hash'') (\<lambda>h. bind_res (record_get v ''event'') (\<lambda>e.
       Inr [(''event_index'', PInt (row_index r)), (''event_hash'', pyval_of_json h),
            (''event'', pyval_of_json e)])))"

definition take_last :: "nat \<Rightarrow> 'a list \<Rightarrow> 'a list" where
  "take_last n xs = drop (length xs - n) xs"

text \<open>The rows are read from the newest back to the limit, and the list is reversed at the end.\<close>

definition list_sqlite_audit_events :: "sqlite_db option \<Rightarrow> int \<Rightarrow> params list res" where
  "list_sqlite_audit_events db limit =
     (if limit \<le> 0 then raise SQLiteAuditError ''audit event limit must be positive''
      else (case db of
         None \<Rightarrow> Inr []
       | Some d \<Rightarrow>
           bind_res (map_res (\<lambda>r. case row_record r of
                 None \<Rightarrow> raise SQLiteAuditError ''cannot list SQLite audit events: Expecting value''
               | Some v \<Rightarrow> listed_event (r, v)) (rev (take_last (nat limit) (db_rows d)))) (\<lambda>evs. Inr (rev evs))))"

datatype event_key = ByIndex int | ByHash string

definition inspect_sqlite_audit_event ::
    "sqlite_db option \<Rightarrow> int option \<Rightarrow> string option \<Rightarrow> params res" where
  "inspect_sqlite_audit_event db index hash =
     (if (index = None) = (hash = None)
      then raise SQLiteAuditError ''provide exactly one event identifier''
      else (case db of
         None \<Rightarrow> raise SQLiteAuditError ''SQLite audit path does not exist''
       | Some d \<Rightarrow>
           (case find (\<lambda>r. case index of Some i \<Rightarrow> row_index r = i
                         | None \<Rightarrow> row_event_hash r = JStr (the hash)) (db_rows d) of
              None \<Rightarrow> raise SQLiteAuditError ''SQLite audit event not found''
            | Some r \<Rightarrow>
                (case row_record r of
                   None \<Rightarrow> raise SQLiteAuditError ''cannot inspect SQLite audit event: Expecting value''
                 | Some v \<Rightarrow> listed_event (r, v)))))"

section \<open>Checkpoints\<close>

definition record_hash :: "json \<Rightarrow> json res" where
  "record_hash v = record_get v ''event_hash''"

definition create_sqlite_audit_checkpoint ::
    "(string \<Rightarrow> string) \<Rightarrow> sqlite_db option \<Rightarrow> string \<Rightarrow> params \<Rightarrow> string option \<Rightarrow> string \<Rightarrow> datetime \<Rightarrow>
     audit_checkpoint res" where
  "create_sqlite_audit_checkpoint H db audit_log_id metadata previous checkpoint_id now =
     bind_res (verify_sqlite_audit_chain H db) (\<lambda>v.
     if \<not> sv_ok v
     then raise SQLiteAuditError (''cannot checkpoint malformed SQLite audit: '' @ sv_reason v)
     else
       bind_res (case db of None \<Rightarrow> Inr [] | Some d \<Rightarrow> sqlite_rows d) (\<lambda>rows.
       bind_res (if rows = [] then Inr JNull else record_hash (snd (last rows))) (\<lambda>h.
       bind_res (case h of JNull \<Rightarrow> Inr None | JStr s \<Rightarrow> Inr (Some s)
                 | _ \<Rightarrow> raise SQLiteAuditError ''last SQLite audit event hash must be a string'') (\<lambda>last_hash.
       make_checkpoint H
         \<lparr>ck_id = checkpoint_id, ck_audit_log_id = audit_log_id,
          ck_last_event_index = int (length rows) - 1, ck_event_count = int (length rows),
          ck_last_event_hash = last_hash, ck_created_at = now, ck_previous_hash = previous,
          ck_metadata = metadata, ck_hash = None, ck_redactions = []\<rparr>))))"

definition sqlite_checkpoint_verification ::
    "(string \<Rightarrow> string) \<Rightarrow> audit_checkpoint \<Rightarrow> (sqlite_row \<times> json) list \<Rightarrow> bool \<Rightarrow> string \<Rightarrow>
     checkpoint_verification res" where
  "sqlite_checkpoint_verification H c rows ok reason =
     bind_res (if rows = [] then Inr JNull else record_hash (snd (last rows))) (\<lambda>h. Inr
       \<lparr>kv_ok = ok, kv_reason = reason, kv_audit_log_id = ck_audit_log_id c, kv_checkpoint_id = ck_id c,
        kv_event_count = length rows,
        kv_last_event_hash = (case h of JStr s \<Rightarrow> Some s | _ \<Rightarrow> None),
        kv_chain_verified = verify_sqlite_audit_chain_rows H rows\<rparr>)"

definition check_sqlite_checkpoint ::
    "(string \<Rightarrow> string) \<Rightarrow> sqlite_db option \<Rightarrow> audit_checkpoint \<Rightarrow> checkpoint_verification res" where
  "check_sqlite_checkpoint H db c =
     bind_res (verify_sqlite_audit_chain H db) (\<lambda>v.
     bind_res (case db of None \<Rightarrow> Inr [] | Some d \<Rightarrow> sqlite_rows d) (\<lambda>rows.
     if \<not> sv_ok v then sqlite_checkpoint_verification H c rows False ''audit chain failed''
     else if int (length rows) < ck_event_count c
     then sqlite_checkpoint_verification H c rows False ''audit log tail truncated''
     else if ck_event_count c = 0 then sqlite_checkpoint_verification H c rows True ''checkpoint verified''
     else
       bind_res (record_hash (snd (rows ! nat (ck_last_event_index c)))) (\<lambda>h.
       if h \<noteq> (case ck_last_event_hash c of None \<Rightarrow> JNull | Some s \<Rightarrow> JStr s)
       then sqlite_checkpoint_verification H c rows False ''checkpoint event hash mismatch''
       else sqlite_checkpoint_verification H c rows True ''checkpoint verified'')))"

definition verify_sqlite_audit_checkpoint ::
    "(string \<Rightarrow> string) \<Rightarrow> sqlite_db option \<Rightarrow> checkpoint_arg \<Rightarrow> checkpoint_verification" where
  "verify_sqlite_audit_checkpoint H db a =
     (case bind_res (parse_arg H a) (check_sqlite_checkpoint H db) of
        Inr v \<Rightarrow> v
      | Inl e \<Rightarrow> failed_verification a e)"

text \<open>\<open>export_sqlite_audit\<close>: the payload that is written to the output path.\<close>

definition export_sqlite_audit ::
    "(string \<Rightarrow> string) \<Rightarrow> sqlite_db option \<Rightarrow> checkpoint_arg option \<Rightarrow> params res" where
  "export_sqlite_audit H db checkpoint =
     bind_res (verify_sqlite_audit_chain H db) (\<lambda>v.
     if \<not> sv_ok v then raise SQLiteAuditError (''audit chain verification failed: '' @ sv_reason v)
     else
       bind_res (case checkpoint of
                   None \<Rightarrow> Inr None
                 | Some a \<Rightarrow>
                     bind_res (parse_arg H a) (\<lambda>c.
                       let r = verify_sqlite_audit_checkpoint H db (Parsed c) in
                       if \<not> kv_ok r
                       then raise SQLiteAuditError (''audit checkpoint verification failed: '' @ kv_reason r)
                       else bind_res (checkpoint_to_dict c) (\<lambda>d. Inr (Some d)))) (\<lambda>payload.
       bind_res (list_sqlite_audit_events db (max (int (sv_event_count v)) 1)) (\<lambda>events. Inr
         [(''format'', PStr ''agentickvm.sqlite-audit-export.v1''), (''source'', PStr ''sqlite''),
          (''event_count'', PInt (int (sv_event_count v))),
          (''verification'', pdict (sqlite_verification_to_dict v)),
          (''checkpoint'', (case payload of None \<Rightarrow> PNone | Some d \<Rightarrow> pyval_of_json (JObj d))),
          (''checkpoint_verified'', PBool (payload \<noteq> None)),
          (''events'', PList (map pdict events))])))"

section \<open>The table and the chain say the same\<close>

text \<open>The records of rows whose columns repeat the hashes stored inside the records.\<close>

definition row_of :: "int \<Rightarrow> jobject \<Rightarrow> sqlite_row" where
  "row_of i r = \<lparr>row_index = i, row_previous_hash = rget r ''previous_hash'',
     row_event_hash = rget r ''event_hash'', row_record = Some (JObj r)\<rparr>"

definition mirrors :: "sqlite_row \<Rightarrow> jobject \<Rightarrow> bool" where
  "mirrors w r \<longleftrightarrow> row_record w = Some (JObj r) \<and> row_previous_hash w = rget r ''previous_hash'' \<and>
     row_event_hash w = rget r ''event_hash''"

lemma verify_rows_records:
  "list_all2 mirrors ws rs \<Longrightarrow>
     verify_rows H n p (map (\<lambda>(w, r). (w, JObj r)) (zip ws rs)) = Inr v \<Longrightarrow> sv_ok v \<longleftrightarrow> verify_records H p rs"
proof (induction ws rs arbitrary: n p rule: list_all2_induct)
  case (Cons w ws r rs)
  then show ?case
    by (auto simp: mirrors_def record_get_def Let_def split: if_splits)
qed auto

lemma sqlite_rows_mirror:
  "list_all2 mirrors (db_rows db) rs \<Longrightarrow>
     sqlite_rows db = Inr (map (\<lambda>(w, r). (w, JObj r)) (zip (db_rows db) rs))"
proof -
  have "list_all2 mirrors ws rs \<Longrightarrow>
     map_res (\<lambda>r. case row_record r of
       Some v \<Rightarrow> Inr (r, v) | None \<Rightarrow> raise JSONDecodeError ''Expecting value'') ws =
     Inr (map (\<lambda>(w, r). (w, JObj r)) (zip ws rs))" for ws
    by (induction ws rs rule: list_all2_induct) (auto simp: mirrors_def)
  then show "list_all2 mirrors (db_rows db) rs \<Longrightarrow> ?thesis" by (simp add: sqlite_rows_def)
qed

text \<open>A database that verifies mirrors a chain of records that verifies.\<close>

lemma verify_rows_mirror:
  assumes "verify_rows H n p rows = Inr v" "sv_ok v" "\<forall>(w, x) \<in> set rows. row_record w = Some x"
  shows "\<exists>rs. list_all2 mirrors (map fst rows) rs \<and> verify_records H p rs \<and> sv_event_count v = n + length rs"
  using assms
proof (induction H n p rows rule: verify_rows.induct)
  case (1 H n p)
  then show ?case by auto
next
  case (2 H n p w x rows)
  then obtain r where x: "x = JObj r" by (cases x) (auto simp: record_get_def raise_def split: if_splits)
  let ?e = "JStr (hash_mapping H (unsigned_record p (rget r ''event'')))"
  have w: "row_previous_hash w = p" "rget r ''previous_hash'' = p" "row_event_hash w = ?e"
    "rget r ''event_hash'' = ?e" and rest: "verify_rows H (n + 1) ?e rows = Inr v"
    using "2.prems"(1,2) x by (auto simp: record_get_def Let_def split: if_splits)
  have "\<exists>rs. list_all2 mirrors (map fst rows) rs \<and> verify_records H ?e rs \<and> sv_event_count v = n + 1 + length rs"
    using "2.prems"(2,3) x w rest by (intro "2.IH") (auto simp: record_get_def)
  then obtain rs where rs: "list_all2 mirrors (map fst rows) rs" "verify_records H ?e rs"
      "sv_event_count v = n + 1 + length rs" by blast
  have "verify_records H p (r # rs)" using w rs(2) by (simp add: verify_records_Cons linked_def)
  moreover have "mirrors w r" using w x "2.prems"(3) by (simp add: mirrors_def)
  ultimately show ?case using rs by (intro exI [of _ "r # rs"]) auto
qed

definition sqlite_intact :: "(string \<Rightarrow> string) \<Rightarrow> sqlite_db \<Rightarrow> bool" where
  "sqlite_intact H db \<longleftrightarrow> (\<exists>rs. list_all2 mirrors (db_rows db) rs \<and> verify_records H JNull rs)"

lemma sqlite_verified_intact:
  assumes "verify_sqlite_audit_chain H (Some db) = Inr v" "sv_ok v"
  shows "sqlite_intact H db"
proof -
  obtain rows where rows: "sqlite_rows db = Inr rows" "verify_rows H 0 JNull rows = Inr v"
    using assms by (auto simp: verify_sqlite_audit_chain_def split: sum.splits)
  have "list_all2 (\<lambda>w y. fst y = w \<and> row_record w = Some (snd y)) (db_rows db) rows"
    using rows(1)
    by (auto simp: sqlite_rows_def map_res_Inr_iff elim!: list_all2_mono split: option.splits)
  moreover have "list_all2 (\<lambda>w y. fst y = w \<and> row_record w = Some (snd y)) ws ys \<Longrightarrow>
      map fst ys = ws \<and> (\<forall>(w, x) \<in> set ys. row_record w = Some x)" for ws ys
    by (induction ws ys rule: list_all2_induct) auto
  ultimately have "map fst rows = db_rows db" "\<forall>(w, x) \<in> set rows. row_record w = Some x" by blast+
  with verify_rows_mirror [OF rows(2) assms(2)] show ?thesis by (auto simp: sqlite_intact_def)
qed

lemma sqlite_intact_verified:
  assumes "sqlite_intact H db"
  shows "\<exists>v. verify_sqlite_audit_chain H (Some db) = Inr v \<and> sv_ok v \<and> sv_event_count v = length (db_rows db)"
proof -
  obtain rs where rs: "list_all2 mirrors (db_rows db) rs" "verify_records H JNull rs"
    using assms by (auto simp: sqlite_intact_def)
  have "list_all2 mirrors ws rs' \<Longrightarrow> verify_records H p rs' \<Longrightarrow>
      verify_rows H n p (map (\<lambda>(w, r). (w, JObj r)) (zip ws rs')) =
        Inr \<lparr>sv_ok = True, sv_event_count = n + length ws, sv_reason = []\<rparr>" for ws rs' n p
    by (induction ws rs' arbitrary: n p rule: list_all2_induct)
      (auto simp: mirrors_def record_get_def Let_def split: if_splits)
  from this [OF rs, of 0] show ?thesis
    using sqlite_rows_mirror [OF rs(1)] by (simp add: verify_sqlite_audit_chain_def)
qed

lemma sqlite_emit_intact:
  assumes "sqlite_emit H e db = Inr db'" "sqlite_intact H db"
  shows "sqlite_intact H db'"
proof -
  let ?p = "sqlite_last_hash db" and ?e = "act_json (pdict (redacted_event_payload e))"
  let ?h = "hash_mapping H (unsigned_record ?p ?e)"
  obtain rs where rs: "list_all2 mirrors (db_rows db) rs" "verify_records H JNull rs"
    using assms(2) by (auto simp: sqlite_intact_def)
  have p: "?p = head_hash JNull rs"
  proof (cases rs rule: rev_cases)
    case Nil
    with rs(1) show ?thesis by (simp add: sqlite_last_hash_def)
  next
    case (snoc rs' r)
    then obtain ws w where ws: "db_rows db = ws @ [w]" "mirrors w r"
      using rs(1) by (auto simp: list_all2_append2 list_all2_Cons2)
    have "\<exists>h. rget r ''event_hash'' = JStr h"
      using rs(2) snoc by (auto simp: verify_records_append verify_records_Cons linked_def simp del: verify_records.simps(2))
    with ws snoc show ?thesis by (auto simp: sqlite_last_hash_def mirrors_def)
  qed
  then have cp: "canon ?p = ?p" using head_hash_string [OF rs(2)] by fastforce
  let ?r = "[(''event'', canon ?e), (''event_hash'', JStr ?h), (''previous_hash'', canon ?p)]"
  let ?w = "\<lparr>row_index = db_next db, row_previous_hash = ?p, row_event_hash = JStr ?h,
     row_record = Some (JObj ?r)\<rparr>"
  have db': "db_rows db' = db_rows db @ [?w]"
    using assms(1) by (auto simp: sqlite_emit_def Let_def canon_chain_record split: if_splits)
  have "mirrors ?w ?r" by (simp add: mirrors_def cp)
  moreover have "linked H ?p ?r"
    using dumps_unsigned_canon [of ?p ?e] by (simp add: linked_def hash_mapping_def cp)
  ultimately show ?thesis
    unfolding sqlite_intact_def db'
    using rs p by (intro exI [of _ "rs @ [?r]"])
      (simp add: list_all2_appendI verify_records_append verify_records_Cons del: verify_records.simps(2))
qed

lemma sqlite_emit_appends:
  "sqlite_emit H e db = Inr db' \<Longrightarrow>
     map (\<lambda>w. case row_record w of Some (JObj r) \<Rightarrow> rget r ''event'' | _ \<Rightarrow> JNull) (db_rows db') =
     map (\<lambda>w. case row_record w of Some (JObj r) \<Rightarrow> rget r ''event'' | _ \<Rightarrow> JNull) (db_rows db) @
       [canon (act_json (pdict (redacted_event_payload e)))]"
  by (auto simp: sqlite_emit_def Let_def canon_chain_record split: if_splits)

interpretation sqlite_sink: audit_sink "sqlite_emit H"
  "\<lambda>db. map (\<lambda>w. case row_record w of Some (JObj r) \<Rightarrow> rget r ''event'' | _ \<Rightarrow> JNull) (db_rows db)"
  "\<lambda>e. canon (act_json (pdict (redacted_event_payload e)))" "sqlite_intact H" for H
  by unfold_locales (fact sqlite_emit_appends, fact sqlite_emit_intact)

lemma sqlite_intact_empty: "sqlite_intact H empty_db"
  by (simp add: sqlite_intact_def empty_db_def)

text \<open>The JSONL sink and the SQLite sink write the same chain.\<close>

lemma sinks_agree:
  assumes "emit_all (sqlite_emit H) es empty_db = Inr db"
    and "emit_all (jsonl_emit H) es \<lparr>jl_lines = [], jl_previous_hash = JNull\<rparr> = Inr s"
  shows "map (\<lambda>w. case row_record w of Some (JObj r) \<Rightarrow> rget r ''event'' | _ \<Rightarrow> JNull) (db_rows db) =
         map (\<lambda>r. rget r ''event'') (records_of (jl_lines s))"
  using sqlite_sink.emit_all_appends [OF assms(1)] jsonl_sink.emit_all_appends [OF assms(2)]
  by (simp add: empty_db_def records_of_def)

end
