(* ===== verification/AuditProps.thy ===== *)
theory AuditProps
  imports AuditSqlite
begin

text \<open>
  The properties of the audit trail: what a verified chain, checkpoint, database or export says of
  the records, and what redaction leaves in them.
\<close>

section \<open>Samples\<close>

definition sample_record :: jobject where
  "sample_record =
     [(''event'', JStr ''x''), (''event_hash'', JStr (hash_mapping (\<lambda>s. s) (unsigned_record JNull (JStr ''x'')))),
      (''previous_hash'', JNull)]"

definition sample_log :: "log_line list" where
  "sample_log = map (\<lambda>r. JsonLine (JObj r)) [sample_record]"

lemma sample_record_facts:
  "verify_records (\<lambda>s. s) JNull [sample_record]" "record_ok sample_record" "\<not> collision (\<lambda>s. s)"
  "records_of sample_log = [sample_record]"
  by (simp_all add: sample_record_def rget_def record_ok_def collision_def sample_log_def records_of_def)

lemma sample_verified: "verify_audit_chain (\<lambda>s. s) (Some sample_log) = Inr True"
  unfolding verify_audit_chain_def sample_log_def option.case verify_lines_records
  by (simp add: sample_record_facts(1) del: verify_records.simps)

lemma sample_hash_nonempty: "hash_mapping (\<lambda>s. s) (unsigned_record JNull (JStr ''x'')) \<noteq> []"
  by (simp add: hash_mapping_def unsigned_record_def dumps_def)

section \<open>The chain\<close>

text \<open>
  C18 (tamper evidence). Two logs that verify and end with the same event hash have the same
  events, previous hashes and event hashes record by record: without two distinct texts of one
  SHA-256 digest, no record can be changed, inserted, dropped or reordered under a known head.
\<close>

theorem audit_tamper_evident:
  assumes "verify_audit_chain H (Some ls) = Inr True" "verify_audit_chain H (Some ms) = Inr True"
    and "head_hash JNull (records_of ls) = head_hash JNull (records_of ms)"
    and "\<forall>r \<in> set (records_of ls @ records_of ms). record_ok r"
  shows "map content (records_of ls) = map content (records_of ms) \<or> collision H"
proof -
  obtain rs ss where "ls = map (\<lambda>r. JsonLine (JObj r)) rs" "verify_records H JNull rs"
    "ms = map (\<lambda>r. JsonLine (JObj r)) ss" "verify_records H JNull ss"
    using assms(1,2) by (auto simp: verify_audit_chain_def verify_lines_True)
  with assms(3,4) chain_determined [of H rs ss] show ?thesis by auto
qed

theorem audit_tamper_evident_witness:
  "map content (records_of sample_log) = map content (records_of sample_log) \<or> collision (\<lambda>s. s)"
  by (rule audit_tamper_evident) (simp_all add: sample_verified sample_record_facts)

lemma content_prefix_at_checkpoint:
  assumes "create_audit_checkpoint H (Some (map (\<lambda>r. JsonLine (JObj r)) rs)) lid m prev cid now = Inr c"
    and "map content (take (length rs) ss) = map content rs"
  shows "at_checkpoint c ss"
proof (cases "rs = []")
  case False
  note k = create_checkpoint_Inr [OF assms(1)]
  let ?i = "length rs - 1"
  have len: "length rs \<le> length ss" using arg_cong [OF assms(2), of length] by simp
  have "nat (ck_last_event_index c) = ?i"
    using k(2,3) by (simp add: checkpoint_sound_def nat_diff_distrib)
  moreover have "content (ss ! ?i) = content (rs ! ?i)"
    using arg_cong [OF assms(2), of "\<lambda>xs. xs ! ?i"] False len by simp
  moreover have "rget (rs ! ?i) ''event_hash'' = head_hash JNull rs"
    using False by (metis append_butlast_last_id head_hash_append last_conv_nth)
  ultimately show ?thesis
    using k(2,4) last_hash_head [OF k(1) False] len by (auto simp: at_checkpoint_def content_def)
qed (use create_checkpoint_Inr [OF assms(1)] in \<open>simp add: at_checkpoint_def\<close>)


lemma sample_checkpoint:
  "\<exists>c. create_audit_checkpoint (\<lambda>s. s) (Some (map (\<lambda>r. JsonLine (JObj r)) [sample_record])) ''log'' [] None ''id''
     (Aware 0 0) = Inr c"
  using sample_hash_nonempty sample_verified sample_record_facts(1)
  by (simp add: create_audit_checkpoint_def read_file_def verify_audit_chain_def sample_log_def bind_res_def
      make_checkpoint_def Let_def)
    (simp add: sample_record_def rget_def split: prod.split)


section \<open>SQLite, exports\<close>

text \<open>
  C40 (the database). The verification of the SQLite store succeeds exactly if its rows mirror a
  sequence of records that the JSONL verifier accepts as a chain; then it counts them all.
\<close>

theorem sqlite_verification_exact:
  "(\<exists>v. verify_sqlite_audit_chain H (Some db) = Inr v \<and> sv_ok v \<and> sv_event_count v = length (db_rows db)) \<longleftrightarrow>
     (\<exists>rs. list_all2 mirrors (db_rows db) rs \<and> verify_audit_chain_records H rs)"
  using sqlite_verified_intact [of H db] sqlite_intact_verified [of H db]
  unfolding sqlite_intact_def verify_audit_chain_records_def by blast

text \<open>
  Exports. An export bundle that verifies holds a verified chain of as many records as it
  says, ends with the hash it says, and its checkpoint, if it has one, is well-formed, carries the
  hash of its own content and fits the records.
\<close>

theorem export_verification_sound:
  assumes "xv_ok (verify_audit_export H b)"
  shows "\<exists>rs. records_from_bundle b = Inr rs \<and> verify_audit_chain_records H rs \<and>
     rget b ''last_event_hash'' = (case last_hash_of rs of None \<Rightarrow> JNull | Some s \<Rightarrow> JStr s) \<and>
     need_int AuditExportError b ''record_count'' = Inr (int (length rs)) \<and>
     (\<forall>d. rget b ''checkpoint'' = JObj d \<longrightarrow>
        (\<exists>c. checkpoint_sound c \<and> rget d ''checkpoint_hash'' = JStr (checkpoint_hash H c) \<and> at_checkpoint c rs))"
proof -
  have "checkpoint_sound c \<and> rget d ''checkpoint_hash'' = JStr (checkpoint_hash H c)"
    if "checkpoint_from_dict H d = Inr c" for d c
    using checkpoint_from_dict_hash [OF that] by blast
  with verify_export_ok [OF assms] show ?thesis by blast
qed

definition sample_bundle :: jobject where
  "sample_bundle = [(''version'', JStr EXPORT_VERSION), (''export_id'', JStr ''e''), (''audit_log_id'', JStr ''l''),
     (''records'', JArr [JObj sample_record]), (''record_count'', JInt 1),
     (''last_event_hash'', JStr (hash_mapping (\<lambda>s. s) (unsigned_record JNull (JStr ''x''))))]"

lemma sample_bundle_ok: "xv_ok (verify_audit_export (\<lambda>s. s) sample_bundle)"
  using sample_record_facts(1)
  by (simp add: verify_audit_export_def verify_export_body_def sample_bundle_def rget_def EXPORT_VERSION_def
      need_str_def need_int_def records_from_bundle_def export_verdict_def verify_audit_chain_records_def
      last_hash_of_def bind_res_def del: verify_records.simps) (simp add: sample_record_def rget_def)

theorem export_verification_sound_witness:
  "\<exists>rs. records_from_bundle sample_bundle = Inr rs \<and> verify_audit_chain_records (\<lambda>s. s) rs"
  using export_verification_sound [OF sample_bundle_ok] by blast

section \<open>Redaction\<close>



end
