(* ===== verification/AuthorityProps.thy ===== *)
theory AuthorityProps
  imports GrantFacts ActClient AuthChannel
begin

text \<open>
  The properties of the components that decide: policy, signed grants and their cache, parameter
  fingerprints, tower clearances and their proofs.
\<close>

section \<open>Policy\<close>

text \<open>
  C11 (policy decisions). A decision is other than a denial exactly if the capability is known, is
  no hard-invariant capability, every scope it requires is present, target and session are in the
  scopes of the policy, and the explicit rule, or else the mode's default, does not deny it.
\<close>

theorem decision_permits_iff:
  "pr_decision (decision_for pol i t s cr reg) \<noteq> DENY \<longleftrightarrow>
     (\<exists>c. registry_get reg i = Some c \<and> i \<notin> set HARD_DENY_CAPABILITIES \<and>
        (''target'' \<in> set (cap_required_scope c) \<longrightarrow> t \<noteq> None) \<and>
        (''session'' \<in> set (cap_required_scope c) \<longrightarrow> s \<noteq> None) \<and>
        (''credential'' \<in> set (cap_required_scope c) \<longrightarrow> cr \<noteq> None) \<and>
        target_scope_allows (pol_target_scope pol) t \<and> session_scope_allows (pol_session_scope pol) s \<and>
        (case dict_get (pol_rules pol) i of Some rule \<Rightarrow> rule_decision rule
         | None \<Rightarrow> default_decision_for_mode (pol_mode pol) c) \<noteq> DENY)"
  by (rule decision_for_permits)

definition sample_capability :: capability where
  "sample_capability =
     \<lparr>cap_id = ''power.on'', cap_family = ''power'', cap_action = ''on'', cap_title = ''On'',
      cap_description = ''Power on.'', cap_risk = RL_HIGH, cap_dangerous = True, cap_destructive = False,
      cap_required_scope = [''target'', ''session''], cap_audit_fields = []\<rparr>"

theorem decision_permits_iff_witness:
  "pr_decision (decision_for (mode_preset SUPERVISED None) ''power.on'' (Some ''t'') (Some ''s'') None
     [(''power.on'', sample_capability)]) \<noteq> DENY"
  by (subst decision_permits_iff)
    (simp add: registry_get_def HARD_DENY_CAPABILITIES_def sample_capability_def mode_preset_def
      target_scope_allows_def session_scope_allows_def scope_allows_def default_target_scope_def
      default_session_scope_def default_decision_for_mode_def)

text \<open>
  C25 (order of the modes). Over the default capability registry, raising the control mode of a
  policy never makes a decision more restrictive.
\<close>

theorem higher_mode_permits_more:
  assumes "pol_mode pol \<le> m"
  shows "pr_decision (decision_for pol i t s cr DEFAULT_CAPABILITY_REGISTRY) \<le>
     pr_decision (decision_for (pol\<lparr>pol_mode := m\<rparr>) i t s cr DEFAULT_CAPABILITY_REGISTRY)"
  by (rule decision_for_mode_mono [OF assms]) simp

theorem higher_mode_permits_more_witness:
  "pr_decision (decision_for (mode_preset OBSERVE None) ''power.on'' (Some ''t'') (Some ''s'') None
       DEFAULT_CAPABILITY_REGISTRY) \<le>
   pr_decision (decision_for ((mode_preset OBSERVE None)\<lparr>pol_mode := SUPERVISED\<rparr>) ''power.on'' (Some ''t'')
       (Some ''s'') None DEFAULT_CAPABILITY_REGISTRY)"
  by (rule higher_mode_permits_more) (simp add: mode_preset_def less_eq_control_mode_def)

text \<open>
  Dangerous capabilities. Over the default registry, only full control or an explicit rule lets a
  dangerous capability run without asking.
\<close>

theorem dangerous_asks:
  assumes "pol_mode pol \<noteq> FULL_CONTROL" "dict_get (pol_rules pol) i = None"
    and "registry_get DEFAULT_CAPABILITY_REGISTRY i = Some c" "cap_dangerous c"
  shows "pr_decision (decision_for pol i t s cr DEFAULT_CAPABILITY_REGISTRY) \<in>
     {DENY, ASK_EACH_TIME, ASK_ONCE_PER_SESSION}"
proof -
  have "cap_id c = i" using registry_get_id [OF default_registry_ok assms(3)] .
  then show ?thesis
    using dangerous_needs_approval [of pol i t s cr DEFAULT_CAPABILITY_REGISTRY c] assms
    by (cases "pr_decision (decision_for pol i t s cr DEFAULT_CAPABILITY_REGISTRY)") auto
qed

theorem dangerous_asks_witness:
  "pr_decision (decision_for (mode_preset SUPERVISED None) ''power.force_off'' (Some ''t'') (Some ''s'') None
       DEFAULT_CAPABILITY_REGISTRY) \<in> {DENY, ASK_EACH_TIME, ASK_ONCE_PER_SESSION}"
proof -
  have "\<exists>c \<in> set default_caps. cap_id c = ''power.force_off'' \<and> cap_dangerous c"
    by (simp add: default_caps_def input_power_media_capabilities_def row_eval)
  then obtain c where "registry_get DEFAULT_CAPABILITY_REGISTRY ''power.force_off'' = Some c" "cap_dangerous c"
    by (auto simp: default_lookup_iff)
  from dangerous_asks [OF _ _ this] show ?thesis by (simp add: mode_preset_def)
qed

text \<open>
  C26 (policy files). A policy document that loads denies unknown capabilities, makes audit
  mandatory and redacts secrets by default, keeps the audit log and the emergency stop required, and
  has rules for known capabilities only.
\<close>

theorem loaded_policy_mandatory:
  assumes "load_policy_file reg raw = Inr pol"
  shows "json_get (get_or raw ''defaults'' JNull) ''unknown_capability'' = Some (JStr ''deny'') \<and>
    json_get (get_or raw ''defaults'' JNull) ''audit'' = Some (JStr ''mandatory'') \<and>
    json_get (get_or raw ''defaults'' JNull) ''secrets'' = Some (JStr ''redact_by_default'') \<and>
    ss_require_audit_log (pol_session_scope pol) \<and> ss_emergency_stop (pol_session_scope pol) \<and>
    (\<forall>i. dict_has (pol_rules pol) i \<longrightarrow> registry_get reg i \<noteq> None)"
  using load_policy_Inr [OF assms] by blast

definition sample_policy_document :: json where
  "sample_policy_document =
     JObj [(''mode'', JStr ''observe''), (''rules'', JArr []),
       (''defaults'', JObj [(''unknown_capability'', JStr ''deny''), (''audit'', JStr ''mandatory''),
          (''secrets'', JStr ''redact_by_default'')])]"

theorem loaded_policy_mandatory_witness:
  "\<exists>pol. load_policy_file [] sample_policy_document = Inr pol \<and> ss_emergency_stop (pol_session_scope pol)"
proof -
  have "\<not> isl (load_policy_file [] sample_policy_document)" by code_simp
  then obtain pol where p: "load_policy_file [] sample_policy_document = Inr pol"
    by (cases "load_policy_file [] sample_policy_document") auto
  with loaded_policy_mandatory [OF p] show ?thesis by blast
qed

section \<open>Signed grants\<close>

text \<open>
  C12 (grant verification). The verifier calls a signed grant valid exactly if its signer is known and
  verifies the signature, all seven bindings equal the context, the capability may be approved, the
  grant has not expired nor been consumed, and a conversational approval is allowed for its family.
\<close>

theorem grant_valid_iff:
  "(\<exists>r. verify_grant signers (Some g) c = Inr r \<and> vr_valid r) \<longleftrightarrow> grant_acceptable signers g c"
  using verify_grant_valid acceptable_verifies by (fastforce simp: vr_valid_def verification_def)

text \<open>
  C23 (sign and verify). A grant built for an action and signed by the development signer verifies for
  that action until it expires, with the verifier that knows the signer.
\<close>

theorem grant_roundtrip:
  assumes "build_grant_payload H gid rid sid t p c params family channel expires key_id one_time = Inr payload"
    and "hmac_sign mac algorithm key_id secret payload = Inr g"
    and "context_from_parameters H rid sid t p c params family now = Inr ctx"
    and "dict_get signers key_id = Some s" "signer_verify s = hmac_verify mac algorithm key_id secret"
    and "c \<notin> set RESUMPTION_BLOCKED" "is_aware now" "instant now < instant expires" "channel \<noteq> CONVERSATIONAL"
  shows "verify_grant signers (Some g) ctx = Inr (verification payload VALID ''grant verified'')"
  using acceptable_verifies [OF hmac_grant_accepted [OF assms]] hmac_signer.sign_payload [OF assms(2)] by simp

definition sample_signer :: signer where
  "sample_signer = \<lparr>signer_key = ''k'', signer_algorithm = ''hmac'', signer_sign = hmac_sign (\<lambda>k m. m) ''hmac'' ''k'' ''secret'',
     signer_verify = hmac_verify (\<lambda>k m. ''mac'') ''hmac'' ''k'' ''secret''\<rparr>"

lemma sample_signer_simps [simp]:
  "signer_verify sample_signer = hmac_verify (\<lambda>k m. ''mac'') ''hmac'' ''k'' ''secret''" "signer_key sample_signer = ''k''"
  by (simp_all only: sample_signer_def signer.select_convs)

lemma sample_grant:
  "\<exists>payload g ctx. build_grant_payload (\<lambda>s. s) ''g'' ''r'' ''s'' ''t'' ''p'' ''power.on'' [] ''power'' OUT_OF_BAND
       (Aware 60 0) ''k'' True = Inr payload \<and> hmac_sign (\<lambda>k m. ''mac'') ''hmac'' ''k'' ''secret'' payload = Inr g \<and>
     context_from_parameters (\<lambda>s. s) ''r'' ''s'' ''t'' ''p'' ''power.on'' [] ''power'' (Aware 0 0) = Inr ctx"
proof -
  have "hexdigest ''mac'' \<noteq> []" by code_simp
  then show ?thesis
    by (simp add: build_grant_payload_def fingerprint_parameters_def canonical_json_def pdict_def dumps_def
        make_payload_def payload_required_def to_utc_def hmac_sign_def signature_for_def canonical_payload_def
        payload_to_dict_def make_signed_grant_def context_from_parameters_def Let_def)
qed

theorem grant_roundtrip_witness:
  "\<exists>g ctx payload. verify_grant [(''k'', sample_signer)] (Some g) ctx = Inr (verification payload VALID ''grant verified'')"
proof -
  obtain payload g ctx where "build_grant_payload (\<lambda>s. s) ''g'' ''r'' ''s'' ''t'' ''p'' ''power.on'' [] ''power''
       OUT_OF_BAND (Aware 60 0) ''k'' True = Inr payload"
    "hmac_sign (\<lambda>k m. ''mac'') ''hmac'' ''k'' ''secret'' payload = Inr g"
    "context_from_parameters (\<lambda>s. s) ''r'' ''s'' ''t'' ''p'' ''power.on'' [] ''power'' (Aware 0 0) = Inr ctx"
    using sample_grant by blast
  from grant_roundtrip [OF this, of "[(''k'', sample_signer)]" sample_signer] show ?thesis
    by (auto simp: RESUMPTION_BLOCKED_def)
qed

text \<open>
  Development signers. A grant that the verifier built from a trust registry finds valid was
  verified by the registered signer of its key, and that signer is a production signer unless
  development signers are allowed.
\<close>

theorem only_trusted_signers:
  assumes "registry_wf reg" "verify_grant (verifier_from_trust_registry reg) (Some g) c = Inr r" "vr_valid r"
  shows "\<exists>tr. dict_get (tg_trust reg) (gp_signer_key_id (sgn_payload g)) = Some tr \<and>
    signer_verify (tr_signer tr) g = Inr True \<and> (tr_development tr \<longrightarrow> tg_allow_development reg)"
proof -
  obtain s where "signer_for reg (gp_signer_key_id (sgn_payload g)) = Some s" "signer_verify s g = Inr True"
    using verify_grant_valid [OF assms(2,3)] trusted_signers_lookup [OF assms(1)]
    by (auto simp: grant_acceptable_def verifier_from_trust_registry_def Let_def)
  then show ?thesis by (auto simp: signer_for_def is_trusted_def split: if_splits option.splits)
qed

definition sample_trust :: trust_registry where
  "sample_trust = \<lparr>tg_allow_development = True,
     tg_trust = [(''k'', \<lparr>tr_signer = sample_signer, tr_development = True, tr_label = ''development''\<rparr>)]\<rparr>"

theorem only_trusted_signers_witness:
  "\<exists>g tr. dict_get (tg_trust sample_trust) (gp_signer_key_id (sgn_payload g)) = Some tr \<and>
     signer_verify (tr_signer tr) g = Inr True"
proof -
  have wf: "registry_wf sample_trust" by (simp add: registry_wf_def sample_trust_def)
  have v: "verifier_from_trust_registry sample_trust = [(''k'', sample_signer)]"
    by (simp add: verifier_from_trust_registry_def trusted_signers_def sample_trust_def is_trusted_def)
  obtain payload g ctx where b: "build_grant_payload (\<lambda>s. s) ''g'' ''r'' ''s'' ''t'' ''p'' ''power.on'' [] ''power''
       OUT_OF_BAND (Aware 60 0) ''k'' True = Inr payload"
    "hmac_sign (\<lambda>k m. ''mac'') ''hmac'' ''k'' ''secret'' payload = Inr g"
    "context_from_parameters (\<lambda>s. s) ''r'' ''s'' ''t'' ''p'' ''power.on'' [] ''power'' (Aware 0 0) = Inr ctx"
    using sample_grant by blast
  have "grant_acceptable [(''k'', sample_signer)] g ctx"
    by (rule hmac_grant_accepted [OF b, where s = sample_signer]) (simp_all add: RESUMPTION_BLOCKED_def)
  from acceptable_verifies [OF this] only_trusted_signers [OF wf, of g ctx] show ?thesis
    by (auto simp: v vr_valid_def verification_def)
qed

text \<open>
  The grant cache. What the lookup in the cache file returns was in the file and passes the
  verifier; a damaged cache grants nothing.
\<close>

theorem cached_grant_verified:
  "case find_verified_grant signers c file of
     Inr (Some g) \<Rightarrow> (\<exists>gs. read_signed_grants file = Inr gs \<and> g \<in> set gs) \<and> grant_acceptable signers g c
   | Inr None \<Rightarrow> (case read_signed_grants file of
        Inl e \<Rightarrow> True | Inr gs \<Rightarrow> filter (\<lambda>g. grant_acceptable signers g c) gs = [])
   | Inl e \<Rightarrow> (\<exists>gs. read_signed_grants file = Inr gs)"
proof (cases "find_verified_grant signers c file")
  case (Inl e)
  then show ?thesis by (auto simp: find_verified_grant_def split: sum.splits)
next
  case (Inr r)
  show ?thesis
  proof (cases r)
    case None
    then show ?thesis using Inr find_verified_grant_complete
      by (auto simp: filter_empty_conv split: sum.splits)
  next
    case (Some g)
    then show ?thesis using Inr find_verified_grant_sound by fastforce
  qed
qed

section \<open>Parameters and clearances\<close>

text \<open>
  C24 (parameter binding). Two parameter mappings with one fingerprint have one canonical JSON
  value, unless two distinct texts with one SHA-256 digest are at hand: an approval for a
  fingerprint is an approval for these parameters.
\<close>

theorem fingerprint_binds_parameters:
  assumes "fingerprint_parameters H p = Inr f" "fingerprint_parameters H q = Inr f" "params_ok p" "params_ok q"
  shows "(\<exists>i j. normalize_value (pdict p) = Inr i \<and> normalize_value (pdict q) = Inr j \<and> canon i = canon j) \<or>
     collision H"
  by (rule fingerprint_binds_value [OF assms])

theorem fingerprint_binds_parameters_witness:
  "(\<exists>i j. normalize_value (pdict [(''b'', PInt 1), (''a'', PBool True)]) = Inr i \<and>
      normalize_value (pdict [(''a'', PBool True), (''b'', PInt 1)]) = Inr j \<and> canon i = canon j) \<or> collision (\<lambda>s. s)"
proof (rule fingerprint_binds_parameters)
  show "fingerprint_parameters (\<lambda>s. s) [(''b'', PInt 1), (''a'', PBool True)] = Inr ''{\"a\":true,\"b\":1}''"
    and "fingerprint_parameters (\<lambda>s. s) [(''a'', PBool True), (''b'', PInt 1)] = Inr ''{\"a\":true,\"b\":1}''"
    by code_simp+
qed (simp_all add: params_ok_iff)

lemma sample_clearance:
  "\<exists>q. build_clearance_request (\<lambda>s. ''digest'') ''s'' ''t'' ''p'' ''power.force_off'' [] HIGH_RISK ''rule''
     [''power loss''] ''off'' ''a'' ''c'' [] (Aware 0 0) 20 ''rid'' parity = Inr q"
proof -
  have code: "act_short_code (\<lambda>s. ''digest'') ''rid'' ''digest'' = ''DIGEST''"
    "short_code (\<lambda>s. ''digest'') ''rid'' ''digest'' = ''DIGE-ST''" by code_simp+
  have msg: "build_operator_message ''DIGEST'' ''power.force_off'' ''t'' ''p'' ''off'' ''rule'' \<noteq> []"
    "build_operator_message ''DIGE-ST'' ''power.force_off'' ''t'' ''p'' ''off'' ''rule'' \<noteq> []" by code_simp+
  show ?thesis
    using msg operator_message_never_doubles_dots
    by (simp add: build_clearance_request_def clearance_fingerprint_and_code_def code check_short_code_def
        check_params_fingerprint_def make_clearance_risk_def make_clearance_request_def clearance_required_fields_def
        check_operator_message_def ACT_AIRCRAFT_ID_def act_params_fingerprint_def act_content_hash_def
        DEFAULT_CLEARANCE_TIMEOUT_SECONDS_def fingerprint_parameters_def canonical_json_def pdict_def dumps_def
        dt_leq_def to_utc_def Let_def split: if_splits)
qed

text \<open>
  Clearance requests. A clearance request that is built carries the action it was built for
  and a digest and short code computed from it, expires within the twenty seconds that are allowed,
  and its operator message has no double periods.
\<close>

theorem clearance_request_exact:
  assumes "build_clearance_request H sid t p c params fam txt risks eff who corr ctx now ttl rid parity = Inr q"
  shows "cq_session_id q = sid \<and> cq_target q = t \<and> cq_provider q = p \<and> cq_capability q = c \<and> cq_request_id q = rid \<and>
    clearance_fingerprint_and_code H parity rid sid t p c params txt ctx = Inr (cq_params_fingerprint q, cq_short_code q) \<and>
    0 < ttl \<and> ttl \<le> 20 \<and> instant (cq_expires_at q) = instant now + 1000000 * ttl \<and>
    \<not> contains (cq_operator_message q) ''..''"
  using build_clearance_request_Inr [OF assms] by simp

theorem clearance_request_exact_witness:
  "\<exists>q :: clearance_request. cq_target q = ''t'' \<and> cq_capability q = ''power.force_off'' \<and> \<not> contains (cq_operator_message q) ''..''"
proof -
  obtain q where "build_clearance_request (\<lambda>s. ''digest'') ''s'' ''t'' ''p'' ''power.force_off'' [] HIGH_RISK ''rule''
      [''power loss''] ''off'' ''a'' ''c'' [] (Aware 0 0) 20 ''rid'' False = Inr q"
    using sample_clearance by blast
  from clearance_request_exact [OF this] show ?thesis by (intro exI [of _ q]) simp
qed

text \<open>
  ACT parity. A clearance request built in parity mode carries the fingerprint and the
  short code that the tower computes from the payload the HTTP client sends for it.
\<close>

theorem parity_fingerprint_predicts:
  assumes "build_clearance_request H sid t p c params fam txt risks eff who corr ctx now ttl rid True = Inr q"
  shows "cq_params_fingerprint q = predicted_act_params_fingerprint H q \<and>
    cq_short_code q = predicted_act_short_code H q None"
  using parity_predicts_tower [OF assms] by blast

theorem parity_fingerprint_predicts_witness:
  "\<exists>q. cq_params_fingerprint q = predicted_act_params_fingerprint (\<lambda>s. ''digest'') q \<and> cq_request_id q = ''rid''"
proof -
  obtain q where "build_clearance_request (\<lambda>s. ''digest'') ''s'' ''t'' ''p'' ''power.force_off'' [] HIGH_RISK ''rule''
      [''power loss''] ''off'' ''a'' ''c'' [] (Aware 0 0) 20 ''rid'' True = Inr q"
    using sample_clearance by blast
  from parity_fingerprint_predicts [OF this] build_clearance_request_Inr(3) [OF this] show ?thesis by blast
qed

text \<open>
  C13 (verification of tower responses). The ACT verifier calls a response valid exactly if it is cleared,
  from the configured tower, agrees with every binding of the request, has an expiry in the future
  and a proof that the verifier accepts; a mock verifier only counts in test mode.
\<close>

theorem clearance_valid_iff:
  "(\<exists>res. verify_clearance sha512 v q r now = Inr res \<and> cv_valid res) \<longleftrightarrow>
     cp_status r = CLEARED \<and> cp_tower_id r = Some (JStr (av_tower_id v)) \<and>
     first_mismatch (response_bindings q r) = None \<and> (\<exists>t. cp_expires_at r = Some t \<and> instant now < instant t) \<and>
     cp_proof r \<noteq> None \<and> \<not> (is_mock_verifier (av_proof_verifier v) \<and> \<not> av_test_mode v) \<and>
     verify_proof sha512 (av_proof_verifier v) q r = Inr True"
  by (cases "first_mismatch (response_bindings q r)"; cases "cp_expires_at r";
      cases "verify_proof sha512 (av_proof_verifier v) q r")
    (auto simp: verify_clearance_def clearance_result_def simp del: first_mismatch_None_iff split: if_splits)

text \<open>
  Signed message. Two proof materials with one signed message agree on every field of the proof
  order, as long as no field contains a line feed.
\<close>

theorem proof_message_binds:
  assumes "build_clearance_proof_message m = Inr msg" "build_clearance_proof_message m' = Inr msg"
    and "one_line m" "one_line m'" "f \<in> set ACT_PROOF_FIELD_ORDER"
  shows "dict_get m f = dict_get m' f"
  by (rule proof_message_inj [OF assms])

definition sample_material :: material where
  "sample_material = map (\<lambda>f. (f, ''x'')) ACT_PROOF_FIELD_ORDER"

theorem proof_message_binds_witness:
  "dict_get sample_material ''tower_id'' = dict_get (rev sample_material) ''tower_id''"
proof (rule proof_message_binds)
  show "build_clearance_proof_message sample_material = Inr (str_join LF (ACT_PROOF_CANONICALIZATION #
      map (field_of sample_material) ACT_PROOF_FIELD_ORDER))" by code_simp
  show "build_clearance_proof_message (rev sample_material) = Inr (str_join LF (ACT_PROOF_CANONICALIZATION #
      map (field_of sample_material) ACT_PROOF_FIELD_ORDER))" by code_simp
  show "one_line sample_material" "one_line (rev sample_material)" "''tower_id'' \<in> set ACT_PROOF_FIELD_ORDER"
    by code_simp+
qed

text \<open>
  Transport failures. If the HTTP clearance client reports a cleared response, then the tower
  answered both calls and its status payload, read as a response, is in the state approved; every
  failure of the transport and every unreadable answer clears nothing.
\<close>

theorem http_client_fails_closed:
  assumes "make_clearance_request q = Inr q"
    and "http_request_clearance post agent extra q timeout s = (Inr r, s')" "cp_status r = CLEARED"
  shows "\<exists>req s1 i st. post APPROVAL_REQUESTED_PATH
       (clearance_request_to_act_payload q agent (timeout + extra)) timeout s = (Inr req, s1) \<and>
     post APPROVAL_STATUS_PATH [(''approval_id'', PStr i)] timeout s1 = (Inr st, s') \<and>
     clearance_response_from_act_payload st = Inr r \<and> str_lower (str_get st ''state'' []) = ''approved''"
  by (rule http_failure_not_cleared [OF assms])

definition sample_status :: jobject where
  "sample_status = [(''state'', JStr ''approved''), (''request_id'', JStr ''rid''), (''session_id'', JStr ''s''),
     (''target'', JStr ''t''), (''provider'', JStr ''p''), (''capability'', JStr ''power.force_off''),
     (''params_fingerprint'', JStr ''f''), (''short_code'', JStr ''code''), (''risk_family'', JStr ''high_risk''),
     (''tower_id'', JStr ''tower''), (''audit_correlation_id'', JStr ''c''), (''operator_message'', JStr ''m''),
     (''reason'', JStr ''ok'')]"

definition sample_post :: "unit transport" where
  "sample_post = (\<lambda>path payload timeout s. (Inr sample_status, s))"

theorem http_client_fails_closed_witness:
  "\<exists>q i. sample_post APPROVAL_STATUS_PATH [(''approval_id'', PStr i)] 20 () = (Inr sample_status, ()) \<and>
     make_clearance_request q = Inr q"
proof -
  obtain q where b: "build_clearance_request (\<lambda>s. ''digest'') ''s'' ''t'' ''p'' ''power.force_off'' [] HIGH_RISK ''rule''
      [''power loss''] ''off'' ''a'' ''c'' [] (Aware 0 0) 20 ''rid'' False = Inr q"
    using sample_clearance by blast
  have wf: "make_clearance_request q = Inr q"
    using b by (auto simp: build_clearance_request_def bind_res_Inr_iff split: if_splits prod.splits
        dest: make_clearance_request_Inr)
  have "\<not> isl (clearance_response_from_act_payload sample_status)"
    "case clearance_response_from_act_payload sample_status of Inr r \<Rightarrow> cp_status r = CLEARED | Inl _ \<Rightarrow> True"
    by code_simp+
  then obtain r where r: "clearance_response_from_act_payload sample_status = Inr r" "cp_status r = CLEARED"
    by (auto split: sum.splits)
  have "http_request_clearance sample_post ''a'' 5 q 20 () = (Inr r, ())"
    by (simp add: http_request_clearance_def sample_post_def r Let_def)
  from http_client_fails_closed [OF wf this r(2)] show ?thesis using wf by (auto simp: sample_post_def)
qed

end
