(* ===== verification/ApprovalQueue.thy ===== *)
theory ApprovalQueue
  imports AuditLog StateRes
begin

text \<open>
  \<open>control_plane/approval_transport.py\<close>: the file-backed queue in which approval requests wait for an
  operator. A record goes from pending to approved, denied or expired, and from approved to consumed
  or expired; every operation reads the whole file, changes at most one record and writes the file
  back. The queue's step on the statuses of the file is shown to implement the relation \<open>lifecycle\<close>.
\<close>

section \<open>Records\<close>

datatype local_status = LS_PENDING | LS_APPROVED | LS_DENIED | LS_EXPIRED | LS_CONSUMED

fun local_status_value :: "local_status \<Rightarrow> string" where
  "local_status_value LS_PENDING = ''pending''"
| "local_status_value LS_APPROVED = ''approved''"
| "local_status_value LS_DENIED = ''denied''"
| "local_status_value LS_EXPIRED = ''expired''"
| "local_status_value LS_CONSUMED = ''consumed''"

definition all_local_statuses :: "local_status list" where
  "all_local_statuses = [LS_PENDING, LS_APPROVED, LS_DENIED, LS_EXPIRED, LS_CONSUMED]"

definition local_status_of :: "string \<Rightarrow> local_status res" where
  "local_status_of v =
     (case find (\<lambda>s. local_status_value s = v) all_local_statuses of
        Some s \<Rightarrow> Inr s | None \<Rightarrow> raise ValueError (v @ '' is not a valid LocalApprovalStatus''))"

definition grant_scope_of :: "string \<Rightarrow> grant_scope res" where
  "grant_scope_of v =
     (case find (\<lambda>s. grant_scope_value s = v) [ONE_TIME, SESSION] of
        Some s \<Rightarrow> Inr s | None \<Rightarrow> raise ValueError (v @ '' is not a valid ApprovalGrantScope''))"

record local_record =
  lr_id :: string
  lr_status :: local_status
  lr_created_at :: datetime
  lr_expires_at :: datetime
  lr_session_id :: string
  lr_target_id :: string
  lr_provider_id :: string
  lr_capability_id :: string
  lr_params_fingerprint :: string
  lr_policy_decision :: string
  lr_operator_message :: string
  lr_material_risks :: "string list"
  lr_request :: params
  lr_scope :: "grant_scope option"
  lr_operator_id :: "string option"
  lr_response_id :: "string option"
  lr_reason :: "string option"
  lr_decided_at :: "datetime option"
  lr_consumed_at :: "datetime option"
  lr_redactions :: "string list"

text \<open>\<open>__post_init__\<close>: the request is redacted, the redacted paths are added.\<close>

definition make_local_record :: "local_record \<Rightarrow> local_record" where
  "make_local_record r =
     (let (safe, paths) = redact_mapping None (lr_request r)
      in r\<lparr>lr_request := safe, lr_redactions := lr_redactions r @ prefixed ''request'' paths\<rparr>)"

section \<open>Reading fields\<close>

definition queue_text :: "json \<Rightarrow> string \<Rightarrow> string res" where
  "queue_text v key =
     (case v of JStr s \<Rightarrow> if s = [] then raise ValueError (''approval '' @ key @ '' is required'') else Inr s
      | _ \<Rightarrow> raise ValueError (''approval '' @ key @ '' is required''))"

definition queue_required_str :: "jobject \<Rightarrow> string \<Rightarrow> string res" where
  "queue_required_str values key = queue_text (rget values key) key"

fun queue_optional_str :: "json \<Rightarrow> string option res" where
  "queue_optional_str JNull = Inr None"
| "queue_optional_str (JStr s) = Inr (Some s)"
| "queue_optional_str v = raise ValueError ''approval optional string fields must be strings''"

definition queue_mapping :: "json \<Rightarrow> string \<Rightarrow> jobject res" where
  "queue_mapping v name = (case v of JObj kvs \<Rightarrow> Inr kvs | _ \<Rightarrow> raise ValueError (name @ '' must be an object''))"

fun assume_utc :: "datetime \<Rightarrow> datetime" where
  "assume_utc (Aware i off) = Aware i off"
| "assume_utc (Naive w i) = Aware w 0"

fun queue_datetime :: "json \<Rightarrow> datetime option res" where
  "queue_datetime JNull = Inr None"
| "queue_datetime (JStr s) =
     (if s = [] then raise ValueError ''approval datetime fields must be ISO datetime strings''
      else bind_res (fromisoformat s) (\<lambda>t. Inr (Some (assume_utc t))))"
| "queue_datetime v = raise ValueError ''approval datetime fields must be ISO datetime strings''"

definition queue_required_datetime :: "jobject \<Rightarrow> string \<Rightarrow> datetime res" where
  "queue_required_datetime values key =
     bind_res (queue_datetime (rget values key)) (\<lambda>t. case t of
        Some d \<Rightarrow> Inr d | None \<Rightarrow> raise ValueError (''approval '' @ key @ '' is required''))"

text \<open>\<open>json.loads(json.dumps(value, sort_keys=True, default=str))\<close>\<close>

definition queue_json_safe :: "params \<Rightarrow> jobject" where
  "queue_json_safe v = (case canon (act_json (pdict v)) of JObj kvs \<Rightarrow> kvs | _ \<Rightarrow> [])"

definition queue_redact_text :: "string \<Rightarrow> string" where
  "queue_redact_text v =
     (if \<exists>token \<in> set [''password'', ''secret'', ''token'', ''api_key'', ''private_key'', ''bearer''].
           contains (str_lower v) token
      then ''[REDACTED]'' else v)"

definition queue_strings :: "jobject \<Rightarrow> string \<Rightarrow> string list res" where
  "queue_strings values key = bind_res (json_iter (get_or (JObj values) key (JArr []))) (\<lambda>xs. Inr (map json_str xs))"

definition json_params :: "jobject \<Rightarrow> params" where
  "json_params kvs = map (\<lambda>(k, v). (k, pyval_of_json v)) kvs"

section \<open>Records from mappings, and back\<close>

definition local_record_from_mcp_result :: "jobject \<Rightarrow> datetime \<Rightarrow> local_record res" where
  "local_record_from_mcp_result result now =
     (if rget result ''status'' \<noteq> JStr ''approval_required'' then raise ValueError ''result does not require approval''
      else
        bind_res (queue_mapping (get_or (JObj result) ''data'' (JObj [])) ''approval result data'') (\<lambda>data.
        bind_res (queue_mapping (get_or (JObj data) ''approval_request'' (JObj [])) ''approval_request'') (\<lambda>approval.
        bind_res (queue_mapping (get_or (JObj approval) ''target_scope'' (JObj [])) ''target_scope'') (\<lambda>target_scope.
        bind_res (case rget target_scope ''targets'' of
                    JArr (JStr t # ts) \<Rightarrow> Inr t
                  | _ \<Rightarrow> raise ValueError ''approval request target scope is missing'') (\<lambda>target.
        bind_res (queue_mapping (get_or (JObj approval) ''capability'' (JObj [])) ''capability'') (\<lambda>capability.
        bind_res (queue_datetime (rget approval ''created_at'')) (\<lambda>created.
        bind_res (bind_res (queue_datetime (rget approval ''expires_at'')) (\<lambda>e. case e of
                    Some t \<Rightarrow> Inr t | None \<Rightarrow> raise ValueError ''approval request expiry is required'')) (\<lambda>expires.
        bind_res (case rget data ''params_fingerprint'' of
                    JStr f \<Rightarrow> if f = [] then raise ValueError ''approval params fingerprint is required'' else Inr f
                  | _ \<Rightarrow> raise ValueError ''approval params fingerprint is required'') (\<lambda>fingerprint.
        bind_res (queue_required_str approval ''id'') (\<lambda>id'.
        bind_res (queue_required_str approval ''session_id'') (\<lambda>session.
        bind_res (queue_required_str approval ''provider_id'') (\<lambda>provider.
        bind_res (queue_required_str capability ''id'') (\<lambda>cap.
        bind_res (queue_required_str approval ''policy_decision'') (\<lambda>decision.
        bind_res (queue_required_str approval ''operator_message'') (\<lambda>message.
        bind_res (queue_strings approval ''material_risks'') (\<lambda>risks.
        Inr (make_local_record
          \<lparr>lr_id = id', lr_status = LS_PENDING, lr_created_at = (case created of Some t \<Rightarrow> t | None \<Rightarrow> now),
           lr_expires_at = expires, lr_session_id = session, lr_target_id = target, lr_provider_id = provider,
           lr_capability_id = cap, lr_params_fingerprint = fingerprint, lr_policy_decision = decision,
           lr_operator_message = queue_redact_text message, lr_material_risks = risks,
           lr_request = json_params [(''approval_request'', JObj approval),
                                     (''params_preview'', get_or (JObj data) ''params_preview'' (JObj []))],
           lr_scope = None, lr_operator_id = None, lr_response_id = None, lr_reason = None,
           lr_decided_at = None, lr_consumed_at = None, lr_redactions = []\<rparr>)))))))))))))))))"

definition local_record_from_dict :: "jobject \<Rightarrow> local_record res" where
  "local_record_from_dict values =
     bind_res (queue_required_str values ''id'') (\<lambda>id'.
     bind_res (bind_res (queue_required_str values ''status'') local_status_of) (\<lambda>status.
     bind_res (queue_required_datetime values ''created_at'') (\<lambda>created.
     bind_res (queue_required_datetime values ''expires_at'') (\<lambda>expires.
     bind_res (queue_required_str values ''session_id'') (\<lambda>session.
     bind_res (queue_required_str values ''target_id'') (\<lambda>target.
     bind_res (queue_required_str values ''provider_id'') (\<lambda>provider.
     bind_res (queue_required_str values ''capability_id'') (\<lambda>cap.
     bind_res (queue_required_str values ''params_fingerprint'') (\<lambda>fingerprint.
     bind_res (queue_required_str values ''policy_decision'') (\<lambda>decision.
     bind_res (queue_required_str values ''operator_message'') (\<lambda>message.
     bind_res (queue_strings values ''material_risks'') (\<lambda>risks.
     bind_res (queue_mapping (get_or (JObj values) ''request'' (JObj [])) ''request'') (\<lambda>request.
     bind_res (case rget values ''scope'' of JNull \<Rightarrow> Inr None
               | v \<Rightarrow> bind_res (grant_scope_of (json_str v)) (\<lambda>s. Inr (Some s))) (\<lambda>scope.
     bind_res (queue_optional_str (rget values ''operator_id'')) (\<lambda>operator.
     bind_res (queue_optional_str (rget values ''response_id'')) (\<lambda>response.
     bind_res (queue_optional_str (rget values ''reason'')) (\<lambda>reason.
     bind_res (queue_datetime (rget values ''decided_at'')) (\<lambda>decided.
     bind_res (queue_datetime (rget values ''consumed_at'')) (\<lambda>consumed.
     bind_res (queue_strings values ''redactions'') (\<lambda>redactions.
     Inr (make_local_record
       \<lparr>lr_id = id', lr_status = status, lr_created_at = created, lr_expires_at = expires,
        lr_session_id = session, lr_target_id = target, lr_provider_id = provider, lr_capability_id = cap,
        lr_params_fingerprint = fingerprint, lr_policy_decision = decision,
        lr_operator_message = queue_redact_text message, lr_material_risks = risks,
        lr_request = json_params request, lr_scope = scope, lr_operator_id = operator,
        lr_response_id = response,
        lr_reason = (case reason of None \<Rightarrow> None
                     | Some t \<Rightarrow> if queue_redact_text t = [] then None else Some (queue_redact_text t)),
        lr_decided_at = decided, lr_consumed_at = consumed, lr_redactions = redactions\<rparr>)))))))))))))))))))))"

definition iso_option :: "datetime option \<Rightarrow> pyval" where
  "iso_option t = (case t of None \<Rightarrow> PNone | Some d \<Rightarrow> PStr (isoformat d))"

definition local_record_to_dict :: "local_record \<Rightarrow> jobject" where
  "local_record_to_dict r = queue_json_safe
     [(''id'', PStr (lr_id r)), (''status'', PStr (local_status_value (lr_status r))),
      (''created_at'', PStr (isoformat (lr_created_at r))), (''expires_at'', PStr (isoformat (lr_expires_at r))),
      (''session_id'', PStr (lr_session_id r)), (''target_id'', PStr (lr_target_id r)),
      (''provider_id'', PStr (lr_provider_id r)), (''capability_id'', PStr (lr_capability_id r)),
      (''params_fingerprint'', PStr (lr_params_fingerprint r)), (''policy_decision'', PStr (lr_policy_decision r)),
      (''operator_message'', PStr (lr_operator_message r)), (''material_risks'', pystrs (lr_material_risks r)),
      (''request'', pdict (lr_request r)), (''scope'', pyopt (map_option grant_scope_value (lr_scope r))),
      (''operator_id'', pyopt (lr_operator_id r)), (''response_id'', pyopt (lr_response_id r)),
      (''reason'', pyopt (lr_reason r)), (''decided_at'', iso_option (lr_decided_at r)),
      (''consumed_at'', iso_option (lr_consumed_at r)),
      (''redactions'', pystrs (sort (remdups (lr_redactions r))))]"

definition local_record_to_summary :: "local_record \<Rightarrow> jobject" where
  "local_record_to_summary r = queue_json_safe
     [(''id'', PStr (lr_id r)), (''status'', PStr (local_status_value (lr_status r))),
      (''session_id'', PStr (lr_session_id r)), (''target_id'', PStr (lr_target_id r)),
      (''provider_id'', PStr (lr_provider_id r)), (''capability_id'', PStr (lr_capability_id r)),
      (''scope'', pyopt (map_option grant_scope_value (lr_scope r))),
      (''expires_at'', PStr (isoformat (lr_expires_at r))), (''operator_message'', PStr (lr_operator_message r)),
      (''material_risks'', pystrs (lr_material_risks r)),
      (''redactions'', pystrs (sort (remdups (lr_redactions r))))]"

section \<open>What an operator does to a record\<close>

text \<open>\<open>from_dict({**self.to_dict(), ...})\<close>: the copy with some fields changed.\<close>

definition local_record_with :: "(string \<times> json) list \<Rightarrow> local_record \<Rightarrow> local_record res" where
  "local_record_with changes r = local_record_from_dict (dict_of changes (local_record_to_dict r))"

definition approved_grant :: "local_record \<Rightarrow> datetime \<Rightarrow> action_grant option res" where
  "approved_grant r now =
     (if lr_status r \<noteq> LS_APPROVED then Inr None
      else (case (lr_scope r, lr_operator_id r, lr_response_id r) of
         (Some scope, Some operator, Some response) \<Rightarrow>
           bind_res (dt_geq now (lr_expires_at r)) (\<lambda>late.
           if late then Inr None
           else
             bind_res (make_actor OPERATOR operator) (\<lambda>who.
             bind_res (make_action_grant
               \<lparr>ag_request_id = lr_id r, ag_response_id = response, ag_capability_id = lr_capability_id r,
                ag_session_id = lr_session_id r, ag_target_id = lr_target_id r, ag_provider_id = lr_provider_id r,
                ag_params_fingerprint = lr_params_fingerprint r, ag_expires_at = lr_expires_at r,
                ag_scope = scope, ag_operator = who\<rparr>) (\<lambda>g. Inr (Some g))))
       | _ \<Rightarrow> Inr None))"

definition response_id_for :: "local_record \<Rightarrow> string \<Rightarrow> string" where
  "response_id_for r fresh = ''local-response-'' @ lr_id r @ ''-'' @ fresh"

text \<open>The fresh id is an argument; the code draws it only when it needs one.\<close>

definition expire_record ::
    "string \<Rightarrow> string option \<Rightarrow> datetime \<Rightarrow> string \<Rightarrow> local_record \<Rightarrow> local_record res" where
  "expire_record operator reason now fresh r =
     (if lr_status r \<notin> {LS_PENDING, LS_APPROVED}
      then raise ValueError (''approval '' @ lr_id r @ '' cannot expire from '' @ local_status_value (lr_status r))
      else local_record_with
        [(''status'', JStr (local_status_value LS_EXPIRED)), (''operator_id'', JStr operator),
         (''response_id'', JStr (reason_or (lr_response_id r) (response_id_for r fresh))),
         (''reason'', JStr (queue_redact_text (reason_or reason ''expired''))),
         (''decided_at'', JStr (isoformat now))] r)"

definition approve_record ::
    "string \<Rightarrow> grant_scope \<Rightarrow> string option \<Rightarrow> datetime \<Rightarrow> string \<Rightarrow> local_record \<Rightarrow> local_record res" where
  "approve_record operator scope reason now fresh r =
     (if lr_status r \<noteq> LS_PENDING then raise ValueError (''approval '' @ lr_id r @ '' is not pending'')
      else
        bind_res (dt_geq now (lr_expires_at r)) (\<lambda>late.
        if late then expire_record operator (Some ''approval expired'') now fresh r
        else
          bind_res (local_record_with
            [(''status'', JStr (local_status_value LS_APPROVED)), (''scope'', JStr (grant_scope_value scope)),
             (''operator_id'', JStr operator), (''response_id'', JStr (response_id_for r fresh)),
             (''reason'', JStr (queue_redact_text (reason_or reason ''approved''))),
             (''decided_at'', JStr (isoformat now))] r) (\<lambda>approved.
          bind_res (approved_grant approved now) (\<lambda>_. Inr approved))))"

definition deny_record :: "string \<Rightarrow> string option \<Rightarrow> datetime \<Rightarrow> string \<Rightarrow> local_record \<Rightarrow> local_record res" where
  "deny_record operator reason now fresh r =
     (if lr_status r \<noteq> LS_PENDING then raise ValueError (''approval '' @ lr_id r @ '' is not pending'')
      else local_record_with
        [(''status'', JStr (local_status_value LS_DENIED)), (''operator_id'', JStr operator),
         (''response_id'', JStr (response_id_for r fresh)),
         (''reason'', JStr (queue_redact_text (reason_or reason ''denied''))),
         (''decided_at'', JStr (isoformat now))] r)"

definition consume_record :: "datetime \<Rightarrow> local_record \<Rightarrow> local_record res" where
  "consume_record now r =
     (if lr_status r \<noteq> LS_APPROVED then raise ValueError (''approval '' @ lr_id r @ '' is not approved'')
      else if lr_scope r = Some SESSION then Inr r
      else local_record_with
        [(''status'', JStr (local_status_value LS_CONSUMED)), (''consumed_at'', JStr (isoformat now))] r)"

definition matches_action :: "local_record \<Rightarrow> action_query \<Rightarrow> bool res" where
  "matches_action r q =
     (if lr_status r = LS_APPROVED \<and> lr_capability_id r = q_capability_id q \<and>
         lr_session_id r = q_session_id q \<and> lr_target_id r = q_target_id q \<and>
         lr_provider_id r = q_provider_id q \<and> lr_params_fingerprint r = q_params_fingerprint q
      then dt_less (q_now q) (lr_expires_at r) else Inr False)"

section \<open>The queue\<close>

text \<open>The file: missing, not JSON, or a parsed document.\<close>

datatype queue_file = NoFile | BadText | QueueDoc json

record 'a queue_state =
  qs_file :: queue_file
  qs_sink :: 'a
  qs_ticks :: nat

text \<open>The sink is optional; the clock of the queue, the clock of the events and the fresh ids are inputs.\<close>

record 'a approval_queue =
  qu_emit :: "(audit_event \<Rightarrow> 'a \<Rightarrow> 'a res) option"
  qu_now :: "nat \<Rightarrow> datetime"
  qu_utcnow :: "nat \<Rightarrow> datetime"
  qu_uuid :: "nat \<Rightarrow> string"

definition queue_tick :: "(nat \<Rightarrow> 'x) \<Rightarrow> ('a queue_state, 'x) op" where
  "queue_tick source s = (Inr (source (qs_ticks s)), s\<lparr>qs_ticks := Suc (qs_ticks s)\<rparr>)"

type_synonym local_records = "(string, local_record) dict"

fun add_records :: "json list \<Rightarrow> local_records \<Rightarrow> local_records res" where
  "add_records [] recs = Inr recs"
| "add_records (JObj item # items) recs =
     bind_res (local_record_from_dict item) (\<lambda>r. add_records items (dict_set (lr_id r) r recs))"
| "add_records (v # items) recs = raise ValueError ''approval queue records must be objects''"

definition load_records :: "queue_file \<Rightarrow> local_records res" where
  "load_records file =
     (case file of
        NoFile \<Rightarrow> Inr []
      | BadText \<Rightarrow> raise JSONDecodeError ''Expecting value''
      | QueueDoc payload \<Rightarrow>
          if \<not> is_json_obj payload then raise ValueError ''approval queue must contain an object''
          else (case get_or payload ''approvals'' (JArr []) of
             JArr items \<Rightarrow> add_records items []
           | _ \<Rightarrow> raise ValueError ''approval queue approvals must be a list''))"

text \<open>\<open>sorted(records, key=created_at)\<close>: a mix of naive and aware times cannot be ordered.\<close>

fun sort_time :: "datetime \<Rightarrow> int" where
  "sort_time (Aware i off) = i"
| "sort_time (Naive w i) = w"

definition sort_records :: "local_record list \<Rightarrow> local_record list res" where
  "sort_records rs =
     (if (\<forall>r \<in> set rs. is_aware (lr_created_at r)) \<or> (\<forall>r \<in> set rs. \<not> is_aware (lr_created_at r))
      then Inr (sort_key (\<lambda>r. sort_time (lr_created_at r)) rs)
      else raise TypeError ''can't compare offset-naive and offset-aware datetimes'')"

definition save_records :: "local_records \<Rightarrow> ('a queue_state, unit) op" where
  "save_records recs =
     bind_op (lift_res (sort_records (map snd recs))) (\<lambda>rs.
     modify_op (\<lambda>s. s\<lparr>qs_file := QueueDoc (JObj [(''approvals'', JArr (map (JObj \<circ> local_record_to_dict) rs)),
                                                (''version'', JStr ''0.1'')])\<rparr>))"

definition require_record :: "local_records \<Rightarrow> string \<Rightarrow> local_record res" where
  "require_record recs approval_id =
     (case dict_get recs approval_id of
        Some r \<Rightarrow> Inr r | None \<Rightarrow> raise ValueError (''Unknown approval id: '' @ approval_id))"

definition emit_decision_event ::
    "'a approval_queue \<Rightarrow> audit_event_type \<Rightarrow> local_record \<Rightarrow> ('a queue_state, unit) op" where
  "emit_decision_event qu t r =
     (case qu_emit qu of
        None \<Rightarrow> ret ()
      | Some emit \<Rightarrow>
          bind_op (lift_res (registry_require DEFAULT_CAPABILITY_REGISTRY (lr_capability_id r))) (\<lambda>c.
          bind_op (lift_res (make_actor OPERATOR (reason_or (lr_operator_id r) ''unknown-operator''))) (\<lambda>who.
          bind_op (lift_res (case find (\<lambda>d. decision_value d = lr_policy_decision r) all_decisions of
                      Some d \<Rightarrow> Inr d
                    | None \<Rightarrow> raise ValueError (lr_policy_decision r @ '' is not a valid PolicyDecision''))) (\<lambda>d.
          bind_op (queue_tick (qu_uuid qu)) (\<lambda>new_id.
          bind_op (queue_tick (qu_utcnow qu)) (\<lambda>now.
          bind_op (lift_res (build_audit_event new_id now t (''approval-transport:'' @ lr_id r) (lr_session_id r)
             who (ref_of_capability c) d (Some (lr_target_id r))
             (Some [(''approval_request'', pdict (lr_request r))])
             (Some [(''status'', PStr (local_status_value (lr_status r))),
                    (''scope'', pyopt (map_option grant_scope_value (lr_scope r))), (''reason'', pyopt (lr_reason r))])
             (lr_material_risks r))) (\<lambda>e s.
           (case emit e (qs_sink s) of Inl x \<Rightarrow> (Inl x, s) | Inr k \<Rightarrow> (Inr (), s\<lparr>qs_sink := k\<rparr>)))))))))"

section \<open>Operations\<close>

definition load_op :: "('a queue_state, local_records) op" where
  "load_op s = (load_records (qs_file s), s)"

definition list_records :: "('a queue_state, local_record list) op" where
  "list_records = bind_op load_op (\<lambda>recs. ret (map snd recs))"

definition get_record :: "string \<Rightarrow> ('a queue_state, local_record) op" where
  "get_record approval_id = bind_op load_op (\<lambda>recs. lift_res (require_record recs approval_id))"

definition enqueue_mcp_result :: "'a approval_queue \<Rightarrow> jobject \<Rightarrow> ('a queue_state, local_record) op" where
  "enqueue_mcp_result qu result =
     bind_op (queue_tick (qu_now qu)) (\<lambda>now.
     bind_op (lift_res (local_record_from_mcp_result result now)) (\<lambda>r.
     bind_op load_op (\<lambda>recs.
     (case dict_get recs (lr_id r) of
        Some existing \<Rightarrow> ret existing
      | None \<Rightarrow> seq_op (save_records (dict_set (lr_id r) r recs)) (ret r)))))"

text \<open>The three decisions: load, change one record, save, tell the audit sink.\<close>

definition decide ::
    "'a approval_queue \<Rightarrow> audit_event_type \<Rightarrow> string \<Rightarrow> (datetime \<Rightarrow> string \<Rightarrow> local_record \<Rightarrow> local_record res) \<Rightarrow>
     ('a queue_state, local_record) op" where
  "decide qu t approval_id change =
     bind_op load_op (\<lambda>recs.
     bind_op (lift_res (require_record recs approval_id)) (\<lambda>r.
     bind_op (queue_tick (qu_now qu)) (\<lambda>now.
     bind_op (queue_tick (qu_uuid qu)) (\<lambda>fresh.
     bind_op (lift_res (change now fresh r)) (\<lambda>r'.
     seq_op (save_records (dict_set approval_id r' recs))
     (seq_op (emit_decision_event qu t r') (ret r')))))))"

definition queue_approve ::
    "'a approval_queue \<Rightarrow> string \<Rightarrow> string \<Rightarrow> grant_scope \<Rightarrow> string option \<Rightarrow> ('a queue_state, local_record) op" where
  "queue_approve qu approval_id operator scope reason =
     decide qu APPROVAL_GRANTED approval_id (approve_record operator scope reason)"

definition queue_deny ::
    "'a approval_queue \<Rightarrow> string \<Rightarrow> string \<Rightarrow> string option \<Rightarrow> ('a queue_state, local_record) op" where
  "queue_deny qu approval_id operator reason =
     decide qu APPROVAL_DENIED approval_id (deny_record operator reason)"

definition queue_expire ::
    "'a approval_queue \<Rightarrow> string \<Rightarrow> string \<Rightarrow> string option \<Rightarrow> ('a queue_state, local_record) op" where
  "queue_expire qu approval_id operator reason =
     decide qu APPROVAL_EXPIRED approval_id (expire_record operator reason)"

fun collect_grants :: "'a approval_queue \<Rightarrow> local_record list \<Rightarrow> approval_store \<Rightarrow> ('a queue_state, approval_store) op" where
  "collect_grants qu [] store = ret store"
| "collect_grants qu (r # rs) store =
     bind_op (queue_tick (qu_now qu)) (\<lambda>now.
     bind_op (lift_res (approved_grant r now)) (\<lambda>g.
       collect_grants qu rs (case g of None \<Rightarrow> store | Some x \<Rightarrow> store_add_action_grant x store)))"

definition to_approval_store :: "'a approval_queue \<Rightarrow> ('a queue_state, approval_store) op" where
  "to_approval_store qu = bind_op list_records (\<lambda>rs. collect_grants qu rs empty_store)"

text \<open>The query's own time is not used: every record is compared with a new reading of the clock.\<close>

fun consume_matching ::
    "'a approval_queue \<Rightarrow> action_query \<Rightarrow> local_records \<Rightarrow> local_records \<Rightarrow>
     ('a queue_state, local_record option) op" where
  "consume_matching qu q recs [] = ret None"
| "consume_matching qu q recs ((approval_id, r) # others) =
     bind_op (queue_tick (qu_now qu)) (\<lambda>now.
     bind_op (lift_res (matches_action r (q\<lparr>q_now := now\<rparr>))) (\<lambda>matches.
       if \<not> matches then consume_matching qu q recs others
       else if lr_scope r = Some SESSION then ret None
       else
         bind_op (queue_tick (qu_now qu)) (\<lambda>now'.
         bind_op (lift_res (consume_record now' r)) (\<lambda>r'.
         seq_op (save_records (dict_set approval_id r' recs)) (ret (Some r'))))))"

definition mark_matching_consumed :: "'a approval_queue \<Rightarrow> action_query \<Rightarrow> ('a queue_state, local_record option) op" where
  "mark_matching_consumed qu q = bind_op load_op (\<lambda>recs. consume_matching qu q recs recs)"

text \<open>What happens to a queue: a sequence of these commands, each of which may raise.\<close>

datatype queue_command =
    Enqueue jobject
  | Approve string string grant_scope "string option"
  | Deny string string "string option"
  | Expire string string "string option"
  | MarkConsumed action_query

fun queue_step :: "'a approval_queue \<Rightarrow> queue_command \<Rightarrow> 'a queue_state \<Rightarrow> 'a queue_state" where
  "queue_step qu (Enqueue result) s = snd (enqueue_mcp_result qu result s)"
| "queue_step qu (Approve i who scope reason) s = snd (queue_approve qu i who scope reason s)"
| "queue_step qu (Deny i who reason) s = snd (queue_deny qu i who reason s)"
| "queue_step qu (Expire i who reason) s = snd (queue_expire qu i who reason s)"
| "queue_step qu (MarkConsumed q) s = snd (mark_matching_consumed qu q s)"

definition run_queue :: "'a approval_queue \<Rightarrow> queue_command list \<Rightarrow> 'a queue_state \<Rightarrow> 'a queue_state" where
  "run_queue qu cs s = fold (queue_step qu) cs s"

end
