(* ===== verification/QueueFacts.thy ===== *)
theory QueueFacts
  imports ApprovalQueue
begin

text \<open>
  The lifecycle of the approval queue: what a record keeps when it is written and read back, the
  relation between the statuses of the file before and after each command, and the grants that the
  queue hands to the engine.
\<close>

section \<open>Fields of a written record\<close>

lemma map_of_sort_key:
  assumes "distinct (map fst kvs)"
  shows "map_of (sort_key fst kvs) = map_of kvs"
proof -
  have "distinct (map fst (sort_key fst kvs))"
    using assms by (simp add: distinct_map inj_on_def)
  then show ?thesis using assms by (intro map_of_eqI) (auto simp: map_of_eq_Some_iff)
qed

lemma rget_json_safe:
  assumes "distinct (map fst d)"
  shows "rget (queue_json_safe d) k = (case map_of d k of None \<Rightarrow> JNull | Some v \<Rightarrow> canon (act_json v))"
proof -
  let ?kvs = "map (\<lambda>(k, v). (k, canon (act_json v))) d"
  have k: "map (\<lambda>(k, v). (k, canon v)) (map (\<lambda>(k, v). (key_text k, act_json v)) (map (\<lambda>(k, v). (KStr k, v)) d)) = ?kvs"
    by (simp add: split_beta)
  have "queue_json_safe d = sort_key fst ?kvs"
    unfolding queue_json_safe_def pdict_def act_json.simps canon.simps k by simp
  moreover have "map_of (sort_key fst ?kvs) = map_of ?kvs"
    using assms by (intro map_of_sort_key) (simp add: comp_def split_beta)
  moreover have "map_of ?kvs k = map_option (\<lambda>v. canon (act_json v)) (map_of d k)"
    by (simp add: map_of_map)
  ultimately show ?thesis by (simp add: rget_def split: option.split)
qed

lemma written_fields [simp]:
  "rget (local_record_to_dict r) ''id'' = JStr (lr_id r)"
  "rget (local_record_to_dict r) ''status'' = JStr (local_status_value (lr_status r))"
  "rget (local_record_to_dict r) ''session_id'' = JStr (lr_session_id r)"
  "rget (local_record_to_dict r) ''target_id'' = JStr (lr_target_id r)"
  "rget (local_record_to_dict r) ''provider_id'' = JStr (lr_provider_id r)"
  "rget (local_record_to_dict r) ''capability_id'' = JStr (lr_capability_id r)"
  "rget (local_record_to_dict r) ''params_fingerprint'' = JStr (lr_params_fingerprint r)"
  "rget (local_record_to_dict r) ''policy_decision'' = JStr (lr_policy_decision r)"
  "rget (local_record_to_dict r) ''scope'' = (case lr_scope r of None \<Rightarrow> JNull | Some s \<Rightarrow> JStr (grant_scope_value s))"
  "rget (local_record_to_dict r) ''operator_id'' = (case lr_operator_id r of None \<Rightarrow> JNull | Some s \<Rightarrow> JStr s)"
  "rget (local_record_to_dict r) ''response_id'' = (case lr_response_id r of None \<Rightarrow> JNull | Some s \<Rightarrow> JStr s)"
  "rget (local_record_to_dict r) ''expires_at'' = JStr (isoformat (lr_expires_at r))"
  "rget (local_record_to_dict r) ''created_at'' = JStr (isoformat (lr_created_at r))"
  unfolding local_record_to_dict_def by (subst rget_json_safe, simp, simp split: option.split)+

lemma rget_dict_of [simp]:
  "rget (dict_of [] d) k = rget d k"
  "rget (dict_of ((c, v) # cs) d) k = rget (dict_of cs (dict_set c v d)) k"
  "rget (dict_set c v d) k = (if k = c then v else rget d k)"
  by (simp_all add: rget_def)

lemma local_status_of_value [simp]: "local_status_of (local_status_value s) = Inr s"
  by (cases s) (simp_all add: local_status_of_def all_local_statuses_def)

lemma local_status_of_Inr: "local_status_of v = Inr s \<Longrightarrow> v = local_status_value s"
  by (auto simp: local_status_of_def split: option.splits dest: find_Some_iff_first)

lemma grant_scope_of_value [simp]: "grant_scope_of (grant_scope_value s) = Inr s"
  by (cases s) (simp_all add: grant_scope_of_def)

lemma queue_required_Inr: "queue_required_str d k = Inr s \<Longrightarrow> rget d k = JStr s \<and> s \<noteq> []"
  by (auto simp: queue_required_str_def queue_text_def split: json.splits if_splits)

lemma queue_optional_Inr: "queue_optional_str v = Inr t \<Longrightarrow> v = (case t of None \<Rightarrow> JNull | Some s \<Rightarrow> JStr s)"
  by (cases v) auto

lemma make_local_record_simps [simp]:
  "lr_id (make_local_record r) = lr_id r" "lr_status (make_local_record r) = lr_status r"
  "lr_session_id (make_local_record r) = lr_session_id r" "lr_target_id (make_local_record r) = lr_target_id r"
  "lr_provider_id (make_local_record r) = lr_provider_id r" "lr_scope (make_local_record r) = lr_scope r"
  "lr_capability_id (make_local_record r) = lr_capability_id r"
  "lr_params_fingerprint (make_local_record r) = lr_params_fingerprint r"
  "lr_policy_decision (make_local_record r) = lr_policy_decision r"
  "lr_operator_id (make_local_record r) = lr_operator_id r" "lr_response_id (make_local_record r) = lr_response_id r"
  "lr_expires_at (make_local_record r) = lr_expires_at r" "lr_created_at (make_local_record r) = lr_created_at r"
  by (simp_all add: make_local_record_def split: prod.split)

lemma from_dict_fields:
  assumes "local_record_from_dict d = Inr r"
  shows "rget d ''id'' = JStr (lr_id r)" "rget d ''status'' = JStr (local_status_value (lr_status r))"
    "rget d ''session_id'' = JStr (lr_session_id r)" "rget d ''target_id'' = JStr (lr_target_id r)"
    "rget d ''provider_id'' = JStr (lr_provider_id r)" "rget d ''capability_id'' = JStr (lr_capability_id r)"
    "rget d ''params_fingerprint'' = JStr (lr_params_fingerprint r)"
    "rget d ''policy_decision'' = JStr (lr_policy_decision r)"
    "rget d ''operator_id'' = (case lr_operator_id r of None \<Rightarrow> JNull | Some s \<Rightarrow> JStr s)"
    "rget d ''response_id'' = (case lr_response_id r of None \<Rightarrow> JNull | Some s \<Rightarrow> JStr s)"
    "is_aware (lr_expires_at r)" "is_aware (lr_created_at r)"
    "queue_datetime (rget d ''expires_at'') = Inr (Some (lr_expires_at r))"
    "queue_datetime (rget d ''created_at'') = Inr (Some (lr_created_at r))"
    "rget d ''scope'' = JNull \<Longrightarrow> lr_scope r = None"
    "rget d ''scope'' = JStr (grant_scope_value sc) \<Longrightarrow> lr_scope r = Some sc"
proof -
  have aware: "queue_datetime v = Inr (Some t) \<Longrightarrow> is_aware t" for v t
    by (cases v; auto simp: bind_res_Inr_iff split: if_splits) (metis assume_utc.elims is_aware.simps(1))
  have req: "queue_required_datetime d k = Inr t \<Longrightarrow> queue_datetime (rget d k) = Inr (Some t)" for k t
    by (auto simp: queue_required_datetime_def bind_res_Inr_iff split: option.splits)
  note facts = assms [unfolded local_record_from_dict_def bind_res_Inr_iff]
  show "rget d ''id'' = JStr (lr_id r)" "rget d ''status'' = JStr (local_status_value (lr_status r))"
    "rget d ''session_id'' = JStr (lr_session_id r)" "rget d ''target_id'' = JStr (lr_target_id r)"
    "rget d ''provider_id'' = JStr (lr_provider_id r)" "rget d ''capability_id'' = JStr (lr_capability_id r)"
    "rget d ''params_fingerprint'' = JStr (lr_params_fingerprint r)"
    "rget d ''policy_decision'' = JStr (lr_policy_decision r)"
    using facts by (auto dest!: queue_required_Inr local_status_of_Inr)
  show "rget d ''operator_id'' = (case lr_operator_id r of None \<Rightarrow> JNull | Some s \<Rightarrow> JStr s)"
    "rget d ''response_id'' = (case lr_response_id r of None \<Rightarrow> JNull | Some s \<Rightarrow> JStr s)"
    using facts by (auto dest!: queue_optional_Inr)
  show e: "queue_datetime (rget d ''expires_at'') = Inr (Some (lr_expires_at r))"
    and c: "queue_datetime (rget d ''created_at'') = Inr (Some (lr_created_at r))"
    using facts by (auto dest!: req)
  show "is_aware (lr_expires_at r)" "is_aware (lr_created_at r)" using e c aware by blast+
  show "rget d ''scope'' = JNull \<Longrightarrow> lr_scope r = None"
    and "rget d ''scope'' = JStr (grant_scope_value sc) \<Longrightarrow> lr_scope r = Some sc"
    using facts by (auto simp: bind_res_Inr_iff)
qed

section \<open>The abstract queue\<close>

text \<open>The action a record is bound to, and what the abstract queue remembers of a record.\<close>

type_synonym action_binding = "string \<times> string \<times> string \<times> string \<times> string"
type_synonym queue_entry = "action_binding \<times> local_status \<times> grant_scope option \<times> string option"

definition record_binding :: "local_record \<Rightarrow> action_binding" where
  "record_binding r =
     (lr_capability_id r, lr_session_id r, lr_target_id r, lr_provider_id r, lr_params_fingerprint r)"

definition entry_of :: "local_record \<Rightarrow> queue_entry" where
  "entry_of r = (record_binding r, lr_status r, lr_scope r, lr_operator_id r)"

definition query_binding :: "action_query \<Rightarrow> action_binding" where
  "query_binding q = (q_capability_id q, q_session_id q, q_target_id q, q_provider_id q, q_params_fingerprint q)"

definition queue_view :: "local_records \<Rightarrow> string \<Rightarrow> queue_entry option" where
  "queue_view recs i = map_option entry_of (dict_get recs i)"

inductive abs_step ::
    "queue_command \<Rightarrow> (string \<Rightarrow> queue_entry option) \<Rightarrow> (string \<Rightarrow> queue_entry option) \<Rightarrow> bool" where
  unchanged: "abs_step c m m"
| enqueued: "m i = None \<Longrightarrow> abs_step (Enqueue result) m (m(i \<mapsto> (b, LS_PENDING, None, None)))"
| approved: "m i = Some (b, LS_PENDING, sc, who) \<Longrightarrow>
    abs_step (Approve i operator scope reason) m (m(i \<mapsto> (b, LS_APPROVED, Some scope, Some operator)))"
| too_late: "m i = Some (b, LS_PENDING, sc, who) \<Longrightarrow>
    abs_step (Approve i operator scope reason) m (m(i \<mapsto> (b, LS_EXPIRED, sc, Some operator)))"
| refused: "m i = Some (b, LS_PENDING, sc, who) \<Longrightarrow>
    abs_step (Deny i operator reason) m (m(i \<mapsto> (b, LS_DENIED, sc, Some operator)))"
| expired: "m i = Some (b, st, sc, who) \<Longrightarrow> st \<in> {LS_PENDING, LS_APPROVED} \<Longrightarrow>
    abs_step (Expire i operator reason) m (m(i \<mapsto> (b, LS_EXPIRED, sc, Some operator)))"
| consumed: "m i = Some (query_binding q, LS_APPROVED, sc, who) \<Longrightarrow> sc \<noteq> Some SESSION \<Longrightarrow>
    abs_step (MarkConsumed q) m (m(i \<mapsto> (query_binding q, LS_CONSUMED, sc, who)))"

inductive_cases abs_stepE: "abs_step c m m'"

inductive abs_run ::
    "queue_command list \<Rightarrow> (string \<Rightarrow> queue_entry option) \<Rightarrow> (string \<Rightarrow> queue_entry option) \<Rightarrow> bool" where
  abs_done: "abs_run [] m m"
| abs_more: "abs_run cs m m' \<Longrightarrow> abs_step c m' m'' \<Longrightarrow> abs_run (cs @ [c]) m m''"

section \<open>Writing and reading back\<close>

lemma status_value_inj [simp]: "local_status_value s = local_status_value t \<longleftrightarrow> s = t"
  by (cases s; cases t) simp_all

lemma reread:
  assumes "local_record_from_dict (local_record_to_dict r) = Inr r'"
  shows "lr_id r' = lr_id r" "entry_of r' = entry_of r"
proof -
  note f = from_dict_fields [OF assms]
  show "lr_id r' = lr_id r" using f(1) by simp
  have "lr_scope r' = lr_scope r" using f(15,16) by (cases "lr_scope r") simp_all
  moreover have "lr_operator_id r' = lr_operator_id r" using f(9) by (auto split: option.splits)
  ultimately show "entry_of r' = entry_of r" using f(2-7) by (simp add: entry_of_def record_binding_def)
qed

definition wf_records :: "local_records \<Rightarrow> bool" where
  "wf_records recs \<longleftrightarrow> distinct (map fst recs) \<and> (\<forall>(i, r) \<in> set recs. lr_id r = i)"

lemma wf_distinct_ids:
  assumes "wf_records recs"
  shows "distinct (map lr_id (map snd recs))"
proof -
  have ids: "map (\<lambda>x. lr_id (snd x)) recs = map fst recs" using assms by (auto simp: wf_records_def)
  have "distinct (map (\<lambda>x. lr_id (snd x)) recs)" unfolding ids using assms by (simp add: wf_records_def)
  then show ?thesis by (simp add: comp_def)
qed

lemma wf_dict_set: "wf_records recs \<Longrightarrow> wf_records (dict_set (lr_id r) r recs)"
proof -
  assume wf: "wf_records recs"
  have mem: "(k, v) \<in> set (dict_set (lr_id r) r recs) \<Longrightarrow> (k, v) = (lr_id r, r) \<or> (k, v) \<in> set recs" for k v
    by (induction recs) (auto split: if_splits)
  from wf show ?thesis by (auto simp: wf_records_def distinct_update dest!: mem)
qed

lemma add_records_wf: "add_records items recs = Inr out \<Longrightarrow> wf_records recs \<Longrightarrow> wf_records out"
  by (induction items recs rule: add_records.induct) (auto simp: bind_res_Inr_iff wf_dict_set)

lemma load_records_wf: "load_records file = Inr recs \<Longrightarrow> wf_records recs"
  by (auto simp: load_records_def wf_records_def [of "[]"] split: queue_file.splits if_splits json.splits
      dest: add_records_wf)

lemma view_dict_set [simp]: "queue_view (dict_set i r recs) = (queue_view recs)(i \<mapsto> entry_of r)"
  by (auto simp: queue_view_def)

lemma view_empty [simp]: "queue_view [] = Map.empty"
  by (auto simp: queue_view_def)

lemma add_written:
  assumes "add_records (map (\<lambda>r. JObj (local_record_to_dict r)) rs) acc = Inr out" "distinct (map lr_id rs)"
  shows "queue_view out = queue_view acc ++ map_of (map (\<lambda>r. (lr_id r, entry_of r)) rs)"
  using assms
proof (induction rs arbitrary: acc)
  case (Cons r rs)
  then obtain r' where r': "local_record_from_dict (local_record_to_dict r) = Inr r'"
    "add_records (map (\<lambda>r. JObj (local_record_to_dict r)) rs) (dict_set (lr_id r') r' acc) = Inr out"
    by (auto simp: bind_res_Inr_iff)
  have fresh: "map_of (map (\<lambda>r. (lr_id r, entry_of r)) rs) (lr_id r) = None"
    using Cons.prems(2) by (auto simp: map_of_eq_None_iff)
  have "queue_view out = (queue_view acc)(lr_id r \<mapsto> entry_of r) ++ map_of (map (\<lambda>r. (lr_id r, entry_of r)) rs)"
    using Cons.IH [OF r'(2)] Cons.prems(2) reread [OF r'(1)] by (simp add: fun_upd_def)
  with fresh show ?case by (auto simp: map_add_def split: option.split)
qed simp

definition saved_file :: "local_records \<Rightarrow> queue_file res" where
  "saved_file recs = bind_res (sort_records (map snd recs)) (\<lambda>rs. Inr (QueueDoc (JObj
     [(''approvals'', JArr (map (JObj \<circ> local_record_to_dict) rs)), (''version'', JStr ''0.1'')])))"

lemma save_records_eq:
  "save_records recs s = (case saved_file recs of Inl e \<Rightarrow> (Inl e, s) | Inr f \<Rightarrow> (Inr (), s\<lparr>qs_file := f\<rparr>))"
  by (cases "sort_records (map snd recs)") (simp_all add: save_records_def saved_file_def)

lemma save_load:
  assumes "saved_file recs = Inr f" "load_records f = Inr recs'" "wf_records recs"
  shows "queue_view recs' = queue_view recs"
proof -
  let ?pair = "\<lambda>r. (lr_id r, entry_of r)"
  obtain rs where rs: "sort_records (map snd recs) = Inr rs"
    "f = QueueDoc (JObj [(''approvals'', JArr (map (JObj \<circ> local_record_to_dict) rs)), (''version'', JStr ''0.1'')])"
    using assms(1) by (auto simp: saved_file_def bind_res_Inr_iff)
  then have sorted: "rs = sort_key (\<lambda>r. sort_time (lr_created_at r)) (map snd recs)"
    by (auto simp: sort_records_def split: if_splits)
  have ids': "distinct (map lr_id (map snd recs))" using assms(3) by (rule wf_distinct_ids)
  then have "distinct (map snd recs)" "inj_on lr_id (set (map snd recs))" by (simp_all only: distinct_map)
  then have d: "distinct (map lr_id rs)" by (simp only: sorted distinct_map distinct_sort set_sort)
  have "add_records (map (\<lambda>r. JObj (local_record_to_dict r)) rs) [] = Inr recs'"
    using assms(2) rs(2) by (simp add: comp_def load_records_def get_or_def)
  from add_written [OF this d] have "queue_view recs' = map_of (map ?pair rs)" by simp
  also have "\<dots> = map_of (map ?pair (map snd recs))"
  proof -
    have key: "map fst (map ?pair xs) = map lr_id xs" for xs by (simp add: comp_def)
    have "set (map ?pair rs) = set (map ?pair (map snd recs))" by (simp only: sorted set_map set_sort)
    then show ?thesis using d ids' by (subst map_of_inject_set) (simp_all only: key)
  qed
  also have "map ?pair (map snd recs) = map (\<lambda>(i, r). (i, entry_of r)) recs"
    using assms(3) by (auto simp: wf_records_def)
  also have "map_of \<dots> = queue_view recs"
    by (auto simp: queue_view_def map_of_map)
  finally show ?thesis .
qed

section \<open>Every command is a step of the abstract queue\<close>

lemma changed_fields:
  assumes "local_record_with cs r = Inr r'" "fst ` set cs \<inter> {''id'', ''session_id'', ''target_id'', ''provider_id'',
      ''capability_id'', ''params_fingerprint''} = {}"
  shows "lr_id r' = lr_id r" "record_binding r' = record_binding r"
proof -
  have keep: "rget (dict_of cs d) k = rget d k" if "k \<notin> fst ` set cs" for d k
    using that by (induction cs arbitrary: d) auto
  note f = from_dict_fields [OF assms(1) [unfolded local_record_with_def]]
  have "k \<notin> fst ` set cs" if "k \<in> {''id'', ''session_id'', ''target_id'', ''provider_id'', ''capability_id'',
      ''params_fingerprint''}" for k using that assms(2) by blast
  with f(1,3-7) show "lr_id r' = lr_id r" "record_binding r' = record_binding r"
    by (simp_all add: keep record_binding_def)
qed

text \<open>The status, the scope and the operator of a changed record are the ones written.\<close>

lemma changed_entry:
  assumes "local_record_with cs r = Inr r'"
  shows "rget (dict_of cs (local_record_to_dict r)) ''status'' = JStr (local_status_value st) \<Longrightarrow> lr_status r' = st"
    "rget (dict_of cs (local_record_to_dict r)) ''scope'' = (case sc of None \<Rightarrow> JNull | Some s \<Rightarrow> JStr (grant_scope_value s))
      \<Longrightarrow> lr_scope r' = sc"
    "rget (dict_of cs (local_record_to_dict r)) ''operator_id'' = (case w of None \<Rightarrow> JNull | Some s \<Rightarrow> JStr s)
      \<Longrightarrow> lr_operator_id r' = w"
proof -
  note f = from_dict_fields [OF assms [unfolded local_record_with_def]]
  show "rget (dict_of cs (local_record_to_dict r)) ''status'' = JStr (local_status_value st) \<Longrightarrow> lr_status r' = st"
    using f(2) by simp
  show "rget (dict_of cs (local_record_to_dict r)) ''scope'' = (case sc of None \<Rightarrow> JNull | Some s \<Rightarrow> JStr (grant_scope_value s))
      \<Longrightarrow> lr_scope r' = sc"
    using f(15,16) by (cases sc) simp_all
  show "rget (dict_of cs (local_record_to_dict r)) ''operator_id'' = (case w of None \<Rightarrow> JNull | Some s \<Rightarrow> JStr s)
      \<Longrightarrow> lr_operator_id r' = w"
    using f(9) by (auto split: option.splits)
qed

text \<open>A decision writes a status, possibly a scope and an operator, and nothing the record is bound to.\<close>

definition decision_fields :: "string set" where
  "decision_fields = {''status'', ''scope'', ''operator_id'', ''response_id'', ''reason'', ''decided_at'', ''consumed_at''}"

lemma decided:
  assumes "local_record_with cs r = Inr r'" "fst ` set cs \<subseteq> decision_fields"
    "rget (dict_of cs (local_record_to_dict r)) ''status'' = JStr (local_status_value st)"
    "rget (dict_of cs (local_record_to_dict r)) ''scope'' = (case sc of None \<Rightarrow> JNull | Some s \<Rightarrow> JStr (grant_scope_value s))"
    "rget (dict_of cs (local_record_to_dict r)) ''operator_id'' = (case w of None \<Rightarrow> JNull | Some s \<Rightarrow> JStr s)"
  shows "lr_id r' = lr_id r \<and> entry_of r' = (record_binding r, st, sc, w)"
proof -
  have "fst ` set cs \<inter> {''id'', ''session_id'', ''target_id'', ''provider_id'', ''capability_id'', ''params_fingerprint''} = {}"
    using assms(2) by (auto simp: decision_fields_def)
  from changed_fields [OF assms(1) this] changed_entry [OF assms(1)] assms(3-5)
  show ?thesis by (simp add: entry_of_def)
qed

lemma expire_record_Inr:
  assumes "expire_record operator reason now fresh r = Inr r'"
  shows "lr_status r \<in> {LS_PENDING, LS_APPROVED} \<and> lr_id r' = lr_id r \<and>
    entry_of r' = (record_binding r, LS_EXPIRED, lr_scope r, Some operator)"
proof -
  have st: "lr_status r \<in> {LS_PENDING, LS_APPROVED}" using assms by (auto simp: expire_record_def split: if_splits)
  with assms have "local_record_with
      [(''status'', JStr (local_status_value LS_EXPIRED)), (''operator_id'', JStr operator),
       (''response_id'', JStr (reason_or (lr_response_id r) (response_id_for r fresh))),
       (''reason'', JStr (queue_redact_text (reason_or reason ''expired''))),
       (''decided_at'', JStr (isoformat now))] r = Inr r'"
    by (simp only: expire_record_def if_False not_not simp_thms)
  from decided [OF this, of LS_EXPIRED "lr_scope r" "Some operator"] st show ?thesis
    by (simp add: decision_fields_def)
qed

lemma deny_record_Inr:
  assumes "deny_record operator reason now fresh r = Inr r'"
  shows "lr_status r = LS_PENDING \<and> lr_id r' = lr_id r \<and>
    entry_of r' = (record_binding r, LS_DENIED, lr_scope r, Some operator)"
proof -
  have st: "lr_status r = LS_PENDING" using assms by (auto simp: deny_record_def split: if_splits)
  with assms have "local_record_with
      [(''status'', JStr (local_status_value LS_DENIED)), (''operator_id'', JStr operator),
       (''response_id'', JStr (response_id_for r fresh)),
       (''reason'', JStr (queue_redact_text (reason_or reason ''denied''))),
       (''decided_at'', JStr (isoformat now))] r = Inr r'"
    by (simp add: deny_record_def)
  from decided [OF this, of LS_DENIED "lr_scope r" "Some operator"] st show ?thesis
    by (simp add: decision_fields_def)
qed

lemma consume_record_Inr:
  assumes "consume_record now r = Inr r'" "lr_scope r \<noteq> Some SESSION"
  shows "lr_status r = LS_APPROVED \<and> lr_id r' = lr_id r \<and>
    entry_of r' = (record_binding r, LS_CONSUMED, lr_scope r, lr_operator_id r)"
proof -
  have st: "lr_status r = LS_APPROVED" using assms by (auto simp: consume_record_def split: if_splits)
  with assms have "local_record_with
      [(''status'', JStr (local_status_value LS_CONSUMED)), (''consumed_at'', JStr (isoformat now))] r = Inr r'"
    by (simp add: consume_record_def)
  from decided [OF this, of LS_CONSUMED "lr_scope r" "lr_operator_id r"] st show ?thesis
    by (simp add: decision_fields_def)
qed

lemma approve_record_Inr:
  assumes "approve_record operator scope reason now fresh r = Inr r'"
  shows "lr_status r = LS_PENDING \<and> lr_id r' = lr_id r \<and>
    (\<exists>late. dt_geq now (lr_expires_at r) = Inr late \<and>
      entry_of r' = (if late then (record_binding r, LS_EXPIRED, lr_scope r, Some operator)
                     else (record_binding r, LS_APPROVED, Some scope, Some operator)))"
proof -
  obtain late where st: "lr_status r = LS_PENDING" and late: "dt_geq now (lr_expires_at r) = Inr late"
    using assms by (auto simp: approve_record_def bind_res_Inr_iff split: if_splits)
  show ?thesis
  proof (cases late)
    case True
    with assms st late have "expire_record operator (Some ''approval expired'') now fresh r = Inr r'"
      by (simp add: approve_record_def)
    with expire_record_Inr [OF this] st late True show ?thesis by auto
  next
    case False
    with assms st late have "local_record_with
        [(''status'', JStr (local_status_value LS_APPROVED)), (''scope'', JStr (grant_scope_value scope)),
         (''operator_id'', JStr operator), (''response_id'', JStr (response_id_for r fresh)),
         (''reason'', JStr (queue_redact_text (reason_or reason ''approved''))),
         (''decided_at'', JStr (isoformat now))] r = Inr r'"
      by (auto simp: approve_record_def bind_res_Inr_iff)
    from decided [OF this, of LS_APPROVED "Some scope" "Some operator"] st late False show ?thesis
      by (auto simp: decision_fields_def)
  qed
qed

section \<open>The effect of a command on the file\<close>

text \<open>The file is either left as it was, or it holds the records it held with one of them replaced.\<close>

lemma queue_op_simps [simp]:
  "bind_op load_op k s = (case load_records (qs_file s) of Inl e \<Rightarrow> (Inl e, s) | Inr recs \<Rightarrow> k recs s)"
  "bind_op (queue_tick source) k' s = k' (source (qs_ticks s)) (s\<lparr>qs_ticks := Suc (qs_ticks s)\<rparr>)"
  "seq_op (save_records recs) n s =
     (case saved_file recs of Inl e \<Rightarrow> (Inl e, s) | Inr f \<Rightarrow> n (s\<lparr>qs_file := f\<rparr>))"
  by (auto simp: load_op_def queue_tick_def seq_op_def bind_op_def save_records_eq split: sum.splits)

lemma emit_decision_file: "qs_file (snd (emit_decision_event qu t r w)) = qs_file w"
  by (auto simp: emit_decision_event_def split: option.splits sum.splits)

lemma decide_file:
  "qs_file (snd (decide qu t i change s)) = qs_file s \<or>
    (\<exists>recs r now fresh r'. load_records (qs_file s) = Inr recs \<and> dict_get recs i = Some r \<and>
       change now fresh r = Inr r' \<and> saved_file (dict_set i r' recs) = Inr (qs_file (snd (decide qu t i change s))))"
proof -
  have told: "qs_file (snd (seq_op (emit_decision_event qu t r) n w)) = qs_file w"
    if "\<And>v. qs_file (snd (n v)) = qs_file v" for r w and n :: "('a queue_state, local_record) op"
    using emit_decision_file [of qu t r w] that
    by (auto simp: seq_op_def bind_op_def split: sum.splits prod.splits)
  have tell: "qs_file (snd (seq_op (emit_decision_event qu t r) (ret r) w)) = qs_file w" for r w
    by (rule told) simp
  show ?thesis
    by (cases "load_records (qs_file s)"; cases "dict_get (projr (load_records (qs_file s))) i")
      (auto simp: decide_def require_record_def tell raise_def split: sum.splits)
qed

text \<open>What the file holds, when it can be read.\<close>

definition file_view :: "queue_file \<Rightarrow> (string \<Rightarrow> queue_entry option) option" where
  "file_view file = (case load_records file of Inl e \<Rightarrow> None | Inr recs \<Rightarrow> Some (queue_view recs))"

lemma file_view_Some: "file_view f = Some m \<longleftrightarrow> (\<exists>recs. load_records f = Inr recs \<and> m = queue_view recs)"
  by (auto simp: file_view_def split: sum.splits)

lemma loaded_id: "load_records f = Inr recs \<Longrightarrow> dict_get recs i = Some r \<Longrightarrow> lr_id r = i"
  by (auto dest!: load_records_wf dest: map_of_SomeD simp: wf_records_def)

lemma saved_view:
  assumes "load_records f = Inr recs" "lr_id r' = i" "saved_file (dict_set i r' recs) = Inr f'" "file_view f' = Some m'"
  shows "m' = (queue_view recs)(i \<mapsto> entry_of r')"
  using assms save_load [OF assms(3)] wf_dict_set [of recs r'] by (auto simp: file_view_Some dest: load_records_wf)

text \<open>The change of one record by a decision, as an abstract step.\<close>

lemma decide_step:
  assumes "file_view (qs_file s) = Some m" "file_view (qs_file (snd (decide qu t i change s))) = Some m'"
    "\<And>r now fresh r'. change now fresh r = Inr r' \<Longrightarrow> lr_id r = i \<Longrightarrow>
       lr_id r' = lr_id r \<and> (\<forall>v. v i = Some (entry_of r) \<longrightarrow> abs_step c v (v(i \<mapsto> entry_of r')))"
  shows "abs_step c m m'"
  using decide_file [of qu t i change s]
proof (elim disjE exE conjE)
  assume "qs_file (snd (decide qu t i change s)) = qs_file s"
  then show ?thesis using assms(1,2) by (simp add: abs_step.unchanged)
next
  fix recs r now fresh r'
  assume l: "load_records (qs_file s) = Inr recs" "dict_get recs i = Some r" "change now fresh r = Inr r'"
    "saved_file (dict_set i r' recs) = Inr (qs_file (snd (decide qu t i change s)))"
  note c = assms(3) [OF l(3) loaded_id [OF l(1,2)]]
  have "m = queue_view recs" using assms(1) l(1) by (simp add: file_view_Some)
  moreover have "m' = (queue_view recs)(i \<mapsto> entry_of r')"
    using saved_view [OF l(1) _ l(4) assms(2)] c loaded_id [OF l(1,2)] by simp
  moreover have "queue_view recs i = Some (entry_of r)" using l(2) by (simp add: queue_view_def)
  ultimately show ?thesis using c by simp
qed

lemma entry_of_eq: "entry_of r = (record_binding r, lr_status r, lr_scope r, lr_operator_id r)"
  by (simp add: entry_of_def)

lemma approve_step:
  assumes "file_view (qs_file s) = Some m" "file_view (qs_file (snd (queue_approve qu i who sc reason s))) = Some m'"
  shows "abs_step (Approve i who sc reason) m m'"
  using assms unfolding queue_approve_def
proof (rule decide_step)
  fix r now fresh r'
  assume "approve_record who sc reason now fresh r = Inr r'" "lr_id r = i"
  note a = approve_record_Inr [OF this(1)]
  then obtain late where "lr_status r = LS_PENDING" "entry_of r' = (if late then (record_binding r, LS_EXPIRED, lr_scope r, Some who)
      else (record_binding r, LS_APPROVED, Some sc, Some who))" by blast
  then have "\<forall>v. v i = Some (entry_of r) \<longrightarrow> abs_step (Approve i who sc reason) v (v(i \<mapsto> entry_of r'))"
    by (cases late) (simp_all add: entry_of_eq [of r] abs_step.approved abs_step.too_late)
  with a show "lr_id r' = lr_id r \<and> (\<forall>v. v i = Some (entry_of r) \<longrightarrow> abs_step (Approve i who sc reason) v (v(i \<mapsto> entry_of r')))"
    by simp
qed

lemma deny_step:
  assumes "file_view (qs_file s) = Some m" "file_view (qs_file (snd (queue_deny qu i who reason s))) = Some m'"
  shows "abs_step (Deny i who reason) m m'"
  using assms unfolding queue_deny_def
  by (rule decide_step) (auto dest!: deny_record_Inr simp: entry_of_eq [of r for r] intro!: abs_step.refused)

lemma expire_step:
  assumes "file_view (qs_file s) = Some m" "file_view (qs_file (snd (queue_expire qu i who reason s))) = Some m'"
  shows "abs_step (Expire i who reason) m m'"
  using assms unfolding queue_expire_def
  by (rule decide_step) (auto dest!: expire_record_Inr simp: entry_of_eq [of r for r] intro!: abs_step.expired)

lemma enqueued_fields:
  assumes "local_record_from_mcp_result result now = Inr r"
  shows "entry_of r = (record_binding r, LS_PENDING, None, None)"
  using assms
  by (auto simp: local_record_from_mcp_result_def bind_res_Inr_iff entry_of_def split: if_splits)

lemma enqueue_step:
  assumes "file_view (qs_file s) = Some m" "file_view (qs_file (snd (enqueue_mcp_result qu result s))) = Some m'"
  shows "abs_step (Enqueue result) m m'"
proof (cases "qs_file (snd (enqueue_mcp_result qu result s)) = qs_file s")
  case True
  then show ?thesis using assms by (simp add: abs_step.unchanged)
next
  case False
  obtain recs where l: "load_records (qs_file s) = Inr recs" "m = queue_view recs"
    using assms(1) by (auto simp: file_view_Some)
  with False obtain r where r: "local_record_from_mcp_result result (qu_now qu (qs_ticks s)) = Inr r"
    "dict_get recs (lr_id r) = None"
    "saved_file (dict_set (lr_id r) r recs) = Inr (qs_file (snd (enqueue_mcp_result qu result s)))"
    by (auto simp: enqueue_mcp_result_def split: sum.splits option.splits)
  have "m' = m(lr_id r \<mapsto> (record_binding r, LS_PENDING, None, None))"
    using saved_view [OF l(1) _ r(3) assms(2)] l(2) by (simp add: enqueued_fields [OF r(1)])
  moreover have "m (lr_id r) = None" using r(2) l(2) by (simp add: queue_view_def)
  ultimately show ?thesis by (simp add: abs_step.enqueued)
qed

lemma matches_action_True:
  assumes "matches_action r q = Inr True"
  shows "lr_status r = LS_APPROVED" "record_binding r = query_binding q"
  using assms by (auto simp: matches_action_def record_binding_def query_binding_def split: if_splits)

lemma consume_matching_file:
  "qs_file (snd (consume_matching qu q recs others s)) = qs_file s \<or>
   (\<exists>i r now now' r'. (i, r) \<in> set others \<and> matches_action r (q\<lparr>q_now := now\<rparr>) = Inr True \<and>
      lr_scope r \<noteq> Some SESSION \<and> consume_record now' r = Inr r' \<and>
      saved_file (dict_set i r' recs) = Inr (qs_file (snd (consume_matching qu q recs others s))))"
proof (induction qu q recs others arbitrary: s rule: consume_matching.induct)
  case (2 qu q recs i r others)
  let ?now = "qu_now qu (qs_ticks s)" and ?s = "s\<lparr>qs_ticks := Suc (qs_ticks s)\<rparr>"
  show ?case
  proof (cases "matches_action r (q\<lparr>q_now := ?now\<rparr>)")
    case (Inr b)
    show ?thesis
    proof (cases b)
      case False
      with Inr "2.IH" [of False ?s] show ?thesis by (auto 4 4)
    next
      case True
      with Inr show ?thesis
        by (cases "consume_record (qu_now qu (Suc (qs_ticks s))) r") (auto split: sum.splits)
    qed
  qed simp
qed simp

lemma mark_step:
  assumes "file_view (qs_file s) = Some m" "file_view (qs_file (snd (mark_matching_consumed qu q s))) = Some m'"
  shows "abs_step (MarkConsumed q) m m'"
proof -
  obtain recs where l: "load_records (qs_file s) = Inr recs" "m = queue_view recs"
    using assms(1) by (auto simp: file_view_Some)
  have f: "snd (mark_matching_consumed qu q s) = snd (consume_matching qu q recs recs s)"
    using l(1) by (simp add: mark_matching_consumed_def)
  from consume_matching_file [of qu q recs recs s] show ?thesis
  proof (elim disjE exE conjE)
    assume "qs_file (snd (consume_matching qu q recs recs s)) = qs_file s"
    then show ?thesis using assms f by (simp add: abs_step.unchanged)
  next
    fix i r now now' r'
    assume c: "(i, r) \<in> set recs" "matches_action r (q\<lparr>q_now := now\<rparr>) = Inr True" "lr_scope r \<noteq> Some SESSION"
      "consume_record now' r = Inr r'"
      "saved_file (dict_set i r' recs) = Inr (qs_file (snd (consume_matching qu q recs recs s)))"
    have "wf_records recs" using l(1) by (rule load_records_wf)
    then have g: "dict_get recs i = Some r" "lr_id r = i" using c(1) by (auto simp: wf_records_def)
    have b: "record_binding r = query_binding q" using matches_action_True(2) [OF c(2)] by (simp add: query_binding_def)
    note e = consume_record_Inr [OF c(4,3)]
    have "m' = m(i \<mapsto> entry_of r')" using saved_view [OF l(1) _ c(5) assms(2) [unfolded f]] e g(2) l(2) by simp
    moreover have "m i = Some (entry_of r)" using g(1) l(2) by (simp add: queue_view_def)
    ultimately show ?thesis using e b c(3) by (simp add: entry_of_eq [of r] abs_step.consumed)
  qed
qed

lemma queue_step_abs:
  assumes "file_view (qs_file s) = Some m" "file_view (qs_file (queue_step qu c s)) = Some m'"
  shows "abs_step c m m'"
  using assms
  by (cases c) (simp_all add: enqueue_step approve_step deny_step expire_step mark_step)

lemma unreadable_stays:
  assumes "file_view (qs_file s) = None"
  shows "qs_file (queue_step qu c s) = qs_file s"
proof -
  obtain e where e: "load_records (qs_file s) = Inl e" using assms by (auto simp: file_view_def split: sum.splits)
  then show ?thesis
    by (cases c) (simp_all add: enqueue_mcp_result_def queue_approve_def queue_deny_def queue_expire_def decide_def
        mark_matching_consumed_def split: sum.split)
qed

lemma run_queue_snoc: "run_queue qu (cs @ [c]) s = queue_step qu c (run_queue qu cs s)"
  by (simp add: run_queue_def)

lemma run_queue_abs:
  assumes "file_view (qs_file s) = Some m" "file_view (qs_file (run_queue qu cs s)) = Some m'"
  shows "abs_run cs m m'"
  using assms
proof (induction cs arbitrary: m' rule: rev_induct)
  case Nil
  then show ?case by (simp add: run_queue_def abs_run.abs_done)
next
  case (snoc c cs)
  let ?s = "run_queue qu cs s"
  show ?case
  proof (cases "file_view (qs_file ?s)")
    case None
    with snoc.prems(2) unreadable_stays [OF None, of qu c] show ?thesis by (simp add: run_queue_snoc)
  next
    case (Some m1)
    with snoc show ?thesis using queue_step_abs [OF Some, of qu c m']
      by (auto simp: run_queue_snoc intro: abs_run.abs_more)
  qed
qed

section \<open>The abstract queue's lifecycle\<close>

lemma abs_run_origin:
  assumes "abs_run cs m m'" "m' i = Some (b, LS_APPROVED, sc, who)" "m i = None"
  shows "\<exists>scope operator reason. Approve i operator scope reason \<in> set cs \<and> sc = Some scope \<and> who = Some operator"
  using assms
proof (induction arbitrary: b sc who)
  case (abs_more cs m m1 c m2)
  from abs_more.hyps(2) have "m1 i = Some (b, LS_APPROVED, sc, who) \<or> (\<exists>scope operator reason.
      c = Approve i operator scope reason \<and> sc = Some scope \<and> who = Some operator)"
    using abs_more.prems by (cases rule: abs_step.cases) (auto split: if_splits)
  then show ?case
  proof
    assume "m1 i = Some (b, LS_APPROVED, sc, who)"
    from abs_more.IH [OF this abs_more.prems(2)] show ?thesis by auto
  qed auto
qed simp

lemma abs_run_terminal:
  assumes "abs_run cs m m'" "m i = Some (b, st, sc, who)" "st \<in> {LS_DENIED, LS_EXPIRED, LS_CONSUMED}"
  shows "m' i = Some (b, st, sc, who)"
  using assms
proof induction
  case (abs_more cs m m1 c m2)
  then have "m1 i = Some (b, st, sc, who)" "abs_step c m1 m2" by auto
  from this(2,1) show ?case using abs_more.prems by (cases rule: abs_step.cases) auto
qed simp

lemma abs_run_binding:
  assumes "abs_run cs m m'" "m i = Some (b, st, sc, who)"
  shows "\<exists>st' sc' who'. m' i = Some (b, st', sc', who')"
  using assms
proof induction
  case (abs_more cs m m1 c m2)
  then obtain st' sc' who' where "m1 i = Some (b, st', sc', who')" "abs_step c m1 m2" by auto
  from this(2,1) show ?case by (cases rule: abs_step.cases) auto
qed simp

end
