(* ===== verification/PyTimeFacts.thy ===== *)
theory PyTimeFacts
  imports PyTime
begin

text \<open>
  The ISO text of a time can be read back: the calendar arithmetic of \<open>civil_of_days\<close> gives dates that
  exist and that \<open>days_from_civil\<close> inverts, and the printed numbers are read to the same numbers.
\<close>

section \<open>The calendar\<close>

text \<open>Days before year \<open>y\<close> of an era of 400 years (years start on the first of March).\<close>

definition year_start :: "int \<Rightarrow> int" where
  "year_start y = (if y = 400 then 146097 else 365 * y + y div 4 - y div 100)"

definition year_of_era :: "int \<Rightarrow> int" where
  "year_of_era doe = (doe - doe div 1460 + doe div 36524 - doe div 146096) div 365"

lemma div_bounds:
  assumes "q = (x::int) div c" "0 < c"
  shows "c * q \<le> x" "x < c * q + c"
  using mult_div_mod_eq [of c x] pos_mod_sign [of c x] pos_mod_bound [of c x] assms(2) unfolding assms(1)
  by linarith+

lemma within_century:
  fixes b r k g :: int
  assumes "0 \<le> b" "b \<le> 3" "0 \<le> r" "r \<le> 36523" "g = (24 * b + r) div 1460" "k = (r - g) div 365"
  shows "0 \<le> k" "k \<le> 99" "365 * k + k div 4 \<le> r" "r \<le> 365 * k + 364 + (k + 1) div 4"
proof -
  have g: "1460 * g \<le> 24 * b + r" "24 * b + r < 1460 * g + 1460"
    using div_bounds [OF assms(5)] by simp_all
  have k: "365 * k \<le> r - g" "r - g < 365 * k + 365" using div_bounds [OF assms(6)] by simp_all
  define p where p0: "p = k div 4"
  define p' where p0': "p' = (k + 1) div 4"
  have p: "p = k div 4" "4 * p \<le> k" "k < 4 * p + 4" using div_bounds [OF p0] by (simp_all add: p0)
  have p': "p' = (k + 1) div 4" "4 * p' \<le> k + 1" "k + 1 < 4 * p' + 4"
    using div_bounds [OF p0'] by (simp_all add: p0')
  have "0 \<le> g" "g \<le> 25" using g assms(1-4) by linarith+
  have "g \<le> r" using g assms(1-4) \<open>0 \<le> g\<close> by linarith
  then show "0 \<le> k" using k by linarith
  show "k \<le> 99" using k g assms(1-4) by linarith
  show "365 * k + k div 4 \<le> r"
  proof (cases "g < p")
    case True
    then show ?thesis using k g p assms(1-4) by linarith
  next
    case False
    then show ?thesis using k p by linarith
  qed
  show "r \<le> 365 * k + 364 + (k + 1) div 4"
  proof (cases "g \<le> p'")
    case True
    then show ?thesis using k p' by linarith
  next
    case False
    then show ?thesis using k g p' assms(1-4) \<open>g \<le> 25\<close> by linarith
  qed
qed

lemma year_of_era_bounds:
  assumes "0 \<le> doe" "doe \<le> 146096"
  shows "0 \<le> year_of_era doe" "year_of_era doe \<le> 399" "year_start (year_of_era doe) \<le> doe"
    "doe < year_start (year_of_era doe + 1)"
proof -
  let ?y = "year_of_era doe"
  have "0 \<le> ?y \<and> ?y \<le> 399 \<and> year_start ?y \<le> doe \<and> doe < year_start (?y + 1)"
  proof (cases "doe = 146096")
    case True
    then show ?thesis by (simp add: year_of_era_def year_start_def)
  next
    case False
    define b where "b = doe div 36524"
    define r where "r = doe - 36524 * b"
    define g where "g = (24 * b + r) div 1460"
    define k where "k = (r - g) div 365"
    have b: "0 \<le> b" "b \<le> 3" using assms False by (simp_all add: b_def)
    have r: "0 \<le> r" "r \<le> 36523" using div_bounds [OF b_def] by (simp_all add: r_def)
    note c = within_century [OF b r g_def k_def]
    have "doe = 1460 * (25 * b) + (24 * b + r)" by (simp add: r_def)
    then have "doe div 1460 = 25 * b + g" unfolding g_def by simp
    moreover have "doe div 146096 = 0" using assms False by simp
    ultimately have y: "?y = 100 * b + k"
      unfolding year_of_era_def k_def by (simp add: r_def b_def [symmetric])
    have century: "year_start (100 * b + j) = 36524 * b + (365 * j + j div 4)" if "0 \<le> j" "j \<le> 99" for j
    proof -
      have "100 * b + j \<noteq> 400" "(100 * b + j) div 100 = b" using that b by simp_all
      moreover have "(100 * b + j) div 4 = 25 * b + j div 4" by simp
      ultimately show ?thesis by (simp add: year_start_def)
    qed
    have here: "year_start ?y = 36524 * b + (365 * k + k div 4)"
      using c(1,2) unfolding y by (rule century)
    have after: "36524 * b + r < year_start (?y + 1)"
    proof (cases "k = 99")
      case True
      then have "?y + 1 = 100 * (b + 1)" by (simp add: y)
      then show ?thesis using b r unfolding year_start_def by auto
    next
      case False
      then have "k + 1 \<le> 99" using c(2) by simp
      then have "year_start (?y + 1) = 36524 * b + (365 * (k + 1) + (k + 1) div 4)"
        using century [of "k + 1"] c(1) by (simp add: y add.assoc)
      then show ?thesis using c(4) by simp
    qed
    show ?thesis using here after c b by (simp add: y r_def)
  qed
  then show "0 \<le> ?y" "?y \<le> 399" "year_start ?y \<le> doe" "doe < year_start (?y + 1)" by auto
qed

text \<open>Month and day of a day of the year; the last day of February needs a leap year.\<close>

lemma month_day:
  fixes doy mp :: int
  assumes "0 \<le> doy" "doy \<le> 365" "mp = (5 * doy + 2) div 153"
  shows "0 \<le> mp" "mp \<le> 11" "1 \<le> doy - (153 * mp + 2) div 5 + 1"
    "mp \<in> {1, 3, 6, 8} \<Longrightarrow> doy - (153 * mp + 2) div 5 + 1 \<le> 30"
    "doy - (153 * mp + 2) div 5 + 1 \<le> 31"
    "mp = 11 \<Longrightarrow> doy - (153 * mp + 2) div 5 + 1 \<le> (if doy = 365 then 29 else 28)"
proof -
  have b: "153 * mp \<le> 5 * doy + 2" "5 * doy + 2 < 153 * mp + 153" using div_bounds [OF assms(3)] by simp_all
  show "0 \<le> mp" "mp \<le> 11" using b assms(1,2) by linarith+
  then have "mp \<in> {0, 1, 2, 3, 4, 5, 6, 7, 8, 9, 10, 11}" by (simp only: insert_iff empty_iff) presburger
  then show "1 \<le> doy - (153 * mp + 2) div 5 + 1"
    "mp \<in> {1, 3, 6, 8} \<Longrightarrow> doy - (153 * mp + 2) div 5 + 1 \<le> 30"
    "doy - (153 * mp + 2) div 5 + 1 \<le> 31"
    "mp = 11 \<Longrightarrow> doy - (153 * mp + 2) div 5 + 1 \<le> (if doy = 365 then 29 else 28)"
    using b assms(2) by auto
qed

lemma leap_year:
  assumes "0 \<le> y" "y \<le> 399" "year_start y + 365 < year_start (y + 1)"
  shows "(y + 1) mod 4 = 0 \<and> ((y + 1) mod 100 \<noteq> 0 \<or> (y + 1) mod 400 = 0)"
proof -
  have "list_all (\<lambda>y. year_start y + 365 < year_start (y + 1) \<longrightarrow>
      (y + 1) mod 4 = 0 \<and> ((y + 1) mod 100 \<noteq> 0 \<or> (y + 1) mod 400 = 0)) [0..399]"
    by code_simp
  then show ?thesis using assms by (auto simp: list_all_iff)
qed

lemma year_length:
  assumes "0 \<le> y" "y \<le> 399"
  shows "year_start (y + 1) \<le> year_start y + 366"
proof -
  have "list_all (\<lambda>y. year_start (y + 1) \<le> year_start y + 366) [0..399]" by code_simp
  then show ?thesis using assms by (auto simp: list_all_iff)
qed

lemma civil_days:
  assumes "civil_of_days days = (y, m, d)"
  shows "days_from_civil y m d = days" "1 \<le> m" "m \<le> 12" "1 \<le> d" "d \<le> days_in_month y m"
proof -
  define z where "z = days + 719468"
  define era where "era = z div 146097"
  define doe where "doe = z - era * 146097"
  define yoe where "yoe = year_of_era doe"
  define doy where "doy = doe - (365 * yoe + yoe div 4 - yoe div 100)"
  define mp where "mp = (5 * doy + 2) div 153"
  have doe: "0 \<le> doe" "doe \<le> 146096" using div_bounds [OF era_def] by (simp_all add: doe_def)
  note yb = year_of_era_bounds [OF doe, folded yoe_def]
  have start: "year_start yoe = 365 * yoe + yoe div 4 - yoe div 100" using yb(2) by (simp add: year_start_def)
  have step: "year_start (yoe + 1) \<le> year_start yoe + 366"
    using yb(1,2) by (rule year_length)
  have doy: "0 \<le> doy" "doy \<le> 365" using yb(3,4) step by (simp_all add: doy_def start [symmetric])
  note md = month_day [OF doy mp_def]
  have civil: "civil_of_days days =
      (yoe + era * 400 + (if (if mp < 10 then mp + 3 else mp - 9) \<le> 2 then 1 else 0),
       (if mp < 10 then mp + 3 else mp - 9), doy - (153 * mp + 2) div 5 + 1)"
    by (simp only: civil_of_days_def Let_def z_def era_def doe_def yoe_def doy_def mp_def year_of_era_def)
  have eqs: "m = (if mp < 10 then mp + 3 else mp - 9)" "d = doy - (153 * mp + 2) div 5 + 1"
    "y = yoe + era * 400 + (if m \<le> 2 then 1 else 0)"
    using assms unfolding civil by (simp_all only: prod.inject) blast+
  show m: "1 \<le> m" "m \<le> 12" using md(1,2) eqs(1) by auto
  have shifted: "(if m \<le> 2 then y - 1 else y) = yoe + era * 400" "(if m > 2 then m - 3 else m + 9) = mp"
    using md(1,2) eqs by auto
  have "(yoe + era * 400) div 400 = era" using yb(1,2) by simp
  then show "days_from_civil y m d = days"
    unfolding days_from_civil_def shifted Let_def eqs(2)
    by (simp add: doy_def doe_def z_def)
  show "1 \<le> d" using md(3) eqs(2) by simp
  show "d \<le> days_in_month y m"
  proof (cases "mp = 11")
    case True
    then have m2: "m = 2" "y = yoe + 1 + era * 400" using eqs by auto
    show ?thesis
    proof (cases "doy = 365")
      case True
      then have "year_start yoe + 365 < year_start (yoe + 1)" using yb(4) by (simp add: doy_def start [symmetric])
      note leap = leap_year [OF yb(1,2) this]
      have "y mod 4 = (yoe + 1) mod 4" "y mod 100 = (yoe + 1) mod 100" "y mod 400 = (yoe + 1) mod 400"
        using mod_mult_self1 [of "yoe + 1" "100 * era" 4] mod_mult_self1 [of "yoe + 1" "4 * era" 100]
          mod_mult_self1 [of "yoe + 1" era 400] by (simp_all add: m2(2) mult.commute)
      then have "days_in_month y m = 29" using leap m2(1) by (simp add: days_in_month_def)
      then show ?thesis using md(6) \<open>mp = 11\<close> True eqs(2) by simp
    next
      case False
      then show ?thesis using md(6) \<open>mp = 11\<close> m2 eqs(2) by (auto simp: days_in_month_def)
    qed
  next
    case False
    then have "m \<noteq> 2" "m \<in> {4, 6, 9, 11} \<Longrightarrow> mp \<in> {1, 3, 6, 8}" using eqs(1) md(1,2) by (auto split: if_splits)
    then show ?thesis using md(4,5) eqs(2) by (auto simp: days_in_month_def)
  qed
qed

text \<open>The walls Python can show: years 1 to 9999.\<close>

definition wall_in_range :: "int \<Rightarrow> bool" where
  "wall_in_range w \<longleftrightarrow> - 62135596800000000 \<le> w \<and> w < 253402300800000000"

lemma civil_year:
  assumes "civil_of_days days = (y, m, d)" "- 719162 \<le> days" "days \<le> 2932896"
  shows "1 \<le> y" "y \<le> 9999"
proof -
  note c = civil_days [OF assms(1)]
  define y' where "y' = (if m \<le> 2 then y - 1 else y)"
  define era where "era = y' div 400"
  define yoe where "yoe = y' - era * 400"
  define mp where "mp = (if m > 2 then m - 3 else m + 9)"
  define doy where "doy = (153 * mp + 2) div 5 + d - 1"
  have days: "days = era * 146097 + (yoe * 365 + yoe div 4 - yoe div 100 + doy) - 719468"
    using c(1) by (simp add: days_from_civil_def Let_def y'_def [symmetric] era_def yoe_def mp_def doy_def)
  have yoe: "0 \<le> yoe" "yoe \<le> 399" using div_bounds [OF era_def] by (simp_all add: yoe_def)
  have d31: "d \<le> 31" using c(5) by (auto simp: days_in_month_def split: if_splits)
  have mp: "0 \<le> mp" "mp \<le> 11" "m \<le> 2 \<longleftrightarrow> 10 \<le> mp" using c(2,3) by (auto simp: mp_def)
  have doy: "0 \<le> doy" "10 \<le> mp \<Longrightarrow> 306 \<le> doy" using mp c(4) div_bounds [OF refl, of 5 "153 * mp + 2"]
    by (auto simp: doy_def)
  have doy_max: "doy \<le> 367" "mp \<le> 9 \<Longrightarrow> doy \<le> 305"
    using mp d31 div_bounds [OF refl, of 5 "153 * mp + 2"] by (auto simp: doy_def)
  define f where "f = yoe * 365 + yoe div 4 - yoe div 100"
  have f: "0 \<le> f" "f \<le> 145734" using yoe div_bounds [OF refl, of 4 yoe] div_bounds [OF refl, of 100 yoe]
    by (auto simp: f_def)
  have days': "days = era * 146097 + f + doy - 719468" by (simp add: days f_def)
  show "1 \<le> y"
  proof (rule ccontr)
    assume "\<not> 1 \<le> y"
    then have neg: "y' \<le> 0" "10 \<le> mp \<Longrightarrow> y' < 0" using mp(3) by (auto simp: y'_def)
    show False
    proof (cases "y' = 0")
      case True
      then have "era = 0" "f = 0" by (simp_all add: f_def yoe_def era_def)
      then show False using days' doy_max(2) neg(2) True assms(2) by fastforce
    next
      case False
      then have "era \<le> -1" using neg(1) by (simp add: era_def)
      then show False using days' f doy_max(1) assms(2) by linarith
    qed
  qed
  show "y \<le> 9999"
  proof (rule ccontr)
    assume "\<not> y \<le> 9999"
    then have big: "9999 \<le> y'" "\<not> 10 \<le> mp \<Longrightarrow> 10000 \<le> y'" using mp(3) by (auto simp: y'_def)
    show False
    proof (cases "y' = 9999")
      case True
      then have "era = 24" "f = 145731" by (simp_all add: f_def yoe_def era_def)
      then show False using days' doy(2) big(2) True assms(3) by fastforce
    next
      case False
      then have "25 \<le> era" using big(1) div_bounds [OF era_def] by simp
      then show False using days' f doy(1) assms(3) by linarith
    qed
  qed
qed

section \<open>Numbers\<close>

lemma digits_value_append: "digits_value (xs @ ys) acc = Option.bind (digits_value xs acc) (digits_value ys)"
  by (induction xs arbitrary: acc) auto

lemma digits_value_nat: "digits_value (nat_digits n) 0 = Some (int n)"
proof (induction n rule: nat_digits.induct)
  case (1 n)
  have digit: "digits_value [char_of (48 + k)] acc = Some (10 * acc + int k)" if "k < 10" for k :: nat and acc
    using that by (simp add: is_digit_def)
  show ?case
  proof (cases "n < 10")
    case True
    then show ?thesis using digit [OF True, of 0] by (subst nat_digits.simps) simp
  next
    case False
    have "10 * int (n div 10) + int (n mod 10) = int n" by presburger
    then show ?thesis using False 1 digit [of "n mod 10" "int (n div 10)"]
      by (subst nat_digits.simps) (simp add: digits_value_append)
  qed
qed

lemma nat_digits_length: "n < 10 ^ k \<Longrightarrow> 0 < k \<Longrightarrow> length (nat_digits n) \<le> k"
proof (induction n arbitrary: k rule: nat_digits.induct)
  case (1 n)
  show ?case
  proof (cases "n < 10")
    case True
    then show ?thesis using 1 by (subst nat_digits.simps) simp
  next
    case False
    then obtain j where k: "k = Suc j" "0 < j" using 1(2,3) by (cases k; cases "k - 1") auto
    then have "n div 10 < 10 ^ j" using 1(2) by (simp add: div_less_iff_less_mult mult.commute)
    then show ?thesis using 1(1) [OF False _ k(2)] False k by (subst nat_digits.simps) simp
  qed
qed

lemma digits_value_zeros: "digits_value (replicate k (CHR ''0'') @ s) 0 = digits_value s 0"
  by (induction k) (simp_all add: is_digit_def)

lemma padded_digits:
  assumes "0 \<le> i" "i < 10 ^ n" "0 < n"
  shows "length (padded n i) = n" "list_all is_digit (padded n i)" "digits_value (padded n i) 0 = Some i"
proof -
  have s: "str_of_int i = nat_digits (nat i)" using assms(1) by (simp add: str_of_int_def)
  have "nat i < 10 ^ n" using assms(1,2) by (simp add: nat_less_iff)
  then have "length (nat_digits (nat i)) \<le> n" using assms(3) by (rule nat_digits_length)
  then show "length (padded n i) = n" by (simp add: padded_def Let_def s)
  show "list_all is_digit (padded n i)"
    by (auto simp: padded_def Let_def s list_all_iff is_digit_def dest: nat_digits_all)
  show "digits_value (padded n i) 0 = Some i"
    using assms(1) by (simp add: padded_def Let_def s digits_value_zeros digits_value_nat)
qed

lemma take_padded: "0 \<le> i \<Longrightarrow> i < 10 ^ n \<Longrightarrow> 0 < n \<Longrightarrow> take_number n (padded n i @ r) = Some (i, r)"
  using padded_digits [of i n] by (simp add: take_number_def)

lemma take_padded2: "0 \<le> i \<Longrightarrow> i < 100 \<Longrightarrow> take_number 2 (padded 2 i @ r) = Some (i, r)"
  by (rule take_padded) simp_all

lemma take_padded4: "0 \<le> i \<Longrightarrow> i < 10000 \<Longrightarrow> take_number 4 (padded 4 i @ r) = Some (i, r)"
  by (rule take_padded) simp_all

lemma take_char_Cons [simp]: "take_char c (c # r) = Some r"
  by (simp add: take_char_def)

section \<open>The round trip\<close>

lemma parse_date_padded:
  assumes "civil_of_days day = (y, m, d)" "1 \<le> y" "y \<le> 9999"
  shows "parse_date (padded 4 y @ ''-'' @ padded 2 m @ ''-'' @ padded 2 d @ r) = Some (day, r)"
proof -
  note c = civil_days [OF assms(1)]
  have "d \<le> 31" using c(5) by (auto simp: days_in_month_def split: if_splits)
  with c assms(2,3) show ?thesis by (simp add: parse_date_def take_padded2 take_padded4)
qed

lemma sexagesimal:
  fixes t :: int
  assumes "0 \<le> t" "t < 86400"
  shows "t div 3600 < 24" "0 \<le> t div 3600" "t div 3600 * 3600 + t div 60 mod 60 * 60 + t mod 60 = t"
    "t div 60 mod 60 < 60" "t mod 60 < 60" "0 \<le> t div 60 mod 60" "0 \<le> t mod 60"
proof -
  have "t div 3600 = t div 60 div 60" using zdiv_zmult2_eq [of 60 t 60] by simp
  then show "t div 3600 * 3600 + t div 60 mod 60 * 60 + t mod 60 = t"
    using mult_div_mod_eq [of 60 t] mult_div_mod_eq [of 60 "t div 60"] by linarith
  show "t div 3600 < 24" "0 \<le> t div 3600" using assms div_bounds [OF refl, of 3600 t] by linarith+
qed simp_all

lemma parse_hms_padded:
  assumes "0 \<le> t" "t < 86400"
  shows "parse_hms (padded 2 (t div 3600) @ '':'' @ padded 2 (t div 60 mod 60) @ '':'' @ padded 2 (t mod 60) @ r) = Some (t, r)"
  using sexagesimal [OF assms] by (simp add: parse_hms_def take_padded2)

lemma parse_fraction_padded:
  assumes "0 \<le> us" "us < 1000000" "r = [] \<or> \<not> is_digit (hd r)" "take_char (CHR ''.'') r = None"
  shows "parse_fraction ((if us = 0 then [] else ''.'' @ padded 6 us) @ r) = Some (us, r)"
proof (cases "us = 0")
  case False
  have d: "length (padded 6 us) = 6" "list_all is_digit (padded 6 us)" "digits_value (padded 6 us) 0 = Some us"
    using assms(1,2) by (simp_all add: padded_digits)
  have "takeWhile is_digit (padded 6 us @ r) = padded 6 us"
    using d(2) assms(3) by (cases r) (auto simp: list_all_iff takeWhile_append)
  moreover have "padded 6 us \<noteq> []" using d(1) by auto
  ultimately show ?thesis using False d by (simp add: parse_fraction_def)
qed (simp add: parse_fraction_def assms(4))

lemma parse_offset_padded:
  assumes "0 \<le> h" "h < 24" "0 \<le> m" "m < 60" "0 \<le> sec" "sec < 60"
  shows "parse_offset ((if neg then ''-'' else ''+'') @ padded 2 h @ '':'' @ padded 2 m @
      (if sec = 0 then [] else '':'' @ padded 2 sec)) = Some (Some ((if neg then -1 else 1) * (h * 3600 + m * 60 + sec)))"
proof (cases "sec = 0")
  case True
  then show ?thesis using assms take_padded2 [of m "[]"] by (cases neg) (simp_all add: parse_offset_def take_padded2)
next
  case False
  then show ?thesis using assms take_padded2 [of sec "[]"] by (cases neg) (simp_all add: parse_offset_def take_padded2)
qed

lemma parse_offset_iso:
  assumes "\<bar>off\<bar> < 86400"
  shows "parse_offset (iso_offset off) = Some (Some off)"
proof -
  define a where "a = \<bar>off\<bar>"
  have a: "0 \<le> a" "a < 86400" using assms by (simp_all add: a_def)
  note x = sexagesimal [OF a]
  have sign: "(if off < 0 then -1 else 1) * a = off" by (simp add: a_def)
  show ?thesis
    unfolding iso_offset_def Let_def a_def [symmetric] parse_offset_padded [OF x(2,1,6,4,7,5)] x(3) sign by (rule refl)
qed

text \<open>A time that Python can hold: its wall time is in a year from 1 to 9999, its offset under a day.\<close>

fun time_ok :: "datetime \<Rightarrow> bool" where
  "time_ok (Aware i off) = (wall_in_range (i + 1000000 * off) \<and> \<bar>off\<bar> < 86400)"
| "time_ok (Naive w i) = (wall_in_range w \<and> i = w)"

lemma parse_iso_wall:
  assumes "wall_in_range w" "r = [] \<or> \<not> is_digit (hd r)" "take_char (CHR ''.'') r = None"
  shows "\<exists>day t us s1 s2. parse_date (iso_wall w @ r) = Some (day, s1) \<and> s1 \<noteq> [] \<and>
     parse_hms (tl s1) = Some (t, s2) \<and> parse_fraction s2 = Some (us, r) \<and> (day * 86400 + t) * 1000000 + us = w"
proof -
  define secs where "secs = w div 1000000"
  define day where "day = secs div 86400"
  define t where "t = secs mod 86400"
  define us where "us = w mod 1000000"
  obtain y m d where c: "civil_of_days day = (y, m, d)" by (cases "civil_of_days day")
  have us: "0 \<le> us" "us < 1000000" and t: "0 \<le> t" "t < 86400" by (simp_all add: us_def t_def)
  have w: "1000000 * secs + us = w" "86400 * day + t = secs"
    unfolding secs_def us_def day_def t_def by (rule mult_div_mod_eq)+
  have "-719162 \<le> day" "day \<le> 2932896" using assms(1) w t us by (simp_all add: wall_in_range_def)
  note cy = civil_year [OF c this]
  define s2 where "s2 = (if us = 0 then [] else ''.'' @ padded 6 us) @ r"
  define s1 where "s1 = ''T'' @ padded 2 (t div 3600) @ '':'' @ padded 2 (t div 60 mod 60) @ '':'' @ padded 2 (t mod 60) @ s2"
  have "iso_wall w @ r = padded 4 y @ ''-'' @ padded 2 m @ ''-'' @ padded 2 d @ s1"
    unfolding iso_wall_def Let_def secs_def [symmetric] day_def [symmetric] t_def [symmetric] us_def [symmetric] c s1_def s2_def
    by simp
  then have "parse_date (iso_wall w @ r) = Some (day, s1)" using parse_date_padded [OF c cy] by simp
  moreover have "parse_hms (tl s1) = Some (t, s2)" using parse_hms_padded [OF t, of s2] by (simp add: s1_def)
  moreover have "parse_fraction s2 = Some (us, r)" unfolding s2_def by (rule parse_fraction_padded [OF us assms(2,3)])
  moreover have "(day * 86400 + t) * 1000000 + us = w" using w by simp
  moreover have "s1 \<noteq> []" by (simp add: s1_def)
  ultimately show ?thesis by blast
qed

lemma iso_roundtrip:
  assumes "time_ok t"
  shows "fromisoformat (isoformat t) = Inr t"
proof (cases t)
  case (Aware i off)
  have head: "iso_offset off \<noteq> []" "\<not> is_digit (hd (iso_offset off))" "take_char (CHR ''.'') (iso_offset off) = None"
    by (simp_all add: iso_offset_def Let_def is_digit_def take_char_def)
  have "wall_in_range (i + 1000000 * off)" "\<bar>off\<bar> < 86400" using assms Aware by simp_all
  with parse_iso_wall [OF this(1), of "iso_offset off"] head parse_offset_iso
  obtain day u us s1 s2 where p: "parse_date (isoformat t) = Some (day, s1)" "s1 \<noteq> []" "parse_hms (tl s1) = Some (u, s2)"
    "parse_fraction s2 = Some (us, iso_offset off)" "(day * 86400 + u) * 1000000 + us = i + 1000000 * off"
    "parse_offset (iso_offset off) = Some (Some off)"
    using Aware by auto
  then show ?thesis by (simp add: fromisoformat_def Let_def Aware)
next
  case (Naive w i)
  then obtain day u us s1 s2 where p: "parse_date (isoformat t) = Some (day, s1)" "s1 \<noteq> []" "parse_hms (tl s1) = Some (u, s2)"
    "parse_fraction s2 = Some (us, [])" "(day * 86400 + u) * 1000000 + us = w"
    using assms parse_iso_wall [of w "[]"] by (auto simp: take_char_def)
  then show ?thesis using assms by (simp add: fromisoformat_def Let_def Naive parse_offset_def)
qed

section \<open>What is read can be held\<close>

lemma digits_value_bounds: "digits_value s a = Some v \<Longrightarrow> 0 \<le> a \<Longrightarrow> 0 \<le> v \<and> v < (a + 1) * 10 ^ length s"
proof (induction s arbitrary: a)
  case (Cons c cs)
  have d: "is_digit c" using Cons.prems(1) by (auto split: if_splits)
  let ?a = "10 * a + int (code_of c) - 48"
  have "0 \<le> ?a" "?a + 1 \<le> (a + 1) * 10" using d Cons.prems(2) by (auto simp: is_digit_def)
  moreover have "0 \<le> v \<and> v < (?a + 1) * 10 ^ length cs"
    by (rule Cons.IH) (use Cons.prems(1) d calculation(1) in auto)
  moreover have "(?a + 1) * 10 ^ length cs \<le> ((a + 1) * 10) * 10 ^ length cs"
    using calculation(2) by (intro mult_right_mono) simp_all
  moreover have "((a + 1) * 10) * 10 ^ length cs = (a + 1) * 10 ^ length (c # cs)" by simp
  ultimately show ?case by linarith
qed simp

lemma take_number_bounds: "take_number n s = Some (v, r) \<Longrightarrow> 0 \<le> v \<and> v < 10 ^ n"
  using digits_value_bounds [of "take n s" 0 v] by (auto simp: take_number_def split: if_splits)

lemma days_from_civil_range:
  assumes "1 \<le> y" "y \<le> 9999" "1 \<le> m" "m \<le> 12" "1 \<le> d" "d \<le> days_in_month y m"
  shows "-719162 \<le> days_from_civil y m d" "days_from_civil y m d \<le> 2932896"
proof -
  define y' where "y' = (if m \<le> 2 then y - 1 else y)"
  define era where "era = y' div 400"
  define yoe where "yoe = y' - era * 400"
  define mp where "mp = (if m > 2 then m - 3 else m + 9)"
  define doy where "doy = (153 * mp + 2) div 5 + d - 1"
  define f where "f = yoe * 365 + yoe div 4 - yoe div 100"
  have days: "days_from_civil y m d = era * 146097 + f + doy - 719468"
    by (simp add: days_from_civil_def Let_def y'_def [symmetric] era_def yoe_def mp_def doy_def f_def)
  have yoe: "0 \<le> yoe" "yoe \<le> 399" using div_bounds [OF era_def] by (simp_all add: yoe_def)
  have d31: "d \<le> 31" using assms(6) by (auto simp: days_in_month_def split: if_splits)
  have mp: "0 \<le> mp" "mp \<le> 11" "m \<le> 2 \<longleftrightarrow> 10 \<le> mp" using assms(3,4) by (auto simp: mp_def)
  have doy: "0 \<le> doy" "doy \<le> 367" "10 \<le> mp \<Longrightarrow> 306 \<le> doy" "mp \<le> 9 \<Longrightarrow> doy \<le> 305"
    using mp assms(5) d31 div_bounds [OF refl, of 5 "153 * mp + 2"] by (auto simp: doy_def)
  have f: "365 * yoe \<le> f" "f \<le> 365 * yoe + 99"
    using yoe div_bounds [OF refl, of 4 yoe] div_bounds [OF refl, of 100 yoe] by (auto simp: f_def)
  have y': "0 \<le> y'" "y' \<le> 9999" "y' = 0 \<Longrightarrow> 10 \<le> mp" "y' = 9999 \<Longrightarrow> mp \<le> 9"
    using assms(1,2) mp(3) by (auto simp: y'_def split: if_splits)
  show "-719162 \<le> days_from_civil y m d"
  proof (cases "y' = 0")
    case True
    then have "era = 0" "f = 0" by (simp_all add: f_def yoe_def era_def)
    then show ?thesis using days doy(3) y'(3) True by simp
  next
    case False
    then have "0 \<le> era" "1 \<le> yoe \<or> 1 \<le> era" using y'(1) div_bounds [OF era_def] by (auto simp: yoe_def)
    then show ?thesis using days doy(1) f(1) yoe(1) by auto
  qed
  show "days_from_civil y m d \<le> 2932896"
  proof (cases "y' = 9999")
    case True
    then have "era = 24" "f = 145731" by (simp_all add: f_def yoe_def era_def)
    then show ?thesis using days doy(4) y'(4) True by simp
  next
    case False
    then have "era \<le> 24" "era = 24 \<Longrightarrow> yoe \<le> 398" using y'(2) div_bounds [OF era_def] by (auto simp: yoe_def)
    then show ?thesis using days doy(2) f(2) yoe(2) by (cases "era = 24") auto
  qed
qed

lemma parse_hms_range: "parse_hms s = Some (t, r) \<Longrightarrow> 0 \<le> t \<and> t < 86400"
  by (auto simp: parse_hms_def split: Option.bind_splits if_splits dest!: take_number_bounds)

lemma parse_fraction_range:
  assumes "parse_fraction s = Some (us, r)"
  shows "0 \<le> us \<and> us < 1000000"
proof (cases "take_char (CHR ''.'') s")
  case (Some t)
  define six where "six = take 6 (takeWhile is_digit t)"
  obtain v where v: "digits_value six 0 = Some v" "us = v * 10 ^ (6 - length six)"
    using assms Some by (auto simp: parse_fraction_def Let_def six_def split: if_splits)
  have "0 \<le> v" "v < 10 ^ length six" using digits_value_bounds [OF v(1)] by auto
  then have "v * 10 ^ (6 - length six) < 10 ^ length six * 10 ^ (6 - length six)" by simp
  also have "\<dots> = 10 ^ 6" by (simp add: six_def flip: power_add)
  finally show ?thesis using v(2) \<open>0 \<le> v\<close> by simp
qed (use assms in \<open>simp add: parse_fraction_def\<close>)

lemma parse_offset_range: "parse_offset s = Some (Some off) \<Longrightarrow> \<bar>off\<bar> < 86400"
  by (auto simp: parse_offset_def split: list.splits Option.bind_splits if_splits dest!: take_number_bounds)

lemma parse_date_range: "parse_date s = Some (day, r) \<Longrightarrow> -719162 \<le> day \<and> day \<le> 2932896"
  by (auto simp: parse_date_def days_from_civil_range split: Option.bind_splits if_splits dest!: take_number_bounds)

lemma fromisoformat_ok:
  assumes "fromisoformat s = Inr t"
  shows "time_ok t"
proof -
  from assms obtain day s1 u s2 us s3 off where p: "parse_date s = Some (day, s1)" "parse_hms (tl s1) = Some (u, s2)"
    "parse_fraction s2 = Some (us, s3)" "parse_offset s3 = Some off"
    "t = (let wall = (day * 86400 + u) * 1000000 + us in
      case off of None \<Rightarrow> Naive wall wall | Some o' \<Rightarrow> Aware (wall - 1000000 * o') o')"
    by (auto simp: fromisoformat_def Let_def split: option.splits Option.bind_splits if_splits)
  have "wall_in_range ((day * 86400 + u) * 1000000 + us)"
    using parse_date_range [OF p(1)] parse_hms_range [OF p(2)] parse_fraction_range [OF p(3)]
    by (simp add: wall_in_range_def)
  then show ?thesis using parse_offset_range p(4,5) by (auto simp: Let_def split: option.splits)
qed

end
