(* ===== verification/QueueProps.thy ===== *)
theory QueueProps
  imports QueueFacts PyTimeFacts
begin

text \<open>
  The properties of the approval queue: a record that is written can be read back with the same
  fields, the file stays readable, every run is a run of the abstract queue, and a grant the queue
  hands to the engine goes back to an operator's approval.
\<close>

section \<open>Records that can be read back\<close>

definition time_option_ok :: "datetime option \<Rightarrow> bool" where
  "time_option_ok t = (case t of None \<Rightarrow> True | Some d \<Rightarrow> is_aware d \<and> time_ok d)"

definition storable :: "local_record \<Rightarrow> bool" where
  "storable r \<longleftrightarrow>
     list_all (\<lambda>s. s \<noteq> []) [lr_id r, lr_session_id r, lr_target_id r, lr_provider_id r, lr_capability_id r,
       lr_params_fingerprint r, lr_policy_decision r, lr_operator_message r] \<and>
     is_aware (lr_created_at r) \<and> time_ok (lr_created_at r) \<and> is_aware (lr_expires_at r) \<and> time_ok (lr_expires_at r) \<and>
     time_option_ok (lr_decided_at r) \<and> time_option_ok (lr_consumed_at r)"

lemma written_more [simp]:
  "rget (local_record_to_dict r) ''operator_message'' = JStr (lr_operator_message r)"
  "rget (local_record_to_dict r) ''reason'' = (case lr_reason r of None \<Rightarrow> JNull | Some s \<Rightarrow> JStr s)"
  "rget (local_record_to_dict r) ''decided_at'' = (case lr_decided_at r of None \<Rightarrow> JNull | Some t \<Rightarrow> JStr (isoformat t))"
  "rget (local_record_to_dict r) ''consumed_at'' = (case lr_consumed_at r of None \<Rightarrow> JNull | Some t \<Rightarrow> JStr (isoformat t))"
  "rget (local_record_to_dict r) ''material_risks'' = JArr (map JStr (lr_material_risks r))"
  "rget (local_record_to_dict r) ''redactions'' = JArr (map JStr (sort (remdups (lr_redactions r))))"
  "rget (local_record_to_dict r) ''request'' = canon (act_json (pdict (lr_request r)))"
  unfolding local_record_to_dict_def
  by (subst rget_json_safe, simp, simp add: iso_option_def comp_def split: option.splits)+

lemma get_or_rget: "rget d k \<noteq> JNull \<Longrightarrow> get_or (JObj d) k v = rget d k"
  by (auto simp: get_or_def rget_def split: option.splits)

lemma queue_strings_written [simp]:
  "queue_strings (local_record_to_dict r) ''material_risks'' = Inr (lr_material_risks r)"
  "queue_strings (local_record_to_dict r) ''redactions'' = Inr (sort (remdups (lr_redactions r)))"
  by (simp_all add: queue_strings_def get_or_rget comp_def)

lemma queue_datetime_iso:
  assumes "is_aware t" "time_ok t"
  shows "queue_datetime (JStr (isoformat t)) = Inr (Some t)"
proof -
  obtain i off where t: "t = Aware i off" using assms(1) by (cases t) auto
  have "isoformat t \<noteq> []" by (simp add: t iso_offset_def Let_def)
  then show ?thesis using iso_roundtrip [OF assms(2)] by (simp add: t del: isoformat.simps)
qed

lemma required_nonempty: "s \<noteq> [] \<Longrightarrow> rget d k = JStr s \<Longrightarrow> queue_required_str d k = Inr s"
  by (simp add: queue_required_str_def queue_text_def)

text \<open>What comes back: the record as written, with its request redacted again.\<close>

definition stored_form :: "local_record \<Rightarrow> local_record" where
  "stored_form r = make_local_record (r\<lparr>
     lr_operator_message := queue_redact_text (lr_operator_message r),
     lr_reason := (case lr_reason r of None \<Rightarrow> None
                   | Some t \<Rightarrow> if queue_redact_text t = [] then None else Some (queue_redact_text t)),
     lr_request := json_params (queue_json_safe (lr_request r)),
     lr_redactions := sort (remdups (lr_redactions r))\<rparr>)"

lemma optional_written: "queue_optional_str (case t of None \<Rightarrow> JNull | Some s \<Rightarrow> JStr s) = Inr t"
  by (cases t) simp_all

lemma optional_time_written:
  "time_option_ok t \<Longrightarrow> queue_datetime (case t of None \<Rightarrow> JNull | Some s \<Rightarrow> JStr (isoformat s)) = Inr t"
  by (cases t) (simp_all add: time_option_ok_def queue_datetime_iso del: queue_datetime.simps(2) isoformat.simps)

definition record_keys :: "string set" where
  "record_keys = {''id'', ''status'', ''created_at'', ''expires_at'', ''session_id'', ''target_id'', ''provider_id'',
     ''capability_id'', ''params_fingerprint'', ''policy_decision'', ''operator_message'', ''material_risks'', ''request'',
     ''scope'', ''operator_id'', ''response_id'', ''reason'', ''decided_at'', ''consumed_at'', ''redactions''}"

text \<open>A mapping with the written fields of a record reads back as that record.\<close>

lemma read_record:
  assumes "storable r" "\<And>k. k \<in> record_keys \<Longrightarrow> rget d k = rget (local_record_to_dict r) k"
  shows "local_record_from_dict d = Inr (stored_form r)"
proof -
  note ok = assms(1) [unfolded storable_def list.pred_inject]
  have g: "rget d ''id'' = JStr (lr_id r)" "rget d ''status'' = JStr (local_status_value (lr_status r))"
    "rget d ''session_id'' = JStr (lr_session_id r)" "rget d ''target_id'' = JStr (lr_target_id r)"
    "rget d ''provider_id'' = JStr (lr_provider_id r)" "rget d ''capability_id'' = JStr (lr_capability_id r)"
    "rget d ''params_fingerprint'' = JStr (lr_params_fingerprint r)"
    "rget d ''policy_decision'' = JStr (lr_policy_decision r)"
    "rget d ''operator_message'' = JStr (lr_operator_message r)"
    "rget d ''created_at'' = JStr (isoformat (lr_created_at r))" "rget d ''expires_at'' = JStr (isoformat (lr_expires_at r))"
    "rget d ''scope'' = (case lr_scope r of None \<Rightarrow> JNull | Some s \<Rightarrow> JStr (grant_scope_value s))"
    "rget d ''operator_id'' = (case lr_operator_id r of None \<Rightarrow> JNull | Some s \<Rightarrow> JStr s)"
    "rget d ''response_id'' = (case lr_response_id r of None \<Rightarrow> JNull | Some s \<Rightarrow> JStr s)"
    "rget d ''reason'' = (case lr_reason r of None \<Rightarrow> JNull | Some s \<Rightarrow> JStr s)"
    "rget d ''decided_at'' = (case lr_decided_at r of None \<Rightarrow> JNull | Some t \<Rightarrow> JStr (isoformat t))"
    "rget d ''consumed_at'' = (case lr_consumed_at r of None \<Rightarrow> JNull | Some t \<Rightarrow> JStr (isoformat t))"
    "rget d ''material_risks'' = JArr (map JStr (lr_material_risks r))"
    "rget d ''redactions'' = JArr (map JStr (sort (remdups (lr_redactions r))))"
    "rget d ''request'' = canon (act_json (pdict (lr_request r)))"
    by (simp_all add: assms(2) record_keys_def)
  have scope: "(case rget d ''scope'' of JNull \<Rightarrow> Inr None
      | v \<Rightarrow> bind_res (grant_scope_of (json_str v)) (\<lambda>s. Inr (Some s))) = Inr (lr_scope r)"
    unfolding g by (cases "lr_scope r") simp_all
  have request: "queue_mapping (get_or (JObj d) ''request'' (JObj [])) ''request'' = Inr (queue_json_safe (lr_request r))"
    by (simp add: get_or_rget g queue_mapping_def queue_json_safe_def pdict_def)
  have strings: "queue_strings d ''material_risks'' = Inr (lr_material_risks r)"
    "queue_strings d ''redactions'' = Inr (sort (remdups (lr_redactions r)))"
    by (simp_all add: queue_strings_def get_or_rget comp_def g)
  have times: "queue_required_datetime d ''created_at'' = Inr (lr_created_at r)"
    "queue_required_datetime d ''expires_at'' = Inr (lr_expires_at r)"
    using ok by (simp_all add: queue_required_datetime_def g queue_datetime_iso del: queue_datetime.simps isoformat.simps)
  have optional_times: "queue_datetime (rget d ''decided_at'') = Inr (lr_decided_at r)"
    "queue_datetime (rget d ''consumed_at'') = Inr (lr_consumed_at r)"
    using ok by (simp_all add: g optional_time_written del: queue_datetime.simps isoformat.simps)
  have texts: "queue_required_str d ''id'' = Inr (lr_id r)"
    "queue_required_str d ''status'' = Inr (local_status_value (lr_status r))"
    "queue_required_str d ''session_id'' = Inr (lr_session_id r)"
    "queue_required_str d ''target_id'' = Inr (lr_target_id r)"
    "queue_required_str d ''provider_id'' = Inr (lr_provider_id r)"
    "queue_required_str d ''capability_id'' = Inr (lr_capability_id r)"
    "queue_required_str d ''params_fingerprint'' = Inr (lr_params_fingerprint r)"
    "queue_required_str d ''policy_decision'' = Inr (lr_policy_decision r)"
    "queue_required_str d ''operator_message'' = Inr (lr_operator_message r)"
    using ok g by (simp_all add: required_nonempty) (cases "lr_status r"; simp add: required_nonempty)
  have optionals: "queue_optional_str (rget d ''operator_id'') = Inr (lr_operator_id r)"
    "queue_optional_str (rget d ''response_id'') = Inr (lr_response_id r)"
    "queue_optional_str (rget d ''reason'') = Inr (lr_reason r)"
    by (simp_all add: g optional_written del: queue_optional_str.simps)
  show ?thesis
    unfolding local_record_from_dict_def texts times optional_times optionals scope request strings
      bind_res_simps local_status_of_value stored_form_def
    by (cases r) simp
qed

lemma reload: "storable r \<Longrightarrow> local_record_from_dict (local_record_to_dict r) = Inr (stored_form r)"
  by (rule read_record) simp_all

lemma stored_form_simps [simp]:
  "lr_id (stored_form r) = lr_id r" "lr_status (stored_form r) = lr_status r" "lr_scope (stored_form r) = lr_scope r"
  "lr_created_at (stored_form r) = lr_created_at r" "lr_expires_at (stored_form r) = lr_expires_at r"
  "lr_session_id (stored_form r) = lr_session_id r" "lr_target_id (stored_form r) = lr_target_id r"
  "lr_provider_id (stored_form r) = lr_provider_id r" "lr_capability_id (stored_form r) = lr_capability_id r"
  "lr_params_fingerprint (stored_form r) = lr_params_fingerprint r"
  "lr_policy_decision (stored_form r) = lr_policy_decision r"
  "lr_operator_id (stored_form r) = lr_operator_id r" "lr_response_id (stored_form r) = lr_response_id r"
  by (simp_all add: stored_form_def)

section \<open>The file stays readable\<close>

lemma time_ok_utc: "time_ok t \<Longrightarrow> is_aware (assume_utc t) \<and> time_ok (assume_utc t)"
  by (cases t) simp_all

lemma time_option_ok_simps [simp]:
  "time_option_ok None" "time_option_ok (Some t) \<longleftrightarrow> is_aware t \<and> time_ok t"
  by (simp_all add: time_option_ok_def)

lemma queue_datetime_ok:
  assumes "queue_datetime v = Inr t"
  shows "time_option_ok t"
proof (cases v)
  case (JStr s)
  then obtain u where "fromisoformat s = Inr u" "t = Some (assume_utc u)"
    using assms by (auto simp: bind_res_Inr_iff split: if_splits)
  then show ?thesis using time_ok_utc [OF fromisoformat_ok] by simp
qed (use assms in simp_all)

lemma required_expiry:
  assumes "bind_res (queue_datetime v) (\<lambda>e. case e of Some t \<Rightarrow> Inr t | None \<Rightarrow> raise c m) = Inr t"
  shows "is_aware t \<and> time_ok t"
proof -
  obtain e where "queue_datetime v = Inr e" "e = Some t" using assms by (auto simp: bind_res_Inr_iff split: option.splits)
  then show ?thesis using queue_datetime_ok by fastforce
qed

lemma required_datetime_ok: "queue_required_datetime d k = Inr t \<Longrightarrow> is_aware t \<and> time_ok t"
  unfolding queue_required_datetime_def by (rule required_expiry)

lemma redact_text_nonempty: "v \<noteq> [] \<Longrightarrow> queue_redact_text v \<noteq> []"
  by (simp add: queue_redact_text_def)

lemma make_local_record_more [simp]:
  "lr_operator_message (make_local_record r) = lr_operator_message r"
  "lr_decided_at (make_local_record r) = lr_decided_at r" "lr_consumed_at (make_local_record r) = lr_consumed_at r"
  "lr_reason (make_local_record r) = lr_reason r" "lr_material_risks (make_local_record r) = lr_material_risks r"
  by (simp_all add: make_local_record_def split: prod.split)

lemma make_local_storable [simp]: "storable (make_local_record r) = storable r"
  by (simp add: storable_def)

lemma required_fingerprint:
  "(case v of JStr f \<Rightarrow> if f = [] then raise c m else Inr f | _ \<Rightarrow> raise c m) = Inr x \<Longrightarrow> x \<noteq> []"
  by (auto split: json.splits if_splits)

lemma from_dict_ok:
  assumes "local_record_from_dict d = Inr r"
  shows "storable r"
  using assms
  by (auto simp: local_record_from_dict_def bind_res_Inr_iff storable_def redact_text_nonempty
      dest!: queue_required_Inr required_datetime_ok queue_datetime_ok)

text \<open>The first target of an approval request is not checked to be a name.\<close>

definition object_at :: "jobject \<Rightarrow> string \<Rightarrow> jobject" where
  "object_at d k = (case rget d k of JObj kvs \<Rightarrow> kvs | _ \<Rightarrow> [])"

definition names_target :: "jobject \<Rightarrow> bool" where
  "names_target result =
     (case rget (object_at (object_at (object_at result ''data'') ''approval_request'') ''target_scope'') ''targets'' of
        JArr (JStr t # ts) \<Rightarrow> t \<noteq> [] | _ \<Rightarrow> True)"

lemma mapping_object_at:
  "queue_mapping (get_or (JObj d) k (JObj [])) n = Inr kvs \<Longrightarrow> object_at d k = kvs"
  by (auto simp: queue_mapping_def object_at_def get_or_def rget_def split: option.splits json.splits)

lemma first_target:
  "(case v of JArr (JStr t # ts) \<Rightarrow> Inr t | _ \<Rightarrow> raise c m) = Inr x \<Longrightarrow> \<exists>ts. v = JArr (JStr x # ts)"
  by (auto split: json.splits list.splits)

lemma from_mcp_ok:
  assumes "local_record_from_mcp_result result now = Inr r" "is_aware now" "time_ok now" "names_target result"
  shows "storable r"
proof -
  have st: "rget result ''status'' = JStr ''approval_required''"
    using assms(1) by (simp add: local_record_from_mcp_result_def split: if_splits)
  let ?approval = "object_at (object_at result ''data'') ''approval_request''"
  obtain data approval target_scope target capability created expiry expires fp i session provider cap decision message risks where
    f: "queue_mapping (get_or (JObj result) ''data'' (JObj [])) ''approval result data'' = Inr data"
      "queue_mapping (get_or (JObj data) ''approval_request'' (JObj [])) ''approval_request'' = Inr approval"
      "queue_mapping (get_or (JObj approval) ''target_scope'' (JObj [])) ''target_scope'' = Inr target_scope"
      "(case rget target_scope ''targets'' of JArr (JStr t # ts) \<Rightarrow> Inr t
         | _ \<Rightarrow> raise ValueError ''approval request target scope is missing'') = Inr target"
      "queue_mapping (get_or (JObj approval) ''capability'' (JObj [])) ''capability'' = Inr capability"
      "queue_datetime (rget approval ''created_at'') = Inr created"
      "queue_datetime (rget approval ''expires_at'') = Inr expiry"
      "(case expiry of Some t \<Rightarrow> Inr t | None \<Rightarrow> raise ValueError ''approval request expiry is required'') = Inr expires"
      "(case rget data ''params_fingerprint'' of
         JStr f \<Rightarrow> if f = [] then raise ValueError ''approval params fingerprint is required'' else Inr f
       | _ \<Rightarrow> raise ValueError ''approval params fingerprint is required'') = Inr fp"
      "queue_required_str approval ''id'' = Inr i" "queue_required_str approval ''session_id'' = Inr session"
      "queue_required_str approval ''provider_id'' = Inr provider" "queue_required_str capability ''id'' = Inr cap"
      "queue_required_str approval ''policy_decision'' = Inr decision"
      "queue_required_str approval ''operator_message'' = Inr message"
      "queue_strings approval ''material_risks'' = Inr risks"
    and r: "Inr (make_local_record
          \<lparr>lr_id = i, lr_status = LS_PENDING, lr_created_at = (case created of Some t \<Rightarrow> t | None \<Rightarrow> now),
           lr_expires_at = expires, lr_session_id = session, lr_target_id = target, lr_provider_id = provider,
           lr_capability_id = cap, lr_params_fingerprint = fp, lr_policy_decision = decision,
           lr_operator_message = queue_redact_text message, lr_material_risks = risks,
           lr_request = json_params [(''approval_request'', JObj approval),
                                     (''params_preview'', get_or (JObj data) ''params_preview'' (JObj []))],
           lr_scope = None, lr_operator_id = None, lr_response_id = None, lr_reason = None,
           lr_decided_at = None, lr_consumed_at = None, lr_redactions = []\<rparr>) = (Inr r :: local_record res)"
    using assms(1) unfolding local_record_from_mcp_result_def if_not_P [OF st [THEN not_not [THEN iffD2]]] bind_res_Inr_iff
    by (elim exE conjE) (rule that)
  have "target_scope = object_at ?approval ''target_scope''"
    using f(1-3) [THEN mapping_object_at] by simp
  then have "target \<noteq> []" using first_target [OF f(4)] assms(4) by (auto simp: names_target_def)
  moreover have "is_aware (case created of Some t \<Rightarrow> t | None \<Rightarrow> now) \<and> time_ok (case created of Some t \<Rightarrow> t | None \<Rightarrow> now)"
    using queue_datetime_ok [OF f(6)] assms(2,3) by (cases created) simp_all
  moreover have "is_aware expires \<and> time_ok expires"
    using f(7,8) by (intro required_expiry [of "rget approval ''expires_at''"]) (simp add: bind_res_Inr_iff)
  ultimately show ?thesis
    using r f(10-15) [THEN queue_required_Inr] required_fingerprint [OF f(9)]
    by (auto simp: storable_def redact_text_nonempty)
qed

definition all_storable :: "local_records \<Rightarrow> bool" where
  "all_storable recs \<longleftrightarrow> (\<forall>r \<in> snd ` set recs. storable r)"

lemma all_storable_set: "all_storable recs \<Longrightarrow> storable r \<Longrightarrow> all_storable (dict_set i r recs)"
  unfolding all_storable_def by (induction recs) (auto split: if_splits)

lemma add_storable: "add_records items recs = Inr out \<Longrightarrow> all_storable recs \<Longrightarrow> all_storable out"
  by (induction items recs rule: add_records.induct) (auto simp: bind_res_Inr_iff all_storable_set from_dict_ok)

lemma load_storable: "load_records f = Inr recs \<Longrightarrow> all_storable recs"
  by (auto simp: load_records_def all_storable_def [of "[]"] split: queue_file.splits if_splits json.splits
      dest: add_storable)

lemma add_written_ok:
  "\<forall>r \<in> set rs. storable r \<Longrightarrow> \<exists>out. add_records (map (\<lambda>r. JObj (local_record_to_dict r)) rs) acc = Inr out"
  by (induction rs arbitrary: acc) (simp_all add: reload)

lemma saved_file_readable:
  assumes "saved_file recs = Inr f" "all_storable recs"
  shows "\<exists>recs'. load_records f = Inr recs'"
proof -
  obtain rs where rs: "sort_records (map snd recs) = Inr rs"
    "f = QueueDoc (JObj [(''approvals'', JArr (map (JObj \<circ> local_record_to_dict) rs)), (''version'', JStr ''0.1'')])"
    using assms(1) by (auto simp: saved_file_def bind_res_Inr_iff)
  have "rs = sort_key (\<lambda>r. sort_time (lr_created_at r)) (map snd recs)"
    using rs(1) by (simp add: sort_records_def split: if_splits)
  then have "set rs = snd ` set recs" by (simp only: set_sort set_map)
  then have "\<forall>r \<in> set rs. storable r" using assms(2) by (simp add: all_storable_def)
  then show ?thesis using rs(2) add_written_ok [of rs "[]"] by (simp add: comp_def load_records_def get_or_def)
qed

lemma consume_ok: "consume_record now r = Inr r' \<Longrightarrow> storable r \<Longrightarrow> storable r'"
  by (auto simp: consume_record_def local_record_with_def from_dict_ok split: if_splits)

text \<open>Every record a command writes can be read back.\<close>

lemma decide_readable:
  assumes "\<exists>recs. load_records (qs_file s) = Inr recs"
    "\<And>now fresh r r'. change now fresh r = Inr r' \<Longrightarrow> storable r'"
  shows "\<exists>recs. load_records (qs_file (snd (decide qu t i change s))) = Inr recs"
  using decide_file [of qu t i change s] assms saved_file_readable load_storable all_storable_set by metis

lemma change_ok:
  "expire_record who reason now fresh r = Inr r' \<Longrightarrow> storable r'"
  "deny_record who reason now fresh r = Inr r' \<Longrightarrow> storable r'"
  "approve_record who sc reason now fresh r = Inr r' \<Longrightarrow> storable r'"
  by (auto simp: expire_record_def deny_record_def approve_record_def local_record_with_def bind_res_Inr_iff
      split: if_splits dest: from_dict_ok)

definition clock_ok :: "'a approval_queue \<Rightarrow> bool" where
  "clock_ok qu \<longleftrightarrow> (\<forall>k. is_aware (qu_now qu k) \<and> time_ok (qu_now qu k))"

lemma enqueue_readable:
  assumes "load_records (qs_file s) = Inr recs" "clock_ok qu" "names_target result"
  shows "\<exists>recs. load_records (qs_file (snd (enqueue_mcp_result qu result s))) = Inr recs"
proof (cases "qs_file (snd (enqueue_mcp_result qu result s)) = qs_file s")
  case False
  with assms(1) obtain r where r: "local_record_from_mcp_result result (qu_now qu (qs_ticks s)) = Inr r"
    "saved_file (dict_set (lr_id r) r recs) = Inr (qs_file (snd (enqueue_mcp_result qu result s)))"
    by (auto simp: enqueue_mcp_result_def split: sum.splits option.splits)
  have "storable r" using from_mcp_ok [OF r(1)] assms(2,3) by (simp add: clock_ok_def)
  then show ?thesis using saved_file_readable [OF r(2)] all_storable_set load_storable [OF assms(1)] by blast
qed (use assms in auto)

lemma mark_readable:
  assumes "load_records (qs_file s) = Inr recs"
  shows "\<exists>recs. load_records (qs_file (snd (mark_matching_consumed qu q s))) = Inr recs"
proof -
  have f: "snd (mark_matching_consumed qu q s) = snd (consume_matching qu q recs recs s)"
    using assms by (simp add: mark_matching_consumed_def)
  from consume_matching_file [of qu q recs recs s] show ?thesis
  proof (elim disjE exE conjE)
    fix i r now now' r'
    assume c: "(i, r) \<in> set recs" "consume_record now' r = Inr r'"
      "saved_file (dict_set i r' recs) = Inr (qs_file (snd (consume_matching qu q recs recs s)))"
    have ok: "all_storable recs" using assms by (rule load_storable)
    then have "storable r" using c(1) by (force simp: all_storable_def)
    with c(2) have "storable r'" by (rule consume_ok)
    then show ?thesis using saved_file_readable [OF c(3) all_storable_set [OF ok]] f by simp
  qed (use assms f in auto)
qed

text \<open>The commands that name a target, if they enqueue a request.\<close>

fun target_named :: "queue_command \<Rightarrow> bool" where
  "target_named (Enqueue result) = names_target result"
| "target_named c = True"

lemma step_readable:
  assumes "load_records (qs_file s) = Inr recs" "clock_ok qu" "target_named c"
  shows "\<exists>recs. load_records (qs_file (queue_step qu c s)) = Inr recs"
  by (cases c) (use assms in \<open>auto simp: queue_approve_def queue_deny_def queue_expire_def enqueue_readable mark_readable
      intro!: decide_readable dest: change_ok\<close>)

lemma run_readable:
  assumes "load_records (qs_file s) = Inr recs" "clock_ok qu" "list_all target_named cs"
  shows "\<exists>recs. load_records (qs_file (run_queue qu cs s)) = Inr recs"
  using assms
proof (induction cs rule: rev_induct)
  case (snoc c cs)
  then obtain recs' where "load_records (qs_file (run_queue qu cs s)) = Inr recs'" "target_named c" by auto
  then show ?case using snoc.prems(2) by (simp add: run_queue_snoc step_readable)
qed (simp add: run_queue_def)

section \<open>What an approval gives\<close>

definition approved_form :: "string \<Rightarrow> grant_scope \<Rightarrow> string option \<Rightarrow> datetime \<Rightarrow> string \<Rightarrow> local_record \<Rightarrow> local_record" where
  "approved_form operator scope reason now fresh r = stored_form (r\<lparr>
     lr_status := LS_APPROVED, lr_scope := Some scope, lr_operator_id := Some operator,
     lr_response_id := Some (response_id_for r fresh),
     lr_reason := Some (queue_redact_text (reason_or reason ''approved'')), lr_decided_at := Some now\<rparr>)"

lemma approved_grant_exact:
  assumes "lr_status r = LS_APPROVED" "lr_scope r = Some scope" "lr_operator_id r = Some operator" "operator \<noteq> []"
    "lr_response_id r = Some response" "dt_less now (lr_expires_at r) = Inr True"
    "lr_capability_id r \<notin> set RESUMPTION_BLOCKED"
  shows "approved_grant r now = Inr (Some
    \<lparr>ag_request_id = lr_id r, ag_response_id = response, ag_capability_id = lr_capability_id r,
     ag_session_id = lr_session_id r, ag_target_id = lr_target_id r, ag_provider_id = lr_provider_id r,
     ag_params_fingerprint = lr_params_fingerprint r, ag_expires_at = lr_expires_at r,
     ag_scope = scope, ag_operator = \<lparr>actor_kind = OPERATOR, actor_id = operator\<rparr>\<rparr>)"
  using assms by (simp add: approved_grant_def dt_geq_def make_actor_def make_action_grant_def)

lemma approve_record_exact:
  assumes "storable r" "lr_status r = LS_PENDING" "dt_less now (lr_expires_at r) = Inr True" "is_aware now" "time_ok now"
    "operator \<noteq> []" "lr_capability_id r \<notin> set RESUMPTION_BLOCKED"
  shows "approve_record operator scope reason now fresh r = Inr (approved_form operator scope reason now fresh r)"
proof -
  let ?r = "r\<lparr>lr_status := LS_APPROVED, lr_scope := Some scope, lr_operator_id := Some operator,
     lr_response_id := Some (response_id_for r fresh),
     lr_reason := Some (queue_redact_text (reason_or reason ''approved'')), lr_decided_at := Some now\<rparr>"
  have "storable ?r" using assms(1,4,5) by (simp add: storable_def)
  then have "local_record_with
      [(''status'', JStr (local_status_value LS_APPROVED)), (''scope'', JStr (grant_scope_value scope)),
       (''operator_id'', JStr operator), (''response_id'', JStr (response_id_for r fresh)),
       (''reason'', JStr (queue_redact_text (reason_or reason ''approved''))),
       (''decided_at'', JStr (isoformat now))] r = Inr (stored_form ?r)"
    unfolding local_record_with_def 
    by (rule read_record) (unfold record_keys_def insert_iff empty_iff, elim disjE FalseE, simp_all)
  moreover have "\<exists>g. approved_grant (stored_form ?r) now = Inr (Some g)"
    using approved_grant_exact [of "stored_form ?r" scope operator] assms(3,6,7) by simp
  ultimately show ?thesis using assms(2,3) by (auto simp: approve_record_def approved_form_def dt_geq_def)
qed

lemma saved_file_total: "all_storable recs \<Longrightarrow> \<exists>f. saved_file recs = Inr f"
  by (simp add: saved_file_def sort_records_def all_storable_def storable_def)

text \<open>The records that come back from a saved file.\<close>

lemma add_stored:
  "\<forall>r \<in> set rs. storable r \<Longrightarrow> distinct (map lr_id rs) \<Longrightarrow>
   \<exists>out. add_records (map (\<lambda>r. JObj (local_record_to_dict r)) rs) acc = Inr out \<and>
     map_of out = map_of acc ++ map_of (map (\<lambda>r. (lr_id r, stored_form r)) rs)"
proof (induction rs arbitrary: acc)
  case (Cons r rs)
  obtain out where out: "add_records (map (\<lambda>r. JObj (local_record_to_dict r)) rs) (dict_set (lr_id r) (stored_form r) acc) = Inr out"
    "map_of out = map_of (dict_set (lr_id r) (stored_form r) acc) ++ map_of (map (\<lambda>r. (lr_id r, stored_form r)) rs)"
    using Cons by fastforce
  have fresh: "map_of (map (\<lambda>r. (lr_id r, stored_form r)) rs) (lr_id r) = None"
    using Cons.prems(2) by (auto simp: map_of_eq_None_iff)
  have "map_of (dict_set (lr_id r) (stored_form r) acc) = (map_of acc)(lr_id r \<mapsto> stored_form r)" by auto
  with out fresh have "map_of out = map_of acc ++ map_of (map (\<lambda>r. (lr_id r, stored_form r)) (r # rs))"
    by (intro ext) (simp add: map_add_def split: option.split)
  moreover have "add_records (map (\<lambda>r. JObj (local_record_to_dict r)) (r # rs)) acc = Inr out"
    using out(1) Cons.prems(1) by (simp add: reload)
  ultimately show ?case by blast
qed simp

lemma saved_loads:
  assumes "saved_file recs = Inr f" "all_storable recs" "wf_records recs"
  shows "\<exists>recs'. load_records f = Inr recs' \<and> (\<forall>k r. dict_get recs k = Some r \<longrightarrow> dict_get recs' k = Some (stored_form r))"
proof -
  obtain rs where f: "f = QueueDoc (JObj [(''approvals'', JArr (map (JObj \<circ> local_record_to_dict) rs)), (''version'', JStr ''0.1'')])"
    and sorted: "rs = sort_key (\<lambda>r. sort_time (lr_created_at r)) (map snd recs)"
    using assms(1) by (auto simp: saved_file_def sort_records_def bind_res_Inr_iff split: if_splits)
  have same: "set rs = snd ` set recs" by (simp only: sorted set_sort set_map)
  have "distinct (map lr_id rs)" unfolding sorted using wf_distinct_ids [OF assms(3)] by (simp only: distinct_map distinct_sort set_sort)
  from add_stored [OF _ this, of "[]"] same assms(2)
  obtain out where out: "add_records (map (\<lambda>r. JObj (local_record_to_dict r)) rs) [] = Inr out"
    "map_of out = map_of (map (\<lambda>r. (lr_id r, stored_form r)) rs)" by (auto simp: all_storable_def)
  have "dict_get out k = Some (stored_form r)" if "dict_get recs k = Some r" for k r
  proof -
    have m: "(k, r) \<in> set recs" using that by (rule map_of_SomeD)
    then have "r \<in> set rs" unfolding same by force
    moreover have "k = lr_id r" using m assms(3) by (auto simp: wf_records_def)
    moreover have "distinct (map fst (map (\<lambda>r. (lr_id r, stored_form r)) rs))" using \<open>distinct (map lr_id rs)\<close> by (simp add: comp_def)
    ultimately show ?thesis unfolding out(2) by (intro map_of_is_SomeI) auto
  qed
  moreover have "load_records f = Inr out" using out(1) by (simp add: f comp_def load_records_def get_or_def)
  ultimately show ?thesis by blast
qed

lemma decide_saves:
  assumes "load_records (qs_file s) = Inr recs" "dict_get recs i = Some r"
    "change (qu_now qu (qs_ticks s)) (qu_uuid qu (Suc (qs_ticks s))) r = Inr r'"
    "saved_file (dict_set i r' recs) = Inr f"
  shows "qs_file (snd (decide qu t i change s)) = f"
proof -
  have "qs_file (snd (seq_op (emit_decision_event qu t r') (ret r') w)) = qs_file w" for w
    using emit_decision_file [of qu t r' w] by (auto simp: seq_op_def bind_op_def split: sum.splits prod.splits)
  then show ?thesis using assms by (simp add: decide_def require_record_def)
qed

text \<open>Every grant of the store comes from an approved record that had not expired.\<close>

lemma approved_grant_Some:
  assumes "approved_grant r now = Inr (Some g)"
  shows "lr_status r = LS_APPROVED" "lr_scope r = Some (ag_scope g)" "lr_operator_id r = Some (actor_id (ag_operator g))"
    "actor_kind (ag_operator g) = OPERATOR" "ag_request_id g = lr_id r" "dt_less now (lr_expires_at r) = Inr True"
    "record_binding r = (ag_capability_id g, ag_session_id g, ag_target_id g, ag_provider_id g, ag_params_fingerprint g)"
    "ag_expires_at g = lr_expires_at r" "ag_capability_id g \<notin> set RESUMPTION_BLOCKED"
  using assms
  by (auto simp: approved_grant_def bind_res_Inr_iff dt_geq_Inr make_actor_def make_action_grant_def record_binding_def
      split: if_splits option.splits)

lemma collect_grants_from:
  assumes "collect_grants qu rs st s = (Inr store, s')" "g \<in> set (st_action_grants store)"
  shows "g \<in> set (st_action_grants st) \<or> (\<exists>r \<in> set rs. \<exists>k. approved_grant r (qu_now qu k) = Inr (Some g))"
  using assms
proof (induction qu rs st arbitrary: s rule: collect_grants.induct)
  case (2 qu r rs st)
  let ?now = "qu_now qu (qs_ticks s)"
  obtain x where x: "approved_grant r ?now = Inr x" using "2.prems"(1) by (auto split: sum.splits)
  with 2 have "g \<in> set (st_action_grants (case x of None \<Rightarrow> st | Some h \<Rightarrow> store_add_action_grant h st)) \<or>
      (\<exists>r \<in> set rs. \<exists>k. approved_grant r (qu_now qu k) = Inr (Some g))" by simp
  then show ?case using x by (cases x) (auto simp: store_add_action_grant_def)
qed simp

lemma store_grant_from:
  assumes "to_approval_store qu s = (Inr store, s')" "g \<in> set (st_action_grants store)"
  shows "\<exists>recs r k. load_records (qs_file s) = Inr recs \<and> dict_get recs (ag_request_id g) = Some r \<and>
     approved_grant r (qu_now qu k) = Inr (Some g)"
proof -
  obtain recs where l: "load_records (qs_file s) = Inr recs" "collect_grants qu (map snd recs) empty_store s = (Inr store, s')"
    using assms(1) by (auto simp: to_approval_store_def list_records_def bind_op_def [of "bind_op load_op _"] split: sum.splits)
  obtain r k where r: "r \<in> set (map snd recs)" "approved_grant r (qu_now qu k) = Inr (Some g)"
    using collect_grants_from [OF l(2) assms(2)] by (auto simp: empty_store_def)
  have "wf_records recs" using l(1) by (rule load_records_wf)
  then have "dict_get recs (lr_id r) = Some r" using r(1) by (auto simp: wf_records_def)
  then show ?thesis using l(1) r(2) approved_grant_Some(5) [OF r(2)] by auto
qed

lemma grant_view:
  assumes "to_approval_store qu s = (Inr store, s')" "g \<in> set (st_action_grants store)"
  shows "\<exists>m b. file_view (qs_file s) = Some m \<and>
     m (ag_request_id g) = Some (b, LS_APPROVED, Some (ag_scope g), Some (actor_id (ag_operator g))) \<and>
     b = (ag_capability_id g, ag_session_id g, ag_target_id g, ag_provider_id g, ag_params_fingerprint g)"
proof -
  obtain recs r k where r: "load_records (qs_file s) = Inr recs" "dict_get recs (ag_request_id g) = Some r"
    "approved_grant r (qu_now qu k) = Inr (Some g)" using store_grant_from [OF assms] by blast
  note a = approved_grant_Some [OF r(3)]
  show ?thesis using r(1,2) a by (auto simp: file_view_Some queue_view_def entry_of_def)
qed

section \<open>Properties\<close>



text \<open>
  C37 (invariant). A request that was denied, has expired or was consumed stays so whatever
  commands follow, and the queue never hands out a grant for it again.
\<close>

theorem queue_terminal_final:
  assumes "file_view (qs_file s) = Some m" "m i = Some (b, st, sc, who)" "st \<in> {LS_DENIED, LS_EXPIRED, LS_CONSUMED}"
    "to_approval_store qu (run_queue qu cs s) = (Inr store, s')"
  shows "list_all (\<lambda>g. ag_request_id g \<noteq> i) (st_action_grants store) \<and>
    (\<exists>m'. file_view (qs_file (run_queue qu cs s)) = Some m' \<and> m' i = Some (b, st, sc, who))"
proof -
  let ?f = "qs_file (run_queue qu cs s)"
  obtain recs where "load_records ?f = Inr recs"
    using assms(4) by (auto simp: to_approval_store_def list_records_def bind_op_def [of "bind_op load_op _"] split: sum.splits)
  then obtain m' where m': "file_view ?f = Some m'" by (auto simp: file_view_Some)
  have t: "m' i = Some (b, st, sc, who)"
    using abs_run_terminal [OF run_queue_abs [OF assms(1) m'] assms(2,3)] .
  have "ag_request_id g \<noteq> i" if "g \<in> set (st_action_grants store)" for g
    using grant_view [OF assms(4) that] m' t assms(3) by auto
  then show ?thesis using m' t by (simp add: list_all_iff)
qed

text \<open>
  C38 (liveness). Approving a pending request before it expires, as a named operator and for
  a capability that may be resumed, writes the approval into the file, and until the request expires
  the approved record gives exactly the grant for the action the request is bound to.
\<close>

theorem approval_gives_grant:
  assumes "load_records (qs_file s) = Inr recs" "dict_get recs i = Some r" "lr_status r = LS_PENDING" "clock_ok qu"
    "dt_less (qu_now qu (qs_ticks s)) (lr_expires_at r) = Inr True" "operator \<noteq> []"
    "lr_capability_id r \<notin> set RESUMPTION_BLOCKED"
  shows "\<exists>recs' r' response. load_records (qs_file (snd (queue_approve qu i operator scope reason s))) = Inr recs' \<and>
    dict_get recs' i = Some r' \<and>
    (\<forall>later. dt_less later (lr_expires_at r) = Inr True \<longrightarrow> approved_grant r' later = Inr (Some
       \<lparr>ag_request_id = i, ag_response_id = response, ag_capability_id = lr_capability_id r,
        ag_session_id = lr_session_id r, ag_target_id = lr_target_id r, ag_provider_id = lr_provider_id r,
        ag_params_fingerprint = lr_params_fingerprint r, ag_expires_at = lr_expires_at r,
        ag_scope = scope, ag_operator = \<lparr>actor_kind = OPERATOR, actor_id = operator\<rparr>\<rparr>))"
proof -
  let ?now = "qu_now qu (qs_ticks s)" and ?fresh = "qu_uuid qu (Suc (qs_ticks s))"
  let ?r = "approved_form operator scope reason ?now ?fresh r"
  have ok: "all_storable recs" and wf: "wf_records recs" and i: "lr_id r = i"
    using assms(1,2) by (auto dest: load_storable load_records_wf loaded_id)
  have r: "storable r" using ok assms(2) by (force simp: all_storable_def dest: map_of_SomeD)
  have c: "approve_record operator scope reason ?now ?fresh r = Inr ?r"
    using r assms(3-7) by (intro approve_record_exact) (auto simp: clock_ok_def)
  then have "storable ?r" by (rule change_ok)
  then have ok': "all_storable (dict_set i ?r recs)" using ok by (rule all_storable_set [rotated])
  have wf': "wf_records (dict_set i ?r recs)" using wf_dict_set [OF wf, of ?r] i by (simp add: approved_form_def)
  obtain f where f: "saved_file (dict_set i ?r recs) = Inr f" using saved_file_total [OF ok'] by blast
  have "qs_file (snd (queue_approve qu i operator scope reason s)) = f"
    unfolding queue_approve_def
    by (rule decide_saves [where change = "approve_record operator scope reason", OF assms(1,2) c f])
  moreover obtain recs' where "load_records f = Inr recs'" "dict_get recs' i = Some (stored_form ?r)"
    using saved_loads [OF f ok' wf'] by auto
  moreover have "dt_less later (lr_expires_at r) = Inr True \<Longrightarrow> approved_grant (stored_form ?r) later = Inr (Some
       \<lparr>ag_request_id = i, ag_response_id = response_id_for r ?fresh, ag_capability_id = lr_capability_id r,
        ag_session_id = lr_session_id r, ag_target_id = lr_target_id r, ag_provider_id = lr_provider_id r,
        ag_params_fingerprint = lr_params_fingerprint r, ag_expires_at = lr_expires_at r,
        ag_scope = scope, ag_operator = \<lparr>actor_kind = OPERATOR, actor_id = operator\<rparr>\<rparr>)" for later
    using approved_grant_exact [of "stored_form ?r" scope operator "response_id_for r ?fresh" later] assms(6,7) i
    by (simp add: approved_form_def)
  ultimately show ?thesis by blast
qed

lemma unreadable_record:
  assumes "lr_target_id r = []"
  shows "\<exists>e. local_record_from_dict (local_record_to_dict r) = Inl e"
proof (cases "local_record_from_dict (local_record_to_dict r)")
  case (Inr r')
  have "storable r'" using Inr by (rule from_dict_ok)
  moreover have "lr_target_id r' = []" using from_dict_fields(4) [OF Inr] assms by simp
  ultimately show ?thesis by (simp add: storable_def)
qed simp

lemma add_unreadable:
  "r \<in> set rs \<Longrightarrow> lr_target_id r = [] \<Longrightarrow> \<exists>e. add_records (map (\<lambda>r. JObj (local_record_to_dict r)) rs) acc = Inl e"
proof (induction rs arbitrary: acc)
  case (Cons x rs)
  show ?case
  proof (cases "local_record_from_dict (local_record_to_dict x)")
    case (Inr x')
    then have "x \<noteq> r" using unreadable_record Cons.prems(2) by fastforce
    then show ?thesis using Cons Inr by simp
  qed simp
qed simp

lemma saved_unreadable:
  assumes "saved_file recs = Inr f" "(i, r) \<in> set recs" "lr_target_id r = []"
  shows "\<exists>e. load_records f = Inl e"
proof -
  obtain rs where f: "f = QueueDoc (JObj [(''approvals'', JArr (map (JObj \<circ> local_record_to_dict) rs)), (''version'', JStr ''0.1'')])"
    and sorted: "rs = sort_key (\<lambda>r. sort_time (lr_created_at r)) (map snd recs)"
    using assms(1) by (auto simp: saved_file_def sort_records_def bind_res_Inr_iff split: if_splits)
  have "r \<in> set rs" unfolding sorted set_sort set_map using assms(2) by force
  from add_unreadable [OF this assms(3), of "[]"] show ?thesis
    by (simp add: f comp_def load_records_def get_or_def)
qed

lemma run_queue_unreadable:
  assumes "load_records (qs_file s) = Inl e"
  shows "qs_file (run_queue qu cs s) = qs_file s"
proof (induction cs rule: rev_induct)
  case (snoc c cs)
  have "file_view (qs_file (run_queue qu cs s)) = None" using snoc assms by (simp add: file_view_def)
  from unreadable_stays [OF this, of qu c] snoc show ?case by (simp add: run_queue_snoc)
qed (simp add: run_queue_def)

text \<open>
  C39 (error). A result whose first target is the empty string is accepted by the
  queue, and from then on the file cannot be read: every operation raises and no sequence of commands
  changes it again.
\<close>

theorem empty_target_locks_queue:
  assumes "enqueue_mcp_result qu result s = (Inr r, s')" "lr_target_id r = []"
  shows "(\<exists>e. load_records (qs_file s') = Inl e) \<and> qs_file (run_queue qu cs s') = qs_file s' \<and>
    (\<exists>e. fst (queue_approve qu i operator scope reason s') = Inl e) \<and> (\<exists>e. fst (to_approval_store qu s') = Inl e)"
proof -
  obtain recs where l: "load_records (qs_file s) = Inr recs"
    using assms(1) by (auto simp: enqueue_mcp_result_def split: sum.splits)
  have "dict_get recs k \<noteq> Some r" for k
    using load_storable [OF l] assms(2) by (force simp: all_storable_def storable_def dest: map_of_SomeD)
  with assms(1) l have saved: "saved_file (dict_set (lr_id r) r recs) = Inr (qs_file s')"
    by (auto simp: enqueue_mcp_result_def split: sum.splits option.splits)
  have "dict_get (dict_set (lr_id r) r recs) (lr_id r) = Some r" by simp
  from saved_unreadable [OF saved map_of_SomeD [OF this] assms(2)] obtain e where e: "load_records (qs_file s') = Inl e" ..
  then show ?thesis using run_queue_unreadable [OF e]
    by (simp add: queue_approve_def decide_def to_approval_store_def list_records_def bind_op_def [of "bind_op load_op _"])
qed

section \<open>Witnesses\<close>

definition sample_request :: "string \<Rightarrow> jobject" where
  "sample_request target =
     [(''status'', JStr ''approval_required''),
      (''data'', JObj [(''approval_request'', JObj
         [(''id'', JStr ''a1''), (''session_id'', JStr ''s1''), (''provider_id'', JStr ''mock''),
          (''target_scope'', JObj [(''targets'', JArr [JStr target])]),
          (''capability'', JObj [(''id'', JStr ''kvm.power.reset'')]),
          (''policy_decision'', JStr ''ask_each_time''), (''operator_message'', JStr ''reset the machine''),
          (''expires_at'', JStr (isoformat (Aware 100 0)))]),
        (''params_fingerprint'', JStr ''fp'')])]"

definition sample_record :: "string \<Rightarrow> local_record" where
  "sample_record target = make_local_record
     \<lparr>lr_id = ''a1'', lr_status = LS_PENDING, lr_created_at = Aware 0 0, lr_expires_at = Aware 100 0,
      lr_session_id = ''s1'', lr_target_id = target, lr_provider_id = ''mock'',
      lr_capability_id = ''kvm.power.reset'', lr_params_fingerprint = ''fp'', lr_policy_decision = ''ask_each_time'',
      lr_operator_message = ''reset the machine'', lr_material_risks = [],
      lr_request = json_params [(''approval_request'', JObj (object_at (object_at (sample_request target) ''data'') ''approval_request'')),
                                (''params_preview'', JObj [])],
      lr_scope = None, lr_operator_id = None, lr_response_id = None, lr_reason = None,
      lr_decided_at = None, lr_consumed_at = None, lr_redactions = []\<rparr>"

definition sample_queue :: "unit approval_queue" where
  "sample_queue = \<lparr>qu_emit = None, qu_now = (\<lambda>k. Aware 0 0), qu_utcnow = (\<lambda>k. Aware 0 0), qu_uuid = (\<lambda>k. ''x'')\<rparr>"

definition sample_queue_state :: "unit queue_state" where
  "sample_queue_state = \<lparr>qs_file = NoFile, qs_sink = (), qs_ticks = 0\<rparr>"

lemma sample_time [simp]: "queue_datetime (JStr (isoformat (Aware 100 0))) = Inr (Some (Aware 100 0))"
  by (rule queue_datetime_iso) (simp_all add: wall_in_range_def)

lemma sample_message [simp]: "queue_redact_text ''reset the machine'' = ''reset the machine''"
  by code_simp

lemma sample_queued:
  "local_record_from_mcp_result (sample_request target) (Aware 0 0) = Inr (sample_record target)"
  unfolding sample_request_def sample_record_def local_record_from_mcp_result_def
  by (simp add: rget_def get_or_def queue_mapping_def queue_required_str_def queue_text_def queue_strings_def
      object_at_def del: isoformat.simps queue_datetime.simps(2))

lemma sample_storable: "target \<noteq> [] \<Longrightarrow> storable (sample_record target)"
  by (simp add: sample_record_def storable_def wall_in_range_def time_option_ok_def)

lemma sample_named: "target_named (Enqueue (sample_request ''vm''))"
  by (simp add: names_target_def object_at_def sample_request_def rget_def)

text \<open>The file with one record.\<close>

lemma one_record:
  assumes "storable r" "lr_id r = i"
  shows "\<exists>f. saved_file [(i, r)] = Inr f \<and> load_records f = Inr [(i, stored_form r)]"
proof -
  have ok: "all_storable [(i, r)]" using assms by (simp add: all_storable_def)
  obtain f where f: "saved_file [(i, r)] = Inr f" using saved_file_total [OF ok] by blast
  then have "load_records f = Inr [(i, stored_form r)]"
    using assms by (auto simp: saved_file_def sort_records_def load_records_def get_or_def reload bind_res_Inr_iff split: if_splits)
  then show ?thesis using f by blast
qed

lemma sample_record_simps [simp]:
  "lr_id (sample_record t) = ''a1''" "lr_status (sample_record t) = LS_PENDING" "lr_target_id (sample_record t) = t"
  "lr_expires_at (sample_record t) = Aware 100 0" "lr_capability_id (sample_record t) = ''kvm.power.reset''"
  by (simp_all add: sample_record_def)

lemma sample_queue_simps [simp]:
  "qu_emit sample_queue = None" "qu_now sample_queue k = Aware 0 0" "qu_uuid sample_queue k = ''x''"
  "qs_file sample_queue_state = NoFile" "qs_ticks sample_queue_state = 0"
  by (simp_all add: sample_queue_def sample_queue_state_def)

lemma sample_clock: "clock_ok sample_queue"
  by (simp add: clock_ok_def wall_in_range_def)

lemma sample_enqueued:
  "t \<noteq> [] \<Longrightarrow> \<exists>f. load_records f = Inr [(''a1'', stored_form (sample_record t))] \<and>
     enqueue_mcp_result sample_queue (sample_request t) sample_queue_state =
       (Inr (sample_record t), sample_queue_state\<lparr>qs_file := f, qs_ticks := 1\<rparr>)"
  using one_record [OF sample_storable, of t "''a1''"]
  by (auto simp: enqueue_mcp_result_def sample_queued load_records_def)

lemma seq_op_ret: "seq_op (ret ()) n s = n s"
  by (simp add: seq_op_def)

abbreviation (input) sample_approved :: local_record where
  "sample_approved \<equiv> stored_form (approved_form ''op'' ONE_TIME None (Aware 0 0) ''x'' (stored_form (sample_record ''vm'')))"

lemma sample_resumable: "''kvm.power.reset'' \<notin> set RESUMPTION_BLOCKED"
  by code_simp

lemma stored_storable: "storable r \<Longrightarrow> storable (stored_form r)"
  using reload from_dict_ok by blast

lemma sample_approved_run:
  "\<exists>f. load_records f = Inr [(''a1'', sample_approved)] \<and>
     run_queue sample_queue [Enqueue (sample_request ''vm''), Approve ''a1'' ''op'' ONE_TIME None] sample_queue_state
       = sample_queue_state\<lparr>qs_file := f, qs_ticks := 3\<rparr>"
proof -
  let ?r = "stored_form (sample_record ''vm'')" and ?a = "approved_form ''op'' ONE_TIME None (Aware 0 0) ''x''"
  obtain f where f: "load_records f = Inr [(''a1'', ?r)]"
    "enqueue_mcp_result sample_queue (sample_request ''vm'') sample_queue_state =
       (Inr (sample_record ''vm''), sample_queue_state\<lparr>qs_file := f, qs_ticks := 1\<rparr>)"
    using sample_enqueued [of "''vm''"] by auto
  have r: "storable ?r" by (simp add: stored_storable sample_storable)
  have c: "approve_record ''op'' ONE_TIME None (Aware 0 0) ''x'' ?r = Inr (?a ?r)"
    using r sample_resumable by (intro approve_record_exact) (simp_all add: wall_in_range_def)
  then have "storable (?a ?r)" by (rule change_ok)
  from one_record [OF this, of "''a1''"] obtain f' where
    f': "saved_file [(''a1'', ?a ?r)] = Inr f'" "load_records f' = Inr [(''a1'', stored_form (?a ?r))]"
    by (auto simp: approved_form_def)
  have "run_queue sample_queue [Enqueue (sample_request ''vm''), Approve ''a1'' ''op'' ONE_TIME None] sample_queue_state
      = sample_queue_state\<lparr>qs_file := f', qs_ticks := 3\<rparr>"
    using f f' c by (simp add: run_queue_def queue_approve_def decide_def require_record_def emit_decision_event_def
        seq_op_ret numeral_3_eq_3)
  then show ?thesis using f'(2) by blast
qed


definition sample_grant :: action_grant where
  "sample_grant =
     \<lparr>ag_request_id = ''a1'', ag_response_id = ''local-response-a1-x'', ag_capability_id = ''kvm.power.reset'',
      ag_session_id = ''s1'', ag_target_id = ''vm'', ag_provider_id = ''mock'', ag_params_fingerprint = ''fp'',
      ag_expires_at = Aware 100 0, ag_scope = ONE_TIME, ag_operator = \<lparr>actor_kind = OPERATOR, actor_id = ''op''\<rparr>\<rparr>"

lemma sample_store:
  "\<exists>s'. to_approval_store sample_queue (run_queue sample_queue
       [Enqueue (sample_request ''vm''), Approve ''a1'' ''op'' ONE_TIME None] sample_queue_state)
     = (Inr (store_add_action_grant sample_grant empty_store), s')"
proof -
  have "approved_grant sample_approved (Aware 0 0) = Inr (Some sample_grant)"
    using approved_grant_exact [of sample_approved ONE_TIME "''op''" "''local-response-a1-x''" "Aware 0 0"] sample_resumable
    by (simp add: approved_form_def response_id_for_def sample_grant_def sample_record_def)
  then show ?thesis using sample_approved_run
    by (auto simp: to_approval_store_def list_records_def bind_op_def [of "bind_op load_op _"])
qed


theorem approval_gives_grant_witness:
  "\<exists>s recs' r' response. load_records (qs_file (snd (queue_approve sample_queue ''a1'' ''op'' ONE_TIME None s))) = Inr recs' \<and>
     dict_get recs' ''a1'' = Some r' \<and>
     approved_grant r' (Aware 99 0) = Inr (Some (sample_grant\<lparr>ag_response_id := response\<rparr>))"
proof -
  obtain f where f: "load_records f = Inr [(''a1'', stored_form (sample_record ''vm''))]"
    using sample_enqueued [of "''vm''"] by auto
  let ?s = "sample_queue_state\<lparr>qs_file := f\<rparr>"
  have "load_records (qs_file ?s) = Inr [(''a1'', stored_form (sample_record ''vm''))]" using f by simp
  from approval_gives_grant [OF this _ _ sample_clock, of "''a1''" "stored_form (sample_record ''vm'')" "''op''" ONE_TIME None]
    sample_resumable
  obtain recs' r' response where *: "load_records (qs_file (snd (queue_approve sample_queue ''a1'' ''op'' ONE_TIME None ?s))) = Inr recs'"
    "dict_get recs' ''a1'' = Some r'"
    and g: "\<forall>later. dt_less later (Aware 100 0) = Inr True \<longrightarrow> approved_grant r' later = Inr (Some
       \<lparr>ag_request_id = ''a1'', ag_response_id = response, ag_capability_id = ''kvm.power.reset'',
        ag_session_id = ''s1'', ag_target_id = ''vm'', ag_provider_id = ''mock'', ag_params_fingerprint = ''fp'',
        ag_expires_at = Aware 100 0, ag_scope = ONE_TIME, ag_operator = \<lparr>actor_kind = OPERATOR, actor_id = ''op''\<rparr>\<rparr>)"
    by (auto simp: sample_record_def)
  have "approved_grant r' (Aware 99 0) = Inr (Some (sample_grant\<lparr>ag_response_id := response\<rparr>))"
    using g by (simp add: sample_grant_def)
  with * show ?thesis by blast
qed

theorem queue_terminal_final_witness:
  "\<exists>(s :: unit queue_state) b sc who s'. list_all (\<lambda>g. ag_request_id g \<noteq> ''a1'') (st_action_grants empty_store) \<and>
     to_approval_store sample_queue (run_queue sample_queue [Approve ''a1'' ''op'' ONE_TIME None] s) = (Inr empty_store, s') \<and>
     (\<exists>m'. file_view (qs_file (run_queue sample_queue [Approve ''a1'' ''op'' ONE_TIME None] s)) = Some m' \<and>
        m' ''a1'' = Some (b, LS_DENIED, sc, who))"
proof -
  let ?r = "sample_record ''vm''\<lparr>lr_status := LS_DENIED\<rparr>"
  have "storable ?r" using sample_storable [of "''vm''"] by (simp add: storable_def)
  from one_record [OF this, of "''a1''"] obtain f where f: "load_records f = Inr [(''a1'', stored_form ?r)]" by auto
  let ?s = "sample_queue_state\<lparr>qs_file := f\<rparr>"
  have view: "file_view (qs_file ?s) = Some [''a1'' \<mapsto> entry_of (stored_form ?r)]"
    using f by (auto simp: file_view_Some queue_view_def fun_eq_iff)
  have run: "run_queue sample_queue [Approve ''a1'' ''op'' ONE_TIME None] ?s = ?s\<lparr>qs_ticks := 2\<rparr>"
    using f by (simp add: run_queue_def queue_approve_def decide_def require_record_def approve_record_def raise_def numeral_2_eq_2)
  have store: "\<exists>s'. to_approval_store sample_queue (?s\<lparr>qs_ticks := 2\<rparr>) = (Inr empty_store, s')"
    using f by (simp add: to_approval_store_def list_records_def bind_op_def [of "bind_op load_op _"] approved_grant_def)
  then obtain s' where s': "to_approval_store sample_queue (run_queue sample_queue [Approve ''a1'' ''op'' ONE_TIME None] ?s) = (Inr empty_store, s')"
    unfolding run by blast
  have "[''a1'' \<mapsto> entry_of (stored_form ?r)] ''a1'' = Some (record_binding (stored_form ?r), LS_DENIED, lr_scope ?r, lr_operator_id ?r)"
    by (simp add: entry_of_def)
  from queue_terminal_final [OF view this _ s'] s' show ?thesis by blast
qed

theorem empty_target_locks_queue_witness:
  "\<exists>(s' :: unit queue_state) e. load_records (qs_file s') = Inl e \<and>
     s' = snd (enqueue_mcp_result sample_queue (sample_request []) sample_queue_state) \<and>
     qs_file (run_queue sample_queue [Enqueue (sample_request ''vm'')] s') = qs_file s'"
proof -
  obtain f where "saved_file [(''a1'', sample_record [])] = Inr f" by (simp add: saved_file_def sort_records_def)
  then have "enqueue_mcp_result sample_queue (sample_request []) sample_queue_state =
      (Inr (sample_record []), sample_queue_state\<lparr>qs_file := f, qs_ticks := 1\<rparr>)"
    by (simp add: enqueue_mcp_result_def sample_queued load_records_def)
  from empty_target_locks_queue [OF this, of "[Enqueue (sample_request ''vm'')]" "''a1''" "''op''" ONE_TIME None] this
  show ?thesis by auto
qed

end
