(* ===== verification/Registries.thy ===== *)
theory Registries
  imports Providers Approvals
begin

text \<open>
  \<open>providers/registry.py\<close> and \<open>control_plane/targets.py\<close>: the configured providers and targets. A
  provider entry is checked when it is built, a target must name a registered provider, and what the
  outside asks for is resolved through both registries before a control plane sees it. The locale
  \<open>keyed_registry\<close> is the contract of both: nothing registered is ever replaced.
\<close>

section \<open>Identifiers and metadata\<close>

text \<open>\<open>^[a-z0-9][a-z0-9_.:-]{0,127}$\<close>, matched in full\<close>

definition is_id_head :: "char \<Rightarrow> bool" where
  "is_id_head c \<longleftrightarrow> is_ascii_lower c \<or> is_digit c"

definition is_id_char :: "char \<Rightarrow> bool" where
  "is_id_char c \<longleftrightarrow> is_id_head c \<or> c \<in> set ''_.:-''"

definition id_pattern :: "string \<Rightarrow> bool" where
  "id_pattern s = (case s of [] \<Rightarrow> False | c # cs \<Rightarrow> is_id_head c \<and> length cs \<le> 127 \<and> list_all is_id_char cs)"

definition SECRET_KEY_FRAGMENTS :: "string list" where
  "SECRET_KEY_FRAGMENTS =
     [''password'', ''token'', ''api_key'', ''secret'', ''private_key'', ''credential'', ''bearer'', ''session_cookie'']"

definition secret_key :: "string \<Rightarrow> bool" where
  "secret_key k \<longleftrightarrow> list_ex (contains (str_lower k)) SECRET_KEY_FRAGMENTS"

fun contains_secret_key :: "pyval \<Rightarrow> bool" where
  "contains_secret_key (PDict d) \<longleftrightarrow> list_ex (\<lambda>(k, v). secret_key (key_text k) \<or> contains_secret_key v) d"
| "contains_secret_key (PList xs) \<longleftrightarrow> list_ex contains_secret_key xs"
| "contains_secret_key (PTuple xs) \<longleftrightarrow> list_ex contains_secret_key xs"
| "contains_secret_key v \<longleftrightarrow> False"

section \<open>Provider entries\<close>

definition EXECUTABLE_PROVIDER_TYPES :: "string list" where
  "EXECUTABLE_PROVIDER_TYPES = [''mock'']"

definition TEST_FIXTURE_PROVIDER_RISK_CLASSES :: "string list" where
  "TEST_FIXTURE_PROVIDER_RISK_CLASSES = [''test_fake_observe_only'', ''test_fake_clearance_gated'']"

definition PLACEHOLDER_PROVIDER_TYPES :: "string list" where
  "PLACEHOLDER_PROVIDER_TYPES = [''pikvm'', ''redfish'', ''ilo'', ''idrac'', ''ipmi'', ''supermicro'', ''proxmox'']"

definition KNOWN_PROVIDER_TYPES :: "string list" where
  "KNOWN_PROVIDER_TYPES = EXECUTABLE_PROVIDER_TYPES @ PLACEHOLDER_PROVIDER_TYPES"

text \<open>An adapter instance: its class attributes and what it does to the state of the providers.\<close>

record 'p provider_instance =
  pi_info :: adapter_info
  pi_execute :: "provider_request \<Rightarrow> 'p \<Rightarrow> provider_result res \<times> 'p"

record 'p provider_entry =
  pe_id :: string
  pe_type :: string
  pe_enabled :: bool
  pe_provider :: "'p provider_instance option"
  pe_description :: pyval
  pe_metadata :: params

definition is_test_fixture_adapter :: "'p provider_instance option \<Rightarrow> string \<Rightarrow> bool" where
  "is_test_fixture_adapter provider provider_type =
     (case provider of
        None \<Rightarrow> False
      | Some p \<Rightarrow> ad_provider_kind (pi_info p) = provider_type \<and> ad_enabled (pi_info p) \<and>
          \<not> ad_is_real_hardware (pi_info p) \<and> ad_risk_class (pi_info p) \<in> set TEST_FIXTURE_PROVIDER_RISK_CLASSES)"

definition is_executable_entry :: "'p provider_entry \<Rightarrow> bool" where
  "is_executable_entry e \<longleftrightarrow>
     pe_enabled e \<and> pe_provider e \<noteq> None \<and>
     (pe_type e \<in> set EXECUTABLE_PROVIDER_TYPES \<or> is_test_fixture_adapter (pe_provider e) (pe_type e))"

text \<open>\<open>ProviderEntry(...)\<close>: the checks of \<open>__post_init__\<close> in their order.\<close>

definition make_provider_entry :: "'p provider_entry \<Rightarrow> 'p provider_entry res" where
  "make_provider_entry e =
     (let provider_id = str_strip (pe_id e); provider_type = str_lower (str_strip (pe_type e));
          runnable = provider_type \<in> set EXECUTABLE_PROVIDER_TYPES \<or> is_test_fixture_adapter (pe_provider e) provider_type;
          not_executable = raise ProviderRegistryError (''Provider type '' @ provider_type @ '' is not executable in this lane'')
      in if \<not> id_pattern provider_id
         then raise ProviderRegistryError (''Invalid provider id: '' @ py_repr False (pe_id e))
         else if provider_type \<notin> set KNOWN_PROVIDER_TYPES
         then raise ProviderRegistryError (''Unknown provider type: '' @ pe_type e)
         else if contains_secret_key (pdict (pe_metadata e))
         then raise ProviderRegistryError ''Provider metadata must not contain secrets''
         else if pe_enabled e \<and> \<not> runnable then not_executable
         else (case pe_provider e of
            None \<Rightarrow>
              if pe_enabled e then raise ProviderRegistryError ''Enabled providers require an adapter instance''
              else Inr (e\<lparr>pe_id := provider_id, pe_type := provider_type\<rparr>)
          | Some p \<Rightarrow>
              if ad_provider_id (pi_info p) \<noteq> provider_id
              then raise ProviderRegistryError ''Provider adapter id does not match configured provider id''
              else if ad_provider_kind (pi_info p) \<noteq> provider_type
              then raise ProviderRegistryError ''Provider adapter type does not match configured provider type''
              else if \<not> runnable then not_executable
              else Inr (e\<lparr>pe_id := provider_id, pe_type := provider_type\<rparr>)))"

section \<open>The provider registry\<close>

type_synonym 'p provider_registry = "(string, 'p provider_entry) dict"

definition register_provider :: "'p provider_entry \<Rightarrow> 'p provider_registry \<Rightarrow> 'p provider_registry res" where
  "register_provider e reg =
     (if dict_has reg (pe_id e) then raise ProviderRegistryError (''Duplicate provider id: '' @ pe_id e)
      else Inr (dict_set (pe_id e) e reg))"

text \<open>Registering in turn; the first error ends the constructor.\<close>

fun fold_res :: "('x \<Rightarrow> 'r \<Rightarrow> 'r res) \<Rightarrow> 'x list \<Rightarrow> 'r \<Rightarrow> 'r res" where
  "fold_res f [] r = Inr r"
| "fold_res f (x # xs) r = bind_res (f x r) (fold_res f xs)"

definition new_provider_registry :: "'p provider_entry list \<Rightarrow> 'p provider_registry res" where
  "new_provider_registry es = fold_res register_provider es []"

definition mock_instance :: "mock_provider provider_instance" where
  "mock_instance = \<lparr>pi_info = mock_info, pi_execute = mock_execute\<rparr>"

definition mock_only :: "string \<Rightarrow> mock_provider provider_registry res" where
  "mock_only provider_id =
     bind_res (make_provider_entry
       \<lparr>pe_id = provider_id, pe_type = ''mock'', pe_enabled = True, pe_provider = Some mock_instance,
        pe_description = PStr ''Safe in-memory mock provider'', pe_metadata = []\<rparr>) (\<lambda>e.
     new_provider_registry [e])"

definition sorted_values :: "(string, 'x) dict \<Rightarrow> 'x list" where
  "sorted_values d = List.map_filter (dict_get d) (sort (map fst d))"

definition list_providers :: "'p provider_registry \<Rightarrow> 'p provider_entry list" where
  "list_providers reg = sorted_values reg"

definition provider_summary :: "'p provider_entry \<Rightarrow> params" where
  "provider_summary e =
     [(''id'', PStr (pe_id e)), (''type'', PStr (pe_type e)), (''enabled'', PBool (pe_enabled e)),
      (''executable'', PBool (is_executable_entry e)), (''description'', pe_description e)]"

definition list_provider_summaries :: "'p provider_registry \<Rightarrow> params list" where
  "list_provider_summaries reg = map provider_summary (list_providers reg)"

definition require_provider :: "'p provider_registry \<Rightarrow> string \<Rightarrow> 'p provider_entry res" where
  "require_provider reg provider_id =
     (case dict_get reg provider_id of
        Some e \<Rightarrow> Inr e | None \<Rightarrow> raise ProviderRegistryError (''Unknown provider id: '' @ provider_id))"

definition validate_provider_type :: "'p provider_registry \<Rightarrow> string \<Rightarrow> string \<Rightarrow> 'p provider_entry res" where
  "validate_provider_type reg provider_id provider_type =
     bind_res (require_provider reg provider_id) (\<lambda>e.
       if pe_type e \<noteq> str_lower (str_strip provider_type)
       then raise ProviderRegistryError (''Provider '' @ provider_id @ '' is not type '' @ provider_type)
       else Inr e)"

definition resolve_enabled_provider :: "'p provider_registry \<Rightarrow> string \<Rightarrow> 'p provider_instance res" where
  "resolve_enabled_provider reg provider_id =
     bind_res (require_provider reg provider_id) (\<lambda>e.
       if \<not> pe_enabled e then raise ProviderRegistryError (''Provider is disabled: '' @ provider_id)
       else if \<not> is_executable_entry e
       then raise ProviderRegistryError (''Provider type '' @ pe_type e @ '' is not executable'')
       else (case pe_provider e of
               None \<Rightarrow> raise ProviderRegistryError (''Provider has no executable adapter: '' @ provider_id)
             | Some p \<Rightarrow> Inr p))"

section \<open>Targets\<close>

text \<open>The modes are given as text; \<open>td_modes\<close> holds them once they are normalised.\<close>

record target_definition =
  td_id :: string
  td_provider_id :: string
  td_enabled :: bool
  td_name :: pyval
  td_environment :: pyval
  td_labels :: "string list"
  td_risk_tier :: string
  td_raw_modes :: "string list"
  td_default_policy :: pyval
  td_metadata :: params
  td_modes :: "control_mode list"

definition make_target :: "target_definition \<Rightarrow> target_definition res" where
  "make_target t =
     (if \<not> id_pattern (str_strip (td_id t))
      then raise TargetRegistryError (''Invalid target id: '' @ py_repr False (td_id t))
      else if str_strip (td_provider_id t) = [] then raise TargetRegistryError ''Target provider id is required''
      else if contains_secret_key (pdict (td_metadata t))
      then raise TargetRegistryError ''Target metadata must not contain secrets''
      else bind_res (map_res normalize_control_mode (td_raw_modes t)) (\<lambda>modes.
        Inr (t\<lparr>td_id := str_strip (td_id t), td_provider_id := str_strip (td_provider_id t), td_modes := remdups modes\<rparr>)))"

definition allows_mode :: "target_definition \<Rightarrow> string \<Rightarrow> bool res" where
  "allows_mode t mode =
     (if td_modes t = [] then Inr True
      else bind_res (normalize_control_mode mode) (\<lambda>m. Inr (m \<in> set (td_modes t))))"

record 'p target_registry =
  tr_providers :: "'p provider_registry"
  tr_targets :: "(string, target_definition) dict"

text \<open>\<open>except ValueError as exc: raise TargetRegistryError(...)\<close>\<close>

definition reraise_value :: "exn_class \<Rightarrow> string \<Rightarrow> 'x res \<Rightarrow> 'x res" where
  "reraise_value c m r = (case r of Inl e \<Rightarrow> (if is_value_error e then raise c m else Inl e) | Inr x \<Rightarrow> Inr x)"

definition register_target :: "target_definition \<Rightarrow> 'p target_registry \<Rightarrow> 'p target_registry res" where
  "register_target t reg =
     (if dict_has (tr_targets reg) (td_id t) then raise TargetRegistryError (''Duplicate target id: '' @ td_id t)
      else bind_res (reraise_value TargetRegistryError
          (''Target '' @ td_id t @ '' references unknown provider '' @ td_provider_id t)
          (require_provider (tr_providers reg) (td_provider_id t))) (\<lambda>e.
        Inr (reg\<lparr>tr_targets := dict_set (td_id t) t (tr_targets reg)\<rparr>)))"

definition new_target_registry :: "'p provider_registry \<Rightarrow> target_definition list \<Rightarrow> 'p target_registry res" where
  "new_target_registry providers ts = fold_res register_target ts \<lparr>tr_providers = providers, tr_targets = []\<rparr>"

definition target_summary :: "target_definition \<Rightarrow> params" where
  "target_summary t =
     [(''id'', PStr (td_id t)), (''provider'', PStr (td_provider_id t)), (''enabled'', PBool (td_enabled t)),
      (''name'', td_name t), (''environment'', td_environment t), (''labels'', pystrs (td_labels t)),
      (''risk_tier'', PStr (td_risk_tier t)), (''allowed_modes'', pystrs (sort (map mode_value (td_modes t))))]"

definition list_targets :: "'p target_registry \<Rightarrow> target_definition list" where
  "list_targets reg = sorted_values (tr_targets reg)"

definition list_target_summaries :: "'p target_registry \<Rightarrow> params list" where
  "list_target_summaries reg = map target_summary (list_targets reg)"

definition require_target :: "'p target_registry \<Rightarrow> string \<Rightarrow> target_definition res" where
  "require_target reg target_id =
     (case dict_get (tr_targets reg) target_id of
        Some t \<Rightarrow> Inr t | None \<Rightarrow> raise TargetRegistryError (''Unknown target id: '' @ target_id))"

definition validate_mode_allowed :: "'p target_registry \<Rightarrow> string \<Rightarrow> string \<Rightarrow> target_definition res" where
  "validate_mode_allowed reg target_id mode =
     bind_res (require_target reg target_id) (\<lambda>t.
     bind_res (allows_mode t mode) (\<lambda>ok.
       if ok then Inr t
       else bind_res (normalize_control_mode mode) (\<lambda>m.
         raise TargetRegistryError (''Target '' @ target_id @ '' does not allow mode '' @ mode_value m))))"

definition resolve_enabled_target :: "'p target_registry \<Rightarrow> string \<Rightarrow> string option \<Rightarrow> target_definition res" where
  "resolve_enabled_target reg target_id mode =
     bind_res (require_target reg target_id) (\<lambda>t.
     if \<not> td_enabled t then raise TargetRegistryError (''Target is disabled: '' @ target_id)
     else
       bind_res (reraise_value TargetRegistryError
         (''Target '' @ target_id @ '' references non-executable provider '' @ td_provider_id t)
         (resolve_enabled_provider (tr_providers reg) (td_provider_id t))) (\<lambda>p.
       case mode of
         None \<Rightarrow> Inr t
       | Some m \<Rightarrow> bind_res (validate_mode_allowed reg target_id m) (\<lambda>u. Inr t)))"

definition validate_provider_match :: "'p target_registry \<Rightarrow> string \<Rightarrow> string \<Rightarrow> target_definition res" where
  "validate_provider_match reg target_id provider_id =
     bind_res (require_target reg target_id) (\<lambda>t.
       if td_provider_id t \<noteq> provider_id
       then raise TargetRegistryError (''Target '' @ target_id @ '' is configured for provider '' @ td_provider_id t)
       else Inr t)"

section \<open>What a registry promises\<close>

text \<open>
  A registry answers under a key what was registered under it, refuses a second registration, and
  registering changes no other answer.
\<close>

locale keyed_registry =
  fixes get :: "'r \<Rightarrow> string \<Rightarrow> 'x option" and register :: "'x \<Rightarrow> 'r \<Rightarrow> 'r res" and key :: "'x \<Rightarrow> string"
  assumes register_get: "register x r = Inr r' \<Longrightarrow> get r' k = (if k = key x then Some x else get r k)"
    and register_fresh: "register x r = Inr r' \<Longrightarrow> get r (key x) = None"
begin

lemma registered_stays: "register x r = Inr r' \<Longrightarrow> get r k = Some y \<Longrightarrow> get r' k = Some y"
  using register_get register_fresh by fastforce

lemma fold_stays: "fold_res register xs r = Inr r' \<Longrightarrow> get r k = Some y \<Longrightarrow> get r' k = Some y"
  by (induction xs arbitrary: r) (auto simp: bind_res_Inr_iff dest: registered_stays)

text \<open>After the constructor: exactly the given entries, each under its key.\<close>

lemma fold_get:
  "fold_res register xs r = Inr r' \<Longrightarrow> get r' k = Some y \<longleftrightarrow> get r k = Some y \<or> y \<in> set xs \<and> key y = k"
proof (induction xs arbitrary: r)
  case (Cons x xs)
  then obtain r1 where r1: "register x r = Inr r1" "fold_res register xs r1 = Inr r'" by (auto simp: bind_res_Inr_iff)
  show ?case using Cons.IH [OF r1(2)] register_get [OF r1(1)] register_fresh [OF r1(1)] by auto
qed simp

lemma fold_distinct:
  "fold_res register xs r = Inr r' \<Longrightarrow> distinct (map key xs) \<and> (\<forall>x \<in> set xs. get r (key x) = None)"
proof (induction xs arbitrary: r)
  case (Cons x xs)
  then obtain r1 where r1: "register x r = Inr r1" "fold_res register xs r1 = Inr r'" by (auto simp: bind_res_Inr_iff)
  note h = Cons.IH [OF r1(2)]
  have fresh: "get r (key x) = None" using r1(1) by (rule register_fresh)
  have "get r1 (key x) = Some x" using register_get [OF r1(1)] by simp
  then have "key x \<notin> key ` set xs" using h by fastforce
  moreover have "\<forall>y \<in> set xs. get r (key y) = None" using h register_get [OF r1(1)] by (auto split: if_splits)
  ultimately show ?case using h fresh by simp
qed simp

end

interpretation provider_reg: keyed_registry dict_get register_provider pe_id
  by unfold_locales (auto simp: register_provider_def split: if_splits)

interpretation target_reg: keyed_registry "\<lambda>r. dict_get (tr_targets r)" register_target td_id
  by unfold_locales (auto simp: register_target_def bind_res_Inr_iff split: if_splits)

section \<open>Resolving\<close>

lemma require_provider_Inr: "require_provider reg i = Inr e \<longleftrightarrow> dict_get reg i = Some e"
  by (simp add: require_provider_def split: option.split)

lemma require_target_Inr: "require_target reg i = Inr t \<longleftrightarrow> dict_get (tr_targets reg) i = Some t"
  by (simp add: require_target_def split: option.split)

lemma reraise_value_Inr [simp]: "reraise_value c m r = Inr x \<longleftrightarrow> r = Inr x"
  by (simp add: reraise_value_def raise_def split: sum.split)

lemma resolve_enabled_provider_Inr:
  "resolve_enabled_provider reg i = Inr p \<longleftrightarrow>
     (\<exists>e. dict_get reg i = Some e \<and> pe_enabled e \<and> is_executable_entry e \<and> pe_provider e = Some p)"
  by (auto simp: resolve_enabled_provider_def bind_res_Inr_iff require_provider_Inr is_executable_entry_def split: option.splits)

lemma resolve_enabled_target_Inr:
  "resolve_enabled_target reg i mode = Inr t \<longleftrightarrow>
     dict_get (tr_targets reg) i = Some t \<and> td_enabled t \<and>
     (\<exists>p. resolve_enabled_provider (tr_providers reg) (td_provider_id t) = Inr p) \<and>
     (\<forall>m. mode = Some m \<longrightarrow> allows_mode t m = Inr True)"
proof -
  have mode: "(\<exists>u. validate_mode_allowed reg i m = Inr u) \<longleftrightarrow> allows_mode t m = Inr True"
    if "dict_get (tr_targets reg) i = Some t" for m
    using that by (auto simp: validate_mode_allowed_def bind_res_Inr_iff require_target_def split: if_splits)
  show ?thesis
    using mode by (cases mode) (auto simp: resolve_enabled_target_def bind_res_Inr_iff require_target_Inr)
qed

text \<open>An entry that was built: its id is well-formed, its adapter is its own, and it runs only if it may.\<close>

lemma make_provider_entry_Inr:
  assumes "make_provider_entry e = Inr e'"
  shows "id_pattern (pe_id e')" "pe_type e' \<in> set KNOWN_PROVIDER_TYPES" "\<not> contains_secret_key (pdict (pe_metadata e'))"
    "pe_enabled e' \<Longrightarrow> is_executable_entry e'"
    "pe_provider e' = Some p \<Longrightarrow> ad_provider_id (pi_info p) = pe_id e' \<and> ad_provider_kind (pi_info p) = pe_type e' \<and>
      (ad_is_real_hardware (pi_info p) \<longrightarrow> pe_type e' \<in> set EXECUTABLE_PROVIDER_TYPES)"
  using assms
  by (auto simp: make_provider_entry_def Let_def is_executable_entry_def is_test_fixture_adapter_def
      split: if_splits option.splits)

definition checked_registry :: "'p provider_registry \<Rightarrow> bool" where
  "checked_registry reg \<longleftrightarrow> (\<forall>i e. dict_get reg i = Some e \<longrightarrow> pe_id e = i \<and> (\<exists>raw. make_provider_entry raw = Inr e))"

lemma new_registry_checked:
  assumes "map_res make_provider_entry raw = Inr es" "new_provider_registry es = Inr reg"
  shows "checked_registry reg"
proof -
  have "\<exists>r. make_provider_entry r = Inr e" if "e \<in> set es" for e
    using assms(1) that by (auto simp: map_res_Inr_iff list_all2_conv_all_nth in_set_conv_nth)
  then show ?thesis
    using provider_reg.fold_get [OF assms(2) [unfolded new_provider_registry_def]] by (auto simp: checked_registry_def)
qed

lemma checked_resolved:
  assumes "checked_registry reg" "resolve_enabled_provider reg i = Inr p"
  shows "ad_provider_id (pi_info p) = i" "ad_provider_kind (pi_info p) \<in> set KNOWN_PROVIDER_TYPES"
    "ad_is_real_hardware (pi_info p) \<Longrightarrow> ad_provider_kind (pi_info p) = ''mock''"
proof -
  obtain e where e: "dict_get reg i = Some e" "pe_provider e = Some p"
    using assms(2) by (auto simp: resolve_enabled_provider_Inr)
  then obtain raw where raw: "make_provider_entry raw = Inr e" and i: "pe_id e = i"
    using assms(1) by (auto simp: checked_registry_def)
  note m = make_provider_entry_Inr(2) [OF raw] make_provider_entry_Inr(5) [OF raw e(2)]
  show "ad_provider_id (pi_info p) = i" "ad_provider_kind (pi_info p) \<in> set KNOWN_PROVIDER_TYPES"
    "ad_is_real_hardware (pi_info p) \<Longrightarrow> ad_provider_kind (pi_info p) = ''mock''"
    using m i by (auto simp: EXECUTABLE_PROVIDER_TYPES_def)
qed

end
