(* ===== verification/McpTools.thy ===== *)
theory McpTools
  imports Registries Engine
begin

text \<open>
  \<open>mcp/registry.py\<close> and \<open>mcp/models.py\<close>: the tools an agent can call and the capability each stands
  for, the requests and results of the tool interface, and the translation of a control plane's
  result. Whatever a provider returned is redacted once more before it leaves.
\<close>

section \<open>Tools\<close>

record mcp_tool_definition =
  tool_name :: string
  tool_capability_id :: string
  tool_description :: string
  tool_dangerous :: bool

definition mcp_tool :: "string \<Rightarrow> string \<Rightarrow> string \<Rightarrow> bool \<Rightarrow> mcp_tool_definition" where
  "mcp_tool name capability description dangerous =
     \<lparr>tool_name = name, tool_capability_id = capability, tool_description = description, tool_dangerous = dangerous\<rparr>"

type_synonym mcp_tool_registry = "(string, mcp_tool_definition) dict"

definition register_tool :: "registry \<Rightarrow> mcp_tool_definition \<Rightarrow> mcp_tool_registry \<Rightarrow> mcp_tool_registry res" where
  "register_tool capabilities t reg =
     (if dict_has reg (tool_name t) then raise ValueError (''Duplicate MCP tool name: '' @ tool_name t)
      else if registry_get capabilities (tool_capability_id t) = None
      then raise ValueError (''MCP tool '' @ tool_name t @ '' maps to unknown capability '' @ tool_capability_id t)
      else Inr (dict_set (tool_name t) t reg))"

definition new_tool_registry :: "registry \<Rightarrow> mcp_tool_definition list \<Rightarrow> mcp_tool_registry res" where
  "new_tool_registry capabilities tools = fold_res (register_tool capabilities) tools []"

definition capability_for_tool :: "mcp_tool_registry \<Rightarrow> string \<Rightarrow> string option" where
  "capability_for_tool reg name = map_option tool_capability_id (dict_get reg name)"

definition DEFAULT_MCP_TOOLS :: "mcp_tool_definition list" where
  "DEFAULT_MCP_TOOLS =
   [
    mcp_tool ''observe_screen'' ''observe.screenshot'' ''Observe the current screen through the control plane.'' False,
    mcp_tool ''get_status'' ''observe.status'' ''Read a provider-neutral target status summary.'' False,
    mcp_tool ''get_power_state'' ''observe.power_state'' ''Read target power state.'' False,
    mcp_tool ''get_hardware_inventory'' ''observe.hardware_inventory'' ''Read non-secret hardware inventory.'' False,
    mcp_tool ''get_sensors'' ''observe.sensors'' ''Read sensor summary.'' False,
    mcp_tool ''get_event_logs'' ''observe.event_logs'' ''Read event log summary.'' False,
    mcp_tool ''get_boot_status'' ''observe.boot_status'' ''Read boot status.'' False,
    mcp_tool ''request_clearance'' ''runtime.request_clearance'' ''Request ACT clearance without granting clearance.'' False,
    mcp_tool ''deny_clearance'' ''runtime.deny_clearance'' ''Deny an ACT clearance request without granting clearance.'' False,
    mcp_tool ''power_on'' ''power.on'' ''Power on an in-scope target.'' True,
    mcp_tool ''power_off'' ''power.force_off'' ''Force power off for an in-scope target.'' True,
    mcp_tool ''power_cycle'' ''power.power_cycle'' ''Power-cycle an in-scope target.'' True,
    mcp_tool ''power_reset'' ''power.reset'' ''Trigger an ATX reset for an in-scope target.'' True,
    mcp_tool ''graceful_restart'' ''power.graceful_restart'' ''Request an orderly restart.'' True,
    mcp_tool ''force_restart'' ''power.force_restart'' ''Force an immediate restart.'' True,
    mcp_tool ''mount_media'' ''media.mount_approved_iso'' ''Mount pre-approved virtual media.'' True,
    mcp_tool ''change_boot_order'' ''boot.override'' ''Set a boot override.'' True,
    mcp_tool ''type_text'' ''input.keyboard_type'' ''Type text through a remote input device.'' True,
    mcp_tool ''mouse_move'' ''input.mouse_move'' ''Move the mouse through a remote input device.'' True,
    mcp_tool ''mouse_click'' ''input.mouse_click'' ''Click the mouse through a remote input device.'' True,
    mcp_tool ''modify_policy'' ''session.modify_policy'' ''Attempt to modify active policy.'' True,
    mcp_tool ''reveal_secret'' ''secrets.raw_reveal'' ''Attempt to reveal raw secret material.'' True]"

interpretation tool_reg: keyed_registry dict_get "register_tool capabilities" tool_name for capabilities
  by unfold_locales (auto simp: register_tool_def split: if_splits)

lemma tool_capability_known:
  "fold_res (register_tool capabilities) ts reg = Inr reg' \<Longrightarrow>
   \<forall>t \<in> set ts. registry_get capabilities (tool_capability_id t) \<noteq> None"
  by (induction ts arbitrary: reg) (auto simp: bind_res_Inr_iff register_tool_def split: if_splits)

section \<open>Requests and results\<close>

datatype mcp_status = MCP_OK | MCP_DENIED | MCP_APPROVAL_REQUIRED | MCP_CLEARANCE_REQUIRED
  | MCP_VALIDATION_ERROR | MCP_PROVIDER_ERROR | MCP_POLICY_ERROR

fun mcp_status_value :: "mcp_status \<Rightarrow> string" where
  "mcp_status_value MCP_OK = ''ok''"
| "mcp_status_value MCP_DENIED = ''denied''"
| "mcp_status_value MCP_APPROVAL_REQUIRED = ''approval_required''"
| "mcp_status_value MCP_CLEARANCE_REQUIRED = ''clearance_required''"
| "mcp_status_value MCP_VALIDATION_ERROR = ''validation_error''"
| "mcp_status_value MCP_PROVIDER_ERROR = ''provider_error''"
| "mcp_status_value MCP_POLICY_ERROR = ''policy_error''"

record mcp_request =
  mt_tool_name :: string
  mt_target :: string
  mt_session_id :: string
  mt_requester_id :: string
  mt_params :: params
  mt_provider :: "string option"
  mt_requested_mode :: "string option"
  mt_policy_ref :: "string option"
  mt_approval_context :: params
  mt_correlation_id :: "string option"

definition make_mcp_request :: "mcp_request \<Rightarrow> mcp_request res" where
  "make_mcp_request r =
     (if mt_tool_name r = [] then raise ValueError ''MCP tool name is required''
      else if mt_target r = [] then raise ValueError ''MCP target is required''
      else if mt_session_id r = [] then raise ValueError ''MCP session_id is required''
      else if mt_requester_id r = [] then raise ValueError ''MCP requester_id is required''
      else Inr r)"

record mcp_result =
  mr_status :: mcp_status
  mr_tool_name :: string
  mr_capability :: "string option"
  mr_target :: string
  mr_provider :: string
  mr_reason :: string
  mr_data :: params
  mr_approval_request_id :: "string option"
  mr_risks :: "string list"
  mr_redactions :: "string list"

text \<open>A result with the defaults of the dataclass.\<close>

definition mcp_result ::
    "mcp_status \<Rightarrow> mcp_request \<Rightarrow> string option \<Rightarrow> string \<Rightarrow> string \<Rightarrow> mcp_result" where
  "mcp_result status r capability provider reason =
     \<lparr>mr_status = status, mr_tool_name = mt_tool_name r, mr_capability = capability, mr_target = mt_target r,
      mr_provider = provider, mr_reason = reason, mr_data = [], mr_approval_request_id = None,
      mr_risks = [], mr_redactions = []\<rparr>"

definition mcp_result_to_dict :: "mcp_result \<Rightarrow> params" where
  "mcp_result_to_dict m =
     [(''status'', PStr (mcp_status_value (mr_status m))), (''tool_name'', PStr (mr_tool_name m)),
      (''capability'', pyopt (mr_capability m)), (''target'', PStr (mr_target m)),
      (''provider'', PStr (mr_provider m)), (''reason'', PStr (mr_reason m)), (''data'', pdict (mr_data m)),
      (''risks'', pystrs (mr_risks m)), (''redactions'', pystrs (mr_redactions m))] @
     (case mr_approval_request_id m of None \<Rightarrow> [] | Some i \<Rightarrow> [(''approval_request_id'', PStr i)])"

section \<open>Translating a result\<close>

definition provider_data :: "plane_result \<Rightarrow> params" where
  "provider_data x =
     [(''provider_result'', pdict (case cpr_provider_result x of None \<Rightarrow> [] | Some p \<Rightarrow> normalized p))]"

definition mcp_result_from_control_plane ::
    "(string \<Rightarrow> string) \<Rightarrow> mcp_request \<Rightarrow> string \<Rightarrow> string \<Rightarrow> plane_result \<Rightarrow> mcp_result res" where
  "mcp_result_from_control_plane H r capability_id provider_id x =
     (let base = (\<lambda>status reason. (mcp_result status r (Some capability_id) provider_id reason)
                    \<lparr>mr_risks := pr_material_risks (cpr_decision x)\<rparr>);
          (preview, redactions) = redact_mapping None (mt_params r);
          (safe_data, data_redactions) = redact_mapping None (provider_data x);
          decision = PStr (decision_value (pr_decision (cpr_decision x)))
      in case cpr_status x of
           CP_DENIED \<Rightarrow> Inr (base MCP_DENIED (pr_reason (cpr_decision x)))
         | CLEARANCE_NEEDED \<Rightarrow>
             bind_res (fingerprint_parameters H (mt_params r)) (\<lambda>fingerprint.
             Inr ((base MCP_CLEARANCE_REQUIRED (cpr_message x))
               \<lparr>mr_data :=
                  [(''clearance_request'', pdict (case cpr_clearance_request x of None \<Rightarrow> [] | Some q \<Rightarrow> clearance_request_to_dict q)),
                   (''params_preview'', pdict preview), (''params_fingerprint'', PStr fingerprint),
                   (''policy_decision'', decision),
                   (''retry_guidance'', PStr ''Surface this code to the operator and retry with identical parameters after approval.'')],
                mr_approval_request_id := map_option cq_request_id (cpr_clearance_request x),
                mr_redactions := prefixed ''params'' redactions\<rparr>))
         | APPROVAL_NEEDED \<Rightarrow>
             bind_res (fingerprint_parameters H (mt_params r)) (\<lambda>fingerprint.
             Inr ((base MCP_APPROVAL_REQUIRED (cpr_message x))
               \<lparr>mr_data :=
                  [(''approval_request'', pdict (case cpr_approval_request x of None \<Rightarrow> [] | Some a \<Rightarrow> request_to_dict a)),
                   (''params_preview'', pdict preview), (''params_fingerprint'', PStr fingerprint),
                   (''policy_decision'', decision)],
                mr_approval_request_id := map_option ar_id (cpr_approval_request x),
                mr_redactions := prefixed ''params'' redactions\<rparr>))
         | FAILED \<Rightarrow>
             Inr ((base MCP_PROVIDER_ERROR (cpr_message x))
               \<lparr>mr_data := safe_data, mr_redactions := prefixed ''data'' data_redactions\<rparr>)
         | COMPLETED \<Rightarrow>
             Inr ((base MCP_OK (cpr_message x))
               \<lparr>mr_data := safe_data, mr_redactions := prefixed ''data'' data_redactions\<rparr>))"

lemma mcp_result_status:
  assumes "mcp_result_from_control_plane H r c p x = Inr m"
  shows "mr_status m = MCP_OK \<longleftrightarrow> cpr_status x = COMPLETED"
    "mr_status m = MCP_DENIED \<longleftrightarrow> cpr_status x = CP_DENIED"
    "mr_target m = mt_target r \<and> mr_tool_name m = mt_tool_name r \<and> mr_capability m = Some c \<and> mr_provider m = p"
  using assms
  by (auto simp: mcp_result_from_control_plane_def mcp_result_def Let_def bind_res_Inr_iff
      split: prod.splits control_plane_status.splits)

end
