(* ===== verification/McpRouter.thy ===== *)
theory McpRouter
  imports McpTools
begin

text \<open>
  \<open>mcp/router.py\<close>: \<open>MCPRouter.handle_tool_request\<close>, the path from a tool call of an agent to a control
  plane. The router keeps what a control plane is built from as a template and fills in the provider
  that the target's registry entry names; the state is the world of the engine.
\<close>

record ('a, 'p, 'c) mcp_router =
  rt_providers :: "'p provider_registry"
  rt_targets :: "'p target_registry"
  rt_tools :: mcp_tool_registry
  rt_channel :: raw_channel
  rt_plane :: "('a, 'p, 'c) plane"

definition rt_capabilities :: "('a, 'p, 'c) mcp_router \<Rightarrow> registry" where
  "rt_capabilities rt = pl_registry (rt_plane rt)"

text \<open>\<open>_credential_id_from_request\<close>\<close>

definition text_param :: "params \<Rightarrow> string \<Rightarrow> string option" where
  "text_param d k = (case dict_get d k of Some (PStr s) \<Rightarrow> if s = [] then None else Some s | _ \<Rightarrow> None)"

definition credential_id_from_request :: "mcp_request \<Rightarrow> string option" where
  "credential_id_from_request r =
     (case text_param (mt_approval_context r) ''credential_id'' of
        Some c \<Rightarrow> Some c | None \<Rightarrow> text_param (mt_params r) ''credential_id'')"

definition request_correlation :: "mcp_request \<Rightarrow> string" where
  "request_correlation r = text_or (mt_correlation_id r) (''mcp:'' @ mt_tool_name r)"

text \<open>\<open>_audit_validation_error\<close>: one event on the safe capability \<open>runtime.noop\<close>.\<close>

definition audit_validation_error ::
    "('a, 'p, 'c) mcp_router \<Rightarrow> mcp_request \<Rightarrow> string \<Rightarrow> (('a, 'p, 'c) world, unit) op" where
  "audit_validation_error rt r reason =
     bind_op (lift_res (make_actor AGENT (mt_requester_id r))) (\<lambda>who.
     bind_op (lift_res (registry_require (rt_capabilities rt) ''runtime.noop'')) (\<lambda>c.
     bind_op (tick (pl_uuid (rt_plane rt))) (\<lambda>new_id.
     bind_op (tick (pl_utcnow (rt_plane rt))) (\<lambda>now.
     bind_op (lift_res (build_audit_event new_id now RESULT_RETURNED (request_correlation r) (mt_session_id r) who
        (ref_of_capability c) DENY (Some (mt_target r))
        (Some [(''tool_name'', PStr (mt_tool_name r)), (''params'', pdict (mt_params r))])
        (Some [(''status'', PStr (plane_status_value CP_DENIED)), (''reason'', PStr reason)]) []))
       (sink_emit (rt_plane rt))))))"

definition validation_failure ::
    "('a, 'p, 'c) mcp_router \<Rightarrow> mcp_request \<Rightarrow> mcp_status \<Rightarrow> string option \<Rightarrow> string \<Rightarrow> string \<Rightarrow> string \<Rightarrow>
     (('a, 'p, 'c) world, mcp_result) op" where
  "validation_failure rt r status capability provider audited reason =
     seq_op (audit_validation_error rt r audited) (ret (mcp_result status r capability provider reason))"

text \<open>\<open>try: ... except C as exc\<close>, for one class of exceptions.\<close>

definition except_class ::
    "exn_class \<Rightarrow> 'x res \<Rightarrow> (string \<Rightarrow> ('s, 'b) op) \<Rightarrow> ('x \<Rightarrow> ('s, 'b) op) \<Rightarrow> ('s, 'b) op" where
  "except_class c r handler k =
     (case r of Inr x \<Rightarrow> k x
      | Inl e \<Rightarrow> if exn_class_of e = c then handler (exn_text e) else lift_res (Inl e))"

definition plane_for :: "('a, 'p, 'c) mcp_router \<Rightarrow> 'p provider_instance \<Rightarrow> ('a, 'p, 'c) plane res" where
  "plane_for rt p =
     make_plane (rt_channel rt)
       ((rt_plane rt)\<lparr>pl_provider := pi_info p, pl_execute := pi_execute p, pl_grant_verifier := None\<rparr>)"

definition request_for :: "mcp_request \<Rightarrow> mcp_tool_definition \<Rightarrow> actor \<Rightarrow> capability_request" where
  "request_for r t who =
     \<lparr>rq_capability_id = tool_capability_id t, rq_target_id = mt_target r, rq_session_id = mt_session_id r,
      rq_correlation_id = request_correlation r, rq_requester = who,
      rq_intended_effect = ''MCP tool '' @ mt_tool_name r @ '': '' @ tool_description t,
      rq_parameters = mt_params r, rq_credential_id = credential_id_from_request r,
      rq_approval_request_id = None, rq_signed_grant = None\<rparr>"

text \<open>Handling by the new control plane: errors of value and runtime become a result.\<close>

definition handle_mapped ::
    "('a, 'p, 'c) plane \<Rightarrow> mcp_request \<Rightarrow> mcp_tool_definition \<Rightarrow> string \<Rightarrow> actor \<Rightarrow>
     (('a, 'p, 'c) world, mcp_result) op" where
  "handle_mapped cp r t provider_id who w =
     (case handle cp (request_for r t who) (w\<lparr>w_consumed := []\<rparr>) of
        (Inl e, w') \<Rightarrow>
          (if is_value_error e \<or> is_runtime_error e
           then (Inr (mcp_result MCP_POLICY_ERROR r (Some (tool_capability_id t)) provider_id (exn_text e)), w')
           else (Inl e, w'))
      | (Inr x, w') \<Rightarrow>
          (mcp_result_from_control_plane (pl_sha256 cp) r (tool_capability_id t) provider_id x, w'))"

definition handle_tool_request ::
    "('a, 'p, 'c) mcp_router \<Rightarrow> mcp_request \<Rightarrow> (('a, 'p, 'c) world, mcp_result) op" where
  "handle_tool_request rt r =
     (case dict_get (rt_tools rt) (mt_tool_name r) of
        None \<Rightarrow> validation_failure rt r MCP_VALIDATION_ERROR None (or_empty (mt_provider r))
                  ''unknown MCP tool'' ''unknown MCP tool''
      | Some tool \<Rightarrow>
          let capability_id = tool_capability_id tool;
              invalid = (\<lambda>provider reason.
                validation_failure rt r MCP_VALIDATION_ERROR (Some capability_id) provider reason reason)
          in if registry_get (rt_capabilities rt) capability_id = None
          then validation_failure rt r MCP_POLICY_ERROR (Some capability_id) (or_empty (mt_provider r))
                 (''unknown mapped capability: '' @ capability_id) ''unknown mapped capability''
          else
            except_class TargetRegistryError
              (resolve_enabled_target (rt_targets rt) (mt_target r) (Some (mode_value (pol_mode (pl_policy (rt_plane rt))))))
              (invalid (or_empty (mt_provider r))) (\<lambda>target.
            except_class TargetRegistryError
              (case mt_provider r of None \<Rightarrow> Inr target
               | Some p \<Rightarrow> validate_provider_match (rt_targets rt) (mt_target r) p)
              (invalid (or_empty (mt_provider r))) (\<lambda>_.
            except_class ProviderRegistryError (resolve_enabled_provider (rt_providers rt) (td_provider_id target))
              (invalid (td_provider_id target)) (\<lambda>provider.
            bind_op (lift_res (make_actor AGENT (mt_requester_id r))) (\<lambda>who.
            bind_op (lift_res (plane_for rt provider)) (\<lambda>cp.
              handle_mapped cp r tool (td_provider_id target) who))))))"

text \<open>An agent's session: tool calls one after the other; an exception ends one call only.\<close>

definition run_tools ::
    "('a, 'p, 'c) mcp_router \<Rightarrow> mcp_request list \<Rightarrow> ('a, 'p, 'c) world \<Rightarrow> ('a, 'p, 'c) world" where
  "run_tools rt rs w = fold (\<lambda>r w. snd (handle_tool_request rt r w)) rs w"

end
