(* ===== verification/McpProps.thy ===== *)
theory McpProps
  imports McpRouter EngineLive
begin

text \<open>
  The tool interface adds no authority: a call runs at most what its tool stands for, on the provider
  of its target, through a control plane; and its answer says truly whether anything ran.
\<close>

section \<open>What the status of a result says\<close>

text \<open>Nothing runs.\<close>

definition silent :: "('a, 'p, 'c) world \<Rightarrow> ('a, 'p, 'c) world \<Rightarrow> bool" where
  "silent w w' \<longleftrightarrow> executions w' = executions w"

interpretation silent: step_relation silent
  by unfold_locales (auto simp: silent_def)

lemma quiet_silent: "keeps quiet m \<Longrightarrow> keeps silent m"
  by (auto simp: keeps_def quiet_def silent_def)

lemma consume_silent: "keeps silent (consume_grant g)"
  unfolding consume_grant_def
  by (intro silent.keeps_rules) (auto split: option.split intro!: silent.keeps_rules silent.keeps_modify
      simp: silent_def executions_def)

lemma apply_verification_silent: "keeps silent (apply_verification cp r ref d g v)"
  using apply_verification_facts unfolding keeps_def silent_def by blast

lemma verify_signed_silent: "keeps silent (verify_signed_approval_grant cp r ref d)"
  unfolding verify_signed_approval_grant_def Let_def
  by (auto split: option.split intro!: silent.keeps_rules quiet_silent [OF rejected_quiet] quiet_silent [OF tick_quiet]
      apply_verification_silent)

lemmas silent_steps = quiet_silent [OF tick_quiet] quiet_silent [OF result_quiet] quiet_silent [OF approval_quiet]
  quiet_silent [OF announce_quiet] quiet_silent [OF request_id_quiet] quiet_silent [OF matching_quiet]
  quiet_silent [OF client_quiet] consume_silent verify_signed_silent silent.keeps_lift silent.keeps_get

text \<open>A completed or failed result reports an execution; any other result means that nothing ran.\<close>

definition honest :: "provider_request list \<Rightarrow> plane_result \<Rightarrow> ('a, 'p, 'c) world \<Rightarrow> bool" where
  "honest E x w \<longleftrightarrow>
     (if cpr_status x \<in> {COMPLETED, FAILED}
      then (\<exists>q p. executions w = E @ [q] \<and> cpr_provider_result x = Some p \<and> prs_ok p = (cpr_status x = COMPLETED))
      else executions w = E)"

definition honest_op :: "(('a, 'p, 'c) world, plane_result) op \<Rightarrow> bool" where
  "honest_op m \<longleftrightarrow> (\<forall>w x w'. m w = (Inr x, w') \<longrightarrow> honest (executions w) x w')"

lemma honest_bind: "keeps silent m \<Longrightarrow> (\<And>y. honest_op (k y)) \<Longrightarrow> honest_op (bind_op m k)"
  unfolding honest_op_def by (fastforce simp: bind_op_Inr silent_def dest: keepsD)

lemma honest_seq: "keeps silent m \<Longrightarrow> honest_op n \<Longrightarrow> honest_op (seq_op m n)"
  by (simp add: seq_op_def honest_bind)

lemma honest_ret: "cpr_status x \<notin> {COMPLETED, FAILED} \<Longrightarrow> honest_op (ret x)"
  by (simp add: honest_op_def honest_def)

lemma honest_throw: "honest_op (throw c m)"
  by (simp add: honest_op_def)

lemma honest_if: "(b \<Longrightarrow> honest_op m) \<Longrightarrow> (\<not> b \<Longrightarrow> honest_op n) \<Longrightarrow> honest_op (if b then m else n)"
  by simp

lemma honest_option:
  "honest_op m \<Longrightarrow> (\<And>y. honest_op (k y)) \<Longrightarrow> honest_op (case v of None \<Rightarrow> m | Some y \<Rightarrow> k y)"
  by (cases v) auto

lemmas honest_rules = honest_bind honest_seq honest_if honest_option honest_throw

lemma execute_provider_honest: "honest_op (execute_provider cp r c ref d)"
proof -
  let ?q = "provider_request_for r c"
  have exec: "provider_execute cp ?q v = (y, v') \<Longrightarrow> executions v' = executions v @ [?q]" for v y v'
    by (auto simp: provider_execute_def executions_def map_filter_def split: prod.splits)
  have em: "emit cp r ref d t ap pv rp sp v = (y, v') \<Longrightarrow> executions v' = executions v" for t ap pv rp sp v y v'
    using keepsD [OF quiet_silent [OF emit_quiet]] by (auto simp: silent_def)
  have fin: "emit_result_returned cp r ref d st v = (y, v') \<Longrightarrow> executions v' = executions v" for st v y v'
    using keepsD [OF quiet_silent [OF result_quiet]] by (auto simp: silent_def)
  show ?thesis
    unfolding honest_op_def execute_provider_def Let_def
    by (auto elim!: seq_opE bind_opE dest!: exec em fin simp: honest_def plane_result_def split: if_splits)
qed

lemma denied_honest: "honest_op (deny cp r ref d)"
  and clearance_denied_honest: "honest_op (clearance_denied cp r ref d q resp m)"
  unfolding deny_def clearance_denied_def
  by (intro honest_rules honest_ret silent_steps; simp add: plane_result_def)+

lemma operator_approval_honest: "honest_op (request_operator_approval cp r c ref d)"
  unfolding request_operator_approval_def
  by (intro honest_rules honest_ret silent_steps) (simp add: plane_result_def)

lemma clearance_answer_honest: "honest_op (clearance_answer cp r c ref d q resp now)"
  unfolding clearance_answer_def Let_def
  by (intro honest_rules honest_ret silent_steps execute_provider_honest clearance_denied_honest)
    (simp add: plane_result_def)

lemma handle_honest: "honest_op (handle cp r)"
  unfolding handle_def Let_def handle_approval_def handle_act_clearance_def
  by (intro honest_rules silent_steps denied_honest execute_provider_honest operator_approval_honest)
    (auto split: auth_channel.split option.split intro!: honest_rules silent_steps denied_honest execute_provider_honest
      operator_approval_honest clearance_answer_honest)

lemma mcp_result_executed:
  assumes "Inr m = mcp_result_from_control_plane H r c p x"
  shows "mr_status m \<in> {MCP_OK, MCP_PROVIDER_ERROR} \<longleftrightarrow> cpr_status x \<in> {COMPLETED, FAILED}"
  using assms [symmetric]
  by (auto simp: mcp_result_from_control_plane_def mcp_result_def Let_def bind_res_Inr_iff
      split: prod.splits control_plane_status.splits)

lemma mcp_result_leak_free:
  assumes "Inr m = mcp_result_from_control_plane H r c p x"
  shows "if mr_status m \<in> {MCP_APPROVAL_REQUIRED, MCP_CLEARANCE_REQUIRED}
     then \<exists>preview. dict_get (mr_data m) ''params_preview'' = Some (pdict preview) \<and> (\<forall>(k, v) \<in> set preview. leak_free True k v)
     else \<forall>(k, v) \<in> set (mr_data m). leak_free True k v"
proof -
  obtain preview reds where p: "redact_mapping None (mt_params r) = (preview, reds)" by fastforce
  obtain safe reds' where d: "redact_mapping None (provider_data x) = (safe, reds')" by fastforce
  note clean = redact_mapping_leak_free(1) [OF p] redact_mapping_leak_free(1) [OF d]
  from assms [symmetric] clean show ?thesis
    by (cases "cpr_status x")
      (auto simp: mcp_result_from_control_plane_def mcp_result_def Let_def bind_res_Inr_iff p d)
qed

section \<open>Routing\<close>

text \<open>What a call must have found on its way before a control plane handles it.\<close>

definition routed ::
    "('a, 'p, 'c) mcp_router \<Rightarrow> mcp_request \<Rightarrow> mcp_tool_definition \<Rightarrow> target_definition \<Rightarrow> 'p provider_instance \<Rightarrow>
     actor \<Rightarrow> ('a, 'p, 'c) plane \<Rightarrow> bool" where
  "routed rt r tool t p who cp \<longleftrightarrow>
     dict_get (rt_tools rt) (mt_tool_name r) = Some tool \<and>
     dict_get (tr_targets (rt_targets rt)) (mt_target r) = Some t \<and> td_enabled t \<and>
     allows_mode t (mode_value (pol_mode (pl_policy (rt_plane rt)))) = Inr True \<and>
     (mt_provider r = None \<or> mt_provider r = Some (td_provider_id t)) \<and>
     resolve_enabled_provider (rt_providers rt) (td_provider_id t) = Inr p \<and>
     make_actor AGENT (mt_requester_id r) = Inr who \<and> plane_for rt p = Inr cp"

lemma audit_error_silent: "keeps silent (audit_validation_error rt r reason)"
proof -
  have "keeps silent (sink_emit cp e)" for cp :: "('a, 'p, 'c) plane" and e
    by (auto simp: keeps_def sink_emit_def silent_def executions_def map_filter_def split: sum.splits)
  then show ?thesis
    unfolding audit_validation_error_def by (intro silent.keeps_rules quiet_silent [OF tick_quiet])
qed

lemma validation_failure_cases:
  assumes "validation_failure rt r st c p a reason w = (x, w')"
  shows "silent w w' \<and> (\<forall>m. x = Inr m \<longrightarrow> m = mcp_result st r c p reason)"
  using assms unfolding validation_failure_def
  by (auto elim!: seq_opE dest: keepsD [OF audit_error_silent])

lemma except_class_cases:
  assumes "except_class c r handler k w = (x, w')"
  obtains (passed) y where "r = Inr y" "k y w = (x, w')"
    | (caught) m where "handler m w = (x, w')"
    | (raised) e where "x = Inl e" "w' = w"
  using assms by (auto simp: except_class_def split: sum.splits if_splits)

text \<open>A result that reports a failure before or around the control plane, without data.\<close>

definition failure :: "mcp_request \<Rightarrow> mcp_result \<Rightarrow> bool" where
  "failure r m \<longleftrightarrow> mr_tool_name m = mt_tool_name r \<and> mr_target m = mt_target r \<and> mr_status m \<in> {MCP_VALIDATION_ERROR, MCP_POLICY_ERROR} \<and> mr_data m = []"

lemma handle_tool_cases:
  assumes "handle_tool_request rt r w = (x, w')"
  obtains (refused) "silent w w'" "\<forall>m. x = Inr m \<longrightarrow> failure r m"
    | (mapped) tool t p who cp where "routed rt r tool t p who cp"
        "handle_mapped cp r tool (td_provider_id t) who w = (x, w')"
proof -
  let ?bad = "silent w w' \<and> (\<forall>m. x = Inr m \<longrightarrow> failure r m)"
  have v: "?bad" if "validation_failure rt r st c p a reason w = (x, w')" "st \<in> {MCP_VALIDATION_ERROR, MCP_POLICY_ERROR}"
    for st c p a reason
    using validation_failure_cases [OF that(1)] that(2) by (auto simp: mcp_result_def failure_def)
  have e: "?bad" if "x = Inl e" "w' = w" for e using that by (simp add: silent.refl)
  have invalid: "?bad" if "validation_failure rt r MCP_VALIDATION_ERROR c p a reason w = (x, w')" for c p a reason
    by (rule v [OF that]) simp
  have "?bad \<or> (\<exists>tool t p who cp. routed rt r tool t p who cp \<and> handle_mapped cp r tool (td_provider_id t) who w = (x, w'))"
  proof (cases "dict_get (rt_tools rt) (mt_tool_name r)")
    case None
    with assms v show ?thesis by (auto simp: handle_tool_request_def)
  next
    case (Some tool)
    show ?thesis
    proof (cases "registry_get (rt_capabilities rt) (tool_capability_id tool) = None")
      case True
      with assms Some v show ?thesis by (auto simp: handle_tool_request_def Let_def)
    next
      case False
      note step = assms [unfolded handle_tool_request_def Some option.case Let_def if_not_P [OF False]]
      from step show ?thesis
      proof (cases rule: except_class_cases)
        case (passed t)
        note t = passed(1) [unfolded resolve_enabled_target_Inr]
        from passed(2) show ?thesis
        proof (cases rule: except_class_cases)
          case (passed u)
          have match: "mt_provider r = None \<or> mt_provider r = Some (td_provider_id t)"
            using passed(1) t
            by (auto simp: validate_provider_match_def bind_res_Inr_iff require_target_Inr split: option.splits if_splits)
          from passed(2) show ?thesis
          proof (cases rule: except_class_cases)
            case (passed p)
            show ?thesis
            proof (cases "make_actor AGENT (mt_requester_id r)")
              case (Inl a)
              with passed(2) e show ?thesis by auto
            next
              case (Inr who)
              show ?thesis
              proof (cases "plane_for rt p")
                case (Inl a)
                with passed(2) \<open>make_actor _ _ = Inr who\<close> e show ?thesis by auto
              next
                case cp: (Inr cp)
                have "routed rt r tool t p who cp"
                  using Some t match passed(1) Inr cp by (auto simp: routed_def)
                moreover have "handle_mapped cp r tool (td_provider_id t) who w = (x, w')"
                  using passed(2) Inr cp by simp
                ultimately show ?thesis by blast
              qed
            qed
          qed (rule disjI1, erule invalid, rule disjI1, erule (1) e)
        qed (rule disjI1, erule invalid, rule disjI1, erule (1) e)
      qed (rule disjI1, erule invalid, rule disjI1, erule (1) e)
    qed
  qed
  then show thesis using that by blast
qed

lemma handle_mapped_cases:
  assumes "handle_mapped cp r tool i who w = (x, w')"
  obtains (raised) e where "handle cp (request_for r tool who) (w\<lparr>w_consumed := []\<rparr>) = (Inl e, w')"
      "\<forall>m. x = Inr m \<longrightarrow> mr_status m = MCP_POLICY_ERROR \<and> mr_data m = [] \<and>
         mr_tool_name m = mt_tool_name r \<and> mr_target m = mt_target r"
    | (answered) y where "handle cp (request_for r tool who) (w\<lparr>w_consumed := []\<rparr>) = (Inr y, w')"
      "x = mcp_result_from_control_plane (pl_sha256 cp) r (tool_capability_id tool) i y"
  using assms by (auto simp: handle_mapped_def mcp_result_def split: prod.splits sum.splits if_splits)

lemma executions_fresh_plane [simp]: "executions (w\<lparr>w_consumed := c\<rparr>) = executions w"
  by (simp add: executions_def)

lemma mapped_permitted:
  assumes "handle_mapped cp r tool i who w = (x, w')"
  shows "executions w' = executions w \<or> (\<exists>c. executions w' = executions w @ [provider_request_for (request_for r tool who) c] \<and>
     permitted cp (request_for r tool who) c (w\<lparr>w_consumed := []\<rparr>))"
  using assms
proof (cases rule: handle_mapped_cases)
  case (raised e)
  from handle_permitted [OF raised(1)] show ?thesis by simp
next
  case (answered y)
  from handle_permitted [OF answered(1)] show ?thesis by simp
qed

text \<open>One call: what it executed, and that this was permitted.\<close>

definition call_permitted ::
    "('a, 'p, 'c) mcp_router \<Rightarrow> mcp_request \<Rightarrow> provider_request \<Rightarrow> ('a, 'p, 'c) world \<Rightarrow> bool" where
  "call_permitted rt r q w \<longleftrightarrow>
     (\<exists>tool t p who cp c. routed rt r tool t p who cp \<and> q = provider_request_for (request_for r tool who) c \<and>
        permitted cp (request_for r tool who) c (w\<lparr>w_consumed := []\<rparr>))"

lemma call_executions:
  assumes "handle_tool_request rt r w = (x, w')"
  shows "executions w' = executions w \<or> (\<exists>q. executions w' = executions w @ [q] \<and> call_permitted rt r q w)"
  using assms
proof (cases rule: handle_tool_cases)
  case refused
  then show ?thesis by (simp add: silent_def)
next
  case (mapped tool t p who cp)
  from mapped_permitted [OF mapped(2)] mapped(1) show ?thesis unfolding call_permitted_def by blast
qed

lemma session_executions:
  "\<exists>qs. executions (run_tools rt rs w) = executions w @ qs \<and> length qs \<le> length rs \<and>
     (\<forall>q \<in> set qs. \<exists>xs r ys. rs = xs @ r # ys \<and> call_permitted rt r q (run_tools rt xs w))"
proof (induction rs rule: rev_induct)
  case (snoc r rs)
  let ?w = "run_tools rt rs w"
  obtain x w' where h: "handle_tool_request rt r ?w = (x, w')" by (cases "handle_tool_request rt r ?w")
  then have run: "run_tools rt (rs @ [r]) w = w'" by (simp add: run_tools_def)
  from snoc obtain qs where qs: "executions ?w = executions w @ qs" "length qs \<le> length rs"
    "\<forall>q \<in> set qs. \<exists>xs r ys. rs = xs @ r # ys \<and> call_permitted rt r q (run_tools rt xs w)" by blast
  have earlier: "\<forall>q \<in> set qs. \<exists>xs r' ys. rs @ [r] = xs @ r' # ys \<and> call_permitted rt r' q (run_tools rt xs w)"
    using qs(3) by (metis append_Cons append_assoc)
  from call_executions [OF h] show ?case
  proof
    assume "executions w' = executions ?w"
    with qs(1,2) earlier run show ?thesis by (intro exI [of _ qs]) auto
  next
    assume "\<exists>q. executions w' = executions ?w @ [q] \<and> call_permitted rt r q ?w"
    then obtain q where "executions w' = executions ?w @ [q]" "call_permitted rt r q ?w" by blast
    with qs(1,2) earlier run show ?thesis by (intro exI [of _ "qs @ [q]"]) auto
  qed
qed (simp add: run_tools_def)

lemma result_status:
  assumes "handle_tool_request rt r w = (Inr m, w')"
  shows "if mr_status m \<in> {MCP_OK, MCP_PROVIDER_ERROR} then \<exists>q. executions w' = executions w @ [q]
     else mr_status m = MCP_POLICY_ERROR \<or> executions w' = executions w"
  using assms
proof (cases rule: handle_tool_cases)
  case refused
  then show ?thesis by (auto simp: silent_def failure_def)
next
  case (mapped tool t p who cp)
  from mapped(2) show ?thesis
  proof (cases rule: handle_mapped_cases)
    case (raised e)
    then show ?thesis by auto
  next
    case (answered y)
    have "honest (executions w) y w'" using handle_honest answered(1) unfolding honest_op_def by fastforce
    moreover have "mr_status m \<in> {MCP_OK, MCP_PROVIDER_ERROR} \<longleftrightarrow> cpr_status y \<in> {COMPLETED, FAILED}"
      using mcp_result_executed answered(2) by metis
    ultimately show ?thesis by (auto simp: honest_def)
  qed
qed

lemma result_names:
  assumes "handle_tool_request rt r w = (Inr m, w')"
  shows "mr_tool_name m = mt_tool_name r \<and> mr_target m = mt_target r"
  using assms
proof (cases rule: handle_tool_cases)
  case refused
  then show ?thesis by (auto simp: failure_def)
next
  case (mapped tool t p who cp)
  from mapped(2) show ?thesis
  proof (cases rule: handle_mapped_cases)
    case (raised e)
    then show ?thesis by auto
  next
    case (answered y)
    then show ?thesis using mcp_result_status(3) by metis
  qed
qed

lemma plane_for_facts:
  "plane_for rt p = Inr cp \<Longrightarrow> pl_provider cp = pi_info p \<and> pl_execute cp = pi_execute p \<and> pl_registry cp = rt_capabilities rt"
  by (auto simp: plane_for_def make_plane_def bind_res_Inr_iff rt_capabilities_def)

text \<open>The execution of a call: its tool's capability on its target with its parameters.\<close>

definition performs :: "mcp_tool_definition \<Rightarrow> mcp_request \<Rightarrow> provider_request \<Rightarrow> bool" where
  "performs tool r q \<longleftrightarrow>
     prq_capability q = tool_capability_id tool \<and> prq_target_id q = mt_target r \<and>
     prq_session_id q = mt_session_id r \<and> prq_parameters q = mt_params r"

lemma call_performs:
  assumes "registry_ok (rt_capabilities rt)" "call_permitted rt r q w"
  shows "\<exists>tool t p who cp c. routed rt r tool t p who cp \<and> pl_provider cp = pi_info p \<and> pl_execute cp = pi_execute p \<and>
     performs tool r q \<and> permitted cp (request_for r tool who) c (w\<lparr>w_consumed := []\<rparr>)"
proof -
  obtain tool t p who cp c where q: "routed rt r tool t p who cp" "q = provider_request_for (request_for r tool who) c"
    "permitted cp (request_for r tool who) c (w\<lparr>w_consumed := []\<rparr>)"
    using assms(2) by (auto simp: call_permitted_def)
  have pl: "pl_provider cp = pi_info p \<and> pl_execute cp = pi_execute p \<and> pl_registry cp = rt_capabilities rt"
    using q(1) plane_for_facts by (auto simp: routed_def)
  have "registry_get (rt_capabilities rt) (tool_capability_id tool) = Some c"
    using q(3) pl by (simp add: permitted_def request_for_def)
  then have "cap_id c = tool_capability_id tool" by (rule registry_get_id [OF assms(1)])
  then have "performs tool r q" by (simp add: performs_def q(2) provider_request_for_def request_for_def)
  then show ?thesis using q(1,3) pl by blast
qed

section \<open>Properties\<close>

text \<open>
  C5 (agent sessions). Whatever tools an agent calls, every execution of its session belongs to one of
  the calls, at most one to each; the call named a known tool, an enabled target whose modes allow the
  policy's, no other provider than the target's, and that provider is enabled and executable; what ran
  is the tool's capability on that target with the call's parameters, on that provider; and the control
  plane for it permitted it, in the state the calls before it had led to.
\<close>

theorem session_mediated:
  assumes "registry_ok (rt_capabilities rt)"
  shows "\<exists>qs. executions (run_tools rt rs w) = executions w @ qs \<and> length qs \<le> length rs \<and>
     (\<forall>q \<in> set qs. \<exists>xs r ys tool t p who cp c.
        rs = xs @ r # ys \<and> routed rt r tool t p who cp \<and> pl_provider cp = pi_info p \<and> pl_execute cp = pi_execute p \<and>
        performs tool r q \<and> permitted cp (request_for r tool who) c (run_tools rt xs w\<lparr>w_consumed := []\<rparr>))"
proof -
  obtain qs where qs: "executions (run_tools rt rs w) = executions w @ qs" "length qs \<le> length rs"
    "\<forall>q \<in> set qs. \<exists>xs r ys. rs = xs @ r # ys \<and> call_permitted rt r q (run_tools rt xs w)"
    using session_executions by blast
  have "\<exists>xs r ys tool t p who cp c. rs = xs @ r # ys \<and> routed rt r tool t p who cp \<and>
      pl_provider cp = pi_info p \<and> pl_execute cp = pi_execute p \<and>
      performs tool r q \<and> permitted cp (request_for r tool who) c (run_tools rt xs w\<lparr>w_consumed := []\<rparr>)" if q: "q \<in> set qs" for q
  proof -
    obtain xs r ys where "rs = xs @ r # ys" "call_permitted rt r q (run_tools rt xs w)" using qs(3) q by blast
    with call_performs [OF assms this(2)] show ?thesis by blast
  qed
  with qs(1,2) show ?thesis by (intro exI [of _ qs]) blast
qed

text \<open>
  Results. The status of a tool result is true: ok and provider_error mean that exactly one
  execution happened, denied, approval_required, clearance_required and validation_error that none did,
  and policy_error that there was at most one; and the result names the tool and the target of the call.
\<close>

theorem result_status_true:
  assumes "handle_tool_request rt r w = (Inr m, w')"
  shows "mr_tool_name m = mt_tool_name r \<and> mr_target m = mt_target r \<and>
     (\<exists>qs. executions w' = executions w @ qs \<and> length qs \<le> 1 \<and>
        (mr_status m \<in> {MCP_OK, MCP_PROVIDER_ERROR} \<longrightarrow> length qs = 1) \<and>
        (mr_status m \<notin> {MCP_OK, MCP_PROVIDER_ERROR, MCP_POLICY_ERROR} \<longrightarrow> qs = []))"
proof -
  have once: "\<exists>qs. executions w' = executions w @ qs \<and> length qs \<le> 1" using call_executions [OF assms] by force
  have status: "if mr_status m \<in> {MCP_OK, MCP_PROVIDER_ERROR} then \<exists>q. executions w' = executions w @ [q]
     else mr_status m = MCP_POLICY_ERROR \<or> executions w' = executions w"
    by (rule result_status [OF assms])
  obtain qs where qs: "executions w' = executions w @ qs" "length qs \<le> 1" using once by blast
  have "length qs = 1" if "mr_status m \<in> {MCP_OK, MCP_PROVIDER_ERROR}" using status that qs(1) by auto
  moreover have "qs = []" if "mr_status m \<notin> {MCP_OK, MCP_PROVIDER_ERROR, MCP_POLICY_ERROR}"
    using status that qs(1) by simp
  ultimately show ?thesis using result_names [OF assms] qs by blast
qed

text \<open>
  What an agent sees. The data of a result of a run, and the preview of the parameters in a
  request for approval or clearance, carry no credential, raw artifact, byte string or recognisable
  secret.
\<close>

theorem result_data_redacted:
  assumes "handle_tool_request rt r w = (Inr m, w')"
  shows "if mr_status m \<in> {MCP_APPROVAL_REQUIRED, MCP_CLEARANCE_REQUIRED}
     then \<exists>preview. dict_get (mr_data m) ''params_preview'' = Some (pdict preview) \<and> (\<forall>(k, v) \<in> set preview. leak_free True k v)
     else \<forall>(k, v) \<in> set (mr_data m). leak_free True k v"
  using assms
proof (cases rule: handle_tool_cases)
  case refused
  then show ?thesis by (auto simp: failure_def)
next
  case (mapped tool t p who cp)
  from mapped(2) show ?thesis
  proof (cases rule: handle_mapped_cases)
    case (raised e)
    then show ?thesis by simp
  next
    case (answered y)
    from mcp_result_leak_free [OF answered(2)] show ?thesis .
  qed
qed

section \<open>Witnesses\<close>

definition demo_providers :: "nat provider_registry" where
  "demo_providers =
     [(''p'', \<lparr>pe_id = ''p'', pe_type = ''mock'', pe_enabled = True,
        pe_provider = Some \<lparr>pi_info = demo_provider, pi_execute = demo_execute\<rparr>,
        pe_description = PNone, pe_metadata = []\<rparr>)]"

definition demo_router :: "(audit_event list, nat, unit) mcp_router" where
  "demo_router =
     \<lparr>rt_providers = demo_providers,
      rt_targets = \<lparr>tr_providers = demo_providers, tr_targets =
        [(''t'', \<lparr>td_id = ''t'', td_provider_id = ''p'', td_enabled = True, td_name = PNone, td_environment = PNone,
           td_labels = [], td_risk_tier = ''unknown'', td_raw_modes = [], td_default_policy = PNone,
           td_metadata = [], td_modes = []\<rparr>)]\<rparr>,
      rt_tools = [(''power_off'', mcp_tool ''power_off'' ''power.force_off'' ''Force power off'' True)],
      rt_channel = ChannelMember LOCAL_TERMINAL, rt_plane = demo_plane\<rparr>"

definition demo_call :: mcp_request where
  "demo_call =
     \<lparr>mt_tool_name = ''power_off'', mt_target = ''t'', mt_session_id = ''s'', mt_requester_id = ''agent'',
      mt_params = [], mt_provider = None, mt_requested_mode = None, mt_policy_ref = None,
      mt_approval_context = [], mt_correlation_id = None\<rparr>"

theorem session_mediated_witness:
  "\<exists>qs. executions (run_tools demo_router [demo_call, demo_call] (demo_world (Some demo_store))) = qs \<and> length qs \<le> 2"
proof -
  have "registry_ok (rt_capabilities demo_router)"
    by (simp add: rt_capabilities_def demo_router_def registry_ok_def demo_capability_def)
  from session_mediated [OF this, of "[demo_call, demo_call]" "demo_world (Some demo_store)"] show ?thesis by auto
qed

definition demo_local_plane :: "(audit_event list, nat, unit) plane" where
  "demo_local_plane = demo_plane\<lparr>pl_grant_verifier := None, pl_channel := select_channel DEFAULT_AUTH_CHANNEL LOCAL_TERMINAL\<rparr>"

lemma demo_local_healthy: "healthy demo_local_plane"
  by (auto simp: healthy_def memory_emit_def demo_execute_def demo_local_plane_def tower_channel_def)

lemma demo_target_enabled:
  "\<exists>t. resolve_enabled_target (rt_targets demo_router) ''t'' m = Inr t \<and> td_provider_id t = ''p''"
  by (cases m) (simp_all add: demo_router_def resolve_enabled_target_def require_target_def validate_mode_allowed_def
      allows_mode_def demo_providers_def Let_def resolve_enabled_provider_def require_provider_def is_executable_entry_def
      EXECUTABLE_PROVIDER_TYPES_def reraise_value_def)

lemma demo_routes:
  "handle_tool_request demo_router demo_call = handle_mapped demo_local_plane demo_call
     (mcp_tool ''power_off'' ''power.force_off'' ''Force power off'' True) ''p'' \<lparr>actor_kind = AGENT, actor_id = ''agent''\<rparr>"
proof -
  have plane: "plane_for demo_router \<lparr>pi_info = demo_provider, pi_execute = demo_execute\<rparr> = Inr demo_local_plane"
    by (simp add: plane_for_def make_plane_def demo_router_def resolve_auth_channel_def demo_local_plane_def demo_plane_def)
  have provider: "resolve_enabled_provider (rt_providers demo_router) ''p'' = Inr \<lparr>pi_info = demo_provider, pi_execute = demo_execute\<rparr>"
    by (simp add: demo_router_def demo_providers_def resolve_enabled_provider_def require_provider_def is_executable_entry_def
        EXECUTABLE_PROVIDER_TYPES_def)
  have tool: "dict_get (rt_tools demo_router) (mt_tool_name demo_call)
      = Some (mcp_tool ''power_off'' ''power.force_off'' ''Force power off'' True)"
    by (simp add: demo_router_def demo_call_def)
  have known: "registry_get (rt_capabilities demo_router) ''power.force_off'' \<noteq> None"
    by (simp add: demo_router_def rt_capabilities_def registry_get_def demo_plane_def)
  have call: "mt_target demo_call = ''t''" "mt_provider demo_call = None" "mt_requester_id demo_call = ''agent''"
    by (simp_all add: demo_call_def)
  have who: "make_actor AGENT ''agent'' = Inr \<lparr>actor_kind = AGENT, actor_id = ''agent''\<rparr>"
    by (simp add: make_actor_def)
  obtain t where t: "resolve_enabled_target (rt_targets demo_router) ''t''
      (Some (mode_value (pol_mode (pl_policy (rt_plane demo_router))))) = Inr t" "td_provider_id t = ''p''"
    using demo_target_enabled by blast
  show ?thesis
    by (rule ext) (simp add: handle_tool_request_def except_class_def tool known call who t provider plane mcp_tool_def
        bind_op_def lift_res_def)
qed

lemma demo_call_answered:
  "\<exists>m w'. handle_tool_request demo_router demo_call (demo_world (Some demo_store)) = (Inr m, w')"
proof -
  let ?tool = "mcp_tool ''power_off'' ''power.force_off'' ''Force power off'' True"
  let ?who = "\<lparr>actor_kind = AGENT, actor_id = ''agent''\<rparr>"
  let ?w = "demo_world (Some demo_store)\<lparr>w_consumed := []\<rparr>"
  have "returns (handle demo_local_plane (request_for demo_call ?tool ?who))"
    by (rule returns_handle [OF demo_local_healthy]) (simp add: request_for_def)
  moreover have "aware_store ?w" by (simp add: aware_store_def demo_store_def demo_action_grant_def)
  ultimately obtain y w' where h: "handle demo_local_plane (request_for demo_call ?tool ?who) ?w = (Inr y, w')"
    unfolding returns_def by blast
  have "\<exists>f. fingerprint_parameters (pl_sha256 demo_local_plane) (mt_params demo_call) = Inr f"
    by (simp add: demo_call_def fingerprint_parameters_def pdict_def canonical_json_def)
  then have "\<exists>m. mcp_result_from_control_plane (pl_sha256 demo_local_plane) demo_call (tool_capability_id ?tool) ''p'' y = Inr m"
    by (cases "cpr_status y") (auto simp: mcp_result_from_control_plane_def Let_def split: prod.splits)
  then show ?thesis using h by (auto simp: demo_routes handle_mapped_def)
qed

theorem result_status_true_witness:
  "\<exists>m w' qs. handle_tool_request demo_router demo_call (demo_world (Some demo_store)) = (Inr m, w') \<and>
     mr_tool_name m = ''power_off'' \<and> mr_target m = ''t'' \<and> executions w' = qs \<and> length qs \<le> 1"
proof -
  obtain m w' where c: "handle_tool_request demo_router demo_call (demo_world (Some demo_store)) = (Inr m, w')"
    using demo_call_answered by blast
  from result_status_true [OF c] c show ?thesis by (auto simp: demo_call_def)
qed

theorem result_data_redacted_witness:
  "\<exists>m w'. handle_tool_request demo_router demo_call (demo_world (Some demo_store)) = (Inr m, w') \<and>
     (if mr_status m \<in> {MCP_APPROVAL_REQUIRED, MCP_CLEARANCE_REQUIRED}
      then \<exists>preview. dict_get (mr_data m) ''params_preview'' = Some (pdict preview) \<and> list_all (\<lambda>(k, v). leak_free True k v) preview
      else list_all (\<lambda>(k, v). leak_free True k v) (mr_data m))"
proof -
  obtain m w' where c: "handle_tool_request demo_router demo_call (demo_world (Some demo_store)) = (Inr m, w')"
    using demo_call_answered by blast
  from result_data_redacted [OF c] c show ?thesis by (auto simp: list_all_iff split: if_splits)
qed

end
