(* ===== verification/MutationGate.thy ===== *)
theory MutationGate
  imports ActClient StateRes
begin

text \<open>
  \<open>providers/mutation_gate.py\<close>: the handles that authorise one mutating call of a live transport, how a
  handle is issued from a verified clearance, the ledger of spent handles, and the checks made before
  every call. The state of the operations is the ledger, the list of spent request ids.
\<close>

section \<open>Handles\<close>

text \<open>
  A handle carries the object it names as its issuer; the module's token is the one it accepts. An
  object passed where a handle is expected is a handle or something else.
\<close>

datatype issuer = IssuerToken | OtherIssuer

record mutation_handle =
  mh_request_id :: string
  mh_capability :: string
  mh_target :: string
  mh_provider :: string
  mh_params_fingerprint :: string
  mh_risk_family :: string
  mh_expires_at :: datetime
  mh_tower_id :: "json option"
  mh_issued_at :: datetime
  mh_issuer :: issuer

datatype candidate = NotAHandle | Handle mutation_handle

definition handle_fields :: "mutation_handle \<Rightarrow> string list" where
  "handle_fields h =
     [mh_request_id h, mh_capability h, mh_target h, mh_provider h, mh_params_fingerprint h, mh_risk_family h]"

definition blocked :: "string \<Rightarrow> 'a res" where
  "blocked m = raise ProviderMutationBlockedError m"

definition make_mutation_handle :: "mutation_handle \<Rightarrow> mutation_handle res" where
  "make_mutation_handle h =
     (if mh_issuer h \<noteq> IssuerToken
      then blocked ''mutation clearance handles can only be issued through verified clearance issuance''
      else if [] \<in> set (handle_fields h)
      then blocked ''mutation clearance handle is missing required bound fields''
      else if \<not> is_aware (mh_expires_at h) \<or> \<not> is_aware (mh_issued_at h)
      then blocked ''mutation clearance timestamps must be timezone-aware''
      else Inr h)"

section \<open>The ledger\<close>

type_synonym ledger = "string list"

definition NO_HANDLE :: string where
  "NO_HANDLE = ''mutating operations require a verified mutation clearance handle''"

definition ledger_consume :: "candidate \<Rightarrow> datetime option \<Rightarrow> (ledger, unit) op" where
  "ledger_consume c now spent =
     (case c of
        NotAHandle \<Rightarrow> (blocked NO_HANDLE, spent)
      | Handle h \<Rightarrow>
          (case now of
             None \<Rightarrow> (blocked ''mutation clearance consumption requires the current time'', spent)
           | Some t \<Rightarrow>
               bind_op (lift_res (dt_geq (to_utc t) (to_utc (mh_expires_at h)))) (\<lambda>late spent.
               if late then (blocked ''mutation clearance expired'', spent)
               else if mh_request_id h \<in> set spent
               then (blocked ''mutation clearance replay refused; handles are single-use'', spent)
               else (Inr (), List.insert (mh_request_id h) spent)) spent))"

section \<open>Issuing\<close>

definition refused_capability :: "string \<Rightarrow> bool" where
  "refused_capability c \<longleftrightarrow> starts_with c ''observe.'' \<or> c = ''provider.status''"

type_synonym verifier_seam =
  "clearance_request \<Rightarrow> clearance_response \<Rightarrow> datetime \<Rightarrow> clearance_verification res"

definition issue_mutation_clearance ::
    "(string \<Rightarrow> string) \<Rightarrow> clearance_request option \<Rightarrow> clearance_response option \<Rightarrow> verifier_seam option \<Rightarrow>
     datetime \<Rightarrow> params option \<Rightarrow> mutation_handle res" where
  "issue_mutation_clearance H request response verifier now parameters =
     (case (request, response) of
        (Some q, Some r) \<Rightarrow>
          (case verifier of
             None \<Rightarrow> blocked ''mutation clearance issuance requires a configured ACT clearance verifier''
           | Some verify \<Rightarrow>
               bind_res (verify q r now) (\<lambda>v.
               if \<not> cv_valid v
               then blocked (''mutating transport refused clearance: '' @
                      (if cv_reason v = [] then ''clearance verification failed'' else cv_reason v))
               else if cp_proof r = None
               then blocked ''mutating transport refused clearance: ACT proof is required''
               else (case cp_expires_at r of
                  None \<Rightarrow> blocked ''mutating transport refused clearance: expiry is required''
                | Some expires \<Rightarrow>
                    if \<not> is_aware expires
                    then blocked ''mutating transport refused clearance: expiry is required''
                    else if refused_capability (cp_capability r)
                    then blocked ''mutation clearance cannot be issued for observe capabilities''
                    else
                      bind_res (case parameters of Some p \<Rightarrow> fingerprint_parameters H p
                                | None \<Rightarrow> Inr (cp_params_fingerprint r)) (\<lambda>fingerprint.
                      make_mutation_handle
                        \<lparr>mh_request_id = cp_request_id r, mh_capability = cp_capability r,
                         mh_target = cp_target r, mh_provider = cp_provider r,
                         mh_params_fingerprint = fingerprint,
                         mh_risk_family = risk_family_value (cp_risk_family r), mh_expires_at = expires,
                         mh_tower_id = cp_tower_id r, mh_issued_at = to_utc now, mh_issuer = IssuerToken\<rparr>))))
      | _ \<Rightarrow> blocked ''mutation clearance issuance requires the clearance request and response'')"

section \<open>The gate before a call\<close>

definition require_mutation_clearance ::
    "(string \<Rightarrow> string) \<Rightarrow> candidate \<Rightarrow> string \<Rightarrow> params \<Rightarrow> string \<Rightarrow> string \<Rightarrow> datetime \<Rightarrow>
     (ledger, mutation_handle) op" where
  "require_mutation_clearance H c capability parameters target provider now spent =
     (case c of
        NotAHandle \<Rightarrow> (blocked NO_HANDLE, spent)
      | Handle h \<Rightarrow>
          if mh_capability h \<noteq> capability then (blocked ''mutation clearance capability mismatch'', spent)
          else if mh_target h \<noteq> target then (blocked ''mutation clearance target mismatch'', spent)
          else if mh_provider h \<noteq> provider then (blocked ''mutation clearance provider mismatch'', spent)
          else
            bind_op (lift_res (fingerprint_parameters H parameters)) (\<lambda>fingerprint spent.
            if fingerprint \<noteq> mh_params_fingerprint h
            then (blocked ''mutation clearance params fingerprint mismatch'', spent)
            else
              bind_op (lift_res (dt_geq (to_utc now) (to_utc (mh_expires_at h)))) (\<lambda>late spent.
              if late then (blocked ''mutation clearance expired'', spent)
              else bind_op (ledger_consume c (Some now)) (\<lambda>_. ret h) spent) spent) spent)"

section \<open>Facts\<close>

definition genuine :: "mutation_handle \<Rightarrow> bool" where
  "genuine h \<longleftrightarrow> make_mutation_handle h = Inr h"

lemma blocked_neq_Inr [simp]: "blocked m \<noteq> Inr x" "Inr x \<noteq> blocked m"
  by (simp_all add: blocked_def)

lemma make_handle_Inr:
  "make_mutation_handle h = Inr h' \<longleftrightarrow>
     h' = h \<and> mh_issuer h = IssuerToken \<and> [] \<notin> set (handle_fields h) \<and>
     is_aware (mh_expires_at h) \<and> is_aware (mh_issued_at h)"
  by (auto simp: make_mutation_handle_def)

text \<open>What a passed gate has checked, and what it spends; a refusal spends nothing.\<close>

definition fits :: "(string \<Rightarrow> string) \<Rightarrow> mutation_handle \<Rightarrow> string \<Rightarrow> params \<Rightarrow> string \<Rightarrow> string \<Rightarrow> bool" where
  "fits H h capability parameters target provider \<longleftrightarrow>
     mh_capability h = capability \<and> mh_target h = target \<and> mh_provider h = provider \<and>
     fingerprint_parameters H parameters = Inr (mh_params_fingerprint h)"

lemma require_Inr:
  "require_mutation_clearance H c capability parameters target provider now spent = (Inr h, spent') \<longleftrightarrow>
     c = Handle h \<and> fits H h capability parameters target provider \<and>
     instant now < instant (mh_expires_at h) \<and> mh_request_id h \<notin> set spent \<and>
     spent' = mh_request_id h # spent"
  by (cases c; cases "fingerprint_parameters H parameters")
    (auto simp: require_mutation_clearance_def ledger_consume_def fits_def bind_op_def blocked_def raise_def)

lemma require_Inl:
  "require_mutation_clearance H c capability parameters target provider now spent = (Inl e, spent') \<Longrightarrow>
     spent' = spent"
  by (cases c; cases "fingerprint_parameters H parameters")
    (auto simp: require_mutation_clearance_def ledger_consume_def bind_op_def blocked_def raise_def split: if_splits)

text \<open>A handle comes only from a verified response, and names what the response names.\<close>

lemma issue_Inr:
  assumes "issue_mutation_clearance H request response verifier now parameters = Inr h"
  obtains q r verify v where "request = Some q" "response = Some r" "verifier = Some verify"
    "verify q r now = Inr v" "cv_valid v" "cp_proof r \<noteq> None" "\<not> refused_capability (cp_capability r)"
    "cp_expires_at r = Some (mh_expires_at h)" "genuine h"
    "mh_request_id h = cp_request_id r" "mh_capability h = cp_capability r" "mh_target h = cp_target r"
    "mh_provider h = cp_provider r" "mh_tower_id h = cp_tower_id r"
    "case parameters of Some p \<Rightarrow> fingerprint_parameters H p = Inr (mh_params_fingerprint h)
     | None \<Rightarrow> mh_params_fingerprint h = cp_params_fingerprint r"
proof -
  from assms obtain q r verify where q: "request = Some q" "response = Some r" "verifier = Some verify"
    by (auto simp: issue_mutation_clearance_def split: option.splits)
  note step = assms [unfolded issue_mutation_clearance_def q prod.case option.case bind_res_Inr_iff]
  from step obtain v where v: "verify q r now = Inr v" "cv_valid v" "cp_proof r \<noteq> None"
    by (auto split: if_splits)
  with step obtain t where t: "cp_expires_at r = Some t" by (auto split: option.splits)
  from step v t have c: "\<not> refused_capability (cp_capability r)" by (auto split: if_splits)
  from step v t c show thesis
    by (intro that [OF q v(1,2,3) c]) (auto simp: genuine_def make_handle_Inr bind_res_Inr_iff split: if_splits option.splits)
qed

text \<open>
  The token is a field of the handle and so of every copy: \<open>dataclasses.replace\<close> of a genuine handle, or
  a construction with its \<open>issuer\<close>, gives a handle bound to anything.
\<close>

lemma copied_handle_genuine:
  assumes "genuine h" "target \<noteq> []" "capability \<noteq> []" "fingerprint \<noteq> []"
  shows "make_mutation_handle
      (h\<lparr>mh_capability := capability, mh_target := target, mh_params_fingerprint := fingerprint\<rparr>) =
     Inr (h\<lparr>mh_capability := capability, mh_target := target, mh_params_fingerprint := fingerprint\<rparr>)"
  using assms by (auto simp: genuine_def make_handle_Inr handle_fields_def)

end
