(* ===== verification/ProviderSafety.thy ===== *)
theory ProviderSafety
  imports Providers Complex_Main
begin

text \<open>
  The small safety helpers of the adapters: the error taxonomy (\<open>providers/errors.py\<close>), the transport
  policy (\<open>providers/transport_policy.py\<close>), screenshot artifacts (\<open>providers/artifacts.py\<close>), the gates
  before live work (\<open>providers/preflight.py\<close>), the offline transport (\<open>providers/transports.py\<close>) and the
  pointer calibration (\<open>providers/pikvm_calibration.py\<close>). A finite float that is only compared is the
  rational number it denotes.
\<close>

section \<open>Errors\<close>

record provider_error_info =
  ei_code :: string
  ei_category :: string
  ei_retryable :: bool
  ei_safe_to_show :: bool
  ei_audit_severity :: string
  ei_stop_behavior :: string
  ei_approval_could_resolve :: bool

definition error_info ::
    "string \<Rightarrow> string \<Rightarrow> bool \<Rightarrow> bool \<Rightarrow> string \<Rightarrow> string \<Rightarrow> bool \<Rightarrow> provider_error_info" where
  "error_info code category retryable safe severity stop approval =
     \<lparr>ei_code = code, ei_category = category, ei_retryable = retryable, ei_safe_to_show = safe,
      ei_audit_severity = severity, ei_stop_behavior = stop, ei_approval_could_resolve = approval\<rparr>"

text \<open>The \<open>info\<close> and \<open>default_message\<close> of each class; the fingerprint mismatches inherit the protocol error's.\<close>

definition PROVIDER_ERROR_INFOS :: "(exn_class, provider_error_info) dict" where
  "PROVIDER_ERROR_INFOS =
    [(ProviderDisabledError, error_info ''provider_disabled'' ''config'' False True ''medium'' ''stop_action'' False),
     (ProviderNotFoundError, error_info ''provider_not_found'' ''config'' False True ''medium'' ''stop_action'' False),
     (TargetNotFoundError, error_info ''target_not_found'' ''config'' False True ''medium'' ''stop_action'' False),
     (UnsupportedCapabilityError, error_info ''unsupported_capability'' ''provider'' False True ''medium'' ''stop_action'' False),
     (ProviderTimeoutError, error_info ''provider_timeout'' ''network'' True True ''medium'' ''retry_allowed'' False),
     (ProviderTLSVerificationError, error_info ''provider_tls_verification'' ''network'' False True ''high'' ''stop_action'' False),
     (ProviderAuthenticationRequiredError, error_info ''provider_authentication_required'' ''credential'' False False ''high'' ''stop_action'' True),
     (ProviderAuthenticationFailedError, error_info ''provider_authentication_failed'' ''credential'' False False ''high'' ''stop_action'' True),
     (ProviderAuthorizationError, error_info ''provider_authorization'' ''credential'' False False ''high'' ''stop_action'' True),
     (ProviderConnectionError, error_info ''provider_connection'' ''network'' True True ''medium'' ''retry_allowed'' False),
     (ProviderProtocolError, error_info ''provider_protocol'' ''protocol'' False True ''medium'' ''stop_action'' False),
     (PiKVMFingerprintMismatchError, error_info ''provider_protocol'' ''protocol'' False True ''medium'' ''stop_action'' False),
     (RedfishFingerprintMismatchError, error_info ''provider_protocol'' ''protocol'' False True ''medium'' ''stop_action'' False),
     (ProviderResponseValidationError, error_info ''provider_response_validation'' ''protocol'' False True ''medium'' ''stop_action'' False),
     (ProviderRateLimitedError, error_info ''provider_rate_limited'' ''provider'' True True ''medium'' ''retry_allowed'' False),
     (ProviderUnsafeOperationError, error_info ''provider_unsafe_operation'' ''safety'' False True ''critical'' ''stop_session'' False),
     (ProviderMutationBlockedError, error_info ''provider_mutation_blocked'' ''safety'' False True ''critical'' ''stop_action'' False),
     (ProviderSecretRequiredError, error_info ''provider_secret_required'' ''credential'' False False ''high'' ''stop_action'' True),
     (ProviderConfigError, error_info ''provider_config'' ''config'' False True ''medium'' ''stop_action'' False)]"

definition provider_error_info_of :: "exn_class \<Rightarrow> provider_error_info" where
  "provider_error_info_of c =
     dict_get_or PROVIDER_ERROR_INFOS c (error_info ''provider_error'' ''provider'' False True ''medium'' ''stop_action'' False)"

definition DEFAULT_MESSAGES :: "(exn_class, string) dict" where
  "DEFAULT_MESSAGES =
    [(ProviderDisabledError, ''provider is disabled''),
     (ProviderNotFoundError, ''provider not found''),
     (TargetNotFoundError, ''target not found''),
     (UnsupportedCapabilityError, ''unsupported capability''),
     (ProviderTimeoutError, ''provider timeout''),
     (ProviderTLSVerificationError, ''provider TLS verification failed''),
     (ProviderAuthenticationRequiredError, ''provider authentication required''),
     (ProviderAuthenticationFailedError, ''provider authentication failed''),
     (ProviderAuthorizationError, ''provider authorization failed''),
     (ProviderConnectionError, ''provider connection failed''),
     (ProviderProtocolError, ''provider protocol error''),
     (PiKVMFingerprintMismatchError, ''provider protocol error''),
     (RedfishFingerprintMismatchError, ''provider protocol error''),
     (ProviderResponseValidationError, ''provider response validation failed''),
     (ProviderRateLimitedError, ''provider rate limited''),
     (ProviderUnsafeOperationError, ''provider unsafe operation blocked''),
     (ProviderMutationBlockedError, ''provider mutation blocked''),
     (ProviderSecretRequiredError, ''provider secret reference required''),
     (ProviderConfigError, ''provider config error'')]"

definition error_default_message :: "exn_class \<Rightarrow> string" where
  "error_default_message c = dict_get_or DEFAULT_MESSAGES c ''provider error''"

definition make_provider_error :: "exn_class \<Rightarrow> string option \<Rightarrow> exn" where
  "make_provider_error c m = Exn c (text_or m (error_default_message c))"

definition ERROR_TEXT_FRAGMENTS :: "string list" where
  "ERROR_TEXT_FRAGMENTS = [''password'', ''token'', ''secret'', ''credential'']"

definition mentions_secret :: "string \<Rightarrow> bool" where
  "mentions_secret s = list_ex (contains (str_lower s)) ERROR_TEXT_FRAGMENTS"

definition redact_error_text :: "string \<Rightarrow> string" where
  "redact_error_text s = (if mentions_secret s then REDACTED else s)"

definition public_message :: "exn \<Rightarrow> string" where
  "public_message e =
     (if ei_safe_to_show (provider_error_info_of (exn_class_of e)) then redact_error_text (exn_text e)
      else error_default_message (exn_class_of e))"

definition to_provider_result ::
    "exn \<Rightarrow> string option \<Rightarrow> provider_request \<Rightarrow> string \<Rightarrow> string \<Rightarrow> provider_result" where
  "to_provider_result e detail r provider_id provider_type =
     (let i = provider_error_info_of (exn_class_of e) in
      (base_result False provider_id (prq_capability r) (prq_action r) (prq_target_id r) False (public_message e)
         [(''error'', pdict [(''code'', PStr (ei_code i)), (''category'', PStr (ei_category i)),
            (''audit_severity'', PStr (ei_audit_severity i)), (''stop_behavior'', PStr (ei_stop_behavior i)),
            (''approval_could_resolve'', PBool (ei_approval_could_resolve i))])])
      \<lparr>prs_provider_type := Some provider_type, prs_error_code := Some (ei_code i),
       prs_error_message := Some (public_message e), prs_retryable := ei_retryable i,
       prs_warnings := (if or_empty detail \<noteq> [] \<and> ei_safe_to_show i then [redact_error_text (or_empty detail)] else [])\<rparr>)"

text \<open>What a caller is shown of an error never mentions a secret, unless it is a default text.\<close>

lemma redacted_error_clean: "\<not> mentions_secret (redact_error_text s)"
  by (simp add: redact_error_text_def) (simp add: mentions_secret_def ERROR_TEXT_FRAGMENTS_def REDACTED_def
      str_lower_def lower_char_def is_ascii_upper_def)

lemma public_message_clean: "\<not> mentions_secret (public_message e) \<or> public_message e = error_default_message (exn_class_of e)"
  by (simp add: public_message_def redacted_error_clean)

lemma every_error_info:
  assumes "list_all P (map snd PROVIDER_ERROR_INFOS)" "P (error_info ''provider_error'' ''provider'' False True ''medium'' ''stop_action'' False)"
  shows "P (provider_error_info_of c)"
  using assms unfolding provider_error_info_of_def dict_get_or_def list_all_iff
  by (fastforce split: option.split dest: map_of_SomeD)

lemma credential_errors_hidden:
  assumes "ei_category (provider_error_info_of c) = ''credential''"
  shows "public_message (Exn c m) = error_default_message c"
proof -
  have "ei_category (provider_error_info_of c) = ''credential'' \<longrightarrow> \<not> ei_safe_to_show (provider_error_info_of c)"
    by (rule every_error_info) (simp_all add: PROVIDER_ERROR_INFOS_def error_info_def)
  with assms show ?thesis by (simp add: public_message_def)
qed

section \<open>The transport policy\<close>

record transport_policy =
  tp_connect_timeout :: rat
  tp_read_timeout :: rat
  tp_total_timeout :: rat
  tp_max_response_bytes :: int
  tp_max_retries :: int
  tp_tls_verify :: bool
  tp_allow_insecure_tls :: bool
  tp_allowed_methods :: "string list"
  tp_follow_redirects :: bool
  tp_expected_content_types :: "string list"

definition default_transport_policy :: transport_policy where
  "default_transport_policy =
     \<lparr>tp_connect_timeout = 2, tp_read_timeout = 5, tp_total_timeout = 10, tp_max_response_bytes = 1048576,
      tp_max_retries = 0, tp_tls_verify = True, tp_allow_insecure_tls = False, tp_allowed_methods = [''GET''],
      tp_follow_redirects = False, tp_expected_content_types = [''application/json'']\<rparr>"

definition make_transport_policy :: "transport_policy \<Rightarrow> transport_policy res" where
  "make_transport_policy p =
     (let refuse = raise TransportPolicyError in
      if tp_connect_timeout p \<le> 0 then refuse ''connect timeout must be positive''
      else if tp_read_timeout p \<le> 0 then refuse ''read timeout must be positive''
      else if tp_total_timeout p \<le> 0 then refuse ''total timeout must be positive''
      else if tp_total_timeout p < tp_connect_timeout p then refuse ''total timeout cannot be less than connect timeout''
      else if tp_max_response_bytes p \<le> 0 then refuse ''max response size must be positive''
      else if tp_max_retries p < 0 then refuse ''max retries cannot be negative''
      else if \<not> tp_tls_verify p \<and> \<not> tp_allow_insecure_tls p then refuse ''insecure TLS requires explicit override''
      else if tp_allowed_methods p = [] then refuse ''at least one method must be allowed''
      else Inr (p\<lparr>tp_allowed_methods := map str_upper (tp_allowed_methods p)\<rparr>))"

definition policy_allows_method :: "transport_policy \<Rightarrow> string \<Rightarrow> bool" where
  "policy_allows_method p m \<longleftrightarrow> str_upper m \<in> set (tp_allowed_methods p)"

definition RETRYABLE_ERROR_CODES :: "string list" where
  "RETRYABLE_ERROR_CODES = [''provider_timeout'', ''provider_connection'', ''provider_rate_limited'']"

definition UNSAFE_CAPABILITY_PREFIXES :: "string list" where
  "UNSAFE_CAPABILITY_PREFIXES =
     [''power.'', ''media.'', ''boot.'', ''bios.'', ''firmware.'', ''storage.'', ''network.'', ''bmc.'',
      ''secrets.'', ''input.'', ''runtime.'']"

definition should_retry :: "transport_policy \<Rightarrow> string \<Rightarrow> string \<Rightarrow> bool" where
  "should_retry p error_code capability \<longleftrightarrow>
     \<not> tp_max_retries p \<le> 0 \<and> starts_with capability ''observe.'' \<and>
     \<not> list_ex (starts_with capability) UNSAFE_CAPABILITY_PREFIXES \<and> error_code \<in> set RETRYABLE_ERROR_CODES"

lemma default_policy_ok: "make_transport_policy default_transport_policy = Inr default_transport_policy"
  by (simp add: make_transport_policy_def default_transport_policy_def Let_def str_upper_def upper_char_def is_ascii_lower_def)

lemma policy_tls: "make_transport_policy p = Inr q \<Longrightarrow> tp_tls_verify q \<or> tp_allow_insecure_tls q"
  by (auto simp: make_transport_policy_def Let_def split: if_splits)

lemma retry_observes_only: "should_retry p e c \<Longrightarrow> starts_with c ''observe.''"
  by (simp add: should_retry_def)

text \<open>The codes that may be retried are those of the errors marked retryable.\<close>

lemma retryable_codes:
  "ei_retryable (provider_error_info_of c) \<longleftrightarrow> ei_code (provider_error_info_of c) \<in> set RETRYABLE_ERROR_CODES"
  by (rule every_error_info) (simp_all add: PROVIDER_ERROR_INFOS_def error_info_def RETRYABLE_ERROR_CODES_def)

section \<open>Paths and screenshot artifacts\<close>

text \<open>
  A POSIX path as \<open>pathlib\<close> keeps it: its root and its parts. Resolving a path reads the file system
  and is a parameter, which answers with the parts of the resolved path.
\<close>

fun split_on :: "char \<Rightarrow> string \<Rightarrow> string list" where
  "split_on sep [] = [[]]"
| "split_on sep (c # cs) =
     (if c = sep then [] # split_on sep cs
      else (case split_on sep cs of [] \<Rightarrow> [[c]] | p # ps \<Rightarrow> (c # p) # ps))"

definition path_root :: "string \<Rightarrow> string" where
  "path_root s =
     (if starts_with s ''//'' \<and> \<not> starts_with s ''///'' then ''//'' else if starts_with s ''/'' then ''/'' else [])"

definition path_parts :: "string \<Rightarrow> string list" where
  "path_parts s = filter (\<lambda>p. p \<noteq> [] \<and> p \<noteq> ''.'') (split_on CHR ''/'' s)"

definition path_text :: "string \<Rightarrow> string" where
  "path_text s =
     (let t = path_root s @ str_join ''/'' (path_parts s) in if t = [] then ''.'' else t)"

definition is_absolute :: "string \<Rightarrow> bool" where
  "is_absolute s \<longleftrightarrow> path_root s \<noteq> []"

definition inside_path :: "string list \<Rightarrow> string list \<Rightarrow> bool" where
  "inside_path p base \<longleftrightarrow> take (length base) p = base"

record artifact_policy =
  ap_root :: string
  ap_allow_repo_paths :: bool
  ap_sensitivity :: string

definition make_artifact_policy :: "artifact_policy \<Rightarrow> artifact_policy res" where
  "make_artifact_policy p =
     (if \<not> is_absolute (ap_root p) then raise ArtifactPolicyError ''screenshot artifact root must be explicit''
      else Inr (p\<lparr>ap_root := path_text (ap_root p)\<rparr>))"

definition validate_artifact_path ::
    "(string \<Rightarrow> string list) \<Rightarrow> artifact_policy \<Rightarrow> string option \<Rightarrow> unit res" where
  "validate_artifact_path resolve p repo_root =
     (case repo_root of
        None \<Rightarrow> Inr ()
      | Some repo \<Rightarrow>
          if ap_allow_repo_paths p then Inr ()
          else if inside_path (resolve (ap_root p)) (resolve repo)
          then raise ArtifactPolicyError ''screenshot artifacts must not default into tracked repo paths''
          else Inr ())"

definition artifact_policy_metadata ::
    "artifact_policy \<Rightarrow> string \<Rightarrow> string \<Rightarrow> string \<Rightarrow> string \<Rightarrow> int \<Rightarrow> params res" where
  "artifact_policy_metadata p provider_id target_id artifact_name content_type byte_length =
     (if byte_length < 0 then raise ArtifactPolicyError ''screenshot artifact byte length cannot be negative''
      else if target_id \<noteq> [] \<and> contains artifact_name target_id
      then raise ArtifactPolicyError ''screenshot artifact name must not include target id''
      else if provider_id \<noteq> [] \<and> contains artifact_name provider_id
      then raise ArtifactPolicyError ''screenshot artifact name must not include provider id''
      else Inr
        [(''kind'', PStr ''screenshot''), (''sensitivity'', PStr (ap_sensitivity p)),
         (''artifact_root'', PStr (ap_root p)), (''artifact_name'', PStr artifact_name),
         (''content_type'', PStr content_type), (''byte_length'', PInt byte_length),
         (''provider_id'', PStr provider_id), (''target_id'', PStr REDACTED), (''raw_bytes_included'', PBool False)])"

section \<open>Gates before live work\<close>

record preflight_request =
  pf_provider_type :: string
  pf_target_id :: string
  pf_live_enabled :: bool
  pf_external_config_path :: "string option"
  pf_credential_ref :: "string option"
  pf_audit_configured :: bool
  pf_approval_configured :: bool
  pf_artifact_path :: "string option"
  pf_tls_reviewed :: bool
  pf_timeout_reviewed :: bool
  pf_smoke_acknowledged :: bool
  pf_ci_mode :: bool
  pf_test_mode :: bool
  pf_committed_enabled :: bool
  pf_capabilities :: "string list"
  pf_repo_root :: "string option"
  pf_provider_id :: "string option"

definition make_preflight_request :: "preflight_request \<Rightarrow> preflight_request" where
  "make_preflight_request r = r\<lparr>pf_provider_type := str_lower (str_strip (pf_provider_type r))\<rparr>"

record preflight_result =
  pf_blockers :: "string list"
  pf_checks :: "string list"

definition OBSERVE_ONLY_PROVIDER_TYPES :: "string list" where
  "OBSERVE_ONLY_PROVIDER_TYPES = [''pikvm'', ''redfish'']"

text \<open>\<open>Path(p).expanduser()\<close> replaces a leading home directory, which is a parameter.\<close>

definition absolute_path_blocker :: "(string \<Rightarrow> string) \<Rightarrow> string \<Rightarrow> string \<Rightarrow> string option" where
  "absolute_path_blocker expanduser p label =
     (if is_absolute (expanduser p) then None else Some (label @ '' must be absolute''))"

definition artifact_path_blocker ::
    "(string \<Rightarrow> string) \<Rightarrow> (string \<Rightarrow> string list res) \<Rightarrow> string \<Rightarrow> string option \<Rightarrow> string option res" where
  "artifact_path_blocker expanduser resolve p repo_root =
     (case absolute_path_blocker expanduser p ''artifact path'' of
        Some b \<Rightarrow> Inr (Some b)
      | None \<Rightarrow>
          (case repo_root of
             None \<Rightarrow> Inr None
           | Some repo \<Rightarrow>
               (case bind_res (resolve (expanduser p)) (\<lambda>a. map_sum id (\<lambda>r. (a, r)) (resolve repo)) of
                  Inl e \<Rightarrow> if exn_class_of e = OSError then Inr (Some ''artifact path cannot be resolved'') else Inl e
                | Inr (a, r) \<Rightarrow>
                    Inr (if inside_path a r then Some ''artifact path must not point inside the repository'' else None))))"

text \<open>A check is passed, with what it notes, or adds a blocker.\<close>

definition gate :: "bool \<Rightarrow> string \<Rightarrow> string \<Rightarrow> preflight_result" where
  "gate ok check blocker =
     (if ok then \<lparr>pf_blockers = [], pf_checks = [check]\<rparr> else \<lparr>pf_blockers = [blocker], pf_checks = []\<rparr>)"

definition blocked_if :: "bool \<Rightarrow> string \<Rightarrow> preflight_result" where
  "blocked_if b blocker = \<lparr>pf_blockers = (if b then [blocker] else []), pf_checks = []\<rparr>"

definition gate_option :: "string option \<Rightarrow> string \<Rightarrow> preflight_result" where
  "gate_option b check =
     (case b of None \<Rightarrow> gate True check [] | Some blocker \<Rightarrow> gate False check blocker)"

definition join_gates :: "preflight_result list \<Rightarrow> preflight_result" where
  "join_gates gs = \<lparr>pf_blockers = concat (map pf_blockers gs), pf_checks = concat (map pf_checks gs)\<rparr>"

definition observe_capability :: "string \<Rightarrow> bool" where
  "observe_capability c \<longleftrightarrow> starts_with c ''observe.'' \<or> c = ''provider.status''"

definition run_live_provider_preflight ::
    "(string \<Rightarrow> string) \<Rightarrow> (string \<Rightarrow> string list res) \<Rightarrow> preflight_request \<Rightarrow> preflight_result res" where
  "run_live_provider_preflight expanduser resolve r =
     bind_res (case or_empty (pf_artifact_path r) of
                 [] \<Rightarrow> Inr []
               | p \<Rightarrow> map_sum id (\<lambda>b. [gate_option b ''artifact path is outside repository''])
                       (artifact_path_blocker expanduser resolve p (pf_repo_root r))) (\<lambda>artifact.
     let unsafe = filter (\<lambda>c. \<not> observe_capability c) (pf_capabilities r);
         path = or_empty (pf_external_config_path r)
     in Inr (join_gates (
       [gate (pf_provider_type r \<in> set OBSERVE_ONLY_PROVIDER_TYPES) ''provider type is observe-only candidate''
          ''unsupported live provider type'',
        gate (pf_target_id r \<noteq> []) ''target id provided'' ''target id is required'',
        blocked_if (pf_ci_mode r) ''CI mode blocks live provider preflight'',
        blocked_if (pf_test_mode r) ''test mode blocks live provider preflight'',
        gate (\<not> pf_committed_enabled r) ''committed config does not enable live provider''
          ''committed provider config must not enable live provider'',
        gate (pf_live_enabled r) ''external live-provider enablement acknowledged''
          ''live provider must be explicitly enabled outside defaults'',
        gate_option (if path = [] then Some ''external config path is required''
                     else absolute_path_blocker expanduser path ''external config path'')
          ''external config path supplied'',
        gate (or_empty (pf_credential_ref r) \<noteq> []) ''credential_ref present and not resolved''
          ''credential_ref is required'',
        gate (pf_audit_configured r) ''audit backend configured'' ''audit backend is required'',
        gate (pf_approval_configured r) ''approval transport configured'' ''approval transport is required'',
        blocked_if (pf_provider_type r = ''pikvm'' \<and> or_empty (pf_artifact_path r) = [])
          ''artifact path is required for PiKVM screen/screenshot providers''] @ artifact @
       [gate (pf_tls_reviewed r) ''TLS policy reviewed'' ''TLS policy review is required'',
        gate (pf_timeout_reviewed r) ''timeout policy reviewed'' ''timeout policy review is required'',
        gate (pf_smoke_acknowledged r) ''manual smoke gate acknowledged'' ''manual smoke gate must be acknowledged'',
        gate (unsafe = []) ''capability set is observe-only''
          (''observe-only preflight cannot include mutating capabilities: '' @ str_join '', '' (sort unsafe))])))"

definition preflight_ok :: "preflight_result \<Rightarrow> bool" where
  "preflight_ok x \<longleftrightarrow> pf_blockers x = []"

definition preflight_to_dict :: "preflight_request \<Rightarrow> preflight_result \<Rightarrow> params" where
  "preflight_to_dict r x =
     [(''status'', PStr (if preflight_ok x then ''ok'' else ''blocked'')),
      (''provider_type'', PStr (pf_provider_type r)), (''provider_id'', pyopt (pf_provider_id r)),
      (''target_id'', PStr (pf_target_id r)), (''ok'', PBool (preflight_ok x)),
      (''blockers'', PList (map PStr (pf_blockers x))), (''checks'', PList (map PStr (pf_checks x)))]"

lemma gate_blockers [simp]:
  "pf_blockers (gate ok c b) = [] \<longleftrightarrow> ok" "pf_blockers (blocked_if x b) = [] \<longleftrightarrow> \<not> x"
  "pf_blockers (gate_option v c) = [] \<longleftrightarrow> v = None"
  by (simp_all add: gate_def blocked_if_def gate_option_def split: option.split)

lemma join_gates_ok: "preflight_ok (join_gates gs) \<longleftrightarrow> (\<forall>g \<in> set gs. pf_blockers g = [])"
  by (simp add: preflight_ok_def join_gates_def)

text \<open>What a passed preflight means.\<close>

lemma preflight_passes:
  assumes "run_live_provider_preflight expanduser resolve r = Inr x" "preflight_ok x"
  shows "pf_provider_type r \<in> set OBSERVE_ONLY_PROVIDER_TYPES" "\<not> pf_ci_mode r" "\<not> pf_test_mode r"
    "\<not> pf_committed_enabled r" "pf_live_enabled r" "pf_audit_configured r" "pf_approval_configured r"
    "pf_tls_reviewed r" "pf_timeout_reviewed r" "pf_smoke_acknowledged r"
    "list_all observe_capability (pf_capabilities r)" "or_empty (pf_credential_ref r) \<noteq> []"
proof -
  let ?unsafe = "filter (\<lambda>c. \<not> observe_capability c) (pf_capabilities r)"
  obtain before artifact behind where x: "x = join_gates (before @ artifact @ behind)" and
    first: "list_all (\<lambda>g. pf_blockers g = []) before \<longrightarrow>
      pf_provider_type r \<in> set OBSERVE_ONLY_PROVIDER_TYPES \<and> \<not> pf_ci_mode r \<and> \<not> pf_test_mode r \<and>
      \<not> pf_committed_enabled r \<and> pf_live_enabled r \<and> or_empty (pf_credential_ref r) \<noteq> [] \<and>
      pf_audit_configured r \<and> pf_approval_configured r" and
    last: "list_all (\<lambda>g. pf_blockers g = []) behind \<longrightarrow>
      pf_tls_reviewed r \<and> pf_timeout_reviewed r \<and> pf_smoke_acknowledged r \<and> ?unsafe = []"
    using assms(1) unfolding run_live_provider_preflight_def bind_res_Inr_iff Let_def sum.inject
    by (elim exE conjE) (rule that, erule sym, simp_all)
  have ok: "pf_provider_type r \<in> set OBSERVE_ONLY_PROVIDER_TYPES \<and> \<not> pf_ci_mode r \<and> \<not> pf_test_mode r \<and>
    \<not> pf_committed_enabled r \<and> pf_live_enabled r \<and> pf_audit_configured r \<and> pf_approval_configured r \<and>
    pf_tls_reviewed r \<and> pf_timeout_reviewed r \<and> pf_smoke_acknowledged r \<and>
    ?unsafe = [] \<and> or_empty (pf_credential_ref r) \<noteq> []"
    using assms(2) first last by (simp add: x join_gates_ok list_all_iff)
  then show "pf_provider_type r \<in> set OBSERVE_ONLY_PROVIDER_TYPES" "\<not> pf_ci_mode r" "\<not> pf_test_mode r"
    "\<not> pf_committed_enabled r" "pf_live_enabled r" "pf_audit_configured r" "pf_approval_configured r"
    "pf_tls_reviewed r" "pf_timeout_reviewed r" "pf_smoke_acknowledged r" "or_empty (pf_credential_ref r) \<noteq> []"
    by simp_all
  from ok show "list_all observe_capability (pf_capabilities r)" by (simp add: filter_empty_conv list_all_iff)
qed

section \<open>The offline transport\<close>

record transport_request =
  trq_method :: string
  trq_path :: string
  trq_params :: params
  trq_timeout :: "rat option"

record fake_transport =
  ft_allowed :: "string list"
  ft_routes :: "(string \<times> string, params) dict"
  ft_calls :: "transport_request list"

definition new_fake_transport :: "((string \<times> string) \<times> params) list \<Rightarrow> string list \<Rightarrow> fake_transport" where
  "new_fake_transport routes allowed =
     \<lparr>ft_allowed = map str_upper allowed,
      ft_routes = dict_of (map (\<lambda>((m, p), b). ((str_upper m, p), b)) routes) [], ft_calls = []\<rparr>"

definition fake_request ::
    "string \<Rightarrow> string \<Rightarrow> params \<Rightarrow> rat option \<Rightarrow> (fake_transport, params) op" where
  "fake_request m p ps timeout t =
     (let meth = str_upper m in
      if meth \<notin> set (ft_allowed t)
      then (raise TransportMethodNotAllowedError (''Method '' @ meth @ '' is not allowed by fake transport''), t)
      else
        let t1 = t\<lparr>ft_calls := ft_calls t @ [\<lparr>trq_method = meth, trq_path = p, trq_params = ps, trq_timeout = timeout\<rparr>]\<rparr>
        in case dict_get (ft_routes t) (meth, p) of
             None \<Rightarrow> (raise TransportRouteNotFoundError (''No fake route for '' @ meth @ '' '' @ p), t1)
           | Some body \<Rightarrow> (Inr body, t1))"

lemma fake_request_calls:
  assumes "fake_request m p ps timeout t = (x, t')"
  shows "ft_calls t' = ft_calls t \<and> (\<exists>e. x = Inl e) \<or>
    str_upper m \<in> set (ft_allowed t) \<and>
    ft_calls t' = ft_calls t @ [\<lparr>trq_method = str_upper m, trq_path = p, trq_params = ps, trq_timeout = timeout\<rparr>]"
    "ft_routes t' = ft_routes t" "ft_allowed t' = ft_allowed t"
  using assms by (auto simp: fake_request_def Let_def raise_def split: if_splits option.splits)

section \<open>Pointer calibration\<close>

text \<open>
  \<open>round(a / b)\<close> on integers \<open>0 \<le> a\<close>, \<open>0 < b\<close>: to the nearest, ties to even. The float quotient is exact
  enough for this as long as \<open>b < 2 ^ 36\<close> and the quotient is at most 65535: half-way between two
  integers is at least \<open>1 / (2 * b)\<close> away unless it is hit exactly.
\<close>

definition PIKVM_ABSOLUTE_MAX :: int where
  "PIKVM_ABSOLUTE_MAX = 65535"

definition round_quotient :: "int \<Rightarrow> int \<Rightarrow> int" where
  "round_quotient a b =
     (let q = a div b; r = a mod b in
      if 2 * r < b then q else if 2 * r > b then q + 1 else if even q then q else q + 1)"

definition make_calibration :: "int \<Rightarrow> int \<Rightarrow> (int \<times> int) res" where
  "make_calibration width height =
     (if width \<le> 1 \<or> height \<le> 1
      then raise ValueError ''screenshot calibration requires width and height greater than 1''
      else Inr (width, height))"

definition calibrated :: "int \<Rightarrow> int \<Rightarrow> int" where
  "calibrated extent x = round_quotient (min (max x 0) (extent - 1) * PIKVM_ABSOLUTE_MAX) (extent - 1)"

definition map_point :: "int \<times> int \<Rightarrow> int \<Rightarrow> int \<Rightarrow> params" where
  "map_point c x y =
     [(''absolute_x'', PInt (calibrated (fst c) x)), (''absolute_y'', PInt (calibrated (snd c) y))]"

lemma round_quotient_exact: "0 < b \<Longrightarrow> round_quotient (k * b) b = k"
  by (simp add: round_quotient_def)

lemma round_quotient_near:
  assumes "0 < b"
  shows "2 * a - b \<le> 2 * (round_quotient a b * b)" "2 * (round_quotient a b * b) \<le> 2 * a + b"
proof -
  define m where "m = a div b * b"
  define r where "r = a mod b"
  have a: "a = m + r" "0 \<le> r" "r < b" using assms by (simp_all add: m_def r_def)
  have up: "(a div b + 1) * b = m + b" by (simp add: m_def algebra_simps)
  consider "2 * r \<le> b" "round_quotient a b * b = m" | "b \<le> 2 * r" "round_quotient a b * b = m + b"
    unfolding round_quotient_def Let_def m_def [symmetric] r_def [symmetric] using up m_def
    by (cases "2 * r < b"; cases "2 * r > b"; cases "even (a div b)") auto
  then show "2 * a - b \<le> 2 * (round_quotient a b * b)" "2 * (round_quotient a b * b) \<le> 2 * a + b"
    using a by (cases; simp)+
qed

lemma round_quotient_mono:
  assumes "0 < b" "a \<le> c"
  shows "round_quotient a b \<le> round_quotient c b"
proof (rule ccontr)
  assume "\<not> ?thesis"
  then have gt: "round_quotient c b + 1 \<le> round_quotient a b" by simp
  have "2 * (round_quotient c b * b) + 2 * b \<le> 2 * (round_quotient a b * b)"
    using mult_right_mono [OF gt, of b] assms(1) by (simp add: algebra_simps)
  with round_quotient_near [OF assms(1), of a] round_quotient_near [OF assms(1), of c] assms(2)
  have "a = c" by linarith
  with gt show False by simp
qed

text \<open>Coordinates stay in the range of the device, the corners map to the ends, and order is kept.\<close>

lemma calibrated_range:
  assumes "1 < extent"
  shows "0 \<le> calibrated extent x" "calibrated extent x \<le> PIKVM_ABSOLUTE_MAX"
    "x \<le> 0 \<Longrightarrow> calibrated extent x = 0" "extent - 1 \<le> x \<Longrightarrow> calibrated extent x = PIKVM_ABSOLUTE_MAX"
    "x \<le> y \<Longrightarrow> calibrated extent x \<le> calibrated extent y"
proof -
  have mono: "calibrated extent x \<le> calibrated extent y" if "x \<le> y" for x y
    unfolding calibrated_def using that assms
    by (intro round_quotient_mono mult_right_mono) (auto simp: PIKVM_ABSOLUTE_MAX_def)
  have low: "calibrated extent x = 0" if "x \<le> 0" for x
    using that assms round_quotient_exact [of "extent - 1" 0] by (simp add: calibrated_def max_def)
  have high: "calibrated extent x = PIKVM_ABSOLUTE_MAX" if "extent - 1 \<le> x" for x
  proof -
    have "min (max x 0) (extent - 1) = extent - 1" using that assms by simp
    then show ?thesis
      using assms round_quotient_exact [of "extent - 1" PIKVM_ABSOLUTE_MAX] by (simp add: calibrated_def mult.commute)
  qed
  show "x \<le> 0 \<Longrightarrow> calibrated extent x = 0" "extent - 1 \<le> x \<Longrightarrow> calibrated extent x = PIKVM_ABSOLUTE_MAX"
    "x \<le> y \<Longrightarrow> calibrated extent x \<le> calibrated extent y"
    using low high mono by blast+
  show "0 \<le> calibrated extent x"
    using mono [of "min x 0" x] low [of "min x 0"] by simp
  show "calibrated extent x \<le> PIKVM_ABSOLUTE_MAX"
    using mono [of x "max x (extent - 1)"] high [of "max x (extent - 1)"] by simp
qed

end
