(* ===== verification/LiveTransports.thy ===== *)
theory LiveTransports
  imports MutationGate ProviderSafety
begin

text \<open>
  The boundaries to live hardware: \<open>providers/pikvm_transport.py\<close> and \<open>providers/redfish_transport.py\<close>
  (target configuration, certificate pinning, redaction, the read-only transports) and
  \<open>providers/pikvm_mutation_transport.py\<close>, \<open>providers/redfish_mutation_transport.py\<close> (the gated mutating
  calls). The TLS probe, the clock, the client that is built and the HTTP exchange are parameters.
\<close>

section \<open>Certificates\<close>

fun pairs :: "string \<Rightarrow> string list" where
  "pairs (a # b # s) = [a, b] # pairs s"
| "pairs s = (if s = [] then [] else [s])"

definition normalize_cert_fingerprint :: "string \<Rightarrow> string res" where
  "normalize_cert_fingerprint s =
     (let compact = str_lower (filter is_hex_char s) in
      if length compact \<noteq> 64
      then raise ProviderProtocolError ''PiKVM cert_fingerprint must be a SHA-256 fingerprint''
      else Inr (str_join '':'' (pairs compact)))"

section \<open>Redaction of observations\<close>

definition TARGET_SENSITIVE_KEYS :: "string list" where
  "TARGET_SENSITIVE_KEYS = [''hostname'', ''host'', ''ip'', ''address'', ''target'', ''url'']"

definition raw_bytes_key :: "string \<Rightarrow> bool" where
  "raw_bytes_key k \<longleftrightarrow>
     str_lower k \<noteq> ''raw_bytes_included'' \<and>
     (contains (str_lower k) ''raw_bytes'' \<or> str_lower k \<in> {''bytes'', ''image_bytes''})"

definition target_key :: "string \<Rightarrow> bool" where
  "target_key k \<longleftrightarrow> list_ex (contains (str_lower k)) TARGET_SENSITIVE_KEYS"

fun redact_observe_payload :: "bool \<Rightarrow> pyval \<Rightarrow> pyval" where
  "redact_observe_payload fc (PDict d) =
     red_value (redact_value fc [] [] (pdict (dict_of (map (\<lambda>(k, v).
       (key_text k, if raw_bytes_key (key_text k) \<or> target_key (key_text k) then PStr REDACTED
                    else redact_observe_payload fc v)) d) [])))"
| "redact_observe_payload fc v = red_value (redact_value fc [] [] v)"

definition observed :: "params \<Rightarrow> pyval" where
  "observed d = redact_observe_payload False (pdict d)"

text \<open>\<open>dict(redact(payload))\<close>: the redaction of a mapping is a mapping.\<close>

fun dict_entries :: "pyval \<Rightarrow> params" where
  "dict_entries (PDict d) = dict_of (map (\<lambda>(k, v). (key_text k, v)) d) []"
| "dict_entries v = []"

section \<open>Configuration of a target\<close>

record live_config =
  lc_base_url :: string
  lc_cert_fingerprint :: "string option"
  lc_verify_ssl :: bool
  lc_port :: int
  lc_connect_timeout :: rat
  lc_read_timeout :: rat

definition protocol_error :: "string \<Rightarrow> 'a res" where
  "protocol_error m = raise ProviderProtocolError m"

definition has_pin :: "live_config \<Rightarrow> bool" where
  "has_pin c \<longleftrightarrow> or_empty (lc_cert_fingerprint c) \<noteq> []"

definition make_pikvm_config :: "live_config \<Rightarrow> live_config res" where
  "make_pikvm_config c =
     (if \<not> starts_with (lc_base_url c) ''https://'' then protocol_error ''PiKVM live transport requires https base_url''
      else if lc_port c \<le> 0 then protocol_error ''PiKVM port must be positive''
      else if \<not> lc_verify_ssl c \<and> \<not> has_pin c
      then protocol_error ''verify_ssl=false is allowed only with cert_fingerprint pinning''
      else Inr c)"

definition remove_prefix :: "string \<Rightarrow> string \<Rightarrow> string" where
  "remove_prefix s p = (if starts_with s p then drop (length p) s else s)"

definition url_netloc :: "live_config \<Rightarrow> string" where
  "url_netloc c = fst (str_partition CHR ''/'' (remove_prefix (lc_base_url c) ''https://''))"

definition live_host :: "live_config \<Rightarrow> string" where
  "live_host c = fst (str_partition CHR '':'' (url_netloc c))"

text \<open>\<open>str.isdigit\<close> also holds of the superscript digits, which \<open>int\<close> refuses.\<close>

definition str_isdigit :: "string \<Rightarrow> bool" where
  "str_isdigit s \<longleftrightarrow> s \<noteq> [] \<and> list_all (\<lambda>c. is_digit c \<or> code_of c \<in> {178, 179, 185}) s"

definition int_of_digits :: "string \<Rightarrow> int res" where
  "int_of_digits s =
     (case digits_value s 0 of
        Some n \<Rightarrow> Inr n | None \<Rightarrow> raise ValueError (''invalid literal for int() with base 10: '' @ py_repr False s))"

definition make_redfish_config :: "live_config \<Rightarrow> live_config res" where
  "make_redfish_config c =
     (if \<not> starts_with (lc_base_url c) ''https://'' then protocol_error ''Redfish live transport requires https base_url''
      else if lc_port c \<le> 0 then protocol_error ''Redfish port must be positive''
      else if \<not> lc_verify_ssl c \<and> \<not> has_pin c
      then protocol_error ''verify_ssl=false is allowed only with cert_fingerprint pinning''
      else (case str_partition CHR '':'' (url_netloc c) of
         (h, False, t) \<Rightarrow> Inr c
       | (h, True, port_text) \<Rightarrow>
           let refused = protocol_error ''Redfish base_url port must be a positive integer'' in
           if \<not> str_isdigit port_text then refused
           else bind_res (int_of_digits port_text) (\<lambda>n. if n \<le> 0 then refused else Inr (c\<lparr>lc_port := n\<rparr>))))"

definition RAW_SECRET_FRAGMENTS :: "string list" where
  "RAW_SECRET_FRAGMENTS = [''password='', ''token='', ''secret='']"

text \<open>\<open>PiKVMCredentialRef\<close>, \<open>RedfishCredentialRef\<close>; the name of the adapter is in the message.\<close>

definition make_credential_ref :: "string \<Rightarrow> string \<Rightarrow> string res" where
  "make_credential_ref name s =
     (if s = [] then raise ProviderAuthenticationRequiredError (name @ '' credential_ref is required'')
      else if list_ex (contains (str_lower s)) RAW_SECRET_FRAGMENTS
      then raise ProviderAuthenticationRequiredError (name @ '' transport accepts credential references only, not raw secrets'')
      else Inr s)"

text \<open>The policy a transport has when none is given.\<close>

definition live_policy :: "transport_policy option \<Rightarrow> live_config \<Rightarrow> transport_policy res" where
  "live_policy policy c =
     (case policy of
        Some p \<Rightarrow> Inr p
      | None \<Rightarrow> make_transport_policy
          (default_transport_policy
           \<lparr>tp_read_timeout := lc_read_timeout c, tp_connect_timeout := lc_connect_timeout c,
            tp_tls_verify := lc_verify_ssl c, tp_allow_insecure_tls := \<not> lc_verify_ssl c \<and> has_pin c\<rparr>))"

text \<open>The TLS probe: the fingerprint of the peer's certificate for a host, a port and a timeout.\<close>

type_synonym tls_probe = "string \<Rightarrow> int \<Rightarrow> rat \<Rightarrow> string res"

definition pinned_trust :: "exn_class \<Rightarrow> string \<Rightarrow> tls_probe \<Rightarrow> live_config \<Rightarrow> string res" where
  "pinned_trust mismatch name probe c =
     bind_res (normalize_cert_fingerprint (or_empty (lc_cert_fingerprint c))) (\<lambda>expected.
     bind_res (probe (live_host c) (lc_port c) (lc_connect_timeout c)) (\<lambda>answer.
     bind_res (normalize_cert_fingerprint answer) (\<lambda>observed.
       if observed \<noteq> expected
       then raise mismatch (name @ '' certificate fingerprint mismatch; credentials were not sent'')
       else normalize_cert_fingerprint expected)))"

definition read_preflight_pin :: "exn_class \<Rightarrow> string \<Rightarrow> tls_probe \<Rightarrow> live_config \<Rightarrow> string option res" where
  "read_preflight_pin mismatch name probe c =
     (if \<not> has_pin c then Inr None else map_sum id Some (pinned_trust mismatch name probe c))"

section \<open>The read-only PiKVM transport\<close>

definition is_transport_error :: "exn \<Rightarrow> bool" where
  "is_transport_error e \<longleftrightarrow>
     exn_class_of e \<in> {TransportError, TransportMethodNotAllowedError, TransportRouteNotFoundError}"

text \<open>\<open>try: ... except TransportError\<close>\<close>

definition wrap_transport_error :: "string \<Rightarrow> ('s, 'a) op \<Rightarrow> ('s, 'a) op" where
  "wrap_transport_error m f s =
     (case f s of
        (Inl e, s') \<Rightarrow> (if is_transport_error e then protocol_error m else Inl e, s')
      | (Inr x, s') \<Rightarrow> (Inr x, s'))"

definition validate_required :: "params \<Rightarrow> string list \<Rightarrow> unit res" where
  "validate_required payload required =
     (let missing = filter (\<lambda>k. dict_get payload k = None) required in
      if missing \<noteq> []
      then raise ProviderResponseValidationError
             (''PiKVM fixture response missing required fields: '' @ str_join '', '' missing)
      else Inr ())"

text \<open>An authenticated client: a GET of a path with a timeout, over the state of the connection.\<close>

type_synonym 'h http_get = "string \<Rightarrow> rat \<Rightarrow> ('h, params) op"

definition pikvm_live_get :: "'h http_get \<Rightarrow> transport_policy \<Rightarrow> string \<Rightarrow> string list \<Rightarrow> ('h, params) op" where
  "pikvm_live_get get p path required =
     bind_op (wrap_transport_error ''PiKVM live observe transport error'' (get path (tp_read_timeout p))) (\<lambda>payload.
     bind_op (lift_res (validate_required payload required)) (\<lambda>_.
     ret (dict_entries (observed payload))))"

datatype pikvm_view = PkHealth | PkScreenState | PkScreenshot | PkPowerState | PkBootStatus | PkInventory | PkDeviceInfo

fun pikvm_live_view :: "'h http_get \<Rightarrow> transport_policy \<Rightarrow> pikvm_view \<Rightarrow> ('h, params) op" where
  "pikvm_live_view get p PkHealth = pikvm_live_get get p ''/api/health'' [''health'']"
| "pikvm_live_view get p PkScreenState = pikvm_live_get get p ''/api/screen-state'' [''kind'']"
| "pikvm_live_view get p PkScreenshot =
     bind_op (pikvm_live_get get p ''/api/screenshot-metadata'' [''artifact'', ''raw_bytes_included'']) (\<lambda>payload.
     if dict_get payload ''raw_bytes_included'' = Some (PBool True)
     then throw ProviderResponseValidationError ''PiKVM live screenshot metadata included raw bytes''
     else ret payload)"
| "pikvm_live_view get p PkPowerState = pikvm_live_get get p ''/api/power-state'' [''power_state'']"
| "pikvm_live_view get p PkBootStatus = pikvm_live_get get p ''/api/boot'' [''boot_status'']"
| "pikvm_live_view get p PkInventory = pikvm_live_get get p ''/api/device-info'' [''provider'']"
| "pikvm_live_view get p PkDeviceInfo = pikvm_live_get get p ''/api/device-info'' [''provider'']"

section \<open>The read-only Redfish transport\<close>

record 'h redfish_reader =
  rr_http :: 'h
  rr_cache :: "(string, params) dict"

definition odata_id :: "pyval \<Rightarrow> string option" where
  "odata_id v =
     (case v of
        PDict d \<Rightarrow>
          (case dict_get (dict_entries v) ''@odata.id'' of
             Some (PStr ref) \<Rightarrow> if starts_with ref ''/redfish/'' then Some ref else None
           | _ \<Rightarrow> None)
      | _ \<Rightarrow> None)"

definition read_http :: "'h http_get \<Rightarrow> transport_policy \<Rightarrow> string \<Rightarrow> ('h redfish_reader, params) op" where
  "read_http get p path s =
     (case wrap_transport_error ''Redfish live read transport error'' (get path (tp_read_timeout p)) (rr_http s) of
        (x, h) \<Rightarrow> (x, s\<lparr>rr_http := h\<rparr>))"

text \<open>\<open>_read_json\<close>: raw resources are cached, the others are redacted.\<close>

definition read_raw :: "'h http_get \<Rightarrow> transport_policy \<Rightarrow> string \<Rightarrow> ('h redfish_reader, params) op" where
  "read_raw get p path s =
     (case dict_get (rr_cache s) path of
        Some cached \<Rightarrow> (Inr cached, s)
      | None \<Rightarrow>
          bind_op (read_http get p path) (\<lambda>payload.
          seq_op (modify_op (\<lambda>s. s\<lparr>rr_cache := dict_set path payload (rr_cache s)\<rparr>)) (ret payload)) s)"

definition read_redacted :: "'h http_get \<Rightarrow> transport_policy \<Rightarrow> string \<Rightarrow> ('h redfish_reader, params) op" where
  "read_redacted get p path = bind_op (read_http get p path) (\<lambda>payload. ret (dict_entries (observed payload)))"

definition read_json :: "bool \<Rightarrow> 'h http_get \<Rightarrow> transport_policy \<Rightarrow> string \<Rightarrow> ('h redfish_reader, params) op" where
  "read_json raw = (if raw then read_raw else read_redacted)"

definition REDFISH_SERVICE_ROOT_PATH :: string where
  "REDFISH_SERVICE_ROOT_PATH = ''/redfish/v1/''"

text \<open>\<open>members[0] if members else None\<close> and \<open>list(value)\<close>, on the value of a JSON document.\<close>

definition not_iterable :: "pyval \<Rightarrow> 'a res" where
  "not_iterable v = raise TypeError (type_name v @ '' object is not iterable'')"

fun first_item :: "pyval \<Rightarrow> pyval option res" where
  "first_item (PList xs) = Inr (case xs of [] \<Rightarrow> None | x # _ \<Rightarrow> Some x)"
| "first_item (PTuple xs) = Inr (case xs of [] \<Rightarrow> None | x # _ \<Rightarrow> Some x)"
| "first_item (PStr s) = Inr (case s of [] \<Rightarrow> None | c # _ \<Rightarrow> Some (PStr [c]))"
| "first_item (PDict d) = (if d = [] then Inr None else raise KeyError ''0'')"
| "first_item v = (if py_truthy v then raise TypeError (type_name v @ '' object is not subscriptable'') else Inr None)"

fun py_items :: "pyval \<Rightarrow> pyval list res" where
  "py_items (PList xs) = Inr xs"
| "py_items (PTuple xs) = Inr xs"
| "py_items (PStr s) = Inr (map (\<lambda>c. PStr [c]) s)"
| "py_items (PDict d) = Inr (map (\<lambda>(k, v). PStr (key_text k)) d)"
| "py_items v = not_iterable v"

definition invalid_response :: "string \<Rightarrow> ('s, 'a) op" where
  "invalid_response m = throw ProviderResponseValidationError m"

definition first_member_resource ::
    "'h http_get \<Rightarrow> transport_policy \<Rightarrow> bool \<Rightarrow> string \<Rightarrow> ('h redfish_reader, params) op" where
  "first_member_resource get p raw collection_key =
     bind_op (read_raw get p REDFISH_SERVICE_ROOT_PATH) (\<lambda>service_root.
     case odata_id (dict_get_or service_root collection_key PNone) of
       None \<Rightarrow> invalid_response (''Redfish service root exposes no '' @ collection_key @ '' collection'')
     | Some collection_ref \<Rightarrow>
         bind_op (read_raw get p collection_ref) (\<lambda>collection.
         bind_op (lift_res (first_item (dict_get_or collection ''Members'' (PList [])))) (\<lambda>m.
         case (case m of None \<Rightarrow> None | Some v \<Rightarrow> odata_id v) of
           None \<Rightarrow> invalid_response (''Redfish '' @ collection_key @ '' collection has no members'')
         | Some member_ref \<Rightarrow> read_json raw get p member_ref)))"

definition redfish_summary :: "params \<Rightarrow> params" where
  "redfish_summary d = dict_entries (observed d)"

definition redfish_service_root :: "'h http_get \<Rightarrow> transport_policy \<Rightarrow> ('h redfish_reader, params) op" where
  "redfish_service_root get p = read_redacted get p REDFISH_SERVICE_ROOT_PATH"

definition redfish_manager_status :: "'h http_get \<Rightarrow> transport_policy \<Rightarrow> ('h redfish_reader, params) op" where
  "redfish_manager_status get p = first_member_resource get p False ''Managers''"

definition redfish_status :: "'h http_get \<Rightarrow> transport_policy \<Rightarrow> ('h redfish_reader, params) op" where
  "redfish_status get p =
     bind_op (redfish_service_root get p) (\<lambda>service_root.
     bind_op (redfish_manager_status get p) (\<lambda>manager.
     ret [(''service_root'', pdict service_root), (''manager'', pdict manager)]))"

definition system_resource :: "'h http_get \<Rightarrow> transport_policy \<Rightarrow> ('h redfish_reader, params) op" where
  "system_resource get p = first_member_resource get p True ''Systems''"

definition redfish_power_state :: "'h http_get \<Rightarrow> transport_policy \<Rightarrow> ('h redfish_reader, params) op" where
  "redfish_power_state get p =
     bind_op (system_resource get p) (\<lambda>system.
     ret (redfish_summary [(''power_state'', dict_get_or system ''PowerState'' (PStr ''Unknown''))]))"

definition redfish_boot_status :: "'h http_get \<Rightarrow> transport_policy \<Rightarrow> ('h redfish_reader, params) op" where
  "redfish_boot_status get p =
     bind_op (system_resource get p) (\<lambda>system.
     let boot = dict_entries (dict_get_or system ''Boot'' (pdict [])) in
     ret (redfish_summary
       [(''boot_source_override'', dict_get_or boot ''BootSourceOverrideTarget'' (PStr ''Unknown'')),
        (''boot_source_override_enabled'', dict_get_or boot ''BootSourceOverrideEnabled'' (PStr ''Unknown''))]))"

definition redfish_hardware_inventory :: "'h http_get \<Rightarrow> transport_policy \<Rightarrow> ('h redfish_reader, params) op" where
  "redfish_hardware_inventory get p =
     bind_op (system_resource get p) (\<lambda>system.
     ret (redfish_summary
       [(''system_id'', dict_get_or system ''Id'' PNone), (''name'', dict_get_or system ''Name'' PNone),
        (''manufacturer'', dict_get_or system ''Manufacturer'' PNone), (''model'', dict_get_or system ''Model'' PNone),
        (''bios_version'', dict_get_or system ''BiosVersion'' PNone),
        (''processors'', dict_get_or system ''ProcessorSummary'' (pdict [])),
        (''memory'', dict_get_or system ''MemorySummary'' (pdict [])),
        (''status'', dict_get_or system ''Status'' (pdict []))]))"

definition redfish_sensors :: "'h http_get \<Rightarrow> transport_policy \<Rightarrow> ('h redfish_reader, params) op" where
  "redfish_sensors get p =
     bind_op (first_member_resource get p True ''Chassis'') (\<lambda>chassis.
     case odata_id (dict_get_or chassis ''Thermal'' PNone) of
       Some thermal_ref \<Rightarrow>
         bind_op (read_redacted get p thermal_ref) (\<lambda>thermal.
         bind_op (lift_res (py_items (dict_get_or thermal ''Temperatures'' (PList [])))) (\<lambda>temperatures.
         bind_op (lift_res (py_items (dict_get_or thermal ''Fans'' (PList [])))) (\<lambda>fans.
         ret [(''source'', PStr ''thermal''), (''temperatures'', PList temperatures), (''fans'', PList fans)])))
     | None \<Rightarrow>
         (case odata_id (dict_get_or chassis ''Sensors'' PNone) of
            Some sensors_ref \<Rightarrow>
              bind_op (read_redacted get p sensors_ref) (\<lambda>sensors.
              bind_op (lift_res (py_items (dict_get_or sensors ''Members'' (PList [])))) (\<lambda>items.
              ret [(''source'', PStr ''sensors''), (''sensors'', PList items)]))
          | None \<Rightarrow> invalid_response ''Redfish chassis exposes neither Thermal nor Sensors resources''))"

text \<open>The first log service with entries.\<close>

fun first_entries :: "'h http_get \<Rightarrow> transport_policy \<Rightarrow> pyval list \<Rightarrow> ('h redfish_reader, params) op" where
  "first_entries get p [] = invalid_response ''Redfish manager log services expose no readable Entries''"
| "first_entries get p (m # ms) =
     (case odata_id m of
        None \<Rightarrow> first_entries get p ms
      | Some member_ref \<Rightarrow>
          bind_op (read_raw get p member_ref) (\<lambda>log_service.
          case odata_id (dict_get_or log_service ''Entries'' PNone) of
            None \<Rightarrow> first_entries get p ms
          | Some entries_ref \<Rightarrow>
              bind_op (read_redacted get p entries_ref) (\<lambda>entries.
              bind_op (lift_res (py_items (dict_get_or entries ''Members'' (PList [])))) (\<lambda>events.
              ret [(''log_service_id'', dict_get_or log_service ''Id'' PNone), (''events'', PList events)]))))"

definition redfish_event_logs :: "'h http_get \<Rightarrow> transport_policy \<Rightarrow> ('h redfish_reader, params) op" where
  "redfish_event_logs get p =
     bind_op (first_member_resource get p True ''Managers'') (\<lambda>manager.
     case odata_id (dict_get_or manager ''LogServices'' PNone) of
       None \<Rightarrow> invalid_response ''Redfish manager exposes no LogServices''
     | Some log_services_ref \<Rightarrow>
         bind_op (read_raw get p log_services_ref) (\<lambda>log_services.
         bind_op (lift_res (py_items (dict_get_or log_services ''Members'' (PList [])))) (first_entries get p)))"

text \<open>The mutating verbs of the reader refuse without any exchange.\<close>

definition redfish_reader_refuses :: "string \<Rightarrow> ('h redfish_reader, params) op" where
  "redfish_reader_refuses verb =
     throw ProviderMutationBlockedError (''Redfish live read transport refuses '' @ verb @ ''; no mutating verb is implemented'')"

section \<open>Mutating transports\<close>

text \<open>
  A mutating transport once it is built. The state of its calls holds the ledger of spent handles, the
  number of clock readings, the state of the network, and the trace of what happened: clients built
  (which resolves credentials) and requests sent.
\<close>

record live_transport =
  lt_config :: live_config
  lt_credential_ref :: string
  lt_target_id :: string
  lt_provider_id :: string
  lt_policy :: transport_policy
  lt_trust :: string
  lt_system_path :: string

record live_message =
  lm_handle :: mutation_handle
  lm_method :: string
  lm_path :: string
  lm_body :: params
  lm_timeout :: rat

datatype live_event = ClientBuilt mutation_handle | MessageSent live_message

record 'h live_world =
  lw_spent :: ledger
  lw_ticks :: nat
  lw_http :: 'h
  lw_trace :: "live_event list"

text \<open>
  The parameters: SHA-256, the clock by the number of its reading, the factory of the client, and the
  exchange of one message.
\<close>

record 'h live_env =
  le_sha256 :: "string \<Rightarrow> string"
  le_now :: "nat \<Rightarrow> datetime"
  le_build :: "live_transport \<Rightarrow> mutation_handle \<Rightarrow> ('h, unit) op"
  le_send :: "live_message \<Rightarrow> ('h, params) op"

definition on_http :: "('h, 'a) op \<Rightarrow> ('h live_world, 'a) op" where
  "on_http f w = (case f (lw_http w) of (x, h) \<Rightarrow> (x, w\<lparr>lw_http := h\<rparr>))"

definition note_event :: "live_event \<Rightarrow> ('h live_world, unit) op" where
  "note_event ev = modify_op (\<lambda>w. w\<lparr>lw_trace := lw_trace w @ [ev]\<rparr>)"

definition live_authorize ::
    "'h live_env \<Rightarrow> live_transport \<Rightarrow> candidate \<Rightarrow> string \<Rightarrow> params \<Rightarrow> ('h live_world, mutation_handle) op" where
  "live_authorize e t c capability parameters w =
     (case require_mutation_clearance (le_sha256 e) c capability parameters (lt_target_id t) (lt_provider_id t)
             (le_now e (lw_ticks w)) (lw_spent w) of
        (x, spent) \<Rightarrow> (x, w\<lparr>lw_ticks := Suc (lw_ticks w), lw_spent := spent\<rparr>))"

definition live_build :: "'h live_env \<Rightarrow> live_transport \<Rightarrow> mutation_handle \<Rightarrow> ('h live_world, unit) op" where
  "live_build e t h = seq_op (note_event (ClientBuilt h)) (on_http (le_build e t h))"

definition live_send ::
    "string \<Rightarrow> 'h live_env \<Rightarrow> live_transport \<Rightarrow> mutation_handle \<Rightarrow> string \<Rightarrow> string \<Rightarrow> params \<Rightarrow>
     ('h live_world, params) op" where
  "live_send name e t h verb path body =
     (let m = \<lparr>lm_handle = h, lm_method = verb, lm_path = path, lm_body = body,
               lm_timeout = tp_read_timeout (lt_policy t)\<rparr>
      in seq_op (note_event (MessageSent m))
           (wrap_transport_error (name @ '' live mutation transport error'') (on_http (le_send e m))))"

definition live_summary :: "string \<Rightarrow> params \<Rightarrow> params" where
  "live_summary capability payload =
     [(''capability'', PStr capability), (''performed'', PBool True), (''response'', observed payload)]"

definition missing_identity :: "string \<Rightarrow> string \<Rightarrow> bool" where
  "missing_identity target_id provider_id \<longleftrightarrow> target_id = [] \<or> provider_id = []"

definition build_transport ::
    "exn_class \<Rightarrow> string \<Rightarrow> tls_probe \<Rightarrow> live_config \<Rightarrow> string \<Rightarrow> string \<Rightarrow> string \<Rightarrow> string res \<Rightarrow>
     transport_policy option \<Rightarrow> live_transport res" where
  "build_transport mismatch name probe c credential_ref target_id provider_id system_path policy =
     (if \<not> has_pin c
      then blocked (''mutating '' @ name @ '' transport requires a pinned certificate fingerprint; no pin means no mutation'')
      else if missing_identity target_id provider_id
      then blocked (''mutating '' @ name @ '' transport requires target and provider identity'')
      else
        bind_res system_path (\<lambda>path.
        bind_res (live_policy policy c) (\<lambda>pol.
        bind_res (pinned_trust mismatch name probe c) (\<lambda>trust.
        Inr \<lparr>lt_config = c, lt_credential_ref = credential_ref, lt_target_id = target_id,
             lt_provider_id = provider_id, lt_policy = pol, lt_trust = trust, lt_system_path = path\<rparr>))))"

subsection \<open>PiKVM\<close>

definition PIKVM_LIVE_MUTATING_OPERATIONS :: "string list" where
  "PIKVM_LIVE_MUTATING_OPERATIONS = [''power.on'', ''power.force_off'', ''power.power_cycle'']"

definition PIKVM_ATX_PATHS :: "(string, string) dict" where
  "PIKVM_ATX_PATHS =
     [(''power.on'', ''/api/atx/power/on''), (''power.force_off'', ''/api/atx/power/off''),
      (''power.power_cycle'', ''/api/atx/power/cycle'')]"

definition new_pikvm_mutation_transport ::
    "tls_probe \<Rightarrow> live_config \<Rightarrow> string \<Rightarrow> string \<Rightarrow> string \<Rightarrow> transport_policy option \<Rightarrow> live_transport res" where
  "new_pikvm_mutation_transport probe c credential_ref target_id provider_id policy =
     build_transport PiKVMFingerprintMismatchError ''PiKVM'' probe c credential_ref target_id provider_id (Inr []) policy"

text \<open>\<open>TABLE[capability]\<close>\<close>

definition table_get :: "(string, 'v) dict \<Rightarrow> string \<Rightarrow> ('s, 'v) op" where
  "table_get d k = lift_res (case dict_get d k of Some v \<Rightarrow> Inr v | None \<Rightarrow> raise KeyError k)"

definition pikvm_atx :: "'h live_env \<Rightarrow> live_transport \<Rightarrow> string \<Rightarrow> candidate \<Rightarrow> ('h live_world, params) op" where
  "pikvm_atx e t capability c =
     (if capability \<notin> set PIKVM_LIVE_MUTATING_OPERATIONS
      then lift_res (blocked ''PiKVM live mutation transport does not implement this verb'')
      else
        bind_op (live_authorize e t c capability []) (\<lambda>h.
        seq_op (live_build e t h)
        (bind_op (table_get PIKVM_ATX_PATHS capability) (\<lambda>path.
        bind_op (live_send ''PiKVM'' e t h ''POST'' path []) (\<lambda>payload.
        ret (live_summary capability payload))))))"

subsection \<open>Redfish\<close>

definition REDFISH_LIVE_MUTATING_OPERATIONS :: "string list" where
  "REDFISH_LIVE_MUTATING_OPERATIONS =
     [''power.on'', ''power.force_off'', ''power.power_cycle'', ''boot.override'']"

definition REDFISH_LIVE_RESET_TYPES :: "(string, string) dict" where
  "REDFISH_LIVE_RESET_TYPES =
     [(''power.on'', ''On''), (''power.force_off'', ''ForceOff''), (''power.power_cycle'', ''PowerCycle'')]"

definition REDFISH_BOOT_OVERRIDE_TARGETS :: "string list" where
  "REDFISH_BOOT_OVERRIDE_TARGETS = [''None'', ''Pxe'', ''Hdd'', ''Cd'', ''Usb'', ''BiosSetup'']"

definition rstrip_slash :: "string \<Rightarrow> string" where
  "rstrip_slash s = rev (dropWhile (\<lambda>c. c = CHR ''/'') (rev s))"

definition validated_system_path :: "string \<Rightarrow> string res" where
  "validated_system_path s =
     (if s = [] \<or> \<not> starts_with s ''/redfish/'' \<or> contains s ''..'' \<or> contains s ''?'' \<or> contains s ''#''
      then protocol_error ''Redfish mutation transport requires an absolute /redfish/ system path''
      else Inr (rstrip_slash s))"

definition new_redfish_mutation_transport ::
    "tls_probe \<Rightarrow> live_config \<Rightarrow> string \<Rightarrow> string \<Rightarrow> string \<Rightarrow> string \<Rightarrow> transport_policy option \<Rightarrow> live_transport res" where
  "new_redfish_mutation_transport probe c credential_ref target_id provider_id system_path policy =
     build_transport RedfishFingerprintMismatchError ''Redfish'' probe c credential_ref target_id provider_id
       (validated_system_path system_path) policy"

definition redfish_authorize ::
    "'h live_env \<Rightarrow> live_transport \<Rightarrow> string \<Rightarrow> params \<Rightarrow> candidate \<Rightarrow> ('h live_world, mutation_handle) op" where
  "redfish_authorize e t capability parameters c =
     (if capability \<notin> set REDFISH_LIVE_MUTATING_OPERATIONS
      then lift_res (blocked ''Redfish live mutation transport does not implement this verb'')
      else live_authorize e t c capability parameters)"

definition redfish_mutate ::
    "'h live_env \<Rightarrow> live_transport \<Rightarrow> mutation_handle \<Rightarrow> string \<Rightarrow> string \<Rightarrow> params \<Rightarrow> ('h live_world, params) op" where
  "redfish_mutate e t h verb path body = seq_op (live_build e t h) (live_send ''Redfish'' e t h verb path body)"

definition redfish_reset :: "'h live_env \<Rightarrow> live_transport \<Rightarrow> string \<Rightarrow> candidate \<Rightarrow> ('h live_world, params) op" where
  "redfish_reset e t capability c =
     bind_op (redfish_authorize e t capability [] c) (\<lambda>h.
     bind_op (table_get REDFISH_LIVE_RESET_TYPES capability) (\<lambda>reset_type.
     bind_op (redfish_mutate e t h ''POST'' (lt_system_path t @ ''/Actions/ComputerSystem.Reset'')
                [(''ResetType'', PStr reset_type)]) (\<lambda>payload.
     ret (live_summary capability payload))))"

definition redfish_set_boot_override ::
    "'h live_env \<Rightarrow> live_transport \<Rightarrow> string \<Rightarrow> candidate \<Rightarrow> ('h live_world, params) op" where
  "redfish_set_boot_override e t boot_target c =
     (if boot_target \<notin> set REDFISH_BOOT_OVERRIDE_TARGETS
      then lift_res (blocked ''boot override target is outside the supported allowlist'')
      else
        bind_op (redfish_authorize e t ''boot.override'' [(''boot_target'', PStr boot_target)] c) (\<lambda>h.
        bind_op (redfish_mutate e t h ''PATCH'' (lt_system_path t)
                   [(''Boot'', pdict [(''BootSourceOverrideTarget'', PStr boot_target),
                                    (''BootSourceOverrideEnabled'', PStr ''Once'')])]) (\<lambda>payload.
        ret (live_summary ''boot.override'' payload))))"

section \<open>Sessions\<close>

text \<open>The public verbs of both transports; every call hands over something as its clearance.\<close>

datatype live_call = PowerOn candidate | PowerForceOff candidate | PowerCycle candidate | SetBootOverride string candidate

fun pikvm_call :: "'h live_env \<Rightarrow> live_transport \<Rightarrow> live_call \<Rightarrow> ('h live_world, params) op" where
  "pikvm_call e t (PowerOn c) = pikvm_atx e t ''power.on'' c"
| "pikvm_call e t (PowerForceOff c) = pikvm_atx e t ''power.force_off'' c"
| "pikvm_call e t (PowerCycle c) = pikvm_atx e t ''power.power_cycle'' c"
| "pikvm_call e t (SetBootOverride b c) = throw AttributeError ''set_boot_override''"

fun redfish_call :: "'h live_env \<Rightarrow> live_transport \<Rightarrow> live_call \<Rightarrow> ('h live_world, params) op" where
  "redfish_call e t (PowerOn c) = redfish_reset e t ''power.on'' c"
| "redfish_call e t (PowerForceOff c) = redfish_reset e t ''power.force_off'' c"
| "redfish_call e t (PowerCycle c) = redfish_reset e t ''power.power_cycle'' c"
| "redfish_call e t (SetBootOverride b c) = redfish_set_boot_override e t b c"

datatype live_kind = PiKVM | Redfish

fun transport_call :: "live_kind \<Rightarrow> 'h live_env \<Rightarrow> live_transport \<Rightarrow> live_call \<Rightarrow> ('h live_world, params) op" where
  "transport_call PiKVM = pikvm_call"
| "transport_call Redfish = redfish_call"

text \<open>An exception ends one call only.\<close>

definition run_calls :: "(live_call \<Rightarrow> ('h live_world, 'a) op) \<Rightarrow> live_call list \<Rightarrow> 'h live_world \<Rightarrow> 'h live_world" where
  "run_calls f cs w = fold (\<lambda>c w. snd (f c w)) cs w"

section \<open>What a call claims and may send\<close>

fun call_clearance :: "live_call \<Rightarrow> candidate" where
  "call_clearance (PowerOn c) = c"
| "call_clearance (PowerForceOff c) = c"
| "call_clearance (PowerCycle c) = c"
| "call_clearance (SetBootOverride b c) = c"

fun call_capability :: "live_call \<Rightarrow> string" where
  "call_capability (PowerOn c) = ''power.on''"
| "call_capability (PowerForceOff c) = ''power.force_off''"
| "call_capability (PowerCycle c) = ''power.power_cycle''"
| "call_capability (SetBootOverride b c) = ''boot.override''"

fun call_parameters :: "live_call \<Rightarrow> params" where
  "call_parameters (SetBootOverride b c) = [(''boot_target'', PStr b)]"
| "call_parameters c = []"

text \<open>The method, path and body of the one message of a call; a PiKVM has no boot override.\<close>

fun pikvm_message :: "live_call \<Rightarrow> (string \<times> string \<times> params) option" where
  "pikvm_message (PowerOn c) = Some (''POST'', ''/api/atx/power/on'', [])"
| "pikvm_message (PowerForceOff c) = Some (''POST'', ''/api/atx/power/off'', [])"
| "pikvm_message (PowerCycle c) = Some (''POST'', ''/api/atx/power/cycle'', [])"
| "pikvm_message (SetBootOverride b c) = None"

fun reset_message :: "string \<Rightarrow> string \<Rightarrow> (string \<times> string \<times> params) option" where
  "reset_message path reset_type = Some (''POST'', path @ ''/Actions/ComputerSystem.Reset'', [(''ResetType'', PStr reset_type)])"

fun redfish_message :: "string \<Rightarrow> live_call \<Rightarrow> (string \<times> string \<times> params) option" where
  "redfish_message path (PowerOn c) = reset_message path ''On''"
| "redfish_message path (PowerForceOff c) = reset_message path ''ForceOff''"
| "redfish_message path (PowerCycle c) = reset_message path ''PowerCycle''"
| "redfish_message path (SetBootOverride b c) =
     (if b \<in> set REDFISH_BOOT_OVERRIDE_TARGETS
      then Some (''PATCH'', path, [(''Boot'', pdict [(''BootSourceOverrideTarget'', PStr b),
                                                   (''BootSourceOverrideEnabled'', PStr ''Once'')])])
      else None)"

fun call_message :: "live_kind \<Rightarrow> live_transport \<Rightarrow> live_call \<Rightarrow> (string \<times> string \<times> params) option" where
  "call_message PiKVM t c = pikvm_message c"
| "call_message Redfish t c = redfish_message (lt_system_path t) c"

fun event_handle :: "live_event \<Rightarrow> mutation_handle" where
  "event_handle (ClientBuilt h) = h"
| "event_handle (MessageSent m) = lm_handle m"

definition sent_messages :: "live_event list \<Rightarrow> live_message list" where
  "sent_messages evs = List.map_filter (\<lambda>ev. case ev of MessageSent m \<Rightarrow> Some m | ClientBuilt h \<Rightarrow> None) evs"

definition sent_ids :: "live_event list \<Rightarrow> string list" where
  "sent_ids evs = map (\<lambda>m. mh_request_id (lm_handle m)) (sent_messages evs)"

text \<open>The handle of the call passes every gate in the state the call is made in.\<close>

definition authorised :: "'h live_env \<Rightarrow> live_transport \<Rightarrow> live_call \<Rightarrow> mutation_handle \<Rightarrow> 'h live_world \<Rightarrow> bool" where
  "authorised e t c h w \<longleftrightarrow>
     call_clearance c = Handle h \<and>
     fits (le_sha256 e) h (call_capability c) (call_parameters c) (lt_target_id t) (lt_provider_id t) \<and>
     instant (le_now e (lw_ticks w)) < instant (mh_expires_at h) \<and> mh_request_id h \<notin> set (lw_spent w)"

definition says :: "live_message \<Rightarrow> string \<times> string \<times> params" where
  "says m = (lm_method m, lm_path m, lm_body m)"

text \<open>The events of one authorised call.\<close>

definition call_events :: "mutation_handle \<Rightarrow> (string \<times> string \<times> params) option \<Rightarrow> live_event list \<Rightarrow> bool" where
  "call_events h message evs \<longleftrightarrow>
     evs = [ClientBuilt h] \<or>
     (\<exists>m. evs = [ClientBuilt h, MessageSent m] \<and> lm_handle m = h \<and> message = Some (says m))"

text \<open>
  The contract of a gated transport: a call is refused and leaves no trace, or it is authorised, spends
  its handle, and then builds a client and sends at most the message it may send.
\<close>

locale gated_transport =
  fixes env :: "'h live_env" and t :: live_transport
    and call :: "live_call \<Rightarrow> ('h live_world, 'a) op"
    and message :: "live_call \<Rightarrow> (string \<times> string \<times> params) option"
  assumes call_step: "call c w = (x, w') \<Longrightarrow>
      lw_trace w' = lw_trace w \<and> lw_spent w' = lw_spent w \<and> (\<exists>e. x = Inl e) \<or>
      (\<exists>h evs. authorised env t c h w \<and> lw_spent w' = mh_request_id h # lw_spent w \<and>
         lw_trace w' = lw_trace w @ evs \<and> call_events h (message c) evs)"
begin

definition allowed_event :: "live_call list \<Rightarrow> 'h live_world \<Rightarrow> live_event \<Rightarrow> bool" where
  "allowed_event cs w ev \<longleftrightarrow>
     (\<exists>xs c ys. cs = xs @ c # ys \<and> authorised env t c (event_handle ev) (run_calls call xs w) \<and>
        (\<forall>m. ev = MessageSent m \<longrightarrow> message c = Some (says m)))"

lemma run_snoc: "run_calls call (cs @ [c]) w = snd (call c (run_calls call cs w))"
  by (simp add: run_calls_def)

lemma allowed_later: "allowed_event cs w ev \<Longrightarrow> allowed_event (cs @ [c]) w ev"
  unfolding allowed_event_def by (metis append_Cons append_assoc)

lemma session:
  "\<exists>evs ids. lw_trace (run_calls call cs w) = lw_trace w @ evs \<and> lw_spent (run_calls call cs w) = ids @ lw_spent w \<and>
     distinct ids \<and> set ids \<inter> set (lw_spent w) = {} \<and> (\<forall>ev \<in> set evs. allowed_event cs w ev) \<and>
     set (sent_ids evs) \<subseteq> set ids \<and> distinct (sent_ids evs)"
proof (induction cs rule: rev_induct)
  case Nil
  then show ?case by (simp add: run_calls_def sent_ids_def sent_messages_def map_filter_def)
next
  case (snoc c cs)
  let ?v = "run_calls call cs w"
  from snoc obtain evs ids where ih: "lw_trace ?v = lw_trace w @ evs" "lw_spent ?v = ids @ lw_spent w"
    "distinct ids" "set ids \<inter> set (lw_spent w) = {}" "\<forall>ev \<in> set evs. allowed_event cs w ev"
    "set (sent_ids evs) \<subseteq> set ids" "distinct (sent_ids evs)" by blast
  have earlier: "\<forall>ev \<in> set evs. allowed_event (cs @ [c]) w ev" using ih(5) allowed_later by blast
  obtain x w' where step: "call c ?v = (x, w')" by (cases "call c ?v")
  have run: "run_calls call (cs @ [c]) w = w'" by (simp add: run_snoc step)
  from call_step [OF step] show ?case
  proof
    assume "lw_trace w' = lw_trace ?v \<and> lw_spent w' = lw_spent ?v \<and> (\<exists>e. x = Inl e)"
    with ih earlier show ?thesis unfolding run by (intro exI [of _ evs] exI [of _ ids]) simp
  next
    assume "\<exists>h new. authorised env t c h ?v \<and> lw_spent w' = mh_request_id h # lw_spent ?v \<and>
         lw_trace w' = lw_trace ?v @ new \<and> call_events h (message c) new"
    then obtain h new where new: "authorised env t c h ?v" "lw_spent w' = mh_request_id h # lw_spent ?v"
      "lw_trace w' = lw_trace ?v @ new" "call_events h (message c) new" by blast
    have fresh: "mh_request_id h \<notin> set ids" "mh_request_id h \<notin> set (lw_spent w)"
      using new(1) ih(2) by (auto simp: authorised_def)
    have allowed: "\<forall>ev \<in> set new. allowed_event (cs @ [c]) w ev"
      using new(1,4) unfolding allowed_event_def call_events_def by fastforce
    have sent: "sent_ids (evs @ new) = sent_ids evs \<or> sent_ids (evs @ new) = sent_ids evs @ [mh_request_id h]"
      using new(4) by (auto simp: call_events_def sent_ids_def sent_messages_def map_filter_def)
    have "set (sent_ids (evs @ new)) \<subseteq> set (mh_request_id h # ids) \<and> distinct (sent_ids (evs @ new))"
      using sent ih(6,7) fresh by auto
    then show ?thesis
      using ih(1-4) new(2,3) fresh earlier allowed unfolding run
      by (intro exI [of _ "evs @ new"] exI [of _ "mh_request_id h # ids"]) auto
  qed
qed

end

lemma live_authorize_cases:
  assumes "live_authorize e t c capability parameters w = (x, w')"
  obtains (refused) err where "x = Inl err" "lw_trace w' = lw_trace w" "lw_spent w' = lw_spent w"
    | (passed) h where "x = Inr h" "c = Handle h"
        "fits (le_sha256 e) h capability parameters (lt_target_id t) (lt_provider_id t)"
        "instant (le_now e (lw_ticks w)) < instant (mh_expires_at h)" "mh_request_id h \<notin> set (lw_spent w)"
        "lw_spent w' = mh_request_id h # lw_spent w" "lw_trace w' = lw_trace w"
  using assms by (auto simp: live_authorize_def require_Inr split: prod.splits sum.splits dest: require_Inl)
    (metis require_Inl require_Inr sumE)

lemma live_build_effect:
  "live_build e t h w = (x, w') \<Longrightarrow> lw_spent w' = lw_spent w \<and> lw_trace w' = lw_trace w @ [ClientBuilt h]"
  by (auto simp: live_build_def note_event_def on_http_def split: prod.splits)

lemma live_send_effect:
  "live_send name e t h verb path body w = (x, w') \<Longrightarrow>
     lw_spent w' = lw_spent w \<and>
     (\<exists>m. lw_trace w' = lw_trace w @ [MessageSent m] \<and> lm_handle m = h \<and> says m = (verb, path, body))"
  by (auto simp: live_send_def note_event_def on_http_def wrap_transport_error_def says_def Let_def
      split: prod.splits sum.splits if_splits)

definition traced :: "mutation_handle \<Rightarrow> (string \<times> string \<times> params) option \<Rightarrow> 'h live_world \<Rightarrow> 'h live_world \<Rightarrow> bool" where
  "traced h message w w' \<longleftrightarrow>
     lw_spent w' = lw_spent w \<and> (\<exists>evs. lw_trace w' = lw_trace w @ evs \<and> call_events h message evs)"

lemma pikvm_exchange_traced:
  assumes "seq_op (live_build e t h) (bind_op (live_send name e t h verb path body) (\<lambda>p. ret (g p))) w = (x, w')"
  shows "traced h (Some (verb, path, body)) w w'"
  using assms
  by (fastforce simp: traced_def call_events_def elim!: seq_opE bind_opE dest!: live_build_effect live_send_effect)

lemma redfish_exchange_traced:
  assumes "bind_op (redfish_mutate e t h verb path body) (\<lambda>p. ret (g p)) w = (x, w')"
  shows "traced h (Some (verb, path, body)) w w'"
  using assms
  by (fastforce simp: traced_def call_events_def redfish_mutate_def elim!: seq_opE bind_opE
      dest!: live_build_effect live_send_effect)

lemma authorised_step:
  assumes "bind_op (live_authorize e t (call_clearance c) (call_capability c) ps) k w = (x, w')"
    and ps: "ps = call_parameters c"
    and "\<And>h w1. k h w1 = (x, w') \<Longrightarrow> traced h message w1 w'"
  shows "lw_trace w' = lw_trace w \<and> lw_spent w' = lw_spent w \<and> (\<exists>e. x = Inl e) \<or>
    (\<exists>h evs. authorised e t c h w \<and> lw_spent w' = mh_request_id h # lw_spent w \<and>
       lw_trace w' = lw_trace w @ evs \<and> call_events h message evs)"
  using assms(1)
proof (cases rule: bind_opE)
  case (raised err)
  from raised(1) show ?thesis using raised(2) by (cases rule: live_authorize_cases) simp_all
next
  case (went_on h w1)
  from went_on(1) show ?thesis
  proof (cases rule: live_authorize_cases)
    case (passed h')
    with assms(3) [OF went_on(2)] ps show ?thesis by (fastforce simp: traced_def authorised_def)
  qed simp
qed

lemma table_get_found: "dict_get d k = Some v \<Longrightarrow> bind_op (table_get d k) f = f v"
  by (rule ext) (simp add: table_get_def)

lemma pikvm_atx_eq:
  assumes "dict_get PIKVM_ATX_PATHS capability = Some path"
  shows "pikvm_atx e t capability c =
    bind_op (live_authorize e t c capability []) (\<lambda>h.
    seq_op (live_build e t h) (bind_op (live_send ''PiKVM'' e t h ''POST'' path []) (\<lambda>payload.
    ret (live_summary capability payload))))"
proof -
  have "capability \<in> set PIKVM_LIVE_MUTATING_OPERATIONS"
    using assms by (auto simp: PIKVM_ATX_PATHS_def PIKVM_LIVE_MUTATING_OPERATIONS_def split: if_splits)
  then show ?thesis by (simp add: pikvm_atx_def table_get_found [OF assms])
qed

lemma redfish_reset_eq:
  assumes "dict_get REDFISH_LIVE_RESET_TYPES capability = Some reset_type"
  shows "redfish_reset e t capability c =
    bind_op (live_authorize e t c capability []) (\<lambda>h.
    bind_op (redfish_mutate e t h ''POST'' (lt_system_path t @ ''/Actions/ComputerSystem.Reset'')
               [(''ResetType'', PStr reset_type)]) (\<lambda>payload.
    ret (live_summary capability payload)))"
proof -
  have "capability \<in> set REDFISH_LIVE_MUTATING_OPERATIONS"
    using assms by (auto simp: REDFISH_LIVE_RESET_TYPES_def REDFISH_LIVE_MUTATING_OPERATIONS_def split: if_splits)
  then show ?thesis by (simp add: redfish_reset_def redfish_authorize_def table_get_found [OF assms])
qed

lemma refused_call:
  "lift_res (blocked m) w = (x, w') \<Longrightarrow> lw_trace w' = lw_trace w \<and> lw_spent w' = lw_spent w \<and> (\<exists>e. x = Inl e)"
  by (auto simp: blocked_def raise_def)

lemma pikvm_step:
  assumes "pikvm_call e t c w = (x, w')"
  shows "lw_trace w' = lw_trace w \<and> lw_spent w' = lw_spent w \<and> (\<exists>e. x = Inl e) \<or>
    (\<exists>h evs. authorised e t c h w \<and> lw_spent w' = mh_request_id h # lw_spent w \<and>
       lw_trace w' = lw_trace w @ evs \<and> call_events h (pikvm_message c) evs)"
proof -
  have atx: ?thesis if "pikvm_call e t c = pikvm_atx e t (call_capability c) (call_clearance c)" "call_parameters c = []"
    "dict_get PIKVM_ATX_PATHS (call_capability c) = Some path" "pikvm_message c = Some (''POST'', path, [])" for path
    unfolding that(4)
    by (rule authorised_step [OF assms [unfolded that(1) pikvm_atx_eq [OF that(3)]] that(2) [symmetric]])
      (rule pikvm_exchange_traced)
  show ?thesis
  proof (cases c)
    case (SetBootOverride b d)
    with assms show ?thesis by (auto simp: raise_def)
  qed (use atx in \<open>simp add: PIKVM_ATX_PATHS_def\<close>)+
qed

lemma redfish_step:
  assumes "redfish_call e t c w = (x, w')"
  shows "lw_trace w' = lw_trace w \<and> lw_spent w' = lw_spent w \<and> (\<exists>e. x = Inl e) \<or>
    (\<exists>h evs. authorised e t c h w \<and> lw_spent w' = mh_request_id h # lw_spent w \<and>
       lw_trace w' = lw_trace w @ evs \<and> call_events h (redfish_message (lt_system_path t) c) evs)"
proof -
  have power: ?thesis if "redfish_call e t c = redfish_reset e t (call_capability c) (call_clearance c)"
    "call_parameters c = []" "dict_get REDFISH_LIVE_RESET_TYPES (call_capability c) = Some reset_type"
    "redfish_message (lt_system_path t) c = reset_message (lt_system_path t) reset_type" for reset_type
    unfolding that(4) reset_message.simps
    by (rule authorised_step [OF assms [unfolded that(1) redfish_reset_eq [OF that(3)]] that(2) [symmetric]])
      (rule redfish_exchange_traced)
  show ?thesis
  proof (cases c)
    case (SetBootOverride b d)
    show ?thesis
    proof (cases "b \<in> set REDFISH_BOOT_OVERRIDE_TARGETS")
      case True
      have "''boot.override'' \<in> set REDFISH_LIVE_MUTATING_OPERATIONS" by (simp add: REDFISH_LIVE_MUTATING_OPERATIONS_def)
      with assms True have "bind_op (live_authorize e t (call_clearance c) (call_capability c) (call_parameters c))
        (\<lambda>h. bind_op (redfish_mutate e t h ''PATCH'' (lt_system_path t)
                   [(''Boot'', pdict [(''BootSourceOverrideTarget'', PStr b),
                                    (''BootSourceOverrideEnabled'', PStr ''Once'')])]) (\<lambda>payload.
        ret (live_summary ''boot.override'' payload))) w = (x, w')"
        by (simp add: SetBootOverride redfish_set_boot_override_def redfish_authorize_def)
      from authorised_step [OF this refl redfish_exchange_traced] True show ?thesis by (simp add: SetBootOverride)
    next
      case False
      with assms have "lift_res (blocked ''boot override target is outside the supported allowlist'') w = (x, w')"
        by (simp only: SetBootOverride redfish_call.simps redfish_set_boot_override_def if_True not_False_eq_True)
      then show ?thesis by (rule disjI1 [OF refused_call])
    qed
  qed (use power in \<open>simp add: REDFISH_LIVE_RESET_TYPES_def\<close>)+
qed

interpretation pikvm_live: gated_transport e t "pikvm_call e t" pikvm_message for e t
  by unfold_locales (rule pikvm_step)

interpretation redfish_live: gated_transport e t "redfish_call e t" "redfish_message (lt_system_path t)" for e t
  by unfold_locales (rule redfish_step)

end
