(* ===== verification/LiveProps.thy ===== *)
theory LiveProps
  imports LiveTransports EngineProps
begin

text \<open>
  The properties of the boundary to live hardware: what a mutating transport sends and on whose
  authority, the pinning of certificates, what a reader shows, and the range of pointer coordinates.
\<close>

section \<open>Fingerprints of certificates\<close>

lemma lower_hex: "is_hex_char c \<Longrightarrow> is_hex_char (lower_char c)"
  by (auto simp: is_hex_char_def is_digit_def one_of_def lower_char_def is_ascii_upper_def)

lemma colon_not_hex: "\<not> is_hex_char CHR '':''"
  by (simp add: is_hex_char_def is_digit_def one_of_def)

lemma str_join_concat: "str_join sep (x # xs) = x @ concat (map (\<lambda>y. sep @ y) xs)"
  by (simp add: str_join_def)

lemma concat_pairs: "concat (pairs s) = s"
  by (induction s rule: pairs.induct) auto

lemma filter_joined:
  assumes "\<forall>c \<in> set s. is_hex_char c"
  shows "filter is_hex_char (str_join '':'' (pairs s)) = s"
proof -
  have "filter is_hex_char (str_join '':'' xs) = concat xs" if "\<forall>x \<in> set xs. \<forall>c \<in> set x. is_hex_char c" for xs
    using that
  proof (cases xs)
    case (Cons x ys)
    have "filter is_hex_char (concat (map (\<lambda>y. '':'' @ y) ys)) = concat ys" if "\<forall>y \<in> set ys. \<forall>c \<in> set y. is_hex_char c" for ys
      using that by (induction ys) (simp_all add: colon_not_hex filter_id_conv)
    with Cons that show ?thesis by (simp add: str_join_concat filter_id_conv)
  qed (simp add: str_join_def)
  moreover have "\<forall>x \<in> set (pairs s). \<forall>c \<in> set x. is_hex_char c"
    using assms concat_pairs [of s] by (metis (full_types) UnionI image_eqI set_concat)
  ultimately show ?thesis by (simp add: concat_pairs)
qed

lemma lower_idem: "str_lower (str_lower s) = str_lower s"
  by (simp add: str_lower_def lower_char_def is_ascii_upper_def)

lemma normalize_Inr:
  assumes "normalize_cert_fingerprint s = Inr f"
  shows "filter is_hex_char f = str_lower (filter is_hex_char s)" "normalize_cert_fingerprint f = Inr f"
proof -
  let ?c = "str_lower (filter is_hex_char s)"
  have f: "f = str_join '':'' (pairs ?c)" "length ?c = 64"
    using assms by (auto simp: normalize_cert_fingerprint_def Let_def split: if_splits)
  have hex: "\<forall>c \<in> set ?c. is_hex_char c" by (auto simp: str_lower_def lower_hex)
  from filter_joined [OF this] show "filter is_hex_char f = ?c" by (simp add: f(1))
  then show "normalize_cert_fingerprint f = Inr f"
    using f by (simp add: normalize_cert_fingerprint_def lower_idem)
qed

lemma pinned_trust_Inr:
  assumes "pinned_trust mismatch name probe c = Inr trust"
  obtains answer where "probe (live_host c) (lc_port c) (lc_connect_timeout c) = Inr answer"
    "normalize_cert_fingerprint answer = Inr trust"
    "normalize_cert_fingerprint (or_empty (lc_cert_fingerprint c)) = Inr trust"
proof -
  from assms obtain expected answer observed where
    e: "normalize_cert_fingerprint (or_empty (lc_cert_fingerprint c)) = Inr expected"
    and a: "probe (live_host c) (lc_port c) (lc_connect_timeout c) = Inr answer"
      "normalize_cert_fingerprint answer = Inr observed" "observed = expected"
    and t: "normalize_cert_fingerprint expected = Inr trust"
    unfolding pinned_trust_def bind_res_Inr_iff by (elim exE conjE) (rule that, auto split: if_splits)
  have "trust = expected" using t normalize_Inr(2) [OF e] by simp
  with a e show thesis by (intro that [of answer]) simp_all
qed

section \<open>What a reader shows\<close>

text \<open>
  \<open>hosts_hidden v\<close>: in every mapping reached through mappings, what names a host or holds raw bytes is
  redacted.
\<close>

definition sensitive_key :: "string \<Rightarrow> bool" where
  "sensitive_key k \<longleftrightarrow> raw_bytes_key k \<or> target_key k"

fun hosts_hidden :: "pyval \<Rightarrow> bool" where
  "hosts_hidden (PDict d) =
     (\<forall>(k, v) \<in> set d. if sensitive_key (key_text k) then v = PStr REDACTED else hosts_hidden v)"
| "hosts_hidden v = True"

definition shown :: "string \<Rightarrow> pyval \<Rightarrow> bool" where
  "shown k v \<longleftrightarrow> (if sensitive_key k then v = PStr REDACTED else hosts_hidden v)"

lemma hid_not_sensitive: "is_hid_text_key k \<Longrightarrow> \<not> sensitive_key k"
  by (auto simp: is_hid_text_key_def HID_TEXT_KEYS_def sensitive_key_def raw_bytes_key_def target_key_def
      TARGET_SENSITIVE_KEYS_def)

lemma redacted_stays: "\<not> is_hid_text_key k \<Longrightarrow> red_value (redact_value fc k path (PStr REDACTED)) = PStr REDACTED"
  by (simp add: redact_value.simps no_pattern_redacted)

lemma hosts_hidden_pdict: "hosts_hidden (pdict d) \<longleftrightarrow> (\<forall>(k, v) \<in> set d. shown k v)"
  by (auto simp: pdict_def shown_def)

lemma redact_keeps_hidden:
  "hosts_hidden v \<Longrightarrow> hosts_hidden (red_value (redact_value fc key path v))"
  "(\<forall>(k, v) \<in> set d. shown (key_text k) v) \<Longrightarrow> \<forall>(k, p, r) \<in> set (redact_fields fc path d). shown k (red_value r)"
  "length (redact_items fc key path i xs) = length xs"
proof (induction fc key path v and fc path d and fc key path i xs
    rule: redact_value_redact_fields_redact_items.induct)
  case (1 fc key path v)
  let ?lists = "str_lower key = ''redactions'' \<and> (case v of PList xs \<Rightarrow> True | _ \<Rightarrow> False)"
  let ?whole = "is_credential_field_key key \<or> str_lower key \<in> set RAW_ARTIFACT_KEYS"
  show ?case
  proof (cases "?lists \<or> ?whole")
    case True
    with "1.prems" show ?thesis by (auto simp: redact_value.simps)
  next
    case plain: False
    then have "\<not> ?lists" "\<not> ?whole" by simp_all
    note IH = "1.IH" [OF this]
    show ?thesis
    proof (cases v)
      case (PStr s)
      have "\<exists>s'. red_value (redact_value fc key path v) = PStr s'"
        using plain PStr hid_value by (auto simp: redact_value.simps)
      then show ?thesis by auto
    next
      case (PDict d)
      have "\<forall>(k, p, r) \<in> set (redact_fields (mapping_full_capture d fc) path d). shown k (red_value r)"
        using "1.prems" PDict by (intro IH(3) [OF PDict]) (auto simp: shown_def)
      then have "\<forall>(k, x) \<in> set (fields_value (redact_fields (mapping_full_capture d fc) path d)). shown k x"
        using fields_value_mem by fastforce
      then show ?thesis using plain PDict by (simp add: redact_value.simps Let_def hosts_hidden_pdict)
    qed (use plain in \<open>simp_all add: redact_value.simps Let_def\<close>)
  qed
next
  case (3 fc path k v kvs)
  have "shown (key_text k) (red_value (redact_value fc (key_text k) (field_path path (key_text k)) v))"
  proof (cases "sensitive_key (key_text k)")
    case True
    with "3.prems" have "v = PStr REDACTED" by (simp add: shown_def)
    with True show ?thesis using redacted_stays hid_not_sensitive by (auto simp: shown_def)
  next
    case False
    with "3.prems" "3.IH"(1) show ?thesis by (auto simp: shown_def Let_def)
  qed
  moreover have "\<forall>(k, p, r) \<in> set (redact_fields fc path kvs). shown k (red_value r)"
    using "3.prems" "3.IH"(2) by (auto simp: Let_def)
  ultimately show ?case by (simp add: Let_def)
qed simp_all

lemma observe_hidden: "hosts_hidden (redact_observe_payload fc v)"
proof (induction fc v rule: redact_observe_payload.induct)
  case (1 fc d)
  let ?f = "\<lambda>(k, v). (key_text k, if raw_bytes_key (key_text k) \<or> target_key (key_text k) then PStr REDACTED
                    else redact_observe_payload fc v)"
  have "shown k v" if "(k, v) \<in> set (dict_of (map ?f d) [])" for k v
    using dict_of_mem [OF that] "1.IH" by (auto simp: shown_def sensitive_key_def)
  then have "hosts_hidden (pdict (dict_of (map ?f d) []))" by (auto simp: hosts_hidden_pdict)
  then show ?case using redact_keeps_hidden(1) by simp
qed (simp_all add: redact_keeps_hidden(1))

lemma observed_entries:
  assumes "(k, v) \<in> set (dict_entries (observed d))"
  shows "shown k v" "leak_free True k v"
proof -
  obtain fs where o: "observed d = pdict (fields_value fs)"
    by (simp add: observed_def pdict_def redact_value.simps is_credential_field_key_def CREDENTIAL_FIELD_KEYS_def
        RAW_ARTIFACT_KEYS_def str_lower_def Let_def)
  have mem: "(k, v) \<in> set (fields_value fs)"
    using dict_of_mem [of k v] assms by (force simp: o pdict_def comp_def split_beta)
  have "hosts_hidden (observed d)" by (simp add: observed_def observe_hidden)
  with mem show "shown k v" by (auto simp: o hosts_hidden_pdict)
  have "leak_free True [] (observed d)"
    by (simp add: observed_def pdict_def redact_leak_free(1))
  with mem show "leak_free True k v"
    by (subst (asm) o, subst (asm) leak_free.simps)
      (auto simp: pdict_def is_credential_field_key_def CREDENTIAL_FIELD_KEYS_def RAW_ARTIFACT_KEYS_def str_lower_def)
qed

lemma pikvm_view_entries:
  assumes "pikvm_live_view get p view h = (Inr d, h')"
  shows "\<exists>payload. d = dict_entries (observed payload)"
proof -
  have get: "\<exists>payload. d = dict_entries (observed payload)" if "pikvm_live_get get p path required h = (Inr d, h')"
    for path required d h'
    using that unfolding pikvm_live_get_def bind_op_def by (auto split: prod.splits sum.splits)
  show ?thesis
    using assms get by (cases view) (auto simp: bind_op_Inr raise_def split: if_splits)
qed

section \<open>Sessions of both transports\<close>

definition allowed_in ::
    "live_kind \<Rightarrow> 'h live_env \<Rightarrow> live_transport \<Rightarrow> live_call list \<Rightarrow> 'h live_world \<Rightarrow> live_event \<Rightarrow> bool" where
  "allowed_in device e t cs w ev \<longleftrightarrow>
     (\<exists>xs c ys. cs = xs @ c # ys \<and>
        authorised e t c (event_handle ev) (run_calls (transport_call device e t) xs w) \<and>
        (\<forall>m. ev = MessageSent m \<longrightarrow> call_message device t c = Some (says m)))"

lemma device_session:
  "\<exists>evs ids. lw_trace (run_calls (transport_call device e t) cs w) = lw_trace w @ evs \<and>
     set ids \<inter> set (lw_spent w) = {} \<and> set (sent_ids evs) \<subseteq> set ids \<and> distinct (sent_ids evs) \<and>
     (\<forall>ev \<in> set evs. allowed_in device e t cs w ev)"
proof (cases device)
  case PiKVM
  have "pikvm_live.allowed_event e t cs w = allowed_in device e t cs w"
    unfolding PiKVM pikvm_live.allowed_event_def allowed_in_def by (simp add: fun_eq_iff)
  with pikvm_live.session [of e t cs w] show ?thesis unfolding PiKVM transport_call.simps by metis
next
  case Redfish
  have "redfish_live.allowed_event e t cs w = allowed_in device e t cs w"
    unfolding Redfish redfish_live.allowed_event_def allowed_in_def by (simp add: fun_eq_iff)
  with redfish_live.session [of e t cs w] show ?thesis unfolding Redfish transport_call.simps by metis
qed

section \<open>Properties\<close>

text \<open>
  C6 (live mutations). Whatever calls are made to a mutating transport, with whatever objects as
  clearances: every client it builds and every message it sends belongs to a call whose handle is bound
  to that capability, target, provider and parameter fingerprint, was unexpired and unspent when the
  call was made; the message is the one of that call; and no two messages go back to one handle, nor to
  a handle spent before.
\<close>

theorem mutations_gated:
  "\<exists>evs. lw_trace (run_calls (transport_call device e t) cs w) = lw_trace w @ evs \<and>
     distinct (sent_ids evs) \<and> set (sent_ids evs) \<inter> set (lw_spent w) = {} \<and>
     (\<forall>ev \<in> set evs. \<exists>xs c ys. cs = xs @ c # ys \<and>
        authorised e t c (event_handle ev) (run_calls (transport_call device e t) xs w) \<and>
        (\<forall>m. ev = MessageSent m \<longrightarrow> call_message device t c = Some (says m)))"
proof -
  let ?w = "run_calls (transport_call device e t) cs w"
  obtain evs ids where s: "lw_trace ?w = lw_trace w @ evs" "set ids \<inter> set (lw_spent w) = {}"
    "set (sent_ids evs) \<subseteq> set ids" "distinct (sent_ids evs)" "\<forall>ev \<in> set evs. allowed_in device e t cs w ev"
    using device_session by blast
  show ?thesis
    by (rule exI [of _ evs], intro conjI s(1,4)) (use s(2,3) in blast, use s(5) in \<open>simp only: allowed_in_def\<close>)
qed

text \<open>How the handles of a session came about: issued for parameters by the ACT verifier \<open>v\<close>.\<close>

definition issued_for ::
    "(string \<Rightarrow> string) \<Rightarrow> (string \<Rightarrow> string) \<Rightarrow> act_verifier \<Rightarrow> clearance_request \<Rightarrow> clearance_response \<Rightarrow> params \<Rightarrow>
     mutation_handle \<Rightarrow> bool" where
  "issued_for H sha512 v q r p h \<longleftrightarrow>
     params_ok p \<and> (\<exists>now. issue_mutation_clearance H (Some q) (Some r) (Some (verify_clearance sha512 v)) now (Some p) = Inr h)"

lemma issued_cleared:
  assumes "issued_for H sha512 v q r p h"
  shows "cp_status r = CLEARED" "cp_tower_id r = Some (JStr (av_tower_id v))" "clearance_bound q r"
    "verify_proof sha512 (av_proof_verifier v) q r = Inr True" "\<not> refused_capability (cp_capability r)"
    "cp_capability r = mh_capability h" "cp_target r = mh_target h" "cp_provider r = mh_provider h"
    "fingerprint_parameters H p = Inr (mh_params_fingerprint h)" "params_ok p"
proof -
  obtain now where i: "issue_mutation_clearance H (Some q) (Some r) (Some (verify_clearance sha512 v)) now (Some p) = Inr h"
    using assms by (auto simp: issued_for_def)
  from i obtain ver where ver: "verify_clearance sha512 v q r now = Inr ver" "cv_valid ver"
    "\<not> refused_capability (cp_capability r)" "cp_capability r = mh_capability h" "cp_target r = mh_target h"
    "cp_provider r = mh_provider h" "fingerprint_parameters H p = Inr (mh_params_fingerprint h)"
    by (rule issue_Inr) auto
  show "cp_status r = CLEARED" "cp_tower_id r = Some (JStr (av_tower_id v))" "clearance_bound q r"
    "verify_proof sha512 (av_proof_verifier v) q r = Inr True" "\<not> refused_capability (cp_capability r)"
    "cp_capability r = mh_capability h" "cp_target r = mh_target h" "cp_provider r = mh_provider h"
    "fingerprint_parameters H p = Inr (mh_params_fingerprint h)" "params_ok p"
    using verify_clearance_valid [OF ver(1,2)] ver assms by (simp_all add: issued_for_def)
qed

lemma gated_session:
  assumes "m \<in> set (sent_messages (lw_trace (run_calls (transport_call device e t) cs w)))" "lw_trace w = []"
  obtains c where "c \<in> set cs" "call_clearance c = Handle (lm_handle m)" "call_message device t c = Some (says m)"
    "fits (le_sha256 e) (lm_handle m) (call_capability c) (call_parameters c) (lt_target_id t) (lt_provider_id t)"
proof -
  let ?w = "run_calls (transport_call device e t) cs w"
  have ev: "MessageSent m \<in> set (lw_trace ?w)"
    using assms(1) by (auto simp: sent_messages_def map_filter_def split: live_event.splits)
  have "allowed_in device e t cs w (MessageSent m)"
    using device_session [of device e t cs w] ev assms(2) by auto
  then obtain xs c ys where c: "cs = xs @ c # ys" "call_clearance c = Handle (lm_handle m)"
    "call_message device t c = Some (says m)"
    "fits (le_sha256 e) (lm_handle m) (call_capability c) (call_parameters c) (lt_target_id t) (lt_provider_id t)"
    unfolding allowed_in_def authorised_def event_handle.simps by blast
  show thesis by (rule that [OF _ c(2-4)]) (simp add: c(1))
qed


text \<open>
  Pinning. A mutating transport exists only if a certificate fingerprint is configured and the TLS
  probe saw the very certificate, up to the way the digits are written; and with a target and a
  provider to bind to.
\<close>

theorem mutating_transport_pinned:
  assumes "new_pikvm_mutation_transport probe c cred target provider policy = Inr t \<or>
    new_redfish_mutation_transport probe c cred target provider path policy = Inr t"
  shows "\<exists>pin answer. lc_cert_fingerprint c = Some pin \<and> pin \<noteq> [] \<and>
     probe (live_host c) (lc_port c) (lc_connect_timeout c) = Inr answer \<and>
     str_lower (filter is_hex_char answer) = str_lower (filter is_hex_char pin) \<and>
     length (filter is_hex_char pin) = 64 \<and> normalize_cert_fingerprint pin = Inr (lt_trust t) \<and>
     lt_target_id t = target \<and> target \<noteq> [] \<and> lt_provider_id t = provider \<and> provider \<noteq> []"
proof -
  obtain mismatch name syspath where b: "build_transport mismatch name probe c cred target provider syspath policy = Inr t"
    using assms unfolding new_pikvm_mutation_transport_def new_redfish_mutation_transport_def by blast
  then have pin: "has_pin c" "\<not> missing_identity target provider" by (auto simp: build_transport_def split: if_splits)
  then obtain fp where fp: "lc_cert_fingerprint c = Some fp" "fp \<noteq> []"
    by (cases "lc_cert_fingerprint c") (auto simp: has_pin_def Providers.or_empty_def)
  from b pin have t: "pinned_trust mismatch name probe c = Inr (lt_trust t)" "lt_target_id t = target" "lt_provider_id t = provider"
    by (auto simp: build_transport_def bind_res_Inr_iff)
  from t(1) obtain answer where a: "probe (live_host c) (lc_port c) (lc_connect_timeout c) = Inr answer"
    "normalize_cert_fingerprint answer = Inr (lt_trust t)" "normalize_cert_fingerprint fp = Inr (lt_trust t)"
    using fp(1) by (elim pinned_trust_Inr) (auto simp: Providers.or_empty_def)
  from a(3) have "length (filter is_hex_char fp) = 64"
    by (auto simp: normalize_cert_fingerprint_def Let_def str_lower_def split: if_splits)
  with a fp t pin(2) normalize_Inr(1) [OF a(2)] normalize_Inr(1) [OF a(3)] show ?thesis
    by (auto simp: missing_identity_def)
qed

text \<open>
  What a live PiKVM shows. Every view of the read-only transport redacts what names a host or holds
  raw bytes in all its mappings, and shows no credential, byte string or recognisable secret.
\<close>

theorem live_views_redacted:
  assumes "pikvm_live_view get p view h = (Inr d, h')" "(k, v) \<in> set d"
  shows "(if sensitive_key k then v = PStr REDACTED else hosts_hidden v) \<and> leak_free True k v"
proof -
  obtain payload where "d = dict_entries (observed payload)" using pikvm_view_entries [OF assms(1)] by blast
  with observed_entries assms(2) show ?thesis by (auto simp: shown_def)
qed

text \<open>
  Pointer coordinates. For a screenshot of any size of at least two pixels, a point maps to device
  coordinates from 0 to 65535, points off the screen to its edges, and the order of points is kept.
\<close>

theorem calibration_in_range:
  assumes "make_calibration width height = Inr c"
  shows "\<exists>ax ay bx by. map_point c x y = [(''absolute_x'', PInt ax), (''absolute_y'', PInt ay)] \<and>
     map_point c x' y' = [(''absolute_x'', PInt bx), (''absolute_y'', PInt by)] \<and>
     0 \<le> ax \<and> ax \<le> 65535 \<and> 0 \<le> ay \<and> ay \<le> 65535 \<and>
     (x \<le> x' \<longrightarrow> ax \<le> bx) \<and> (y \<le> y' \<longrightarrow> ay \<le> by) \<and>
     (x \<le> 0 \<longrightarrow> ax = 0) \<and> (width - 1 \<le> x \<longrightarrow> ax = 65535) \<and>
     (y \<le> 0 \<longrightarrow> ay = 0) \<and> (height - 1 \<le> y \<longrightarrow> ay = 65535)"
proof -
  have "1 < width" "1 < height" "c = (width, height)"
    using assms by (auto simp: make_calibration_def split: if_splits)
  with calibrated_range [of width] calibrated_range [of height] show ?thesis
    by (simp add: map_point_def PIKVM_ABSOLUTE_MAX_def)
qed

section \<open>Witnesses\<close>

definition demo_config :: live_config where
  "demo_config =
     \<lparr>lc_base_url = ''https://10.0.0.1'', lc_cert_fingerprint = Some (replicate 64 CHR ''a''), lc_verify_ssl = True,
      lc_port = 443, lc_connect_timeout = 2, lc_read_timeout = 5\<rparr>"

definition demo_transport :: live_transport where
  "demo_transport =
     \<lparr>lt_config = demo_config, lt_credential_ref = ''env://PIKVM'', lt_target_id = ''t'', lt_provider_id = ''p'',
      lt_policy = default_transport_policy, lt_trust = [], lt_system_path = []\<rparr>"

definition demo_live_env :: "unit live_env" where
  "demo_live_env =
     \<lparr>le_sha256 = (\<lambda>s. s), le_now = (\<lambda>n. Aware 0 0), le_build = (\<lambda>t h. ret ()), le_send = (\<lambda>m. ret [])\<rparr>"

definition demo_live_world :: "unit live_world" where
  "demo_live_world = \<lparr>lw_spent = [], lw_ticks = 0, lw_http = (), lw_trace = []\<rparr>"

definition demo_handle :: mutation_handle where
  "demo_handle =
     \<lparr>mh_request_id = ''rid'', mh_capability = ''power.force_off'', mh_target = ''t'', mh_provider = ''p'',
      mh_params_fingerprint = ''{}'', mh_risk_family = ''power'', mh_expires_at = Aware 60 0, mh_tower_id = None,
      mh_issued_at = Aware 0 0, mh_issuer = IssuerToken\<rparr>"

lemma demo_fingerprint: "fingerprint_parameters (\<lambda>s. s) [] = Inr ''{}''"
  by (simp add: fingerprint_parameters_def canonical_json_def pdict_def dumps_def)

lemma demo_off_run:
  assumes "mh_capability h = ''power.force_off''" "mh_target h = ''t''" "mh_provider h = ''p''"
    "mh_params_fingerprint h = ''{}''" "0 < instant (mh_expires_at h)"
  shows "\<exists>m. lw_trace (run_calls (transport_call PiKVM demo_live_env demo_transport) [PowerForceOff (Handle h)] demo_live_world) =
     [ClientBuilt h, MessageSent m]"
proof -
  have gate: "require_mutation_clearance (\<lambda>s. s) (Handle h) ''power.force_off'' [] ''t'' ''p'' (Aware 0 0) [] =
      (Inr h, [mh_request_id h])"
    using assms by (simp add: require_Inr fits_def demo_fingerprint)
  have "dict_get PIKVM_ATX_PATHS ''power.force_off'' = Some ''/api/atx/power/off''" by (simp add: PIKVM_ATX_PATHS_def)
  note atx = pikvm_atx_eq [OF this]
  show ?thesis
    by (simp add: run_calls_def atx live_authorize_def demo_live_env_def demo_transport_def demo_live_world_def gate
        bind_op_def seq_op_def live_build_def live_send_def note_event_def on_http_def wrap_transport_error_def Let_def)
qed

theorem mutations_gated_witness:
  "\<exists>evs. lw_trace (run_calls (transport_call PiKVM demo_live_env demo_transport) [PowerForceOff (Handle demo_handle)]
        demo_live_world) = evs \<and> evs \<noteq> [] \<and> distinct (sent_ids evs)"
proof -
  have "\<exists>m. lw_trace (run_calls (transport_call PiKVM demo_live_env demo_transport) [PowerForceOff (Handle demo_handle)]
        demo_live_world) = [ClientBuilt demo_handle, MessageSent m]"
    by (rule demo_off_run) (simp_all add: demo_handle_def)
  moreover have "lw_trace demo_live_world = []" by (simp add: demo_live_world_def)
  moreover note mutations_gated [of PiKVM demo_live_env demo_transport "[PowerForceOff (Handle demo_handle)]" demo_live_world]
  ultimately show ?thesis by auto
qed

lemma demo_issued:
  "\<exists>q r h. issued_for (\<lambda>s. s) (\<lambda>s. s) demo_act q r [] h \<and> mh_capability h = ''power.force_off'' \<and> mh_target h = ''t'' \<and>
     mh_provider h = ''p'' \<and> mh_params_fingerprint h = ''{}'' \<and> 0 < instant (mh_expires_at h)"
proof -
  obtain q where q: "build_clearance_request (\<lambda>s. s) ''s'' ''t'' ''p'' ''power.force_off'' []
     HIGH_RISK ''explicit policy rule'' [] ''off'' ''a'' ''c'' [] (Aware 0 0) 20 ''rid'' False = Inr q"
    using demo_clearance_request by blast
  have wf: "make_clearance_request q = Inr q"
    using q by (auto simp: build_clearance_request_def bind_res_Inr_iff split: if_splits prod.splits
        dest: make_clearance_request_Inr)
  note fields = build_clearance_request_Inr [OF q]
  have late: "instant (Aware 0 0) < instant (cq_expires_at q)" using fields by simp
  obtain r v where r: "cleared_response_for q ''tower'' = Inr r" "verify_clearance (\<lambda>s. s) demo_act q r (Aware 0 0) = Inr v"
    "cv_valid v" using demo_clears [OF wf late] by blast
  note verified = verify_clearance_valid [OF r(2,3)]
  obtain x where x: "cp_expires_at r = Some x" "0 < instant x" using verified(4) by auto
  have aware: "is_aware x"
    using r(1) x(1) by (auto simp: cleared_response_for_def make_clearance_response_def bind_res_Inr_iff
        split: if_splits option.splits)
  have bound: "cp_request_id r = ''rid''" "cp_capability r = ''power.force_off''" "cp_target r = ''t''" "cp_provider r = ''p''"
    using verified(3) fields by (simp_all add: clearance_bound_def)
  have family: "risk_family_value f \<noteq> []" "[] \<noteq> risk_family_value f" for f by (cases f; simp)+
  let ?h = "\<lparr>mh_request_id = ''rid'', mh_capability = ''power.force_off'', mh_target = ''t'', mh_provider = ''p'',
     mh_params_fingerprint = ''{}'', mh_risk_family = risk_family_value (cp_risk_family r), mh_expires_at = x,
     mh_tower_id = cp_tower_id r, mh_issued_at = to_utc (Aware 0 0), mh_issuer = IssuerToken\<rparr>"
  have "issue_mutation_clearance (\<lambda>s. s) (Some q) (Some r) (Some (verify_clearance (\<lambda>s. s) demo_act)) (Aware 0 0) (Some []) = Inr ?h"
    using verified(5) family by (simp add: issue_mutation_clearance_def r x aware bound refused_capability_def demo_fingerprint
        make_mutation_handle_def handle_fields_def)
  then have "issued_for (\<lambda>s. s) (\<lambda>s. s) demo_act q r [] ?h" by (auto simp: issued_for_def params_ok_iff)
  with x(2) show ?thesis by (intro exI [of _ q] exI [of _ r] exI [of _ ?h]) simp
qed


theorem mutating_transport_pinned_witness:
  "\<exists>t pin answer. new_pikvm_mutation_transport (\<lambda>host port timeout. Inr (replicate 64 CHR ''A'')) demo_config ''env://PIKVM'' ''t'' ''p'' None = Inr t \<and>
     lc_cert_fingerprint demo_config = Some pin \<and> str_lower (filter is_hex_char answer) = str_lower (filter is_hex_char pin) \<and>
     lt_target_id t = ''t''"
proof -
  let ?probe = "(\<lambda>host port timeout. Inr (replicate 64 CHR ''A'')) :: tls_probe"
  have hex: "is_hex_char CHR ''a''" "is_hex_char CHR ''A''" by (simp_all add: is_hex_char_def one_of_def)
  have low: "lower_char CHR ''a'' = CHR ''a''" "lower_char CHR ''A'' = CHR ''a''"
    by (simp_all add: lower_char_def is_ascii_upper_def)
  let ?n = "str_join '':'' (pairs (replicate 64 CHR ''a''))"
  have n: "normalize_cert_fingerprint (replicate 64 CHR ''a'') = Inr ?n" "normalize_cert_fingerprint (replicate 64 CHR ''A'') = Inr ?n"
    by (simp_all add: normalize_cert_fingerprint_def hex low str_lower_def)
  have "normalize_cert_fingerprint ?n = Inr ?n" by (rule normalize_Inr(2) [OF n(1)])
  then have trust: "pinned_trust mismatch name ?probe demo_config = Inr ?n" for mismatch name
    using n by (simp add: pinned_trust_def demo_config_def Providers.or_empty_def)
  have policy: "\<exists>p. live_policy None demo_config = Inr p"
    by (simp add: live_policy_def make_transport_policy_def default_transport_policy_def demo_config_def Let_def)
  have "has_pin demo_config" by (simp add: has_pin_def demo_config_def Providers.or_empty_def)
  with trust policy obtain t where t: "new_pikvm_mutation_transport ?probe demo_config ''env://PIKVM'' ''t'' ''p'' None = Inr t"
    by (auto simp: new_pikvm_mutation_transport_def build_transport_def missing_identity_def)
  from mutating_transport_pinned [OF disjI1 [OF t]] t show ?thesis by blast
qed

lemma demo_health:
  "dict_entries (observed [(''health'', PBool True), (''host'', PStr ''h'')]) = [(''health'', PBool True), (''host'', PStr REDACTED)]"
  by code_simp

theorem live_views_redacted_witness:
  "\<exists>d. pikvm_live_view (\<lambda>path timeout. ret [(''health'', PBool True), (''host'', PStr ''h'')]) default_transport_policy PkHealth () =
     (Inr d, ()) \<and> list_all (\<lambda>(k, v). leak_free True k v) d"
proof -
  have view: "pikvm_live_view (\<lambda>path timeout. ret [(''health'', PBool True), (''host'', PStr ''h'')]) default_transport_policy PkHealth () =
     (Inr [(''health'', PBool True), (''host'', PStr REDACTED)], ())"
    by (simp add: pikvm_live_get_def wrap_transport_error_def bind_op_def validate_required_def demo_health)
  from live_views_redacted [OF view] view show ?thesis by (auto simp: list_all_iff)
qed

theorem calibration_in_range_witness:
  "\<exists>ax ay. map_point (1280, 720) 640 1000 = [(''absolute_x'', PInt ax), (''absolute_y'', PInt ay)] \<and>
     0 \<le> ax \<and> ax \<le> 65535 \<and> ay = 65535"
proof -
  have "make_calibration 1280 720 = Inr (1280, 720)" by (simp add: make_calibration_def)
  from calibration_in_range [OF this, of 640 1000 0 0] show ?thesis by auto
qed

text \<open>In a list, the mappings keep what names a host.\<close>

lemma listed_hosts_survive:
  "observed [(''events'', PList [pdict [(''host'', PStr ''10.0.0.1'')]])] = pdict [(''events'', PList [pdict [(''host'', PStr ''10.0.0.1'')]])]"
  by code_simp


end
