(* ===== verification/FixtureProviders.thy ===== *)
theory FixtureProviders
  imports LiveTransports
begin

text \<open>
  The adapters behind the offline transport: \<open>providers/pikvm.py\<close> with the fixture half of
  \<open>providers/pikvm_transport.py\<close>, and \<open>providers/redfish.py\<close>. An adapter without a client stands for real
  hardware and refuses everything; with a client it plays back fixtures and performs nothing.
\<close>

section \<open>Numbers from parameters\<close>

text \<open>\<open>int(text)\<close>: an optional sign and digits, single underscores between them, blanks around.\<close>

fun digit_groups :: "string \<Rightarrow> bool" where
  "digit_groups [] = False"
| "digit_groups [c] = is_digit c"
| "digit_groups (c # d # cs) = (is_digit c \<and> (if d = CHR ''_'' then digit_groups cs else digit_groups (d # cs)))"

definition int_of_text :: "string \<Rightarrow> int res" where
  "int_of_text s =
     (let t = str_strip s;
          (sign, body) = (case t of c # cs \<Rightarrow> if c = CHR ''-'' then (-1, cs) else if c = CHR ''+'' then (1, cs) else (1, t)
                          | [] \<Rightarrow> (1::int, t));
          failed = raise ValueError (''invalid literal for int() with base 10: '' @ py_repr False s)
      in if \<not> digit_groups body then failed
         else case digits_value (filter (\<lambda>c. c \<noteq> CHR ''_'') body) 0 of Some n \<Rightarrow> Inr (sign * n) | None \<Rightarrow> failed)"

text \<open>\<open>int(x)\<close> of a float: its text is a decimal number, perhaps with an exponent.\<close>

definition signed_digits :: "string \<Rightarrow> int option" where
  "signed_digits s =
     (case s of c # cs \<Rightarrow>
        if c = CHR ''-'' then map_option uminus (digits_value cs 0)
        else if c = CHR ''+'' then digits_value cs 0 else digits_value s 0
      | [] \<Rightarrow> None)"

definition truncate_decimal :: "int \<Rightarrow> int \<Rightarrow> int" where
  "truncate_decimal m e =
     (if 0 \<le> e then m * 10 ^ nat e else sgn m * (\<bar>m\<bar> div 10 ^ nat (- e)))"

definition int_of_float_text :: "string \<Rightarrow> int res" where
  "int_of_float_text s =
     (case str_partition CHR ''e'' s of (mantissa, has_e, exponent) \<Rightarrow>
      case str_partition CHR ''.'' mantissa of (whole, _, fraction) \<Rightarrow>
      case (signed_digits (whole @ fraction), if has_e then signed_digits exponent else Some 0) of
        (Some m, Some e) \<Rightarrow> Inr (truncate_decimal m (e - int (length fraction)))
      | _ \<Rightarrow> raise (if s = ''nan'' then ValueError else OtherError) (''cannot convert float '' @ s @ '' to integer''))"

fun py_int :: "pyval \<Rightarrow> int res" where
  "py_int (PInt i) = Inr i"
| "py_int (PBool b) = Inr (if b then 1 else 0)"
| "py_int (PStr s) = int_of_text s"
| "py_int (PBytes s) = int_of_text s"
| "py_int (PFloat s) = int_of_float_text s"
| "py_int v = raise TypeError (''int() argument must be a string, a bytes-like object or a real number, not '' @ type_name v)"

section \<open>The state of an adapter\<close>

text \<open>An adapter is configured with an id, whether it is enabled, and the timeout of its client, if it has one.\<close>

record fixture_config =
  fc_provider_id :: string
  fc_enabled :: bool
  fc_client :: "rat option"

record fixture_state =
  fx_transport :: fake_transport
  fx_requests :: "provider_request list"

definition fixture_info :: "string \<Rightarrow> string list \<Rightarrow> fixture_config \<Rightarrow> adapter_info" where
  "fixture_info provider_kind supported c =
     \<lparr>ad_provider_id = fc_provider_id c, ad_provider_kind = provider_kind, ad_enabled = fc_enabled c,
      ad_is_real_hardware = (fc_client c = None),
      ad_risk_class = (if fc_client c = None then ''real_hardware_disabled'' else ''test_fake_clearance_gated''),
      ad_supported = supported\<rparr>"

definition fixture_status :: "string \<Rightarrow> adapter_info \<Rightarrow> fixture_config \<Rightarrow> provider_status" where
  "fixture_status name a c =
     (status_of a)\<lparr>pst_message :=
        (if fc_client c \<noteq> None \<and> fc_enabled c
         then name @ '' provider is fixture-backed; actuation requires ControlPlane clearance''
         else name @ '' provider is disabled; no live transport exists'')\<rparr>"

definition fixture_validate :: "string \<Rightarrow> adapter_info \<Rightarrow> fixture_config \<Rightarrow> provider_request \<Rightarrow> provider_validation" where
  "fixture_validate name a c r =
     (if fc_client c = None
      then \<lparr>pvr_ok = False, pvr_provider_id = fc_provider_id c, pvr_capability = prq_capability r,
            pvr_message = name @ '' provider has no fake transport''\<rparr>
      else validate_authorized a r)"

definition fixture_result ::
    "string \<Rightarrow> fixture_config \<Rightarrow> provider_request \<Rightarrow> bool \<Rightarrow> string \<Rightarrow> params option \<Rightarrow> provider_result" where
  "fixture_result provider_kind c r ok message data =
     (base_result ok (fc_provider_id c) (prq_capability r) (prq_action r) (prq_target_id r) False message
        (case data of Some d \<Rightarrow> d
         | None \<Rightarrow> [(''provider'', PStr provider_kind), (''fixture'', PBool True), (''performed'', PBool False)]))
     \<lparr>prs_provider_type := Some provider_kind,
      prs_error_code := (if ok then None else Some ''unsupported_capability''),
      prs_error_message := (if ok then None else Some message)\<rparr>"

text \<open>
  \<open>execute_authorized\<close>: the two adapters differ in the data they gather, \<open>None\<close> for a capability that
  they do not handle.
\<close>

definition fixture_execute ::
    "string \<Rightarrow> string \<Rightarrow> adapter_info \<Rightarrow> (rat \<Rightarrow> provider_request \<Rightarrow> (fake_transport, params option) op) \<Rightarrow>
     fixture_config \<Rightarrow> provider_request \<Rightarrow> (fixture_state, provider_result) op" where
  "fixture_execute name provider_kind a gather c r s =
     (let v = fixture_validate name a c r in
      case fc_client c of
        None \<Rightarrow> (Inr (fixture_result provider_kind c r False (pvr_message v) None), s)
      | Some timeout \<Rightarrow>
          if \<not> pvr_ok v then (Inr (fixture_result provider_kind c r False (pvr_message v) None), s)
          else (case gather timeout r (fx_transport s) of (x, t) \<Rightarrow>
            ((case x of
                Inl e \<Rightarrow>
                  if is_provider_error e then Inr (to_provider_result e None r (fc_provider_id c) provider_kind) else Inl e
              | Inr None \<Rightarrow> Inr (fixture_result provider_kind c r False (''Unsupported '' @ name @ '' capability'') None)
              | Inr (Some data) \<Rightarrow> Inr (fixture_result provider_kind c r True
                  (name @ '' fixture operation completed; no hardware action performed.'')
                  (Some ([(''provider'', PStr provider_kind), (''fixture'', PBool True), (''performed'', PBool False)] @ data)))),
             s\<lparr>fx_transport := t, fx_requests := fx_requests s @ [r]\<rparr>)))"

lemma fixture_result_simps [simp]:
  "prs_provider_id (fixture_result k c r ok m d) = fc_provider_id c"
  "prs_capability (fixture_result k c r ok m d) = prq_capability r"
  "prs_action (fixture_result k c r ok m d) = prq_action r"
  "prs_target_id (fixture_result k c r ok m d) = prq_target_id r"
  "prs_ok (fixture_result k c r ok m d) = ok" "\<not> prs_performed_on_hardware (fixture_result k c r ok m d)"
  by (simp_all add: fixture_result_def base_result_def)

lemma error_result_simps [simp]:
  "prs_provider_id (to_provider_result e d r i k) = i" "prs_capability (to_provider_result e d r i k) = prq_capability r"
  "prs_action (to_provider_result e d r i k) = prq_action r" "prs_target_id (to_provider_result e d r i k) = prq_target_id r"
  "\<not> prs_ok (to_provider_result e d r i k)" "\<not> prs_performed_on_hardware (to_provider_result e d r i k)"
  by (simp_all add: to_provider_result_def base_result_def Let_def)

lemma fixture_execute_contract:
  assumes "fixture_execute name k (fixture_info k caps c) gather c r s = (Inr x, s')"
  shows "prs_provider_id x = fc_provider_id c" "prs_capability x = prq_capability r" "prs_action x = prq_action r"
    "prs_target_id x = prq_target_id r" "\<not> prs_performed_on_hardware x"
    "prs_ok x \<Longrightarrow> fc_client c \<noteq> None \<and> pvr_ok (validate_authorized (fixture_info k caps c) r)"
  using assms
  by (auto simp: fixture_execute_def fixture_validate_def Let_def split: option.splits if_splits prod.splits sum.splits)

section \<open>The offline transport behind a client\<close>

text \<open>What the adapters make of the errors of the offline transport.\<close>

definition offline_error :: "string \<Rightarrow> string \<Rightarrow> string \<Rightarrow> exn \<Rightarrow> exn" where
  "offline_error blocked_text broken_text missing_text e =
     (case exn_class_of e of
        TransportMethodNotAllowedError \<Rightarrow> Exn ProviderMutationBlockedError blocked_text
      | TransportRouteNotFoundError \<Rightarrow> Exn ProviderResponseValidationError missing_text
      | TransportError \<Rightarrow> Exn ProviderProtocolError broken_text
      | _ \<Rightarrow> e)"

definition map_error :: "(exn \<Rightarrow> exn) \<Rightarrow> ('s, 'a) op \<Rightarrow> ('s, 'a) op" where
  "map_error f m s = (case m s of (x, s') \<Rightarrow> (map_sum f id x, s'))"

definition offline_send ::
    "string \<Rightarrow> string \<Rightarrow> string \<Rightarrow> params \<Rightarrow> rat \<Rightarrow> (fake_transport, params) op" where
  "offline_send name verb path ps timeout =
     map_error (offline_error (name @ '' fake transport rejected actuation method'')
                 (name @ '' fake actuation transport error'') (name @ '' fake fixture route missing: '' @ path))
       (fake_request verb path ps (Some timeout))"

definition key_item :: "params \<Rightarrow> string \<Rightarrow> ('s, pyval) op" where
  "key_item d k = lift_res (case dict_get d k of Some v \<Rightarrow> Inr v | None \<Rightarrow> raise KeyError k)"

section \<open>PiKVM\<close>

definition PIKVM_OBSERVE_CAPABILITIES :: "string list" where
  "PIKVM_OBSERVE_CAPABILITIES =
     [''observe.status'', ''observe.screen'', ''observe.screenshot'', ''observe.power_state'',
      ''observe.hardware_inventory'', ''observe.event_logs'', ''observe.boot_status'']"

definition PIKVM_ACTUATION_CAPABILITIES :: "string list" where
  "PIKVM_ACTUATION_CAPABILITIES =
     [''power.on'', ''power.force_off'', ''power.power_cycle'', ''power.reset'', ''input.keyboard_type'',
      ''input.mouse_move'', ''input.mouse_click'', ''media.mount_approved_iso'']"

definition PIKVM_SUPPORTED_CAPABILITIES :: "string list" where
  "PIKVM_SUPPORTED_CAPABILITIES = PIKVM_OBSERVE_CAPABILITIES @ PIKVM_ACTUATION_CAPABILITIES"

definition performed :: "string \<Rightarrow> string \<Rightarrow> params" where
  "performed k v = [(''performed'', PBool True), (k, PStr v)]"

definition default_pikvm_fake_transport :: fake_transport where
  "default_pikvm_fake_transport =
     (let streamer = pdict [(''state'', PStr ''online''), (''resolution'', PStr ''1280x720'')];
          atx = pdict [(''power'', PStr ''on'')];
          inventory = [(''provider'', PStr ''pikvm''), (''model'', PStr ''PiKVM fixture''), (''capture'', PStr ''fixture'')];
          event_log = [(''events'', PList [pdict [(''severity'', PStr ''info''), (''message'', PStr ''fixture streamer online'')]])];
          boot = [(''boot_status'', PStr ''firmware_prompt'')]
      in new_fake_transport
       [((''GET'', ''/api/health''),
           [(''health'', PStr ''ok''), (''fixture'', PBool True), (''transport'', PStr ''fake''),
            (''streamer'', streamer), (''atx'', atx)]),
        ((''GET'', ''/api/screen-state''),
           [(''kind'', PStr ''text_snapshot''), (''content'', PStr ''PiKVM fixture screen''),
            (''sensitive'', PBool True), (''source'', PStr ''synthetic-fixture'')]),
        ((''GET'', ''/api/screenshot-metadata''),
           [(''artifact'', pdict [(''kind'', PStr ''screenshot''), (''sensitivity'', PStr ''sensitive''),
               (''content_type'', PStr ''image/png''), (''byte_length'', PInt 128), (''storage'', PStr ''metadata-only''),
               (''target_id'', PStr ''fixture-target''), (''artifact_name'', PStr ''screenshot-fixture-0001.png'')]),
            (''sensitive'', PBool True), (''raw_bytes_included'', PBool False)]),
        ((''GET'', ''/api/power-state''), [(''power_state'', PStr ''on'')]),
        ((''GET'', ''/api/boot''), boot), ((''GET'', ''/api/inventory''), inventory), ((''GET'', ''/api/events''), event_log),
        ((''POST'', ''/api/atx/power/on''), performed ''atx'' ''power_on''),
        ((''POST'', ''/api/atx/power/off''), performed ''atx'' ''power_off''),
        ((''POST'', ''/api/atx/power/cycle''), performed ''atx'' ''power_cycle''),
        ((''POST'', ''/api/atx/reset''), performed ''atx'' ''reset''),
        ((''POST'', ''/api/hid/keyboard/type''), performed ''hid'' ''keyboard_type''),
        ((''POST'', ''/api/hid/mouse/move''), performed ''hid'' ''mouse_move''),
        ((''POST'', ''/api/hid/mouse/click''), performed ''hid'' ''mouse_click''),
        ((''POST'', ''/api/msd/mount''), performed ''msd'' ''mount''),
        ((''GET'', ''/api/status''), [(''health'', PStr ''ok''), (''streamer'', streamer), (''atx'', atx)]),
        ((''GET'', ''/api/screen''),
           [(''kind'', PStr ''text_snapshot''), (''content'', PStr ''PiKVM fixture screen''), (''sensitive'', PBool True)]),
        ((''GET'', ''/api/power''), [(''power_state'', PStr ''on'')]),
        ((''GET'', ''/api/boot''), boot), ((''GET'', ''/api/inventory''), inventory), ((''GET'', ''/api/events''), event_log)]
       [''GET'', ''POST''])"

definition raise_fixture_error :: "params \<Rightarrow> unit res" where
  "raise_fixture_error payload =
     (case dict_get payload ''error'' of
        Some (PDict d) \<Rightarrow>
          (let code = value_str (dict_get_or (dict_entries (PDict d)) ''code'' (PStr ''unknown'')) in
           if code = ''auth_required'' then raise ProviderAuthenticationRequiredError ''PiKVM authentication required''
           else if code = ''timeout'' then raise ProviderTimeoutError ''PiKVM observe request timed out''
           else raise ProviderProtocolError ''PiKVM fixture returned provider error'')
      | _ \<Rightarrow> Inr ())"

definition pikvm_fake_get :: "rat \<Rightarrow> string \<Rightarrow> string list \<Rightarrow> (fake_transport, params) op" where
  "pikvm_fake_get timeout path required =
     bind_op (map_error (offline_error ''PiKVM fake observe transport rejected mutating method''
                 ''PiKVM fake transport error'' (''PiKVM fake fixture route missing: '' @ path))
               (fake_request ''GET'' path [] (Some timeout))) (\<lambda>payload.
     bind_op (lift_res (raise_fixture_error payload)) (\<lambda>_.
     bind_op (lift_res (validate_required payload required)) (\<lambda>_.
     ret (dict_entries (observed payload)))))"

definition pikvm_fake_health :: "rat \<Rightarrow> (fake_transport, params) op" where
  "pikvm_fake_health timeout = pikvm_fake_get timeout ''/api/health'' [''health'', ''fixture'']"

definition pikvm_fake_screen :: "rat \<Rightarrow> (fake_transport, params) op" where
  "pikvm_fake_screen timeout = pikvm_fake_get timeout ''/api/screen-state'' [''kind'', ''sensitive'', ''source'']"

definition pikvm_fake_screenshot :: "rat \<Rightarrow> (fake_transport, params) op" where
  "pikvm_fake_screenshot timeout =
     bind_op (pikvm_fake_get timeout ''/api/screenshot-metadata'' [''artifact'', ''sensitive'', ''raw_bytes_included'']) (\<lambda>payload.
     if dict_get payload ''raw_bytes_included'' = Some (PBool True)
     then throw ProviderResponseValidationError ''PiKVM screenshot fixture must not include raw bytes''
     else ret payload)"

definition pikvm_fake_power_state :: "rat \<Rightarrow> (fake_transport, params) op" where
  "pikvm_fake_power_state timeout = pikvm_fake_get timeout ''/api/power-state'' [''power_state'']"

definition pikvm_fake_boot_status :: "rat \<Rightarrow> (fake_transport, params) op" where
  "pikvm_fake_boot_status timeout = pikvm_fake_get timeout ''/api/boot'' [''boot_status'']"

definition pikvm_fake_inventory :: "rat \<Rightarrow> (fake_transport, params) op" where
  "pikvm_fake_inventory timeout = pikvm_fake_get timeout ''/api/inventory'' [''provider'']"

definition pikvm_fake_event_logs :: "rat \<Rightarrow> (fake_transport, params) op" where
  "pikvm_fake_event_logs timeout = pikvm_fake_get timeout ''/api/events'' [''events'']"

text \<open>The client: the readings above, and the actuation requests.\<close>

definition pikvm_post :: "rat \<Rightarrow> string \<Rightarrow> params \<Rightarrow> (fake_transport, params) op" where
  "pikvm_post timeout path ps = offline_send ''PiKVM'' ''POST'' path ps timeout"

definition pikvm_power_on :: "rat \<Rightarrow> (fake_transport, params) op" where
  "pikvm_power_on timeout = pikvm_post timeout ''/api/atx/power/on'' []"

definition pikvm_power_off :: "rat \<Rightarrow> (fake_transport, params) op" where
  "pikvm_power_off timeout = pikvm_post timeout ''/api/atx/power/off'' []"

definition pikvm_power_cycle :: "rat \<Rightarrow> (fake_transport, params) op" where
  "pikvm_power_cycle timeout = pikvm_post timeout ''/api/atx/power/cycle'' []"

definition pikvm_reset :: "rat \<Rightarrow> (fake_transport, params) op" where
  "pikvm_reset timeout = pikvm_post timeout ''/api/atx/reset'' []"

definition pikvm_type_text :: "rat \<Rightarrow> string \<Rightarrow> (fake_transport, params) op" where
  "pikvm_type_text timeout text = pikvm_post timeout ''/api/hid/keyboard/type'' [(''text'', PStr text)]"

text \<open>Width and height of the screenshot that the point refers to.\<close>

definition calibrated_point :: "int \<Rightarrow> int \<Rightarrow> int \<Rightarrow> int \<Rightarrow> params res" where
  "calibrated_point x y w h = map_sum id (\<lambda>c. map_point c x y) (make_calibration w h)"

definition pikvm_mouse_move :: "rat \<Rightarrow> int \<Rightarrow> int \<Rightarrow> int \<Rightarrow> int \<Rightarrow> (fake_transport, params) op" where
  "pikvm_mouse_move timeout x y w h =
     bind_op (lift_res (calibrated_point x y w h)) (pikvm_post timeout ''/api/hid/mouse/move'')"

definition pikvm_mouse_click :: "rat \<Rightarrow> int \<Rightarrow> int \<Rightarrow> int \<Rightarrow> int \<Rightarrow> string \<Rightarrow> (fake_transport, params) op" where
  "pikvm_mouse_click timeout x y w h button =
     bind_op (lift_res (calibrated_point x y w h)) (\<lambda>p.
     pikvm_post timeout ''/api/hid/mouse/click'' (p @ [(''button'', PStr button)]))"

definition pikvm_mount_msd :: "rat \<Rightarrow> string \<Rightarrow> (fake_transport, params) op" where
  "pikvm_mount_msd timeout image_ref = pikvm_post timeout ''/api/msd/mount'' [(''image_ref'', PStr image_ref)]"

text \<open>The four numbers of a pointer request.\<close>

definition pointer_numbers :: "provider_request \<Rightarrow> (int \<times> int \<times> int \<times> int) res" where
  "pointer_numbers r =
     (let number = (\<lambda>k d. py_int (dict_get_or (prq_parameters r) k (PInt d))) in
      bind_res (number ''x'' 0) (\<lambda>x. bind_res (number ''y'' 0) (\<lambda>y.
      bind_res (number ''screen_width'' 1280) (\<lambda>w. bind_res (number ''screen_height'' 720) (\<lambda>h.
      Inr (x, y, w, h))))))"

definition as_data :: "string \<Rightarrow> (fake_transport, params) op \<Rightarrow> (fake_transport, params option) op" where
  "as_data k m = bind_op m (\<lambda>d. ret (Some [(k, pdict d)]))"

definition pikvm_gather :: "rat \<Rightarrow> provider_request \<Rightarrow> (fake_transport, params option) op" where
  "pikvm_gather timeout r =
     (let c = prq_capability r;
          text = (\<lambda>k d. value_str (dict_get_or (prq_parameters r) k (PStr d)))
      in if c = ''observe.status'' then as_data ''status'' (pikvm_fake_health timeout)
         else if c = ''observe.screen'' then as_data ''screen'' (pikvm_fake_screen timeout)
         else if c = ''observe.screenshot''
         then bind_op (pikvm_fake_screen timeout) (\<lambda>d. bind_op (pikvm_fake_screenshot timeout) (\<lambda>shot.
           ret (Some [(''screen'', pdict d), (''screenshot'', pdict shot)])))
         else if c = ''observe.power_state''
         then bind_op (pikvm_fake_power_state timeout) (\<lambda>d.
           bind_op (key_item d ''power_state'') (\<lambda>v. ret (Some [(''power_state'', v)])))
         else if c = ''observe.hardware_inventory'' then as_data ''inventory'' (pikvm_fake_inventory timeout)
         else if c = ''observe.event_logs''
         then bind_op (pikvm_fake_event_logs timeout) (\<lambda>d. bind_op (key_item d ''events'') (\<lambda>v.
           bind_op (lift_res (py_items v)) (\<lambda>items. ret (Some [(''events'', PList items)]))))
         else if c = ''observe.boot_status''
         then bind_op (pikvm_fake_boot_status timeout) (\<lambda>d.
           bind_op (key_item d ''boot_status'') (\<lambda>v. ret (Some [(''boot_status'', v)])))
         else if c = ''power.on'' then as_data ''actuation'' (pikvm_power_on timeout)
         else if c = ''power.force_off'' then as_data ''actuation'' (pikvm_power_off timeout)
         else if c = ''power.power_cycle'' then as_data ''actuation'' (pikvm_power_cycle timeout)
         else if c = ''power.reset'' then as_data ''actuation'' (pikvm_reset timeout)
         else if c = ''input.keyboard_type''
         then bind_op (pikvm_type_text timeout (text ''text'' [])) (\<lambda>d.
           ret (Some [(''actuation'', pdict d), (''parameters'', pdict (redacted_parameters r))]))
         else if c = ''input.mouse_move''
         then bind_op (lift_res (pointer_numbers r)) (\<lambda>(x, y, w, h). as_data ''actuation'' (pikvm_mouse_move timeout x y w h))
         else if c = ''input.mouse_click''
         then bind_op (lift_res (pointer_numbers r)) (\<lambda>(x, y, w, h).
           as_data ''actuation'' (pikvm_mouse_click timeout x y w h (text ''button'' ''left'')))
         else if c = ''media.mount_approved_iso'' then as_data ''actuation'' (pikvm_mount_msd timeout (text ''image_ref'' []))
         else ret None)"

definition pikvm_info :: "fixture_config \<Rightarrow> adapter_info" where
  "pikvm_info = fixture_info ''pikvm'' PIKVM_SUPPORTED_CAPABILITIES"

definition pikvm_execute :: "fixture_config \<Rightarrow> provider_request \<Rightarrow> (fixture_state, provider_result) op" where
  "pikvm_execute c = fixture_execute ''PiKVM'' ''pikvm'' (pikvm_info c) pikvm_gather c"

section \<open>Redfish\<close>

definition REDFISH_OBSERVE_CAPABILITIES :: "string list" where
  "REDFISH_OBSERVE_CAPABILITIES =
     [''observe.status'', ''observe.power_state'', ''observe.hardware_inventory'', ''observe.sensors'',
      ''observe.event_logs'', ''observe.boot_status'']"

definition REDFISH_RESET_TYPES :: "(string, string) dict" where
  "REDFISH_RESET_TYPES =
     [(''power.on'', ''On''), (''power.force_off'', ''ForceOff''), (''power.graceful_shutdown'', ''GracefulShutdown''),
      (''power.graceful_restart'', ''GracefulRestart''), (''power.force_restart'', ''ForceRestart''),
      (''power.power_cycle'', ''PowerCycle''), (''power.nmi'', ''Nmi'')]"

definition REDFISH_ACTUATION_CAPABILITIES :: "string list" where
  "REDFISH_ACTUATION_CAPABILITIES =
     [''power.on'', ''power.force_off'', ''power.graceful_shutdown'', ''power.graceful_restart'',
      ''power.force_restart'', ''power.power_cycle'', ''power.nmi'', ''boot.override'', ''bmc.reset'']"

definition REDFISH_SUPPORTED_CAPABILITIES :: "string list" where
  "REDFISH_SUPPORTED_CAPABILITIES = REDFISH_OBSERVE_CAPABILITIES @ REDFISH_ACTUATION_CAPABILITIES"

definition REDFISH_SYSTEM_PATH :: string where
  "REDFISH_SYSTEM_PATH = ''/redfish/v1/Systems/System.Embedded.1''"

definition default_redfish_fake_transport :: fake_transport where
  "default_redfish_fake_transport =
     (let ref = (\<lambda>path. pdict [(''@odata.id'', PStr path)]);
          enabled = pdict [(''State'', PStr ''Enabled''), (''Health'', PStr ''OK'')];
          system = ''/redfish/v1/Systems/System.Embedded.1''
      in new_fake_transport
       [((''GET'', ''/redfish/v1/''),
           [(''RedfishVersion'', PStr ''1.17.0''), (''Systems'', ref ''/redfish/v1/Systems''),
            (''Managers'', ref ''/redfish/v1/Managers'')]),
        ((''GET'', ''/redfish/v1/Systems''), [(''Members'', PList [ref system]), (''Members@odata.count'', PInt 1)]),
        ((''GET'', system),
           [(''Id'', PStr ''System.Embedded.1''), (''Name'', PStr ''Redfish fixture system''), (''PowerState'', PStr ''On''),
            (''Status'', enabled), (''Boot'', pdict [(''BootSourceOverrideTarget'', PStr ''None'')]),
            (''ProcessorSummary'', pdict [(''Count'', PInt 2)]), (''MemorySummary'', pdict [(''TotalSystemMemoryGiB'', PInt 64)])]),
        ((''GET'', ''/redfish/v1/Chassis/1/Sensors''),
           [(''Members'', PList [pdict [(''Name'', PStr ''CPU Temp''), (''Reading'', PInt 38), (''ReadingUnits'', PStr ''C''),
                                       (''Status'', pdict [(''Health'', PStr ''OK'')])]])]),
        ((''GET'', ''/redfish/v1/Managers/1/LogServices/EventLog/Entries''),
           [(''Members'', PList [pdict [(''Severity'', PStr ''OK''), (''Message'', PStr ''Fixture event log entry'')]])]),
        ((''GET'', ''/redfish/v1/Managers/1''), [(''Id'', PStr ''1''), (''Name'', PStr ''Fixture BMC''), (''Status'', enabled)]),
        ((''POST'', system @ ''/Actions/ComputerSystem.Reset''), performed ''action'' ''ComputerSystem.Reset''),
        ((''PATCH'', system), performed ''action'' ''BootOverride''),
        ((''POST'', ''/redfish/v1/Managers/1/Actions/Manager.Reset''), performed ''action'' ''Manager.Reset'')]
       [''GET'', ''POST'', ''PATCH''])"

text \<open>Reading does not translate the errors of the offline transport, so they pass through.\<close>

definition redfish_fake_get :: "rat \<Rightarrow> string \<Rightarrow> (fake_transport, params) op" where
  "redfish_fake_get timeout path = fake_request ''GET'' path [] (Some timeout)"

definition redfish_fake_mutate :: "rat \<Rightarrow> string \<Rightarrow> string \<Rightarrow> params \<Rightarrow> (fake_transport, params) op" where
  "redfish_fake_mutate timeout verb path ps = offline_send ''Redfish'' verb path ps timeout"

definition redfish_fake_root :: "rat \<Rightarrow> (fake_transport, params) op" where
  "redfish_fake_root timeout = redfish_fake_get timeout ''/redfish/v1/''"

definition redfish_fake_system :: "rat \<Rightarrow> (fake_transport, params) op" where
  "redfish_fake_system timeout = redfish_fake_get timeout REDFISH_SYSTEM_PATH"

definition redfish_fake_power_state :: "rat \<Rightarrow> (fake_transport, params) op" where
  "redfish_fake_power_state timeout =
     bind_op (redfish_fake_system timeout) (\<lambda>system.
     ret [(''power_state'', dict_get_or system ''PowerState'' (PStr ''Unknown''))])"

definition redfish_fake_inventory :: "rat \<Rightarrow> (fake_transport, params) op" where
  "redfish_fake_inventory timeout =
     bind_op (redfish_fake_system timeout) (\<lambda>system.
     ret [(''system_id'', dict_get_or system ''Id'' PNone), (''name'', dict_get_or system ''Name'' PNone),
          (''processors'', dict_get_or system ''ProcessorSummary'' (pdict [])),
          (''memory'', dict_get_or system ''MemorySummary'' (pdict []))])"

definition redfish_fake_sensors :: "rat \<Rightarrow> (fake_transport, params) op" where
  "redfish_fake_sensors timeout = redfish_fake_get timeout ''/redfish/v1/Chassis/1/Sensors''"

definition redfish_fake_event_logs :: "rat \<Rightarrow> (fake_transport, params) op" where
  "redfish_fake_event_logs timeout = redfish_fake_get timeout ''/redfish/v1/Managers/1/LogServices/EventLog/Entries''"

text \<open>\<open>boot.get(...)\<close> on something that is no mapping.\<close>

definition as_mapping :: "pyval \<Rightarrow> params res" where
  "as_mapping v =
     (case v of PDict d \<Rightarrow> Inr (dict_entries v)
      | _ \<Rightarrow> raise AttributeError (type_name v @ '' object has no attribute '' @ py_repr False ''get''))"

definition redfish_fake_boot_status :: "rat \<Rightarrow> (fake_transport, params) op" where
  "redfish_fake_boot_status timeout =
     bind_op (redfish_fake_system timeout) (\<lambda>system.
     bind_op (lift_res (as_mapping (dict_get_or system ''Boot'' (pdict [])))) (\<lambda>boot.
     ret [(''boot_source_override'', dict_get_or boot ''BootSourceOverrideTarget'' (PStr ''Unknown''))]))"

definition redfish_fake_manager :: "rat \<Rightarrow> (fake_transport, params) op" where
  "redfish_fake_manager timeout = redfish_fake_get timeout ''/redfish/v1/Managers/1''"

definition redfish_fake_reset :: "rat \<Rightarrow> string \<Rightarrow> (fake_transport, params) op" where
  "redfish_fake_reset timeout reset_type =
     redfish_fake_mutate timeout ''POST'' (REDFISH_SYSTEM_PATH @ ''/Actions/ComputerSystem.Reset'')
       [(''ResetType'', PStr reset_type)]"

definition redfish_fake_boot_override :: "rat \<Rightarrow> string \<Rightarrow> (fake_transport, params) op" where
  "redfish_fake_boot_override timeout boot_target =
     redfish_fake_mutate timeout ''PATCH'' REDFISH_SYSTEM_PATH
       [(''Boot'', pdict [(''BootSourceOverrideTarget'', PStr boot_target)])]"

definition redfish_fake_bmc_reset :: "rat \<Rightarrow> (fake_transport, params) op" where
  "redfish_fake_bmc_reset timeout =
     redfish_fake_mutate timeout ''POST'' ''/redfish/v1/Managers/1/Actions/Manager.Reset''
       [(''ResetType'', PStr ''GracefulRestart'')]"

text \<open>\<open>list(payload["Members"])\<close>\<close>

definition as_members :: "string \<Rightarrow> (fake_transport, params) op \<Rightarrow> (fake_transport, params option) op" where
  "as_members k m =
     bind_op m (\<lambda>d. bind_op (key_item d ''Members'') (\<lambda>v.
     bind_op (lift_res (py_items v)) (\<lambda>items. ret (Some [(k, PList items)]))))"

definition redfish_gather :: "rat \<Rightarrow> provider_request \<Rightarrow> (fake_transport, params option) op" where
  "redfish_gather timeout r =
     (let c = prq_capability r in
      if c = ''observe.status''
      then bind_op (redfish_fake_root timeout) (\<lambda>service_root. bind_op (redfish_fake_manager timeout) (\<lambda>manager.
        ret (Some [(''service_root'', pdict service_root), (''manager'', pdict manager)])))
      else if c = ''observe.power_state''
      then bind_op (redfish_fake_power_state timeout) (\<lambda>d.
        bind_op (key_item d ''power_state'') (\<lambda>v. ret (Some [(''power_state'', v)])))
      else if c = ''observe.hardware_inventory'' then as_data ''inventory'' (redfish_fake_inventory timeout)
      else if c = ''observe.sensors'' then as_members ''sensors'' (redfish_fake_sensors timeout)
      else if c = ''observe.event_logs'' then as_members ''events'' (redfish_fake_event_logs timeout)
      else if c = ''observe.boot_status'' then as_data ''boot_status'' (redfish_fake_boot_status timeout)
      else (case dict_get REDFISH_RESET_TYPES c of
        Some t \<Rightarrow> as_data ''actuation'' (redfish_fake_reset timeout t)
      | None \<Rightarrow>
          if c = ''boot.override''
          then bind_op (redfish_fake_boot_override timeout
              (value_str (dict_get_or (prq_parameters r) ''boot_target'' (PStr ''Pxe'')))) (\<lambda>d.
            ret (Some [(''actuation'', pdict d), (''parameters'', pdict (redacted_parameters r))]))
          else if c = ''bmc.reset'' then as_data ''actuation'' (redfish_fake_bmc_reset timeout)
          else ret None))"

definition redfish_info :: "fixture_config \<Rightarrow> adapter_info" where
  "redfish_info = fixture_info ''redfish'' REDFISH_SUPPORTED_CAPABILITIES"

definition redfish_execute :: "fixture_config \<Rightarrow> provider_request \<Rightarrow> (fixture_state, provider_result) op" where
  "redfish_execute c = fixture_execute ''Redfish'' ''redfish'' (redfish_info c) redfish_gather c"

section \<open>The adapters keep the contract\<close>

lemma fixture_info_simps [simp]: "ad_provider_id (fixture_info k caps c) = fc_provider_id c"
  by (simp add: fixture_info_def)

interpretation pikvm_adapter: adapter "pikvm_info c" "pikvm_execute c" for c
  by unfold_locales (auto simp: pikvm_execute_def pikvm_info_def dest: fixture_execute_contract)

interpretation redfish_adapter: adapter "redfish_info c" "redfish_execute c" for c
  by unfold_locales (auto simp: redfish_execute_def redfish_info_def dest: fixture_execute_contract)

end
