(* ===== verification/FixtureProps.thy ===== *)
theory FixtureProps
  imports FixtureProviders
begin

text \<open>
  What the adapters over offline fixtures send: reading only reads, and an action is one request.
\<close>

section \<open>Counting what is sent\<close>

text \<open>An operation that sends at most \<open>n\<close> requests, all with one of the methods \<open>ms\<close>.\<close>

definition sends :: "string set \<Rightarrow> nat \<Rightarrow> (fake_transport, 'a) op \<Rightarrow> bool" where
  "sends ms n m \<longleftrightarrow> (\<forall>t x t'. m t = (x, t') \<longrightarrow>
     (\<exists>qs. ft_calls t' = ft_calls t @ qs \<and> length qs \<le> n \<and> (\<forall>q \<in> set qs. trq_method q \<in> ms)))"

lemma sends_0: "(\<And>t. snd (m t) = t) \<Longrightarrow> sends ms n m"
  unfolding sends_def by (metis append_Nil2 empty_iff empty_set le0 list.size(3) snd_conv)

lemma sends_ret [simp]: "sends ms n (ret x)"
  by (rule sends_0) (simp add: ret_def)

lemma sends_lift [simp]: "sends ms n (lift_res r)"
  by (rule sends_0) (simp add: lift_res_def)

lemma sends_throw [simp]: "sends ms n (throw c msg)"
  by (rule sends_0) (simp add: throw_def)

lemma sendsD:
  "sends ms n m \<Longrightarrow> m t = (x, t') \<Longrightarrow>
     \<exists>qs. ft_calls t' = ft_calls t @ qs \<and> length qs \<le> n \<and> (\<forall>q \<in> set qs. trq_method q \<in> ms)"
  unfolding sends_def by blast

lemma sends_bind:
  assumes "sends ms n m" "\<And>y. sends ms k (f y)"
  shows "sends ms (n + k) (bind_op m f)"
  unfolding sends_def
proof (intro allI impI)
  fix t x t' assume "bind_op m f t = (x, t')"
  then show "\<exists>qs. ft_calls t' = ft_calls t @ qs \<and> length qs \<le> n + k \<and> (\<forall>q \<in> set qs. trq_method q \<in> ms)"
  proof (cases rule: bind_opE)
    case (raised e)
    from sendsD [OF assms(1) raised(1)] show ?thesis by force
  next
    case (went_on y t1)
    from sendsD [OF assms(1) went_on(1)] obtain qs where
      "ft_calls t1 = ft_calls t @ qs" "length qs \<le> n" "\<forall>q \<in> set qs. trq_method q \<in> ms" by blast
    moreover from sendsD [OF assms(2) went_on(2)] obtain qs' where
      "ft_calls t' = ft_calls t1 @ qs'" "length qs' \<le> k" "\<forall>q \<in> set qs'. trq_method q \<in> ms" by blast
    ultimately show ?thesis by (intro exI [of _ "qs @ qs'"]) auto
  qed
qed

lemma sends_mono: "sends ms n m \<Longrightarrow> n \<le> k \<Longrightarrow> sends ms k m"
  unfolding sends_def by (meson order_trans)

lemma sends_bind_quiet: "sends ms n m \<Longrightarrow> (\<And>y. sends ms 0 (f y)) \<Longrightarrow> sends ms n (bind_op m f)"
  using sends_bind [of ms n m 0 f] by simp

lemma sends_after: "sends ms 0 m \<Longrightarrow> (\<And>y. sends ms n (f y)) \<Longrightarrow> sends ms n (bind_op m f)"
  using sends_bind [of ms 0 m n f] by simp

lemma sends_then: "sends ms 1 m \<Longrightarrow> (\<And>y. sends ms 1 (f y)) \<Longrightarrow> sends ms 2 (bind_op m f)"
  using sends_bind [of ms 1 m 1 f] by (simp add: numeral_2_eq_2)

lemma sends_map_error: "sends ms n m \<Longrightarrow> sends ms n (map_error f m)"
  unfolding sends_def map_error_def by (auto split: prod.splits)

lemma sends_request: "str_upper v \<in> ms \<Longrightarrow> sends ms 1 (fake_request v p ps timeout)"
  unfolding sends_def
proof (intro allI impI)
  fix t x t' assume "str_upper v \<in> ms" "fake_request v p ps timeout t = (x, t')"
  then show "\<exists>qs. ft_calls t' = ft_calls t @ qs \<and> length qs \<le> 1 \<and> (\<forall>q \<in> set qs. trq_method q \<in> ms)"
    by (auto simp: fake_request_def Let_def split: if_splits option.splits)
qed

lemma sends_offline: "str_upper v \<in> ms \<Longrightarrow> sends ms 1 (offline_send name v p ps timeout)"
  unfolding offline_send_def by (intro sends_map_error sends_request)

lemma sends_key_item [simp]: "sends ms n (key_item d k)"
  by (simp add: key_item_def)

lemmas sends_rules = sends_bind_quiet sends_after sends_map_error sends_offline sends_request

section \<open>The two adapters\<close>

lemma upper_methods [simp]: "str_upper ''GET'' = ''GET''" "str_upper ''POST'' = ''POST''" "str_upper ''PATCH'' = ''PATCH''"
  by code_simp+

lemma sends_if: "(b \<Longrightarrow> sends ms n m) \<Longrightarrow> (\<not> b \<Longrightarrow> sends ms n m') \<Longrightarrow> sends ms n (if b then m else m')"
  by simp

lemma sends_option:
  "(\<And>t. x = Some t \<Longrightarrow> sends ms n (f t)) \<Longrightarrow> (x = None \<Longrightarrow> sends ms n m) \<Longrightarrow>
    sends ms n (case x of None \<Rightarrow> m | Some t \<Rightarrow> f t)"
  by (cases x) auto

lemma sends_one_of_two: "sends ms 1 m \<Longrightarrow> sends ms 2 m"
  by (erule sends_mono) simp

lemma sends_as_data: "sends ms n m \<Longrightarrow> sends ms n (as_data k m)"
  unfolding as_data_def by (rule sends_bind_quiet) simp_all

lemma sends_as_members: "sends ms n m \<Longrightarrow> sends ms n (as_members k m)"
  unfolding as_members_def by (intro sends_bind_quiet) simp_all

lemma sends_pikvm_get: "''GET'' \<in> ms \<Longrightarrow> sends ms 1 (pikvm_fake_get timeout path required)"
  unfolding pikvm_fake_get_def by (intro sends_bind_quiet sends_map_error sends_request) simp_all

lemma pikvm_readings:
  "sends {''GET''} 1 (pikvm_fake_health t)" "sends {''GET''} 1 (pikvm_fake_screen t)"
  "sends {''GET''} 1 (pikvm_fake_screenshot t)" "sends {''GET''} 1 (pikvm_fake_power_state t)"
  "sends {''GET''} 1 (pikvm_fake_boot_status t)" "sends {''GET''} 1 (pikvm_fake_inventory t)"
  "sends {''GET''} 1 (pikvm_fake_event_logs t)"
  unfolding pikvm_fake_health_def pikvm_fake_screen_def pikvm_fake_power_state_def pikvm_fake_boot_status_def
    pikvm_fake_inventory_def pikvm_fake_event_logs_def pikvm_fake_screenshot_def
  by (rule sends_pikvm_get, simp | intro sends_bind_quiet sends_pikvm_get, simp, simp)+

lemma sends_pikvm_post: "sends {''POST'', ''PATCH''} 1 (pikvm_post timeout path ps)"
  unfolding pikvm_post_def by (rule sends_offline) simp

lemma pikvm_actions:
  "sends {''POST'', ''PATCH''} 1 (pikvm_power_on t)" "sends {''POST'', ''PATCH''} 1 (pikvm_power_off t)"
  "sends {''POST'', ''PATCH''} 1 (pikvm_power_cycle t)" "sends {''POST'', ''PATCH''} 1 (pikvm_reset t)"
  "sends {''POST'', ''PATCH''} 1 (pikvm_type_text t text)" "sends {''POST'', ''PATCH''} 1 (pikvm_mount_msd t ref)"
  "sends {''POST'', ''PATCH''} 1 (pikvm_mouse_move t x y w h)"
  "sends {''POST'', ''PATCH''} 1 (pikvm_mouse_click t x y w h button)"
  unfolding pikvm_power_on_def pikvm_power_off_def pikvm_power_cycle_def pikvm_reset_def pikvm_type_text_def
    pikvm_mount_msd_def pikvm_mouse_move_def pikvm_mouse_click_def
  by (rule sends_pikvm_post | rule sends_after, simp, rule sends_pikvm_post)+

lemma pikvm_reads:
  assumes "starts_with (prq_capability r) ''observe.''"
  shows "sends {''GET''} 2 (pikvm_gather timeout r)"
proof -
  have act: "sends {''GET''} 2 m" if "prq_capability r = c" "\<not> starts_with c ''observe.''" for c and m :: "(fake_transport, params option) op"
    using assms that by simp
  show ?thesis
    unfolding pikvm_gather_def Let_def
    by (intro sends_if)
       ((intro sends_one_of_two sends_as_data pikvm_readings; fail)
        | (intro sends_one_of_two sends_bind_quiet pikvm_readings; simp; fail)
        | (intro sends_then sends_bind_quiet pikvm_readings; simp; fail)
        | (erule act, simp; fail) | simp)+
qed

lemma pikvm_acts:
  assumes "\<not> starts_with (prq_capability r) ''observe.''"
  shows "sends {''POST'', ''PATCH''} 1 (pikvm_gather timeout r)"
proof -
  have observe: "sends {''POST'', ''PATCH''} 1 m" if "prq_capability r = c" "starts_with c ''observe.''" for c and m :: "(fake_transport, params option) op"
    using assms that by simp
  have pointer: "sends {''POST'', ''PATCH''} 1 (bind_op (lift_res q) (\<lambda>(x, y, w, h). as_data k (f x y w h)))"
    if "\<And>x y w h. sends {''POST'', ''PATCH''} 1 (f x y w h)" for q :: "(int \<times> int \<times> int \<times> int) res" and f k
    by (rule sends_after) (use that sends_as_data in \<open>auto simp del: One_nat_def\<close>)
  show ?thesis
    unfolding pikvm_gather_def Let_def
    by (intro sends_if)
       ((erule observe, simp; fail) | (intro sends_as_data pikvm_actions; fail)
        | (rule pointer, rule pikvm_actions) | (intro sends_bind_quiet pikvm_actions; simp; fail) | simp)+
qed

lemma sends_redfish_get: "sends {''GET''} 1 (redfish_fake_get timeout path)"
  unfolding redfish_fake_get_def by (rule sends_request) simp

lemma redfish_readings:
  "sends {''GET''} 1 (redfish_fake_root t)" "sends {''GET''} 1 (redfish_fake_power_state t)"
  "sends {''GET''} 1 (redfish_fake_inventory t)" "sends {''GET''} 1 (redfish_fake_sensors t)"
  "sends {''GET''} 1 (redfish_fake_event_logs t)" "sends {''GET''} 1 (redfish_fake_boot_status t)"
  "sends {''GET''} 1 (redfish_fake_manager t)"
  unfolding redfish_fake_root_def redfish_fake_power_state_def redfish_fake_inventory_def redfish_fake_sensors_def
    redfish_fake_event_logs_def redfish_fake_boot_status_def redfish_fake_manager_def redfish_fake_system_def
  by (rule sends_redfish_get | intro sends_bind_quiet sends_redfish_get, simp; fail
      | intro sends_bind_quiet sends_redfish_get, simp, simp)+

lemma redfish_actions:
  "sends {''POST'', ''PATCH''} 1 (redfish_fake_reset t reset_type)"
  "sends {''POST'', ''PATCH''} 1 (redfish_fake_boot_override t boot_target)"
  "sends {''POST'', ''PATCH''} 1 (redfish_fake_bmc_reset t)"
  unfolding redfish_fake_reset_def redfish_fake_boot_override_def redfish_fake_bmc_reset_def redfish_fake_mutate_def
  by (rule sends_offline, simp)+

lemma reset_types_act: "dict_get REDFISH_RESET_TYPES c = Some t \<Longrightarrow> \<not> starts_with c ''observe.''"
  by (auto simp: REDFISH_RESET_TYPES_def split: if_splits)

lemma redfish_reads:
  assumes "starts_with (prq_capability r) ''observe.''"
  shows "sends {''GET''} 2 (redfish_gather timeout r)"
proof -
  have act: "sends {''GET''} 2 m" if "prq_capability r = c" "\<not> starts_with c ''observe.''" for c and m :: "(fake_transport, params option) op"
    using assms that by simp
  show ?thesis
    unfolding redfish_gather_def Let_def
    by (intro sends_if sends_option)
       ((intro sends_one_of_two sends_as_data sends_as_members redfish_readings; fail)
        | (intro sends_one_of_two sends_bind_quiet redfish_readings; simp; fail)
        | (intro sends_then sends_bind_quiet redfish_readings; simp; fail)
        | (drule reset_types_act, use assms in simp; fail)
        | (erule act, simp; fail) | simp)+
qed

lemma redfish_acts:
  assumes "\<not> starts_with (prq_capability r) ''observe.''"
  shows "sends {''POST'', ''PATCH''} 1 (redfish_gather timeout r)"
proof -
  have observe: "sends {''POST'', ''PATCH''} 1 m" if "prq_capability r = c" "starts_with c ''observe.''" for c and m :: "(fake_transport, params option) op"
    using assms that by simp
  show ?thesis
    unfolding redfish_gather_def Let_def
    by (intro sends_if sends_option)
       ((erule observe, simp; fail) | (intro sends_as_data redfish_actions; fail)
        | (intro sends_bind_quiet redfish_actions; simp; fail) | simp)+
qed

definition traffic :: "string \<Rightarrow> transport_request list \<Rightarrow> bool" where
  "traffic c qs \<longleftrightarrow>
     (if starts_with c ''observe.'' then length qs \<le> 2 \<and> list_all (\<lambda>q. trq_method q = ''GET'') qs
      else length qs \<le> 1 \<and> list_all (\<lambda>q. trq_method q \<in> {''POST'', ''PATCH''}) qs)"

lemma fixture_execute_traffic:
  assumes gather: "\<And>t. if starts_with (prq_capability r) ''observe.'' then sends {''GET''} 2 (gather t r)
      else sends {''POST'', ''PATCH''} 1 (gather t r)"
    and run: "fixture_execute name k (fixture_info k caps c) gather c r s = (x, s')"
  shows "\<exists>qs. ft_calls (fx_transport s') = ft_calls (fx_transport s) @ qs \<and> traffic (prq_capability r) qs \<and>
     (qs \<noteq> [] \<longrightarrow> fc_enabled c \<and> prq_capability r \<in> set caps \<and> fx_requests s' = fx_requests s @ [r])"
proof (cases "\<exists>timeout. fc_client c = Some timeout \<and> pvr_ok (fixture_validate name (fixture_info k caps c) c r)")
  case True
  then obtain timeout where c: "fc_client c = Some timeout" "pvr_ok (fixture_validate name (fixture_info k caps c) c r)" by blast
  obtain y t where g: "gather timeout r (fx_transport s) = (y, t)" by (cases "gather timeout r (fx_transport s)")
  with run c have s': "s' = s\<lparr>fx_transport := t, fx_requests := fx_requests s @ [r]\<rparr>"
    by (simp add: fixture_execute_def Let_def)
  have ok: "fc_enabled c" "prq_capability r \<in> set caps"
    using c by (auto simp: fixture_validate_def fixture_info_def supports_def)
  have "\<exists>qs. ft_calls t = ft_calls (fx_transport s) @ qs \<and> traffic (prq_capability r) qs"
  proof (cases "starts_with (prq_capability r) ''observe.''")
    case True
    then have "sends {''GET''} 2 (gather timeout r)" using gather [of timeout] by simp
    from sendsD [OF this g] True show ?thesis by (auto simp: traffic_def list_all_iff)
  next
    case False
    then have "sends {''POST'', ''PATCH''} 1 (gather timeout r)" using gather [of timeout] by simp
    from sendsD [OF this g] False show ?thesis by (auto simp: traffic_def list_all_iff)
  qed
  with s' ok show ?thesis by auto
next
  case False
  then have "s' = s"
    using run by (auto simp: fixture_execute_def Let_def split: option.splits if_splits)
  then show ?thesis by (auto simp: traffic_def)
qed

section \<open>Properties\<close>

text \<open>
  C28 (fixtures). Executing a request on an adapter over an offline fixture, reading sends at most two
  requests, both GET; anything else at most one, by POST or PATCH; and nothing at all unless the
  adapter is enabled and supports the capability, and has recorded the request.
\<close>

theorem fixture_traffic:
  assumes "pikvm_execute c r s = (x, s') \<and> a = pikvm_info c \<or> redfish_execute c r s = (x, s') \<and> a = redfish_info c"
  shows "\<exists>qs. ft_calls (fx_transport s') = ft_calls (fx_transport s) @ qs \<and> traffic (prq_capability r) qs \<and>
     (qs \<noteq> [] \<longrightarrow> ad_enabled a \<and> supports a (prq_capability r) \<and> fx_requests s' = fx_requests s @ [r])"
  using assms
proof (elim disjE conjE)
  assume "pikvm_execute c r s = (x, s')" "a = pikvm_info c"
  then show ?thesis
    using fixture_execute_traffic [where gather = pikvm_gather and name = "''PiKVM''" and k = "''pikvm''"
        and caps = PIKVM_SUPPORTED_CAPABILITIES] pikvm_reads pikvm_acts
    by (auto simp: pikvm_execute_def pikvm_info_def supports_def fixture_info_def)
next
  assume "redfish_execute c r s = (x, s')" "a = redfish_info c"
  then show ?thesis
    using fixture_execute_traffic [where gather = redfish_gather and name = "''Redfish''" and k = "''redfish''"
        and caps = REDFISH_SUPPORTED_CAPABILITIES] redfish_reads redfish_acts
    by (auto simp: redfish_execute_def redfish_info_def supports_def fixture_info_def)
qed

definition demo_fixture_request :: provider_request where
  "demo_fixture_request =
     \<lparr>prq_capability = ''power.on'', prq_action = ''power.on'', prq_target_id = ''t'', prq_session_id = ''s'',
      prq_correlation_id = ''c'', prq_parameters = []\<rparr>"

definition demo_fixture_state :: fixture_state where
  "demo_fixture_state = \<lparr>fx_transport = new_fake_transport [] [''POST''], fx_requests = []\<rparr>"

theorem fixture_traffic_witness:
  "\<exists>qs. ft_calls (fx_transport (snd (pikvm_execute \<lparr>fc_provider_id = ''pikvm'', fc_enabled = True, fc_client = Some 2\<rparr>
     demo_fixture_request demo_fixture_state))) = qs \<and> traffic ''power.on'' qs \<and> length qs \<le> 1"
proof -
  let ?c = "\<lparr>fc_provider_id = ''pikvm'', fc_enabled = True, fc_client = Some 2\<rparr>"
  obtain x s' where h: "pikvm_execute ?c demo_fixture_request demo_fixture_state = (x, s')" by (cases "pikvm_execute ?c demo_fixture_request demo_fixture_state")
  from fixture_traffic [of ?c demo_fixture_request demo_fixture_state x s'] h
  show ?thesis by (auto simp: demo_fixture_request_def demo_fixture_state_def new_fake_transport_def traffic_def)
qed

end
