(* ===== verification/Config.thy ===== *)
theory Config
  imports McpRouter FixtureProviders
begin

text \<open>
  \<open>config/validation.py\<close>, \<open>config/models.py\<close> and \<open>config/loader.py\<close>: from a parsed configuration document
  to providers, targets, policy, channel and the clearance wiring. Nothing but the mock provider and the
  adapters over offline fixtures is ever built. Reading the file is input and output.
\<close>

section \<open>Unsafe keys\<close>

definition SUSPICIOUS_CONFIG_KEY_FRAGMENTS :: "string list" where
  "SUSPICIOUS_CONFIG_KEY_FRAGMENTS =
     [''password'', ''token'', ''api_key'', ''secret'', ''private_key'', ''credential'', ''bearer'', ''session_cookie'']"

definition ALLOWED_CREDENTIAL_REF_SCHEMES :: "string list" where
  "ALLOWED_CREDENTIAL_REF_SCHEMES = [''keychain://'', ''file://'', ''env://'', ''vault://'', ''prompt://'']"

definition DYNAMIC_IMPORT_CONFIG_KEYS :: "string list" where
  "DYNAMIC_IMPORT_CONFIG_KEYS = [''class'', ''factory'', ''import'', ''module'', ''object'']"

definition config_error :: "string \<Rightarrow> 'a res" where
  "config_error m = raise ConfigValidationError m"

definition validate_credential_reference :: "json \<Rightarrow> string \<Rightarrow> string res" where
  "validate_credential_reference v path =
     (case v of
        JStr s \<Rightarrow>
          if str_strip s = [] then config_error (''Credential reference must be a string: '' @ path)
          else if list_ex (starts_with s) ALLOWED_CREDENTIAL_REF_SCHEMES then Inr s
          else config_error (''Unsupported credential reference scheme: '' @ path)
      | _ \<Rightarrow> config_error (''Credential reference must be a string: '' @ path))"

definition is_credential_ref_key :: "string \<Rightarrow> bool" where
  "is_credential_ref_key k \<longleftrightarrow> str_lower k = ''credential_ref''"

definition suspicious_key :: "string \<Rightarrow> bool" where
  "suspicious_key k \<longleftrightarrow> list_ex (contains (str_lower k)) SUSPICIOUS_CONFIG_KEY_FRAGMENTS"

definition dynamic_import_key :: "string \<Rightarrow> bool" where
  "dynamic_import_key k \<longleftrightarrow> str_lower k \<in> set DYNAMIC_IMPORT_CONFIG_KEYS"

fun reject_unsafe_config_keys :: "string \<Rightarrow> json \<Rightarrow> unit res"
  and reject_unsafe_fields :: "string \<Rightarrow> (string \<times> json) list \<Rightarrow> unit res"
  and reject_unsafe_items :: "string \<Rightarrow> nat \<Rightarrow> json list \<Rightarrow> unit res" where
  "reject_unsafe_config_keys path (JObj kvs) = reject_unsafe_fields path kvs"
| "reject_unsafe_config_keys path (JArr xs) = reject_unsafe_items path 0 xs"
| "reject_unsafe_config_keys path _ = Inr ()"
| "reject_unsafe_fields path [] = Inr ()"
| "reject_unsafe_fields path ((k, v) # kvs) =
     (let p = path @ ''.'' @ k in
      bind_res
        (if is_credential_ref_key k then map_sum id (\<lambda>_. ()) (validate_credential_reference v p)
         else if suspicious_key k then config_error (''Secret-like config key rejected: '' @ p)
         else if dynamic_import_key k then config_error (''Dynamic import config key rejected: '' @ p)
         else reject_unsafe_config_keys p v)
        (\<lambda>_. reject_unsafe_fields path kvs))"
| "reject_unsafe_items path i [] = Inr ()"
| "reject_unsafe_items path i (x # xs) =
     bind_res (reject_unsafe_config_keys (path @ ''['' @ str_of_int (int i) @ '']'') x) (\<lambda>_.
     reject_unsafe_items path (Suc i) xs)"

section \<open>Models\<close>

record provider_config =
  pc_id :: string
  pc_type :: string
  pc_enabled :: bool
  pc_description :: json
  pc_credential_ref :: "string option"
  pc_metadata :: jobject

record target_config =
  tc_id :: string
  tc_provider :: string
  tc_enabled :: bool
  tc_name :: json
  tc_environment :: json
  tc_labels :: "string list"
  tc_risk_tier :: string
  tc_modes :: "control_mode list"
  tc_default_policy :: json
  tc_metadata :: jobject

record act_config =
  ac_gateway_url :: "string option"
  ac_tower_id :: "string option"
  ac_tower_keys :: "(string, string) dict"

record akvm_config =
  cf_version :: string
  cf_providers :: "provider_config list"
  cf_targets :: "target_config list"
  cf_mode :: control_mode
  cf_channel :: auth_channel
  cf_act :: act_config

definition act_is_configured :: "act_config \<Rightarrow> bool" where
  "act_is_configured a \<longleftrightarrow> or_empty (ac_gateway_url a) \<noteq> [] \<and> or_empty (ac_tower_id a) \<noteq> [] \<and> ac_tower_keys a \<noteq> []"

text \<open>\<open>ProviderConfig(...)\<close>, its credential reference as given.\<close>

definition make_provider_config :: "provider_config \<Rightarrow> json \<Rightarrow> provider_config res" where
  "make_provider_config c credential_ref =
     (let provider_type = str_lower (str_strip (pc_type c)) in
      if provider_type \<notin> set KNOWN_PROVIDER_TYPES then raise ValueError (''Unknown provider type: '' @ pc_type c)
      else
        bind_res (if credential_ref = JNull then Inr None
                  else map_sum id Some (validate_credential_reference credential_ref ''credential_ref'')) (\<lambda>cr.
        Inr (c\<lparr>pc_id := str_strip (pc_id c), pc_type := provider_type, pc_credential_ref := cr\<rparr>)))"

text \<open>\<open>normalize_control_mode\<close> of a JSON value: only text has \<open>strip\<close>.\<close>

definition json_control_mode :: "json \<Rightarrow> control_mode res" where
  "json_control_mode v =
     (case v of JStr s \<Rightarrow> normalize_control_mode s | _ \<Rightarrow> raise AttributeError ''object has no attribute strip'')"

section \<open>Reading the document\<close>

definition config_required_str :: "json \<Rightarrow> string \<Rightarrow> string res" where
  "config_required_str item k =
     (case get_or item k JNull of
        JStr s \<Rightarrow> if str_strip s = [] then config_error (''Missing required string: '' @ k) else Inr s
      | _ \<Rightarrow> config_error (''Missing required string: '' @ k))"

definition config_mapping :: "json \<Rightarrow> string \<Rightarrow> jobject res" where
  "config_mapping v name =
     (case v of JObj kvs \<Rightarrow> Inr kvs | _ \<Rightarrow> config_error (name @ '' must be an object''))"

definition metadata_flag :: "jobject \<Rightarrow> string \<Rightarrow> bool" where
  "metadata_flag m k = json_truthy (get_or (JObj m) k (JBool False))"

definition validate_provider_metadata :: "provider_config \<Rightarrow> provider_config res" where
  "validate_provider_metadata c =
     (let m = pc_metadata c; fixture_mode = metadata_flag m ''fixture_mode'' in
      if pc_type c \<notin> {''pikvm'', ''redfish''} then Inr c
      else if fixture_mode \<and> metadata_flag m ''live_mode''
      then config_error (''Provider '' @ pc_id c @ '' cannot be both fixture_mode and live_mode'')
      else if get_or (JObj m) ''tls_verify'' (JBool True) = JBool False \<and> \<not> metadata_flag m ''allow_insecure_tls''
      then config_error (''Provider '' @ pc_id c @ '' disables TLS verification without explicit override'')
      else if fixture_mode \<and>
        str_lower (json_str (get_or (JObj m) ''transport'' (JStr ''fake''))) \<notin> {''fake'', ''fixture''}
      then config_error (''Provider '' @ pc_id c @ '' fixture_mode requires fake transport'')
      else if pc_enabled c \<and> pc_type c = ''pikvm'' \<and> \<not> fixture_mode
      then config_error ''Enabled PiKVM live provider config is not allowed before live smoke gates''
      else Inr c)"

definition provider_config_of :: "json \<Rightarrow> provider_config res" where
  "provider_config_of item =
     (if \<not> is_json_obj item then config_error ''Provider entries must be objects''
      else
        bind_res (config_required_str item ''id'') (\<lambda>i.
        bind_res (config_required_str item ''type'') (\<lambda>t.
        bind_res (config_mapping (get_or item ''metadata'' (JObj [])) ''provider metadata'') (\<lambda>m.
        bind_res (make_provider_config
          \<lparr>pc_id = i, pc_type = t, pc_enabled = json_truthy (get_or item ''enabled'' (JBool True)),
           pc_description = get_or item ''description'' JNull, pc_credential_ref = None, pc_metadata = m\<rparr>
          (get_or item ''credential_ref'' JNull)) validate_provider_metadata))))"

definition target_config_of :: "json \<Rightarrow> target_config res" where
  "target_config_of item =
     (if \<not> is_json_obj item then config_error ''Target entries must be objects''
      else
        bind_res (config_required_str item ''id'') (\<lambda>i.
        bind_res (config_required_str item ''provider'') (\<lambda>p.
        bind_res (json_iter (get_or item ''labels'' (JArr []))) (\<lambda>labels.
        bind_res (json_iter (get_or item ''allowed_modes'' (JArr []))) (\<lambda>modes.
        bind_res (config_mapping (get_or item ''metadata'' (JObj [])) ''target metadata'') (\<lambda>m.
        bind_res (map_res json_control_mode modes) (\<lambda>allowed.
        Inr \<lparr>tc_id = str_strip i, tc_provider = str_strip p, tc_enabled = json_truthy (get_or item ''enabled'' (JBool True)),
             tc_name = get_or item ''name'' JNull, tc_environment = get_or item ''environment'' JNull,
             tc_labels = map json_str labels, tc_risk_tier = json_str (get_or item ''risk_tier'' (JStr ''unknown'')),
             tc_modes = allowed, tc_default_policy = get_or item ''default_policy'' JNull, tc_metadata = m\<rparr>)))))))"

definition config_channel :: "json \<Rightarrow> auth_channel res" where
  "config_channel v =
     (let resolve = (\<lambda>c. map_sum id sel_channel (resolve_auth_channel c DEFAULT_AUTH_CHANNEL)) in
      case (case v of
              JNull \<Rightarrow> resolve ChannelNone
            | JStr s \<Rightarrow> resolve (ChannelText s)
            | _ \<Rightarrow> raise AuthChannelError
                (''unknown auth_channel '' @ json_repr v @ ''; choose one of: local_terminal, mobile_signed'')) of
        Inl e \<Rightarrow> if exn_class_of e = AuthChannelError then config_error (exn_text e) else Inl e
      | Inr c \<Rightarrow> Inr c)"

definition config_optional_str :: "json \<Rightarrow> string option" where
  "config_optional_str v = (if json_truthy v then Some (json_str v) else None)"

definition or_object :: "json option \<Rightarrow> json" where
  "or_object v = (case v of None \<Rightarrow> JObj [] | Some JNull \<Rightarrow> JObj [] | Some w \<Rightarrow> w)"

definition act_config_of :: "json \<Rightarrow> act_config res" where
  "act_config_of v =
     bind_res (if is_json_obj v then Inr () else config_error ''act must be an object'') (\<lambda>_.
     bind_res (config_mapping (get_or v ''tower_keys'' (JObj [])) ''act.tower_keys'') (\<lambda>keys.
     Inr \<lparr>ac_gateway_url = config_optional_str (get_or v ''gateway_url'' JNull),
          ac_tower_id = config_optional_str (get_or v ''tower_id'' JNull),
          ac_tower_keys = map (\<lambda>(k, w). (k, json_str w)) keys\<rparr>))"

section \<open>Building the registries\<close>

text \<open>
  Every provider object has its own state, kept under the id of its entry; an adapter instance works on
  the state of its own object.
\<close>

datatype device = MockDevice mock_provider | FixtureDevice fixture_state

type_synonym devices = "(string, device) dict"

definition no_device :: "string \<Rightarrow> 'a res" where
  "no_device i = raise AttributeError i"

definition mock_on :: "string \<Rightarrow> provider_request \<Rightarrow> (devices, provider_result) op" where
  "mock_on i r ds =
     (case dict_get ds i of
        Some (MockDevice m) \<Rightarrow> (case mock_execute r m of (x, m') \<Rightarrow> (x, dict_set i (MockDevice m') ds))
      | _ \<Rightarrow> (no_device i, ds))"

definition fixture_on ::
    "(provider_request \<Rightarrow> (fixture_state, provider_result) op) \<Rightarrow> string \<Rightarrow> provider_request \<Rightarrow> (devices, provider_result) op" where
  "fixture_on execute i r ds =
     (case dict_get ds i of
        Some (FixtureDevice s) \<Rightarrow> (case execute r s of (x, s') \<Rightarrow> (x, dict_set i (FixtureDevice s') ds))
      | _ \<Rightarrow> (no_device i, ds))"

definition fixture_device :: "fake_transport \<Rightarrow> device" where
  "fixture_device t = FixtureDevice \<lparr>fx_transport = t, fx_requests = []\<rparr>"

definition provider_adapter_from_config :: "provider_config \<Rightarrow> (devices provider_instance \<times> device) option" where
  "provider_adapter_from_config c =
     (let fixture_mode = metadata_flag (pc_metadata c) ''fixture_mode'';
          fc = \<lparr>fc_provider_id = pc_id c, fc_enabled = True, fc_client = Some 2\<rparr>
      in if \<not> pc_enabled c then None
         else if pc_type c = ''mock''
         then Some (\<lparr>pi_info = mock_info, pi_execute = mock_on (pc_id c)\<rparr>, MockDevice new_mock_provider)
         else if pc_type c = ''pikvm'' \<and> fixture_mode
         then Some (\<lparr>pi_info = pikvm_info fc, pi_execute = fixture_on (pikvm_execute fc) (pc_id c)\<rparr>,
                    fixture_device default_pikvm_fake_transport)
         else if pc_type c = ''redfish'' \<and> fixture_mode
         then Some (\<lparr>pi_info = redfish_info fc, pi_execute = fixture_on (redfish_execute fc) (pc_id c)\<rparr>,
                    fixture_device default_redfish_fake_transport)
         else None)"

definition entry_of_config :: "provider_config \<Rightarrow> devices provider_entry res" where
  "entry_of_config c =
     make_provider_entry
       \<lparr>pe_id = pc_id c, pe_type = pc_type c, pe_enabled = pc_enabled c,
        pe_provider = map_option fst (provider_adapter_from_config c),
        pe_description = pyval_of_json (pc_description c),
        pe_metadata = map (\<lambda>(k, v). (k, pyval_of_json v)) (pc_metadata c)\<rparr>"

definition build_provider_registry :: "akvm_config \<Rightarrow> devices provider_registry res" where
  "build_provider_registry c = bind_res (map_res entry_of_config (cf_providers c)) new_provider_registry"

definition initial_devices :: "akvm_config \<Rightarrow> devices" where
  "initial_devices c =
     dict_of (List.map_filter (\<lambda>p. map_option (\<lambda>(_, d). (pc_id p, d)) (provider_adapter_from_config p)) (cf_providers c)) []"

definition target_of_config :: "target_config \<Rightarrow> target_definition res" where
  "target_of_config t =
     make_target
       \<lparr>td_id = tc_id t, td_provider_id = tc_provider t, td_enabled = tc_enabled t,
        td_name = pyval_of_json (tc_name t), td_environment = pyval_of_json (tc_environment t),
        td_labels = tc_labels t, td_risk_tier = tc_risk_tier t, td_raw_modes = map mode_value (tc_modes t),
        td_default_policy = pyval_of_json (tc_default_policy t),
        td_metadata = map (\<lambda>(k, v). (k, pyval_of_json v)) (tc_metadata t), td_modes = []\<rparr>"

definition build_target_registry :: "akvm_config \<Rightarrow> devices provider_registry \<Rightarrow> devices target_registry res" where
  "build_target_registry c providers = bind_res (map_res target_of_config (cf_targets c)) (new_target_registry providers)"

section \<open>Loading\<close>

definition json_list_or :: "json \<Rightarrow> string \<Rightarrow> json list res" where
  "json_list_or v message = (case v of JArr xs \<Rightarrow> Inr xs | _ \<Rightarrow> config_error message)"

definition config_from_mapping :: "jobject \<Rightarrow> akvm_config res" where
  "config_from_mapping kvs =
     (let raw = JObj kvs in
      bind_res (reject_unsafe_config_keys ''config'' raw) (\<lambda>_.
      bind_res (json_list_or (get_or raw ''providers'' JNull) ''Config providers must be a list'') (\<lambda>provider_items.
      bind_res (json_list_or (get_or raw ''targets'' JNull) ''Config targets must be a list'') (\<lambda>target_items.
      bind_res (map_res provider_config_of provider_items) (\<lambda>providers.
      bind_res (map_res target_config_of target_items) (\<lambda>targets.
      let default_policy = or_object (json_get raw ''default_policy'') in
      bind_res (if is_json_obj default_policy then Inr () else config_error ''default_policy must be an object'') (\<lambda>_.
      bind_res (config_channel (get_or raw ''auth_channel'' (get_or default_policy ''auth_channel'' JNull))) (\<lambda>channel.
      bind_res (act_config_of (or_object (json_get raw ''act''))) (\<lambda>act.
      bind_res (normalize_control_mode (json_str (get_or default_policy ''mode'' (JStr ''Supervised'')))) (\<lambda>mode.
      let config = \<lparr>cf_version = json_str (get_or raw ''version'' (JStr ''0.1'')), cf_providers = providers,
                    cf_targets = targets, cf_mode = mode, cf_channel = channel, cf_act = act\<rparr> in
      bind_res (build_provider_registry config) (\<lambda>registry.
      bind_res (build_target_registry config registry) (\<lambda>_. Inr config))))))))))))"

definition mock_only_config :: akvm_config where
  "mock_only_config =
     \<lparr>cf_version = ''0.1'',
      cf_providers =
        [\<lparr>pc_id = ''mock'', pc_type = ''mock'', pc_enabled = True, pc_description = JStr ''Safe in-memory mock provider'',
          pc_credential_ref = None, pc_metadata = []\<rparr>],
      cf_targets =
        [\<lparr>tc_id = ''mock-host'', tc_provider = ''mock'', tc_enabled = True, tc_name = JStr ''Mock Host'',
          tc_environment = JStr ''local'', tc_labels = [''mock'', ''safe''], tc_risk_tier = ''low'',
          tc_modes = [OBSERVE, ASSISTED, SUPERVISED, FULL_CONTROL], tc_default_policy = JNull,
          tc_metadata = [(''description'', JStr ''safe mock target'')]\<rparr>],
      cf_mode = SUPERVISED, cf_channel = DEFAULT_AUTH_CHANNEL,
      cf_act = \<lparr>ac_gateway_url = None, ac_tower_id = None, ac_tower_keys = []\<rparr>\<rparr>"

text \<open>The objects of a runtime; a client of the tower is built, over a transport, exactly with its verifier.\<close>

record config_runtime =
  cr_config :: akvm_config
  cr_providers :: "devices provider_registry"
  cr_targets :: "devices target_registry"
  cr_policy :: capability_policy
  cr_verifier :: "act_verifier option"
  cr_gateway :: "string option"
  cr_act_parity :: bool

definition build_runtime :: "akvm_config option \<Rightarrow> config_runtime res" where
  "build_runtime config =
     (let c = (case config of None \<Rightarrow> mock_only_config | Some c \<Rightarrow> c); act = cf_act c in
      bind_res (build_provider_registry c) (\<lambda>providers.
      bind_res (build_target_registry c providers) (\<lambda>targets.
      bind_res (if act_is_configured act
                then map_sum id (\<lambda>keys. Some \<lparr>av_tower_id = or_empty (ac_tower_id act),
                       av_proof_verifier = Ed25519Verifier keys, av_test_mode = False\<rparr>)
                     (registry_from_b64url (ac_tower_keys act))
                else Inr None) (\<lambda>verifier.
      Inr \<lparr>cr_config = c, cr_providers = providers, cr_targets = targets, cr_policy = mode_preset (cf_mode c) None,
           cr_verifier = verifier,
           cr_gateway = (if verifier = None then None else ac_gateway_url act),
           cr_act_parity = (verifier \<noteq> None)\<rparr>))))"

end
