(* ===== verification/ConfigProps.thy ===== *)
theory ConfigProps
  imports Config McpProps
begin

text \<open>
  What a configuration can and cannot bring about: accepted documents hold no secret-like and no
  import-like key, they build, and nothing that is built reaches hardware.
\<close>

section \<open>Accepted documents\<close>

text \<open>A reference to a credential kept elsewhere, and a document without unsafe keys on any level.\<close>

definition credential_reference :: "json \<Rightarrow> bool" where
  "credential_reference v \<longleftrightarrow>
     (case v of JStr s \<Rightarrow> str_strip s \<noteq> [] \<and> list_ex (starts_with s) ALLOWED_CREDENTIAL_REF_SCHEMES | _ \<Rightarrow> False)"

fun safe_document :: "json \<Rightarrow> bool"
  and safe_fields :: "(string \<times> json) list \<Rightarrow> bool"
  and safe_items :: "json list \<Rightarrow> bool" where
  "safe_document (JObj kvs) = safe_fields kvs"
| "safe_document (JArr xs) = safe_items xs"
| "safe_document _ = True"
| "safe_fields [] = True"
| "safe_fields ((k, v) # kvs) =
     ((if is_credential_ref_key k
       then credential_reference v
       else \<not> suspicious_key k \<and> \<not> dynamic_import_key k \<and> safe_document v) \<and> safe_fields kvs)"
| "safe_items [] = True"
| "safe_items (x # xs) = (safe_document x \<and> safe_items xs)"

lemma config_error_simps [simp]:
  "config_error m = Inl e \<longleftrightarrow> e = Exn ConfigValidationError m" "config_error m \<noteq> Inr x"
  by (auto simp: config_error_def raise_def)

lemma credential_reference_Inr: "(\<exists>s. validate_credential_reference v path = Inr s) \<longleftrightarrow> credential_reference v"
  by (cases v) (auto simp: validate_credential_reference_def credential_reference_def)

lemma credential_reference_Inl:
  "validate_credential_reference v path = Inl e \<Longrightarrow> exn_class_of e = ConfigValidationError"
  by (cases v) (auto simp: validate_credential_reference_def split: if_splits)

lemma map_sum_unit_Inr: "map_sum id (\<lambda>_. ()) r = Inr () \<longleftrightarrow> (\<exists>x. r = Inr x)"
  by (cases r) auto

lemma map_sum_unit_Inl: "map_sum id f r = Inl e \<longleftrightarrow> r = Inl e"
  by (cases r) auto

lemma reject_unsafe_iff:
  "reject_unsafe_config_keys path v = Inr () \<longleftrightarrow> safe_document v"
  "reject_unsafe_fields path kvs = Inr () \<longleftrightarrow> safe_fields kvs"
  "reject_unsafe_items path i xs = Inr () \<longleftrightarrow> safe_items xs"
proof (induction path v and path kvs and path i xs rule: reject_unsafe_config_keys_reject_unsafe_fields_reject_unsafe_items.induct)
  case (5 path k v kvs)
  show ?case
    using 5 by (simp add: bind_res_Inr_iff Let_def map_sum_unit_Inr credential_reference_Inr)
qed (simp_all add: bind_res_Inr_iff)

lemma reject_unsafe_class:
  "reject_unsafe_config_keys path v = Inl e \<Longrightarrow> exn_class_of e = ConfigValidationError"
  "reject_unsafe_fields path kvs = Inl e \<Longrightarrow> exn_class_of e = ConfigValidationError"
  "reject_unsafe_items path i xs = Inl e \<Longrightarrow> exn_class_of e = ConfigValidationError"
proof (induction path v and path kvs and path i xs rule: reject_unsafe_config_keys_reject_unsafe_fields_reject_unsafe_items.induct)
  case (5 path k v kvs)
  then show ?case
    by (auto simp: bind_res_Inl_iff Let_def map_sum_unit_Inl dest: credential_reference_Inl split: if_splits)
next
  case (7 path i x xs)
  then show ?case by (auto simp: bind_res_Inl_iff)
qed simp_all


section \<open>What is built\<close>

lemma make_provider_entry_provider: "make_provider_entry e = Inr e' \<Longrightarrow> pe_provider e' = pe_provider e"
  by (auto simp: make_provider_entry_def Let_def split: if_splits option.splits)

lemma map_res_comp: "map_res (\<lambda>x. f (g x)) xs = map_res f (map g xs)"
  by (induction xs) auto

definition raw_entry :: "provider_config \<Rightarrow> devices provider_entry" where
  "raw_entry c =
     \<lparr>pe_id = pc_id c, pe_type = pc_type c, pe_enabled = pc_enabled c,
      pe_provider = map_option fst (provider_adapter_from_config c),
      pe_description = pyval_of_json (pc_description c),
      pe_metadata = map (\<lambda>(k, v). (k, pyval_of_json v)) (pc_metadata c)\<rparr>"

lemma entry_of_raw: "entry_of_config c = make_provider_entry (raw_entry c)"
  by (simp add: entry_of_config_def raw_entry_def)

lemma build_providers_checked:
  assumes "build_provider_registry c = Inr reg"
  shows "checked_registry reg"
proof -
  obtain es where "map_res entry_of_config (cf_providers c) = Inr es" "new_provider_registry es = Inr reg"
    using assms by (auto simp: build_provider_registry_def bind_res_Inr_iff)
  then show ?thesis
    by (intro new_registry_checked [of "map raw_entry (cf_providers c)"])
       (simp_all add: map_res_comp [symmetric] entry_of_raw [abs_def])
qed

lemma build_providers_from:
  assumes "build_provider_registry c = Inr reg" "dict_get reg i = Some e" "pe_provider e = Some p"
  shows "\<exists>pc \<in> set (cf_providers c). \<exists>d. provider_adapter_from_config pc = Some (p, d)"
proof -
  obtain es where es: "map_res entry_of_config (cf_providers c) = Inr es" "fold_res register_provider es [] = Inr reg"
    using assms(1) by (auto simp: build_provider_registry_def bind_res_Inr_iff new_provider_registry_def)
  have "e \<in> set es" using provider_reg.fold_get [OF es(2)] assms(2) by fastforce
  then obtain n where n: "n < length es" "es ! n = e" by (auto simp: in_set_conv_nth)
  then have pc: "cf_providers c ! n \<in> set (cf_providers c)" "entry_of_config (cf_providers c ! n) = Inr e"
    using es(1) by (auto simp: map_res_Inr_iff list_all2_conv_all_nth)
  then have "map_option fst (provider_adapter_from_config (cf_providers c ! n)) = Some p"
    using assms(3) by (auto simp: entry_of_raw raw_entry_def dest: make_provider_entry_provider)
  then show ?thesis using pc(1) by force
qed

lemma mock_on_Inr:
  "mock_on i r ds = (Inr x, ds') \<Longrightarrow> \<exists>m m'. mock_execute r m = (Inr x, m')"
  by (auto simp: mock_on_def no_device_def split: option.splits device.splits prod.splits)

lemma fixture_on_Inr:
  "fixture_on execute i r ds = (Inr x, ds') \<Longrightarrow> \<exists>s s'. execute r s = (Inr x, s')"
  by (auto simp: fixture_on_def no_device_def split: option.splits device.splits prod.splits)

text \<open>What an adapter built from a configuration is, and whose contract it inherits.\<close>

lemma built_adapter_cases:
  assumes "provider_adapter_from_config pc = Some (p, d)"
  obtains (mock) "p = \<lparr>pi_info = mock_info, pi_execute = mock_on (pc_id pc)\<rparr>"
    | (pikvm) fc where "fc_client fc = Some 2" "p = \<lparr>pi_info = pikvm_info fc, pi_execute = fixture_on (pikvm_execute fc) (pc_id pc)\<rparr>"
    | (redfish) fc where "fc_client fc = Some 2" "p = \<lparr>pi_info = redfish_info fc, pi_execute = fixture_on (redfish_execute fc) (pc_id pc)\<rparr>"
proof -
  let ?fc = "\<lparr>fc_provider_id = pc_id pc, fc_enabled = True, fc_client = Some 2\<rparr>"
  have "p = \<lparr>pi_info = mock_info, pi_execute = mock_on (pc_id pc)\<rparr> \<or>
    p = \<lparr>pi_info = pikvm_info ?fc, pi_execute = fixture_on (pikvm_execute ?fc) (pc_id pc)\<rparr> \<or>
    p = \<lparr>pi_info = redfish_info ?fc, pi_execute = fixture_on (redfish_execute ?fc) (pc_id pc)\<rparr>"
    using assms by (auto simp: provider_adapter_from_config_def Let_def split: if_splits)
  moreover have "fc_client ?fc = Some 2" by simp
  ultimately show thesis using that by blast
qed

lemma built_adapter_offline:
  assumes "provider_adapter_from_config pc = Some (p, d)"
  shows "\<not> ad_is_real_hardware (pi_info p)"
    and "pi_execute p r ds = (Inr x, ds') \<Longrightarrow> \<not> prs_performed_on_hardware x \<and>
      prs_provider_id x = ad_provider_id (pi_info p) \<and> prs_target_id x = prq_target_id r \<and>
      (prs_ok x \<longrightarrow> supports (pi_info p) (prq_capability r))"
proof -
  have real: "\<not> ad_is_real_hardware (pi_info p)"
    using assms by (cases rule: built_adapter_cases) (auto simp: pikvm_info_def redfish_info_def fixture_info_def)
  then show "\<not> ad_is_real_hardware (pi_info p)" .
  assume x: "pi_execute p r ds = (Inr x, ds')"
  from assms show "\<not> prs_performed_on_hardware x \<and> prs_provider_id x = ad_provider_id (pi_info p) \<and>
      prs_target_id x = prq_target_id r \<and> (prs_ok x \<longrightarrow> supports (pi_info p) (prq_capability r))"
  proof (cases rule: built_adapter_cases)
    case mock
    then obtain m m' where "mock_execute r m = (Inr x, m')" using mock_on_Inr x by force
    then show ?thesis using mock mock_adapter.answers_request mock_adapter.no_hardware mock_adapter.unsupported_fails by fastforce
  next
    case (pikvm fc)
    then obtain s s' where "pikvm_execute fc r s = (Inr x, s')" using fixture_on_Inr x by force
    then show ?thesis using pikvm real pikvm_adapter.answers_request pikvm_adapter.no_hardware pikvm_adapter.unsupported_fails by fastforce
  next
    case (redfish fc)
    then obtain s s' where "redfish_execute fc r s = (Inr x, s')" using fixture_on_Inr x by force
    then show ?thesis using redfish real redfish_adapter.answers_request redfish_adapter.no_hardware redfish_adapter.unsupported_fails by fastforce
  qed
qed

text \<open>An enabled entry of a registry that was built has its adapter.\<close>

lemma built_enabled_adapter:
  assumes "build_provider_registry c = Inr reg" "pc \<in> set (cf_providers c)" "pc_enabled pc"
  shows "\<exists>p d. provider_adapter_from_config pc = Some (p, d)"
proof -
  obtain es where es: "map_res entry_of_config (cf_providers c) = Inr es"
    using assms(1) by (auto simp: build_provider_registry_def bind_res_Inr_iff)
  then obtain e where e: "make_provider_entry (raw_entry pc) = Inr e"
    using assms(2) by (auto simp: map_res_Inr_iff list_all2_conv_all_nth in_set_conv_nth entry_of_raw)
  then have "pe_enabled e" "pe_provider e = map_option fst (provider_adapter_from_config pc)"
    using assms(3) make_provider_entry_provider [OF e]
    by (auto simp: make_provider_entry_def Let_def raw_entry_def split: if_splits option.splits)
  then show ?thesis using make_provider_entry_Inr(4) [OF e] by (auto simp: is_executable_entry_def)
qed

lemma runtime_registries:
  assumes "build_runtime config = Inr rn"
  shows "build_provider_registry (cr_config rn) = Inr (cr_providers rn)"
    "build_target_registry (cr_config rn) (cr_providers rn) = Inr (cr_targets rn)"
  using assms by (auto simp: build_runtime_def bind_res_Inr_iff Let_def)

lemma accepted_config:
  assumes "config_from_mapping kvs = Inr c"
  shows "safe_fields kvs" "\<exists>reg ts. build_provider_registry c = Inr reg \<and> build_target_registry c reg = Inr ts"
  using assms by (auto simp: config_from_mapping_def bind_res_Inr_iff reject_unsafe_iff Let_def)

section \<open>Properties\<close>

text \<open>
  C29 (configuration). A document with a secret-like or an import-like key anywhere in it, or with a
  credential reference of an unknown scheme, is refused with a configuration error.
\<close>

theorem unsafe_config_refused:
  assumes "\<not> safe_fields kvs"
  shows "\<exists>m. config_from_mapping kvs = Inl (Exn ConfigValidationError m)"
proof (cases "reject_unsafe_fields ''config'' kvs")
  case (Inl e)
  then have "exn_class_of e = ConfigValidationError" by (rule reject_unsafe_class)
  then show ?thesis using Inl by (cases e) (simp add: config_from_mapping_def Let_def)
next
  case (Inr u)
  then show ?thesis using assms reject_unsafe_iff(2) by auto
qed

text \<open>
  Configuration. An accepted configuration builds a runtime, unless its tower keys do not
  decode; each of its enabled providers is the mock provider or an offline fixture; and the runtime
  verifies clearances, if it does, with those keys and never in test mode.
\<close>

theorem accepted_config_builds:
  assumes "config_from_mapping kvs = Inr c"
  shows "((\<exists>rn. build_runtime (Some c) = Inr rn \<and> cr_config rn = c \<and> cr_policy rn = mode_preset (cf_mode c) None \<and>
      (case cr_verifier rn of
         None \<Rightarrow> \<not> act_is_configured (cf_act c)
       | Some v \<Rightarrow> \<not> av_test_mode v \<and> (\<exists>keys. av_proof_verifier v = Ed25519Verifier keys \<and>
           registry_from_b64url (ac_tower_keys (cf_act c)) = Inr keys))) \<or>
      act_is_configured (cf_act c) \<and> (\<exists>e. registry_from_b64url (ac_tower_keys (cf_act c)) = Inl e)) \<and>
    (\<forall>pc \<in> set (cf_providers c). pc_enabled pc \<longrightarrow>
      (\<exists>p d. provider_adapter_from_config pc = Some (p, d) \<and> \<not> ad_is_real_hardware (pi_info p)))"
proof (rule conjI)
  note built = accepted_config(2) [OF assms]
  show "\<forall>pc \<in> set (cf_providers c). pc_enabled pc \<longrightarrow>
      (\<exists>p d. provider_adapter_from_config pc = Some (p, d) \<and> \<not> ad_is_real_hardware (pi_info p))"
    using built built_enabled_adapter built_adapter_offline(1) by blast
  show "(\<exists>rn. build_runtime (Some c) = Inr rn \<and> cr_config rn = c \<and> cr_policy rn = mode_preset (cf_mode c) None \<and>
      (case cr_verifier rn of
         None \<Rightarrow> \<not> act_is_configured (cf_act c)
       | Some v \<Rightarrow> \<not> av_test_mode v \<and> (\<exists>keys. av_proof_verifier v = Ed25519Verifier keys \<and>
           registry_from_b64url (ac_tower_keys (cf_act c)) = Inr keys))) \<or>
      act_is_configured (cf_act c) \<and> (\<exists>e. registry_from_b64url (ac_tower_keys (cf_act c)) = Inl e)"
    using built by (cases "registry_from_b64url (ac_tower_keys (cf_act c))")
       (auto simp: build_runtime_def Let_def)
qed

text \<open>
  C17 (configured sessions). Over a runtime built from a configuration, no session of tool calls ever
  reaches hardware: whatever it executes goes to an adapter that is not for real hardware, and whose
  answer to it does not claim to have been performed on hardware.
\<close>

theorem configured_session_offline:
  assumes "build_runtime config = Inr rn" "rt_providers rt = cr_providers rn"
  shows "\<exists>qs. executions (run_tools rt rs w) = executions w @ qs \<and> length qs \<le> length rs \<and>
     (\<forall>q \<in> set qs. \<exists>xs r ys tool t p who cp. rs = xs @ r # ys \<and> routed rt r tool t p who cp \<and>
        \<not> ad_is_real_hardware (pi_info p) \<and> ad_provider_id (pi_info p) = td_provider_id t \<and>
        (\<forall>ds x ds'. pl_execute cp q ds = (Inr x, ds') \<longrightarrow> \<not> prs_performed_on_hardware x))"
proof -
  note reg = runtime_registries(1) [OF assms(1)]
  have one: "\<exists>tool t p who cp. routed rt r tool t p who cp \<and> \<not> ad_is_real_hardware (pi_info p) \<and>
      ad_provider_id (pi_info p) = td_provider_id t \<and>
      (\<forall>ds x ds'. pl_execute cp q ds = (Inr x, ds') \<longrightarrow> \<not> prs_performed_on_hardware x)"
    if permitted: "call_permitted rt r q w'" for r q w'
  proof -
    obtain tool t p who cp where r: "routed rt r tool t p who cp"
      using permitted unfolding call_permitted_def by blast
    then have p: "resolve_enabled_provider (cr_providers rn) (td_provider_id t) = Inr p" and cp: "pl_execute cp = pi_execute p"
      using assms(2) plane_for_facts by (auto simp: routed_def)
    then obtain e where e: "dict_get (cr_providers rn) (td_provider_id t) = Some e" "pe_provider e = Some p"
      by (auto simp: resolve_enabled_provider_Inr)
    from build_providers_from [OF reg e] obtain pc d where "provider_adapter_from_config pc = Some (p, d)" by blast
    from built_adapter_offline [OF this] checked_resolved(1) [OF build_providers_checked [OF reg] p] r cp
    show ?thesis by metis
  qed
  obtain qs where "executions (run_tools rt rs w) = executions w @ qs" "length qs \<le> length rs"
    "\<forall>q \<in> set qs. \<exists>xs r ys. rs = xs @ r # ys \<and> call_permitted rt r q (run_tools rt xs w)"
    using session_executions by blast
  with one show ?thesis by (intro exI [of _ qs]) metis
qed

section \<open>Witnesses\<close>

theorem unsafe_config_refused_witness:
  "\<exists>m. config_from_mapping [(''providers'', JArr [JObj [(''api_token'', JStr ''x'')]])] = Inl (Exn ConfigValidationError m)"
proof -
  have "\<not> safe_fields [(''providers'', JArr [JObj [(''api_token'', JStr ''x'')]])]"
    by code_simp
  from unsafe_config_refused [OF this] show ?thesis .
qed

definition demo_document :: jobject where
  "demo_document =
     [(''providers'', JArr [JObj [(''id'', JStr ''mock''), (''type'', JStr ''mock'')]]), (''targets'', JArr [])]"

text \<open>The mock entry, evaluated in steps: its adapter stays as it is.\<close>

lemma demo_keys:
  "str_strip ''mock'' = ''mock''" "str_lower ''mock'' = ''mock''" "id_pattern ''mock''"
  "''mock'' \<in> set KNOWN_PROVIDER_TYPES" "\<not> contains_secret_key (pdict [])"
  by code_simp+

lemma mock_entry_builds:
  assumes "pc_id pc = ''mock''" "pc_type pc = ''mock''" "pc_enabled pc" "pc_metadata pc = []"
  shows "\<exists>e. entry_of_config pc = Inr e \<and> pe_id e = ''mock''"
  using assms
  by (simp add: entry_of_config_def make_provider_entry_def provider_adapter_from_config_def Let_def demo_keys
      EXECUTABLE_PROVIDER_TYPES_def mock_info_def)

lemma mock_registry_builds:
  assumes "cf_providers c = [pc]" "pc_id pc = ''mock''" "pc_type pc = ''mock''" "pc_enabled pc" "pc_metadata pc = []"
  shows "\<exists>e. build_provider_registry c = Inr [(''mock'', e)]"
proof -
  obtain e where "entry_of_config pc = Inr e" "pe_id e = ''mock''" using mock_entry_builds assms by blast
  then show ?thesis
    using assms(1) by (simp add: build_provider_registry_def new_provider_registry_def register_provider_def)
qed

lemma demo_accepted: "\<exists>c. config_from_mapping demo_document = Inr c"
proof -
  let ?pc = "\<lparr>pc_id = ''mock'', pc_type = ''mock'', pc_enabled = True, pc_description = JNull, pc_credential_ref = None, pc_metadata = []\<rparr>"
  have safe: "reject_unsafe_fields ''config'' demo_document = Inr ()"
    unfolding reject_unsafe_iff demo_document_def by code_simp
  have pc: "provider_config_of (JObj [(''id'', JStr ''mock''), (''type'', JStr ''mock'')]) = Inr ?pc" by code_simp
  have rest: "config_channel JNull = Inr DEFAULT_AUTH_CHANNEL" "normalize_control_mode ''Supervised'' = Inr SUPERVISED"
    "act_config_of (JObj []) = Inr \<lparr>ac_gateway_url = None, ac_tower_id = None, ac_tower_keys = []\<rparr>"
    by code_simp+
  have get: "dict_get demo_document ''default_policy'' = None" "dict_get demo_document ''act'' = None"
    "get_or (JObj demo_document) ''providers'' JNull = JArr [JObj [(''id'', JStr ''mock''), (''type'', JStr ''mock'')]]"
    "get_or (JObj demo_document) ''targets'' JNull = JArr []"
    "get_or (JObj demo_document) ''auth_channel'' JNull = JNull" "get_or (JObj []) ''auth_channel'' JNull = JNull"
    "json_str (get_or (JObj []) ''mode'' (JStr ''Supervised'')) = ''Supervised''"
    by code_simp+
  obtain e where e: "build_provider_registry \<lparr>cf_version = json_str (get_or (JObj demo_document) ''version'' (JStr ''0.1'')),
      cf_providers = [?pc], cf_targets = [], cf_mode = SUPERVISED, cf_channel = DEFAULT_AUTH_CHANNEL,
      cf_act = \<lparr>ac_gateway_url = None, ac_tower_id = None, ac_tower_keys = []\<rparr>\<rparr> = Inr [(''mock'', e)]"
    using mock_registry_builds by fastforce
  show ?thesis
    by (simp add: config_from_mapping_def Let_def safe get json_list_or_def pc or_object_def rest e
        build_target_registry_def new_target_registry_def)
qed

lemma mock_only_builds: "\<exists>rn. build_runtime None = Inr rn"
proof -
  have t: "target_of_config (hd (cf_targets mock_only_config)) = Inr y \<Longrightarrow> td_provider_id y = ''mock''" for y
    by (auto simp: mock_only_config_def target_of_config_def make_target_def bind_res_Inr_iff demo_keys split: if_splits)
  have "\<not> isl (target_of_config (hd (cf_targets mock_only_config)))" by code_simp
  then obtain y where y: "target_of_config (hd (cf_targets mock_only_config)) = Inr y"
    by (cases "target_of_config (hd (cf_targets mock_only_config))") auto
  obtain e where "build_provider_registry mock_only_config = Inr [(''mock'', e)]"
    using mock_registry_builds [of mock_only_config "hd (cf_providers mock_only_config)"] by (auto simp: mock_only_config_def)
  moreover have "build_target_registry mock_only_config [(''mock'', e)] = Inr \<lparr>tr_providers = [(''mock'', e)], tr_targets = [(td_id y, y)]\<rparr>"
    using y t [OF y] by (simp add: mock_only_config_def build_target_registry_def new_target_registry_def register_target_def
        require_provider_def reraise_value_def)
  ultimately show ?thesis by (simp add: build_runtime_def Let_def mock_only_config_def act_is_configured_def)
qed

theorem accepted_config_builds_witness:
  "\<exists>c. config_from_mapping demo_document = Inr c \<and>
     ((\<exists>rn. build_runtime (Some c) = Inr rn \<and> cr_config rn = c) \<or>
      (\<exists>e. registry_from_b64url (ac_tower_keys (cf_act c)) = Inl e))"
proof -
  obtain c where c: "config_from_mapping demo_document = Inr c" using demo_accepted by blast
  from conjunct1 [OF accepted_config_builds [OF c]]
  have "(\<exists>rn. build_runtime (Some c) = Inr rn \<and> cr_config rn = c) \<or>
      (\<exists>e. registry_from_b64url (ac_tower_keys (cf_act c)) = Inl e)"
    by (elim disjE exE conjE) (rule disjI1, intro exI conjI, assumption+, rule disjI2, rule exI, assumption)
  with c show ?thesis by (intro exI [of _ c] conjI)
qed

definition demo_configured_router :: "config_runtime \<Rightarrow> (audit_event list, devices, unit) mcp_router" where
  "demo_configured_router rn =
     \<lparr>rt_providers = cr_providers rn, rt_targets = cr_targets rn,
      rt_tools = [(''power_off'', mcp_tool ''power_off'' ''power.force_off'' ''Force power off'' True)],
      rt_channel = ChannelMember LOCAL_TERMINAL,
      rt_plane =
        \<lparr>pl_policy = cr_policy rn, pl_registry = DEFAULT_CAPABILITY_REGISTRY, pl_provider = mock_info,
         pl_execute = mock_on ''mock'', pl_emit = memory_emit,
         pl_now = (\<lambda>n. Aware 0 0), pl_utcnow = (\<lambda>n. Aware 0 0), pl_uuid = (\<lambda>n. nat_digits n),
         pl_grant_verifier = None, pl_client = None, pl_clearance_verifier = None,
         pl_timeout = 20, pl_channel = select_channel DEFAULT_AUTH_CHANNEL LOCAL_TERMINAL, pl_act_parity = False,
         pl_sha256 = (\<lambda>s. s)\<rparr>\<rparr>"

definition demo_configured_world :: "(audit_event list, devices, unit) world" where
  "demo_configured_world =
     \<lparr>w_sink = [], w_provider = initial_devices mock_only_config, w_client = (), w_store = None, w_consumed = [],
      w_ticks = 0, w_trace = []\<rparr>"

theorem configured_session_offline_witness:
  "\<exists>rn qs. build_runtime None = Inr rn \<and>
     executions (run_tools (demo_configured_router rn) [demo_call, demo_call]
       demo_configured_world) = qs \<and> length qs \<le> 2"
proof -
  obtain rn where rn: "build_runtime None = Inr rn" using mock_only_builds by blast
  have "rt_providers (demo_configured_router rn) = cr_providers rn" by (simp add: demo_configured_router_def)
  from configured_session_offline [OF rn this, of "[demo_call, demo_call]" demo_configured_world]
  obtain qs where "executions (run_tools (demo_configured_router rn) [demo_call, demo_call] demo_configured_world) = executions demo_configured_world @ qs"
    "length qs \<le> length [demo_call, demo_call]" by (elim exE conjE) (rule that)
  with rn show ?thesis by (intro exI conjI) (assumption, rule refl, simp add: demo_configured_world_def executions_def map_filter_def)
qed

end
