(* ===== verification/JsonCopy.thy ===== *)
theory JsonCopy
  imports Providers "HOL-Library.Multiset"
begin

text \<open>
  \<open>_json_safe\<close>, the copy \<open>json.loads(json.dumps(value, sort_keys=True))\<close> that results take before they
  leave the program: what it makes of a value, when it fails, and that copying twice changes nothing.
\<close>

section \<open>The copy\<close>

text \<open>
  Tuples become lists and keys are sorted. The function \<open>other\<close> answers for what JSON has no value
  for; without one \<open>json.dumps\<close> raises a \<open>TypeError\<close>. A key that is no text has no JSON text here: the
  values that are copied have text keys only.
\<close>

fun json_copy :: "(pyval \<Rightarrow> pyval res) \<Rightarrow> pyval \<Rightarrow> pyval res" where
  "json_copy other (PList xs) = map_sum id PList (map_res (json_copy other) xs)"
| "json_copy other (PTuple xs) = map_sum id PList (map_res (json_copy other) xs)"
| "json_copy other (PDict d) =
     bind_res (map_res (\<lambda>(k, v). case k of
         KStr s \<Rightarrow> map_sum id (\<lambda>w. (s, w)) (json_copy other v)
       | KOther s \<Rightarrow> raise TypeError ''keys must be str, int, float, bool or None'') d) (\<lambda>kvs.
     Inr (pdict (sort_key fst kvs)))"
| "json_copy other (PBytes b) = other (PBytes b)"
| "json_copy other (PSet s) = other (PSet s)"
| "json_copy other (PObj t s) = other (PObj t s)"
| "json_copy other v = Inr v"

definition not_serializable :: "pyval \<Rightarrow> pyval res" where
  "not_serializable v = raise TypeError (''Object of type '' @ type_name v @ '' is not JSON serializable'')"

definition sdk_json_safe :: "pyval \<Rightarrow> pyval res" where
  "sdk_json_safe = json_copy not_serializable"

text \<open>With \<open>default=str\<close>.\<close>

definition json_safe_str :: "pyval \<Rightarrow> pyval res" where
  "json_safe_str = json_copy (\<lambda>v. Inr (PStr (value_str v)))"

section \<open>When it succeeds\<close>

text \<open>What a copy is made of, and the values that can be copied: text keys only, no bytes, sets and other objects.\<close>

fun json_value :: "pyval \<Rightarrow> bool" where
  "json_value (PList xs) = (\<forall>x \<in> set xs. json_value x)"
| "json_value (PTuple xs) = False"
| "json_value (PDict d) =
     (sorted (map (\<lambda>kv. key_text (fst kv)) d) \<and>
      (\<forall>(k, v) \<in> set d. (case k of KStr s \<Rightarrow> True | KOther s \<Rightarrow> False) \<and> json_value v))"
| "json_value (PBytes b) = False"
| "json_value (PSet s) = False"
| "json_value (PObj t s) = False"
| "json_value v = True"

fun json_like :: "pyval \<Rightarrow> bool" where
  "json_like (PList xs) = (\<forall>x \<in> set xs. json_like x)"
| "json_like (PTuple xs) = (\<forall>x \<in> set xs. json_like x)"
| "json_like (PDict d) = (\<forall>(k, v) \<in> set d. (case k of KStr s \<Rightarrow> True | KOther s \<Rightarrow> False) \<and> json_like v)"
| "json_like (PBytes b) = False"
| "json_like (PSet s) = False"
| "json_like (PObj t s) = False"
| "json_like v = True"

lemma map_sum_Inr_iff: "map_sum id f r = Inr y \<longleftrightarrow> (\<exists>x. r = Inr x \<and> y = f x)"
  by (cases r) auto

lemma map_res_total: "(\<And>x. x \<in> set xs \<Longrightarrow> \<exists>y. f x = Inr y) \<Longrightarrow> \<exists>ys. map_res f xs = Inr ys"
proof (induction xs)
  case (Cons x xs)
  then obtain y ys where "f x = Inr y" "map_res f xs = Inr ys" by fastforce
  then show ?case by simp
qed simp

lemma map_res_all: "map_res f xs = Inr ys \<Longrightarrow> (\<And>x y. x \<in> set xs \<Longrightarrow> f x = Inr y \<Longrightarrow> P y) \<Longrightarrow> \<forall>y \<in> set ys. P y"
  by (induction xs arbitrary: ys) (fastforce simp: bind_res_Inr_iff)+

lemma copy_value:
  assumes "json_copy other v = Inr w" "\<And>u x. other u = Inr x \<Longrightarrow> json_value x"
  shows "json_value w"
  using assms
proof (induction other v arbitrary: w rule: json_copy.induct)
  case (1 other xs)
  then obtain ys where ys: "map_res (json_copy other) xs = Inr ys" "w = PList ys" by (auto simp: map_sum_Inr_iff)
  have "\<forall>y \<in> set ys. json_value y" by (rule map_res_all [OF ys(1)]) (use 1 in blast)
  with ys show ?case by simp
next
  case (2 other xs)
  then obtain ys where ys: "map_res (json_copy other) xs = Inr ys" "w = PList ys" by (auto simp: map_sum_Inr_iff)
  have "\<forall>y \<in> set ys. json_value y" by (rule map_res_all [OF ys(1)]) (use 2 in blast)
  with ys show ?case by simp
next
  case (3 other d)
  then obtain kvs where kvs: "map_res (\<lambda>(k, v). case k of
         KStr s \<Rightarrow> map_sum id (\<lambda>w. (s, w)) (json_copy other v)
       | KOther s \<Rightarrow> raise TypeError ''keys must be str, int, float, bool or None'') d = Inr kvs"
    "w = pdict (sort_key fst kvs)" by (auto simp: bind_res_Inr_iff)
  have "\<forall>kv \<in> set kvs. json_value (snd kv)"
    by (rule map_res_all [OF kvs(1)]) (use 3 in \<open>auto simp: map_sum_Inr_iff split: pykey.splits\<close>)
  with kvs(2) show ?case by (auto simp: pdict_def comp_def case_prod_beta)
qed auto

lemma sdk_json_safe_value: "sdk_json_safe v = Inr w \<Longrightarrow> json_value w"
  unfolding sdk_json_safe_def by (erule copy_value) (simp add: not_serializable_def)

lemma json_safe_str_value: "json_safe_str v = Inr w \<Longrightarrow> json_value w"
  unfolding json_safe_str_def by (erule copy_value) auto

lemma copy_total: "json_like v \<Longrightarrow> \<exists>w. json_copy other v = Inr w"
proof (induction other v rule: json_copy.induct)
  case (1 other xs)
  then have "\<exists>ys. map_res (json_copy other) xs = Inr ys" by (intro map_res_total) auto
  then show ?case by (auto simp: map_sum_Inr_iff)
next
  case (2 other xs)
  then have "\<exists>ys. map_res (json_copy other) xs = Inr ys" by (intro map_res_total) auto
  then show ?case by (auto simp: map_sum_Inr_iff)
next
  case (3 other d)
  have "\<exists>kvs. map_res (\<lambda>(k, v). case k of
         KStr s \<Rightarrow> map_sum id (\<lambda>w. (s, w)) (json_copy other v)
       | KOther s \<Rightarrow> raise TypeError ''keys must be str, int, float, bool or None'') d = Inr kvs"
    by (rule map_res_total) (use 3 in \<open>fastforce simp: map_sum_Inr_iff split: pykey.splits\<close>)
  then show ?case by auto
qed auto

text \<open>A copy is its own copy.\<close>

lemma map_res_id: "(\<And>x. x \<in> set xs \<Longrightarrow> f x = Inr x) \<Longrightarrow> map_res f xs = Inr xs"
  by (induction xs) auto

lemma map_res_fields:
  "(\<And>k v. (k, v) \<in> set d \<Longrightarrow> \<exists>s. k = KStr s \<and> f (k, v) = Inr (s, v)) \<Longrightarrow>
     map_res f d = Inr (map (\<lambda>(k, v). (key_text k, v)) d)"
  by (induction d) fastforce+

lemma copy_fixed: "json_value v \<Longrightarrow> json_copy other v = Inr v"
proof (induction other v rule: json_copy.induct)
  case (1 other xs)
  then have "map_res (json_copy other) xs = Inr xs" by (intro map_res_id) auto
  then show ?case by simp
next
  case (3 other d)
  have keys: "(k, v) \<in> set d \<Longrightarrow> \<exists>s. k = KStr s" for k v using 3(2) by (auto split: pykey.splits)
  let ?kvs = "map (\<lambda>(k, v). (key_text k, v)) d"
  have "map_res (\<lambda>(k, v). case k of
         KStr s \<Rightarrow> map_sum id (\<lambda>w. (s, w)) (json_copy other v)
       | KOther s \<Rightarrow> raise TypeError ''keys must be str, int, float, bool or None'') d = Inr ?kvs"
    by (rule map_res_fields) (use 3 in \<open>fastforce split: pykey.splits\<close>)
  moreover have "sort_key fst ?kvs = ?kvs"
    using 3(2) by (intro sort_key_id_if_sorted) (simp add: comp_def case_prod_beta)
  moreover have "pdict ?kvs = PDict d"
    using keys by (auto simp: pdict_def comp_def case_prod_beta intro!: map_idI dest: keys)
  ultimately show ?case by simp
qed auto

lemma sdk_json_safe_idem: "sdk_json_safe v = Inr w \<Longrightarrow> sdk_json_safe w = Inr w"
  unfolding sdk_json_safe_def [of] by (metis copy_fixed sdk_json_safe_def sdk_json_safe_value)

text \<open>A copied mapping holds, under the same keys, the copies of what was there.\<close>

lemma sort_fields:
  assumes "distinct (map fst kvs)"
  shows "distinct (map fst (sort_key fst kvs))" "dict_get (sort_key fst kvs) k = dict_get kvs k"
proof -
  show d: "distinct (map fst (sort_key fst kvs))"
    using assms by (metis mset_map mset_sort mset_eq_imp_distinct_iff)
  have "dict_get (sort_key fst kvs) k = Some v \<longleftrightarrow> dict_get kvs k = Some v" for v
    using map_of_eq_Some_iff [OF d] map_of_eq_Some_iff [OF assms] by simp
  then show "dict_get (sort_key fst kvs) k = dict_get kvs k" by (metis option.exhaust)
qed

abbreviation copied :: "(pyval \<Rightarrow> pyval res) \<Rightarrow> (pykey \<times> pyval) list \<Rightarrow> (string \<times> pyval) list res" where
  "copied other \<equiv> map_res (\<lambda>(k, v). case k of
         KStr s \<Rightarrow> map_sum id (\<lambda>w. (s, w)) (json_copy other v)
       | KOther s \<Rightarrow> raise TypeError ''keys must be str, int, float, bool or None'')"

lemma copy_fields:
  assumes "copied other (map (\<lambda>(k, v). (KStr k, v)) kvs) = Inr kvs'"
  shows "map fst kvs' = map fst kvs \<and>
    (\<forall>k v. dict_get kvs k = Some v \<longrightarrow> (\<exists>w. json_copy other v = Inr w \<and> dict_get kvs' k = Some w))"
  using assms
  by (induction kvs arbitrary: kvs') (auto simp: bind_res_Inr_iff map_sum_Inr_iff)

lemma copy_mapping:
  assumes "json_copy other (pdict kvs) = Inr a" "distinct (map fst kvs)"
  obtains kvs' where "a = pdict kvs'" "distinct (map fst kvs')" "fst ` set kvs' = fst ` set kvs"
    "\<And>k v. dict_get kvs k = Some v \<Longrightarrow> \<exists>w. json_copy other v = Inr w \<and> dict_get kvs' k = Some w"
proof -
  obtain xs where xs: "copied other (map (\<lambda>(k, v). (KStr k, v)) kvs) = Inr xs" "a = pdict (sort_key fst xs)"
    using assms(1) by (auto simp: pdict_def [of kvs] bind_res_Inr_iff)
  note f = copy_fields [OF xs(1)]
  have d: "distinct (map fst xs)" using f assms(2) by simp
  have "fst ` set (sort_key fst xs) = fst ` set kvs" using f by (metis list.set_map set_sort)
  then show thesis using that [of "sort_key fst xs"] xs(2) f sort_fields [OF d] by simp
qed

end
