(* ===== verification/Playbooks.thy ===== *)
theory Playbooks
  imports Config JsonCopy
begin

text \<open>
  \<open>playbooks.py\<close>: named sequences of tool calls, their registry, and the runner, which goes through
  the router step by step and stops at the first result that is not ok.
\<close>

section \<open>Steps and playbooks\<close>

datatype playbook_status = PB_OK | PB_DRY_RUN | PB_STOPPED | PB_VALIDATION_ERROR

fun playbook_status_value :: "playbook_status \<Rightarrow> string" where
  "playbook_status_value PB_OK = ''ok''"
| "playbook_status_value PB_DRY_RUN = ''dry_run''"
| "playbook_status_value PB_STOPPED = ''stopped''"
| "playbook_status_value PB_VALIDATION_ERROR = ''validation_error''"

record playbook_step =
  ps_name :: string
  ps_tool_name :: string
  ps_description :: string
  ps_params :: params
  ps_approval_checkpoint :: bool

definition make_playbook_step :: "playbook_step \<Rightarrow> playbook_step res" where
  "make_playbook_step s =
     (if ps_name s = [] then raise ValueError ''playbook step name is required''
      else if ps_tool_name s = [] then raise ValueError ''playbook step tool_name is required''
      else Inr s)"

definition playbook_step_to_dict :: "playbook_step \<Rightarrow> pyval res" where
  "playbook_step_to_dict s =
     (let (safe, redactions) = redact_mapping None (ps_params s) in
      json_safe_str (pdict
        [(''name'', PStr (ps_name s)), (''tool_name'', PStr (ps_tool_name s)),
         (''description'', PStr (ps_description s)), (''params'', pdict safe),
         (''redactions'', pystrs (prefixed ''params'' redactions)),
         (''approval_checkpoint'', PBool (ps_approval_checkpoint s))]))"

record playbook =
  pb_name :: string
  pb_description :: string
  pb_required :: "string list"
  pb_risk_tier :: string
  pb_steps :: "playbook_step list"
  pb_rollback_notes :: string

definition make_playbook :: "playbook \<Rightarrow> playbook res" where
  "make_playbook b =
     (if pb_name b = [] then raise ValueError ''playbook name is required''
      else if pb_steps b = [] then raise ValueError ''playbook requires at least one step''
      else if pb_risk_tier b = [] then raise ValueError ''playbook risk_tier is required''
      else if pb_rollback_notes b = [] then raise ValueError ''playbook rollback_notes are required''
      else Inr b)"

definition playbook_to_dict :: "playbook \<Rightarrow> pyval res" where
  "playbook_to_dict b =
     bind_res (map_res playbook_step_to_dict (pb_steps b)) (\<lambda>steps.
     json_safe_str (pdict
       [(''name'', PStr (pb_name b)), (''description'', PStr (pb_description b)),
        (''required_capabilities'', pystrs (pb_required b)), (''risk_tier'', PStr (pb_risk_tier b)),
        (''dry_run_supported'', PBool True), (''steps'', PList steps),
        (''rollback_notes'', PStr (pb_rollback_notes b))]))"

section \<open>The registry\<close>

type_synonym playbook_registry = "(string, playbook) dict"

definition validate_step :: "mcp_tool_registry \<Rightarrow> playbook \<Rightarrow> playbook_step \<Rightarrow> unit res" where
  "validate_step tools b s =
     (case dict_get tools (ps_tool_name s) of
        None \<Rightarrow> raise ValueError (''playbook '' @ pb_name b @ '' references unknown tool '' @ ps_tool_name s)
      | Some tool \<Rightarrow>
          if tool_capability_id tool \<notin> set (pb_required b)
          then raise ValueError (''playbook '' @ pb_name b @ '' missing required capability '' @ tool_capability_id tool)
          else Inr ())"

definition validate_playbook :: "mcp_tool_registry \<Rightarrow> playbook \<Rightarrow> unit res" where
  "validate_playbook tools b = map_sum id (\<lambda>_. ()) (map_res (validate_step tools b) (pb_steps b))"

definition new_playbook_registry :: "mcp_tool_registry \<Rightarrow> playbook list \<Rightarrow> playbook_registry res" where
  "new_playbook_registry tools bs =
     (let reg = dict_of (map (\<lambda>b. (pb_name b, b)) bs) [] in
      if length reg \<noteq> length bs then raise ValueError ''duplicate playbook name''
      else bind_res (map_res (validate_playbook tools) bs) (\<lambda>_. Inr reg))"

definition list_playbook_definitions :: "playbook_registry \<Rightarrow> playbook list" where
  "list_playbook_definitions reg = sorted_values reg"

definition require_playbook :: "playbook_registry \<Rightarrow> string \<Rightarrow> playbook res" where
  "require_playbook reg name =
     (case dict_get reg name of Some b \<Rightarrow> Inr b | None \<Rightarrow> raise ValueError (''Unknown playbook: '' @ name))"

definition observe_step :: "string \<Rightarrow> string \<Rightarrow> string \<Rightarrow> playbook_step" where
  "observe_step name tool description =
     \<lparr>ps_name = name, ps_tool_name = tool, ps_description = description, ps_params = [], ps_approval_checkpoint = False\<rparr>"

definition NO_MUTATION_NOTES :: string where
  "NO_MUTATION_NOTES = ''No provider mutation is performed by this playbook.''"

definition DEFAULT_PLAYBOOKS :: "playbook list" where
  "DEFAULT_PLAYBOOKS =
     [\<lparr>pb_name = ''observe-target-health'', pb_description = ''Collect basic status and power-state evidence.'',
       pb_required = [''observe.status'', ''observe.power_state''], pb_risk_tier = ''low'',
       pb_steps = [observe_step ''status'' ''get_status'' ''Read provider-neutral target status.'',
                   observe_step ''power-state'' ''get_power_state'' ''Read target power state.''],
       pb_rollback_notes = NO_MUTATION_NOTES\<rparr>,
      \<lparr>pb_name = ''capture-screen-evidence'', pb_description = ''Capture screen metadata through the observe path.'',
       pb_required = [''observe.screenshot''], pb_risk_tier = ''medium'',
       pb_steps = [observe_step ''screen'' ''observe_screen'' ''Read screen or screenshot metadata.''],
       pb_rollback_notes = NO_MUTATION_NOTES\<rparr>,
      \<lparr>pb_name = ''inspect-boot-status'', pb_description = ''Collect safe boot-status evidence.'',
       pb_required = [''observe.boot_status''], pb_risk_tier = ''low'',
       pb_steps = [observe_step ''boot-status'' ''get_boot_status'' ''Read boot status.''],
       pb_rollback_notes = NO_MUTATION_NOTES\<rparr>,
      \<lparr>pb_name = ''collect-pre-recovery-evidence'',
       pb_description = ''Collect status, power, boot, and screen evidence before recovery.'',
       pb_required = [''observe.status'', ''observe.power_state'', ''observe.boot_status'', ''observe.screenshot''],
       pb_risk_tier = ''medium'',
       pb_steps = [observe_step ''status'' ''get_status'' ''Read target status.'',
                   observe_step ''power-state'' ''get_power_state'' ''Read power state.'',
                   observe_step ''boot-status'' ''get_boot_status'' ''Read boot status.'',
                   observe_step ''screen'' ''observe_screen'' ''Read screen metadata.''],
       pb_rollback_notes = NO_MUTATION_NOTES\<rparr>,
      \<lparr>pb_name = ''wait-for-login-prompt'',
       pb_description = ''Mock-safe loop placeholder for observing login prompt evidence.'',
       pb_required = [''observe.screenshot''], pb_risk_tier = ''medium'',
       pb_steps = [(observe_step ''screen-check'' ''observe_screen'' ''Read screen metadata for a prompt-like fixture.'')
                     \<lparr>ps_params := [(''expected'', PStr ''login_prompt'')]\<rparr>],
       pb_rollback_notes = NO_MUTATION_NOTES\<rparr>]"

text \<open>The registry of the program's own playbooks; \<open>PlaybookProps\<close> shows that the constructor accepts it.\<close>

definition DEFAULT_PLAYBOOK_REGISTRY :: playbook_registry where
  "DEFAULT_PLAYBOOK_REGISTRY = map (\<lambda>b. (pb_name b, b)) DEFAULT_PLAYBOOKS"

section \<open>The runner\<close>

text \<open>
  The router that the runner (and the adapter for tool hosts) builds from a runtime: neither the
  clearance client nor the channel of the runtime is passed on. The base supplies clock, ids, sink
  and digest.
\<close>

definition DEFAULT_TOOLS :: mcp_tool_registry where
  "DEFAULT_TOOLS = map (\<lambda>t. (tool_name t, t)) DEFAULT_MCP_TOOLS"

definition runtime_router ::
    "config_runtime \<Rightarrow> mcp_tool_registry \<Rightarrow> ('a, devices, 'c) plane \<Rightarrow> ('a, devices, 'c) mcp_router" where
  "runtime_router rn tools base =
     \<lparr>rt_providers = cr_providers rn, rt_targets = cr_targets rn, rt_tools = tools,
      rt_channel = ChannelMember DEFAULT_AUTH_CHANNEL,
      rt_plane = base\<lparr>pl_policy := cr_policy rn, pl_registry := DEFAULT_CAPABILITY_REGISTRY, pl_client := None,
                      pl_clearance_verifier := None, pl_timeout := 20, pl_act_parity := False\<rparr>\<rparr>"

definition list_playbooks :: "playbook_registry \<Rightarrow> pyval res" where
  "list_playbooks reg =
     bind_res (map_res playbook_to_dict (list_playbook_definitions reg)) (\<lambda>bs.
     json_safe_str (pdict [(''status'', PStr (playbook_status_value PB_OK)), (''playbooks'', PList bs)]))"

definition dry_run_playbook :: "playbook_registry \<Rightarrow> string \<Rightarrow> string \<Rightarrow> pyval res" where
  "dry_run_playbook reg name target =
     bind_res (require_playbook reg name) (\<lambda>b.
     bind_res (playbook_to_dict b) (\<lambda>d.
     json_safe_str (pdict
       [(''status'', PStr (playbook_status_value PB_DRY_RUN)), (''playbook'', d), (''target'', PStr target),
        (''would_execute'', PBool False)])))"

definition step_request :: "playbook \<Rightarrow> string \<Rightarrow> string \<Rightarrow> string \<Rightarrow> playbook_step \<Rightarrow> mcp_request" where
  "step_request b target session_id requester_id s =
     \<lparr>mt_tool_name = ps_tool_name s, mt_target = target, mt_session_id = session_id, mt_requester_id = requester_id,
      mt_params = ps_params s, mt_provider = None, mt_requested_mode = None, mt_policy_ref = None,
      mt_approval_context = [], mt_correlation_id = Some (''playbook:'' @ pb_name b @ '':'' @ ps_name s)\<rparr>"

text \<open>The answer: what ended the run, if anything did, and the results of the steps taken.\<close>

datatype playbook_run = Completed "pyval list" | Stopped mcp_result "pyval list"

fun run_steps ::
    "(playbook_step \<Rightarrow> mcp_request) \<Rightarrow> ('a, 'p, 'c) mcp_router \<Rightarrow> playbook_step list \<Rightarrow> pyval list \<Rightarrow>
     (('a, 'p, 'c) world, playbook_run) op" where
  "run_steps request rt [] results = ret (Completed results)"
| "run_steps request rt (s # ss) results =
     bind_op (lift_res (make_mcp_request (request s))) (\<lambda>r.
     bind_op (handle_tool_request rt r) (\<lambda>m.
     bind_op (lift_res (playbook_step_to_dict s)) (\<lambda>d.
     let results = results @ [pdict [(''step'', d), (''result'', pdict (mcp_result_to_dict m))]] in
     if mr_status m \<noteq> MCP_OK then ret (Stopped m results) else run_steps request rt ss results)))"

definition playbook_answer :: "playbook \<Rightarrow> string \<Rightarrow> playbook_run \<Rightarrow> pyval res" where
  "playbook_answer b target run =
     json_safe_str (pdict (case run of
        Stopped m results \<Rightarrow>
          [(''status'', PStr (playbook_status_value PB_STOPPED)), (''playbook'', PStr (pb_name b)), (''target'', PStr target),
           (''reason'', PStr (mr_reason m)), (''stop_status'', PStr (mcp_status_value (mr_status m))),
           (''results'', PList results)]
      | Completed results \<Rightarrow>
          [(''status'', PStr (playbook_status_value PB_OK)), (''playbook'', PStr (pb_name b)), (''target'', PStr target),
           (''results'', PList results)]))"

definition run_playbook ::
    "('a, 'p, 'c) mcp_router \<Rightarrow> playbook_registry \<Rightarrow> string \<Rightarrow> string \<Rightarrow> string \<Rightarrow> string \<Rightarrow>
     (('a, 'p, 'c) world, pyval) op" where
  "run_playbook rt reg name target session_id requester_id =
     bind_op (lift_res (require_playbook reg name)) (\<lambda>b.
     bind_op (run_steps (step_request b target session_id requester_id) rt (pb_steps b) []) (\<lambda>run.
     lift_res (playbook_answer b target run)))"

end
