(* ===== verification/PlaybookProps.thy ===== *)
theory PlaybookProps
  imports Playbooks ConfigProps
begin

text \<open>
  What a playbook brings about: its steps in order, as far as they succeed, and, for the playbooks that
  come with the program, nothing but reading.
\<close>

lemma list_all2_pre: "list_all2 P xs ys \<Longrightarrow> y \<in> set ys \<Longrightarrow> \<exists>x \<in> set xs. P x y"
  by (metis in_set_conv_nth list_all2_conv_all_nth)

text \<open>The execution of a step: that of a tool of the table, with the capability it stands for.\<close>

definition step_performed :: "mcp_tool_registry \<Rightarrow> mcp_request \<Rightarrow> provider_request \<Rightarrow> bool" where
  "step_performed tools r q \<longleftrightarrow> (\<exists>tool. dict_get tools (mt_tool_name r) = Some tool \<and> performs tool r q)"

lemma permitted_step:
  "registry_ok (rt_capabilities rt) \<Longrightarrow> call_permitted rt r q w \<Longrightarrow> step_performed (rt_tools rt) r q"
  using call_performs [of rt r q w] by (auto simp: step_performed_def routed_def)

lemma step_executions:
  assumes "registry_ok (rt_capabilities rt)" "handle_tool_request rt r w = (x, w')"
  obtains (none) "executions w' = executions w" "\<forall>m. x = Inr m \<longrightarrow> mr_status m \<noteq> MCP_OK"
    | (one) q where "executions w' = executions w @ [q]" "step_performed (rt_tools rt) r q"
proof -
  have "executions w' = executions w \<or> (\<exists>q. executions w' = executions w @ [q] \<and> step_performed (rt_tools rt) r q)"
    using call_executions [OF assms(2)] permitted_step [OF assms(1)] by blast
  then show thesis
  proof (elim disjE exE conjE)
    assume e: "executions w' = executions w"
    have "\<forall>m. x = Inr m \<longrightarrow> mr_status m \<noteq> MCP_OK"
    proof (intro allI impI notI)
      fix m assume "x = Inr m" "mr_status m = MCP_OK"
      then have "\<exists>q. executions w' = executions w @ [q]" using result_status [of rt r w m w'] assms(2) by simp
      with e show False by simp
    qed
    with e show thesis by (rule none)
  qed (rule one)
qed

lemma make_mcp_request_Inr [simp]: "make_mcp_request r = Inr r' \<Longrightarrow> r' = r"
  by (simp add: make_mcp_request_def split: if_splits)

lemma run_steps_executions:
  assumes ok: "registry_ok (rt_capabilities rt)" and "run_steps request rt ss results w = (x, w')"
  shows "\<exists>n qs. n \<le> length ss \<and> executions w' = executions w @ qs \<and>
     list_all2 (\<lambda>s q. step_performed (rt_tools rt) (request s) q) (take n ss) qs \<and>
     (\<forall>rs. x = Inr (Completed rs) \<longrightarrow> n = length ss)"
  using assms(2)
proof (induction ss arbitrary: results w)
  case Nil
  then show ?case by (intro exI [of _ 0] exI [of _ "[]"]) auto
next
  case (Cons s ss)
  let ?P = "\<lambda>s q. step_performed (rt_tools rt) (request s) q"
  have stop: ?case if "executions w' = executions w" "\<forall>rs. x \<noteq> Inr (Completed rs)"
    using that by (intro exI [of _ 0] exI [of _ "[]"]) auto
  have stop1: ?case if "executions w' = executions w @ [q]" "?P s q" "\<forall>rs. x \<noteq> Inr (Completed rs)" for q
    using that by (intro exI [of _ 1] exI [of _ "[q]"]) auto
  show ?case
  proof (cases "make_mcp_request (request s)")
    case (Inl e)
    with Cons.prems have "w' = w" "\<forall>rs. x \<noteq> Inr (Completed rs)" by auto
    then show ?thesis by (intro stop) simp_all
  next
    case (Inr r)
    then have req: "r = request s" by simp
    obtain y w1 where h: "handle_tool_request rt (request s) w = (y, w1)" by (cases "handle_tool_request rt (request s) w")
    from Cons.prems Inr req h have rest: "(case y of Inl e \<Rightarrow> (Inl e, w1) | Inr m \<Rightarrow>
        bind_op (lift_res (playbook_step_to_dict s)) (\<lambda>d.
        let results = results @ [pdict [(''step'', d), (''result'', pdict (mcp_result_to_dict m))]] in
        if mr_status m \<noteq> MCP_OK then ret (Stopped m results) else run_steps request rt ss results) w1) = (x, w')"
      by (auto simp: bind_op_def split: sum.splits)
    have ended: ?thesis if "w' = w1" "\<forall>rs. x \<noteq> Inr (Completed rs)"
    proof (cases rule: step_executions [OF ok h])
      case 1
      with that show ?thesis by (intro stop) simp_all
    next
      case (2 q)
      with that show ?thesis by (intro stop1) simp_all
    qed
    show ?thesis
    proof (cases y)
      case (Inl e)
      with rest have "w' = w1" "\<forall>rs. x \<noteq> Inr (Completed rs)" by auto
      then show ?thesis by (rule ended)
    next
      case (Inr m)
      show ?thesis
      proof (cases "\<exists>d. playbook_step_to_dict s = Inr d \<and> mr_status m = MCP_OK")
        case False
        with rest Inr have "w' = w1" "\<forall>rs. x \<noteq> Inr (Completed rs)"
          by (auto simp: Let_def split: sum.splits if_splits)
        then show ?thesis by (rule ended)
      next
        case True
        with rest Inr obtain results' where next_run: "run_steps request rt ss results' w1 = (x, w')" by (auto simp: Let_def)
        from step_executions [OF ok h] True Inr obtain q where q: "executions w1 = executions w @ [q]" "?P s q" by metis
        from Cons.IH [OF next_run] obtain n qs where "n \<le> length ss" "executions w' = executions w1 @ qs"
          "list_all2 ?P (take n ss) qs" "\<forall>rs. x = Inr (Completed rs) \<longrightarrow> n = length ss" by blast
        with q show ?thesis by (intro exI [of _ "Suc n"] exI [of _ "q # qs"]) auto
      qed
    qed
  qed
qed

text \<open>The program's own tools and playbooks are accepted by the constructors of their registries.\<close>

lemma register_fresh:
  "distinct (map tool_name ts) \<Longrightarrow> tool_name ` set ts \<inter> fst ` set reg = {} \<Longrightarrow>
     list_all (\<lambda>t. registry_get capabilities (tool_capability_id t) \<noteq> None) ts \<Longrightarrow>
     fold_res (register_tool capabilities) ts reg = Inr (reg @ map (\<lambda>t. (tool_name t, t)) ts)"
proof (induction ts arbitrary: reg)
  case (Cons t ts)
  then have "tool_name t \<notin> fst ` set reg" by auto
  then have "\<not> dict_has reg (tool_name t)" "dict_set (tool_name t) t reg = reg @ [(tool_name t, t)]"
    by (simp_all add: map_of_eq_None_iff dict_set_fresh)
  with Cons show ?case by (auto simp: register_tool_def)
qed simp

lemma default_known: "registry_get DEFAULT_CAPABILITY_REGISTRY i \<noteq> None \<longleftrightarrow> i \<in> set (map cap_id default_caps)"
  using default_lookup_iff by fastforce

lemmas default_ids = session_observe_ids input_power_media_ids boot_storage_ids network_runtime_ids

lemma default_tools_known:
  "list_all (\<lambda>t. registry_get DEFAULT_CAPABILITY_REGISTRY (tool_capability_id t) \<noteq> None) DEFAULT_MCP_TOOLS"
  unfolding default_known by (simp add: default_caps_def default_ids DEFAULT_MCP_TOOLS_def mcp_tool_def del: set_map)

lemma default_tools_accepted: "new_tool_registry DEFAULT_CAPABILITY_REGISTRY DEFAULT_MCP_TOOLS = Inr DEFAULT_TOOLS"
proof -
  have "distinct (map tool_name DEFAULT_MCP_TOOLS)" by code_simp
  from register_fresh [OF this _ default_tools_known, of "[]"] show ?thesis
    by (simp add: new_tool_registry_def DEFAULT_TOOLS_def)
qed

lemma default_playbooks_accepted:
  "new_playbook_registry DEFAULT_TOOLS DEFAULT_PLAYBOOKS = Inr DEFAULT_PLAYBOOK_REGISTRY"
  by code_simp

text \<open>Every step of theirs observes: its tool stands for a capability of the observe family, neither dangerous nor destructive.\<close>

definition observing :: "string \<Rightarrow> bool" where
  "observing i \<longleftrightarrow> (case registry_get DEFAULT_CAPABILITY_REGISTRY i of
     None \<Rightarrow> False | Some c \<Rightarrow> cap_family c = ''observe'' \<and> \<not> cap_dangerous c \<and> \<not> cap_destructive c)"

lemma observingI:
  "\<exists>c \<in> set default_caps. cap_id c = i \<and> cap_family c = ''observe'' \<and> \<not> cap_dangerous c \<and> \<not> cap_destructive c \<Longrightarrow> observing i"
proof (elim bexE conjE)
  fix c assume c: "c \<in> set default_caps" "cap_id c = i"
    and row: "cap_family c = ''observe''" "\<not> cap_dangerous c" "\<not> cap_destructive c"
  from c have "registry_get DEFAULT_CAPABILITY_REGISTRY i = Some c" by (simp add: default_lookup_iff)
  with row show "observing i" by (simp add: observing_def)
qed

lemma observing_ids:
  "observing ''observe.status''" "observing ''observe.power_state''" "observing ''observe.screenshot''"
  "observing ''observe.boot_status''"
  by (rule observingI, simp add: default_caps_def session_observe_capabilities_def row_eval)+

definition observing_step :: "playbook_step \<Rightarrow> bool" where
  "observing_step s \<longleftrightarrow> (case dict_get DEFAULT_TOOLS (ps_tool_name s) of
     None \<Rightarrow> False | Some tool \<Rightarrow> observing (tool_capability_id tool))"

lemma default_steps_observe: "list_all (\<lambda>b. length (pb_steps b) \<le> 4 \<and> list_all observing_step (pb_steps b)) DEFAULT_PLAYBOOKS"
  by (simp add: DEFAULT_PLAYBOOKS_def observe_step_def observing_step_def DEFAULT_TOOLS_def DEFAULT_MCP_TOOLS_def
      mcp_tool_def observing_ids)

lemma step_performed_observes:
  "step_performed DEFAULT_TOOLS (step_request b target session_id requester_id s) q \<Longrightarrow> observing_step s \<Longrightarrow>
     observing (prq_capability q) \<and> prq_target_id q = target \<and> prq_session_id q = session_id"
  by (auto simp: step_performed_def performs_def observing_step_def step_request_def)

text \<open>The run of a playbook runs its steps; without the playbook nothing happens.\<close>

lemma answer_ok:
  assumes "playbook_answer b target run = Inr (pdict fs)" "dict_get fs ''status'' = Some (PStr ''ok'')"
  shows "\<exists>rs. run = Completed rs"
proof (cases run)
  case (Stopped m rs)
  have "json_copy (\<lambda>v. Inr (PStr (value_str v))) (pdict
          [(''status'', PStr (playbook_status_value PB_STOPPED)), (''playbook'', PStr (pb_name b)), (''target'', PStr target),
           (''reason'', PStr (mr_reason m)), (''stop_status'', PStr (mcp_status_value (mr_status m))),
           (''results'', PList rs)]) = Inr (pdict fs)" (is "json_copy _ (pdict ?kvs) = _")
    using assms(1) by (simp add: playbook_answer_def json_safe_str_def Stopped)
  then obtain kvs' where c: "pdict fs = pdict kvs'"
    "\<And>k v. dict_get ?kvs k = Some v \<Longrightarrow> \<exists>w. json_copy (\<lambda>v. Inr (PStr (value_str v))) v = Inr w \<and> dict_get kvs' k = Some w"
    by (rule copy_mapping) simp_all
  have "dict_get kvs' ''status'' = Some (PStr ''stopped'')" using c(2) [of "''status''"] by simp
  moreover have "fs = kvs'" using c(1) by (auto simp: pdict_def inj_map_eq_map inj_on_def)
  ultimately show ?thesis using assms(2) by simp
qed simp

lemma playbook_runs:
  assumes "registry_ok (rt_capabilities rt)" "run_playbook rt reg name target session_id requester_id w = (x, w')"
  shows "executions w' = executions w \<and> \<not> (\<exists>fs. x = Inr (pdict fs) \<and> dict_get fs ''status'' = Some (PStr ''ok'')) \<or>
     (\<exists>b n qs. dict_get reg name = Some b \<and> n \<le> length (pb_steps b) \<and> executions w' = executions w @ qs \<and>
        list_all2 (\<lambda>s q. step_performed (rt_tools rt) (step_request b target session_id requester_id s) q) (take n (pb_steps b)) qs \<and>
        (\<forall>fs. x = Inr (pdict fs) \<and> dict_get fs ''status'' = Some (PStr ''ok'') \<longrightarrow> n = length (pb_steps b)))"
proof (cases "dict_get reg name")
  case None
  with assms(2) show ?thesis by (auto simp: run_playbook_def require_playbook_def bind_op_def lift_res_def split: sum.splits)
next
  case (Some b)
  obtain y w1 where run: "run_steps (step_request b target session_id requester_id) rt (pb_steps b) [] w = (y, w1)"
    by (cases "run_steps (step_request b target session_id requester_id) rt (pb_steps b) [] w")
  with assms(2) Some have x: "w' = w1" "x = bind_res y (playbook_answer b target)"
    by (auto simp: run_playbook_def require_playbook_def bind_op_def lift_res_def split: sum.splits)
  from run_steps_executions [OF assms(1) run] obtain n qs where q: "n \<le> length (pb_steps b)" "executions w1 = executions w @ qs"
    "list_all2 (\<lambda>s q. step_performed (rt_tools rt) (step_request b target session_id requester_id s) q) (take n (pb_steps b)) qs"
    "\<forall>rs. y = Inr (Completed rs) \<longrightarrow> n = length (pb_steps b)" by blast
  have "n = length (pb_steps b)" if "x = Inr (pdict fs)" "dict_get fs ''status'' = Some (PStr ''ok'')" for fs
    using that x(2) q(4) answer_ok by (auto simp: bind_res_Inr_iff)
  with Some q x(1) show ?thesis by blast
qed

section \<open>Properties\<close>

text \<open>
  C30 (playbooks). What the run of a playbook executes is a prefix of its steps, each at most once and in
  their order, with the capability of the step's tool, on the target and with the parameters of the
  step; and when the answer says ok, it is all of them.
\<close>

theorem playbook_in_order:
  assumes "registry_ok (rt_capabilities rt)" "run_playbook rt reg name target session_id requester_id w = (x, w')"
  shows "executions w' = executions w \<and> \<not> (\<exists>fs. x = Inr (pdict fs) \<and> dict_get fs ''status'' = Some (PStr ''ok'')) \<or>
     (\<exists>b n qs. dict_get reg name = Some b \<and> n \<le> length (pb_steps b) \<and> executions w' = executions w @ qs \<and>
        list_all2 (\<lambda>s q. step_performed (rt_tools rt) (step_request b target session_id requester_id s) q) (take n (pb_steps b)) qs \<and>
        (\<forall>fs. x = Inr (pdict fs) \<and> dict_get fs ''status'' = Some (PStr ''ok'') \<longrightarrow> n = length (pb_steps b)))"
  using playbook_runs [OF assms] .

text \<open>
  C31 (default playbooks). On the router that the runner builds from any runtime, the playbooks that
  come with the program execute at most four times, on the target they were started for, and only
  capabilities of the observe family that the registry holds neither dangerous nor destructive.
\<close>

theorem default_playbooks_observe:
  assumes "run_playbook (runtime_router rn DEFAULT_TOOLS base) DEFAULT_PLAYBOOK_REGISTRY name target session_id requester_id w
     = (x, w')"
  shows "\<exists>qs. executions w' = executions w @ qs \<and> length qs \<le> 4 \<and>
     (\<forall>q \<in> set qs. observing (prq_capability q) \<and> prq_target_id q = target \<and> prq_session_id q = session_id)"
proof -
  have tools: "rt_tools (runtime_router rn DEFAULT_TOOLS base) = DEFAULT_TOOLS"
    and caps: "rt_capabilities (runtime_router rn DEFAULT_TOOLS base) = DEFAULT_CAPABILITY_REGISTRY"
    by (simp_all add: runtime_router_def rt_capabilities_def)
  from playbook_runs [OF _ assms] default_registry_ok caps have "executions w' = executions w \<or>
     (\<exists>b n qs. dict_get DEFAULT_PLAYBOOK_REGISTRY name = Some b \<and> executions w' = executions w @ qs \<and>
        list_all2 (\<lambda>s q. step_performed DEFAULT_TOOLS (step_request b target session_id requester_id s) q) (take n (pb_steps b)) qs)"
    unfolding tools by fastforce
  then show ?thesis
  proof (elim disjE exE conjE)
    assume "executions w' = executions w"
    then show ?thesis by (intro exI [of _ "[]"]) simp
  next
    fix b n qs
    assume "dict_get DEFAULT_PLAYBOOK_REGISTRY name = Some b" and qs: "executions w' = executions w @ qs"
      and steps: "list_all2 (\<lambda>s q. step_performed DEFAULT_TOOLS (step_request b target session_id requester_id s) q) (take n (pb_steps b)) qs"
    then have "b \<in> set DEFAULT_PLAYBOOKS" by (auto simp: DEFAULT_PLAYBOOK_REGISTRY_def dest: map_of_SomeD)
    then have b: "length (pb_steps b) \<le> 4" "\<And>s. s \<in> set (pb_steps b) \<Longrightarrow> observing_step s"
      using default_steps_observe by (auto simp: list_all_iff)
    have "length qs \<le> 4" using b(1) list_all2_lengthD [OF steps] by simp
    moreover have "observing (prq_capability q) \<and> prq_target_id q = target \<and> prq_session_id q = session_id" if q: "q \<in> set qs" for q
    proof -
      obtain s where "s \<in> set (take n (pb_steps b))"
        "step_performed DEFAULT_TOOLS (step_request b target session_id requester_id s) q"
        using list_all2_pre [OF steps q] by blast
      then show ?thesis using b(2) in_set_takeD step_performed_observes by metis
    qed
    ultimately show ?thesis using qs by blast
  qed
qed

section \<open>Witnesses\<close>

definition demo_playbook :: playbook where
  "demo_playbook =
     \<lparr>pb_name = ''restart'', pb_description = ''Power off twice.'', pb_required = [''power.force_off''],
      pb_risk_tier = ''high'',
      pb_steps = [observe_step ''first'' ''power_off'' ''Power off.'', observe_step ''second'' ''power_off'' ''Power off.''],
      pb_rollback_notes = ''none''\<rparr>"

theorem playbook_in_order_witness:
  "\<exists>x w' n qs. run_playbook demo_router [(''restart'', demo_playbook)] ''restart'' ''t'' ''s'' ''agent'' (demo_world (Some demo_store))
       = (x, w') \<and> n \<le> 2 \<and> executions w' = qs \<and> length qs = n"
proof -
  let ?run = "run_playbook demo_router [(''restart'', demo_playbook)] ''restart'' ''t'' ''s'' ''agent'' (demo_world (Some demo_store))"
  obtain x w' where run: "?run = (x, w')" by (cases ?run)
  have "registry_ok (rt_capabilities demo_router)"
    by (simp add: rt_capabilities_def demo_router_def registry_ok_def demo_capability_def)
  from playbook_in_order [OF this run] have "length (executions w') \<le> 2"
    by (auto simp: demo_playbook_def dest: list_all2_lengthD)
  with run show ?thesis by auto
qed

theorem default_playbooks_observe_witness:
  "\<exists>rn x w'. build_runtime None = Inr rn \<and>
     run_playbook (runtime_router rn DEFAULT_TOOLS (rt_plane (demo_configured_router rn))) DEFAULT_PLAYBOOK_REGISTRY
       ''observe-target-health'' ''mock-target'' ''s'' ''agent'' demo_configured_world = (x, w') \<and>
     length (executions w') \<le> 4"
proof -
  obtain rn where rn: "build_runtime None = Inr rn" using mock_only_builds by blast
  let ?run = "run_playbook (runtime_router rn DEFAULT_TOOLS (rt_plane (demo_configured_router rn))) DEFAULT_PLAYBOOK_REGISTRY
       ''observe-target-health'' ''mock-target'' ''s'' ''agent'' demo_configured_world"
  obtain x w' where run: "?run = (x, w')" by (cases ?run)
  from default_playbooks_observe [OF run] have "length (executions w') \<le> 4"
    by (auto simp: demo_configured_world_def executions_def map_filter_def)
  with rn run show ?thesis by (intro exI conjI)
qed

end
