(* ===== verification/HostModels.thy ===== *)
theory HostModels
  imports Playbooks ApprovalQueue
begin

text \<open>
  The data of the tool-host boundary, \<open>mcp_sdk/\<close>: the adapter over the router (\<open>adapter.py\<close>, \<open>models.py\<close>),
  what a host sends and gets (\<open>host_models.py\<close>), the approvals it relays (\<open>approval_models.py\<close>) and the check
  of a payload before it leaves (\<open>result_validation.py\<close>). In a mapping a time is its ISO text.
\<close>

section \<open>Fields of a mapping\<close>

definition host_required_str :: "string \<Rightarrow> params \<Rightarrow> string \<Rightarrow> string res" where
  "host_required_str owner values key =
     (case dict_get_or values key PNone of
        PStr s \<Rightarrow> if s = [] then raise ValueError (owner @ '' '' @ key @ '' is required'') else Inr s
      | _ \<Rightarrow> raise ValueError (owner @ '' '' @ key @ '' is required''))"

definition host_optional_str :: "string \<Rightarrow> pyval \<Rightarrow> string option res" where
  "host_optional_str owner v =
     (case v of PNone \<Rightarrow> Inr None | PStr s \<Rightarrow> Inr (Some s)
      | _ \<Rightarrow> raise ValueError (owner @ '' optional string fields must be strings''))"

definition host_mapping :: "string \<Rightarrow> pyval \<Rightarrow> params res" where
  "host_mapping label v =
     (case v of PDict d \<Rightarrow> Inr (map (\<lambda>(k, w). (key_text k, w)) d)
      | _ \<Rightarrow> raise ValueError (label @ '' must be an object''))"

definition string_field :: "params \<Rightarrow> string \<Rightarrow> string" where
  "string_field values key = (case dict_get_or values key PNone of PStr s \<Rightarrow> s | _ \<Rightarrow> [])"

definition nullable_field :: "params \<Rightarrow> string \<Rightarrow> string option" where
  "nullable_field values key = (case dict_get_or values key PNone of PStr s \<Rightarrow> Some s | _ \<Rightarrow> None)"

definition text_items :: "params \<Rightarrow> string \<Rightarrow> string list res" where
  "text_items values key = map_sum id (map value_str) (py_items (dict_get_or values key (PTuple [])))"

definition HOST_TEXT_FRAGMENTS :: "string list" where
  "HOST_TEXT_FRAGMENTS =
     [''password'', ''secret'', ''token'', ''api_key'', ''private_key'', ''credential'', ''bearer'', ''session_cookie'', ''cookie'']"

definition host_redact_text :: "string \<Rightarrow> string" where
  "host_redact_text v = (if \<exists>f \<in> set HOST_TEXT_FRAGMENTS. contains (str_lower v) f then ''[REDACTED]'' else v)"

text \<open>A dictionary through JSON and back.\<close>

definition json_fields :: "params \<Rightarrow> params res" where
  "json_fields kvs =
     map_sum id (\<lambda>v. case v of PDict d \<Rightarrow> map (\<lambda>(k, w). (key_text k, w)) d | _ \<Rightarrow> []) (sdk_json_safe (pdict kvs))"

section \<open>Tool calls\<close>

text \<open>
  \<open>MCPSDKToolCall\<close> and \<open>HostToolCall\<close> have the fields of an \<open>MCPToolRequest\<close>; they differ in their defaults and
  in the name that their errors begin with, the \<open>owner\<close>.
\<close>

definition make_call :: "string \<Rightarrow> mcp_request \<Rightarrow> mcp_request res" where
  "make_call owner r =
     (if mt_tool_name r = [] then raise ValueError (owner @ '' tool_name is required'')
      else if mt_target r = [] then raise ValueError (owner @ '' target is required'')
      else if mt_session_id r = [] then raise ValueError (owner @ '' session_id is required'')
      else if mt_requester_id r = [] then raise ValueError (owner @ '' requester_id is required'')
      else Inr r)"

definition call_from_mapping :: "string \<Rightarrow> string \<Rightarrow> string \<Rightarrow> params \<Rightarrow> mcp_request res" where
  "call_from_mapping owner default_session default_requester values =
     bind_res (host_required_str owner values ''tool_name'') (\<lambda>tool.
     bind_res (host_required_str owner values ''target'') (\<lambda>target.
     bind_res (host_mapping (owner @ '' params'') (dict_get_or values ''params'' (pdict []))) (\<lambda>ps.
     bind_res (host_optional_str owner (dict_get_or values ''provider'' PNone)) (\<lambda>provider.
     bind_res (host_optional_str owner (dict_get_or values ''requested_mode'' PNone)) (\<lambda>mode.
     bind_res (host_optional_str owner (dict_get_or values ''policy_ref'' PNone)) (\<lambda>policy.
     bind_res (host_mapping (owner @ '' approval_context'') (dict_get_or values ''approval_context'' (pdict []))) (\<lambda>approval.
     bind_res (host_optional_str owner (dict_get_or values ''correlation_id'' PNone)) (\<lambda>correlation.
     make_call owner
       \<lparr>mt_tool_name = tool, mt_target = target,
        mt_session_id = value_str (dict_get_or values ''session_id'' (PStr default_session)),
        mt_requester_id = value_str (dict_get_or values ''requester_id'' (PStr default_requester)),
        mt_params = ps, mt_provider = provider, mt_requested_mode = mode, mt_policy_ref = policy,
        mt_approval_context = approval, mt_correlation_id = correlation\<rparr>))))))))"

definition sdk_call_from_mapping :: "params \<Rightarrow> mcp_request res" where
  "sdk_call_from_mapping = call_from_mapping ''MCP SDK'' ''sdk-session'' ''mcp-sdk''"

definition host_call_from_mapping :: "params \<Rightarrow> mcp_request res" where
  "host_call_from_mapping = call_from_mapping ''host'' ''host-session'' ''mcp-host''"

section \<open>The adapter\<close>

definition adapter_list_tools :: "mcp_tool_registry \<Rightarrow> pyval list res" where
  "adapter_list_tools tools =
     map_sum id (\<lambda>v. case v of PList xs \<Rightarrow> xs | _ \<Rightarrow> [])
       (sdk_json_safe (PList (map (\<lambda>(_, t). pdict
          [(''tool_name'', PStr (tool_name t)), (''capability'', PStr (tool_capability_id t)),
           (''description'', PStr (tool_description t)), (''dangerous'', PBool (tool_dangerous t))]) tools)))"

definition SCHEMA_INPUT :: pyval where
  "SCHEMA_INPUT = pdict
     [(''type'', PStr ''object''), (''required'', pystrs [''target'']),
      (''properties'', pdict (map (\<lambda>(k, t). (k, pdict [(''type'', PStr t)]))
         [(''target'', ''string''), (''params'', ''object''), (''provider'', ''string''), (''session_id'', ''string''),
          (''requester_id'', ''string''), (''correlation_id'', ''string'')]))]"

definition adapter_tool_schema :: "mcp_tool_registry \<Rightarrow> string \<Rightarrow> params" where
  "adapter_tool_schema tools name =
     (case dict_get tools name of
        None \<Rightarrow> [(''status'', PStr ''validation_error''), (''tool_name'', PStr name), (''reason'', PStr ''unknown MCP tool'')]
      | Some t \<Rightarrow>
          [(''status'', PStr ''ok''), (''tool_name'', PStr (tool_name t)), (''capability'', PStr (tool_capability_id t)),
           (''description'', PStr (tool_description t)), (''dangerous'', PBool (tool_dangerous t)), (''input'', SCHEMA_INPUT)])"

definition adapter_call_tool ::
    "('a, 'p, 'c) mcp_router \<Rightarrow> mcp_request \<Rightarrow> (('a, 'p, 'c) world, params) op" where
  "adapter_call_tool rt call =
     bind_op (lift_res (make_mcp_request call)) (\<lambda>r.
     bind_op (handle_tool_request rt r) (\<lambda>m.
     lift_res (json_fields (mcp_result_to_dict m))))"

definition adapter_call_mapping ::
    "('a, 'p, 'c) mcp_router \<Rightarrow> params \<Rightarrow> (('a, 'p, 'c) world, params) op" where
  "adapter_call_mapping rt values =
     bind_op (lift_res (sdk_call_from_mapping values)) (adapter_call_tool rt)"

section \<open>What a host gets\<close>

datatype host_status = HS_OK | HS_DENIED | HS_APPROVAL_REQUIRED | HS_VALIDATION_ERROR | HS_PROVIDER_ERROR | HS_POLICY_ERROR

fun host_status_value :: "host_status \<Rightarrow> string" where
  "host_status_value HS_OK = ''ok''"
| "host_status_value HS_DENIED = ''denied''"
| "host_status_value HS_APPROVAL_REQUIRED = ''approval_required''"
| "host_status_value HS_VALIDATION_ERROR = ''validation_error''"
| "host_status_value HS_PROVIDER_ERROR = ''provider_error''"
| "host_status_value HS_POLICY_ERROR = ''policy_error''"

definition all_host_statuses :: "host_status list" where
  "all_host_statuses = [HS_OK, HS_DENIED, HS_APPROVAL_REQUIRED, HS_VALIDATION_ERROR, HS_PROVIDER_ERROR, HS_POLICY_ERROR]"

definition HOST_RESULT_STATUSES :: "string list" where
  "HOST_RESULT_STATUSES = map host_status_value all_host_statuses"

text \<open>An unknown status is read as a validation error.\<close>

definition host_status_from_value :: "pyval \<Rightarrow> host_status" where
  "host_status_from_value v =
     (case v of
        PStr s \<Rightarrow> (case find (\<lambda>st. host_status_value st = s) all_host_statuses of Some st \<Rightarrow> st | None \<Rightarrow> HS_VALIDATION_ERROR)
      | _ \<Rightarrow> HS_VALIDATION_ERROR)"

definition tool_descriptor :: "string \<Rightarrow> string \<Rightarrow> string \<Rightarrow> bool \<Rightarrow> pyval res" where
  "tool_descriptor name capability description dangerous =
     sdk_json_safe (pdict [(''tool_name'', PStr name), (''capability'', PStr capability),
                           (''description'', PStr description), (''dangerous'', PBool dangerous)])"

record tool_schema =
  ts_tool_name :: string
  ts_capability :: string
  ts_description :: string
  ts_dangerous :: bool
  ts_input :: params

definition make_tool_schema :: "tool_schema \<Rightarrow> tool_schema" where
  "make_tool_schema s = s\<lparr>ts_input := fst (redact_mapping None (ts_input s))\<rparr>"

definition tool_schema_of :: "params \<Rightarrow> tool_schema res" where
  "tool_schema_of payload =
     (if dict_get_or payload ''status'' PNone \<noteq> PStr ''ok''
      then raise ValueError (value_str (dict_get_or payload ''reason'' (PStr ''tool schema unavailable'')))
      else (case nullable_field payload ''tool_name'' of
        None \<Rightarrow> raise ValueError ''tool schema missing tool_name''
      | Some name \<Rightarrow> if name = [] then raise ValueError ''tool schema missing tool_name''
      else (case nullable_field payload ''capability'' of
        None \<Rightarrow> raise ValueError ''tool schema missing capability''
      | Some capability \<Rightarrow> if capability = [] then raise ValueError ''tool schema missing capability''
      else (case nullable_field payload ''description'' of
        None \<Rightarrow> raise ValueError ''tool schema missing description''
      | Some description \<Rightarrow>
          (case dict_get_or payload ''input'' PNone of
             PDict d \<Rightarrow> Inr (make_tool_schema
               \<lparr>ts_tool_name = name, ts_capability = capability, ts_description = description,
                ts_dangerous = py_truthy (dict_get_or payload ''dangerous'' (PBool False)),
                ts_input = map (\<lambda>(k, v). (key_text k, v)) d\<rparr>)
           | _ \<Rightarrow> raise ValueError ''tool schema missing input'')))))"

definition tool_schema_to_dict :: "tool_schema \<Rightarrow> params res" where
  "tool_schema_to_dict s = json_fields
     [(''status'', PStr ''ok''), (''tool_name'', PStr (ts_tool_name s)), (''capability'', PStr (ts_capability s)),
      (''description'', PStr (ts_description s)), (''dangerous'', PBool (ts_dangerous s)), (''input'', pdict (ts_input s)),
      (''possible_statuses'', pystrs HOST_RESULT_STATUSES)]"

record host_result =
  hr_status :: host_status
  hr_tool_name :: string
  hr_capability :: "string option"
  hr_target :: string
  hr_provider :: string
  hr_reason :: string
  hr_data :: params
  hr_approval_request_id :: "string option"
  hr_risks :: "string list"
  hr_redactions :: "string list"

definition make_host_result :: "host_result \<Rightarrow> host_result" where
  "make_host_result r =
     (let (safe, paths) = redact_mapping None (hr_data r) in
      r\<lparr>hr_reason := host_redact_text (hr_reason r), hr_data := safe,
        hr_redactions := hr_redactions r @ prefixed ''data'' paths\<rparr>)"

definition host_result_of :: "params \<Rightarrow> host_result res" where
  "host_result_of payload =
     bind_res (host_mapping ''host data'' (dict_get_or payload ''data'' (pdict []))) (\<lambda>data.
     bind_res (text_items payload ''risks'') (\<lambda>risks.
     bind_res (text_items payload ''redactions'') (\<lambda>redactions.
     Inr (make_host_result
       \<lparr>hr_status = host_status_from_value (dict_get_or payload ''status'' PNone),
        hr_tool_name = string_field payload ''tool_name'', hr_capability = nullable_field payload ''capability'',
        hr_target = string_field payload ''target'', hr_provider = string_field payload ''provider'',
        hr_reason = string_field payload ''reason'', hr_data = data,
        hr_approval_request_id = nullable_field payload ''approval_request_id'',
        hr_risks = risks, hr_redactions = redactions\<rparr>))))"

definition host_result_to_dict :: "host_result \<Rightarrow> params res" where
  "host_result_to_dict r = json_fields
     ([(''status'', PStr (host_status_value (hr_status r))), (''tool_name'', PStr (hr_tool_name r)),
       (''capability'', pyopt (hr_capability r)), (''target'', PStr (hr_target r)), (''provider'', PStr (hr_provider r)),
       (''reason'', PStr (hr_reason r)), (''data'', pdict (hr_data r)), (''risks'', pystrs (hr_risks r)),
       (''redactions'', pystrs (sort (remdups (hr_redactions r))))] @
      (case hr_approval_request_id r of None \<Rightarrow> [] | Some i \<Rightarrow> [(''approval_request_id'', PStr i)]))"

record host_error =
  he_status :: host_status
  he_reason :: string
  he_tool_name :: "string option"
  he_details :: params
  he_redactions :: "string list"

definition make_host_error :: "host_status \<Rightarrow> string \<Rightarrow> string option \<Rightarrow> params \<Rightarrow> host_error res" where
  "make_host_error status reason tool details =
     (if status \<notin> {HS_VALIDATION_ERROR, HS_PROVIDER_ERROR, HS_POLICY_ERROR}
      then raise ValueError ''host errors must use an error status''
      else (let (safe, paths) = redact_mapping None details in
        Inr \<lparr>he_status = status, he_reason = host_redact_text reason, he_tool_name = tool, he_details = safe,
             he_redactions = prefixed ''details'' paths\<rparr>))"

definition host_error_to_dict :: "host_error \<Rightarrow> params res" where
  "host_error_to_dict e = json_fields
     ([(''status'', PStr (host_status_value (he_status e))), (''reason'', PStr (he_reason e)),
       (''details'', pdict (he_details e)), (''redactions'', pystrs (sort (remdups (he_redactions e))))] @
      (case he_tool_name e of None \<Rightarrow> [] | Some t \<Rightarrow> [(''tool_name'', PStr t)]))"

definition host_error_from_exception :: "exn \<Rightarrow> host_status \<Rightarrow> string option \<Rightarrow> host_error res" where
  "host_error_from_exception e status tool = make_host_error status (exn_text e) tool []"

end
