(* ===== verification/HostApprovals.thy ===== *)
theory HostApprovals
  imports HostModels
begin

text \<open>
  \<open>mcp_sdk/approval_models.py\<close> and \<open>mcp_sdk/result_validation.py\<close>: the approval requests and responses a host
  relays, the answers to them, and the check that a payload is safe to hand out. Reading a missing
  time reads the clock, so the readers are operations on the world.
\<close>

datatype approval_decision = HD_GRANTED | HD_DENIED | HD_EXPIRED

fun approval_decision_value :: "approval_decision \<Rightarrow> string" where
  "approval_decision_value HD_GRANTED = ''granted''"
| "approval_decision_value HD_DENIED = ''denied''"
| "approval_decision_value HD_EXPIRED = ''expired''"

definition approval_decision_of :: "string \<Rightarrow> approval_decision res" where
  "approval_decision_of v =
     (case find (\<lambda>d. approval_decision_value d = v) [HD_GRANTED, HD_DENIED, HD_EXPIRED] of
        Some d \<Rightarrow> Inr d
      | None \<Rightarrow> raise ValueError (value_repr (PStr v) @ '' is not a valid HostApprovalDecision''))"

text \<open>\<open>HostApprovalScope\<close> has the members and values of \<open>ApprovalGrantScope\<close>.\<close>

definition host_scope_of :: "string \<Rightarrow> grant_scope res" where
  "host_scope_of v =
     (case find (\<lambda>s. grant_scope_value s = v) [ONE_TIME, SESSION] of
        Some s \<Rightarrow> Inr s
      | None \<Rightarrow> raise ValueError (value_repr (PStr v) @ '' is not a valid HostApprovalScope''))"

datatype approval_status = AS_GRANTED | AS_DENIED | AS_EXPIRED | AS_VALIDATION_ERROR

fun approval_status_value :: "approval_status \<Rightarrow> string" where
  "approval_status_value AS_GRANTED = ''approval_granted''"
| "approval_status_value AS_DENIED = ''approval_denied''"
| "approval_status_value AS_EXPIRED = ''approval_expired''"
| "approval_status_value AS_VALIDATION_ERROR = ''validation_error''"

section \<open>Requests\<close>

record host_approval =
  hq_id :: string
  hq_session_id :: string
  hq_target :: string
  hq_provider :: string
  hq_capability :: string
  hq_params_fingerprint :: string
  hq_expires_at :: datetime
  hq_policy_decision :: string
  hq_operator_message :: string
  hq_material_risks :: "string list"
  hq_params_preview :: params
  hq_scope_options :: "grant_scope list"
  hq_correlation_id :: "string option"
  hq_redactions :: "string list"

definition make_host_approval :: "host_approval \<Rightarrow> host_approval res" where
  "make_host_approval a =
     (if hq_id a = [] then raise ValueError ''approval request id is required''
      else if hq_session_id a = [] then raise ValueError ''approval request session_id is required''
      else if hq_target a = [] then raise ValueError ''approval request target is required''
      else if hq_provider a = [] then raise ValueError ''approval request provider is required''
      else if hq_capability a = [] then raise ValueError ''approval request capability is required''
      else if hq_params_fingerprint a = [] then raise ValueError ''approval request params_fingerprint is required''
      else (let (safe, paths) = redact_mapping None (hq_params_preview a) in
        Inr (a\<lparr>hq_params_preview := safe, hq_redactions := hq_redactions a @ prefixed ''params_preview'' paths\<rparr>)))"

definition host_datetime :: "(nat \<Rightarrow> datetime) \<Rightarrow> pyval \<Rightarrow> (('a, 'p, 'c) world, datetime) op" where
  "host_datetime clock v =
     (case v of
        PNone \<Rightarrow> tick clock
      | PStr s \<Rightarrow>
          if s = [] then throw ValueError ''approval datetime fields must be ISO datetime strings''
          else lift_res (map_sum id assume_utc (fromisoformat s))
      | _ \<Rightarrow> throw ValueError ''approval datetime fields must be ISO datetime strings'')"

definition approval_fingerprint :: "(string \<Rightarrow> string) \<Rightarrow> params \<Rightarrow> string res" where
  "approval_fingerprint = fingerprint_parameters"

definition host_approval_of ::
    "('a, 'p, 'c) plane \<Rightarrow> params \<Rightarrow> params \<Rightarrow> string option \<Rightarrow> (('a, 'p, 'c) world, host_approval) op" where
  "host_approval_of cp result ps correlation =
     (if dict_get_or result ''status'' PNone \<noteq> PStr ''approval_required''
      then throw ValueError ''host result does not require approval''
      else
        bind_op (lift_res (host_mapping ''approval result data'' (dict_get_or result ''data'' (pdict [])))) (\<lambda>data.
        bind_op (lift_res (host_mapping ''approval_request'' (dict_get_or data ''approval_request'' (pdict [])))) (\<lambda>approval.
        bind_op (lift_res (host_mapping ''target_scope'' (dict_get_or approval ''target_scope'' (pdict [])))) (\<lambda>scope.
        bind_op (case dict_get_or scope ''targets'' (PTuple []) of
                   PList (t # ts) \<Rightarrow> ret t
                 | _ \<Rightarrow> throw ValueError ''approval request target scope is missing'') (\<lambda>target.
        bind_op (lift_res (host_mapping ''capability'' (dict_get_or approval ''capability'' (pdict [])))) (\<lambda>capability.
        bind_op (lift_res (host_required_str ''approval'' approval ''id'')) (\<lambda>id'.
        bind_op (lift_res (host_required_str ''approval'' approval ''session_id'')) (\<lambda>session.
        bind_op (lift_res (host_required_str ''approval'' approval ''provider_id'')) (\<lambda>provider.
        bind_op (lift_res (host_required_str ''approval'' capability ''id'')) (\<lambda>cap.
        bind_op (lift_res (host_optional_str ''approval'' (dict_get_or data ''params_fingerprint'' PNone))) (\<lambda>given.
        bind_op (case given of
                   Some (c # cs) \<Rightarrow> ret (c # cs)
                 | _ \<Rightarrow> lift_res (approval_fingerprint (pl_sha256 cp) ps)) (\<lambda>fingerprint.
        bind_op (host_datetime (pl_utcnow cp) (dict_get_or approval ''expires_at'' PNone)) (\<lambda>expires.
        bind_op (lift_res (host_required_str ''approval'' approval ''policy_decision'')) (\<lambda>decision.
        bind_op (lift_res (host_required_str ''approval'' approval ''operator_message'')) (\<lambda>message.
        bind_op (lift_res (text_items approval ''material_risks'')) (\<lambda>risks.
        bind_op (lift_res (host_mapping ''params_preview'' (dict_get_or data ''params_preview'' (pdict [])))) (\<lambda>preview.
        bind_op (lift_res (text_items result ''redactions'')) (\<lambda>redactions.
        lift_res (make_host_approval
          \<lparr>hq_id = id', hq_session_id = session, hq_target = value_str target, hq_provider = provider,
           hq_capability = cap, hq_params_fingerprint = fingerprint, hq_expires_at = expires,
           hq_policy_decision = decision, hq_operator_message = message, hq_material_risks = risks,
           hq_params_preview = preview, hq_scope_options = [ONE_TIME, SESSION], hq_correlation_id = correlation,
           hq_redactions = redactions\<rparr>)))))))))))))))))))"

definition host_approval_to_dict :: "host_approval \<Rightarrow> params res" where
  "host_approval_to_dict a = json_fields
     [(''id'', PStr (hq_id a)), (''session_id'', PStr (hq_session_id a)), (''target'', PStr (hq_target a)),
      (''provider'', PStr (hq_provider a)), (''capability'', PStr (hq_capability a)),
      (''params_fingerprint'', PStr (hq_params_fingerprint a)), (''expires_at'', PStr (isoformat (hq_expires_at a))),
      (''policy_decision'', PStr (hq_policy_decision a)), (''operator_message'', PStr (host_redact_text (hq_operator_message a))),
      (''material_risks'', pystrs (hq_material_risks a)), (''params_preview'', pdict (hq_params_preview a)),
      (''scope_options'', pystrs (map grant_scope_value (hq_scope_options a))), (''correlation_id'', pyopt (hq_correlation_id a)),
      (''redactions'', pystrs (sort (remdups (hq_redactions a))))]"

section \<open>Responses and their answers\<close>

record host_response =
  hp_request_id :: string
  hp_decision :: approval_decision
  hp_operator_id :: string
  hp_scope :: grant_scope
  hp_reason :: "string option"
  hp_decided_at :: datetime
  hp_session_id :: "string option"
  hp_target :: "string option"
  hp_provider :: "string option"
  hp_capability :: "string option"
  hp_params_fingerprint :: "string option"

definition make_host_response :: "host_response \<Rightarrow> host_response res" where
  "make_host_response r =
     (if hp_request_id r = [] then raise ValueError ''approval response request_id is required''
      else if hp_operator_id r = [] then raise ValueError ''approval response operator_id is required''
      else Inr (r\<lparr>hp_reason := Some (host_redact_text (or_empty (hp_reason r)))\<rparr>))"

definition host_response_of :: "('a, 'p, 'c) plane \<Rightarrow> params \<Rightarrow> (('a, 'p, 'c) world, host_response) op" where
  "host_response_of cp values =
     (let optional = (\<lambda>key. host_optional_str ''approval'' (dict_get_or values key PNone)) in
      bind_op (lift_res (host_required_str ''approval'' values ''request_id'')) (\<lambda>request_id.
      bind_op (lift_res (bind_res (host_required_str ''approval'' values ''decision'') approval_decision_of)) (\<lambda>decision.
      bind_op (lift_res (host_required_str ''approval'' values ''operator_id'')) (\<lambda>operator.
      bind_op (lift_res (host_scope_of (value_str (dict_get_or values ''scope'' (PStr ''one_time''))))) (\<lambda>scope.
      bind_op (lift_res (optional ''reason'')) (\<lambda>reason.
      bind_op (host_datetime (pl_utcnow cp) (dict_get_or values ''decided_at'' PNone)) (\<lambda>decided.
      bind_op (lift_res (optional ''session_id'')) (\<lambda>session.
      bind_op (lift_res (optional ''target'')) (\<lambda>target.
      bind_op (lift_res (optional ''provider'')) (\<lambda>provider.
      bind_op (lift_res (optional ''capability'')) (\<lambda>capability.
      bind_op (lift_res (optional ''params_fingerprint'')) (\<lambda>fingerprint.
      lift_res (make_host_response
        \<lparr>hp_request_id = request_id, hp_decision = decision, hp_operator_id = operator, hp_scope = scope,
         hp_reason = reason, hp_decided_at = decided, hp_session_id = session, hp_target = target,
         hp_provider = provider, hp_capability = capability, hp_params_fingerprint = fingerprint\<rparr>)))))))))))))"

definition host_response_to_dict :: "host_response \<Rightarrow> params res" where
  "host_response_to_dict r = json_fields
     [(''request_id'', PStr (hp_request_id r)), (''decision'', PStr (approval_decision_value (hp_decision r))),
      (''operator_id'', PStr (hp_operator_id r)), (''scope'', PStr (grant_scope_value (hp_scope r))),
      (''reason'', pyopt (hp_reason r)), (''decided_at'', PStr (isoformat (hp_decided_at r))),
      (''session_id'', pyopt (hp_session_id r)), (''target'', pyopt (hp_target r)), (''provider'', pyopt (hp_provider r)),
      (''capability'', pyopt (hp_capability r)), (''params_fingerprint'', pyopt (hp_params_fingerprint r))]"

text \<open>\<open>HostApprovalResult(...).to_dict()\<close>\<close>

definition host_approval_result ::
    "approval_status \<Rightarrow> string \<Rightarrow> string \<Rightarrow> host_approval option \<Rightarrow> host_response option \<Rightarrow> params \<Rightarrow> params res" where
  "host_approval_result status request_id reason approval response grant =
     (let (safe, paths) = redact_mapping None grant in
      bind_res (case approval of None \<Rightarrow> Inr []
                | Some a \<Rightarrow> map_sum id (\<lambda>d. [(''approval_request'', pdict d)]) (host_approval_to_dict a)) (\<lambda>requested.
      bind_res (case response of None \<Rightarrow> Inr []
                | Some r \<Rightarrow> map_sum id (\<lambda>d. [(''response'', pdict d)]) (host_response_to_dict r)) (\<lambda>answered.
      json_fields
        ([(''status'', PStr (approval_status_value status)), (''request_id'', PStr request_id),
          (''reason'', PStr (host_redact_text reason)), (''grant'', pdict safe),
          (''redactions'', pystrs (sort (remdups (prefixed ''grant'' paths))))] @ requested @ answered))))"

section \<open>The check of a payload\<close>

definition APPROVAL_RESULT_STATUSES :: "string list" where
  "APPROVAL_RESULT_STATUSES = map approval_status_value [AS_GRANTED, AS_DENIED, AS_EXPIRED, AS_VALIDATION_ERROR]"

definition HOST_COMPATIBILITY_STATUSES :: "string list" where
  "HOST_COMPATIBILITY_STATUSES = HOST_RESULT_STATUSES @ APPROVAL_RESULT_STATUSES"

definition HOST_SENSITIVE_FRAGMENTS :: "string list" where
  "HOST_SENSITIVE_FRAGMENTS =
     [''password'', ''token'', ''api_key'', ''private_key'', ''credential'', ''bearer'', ''session_cookie'']"

abbreviation unsafe_payload :: "string \<Rightarrow> 'a res" where
  "unsafe_payload m \<equiv> raise HostResultValidationError m"

fun host_no_bytes :: "pyval \<Rightarrow> bool" where
  "host_no_bytes (PBytes b) = False"
| "host_no_bytes (PDict d) = (\<forall>(k, v) \<in> set d. host_no_bytes v)"
| "host_no_bytes (PList xs) = (\<forall>x \<in> set xs. host_no_bytes x)"
| "host_no_bytes (PTuple xs) = (\<forall>x \<in> set xs. host_no_bytes x)"
| "host_no_bytes v = True"

definition host_sensitive_key :: "string \<Rightarrow> bool" where
  "host_sensitive_key k \<longleftrightarrow> (\<exists>f \<in> set HOST_SENSITIVE_FRAGMENTS. contains (str_lower k) f)"

primrec first_some :: "'a option list \<Rightarrow> 'a option" where
  "first_some [] = None"
| "first_some (x # xs) = (case x of None \<Rightarrow> first_some xs | Some y \<Rightarrow> Some y)"

text \<open>The first sensitive key with a value that is neither missing, empty nor redacted.\<close>

fun exposed_key :: "pyval \<Rightarrow> string option" where
  "exposed_key (PDict d) = first_some (map (\<lambda>(k, v).
     if host_sensitive_key (key_text k) \<and> v \<notin> {PNone, PStr [], PStr ''[REDACTED]''} then Some (key_text k)
     else exposed_key v) d)"
| "exposed_key (PList xs) = first_some (map exposed_key xs)"
| "exposed_key (PTuple xs) = first_some (map exposed_key xs)"
| "exposed_key v = None"

text \<open>The first of the fields that is not text, or empty where a value is asked for.\<close>

definition missing_text :: "params \<Rightarrow> string list \<Rightarrow> string option" where
  "missing_text payload = find (\<lambda>f. nullable_field payload f = None)"

definition missing_value :: "params \<Rightarrow> string list \<Rightarrow> string option" where
  "missing_value payload = find (\<lambda>f. string_field payload f = [])"

definition require_text :: "string \<Rightarrow> string option \<Rightarrow> unit res" where
  "require_text label missing =
     (case missing of None \<Rightarrow> Inr () | Some f \<Rightarrow> unsafe_payload (label @ '' '' @ f @ '' is required''))"

definition payload_provider_result :: "params \<Rightarrow> params option" where
  "payload_provider_result payload =
     (case dict_get_or payload ''data'' PNone of
        PDict d \<Rightarrow> (case dict_get_or d (KStr ''provider_result'') PNone of
            PDict p \<Rightarrow> Some (map (\<lambda>(k, v). (key_text k, v)) p) | _ \<Rightarrow> None)
      | _ \<Rightarrow> None)"

definition validate_tool_result :: "params \<Rightarrow> host_status \<Rightarrow> unit res" where
  "validate_tool_result payload status =
     bind_res (require_text ''host result'' (missing_text payload [''status'', ''reason''])) (\<lambda>_.
     bind_res (if status \<in> {HS_OK, HS_DENIED, HS_APPROVAL_REQUIRED, HS_PROVIDER_ERROR}
               then require_text ''host result'' (missing_text payload [''tool_name'', ''target'', ''provider''])
               else Inr ()) (\<lambda>_.
     bind_res (if status = HS_APPROVAL_REQUIRED
               then (case dict_get_or payload ''approval_request'' PNone of
                       PDict d \<Rightarrow> require_text ''approval_required approval_request''
                         (missing_value (map (\<lambda>(k, v). (key_text k, v)) d)
                           [''id'', ''session_id'', ''target'', ''provider'', ''capability'', ''params_fingerprint''])
                     | _ \<Rightarrow> unsafe_payload ''approval_required result needs approval_request'')
               else Inr ()) (\<lambda>_.
     if status = HS_PROVIDER_ERROR
     then (case payload_provider_result payload of
             None \<Rightarrow> unsafe_payload ''provider_error needs provider_result''
           | Some p \<Rightarrow> if nullable_field p ''error_code'' = None then unsafe_payload ''provider_error needs error_code''
                       else Inr ())
     else Inr ())))"

definition validate_approval_result :: "params \<Rightarrow> unit res" where
  "validate_approval_result payload =
     require_text ''approval result'' (missing_text payload [''status'', ''request_id'', ''reason''])"

definition validate_host_result :: "params \<Rightarrow> unit res" where
  "validate_host_result payload =
     (if isl (sdk_json_safe (pdict payload)) then unsafe_payload ''host result must be JSON-safe''
      else if \<not> host_no_bytes (pdict payload) then unsafe_payload ''host result must not include raw bytes''
      else case exposed_key (pdict payload) of
        Some k \<Rightarrow> unsafe_payload (''host result contains unredacted sensitive key '' @ k)
      | None \<Rightarrow>
      (case dict_get_or payload ''status'' PNone of
        PStr s \<Rightarrow>
          if s \<notin> set HOST_COMPATIBILITY_STATUSES then unsafe_payload ''host result status is unknown''
          else if s \<in> set HOST_RESULT_STATUSES then validate_tool_result payload (host_status_from_value (PStr s))
          else validate_approval_result payload
      | _ \<Rightarrow> unsafe_payload ''host result status is unknown''))"

end
