(* ===== verification/Host.thy ===== *)
theory Host
  imports HostApprovals
begin

text \<open>
  \<open>mcp_sdk/host.py\<close>: the layer through which a tool host lists tools, calls them, relays what the operator
  says to a request for approval, and resumes the call. Its state is the world of the router and two
  dictionaries: the approvals that wait, which are never removed, and the last answer to each.
\<close>

record pending_approval =
  pa_call :: mcp_request
  pa_approval :: host_approval

record ('a, 'p, 'c) host_layer =
  ho_world :: "('a, 'p, 'c) world"
  ho_pending :: "(string, pending_approval) dict"
  ho_states :: "(string, approval_status) dict"

definition new_host :: "('a, 'p, 'c) world \<Rightarrow> ('a, 'p, 'c) host_layer" where
  "new_host w = \<lparr>ho_world = w, ho_pending = [], ho_states = []\<rparr>"

text \<open>A method takes an object of the right class, or a mapping to build one from.\<close>

datatype 'x host_input = Built 'x | Mapping params

definition on_world :: "(('a, 'p, 'c) world, 'x) op \<Rightarrow> (('a, 'p, 'c) host_layer, 'x) op" where
  "on_world m h = (case m (ho_world h) of (x, w) \<Rightarrow> (x, h\<lparr>ho_world := w\<rparr>))"

text \<open>\<open>try: ... except Exception as exc\<close>\<close>

definition rescue :: "('s, 'x) op \<Rightarrow> (exn \<Rightarrow> ('s, 'x) op) \<Rightarrow> ('s, 'x) op" where
  "rescue m handler s = (case m s of (Inl e, s') \<Rightarrow> handler e s' | (Inr x, s') \<Rightarrow> (Inr x, s'))"

definition serialize_error :: "exn \<Rightarrow> string option \<Rightarrow> params res" where
  "serialize_error e tool = bind_res (host_error_from_exception e HS_VALIDATION_ERROR tool) host_error_to_dict"

definition host_failure :: "string \<Rightarrow> string option \<Rightarrow> params \<Rightarrow> params res" where
  "host_failure reason tool details =
     bind_res (make_host_error HS_VALIDATION_ERROR reason tool details) host_error_to_dict"

section \<open>Tools and schemas\<close>

definition required_adapter_str :: "params \<Rightarrow> string \<Rightarrow> string res" where
  "required_adapter_str values key =
     (if string_field values key = [] then raise ValueError (''adapter tool metadata missing '' @ key)
      else Inr (string_field values key))"

definition descriptor_of :: "pyval \<Rightarrow> pyval res" where
  "descriptor_of tool =
     bind_res (host_mapping ''tool'' tool) (\<lambda>values.
     bind_res (required_adapter_str values ''tool_name'') (\<lambda>name.
     bind_res (required_adapter_str values ''capability'') (\<lambda>capability.
     bind_res (required_adapter_str values ''description'') (\<lambda>description.
     tool_descriptor name capability description (py_truthy (dict_get_or values ''dangerous'' (PBool False)))))))"

definition host_list_tools :: "mcp_tool_registry \<Rightarrow> params res" where
  "host_list_tools tools =
     (case bind_res (adapter_list_tools tools) (map_res descriptor_of) of
        Inl e \<Rightarrow> serialize_error e None
      | Inr ds \<Rightarrow> json_fields [(''status'', PStr ''ok''), (''tools'', PList ds)])"

definition host_tool_schema :: "mcp_tool_registry \<Rightarrow> string \<Rightarrow> params res" where
  "host_tool_schema tools name =
     (if name = [] then host_failure ''host tool_name is required'' None []
      else
        let payload = adapter_tool_schema tools name; status = dict_get_or payload ''status'' PNone in
        if status \<noteq> PStr ''ok''
        then host_failure (value_str (dict_get_or payload ''reason'' (PStr ''tool schema unavailable''))) (Some name)
               [(''adapter_status'', status)]
        else (case bind_res (tool_schema_of payload) tool_schema_to_dict of
                Inl e \<Rightarrow> serialize_error e (Some name)
              | Inr d \<Rightarrow> Inr d))"

section \<open>Calling a tool\<close>

definition remember :: "mcp_request \<Rightarrow> host_approval \<Rightarrow> ('a, 'p, 'c) host_layer \<Rightarrow> ('a, 'p, 'c) host_layer" where
  "remember call a h = h\<lparr>ho_pending := dict_set (hq_id a) \<lparr>pa_call = call, pa_approval = a\<rparr> (ho_pending h)\<rparr>"

definition route_call ::
    "('a, 'p, 'c) mcp_router \<Rightarrow> mcp_request \<Rightarrow> (('a, 'p, 'c) host_layer, params) op" where
  "route_call rt call =
     bind_op (lift_res (make_call ''MCP SDK'' call)) (\<lambda>sdk.
     bind_op (on_world (adapter_call_tool rt sdk)) (\<lambda>payload.
     bind_op (lift_res (bind_res (host_result_of payload) host_result_to_dict)) (\<lambda>result.
     if dict_get_or result ''status'' PNone = PStr ''approval_required''
     then
       bind_op (on_world (host_approval_of (rt_plane rt) result (mt_params call) (mt_correlation_id call))) (\<lambda>approval.
       seq_op (modify_op (remember call approval))
       (bind_op (lift_res (host_approval_to_dict approval)) (\<lambda>d.
       ret (dict_set ''approval_request'' (pdict d) result))))
     else ret result)))"

fun input_tool_name :: "mcp_request host_input \<Rightarrow> string option" where
  "input_tool_name (Built call) = Some (mt_tool_name call)"
| "input_tool_name (Mapping values) = nullable_field values ''tool_name''"

definition host_call_tool ::
    "('a, 'p, 'c) mcp_router \<Rightarrow> mcp_request host_input \<Rightarrow> (('a, 'p, 'c) host_layer, params) op" where
  "host_call_tool rt request =
     rescue
       (bind_op (case request of Built call \<Rightarrow> ret call | Mapping values \<Rightarrow> lift_res (host_call_from_mapping values))
         (route_call rt))
       (\<lambda>e. lift_res (serialize_error e (input_tool_name request)))"

section \<open>Answering a request for approval\<close>

definition approval_mismatch :: "host_approval \<Rightarrow> host_response \<Rightarrow> string option" where
  "approval_mismatch a r =
     map_option (\<lambda>(label, actual, expected). ''approval '' @ label @ '' mismatch'')
       (find (\<lambda>(label, actual, expected). actual \<noteq> None \<and> actual \<noteq> Some expected)
         [(''session_id'', hp_session_id r, hq_session_id a), (''target'', hp_target r, hq_target a),
          (''provider'', hp_provider r, hq_provider a), (''capability'', hp_capability r, hq_capability a),
          (''params_fingerprint'', hp_params_fingerprint r, hq_params_fingerprint a)])"

definition policy_decision_of :: "string \<Rightarrow> policy_decision res" where
  "policy_decision_of v =
     (case find (\<lambda>d. decision_value d = v) all_decisions of
        Some d \<Rightarrow> Inr d
      | None \<Rightarrow> raise ValueError (value_repr (PStr v) @ '' is not a valid PolicyDecision''))"

definition emit_approval_event ::
    "('a, 'p, 'c) mcp_router \<Rightarrow> audit_event_type \<Rightarrow> pending_approval \<Rightarrow> host_response \<Rightarrow> approval_status \<Rightarrow>
     (('a, 'p, 'c) world, unit) op" where
  "emit_approval_event rt t p r status =
     (let a = pa_approval p in
      bind_op (lift_res (registry_require DEFAULT_CAPABILITY_REGISTRY (hq_capability a))) (\<lambda>c.
      bind_op (lift_res (make_actor OPERATOR (hp_operator_id r))) (\<lambda>who.
      bind_op (lift_res (policy_decision_of (hq_policy_decision a))) (\<lambda>d.
      bind_op (lift_res (host_approval_to_dict a)) (\<lambda>requested.
      bind_op (lift_res (host_response_to_dict r)) (\<lambda>answered.
      bind_op (tick (pl_uuid (rt_plane rt))) (\<lambda>new_id.
      bind_op (tick (pl_utcnow (rt_plane rt))) (\<lambda>now.
      bind_op (lift_res (build_audit_event new_id now t
          (text_or (mt_correlation_id (pa_call p)) (''host-approval:'' @ hq_id a)) (hq_session_id a) who
          (ref_of_capability c) d (Some (hq_target a))
          (Some [(''approval_request'', pdict requested)])
          (Some [(''status'', PStr (approval_status_value status)), (''approval_response'', pdict answered)])
          (hq_material_risks a)))
        (sink_emit (rt_plane rt))))))))))"

definition set_state :: "string \<Rightarrow> approval_status \<Rightarrow> ('a, 'p, 'c) host_layer \<Rightarrow> ('a, 'p, 'c) host_layer" where
  "set_state request_id status h = h\<lparr>ho_states := dict_set request_id status (ho_states h)\<rparr>"

definition approval_validation_error ::
    "('a, 'p, 'c) mcp_router \<Rightarrow> string \<Rightarrow> string \<Rightarrow> host_approval option \<Rightarrow> host_response \<Rightarrow>
     (('a, 'p, 'c) host_layer, params) op" where
  "approval_validation_error rt request_id reason approval r =
     seq_op
       (case approval of
          None \<Rightarrow> ret ()
        | Some a \<Rightarrow> bind_op (get_op ho_pending) (\<lambda>ps.
            case dict_get ps (hq_id a) of
              None \<Rightarrow> ret ()
            | Some p \<Rightarrow> on_world (emit_approval_event rt APPROVAL_DENIED p r AS_VALIDATION_ERROR)))
     (seq_op (modify_op (set_state request_id AS_VALIDATION_ERROR))
     (lift_res (host_approval_result AS_VALIDATION_ERROR request_id reason approval (Some r) [])))"

text \<open>A denial or an expiry: the event, the state, the answer.\<close>

definition close_approval ::
    "('a, 'p, 'c) mcp_router \<Rightarrow> audit_event_type \<Rightarrow> approval_status \<Rightarrow> string \<Rightarrow> pending_approval \<Rightarrow> host_response \<Rightarrow>
     (('a, 'p, 'c) host_layer, params) op" where
  "close_approval rt t status reason p r =
     seq_op (on_world (emit_approval_event rt t p r status))
     (seq_op (modify_op (set_state (hp_request_id r) status))
     (lift_res (host_approval_result status (hp_request_id r) reason (Some (pa_approval p)) (Some r) [])))"

definition grant_of_response :: "host_approval \<Rightarrow> host_response \<Rightarrow> action_grant res" where
  "grant_of_response a r =
     bind_res (make_actor OPERATOR (hp_operator_id r)) (\<lambda>who.
     make_action_grant
       \<lparr>ag_request_id = hq_id a, ag_response_id = ''host-response-'' @ hq_id a @ ''-'' @ hp_operator_id r,
        ag_capability_id = hq_capability a, ag_session_id = hq_session_id a, ag_target_id = hq_target a,
        ag_provider_id = hq_provider a, ag_params_fingerprint = hq_params_fingerprint a,
        ag_expires_at = hq_expires_at a, ag_scope = hp_scope r, ag_operator = who\<rparr>)"

definition add_to_store :: "action_grant \<Rightarrow> (('a, 'p, 'c) world, unit) op" where
  "add_to_store g =
     bind_op (get_op w_store) (\<lambda>st. case st of
        None \<Rightarrow> throw ValueError ''host approval store is unavailable''
      | Some store \<Rightarrow> modify_op (\<lambda>w. w\<lparr>w_store := Some (store_add_action_grant g store)\<rparr>))"

definition grant_approval ::
    "('a, 'p, 'c) mcp_router \<Rightarrow> pending_approval \<Rightarrow> host_response \<Rightarrow> (('a, 'p, 'c) host_layer, params) op" where
  "grant_approval rt p r =
     bind_op (lift_res (grant_of_response (pa_approval p) r)) (\<lambda>g.
     seq_op (on_world (emit_approval_event rt APPROVAL_GRANTED p r AS_GRANTED))
     (seq_op (on_world (add_to_store g))
     (seq_op (modify_op (set_state (hp_request_id r) AS_GRANTED))
     (lift_res (host_approval_result AS_GRANTED (hp_request_id r) ''approval granted'' (Some (pa_approval p)) (Some r)
        (action_grant_to_dict g))))))"

definition answer_pending ::
    "('a, 'p, 'c) mcp_router \<Rightarrow> host_response \<Rightarrow> (('a, 'p, 'c) host_layer, params) op" where
  "answer_pending rt r =
     bind_op (get_op ho_pending) (\<lambda>ps.
     case dict_get ps (hp_request_id r) of
       None \<Rightarrow> approval_validation_error rt (hp_request_id r) ''unknown approval request'' None r
     | Some p \<Rightarrow>
         (case approval_mismatch (pa_approval p) r of
            Some m \<Rightarrow> approval_validation_error rt (hp_request_id r) m (Some (pa_approval p)) r
          | None \<Rightarrow>
              bind_op (lift_res (if hp_decision r = HD_EXPIRED then Inr True
                                 else dt_geq (hp_decided_at r) (hq_expires_at (pa_approval p)))) (\<lambda>late.
              if late then close_approval rt APPROVAL_EXPIRED AS_EXPIRED ''approval expired'' p r
              else if hp_decision r = HD_DENIED
              then close_approval rt APPROVAL_DENIED AS_DENIED ''approval denied'' p r
              else grant_approval rt p r)))"

fun input_request_id :: "host_response host_input \<Rightarrow> string" where
  "input_request_id (Built r) = hp_request_id r"
| "input_request_id (Mapping values) = string_field values ''request_id''"

definition submit_approval_response ::
    "('a, 'p, 'c) mcp_router \<Rightarrow> host_response host_input \<Rightarrow> (('a, 'p, 'c) host_layer, params) op" where
  "submit_approval_response rt response =
     rescue
       (bind_op (case response of Built r \<Rightarrow> ret r | Mapping values \<Rightarrow> on_world (host_response_of (rt_plane rt) values))
         (answer_pending rt))
       (\<lambda>e. lift_res (host_approval_result AS_VALIDATION_ERROR (input_request_id response) (exn_text e) None None []))"

definition resume_approved_tool ::
    "('a, 'p, 'c) mcp_router \<Rightarrow> string \<Rightarrow> (('a, 'p, 'c) host_layer, params) op" where
  "resume_approved_tool rt request_id =
     bind_op (get_op (\<lambda>h. (dict_get (ho_pending h) request_id, dict_get (ho_states h) request_id))) (\<lambda>(pending, state).
     case pending of
       None \<Rightarrow> lift_res (host_failure ''unknown approval request'' None [])
     | Some p \<Rightarrow>
         (if state \<in> {Some AS_DENIED, Some AS_EXPIRED, Some AS_VALIDATION_ERROR}
          then lift_res (host_failure (approval_status_value (the state)) None [])
          else host_call_tool rt (Built (pa_call p))))"

section \<open>Sessions\<close>

datatype host_step =
    CallTool "mcp_request host_input"
  | Respond "host_response host_input"
  | Resume string

fun host_answer :: "('a, 'p, 'c) mcp_router \<Rightarrow> host_step \<Rightarrow> (('a, 'p, 'c) host_layer, params) op" where
  "host_answer rt (CallTool request) = host_call_tool rt request"
| "host_answer rt (Respond response) = submit_approval_response rt response"
| "host_answer rt (Resume request_id) = resume_approved_tool rt request_id"

definition run_host ::
    "('a, 'p, 'c) mcp_router \<Rightarrow> host_step list \<Rightarrow> ('a, 'p, 'c) host_layer \<Rightarrow> ('a, 'p, 'c) host_layer" where
  "run_host rt ss h = fold (\<lambda>s h. snd (host_answer rt s h)) ss h"

end
