(* ===== verification/HostProps.thy ===== *)
theory HostProps
  imports Host PlaybookProps
begin

text \<open>
  What a host can bring about: its calls execute through the router, an answer to a request for approval
  executes nothing and adds at most the one grant that was asked for, and every answer is a JSON object.
\<close>

section \<open>Who adds grants\<close>

definition grants_of :: "('a, 'p, 'c) world \<Rightarrow> action_grant list" where
  "grants_of w = (case w_store w of None \<Rightarrow> [] | Some st \<Rightarrow> st_action_grants st)"

definition same_grants :: "('a, 'p, 'c) world \<Rightarrow> ('a, 'p, 'c) world \<Rightarrow> bool" where
  "same_grants w w' \<longleftrightarrow> grants_of w' = grants_of w"

interpretation same_grants: step_relation same_grants
  by unfold_locales (auto simp: same_grants_def)

lemma quiet_same_grants: "keeps quiet m \<Longrightarrow> keeps same_grants m"
  by (auto simp: keeps_def quiet_def same_grants_def grants_of_def)

lemma consume_same_grants: "keeps same_grants (consume_grant g)"
  by (auto simp: keeps_def consume_grant_def same_grants_def grants_of_def split: option.splits)

lemma execute_same_grants: "keeps same_grants (execute_provider cp r c ref d)"
  by (auto simp: keeps_def same_grants_def grants_of_def dest: execute_provider_executes)

lemma verify_signed_same_grants: "keeps same_grants (verify_signed_approval_grant cp r ref d)"
proof -
  have "keeps same_grants (apply_verification cp r ref d g v)" for g v
    using apply_verification_facts unfolding keeps_def same_grants_def grants_of_def by fastforce
  then show ?thesis
    unfolding verify_signed_approval_grant_def Let_def
    by (auto split: option.split intro!: same_grants.keeps_rules quiet_same_grants [OF rejected_quiet]
        quiet_same_grants [OF tick_quiet])
qed

lemmas same_grants_steps = same_grants.keeps_rules consume_same_grants execute_same_grants verify_signed_same_grants
  quiet_same_grants [OF tick_quiet] quiet_same_grants [OF announce_quiet] quiet_same_grants [OF deny_quiet]
  quiet_same_grants [OF approval_quiet] quiet_same_grants [OF matching_quiet] quiet_same_grants [OF client_quiet]
  quiet_same_grants [OF request_operator_quiet] quiet_same_grants [OF clearance_denied_quiet]
  quiet_same_grants [OF request_id_quiet] quiet_same_grants [OF result_quiet]

lemma clearance_same_grants: "keeps same_grants (clearance_answer cp r c ref d q resp now)"
  unfolding clearance_answer_def Let_def
  by (cases "pl_clearance_verifier cp") (auto intro!: same_grants_steps)

lemma handle_same_grants: "keeps same_grants (handle cp r)"
  unfolding handle_def Let_def handle_approval_def handle_act_clearance_def
  by (auto split: auth_channel.split option.split intro!: same_grants_steps clearance_same_grants)

lemma sink_emit_quiet: "keeps quiet (sink_emit cp e)"
  by (auto simp: keeps_def sink_emit_def quiet_def executions_def map_filter_def split: sum.splits)

lemma call_same_grants: "keeps same_grants (handle_tool_request rt r)"
proof -
  have audit: "keeps quiet (audit_validation_error rt r m)" for m
    unfolding audit_validation_error_def by (intro quiet.keeps_rules tick_quiet sink_emit_quiet)
  have mapped: "keeps same_grants (handle_mapped cp r t i who)" for cp t i who
    unfolding keeps_def
  proof (intro allI impI)
    fix w x w' assume "handle_mapped cp r t i who w = (x, w')"
    then obtain y where "handle cp (request_for r t who) (w\<lparr>w_consumed := []\<rparr>) = (y, w')"
      by (cases rule: handle_mapped_cases) blast+
    from keepsD [OF handle_same_grants this] show "same_grants w w'" by (simp add: same_grants_def grants_of_def)
  qed
  have fail: "keeps same_grants (validation_failure rt r st c p a m)" for st c p a m
    unfolding validation_failure_def by (intro same_grants_steps quiet_same_grants [OF audit])
  have catch: "keeps same_grants (except_class c v handler k)"
    if "\<And>m. keeps same_grants (handler m)" "\<And>y. keeps same_grants (k y)" for c v handler and k :: "'y \<Rightarrow> _"
    using that by (auto simp: except_class_def intro: same_grants.keeps_lift split: sum.split)
  show ?thesis
    unfolding handle_tool_request_def Let_def
    by (auto split: option.split intro!: same_grants_steps fail catch mapped)
qed

text \<open>The grant of an accepted response, and the step of a session that is one.\<close>

definition accepted_as :: "('a, 'p, 'c) host_layer \<Rightarrow> host_response \<Rightarrow> action_grant \<Rightarrow> bool" where
  "accepted_as h r g \<longleftrightarrow>
     (\<exists>p. dict_get (ho_pending h) (hp_request_id r) = Some p \<and> hp_decision r = HD_GRANTED \<and>
        approval_mismatch (pa_approval p) r = None \<and>
        dt_geq (hp_decided_at r) (hq_expires_at (pa_approval p)) = Inr False \<and>
        grant_of_response (pa_approval p) r = Inr g)"

definition grants_by :: "('a, 'p, 'c) mcp_router \<Rightarrow> host_step \<Rightarrow> ('a, 'p, 'c) host_layer \<Rightarrow> action_grant \<Rightarrow> bool" where
  "grants_by rt s h g \<longleftrightarrow>
     (case s of
        Respond (Built r) \<Rightarrow> accepted_as h r g
      | Respond (Mapping values) \<Rightarrow>
          \<exists>r w. host_response_of (rt_plane rt) values (ho_world h) = (Inr r, w) \<and> accepted_as h r g
      | _ \<Rightarrow> False)"

text \<open>Relations of worlds lift to the layer, and a step that answers errors keeps what its body keeps.\<close>

definition on_worlds :: "(('a, 'p, 'c) world \<Rightarrow> ('a, 'p, 'c) world \<Rightarrow> bool) \<Rightarrow>
    ('a, 'p, 'c) host_layer \<Rightarrow> ('a, 'p, 'c) host_layer \<Rightarrow> bool" where
  "on_worlds R h h' \<longleftrightarrow> R (ho_world h) (ho_world h')"

lemma keeps_on_world: "keeps R m \<Longrightarrow> keeps (on_worlds R) (on_world m)"
  by (auto simp: keeps_def on_world_def on_worlds_def split: prod.splits)

lemma keeps_rescue:
  "keeps R m \<Longrightarrow> (\<And>e. keeps R (handler e)) \<Longrightarrow> (\<And>x y z. R x y \<Longrightarrow> R y z \<Longrightarrow> R x z) \<Longrightarrow> keeps R (rescue m handler)"
  unfolding keeps_def rescue_def by (fastforce split: prod.splits sum.splits)

lemma on_worlds_relation: "step_relation R \<Longrightarrow> step_relation (on_worlds R)"
  unfolding step_relation_def on_worlds_def by blast

text \<open>Nothing executed and no grant added.\<close>

definition still :: "('a, 'p, 'c) world \<Rightarrow> ('a, 'p, 'c) world \<Rightarrow> bool" where
  "still w w' \<longleftrightarrow> executions w' = executions w \<and> grants_of w' = grants_of w"

interpretation still: step_relation still
  by unfold_locales (auto simp: still_def)

interpretation stills: step_relation "on_worlds still"
  by (rule on_worlds_relation) unfold_locales

lemma quiet_still: "keeps quiet m \<Longrightarrow> keeps (on_worlds still) (on_world m)"
  by (rule keeps_on_world) (auto simp: keeps_def quiet_def still_def grants_of_def)

lemma keeps_states: "(\<And>h. ho_world (f h) = ho_world h) \<Longrightarrow> keeps (on_worlds still) (modify_op f)"
  by (rule stills.keeps_modify) (simp add: on_worlds_def still.refl)

lemma datetime_quiet: "keeps quiet (host_datetime clock v)"
  by (cases v) (auto simp: host_datetime_def intro!: tick_quiet quiet.keeps_rules)

lemma approval_of_quiet: "keeps quiet (host_approval_of cp result ps correlation)"
proof -
  have target: "keeps quiet (case v of PList (t # ts) \<Rightarrow> ret t | _ \<Rightarrow> throw c m)" for v c m
    by (auto split: pyval.split list.split intro!: quiet.keeps_rules)
  have fingerprint: "keeps quiet (case v of Some (c # cs) \<Rightarrow> ret (c # cs) | _ \<Rightarrow> lift_res r)" for v r
    by (auto split: option.split list.split intro!: quiet.keeps_rules)
  show ?thesis
    unfolding host_approval_of_def by (intro quiet.keeps_rules target fingerprint datetime_quiet)
qed

lemma response_of_quiet: "keeps quiet (host_response_of cp values)"
  unfolding host_response_of_def Let_def by (intro quiet.keeps_rules datetime_quiet)

lemma approval_event_quiet: "keeps quiet (emit_approval_event rt t p r status)"
  unfolding emit_approval_event_def Let_def by (intro quiet.keeps_rules tick_quiet sink_emit_quiet)

lemmas still_steps = stills.keeps_rules quiet_still [OF approval_of_quiet] quiet_still [OF response_of_quiet]
  quiet_still [OF approval_event_quiet]

section \<open>What one step does\<close>

lemma adapter_call_cases:
  assumes "adapter_call_tool rt call w = (x, w')"
  obtains (refused) "w' = w" | (routed) y where "handle_tool_request rt call w = (y, w')"
  using assms
  by (auto simp: adapter_call_tool_def bind_op_def dest!: make_mcp_request_Inr split: sum.splits prod.splits)

definition call_effect :: "('a, 'p, 'c) mcp_router \<Rightarrow> mcp_request \<Rightarrow> ('a, 'p, 'c) world \<Rightarrow> ('a, 'p, 'c) world \<Rightarrow> bool" where
  "call_effect rt call w w' \<longleftrightarrow> grants_of w' = grants_of w \<and>
     (executions w' = executions w \<or> (\<exists>q. executions w' = executions w @ [q] \<and> call_permitted rt call q w))"

lemma still_effect: "still w w' \<Longrightarrow> call_effect rt call w w'"
  and effect_still: "call_effect rt call w w1 \<Longrightarrow> still w1 w' \<Longrightarrow> call_effect rt call w w'"
  and effect_refl [simp]: "call_effect rt call w w"
  by (auto simp: still_def call_effect_def)

lemma routed_effect: "handle_tool_request rt call w = (y, w') \<Longrightarrow> call_effect rt call w w'"
  using call_executions [of rt call w y w'] keepsD [OF call_same_grants, of rt call w y w']
  by (auto simp: call_effect_def same_grants_def)

lemma make_call_Inr: "make_call owner r = Inr r' \<Longrightarrow> r' = r"
  by (auto simp: make_call_def split: if_splits)

lemma route_call_effect:
  assumes "route_call rt call h = (x, h')"
  shows "call_effect rt call (ho_world h) (ho_world h')"
proof -
  let ?rest = "\<lambda>payload. bind_op (lift_res (bind_res (host_result_of payload) host_result_to_dict)) (\<lambda>result.
     if dict_get_or result ''status'' PNone = PStr ''approval_required''
     then
       bind_op (on_world (host_approval_of (rt_plane rt) result (mt_params call) (mt_correlation_id call))) (\<lambda>approval.
       seq_op (modify_op (remember call approval))
       (bind_op (lift_res (host_approval_to_dict approval)) (\<lambda>d.
       ret (dict_set ''approval_request'' (pdict d) result))))
     else ret result)"
  have rest: "keeps (on_worlds still) (?rest payload)" for payload
    by (intro still_steps keeps_states) (simp add: remember_def)
  from assms show ?thesis unfolding route_call_def
  proof (cases rule: bind_opE)
    case (raised e)
    then show ?thesis by auto
  next
    case (went_on sdk h1)
    then have h1: "h1 = h" "sdk = call" by (auto dest: make_call_Inr)
    from went_on(2) show ?thesis unfolding h1
    proof (cases rule: bind_opE)
      case (raised e)
      then obtain w where "adapter_call_tool rt call (ho_world h) = (Inl e, w)" "h' = h\<lparr>ho_world := w\<rparr>"
        by (auto simp: on_world_def split: prod.splits)
      then show ?thesis by (cases rule: adapter_call_cases) (auto dest: routed_effect)
    next
      case (went_on payload h2)
      then obtain w where w: "adapter_call_tool rt call (ho_world h) = (Inr payload, w)" "h2 = h\<lparr>ho_world := w\<rparr>"
        by (auto simp: on_world_def split: prod.splits)
      then have "call_effect rt call (ho_world h) (ho_world h2)"
        by (cases rule: adapter_call_cases) (auto dest: routed_effect)
      with keepsD [OF rest went_on(2)] show ?thesis unfolding on_worlds_def by (rule effect_still [rotated])
    qed
  qed
qed

text \<open>The call that an input stands for.\<close>

definition called :: "mcp_request host_input \<Rightarrow> mcp_request \<Rightarrow> bool" where
  "called request call \<longleftrightarrow>
     (case request of Built c \<Rightarrow> c = call | Mapping values \<Rightarrow> host_call_from_mapping values = Inr call)"

lemma call_tool_effect:
  assumes "host_call_tool rt request h = (x, h')"
  shows "h' = h \<or> (\<exists>call. called request call \<and> call_effect rt call (ho_world h) (ho_world h'))"
proof -
  obtain y where "bind_op (case request of Built call \<Rightarrow> ret call | Mapping values \<Rightarrow> lift_res (host_call_from_mapping values))
      (route_call rt) h = (y, h')"
    using assms by (auto simp: host_call_tool_def rescue_def split: prod.splits sum.splits)
  then show ?thesis
    by (cases request) (auto simp: called_def split: sum.splits dest: route_call_effect)
qed

text \<open>An answer to a request for approval.\<close>

definition answer_effect :: "(action_grant \<Rightarrow> bool) \<Rightarrow> ('a, 'p, 'c) world \<Rightarrow> ('a, 'p, 'c) world \<Rightarrow> bool" where
  "answer_effect P w w' \<longleftrightarrow> executions w' = executions w \<and>
     (grants_of w' = grants_of w \<or> (\<exists>g. grants_of w' = grants_of w @ [g] \<and> P g))"

lemma still_answer: "still w w' \<Longrightarrow> answer_effect P w w'"
  and then_still: "answer_effect P w w1 \<Longrightarrow> still w1 w' \<Longrightarrow> answer_effect P w w'"
  and still_then: "still w w1 \<Longrightarrow> answer_effect P w1 w' \<Longrightarrow> answer_effect P w w'"
  and answer_refl [simp]: "answer_effect P w w"
  by (auto simp: still_def answer_effect_def)

lemma add_to_store_effect:
  "add_to_store g w = (x, w') \<Longrightarrow> executions w' = executions w \<and>
     (grants_of w' = grants_of w \<or> grants_of w' = grants_of w @ [g])"
  by (auto simp: add_to_store_def grants_of_def store_add_action_grant_def executions_def split: option.splits)

lemma grant_approval_effect:
  assumes "grant_approval rt p r h = (x, h')"
  shows "answer_effect (\<lambda>g. grant_of_response (pa_approval p) r = Inr g) (ho_world h) (ho_world h')"
proof -
  from assms show ?thesis unfolding grant_approval_def
  proof (cases rule: bind_opE)
    case (raised e)
    then show ?thesis by auto
  next
    case (went_on g h1)
    then have g: "grant_of_response (pa_approval p) r = Inr g" "h1 = h" by auto
    from went_on(2) show ?thesis unfolding g(2)
    proof (cases rule: seq_opE)
      case (raised e)
      from keepsD [OF quiet_still [OF approval_event_quiet] raised(1)] show ?thesis
        unfolding on_worlds_def by (rule still_answer)
    next
      case (went_on h2)
      have h2: "still (ho_world h) (ho_world h2)"
        using keepsD [OF quiet_still [OF approval_event_quiet] went_on(1)] by (simp add: on_worlds_def)
      have rest: "keeps (on_worlds still) (seq_op (modify_op (set_state (hp_request_id r) AS_GRANTED)) (lift_res v))"
        for v :: "params res"
        by (intro stills.keeps_rules keeps_states) (simp add: set_state_def)
      from went_on(2) have "\<exists>h3. answer_effect (\<lambda>g. grant_of_response (pa_approval p) r = Inr g) (ho_world h2) (ho_world h3) \<and>
          (h' = h3 \<or> on_worlds still h3 h')"
      proof (cases rule: seq_opE)
        case (raised e)
        then have "add_to_store g (ho_world h2) = (Inl e, ho_world h')" by (auto simp: on_world_def split: prod.splits)
        with g(1) show ?thesis by (auto dest: add_to_store_effect simp: answer_effect_def)
      next
        case (went_on h3)
        then have "add_to_store g (ho_world h2) = (Inr (), ho_world h3)" by (auto simp: on_world_def split: prod.splits)
        with g(1) keepsD [OF rest went_on(2)] show ?thesis by (auto dest: add_to_store_effect simp: answer_effect_def)
      qed
      with h2 show ?thesis unfolding on_worlds_def by (metis still_then then_still)
    qed
  qed
qed

lemma close_still: "keeps (on_worlds still) (close_approval rt t status reason p r)"
  unfolding close_approval_def by (intro still_steps keeps_states) (simp add: set_state_def)

lemma validation_still: "keeps (on_worlds still) (approval_validation_error rt request_id reason approval r)"
  unfolding approval_validation_error_def
  by (cases approval) (auto intro!: still_steps keeps_states simp: set_state_def split: option.split)

lemma answer_pending_effect:
  assumes "answer_pending rt r h = (x, h')"
  shows "answer_effect (accepted_as h r) (ho_world h) (ho_world h')"
proof (cases "dict_get (ho_pending h) (hp_request_id r)")
  case None
  with assms have "approval_validation_error rt (hp_request_id r) ''unknown approval request'' None r h = (x, h')"
    by (simp add: answer_pending_def)
  from keepsD [OF validation_still this] show ?thesis unfolding on_worlds_def by (rule still_answer)
next
  case (Some p)
  show ?thesis
  proof (cases "approval_mismatch (pa_approval p) r")
    case (Some m)
    with assms \<open>dict_get _ _ = Some p\<close>
    have "approval_validation_error rt (hp_request_id r) m (Some (pa_approval p)) r h = (x, h')"
      by (simp add: answer_pending_def)
    from keepsD [OF validation_still this] show ?thesis unfolding on_worlds_def by (rule still_answer)
  next
    case None
    let ?late = "if hp_decision r = HD_EXPIRED then Inr True else dt_geq (hp_decided_at r) (hq_expires_at (pa_approval p))"
    show ?thesis
    proof (cases ?late)
      case (Inl e)
      with assms None Some have "h' = h" by (auto simp: answer_pending_def)
      then show ?thesis by simp
    next
      case (Inr late)
      have closed: "close_approval rt t status reason p r h = (x, h') \<Longrightarrow> ?thesis" for t status reason
        using keepsD [OF close_still] unfolding on_worlds_def by (blast intro: still_answer)
      show ?thesis
      proof (cases "late \<or> hp_decision r = HD_DENIED")
        case True
        with assms None Some Inr closed show ?thesis by (auto simp: answer_pending_def split: if_splits)
      next
        case False
        with assms None Some Inr have granted: "grant_approval rt p r h = (x, h')"
          by (auto simp: answer_pending_def split: if_splits)
        from False Inr have "hp_decision r = HD_GRANTED" "dt_geq (hp_decided_at r) (hq_expires_at (pa_approval p)) = Inr False"
          by (cases "hp_decision r"; auto split: if_splits)+
        with grant_approval_effect [OF granted] Some None show ?thesis
          by (auto simp: answer_effect_def accepted_as_def)
      qed
    qed
  qed
qed

lemma respond_effect:
  assumes "submit_approval_response rt response h = (x, h')"
  shows "answer_effect (grants_by rt (Respond response) h) (ho_world h) (ho_world h')"
proof -
  obtain y where body: "bind_op (case response of Built r \<Rightarrow> ret r
        | Mapping values \<Rightarrow> on_world (host_response_of (rt_plane rt) values)) (answer_pending rt) h = (y, h')"
    using assms by (auto simp: submit_approval_response_def rescue_def split: prod.splits sum.splits)
  show ?thesis
  proof (cases response)
    case (Built r)
    with body have "answer_pending rt r h = (y, h')" by simp
    from answer_pending_effect [OF this] Built show ?thesis by (simp add: answer_effect_def grants_by_def)
  next
    case (Mapping vs)
    with body have "bind_op (on_world (host_response_of (rt_plane rt) vs)) (answer_pending rt) h = (y, h')" by simp
    then show ?thesis
    proof (cases rule: bind_opE)
      case (raised e)
      from keepsD [OF quiet_still [OF response_of_quiet] raised(1)] show ?thesis
        unfolding on_worlds_def by (rule still_answer)
    next
      case (went_on r h1)
      then obtain w where w: "host_response_of (rt_plane rt) vs (ho_world h) = (Inr r, w)" "h1 = h\<lparr>ho_world := w\<rparr>"
        by (auto simp: on_world_def split: prod.splits)
      have "still (ho_world h) (ho_world h1)"
        using keepsD [OF quiet_still [OF response_of_quiet] went_on(1)] by (simp add: on_worlds_def)
      moreover have "answer_effect (grants_by rt (Respond response) h) (ho_world h1) (ho_world h')"
        using answer_pending_effect [OF went_on(2)] w Mapping
        by (auto simp: answer_effect_def grants_by_def accepted_as_def)
      ultimately show ?thesis by (rule still_then)
    qed
  qed
qed

lemma resume_cases:
  assumes "resume_approved_tool rt i h = (x, h')"
  obtains (refused) reason where "x = host_failure reason None []" "h' = h"
    | (resumed) p where "dict_get (ho_pending h) i = Some p" "host_call_tool rt (Built (pa_call p)) h = (x, h')"
  using assms by (auto simp: resume_approved_tool_def split: option.splits if_splits)

section \<open>Sessions\<close>

definition issues :: "host_step \<Rightarrow> ('a, 'p, 'c) host_layer \<Rightarrow> mcp_request \<Rightarrow> bool" where
  "issues s h call \<longleftrightarrow>
     (case s of
        CallTool request \<Rightarrow> called request call
      | Resume i \<Rightarrow> map_option pa_call (dict_get (ho_pending h) i) = Some call
      | Respond response \<Rightarrow> False)"

lemma step_effect:
  assumes "host_answer rt s h = (x, h')"
  shows "(\<exists>call. issues s h call \<and> call_effect rt call (ho_world h) (ho_world h')) \<or>
     answer_effect (grants_by rt s h) (ho_world h) (ho_world h')"
proof (cases s)
  case (CallTool request)
  with assms have "host_call_tool rt request h = (x, h')" by simp
  from call_tool_effect [OF this] CallTool show ?thesis by (auto simp: issues_def)
next
  case (Respond response)
  with assms have "submit_approval_response rt response h = (x, h')" by simp
  from respond_effect [OF this] Respond show ?thesis by simp
next
  case (Resume i)
  with assms have run: "resume_approved_tool rt i h = (x, h')" by simp
  show ?thesis
  proof (cases "h' = h")
    case False
    with run obtain p where "dict_get (ho_pending h) i = Some p" "host_call_tool rt (Built (pa_call p)) h = (x, h')"
      by (cases rule: resume_cases) auto
    with call_tool_effect [of rt "Built (pa_call p)" h x h'] False Resume show ?thesis
      by (auto simp: issues_def called_def)
  qed simp
qed

lemma run_host_snoc: "run_host rt (ss @ [s]) h = snd (host_answer rt s (run_host rt ss h))"
  by (simp add: run_host_def)

lemma session_grants:
  "g \<in> set (grants_of (ho_world (run_host rt ss h))) \<Longrightarrow> g \<in> set (grants_of (ho_world h)) \<or>
     (\<exists>us v vs. ss = us @ v # vs \<and> grants_by rt v (run_host rt us h) g)"
proof (induction ss rule: rev_induct)
  case Nil
  then show ?case by (simp add: run_host_def)
next
  case (snoc s ss)
  obtain x h' where a: "host_answer rt s (run_host rt ss h) = (x, h')" by (cases "host_answer rt s (run_host rt ss h)")
  then have h': "run_host rt (ss @ [s]) h = h'" by (simp add: run_host_snoc)
  have "g \<in> set (grants_of (ho_world (run_host rt ss h))) \<or> grants_by rt s (run_host rt ss h) g"
    using step_effect [OF a] snoc.prems h' by (auto simp: call_effect_def answer_effect_def)
  then show ?case
  proof
    assume "g \<in> set (grants_of (ho_world (run_host rt ss h)))"
    then show ?thesis using snoc.IH by (metis append_Cons append_assoc)
  qed blast
qed

lemma session_calls:
  "\<exists>qs. executions (ho_world (run_host rt ss h)) = executions (ho_world h) @ qs \<and> length qs \<le> length ss \<and>
     (\<forall>q \<in> set qs. \<exists>xs s ys call. ss = xs @ s # ys \<and> issues s (run_host rt xs h) call \<and>
        call_permitted rt call q (ho_world (run_host rt xs h)))"
proof (induction ss rule: rev_induct)
  case Nil
  then show ?case by (intro exI [of _ "[]"]) (simp add: run_host_def)
next
  case (snoc s ss)
  then obtain qs where qs: "executions (ho_world (run_host rt ss h)) = executions (ho_world h) @ qs" "length qs \<le> length ss"
    "\<forall>q \<in> set qs. \<exists>xs s ys call. ss = xs @ s # ys \<and> issues s (run_host rt xs h) call \<and>
        call_permitted rt call q (ho_world (run_host rt xs h))" by blast
  have old: "\<forall>q \<in> set qs. \<exists>xs t ys call. ss @ [s] = xs @ t # ys \<and> issues t (run_host rt xs h) call \<and>
        call_permitted rt call q (ho_world (run_host rt xs h))"
    using qs(3) by (metis append_Cons append_assoc)
  obtain x h' where a: "host_answer rt s (run_host rt ss h) = (x, h')" by (cases "host_answer rt s (run_host rt ss h)")
  then have h': "run_host rt (ss @ [s]) h = h'" by (simp add: run_host_snoc)
  from step_effect [OF a] have "executions (ho_world h') = executions (ho_world (run_host rt ss h)) \<or>
     (\<exists>q call. executions (ho_world h') = executions (ho_world (run_host rt ss h)) @ [q] \<and>
        issues s (run_host rt ss h) call \<and> call_permitted rt call q (ho_world (run_host rt ss h)))"
    by (auto simp: call_effect_def answer_effect_def)
  then show ?case
  proof (elim disjE exE conjE)
    assume "executions (ho_world h') = executions (ho_world (run_host rt ss h))"
    with qs(1,2) old h' show ?thesis by (intro exI [of _ qs]) simp
  next
    fix q call assume q: "executions (ho_world h') = executions (ho_world (run_host rt ss h)) @ [q]"
      "issues s (run_host rt ss h) call" "call_permitted rt call q (ho_world (run_host rt ss h))"
    then have "\<exists>xs t ys call. ss @ [s] = xs @ t # ys \<and> issues t (run_host rt xs h) call \<and>
        call_permitted rt call q (ho_world (run_host rt xs h))" by blast
    with qs(1,2) old h' q(1) show ?thesis by (intro exI [of _ "qs @ [q]"]) auto
  qed
qed

text \<open>Without a tower and signed grants, what needs approval needs a grant of the store for exactly this action.\<close>

lemma permitted_by_grant:
  assumes "routed rt r tool t p who cp" "pl_client (rt_plane rt) = None" "permitted cp (request_for r tool who) c w"
    "requires_approval (plane_decision cp (request_for r tool who))"
  shows "\<exists>g now. g \<in> set (grants_of w) \<and> grant_bound g (query_for cp (request_for r tool who) now) \<and>
     dt_less now (ag_expires_at g) = Inr True"
proof -
  have "pl_client cp = None \<and> pl_grant_verifier cp = None"
    using assms(1,2) by (auto simp: routed_def plane_for_def make_plane_def bind_res_Inr_iff)
  then have "stored_authority cp (request_for r tool who) w"
    using assms(3,4) by (auto simp: permitted_def approved_def tower_channel_def signed_authority_def)
  then obtain store g now where "w_store w = Some store"
    "find_action_grant store (query_for cp (request_for r tool who) now) = Inr (Some g)"
    by (auto simp: stored_authority_def)
  with find_action_grant_Some(1,2,3) show ?thesis by (fastforce simp: grants_of_def query_for_def)
qed

section \<open>Answers\<close>

lemma json_value_like: "json_value v \<Longrightarrow> json_like v"
  by (induction v rule: json_value.induct) (auto split: prod.splits)

lemma json_fields_Inr:
  assumes "json_fields kvs = Inr d" "distinct (map fst kvs)"
  shows "json_like (pdict d) \<and> (\<forall>k s. dict_get kvs k = Some (PStr s) \<longrightarrow> dict_get d k = Some (PStr s))"
proof -
  obtain a where a: "sdk_json_safe (pdict kvs) = Inr a"
    "d = (case a of PDict d \<Rightarrow> map (\<lambda>(k, w). (key_text k, w)) d | _ \<Rightarrow> [])"
    using assms(1) by (auto simp: json_fields_def map_sum_Inr_iff)
  from a(1) [unfolded sdk_json_safe_def] assms(2) obtain kvs' where c: "a = pdict kvs'"
    "\<And>k v. dict_get kvs k = Some v \<Longrightarrow> \<exists>w. json_copy not_serializable v = Inr w \<and> dict_get kvs' k = Some w"
    by (rule copy_mapping) blast
  have "d = kvs'" using a(2) c(1) by (simp add: pdict_def comp_def case_prod_beta)
  moreover have "json_like a" using sdk_json_safe_value [OF a(1)] by (rule json_value_like)
  ultimately show ?thesis using c by fastforce
qed

lemma json_fields_total: "json_like (pdict kvs) \<Longrightarrow> \<exists>d. json_fields kvs = Inr d"
  using copy_total [of "pdict kvs" not_serializable] by (auto simp: json_fields_def sdk_json_safe_def)

text \<open>A JSON object with a status of the boundary.\<close>

definition well_answered :: "params \<Rightarrow> bool" where
  "well_answered d \<longleftrightarrow> json_like (pdict d) \<and>
     (\<exists>s \<in> set HOST_COMPATIBILITY_STATUSES. dict_get d ''status'' = Some (PStr s))"

lemma statuses [simp]:
  "host_status_value st \<in> set HOST_COMPATIBILITY_STATUSES" "approval_status_value as \<in> set HOST_COMPATIBILITY_STATUSES"
  by (cases st; simp add: HOST_COMPATIBILITY_STATUSES_def HOST_RESULT_STATUSES_def all_host_statuses_def)
    (cases as; simp add: HOST_COMPATIBILITY_STATUSES_def APPROVAL_RESULT_STATUSES_def)

lemma json_fields_answer:
  assumes "json_fields kvs = Inr d" "distinct (map fst kvs)" "dict_get kvs ''status'' = Some (PStr s)"
    "s \<in> set HOST_COMPATIBILITY_STATUSES"
  shows "well_answered d"
  using json_fields_Inr [OF assms(1,2)] assms(3,4) by (auto simp: well_answered_def)

lemma result_answer: "host_result_to_dict r = Inr d \<Longrightarrow> well_answered d"
  unfolding host_result_to_dict_def
  by (erule json_fields_answer [where s = "host_status_value (hr_status r)"]) (auto split: option.split)

lemma error_answer: "\<exists>d. bind_res (make_host_error HS_VALIDATION_ERROR reason tool []) host_error_to_dict = Inr d \<and> well_answered d"
proof -
  let ?e = "\<lparr>he_status = HS_VALIDATION_ERROR, he_reason = host_redact_text reason, he_tool_name = tool, he_details = [],
     he_redactions = []\<rparr>"
  have e: "make_host_error HS_VALIDATION_ERROR reason tool [] = Inr ?e"
    by (simp add: make_host_error_def redact_mapping_def prefixed_def fields_value_def fields_redactions_def)
  have "\<exists>d. host_error_to_dict ?e = Inr d"
    unfolding host_error_to_dict_def by (rule json_fields_total) (auto simp: pdict_def split: option.split)
  then obtain d where d: "host_error_to_dict ?e = Inr d" ..
  then have "well_answered d"
    unfolding host_error_to_dict_def
    by (rule json_fields_answer [where s = "host_status_value HS_VALIDATION_ERROR"])
      (auto split: option.split simp: HOST_COMPATIBILITY_STATUSES_def HOST_RESULT_STATUSES_def all_host_statuses_def)
  with e d show ?thesis by simp
qed

lemma approval_answer:
  assumes "host_approval_result st i reason a r g = Inr d"
  shows "well_answered d"
proof -
  obtain safe paths where g: "redact_mapping None g = (safe, paths)" by fastforce
  from assms show ?thesis
    unfolding host_approval_result_def g
    by (auto simp: bind_res_Inr_iff map_sum_Inr_iff split: option.splits
        elim!: json_fields_answer [where s = "approval_status_value st"])
qed

lemma host_approval_object: "host_approval_to_dict a = Inr d \<Longrightarrow> json_like (pdict d)"
  unfolding host_approval_to_dict_def by (drule json_fields_Inr) auto

lemma json_like_set: "json_like (pdict d) \<Longrightarrow> json_like v \<Longrightarrow> json_like (pdict (dict_set k v d))"
proof (induction d)
  case (Cons kv d)
  then show ?case by (cases kv) (auto simp: pdict_def split: if_splits)
qed (simp add: pdict_def)

text \<open>What an operation returns, if it returns.\<close>

definition yields :: "('x \<Rightarrow> bool) \<Rightarrow> ('s, 'x) op \<Rightarrow> bool" where
  "yields P m \<longleftrightarrow> (\<forall>s x s'. m s = (Inr x, s') \<longrightarrow> P x)"

lemma yields_ret: "P x \<Longrightarrow> yields P (ret x)"
  and yields_lift: "(\<And>x. r = Inr x \<Longrightarrow> P x) \<Longrightarrow> yields P (lift_res r)"
  and yields_seq: "yields P n \<Longrightarrow> yields P (seq_op u n)"
  and yields_if: "(b \<Longrightarrow> yields P m) \<Longrightarrow> (\<not> b \<Longrightarrow> yields P n) \<Longrightarrow> yields P (if b then m else n)"
  by (auto simp: yields_def seq_op_Inr)

lemma yields_bind: "yields Q m \<Longrightarrow> (\<And>y. Q y \<Longrightarrow> yields P (k y)) \<Longrightarrow> yields P (bind_op m k)"
  unfolding yields_def bind_op_Inr by blast

lemma yields_rest: "(\<And>y. yields P (k y)) \<Longrightarrow> yields P (bind_op m k)"
  unfolding yields_def bind_op_Inr by blast

lemma route_call_answer: "yields well_answered (route_call rt call)"
  unfolding route_call_def
proof (rule yields_rest, rule yields_rest, rule yields_bind [where Q = well_answered], goal_cases)
  case (1 sdk payload)
  then show ?case by (rule yields_lift) (auto simp: bind_res_Inr_iff dest: result_answer)
next
  case (2 sdk payload result)
  have added: "yields well_answered (bind_op (lift_res (host_approval_to_dict a)) (\<lambda>d. ret (dict_set ''approval_request'' (pdict d) result)))"
    for a
    by (rule yields_bind [where Q = "\<lambda>d. json_like (pdict d)"])
      (use 2 in \<open>auto simp: well_answered_def intro!: yields_ret yields_lift json_like_set dest: host_approval_object\<close>)
  show ?case by (rule yields_if, rule yields_rest, rule yields_seq, rule added, rule yields_ret, rule 2)
qed

lemma serialized: "\<exists>d. serialize_error e tool = Inr d \<and> well_answered d"
  unfolding serialize_error_def host_error_from_exception_def by (rule error_answer)

lemma rescue_answers:
  assumes "rescue m (\<lambda>e. lift_res (f e)) h = (x, h')" "yields P m" "\<And>e. \<exists>d. f e = Inr d \<and> P d"
  shows "\<exists>d. x = Inr d \<and> P d"
proof (cases "m h")
  case (Pair y h1)
  with assms show ?thesis by (cases y) (fastforce simp: rescue_def yields_def)+
qed

lemma call_tool_answer: "host_call_tool rt request h = (x, h') \<Longrightarrow> \<exists>d. x = Inr d \<and> well_answered d"
  unfolding host_call_tool_def
  by (erule rescue_answers, intro yields_rest route_call_answer, rule serialized)

lemma rejection_answer: "\<exists>d. host_approval_result AS_VALIDATION_ERROR i reason None None [] = Inr d \<and> well_answered d"
proof -
  have "\<exists>d. host_approval_result AS_VALIDATION_ERROR i reason None None [] = Inr d"
    unfolding host_approval_result_def
    by (simp add: redact_mapping_def fields_value_def fields_redactions_def)
      (rule json_fields_total, auto simp: pdict_def prefixed_def)
  then show ?thesis using approval_answer by blast
qed

lemma approval_answers: "yields well_answered (lift_res (host_approval_result st i reason a r g))"
  by (rule yields_lift) (rule approval_answer)

lemma answer_pending_answer: "yields well_answered (answer_pending rt r)"
proof -
  have "yields well_answered (case p of
       None \<Rightarrow> approval_validation_error rt (hp_request_id r) ''unknown approval request'' None r
     | Some p \<Rightarrow>
         (case approval_mismatch (pa_approval p) r of
            Some m \<Rightarrow> approval_validation_error rt (hp_request_id r) m (Some (pa_approval p)) r
          | None \<Rightarrow>
              bind_op (lift_res (if hp_decision r = HD_EXPIRED then Inr True
                                 else dt_geq (hp_decided_at r) (hq_expires_at (pa_approval p)))) (\<lambda>late.
              if late then close_approval rt APPROVAL_EXPIRED AS_EXPIRED ''approval expired'' p r
              else if hp_decision r = HD_DENIED
              then close_approval rt APPROVAL_DENIED AS_DENIED ''approval denied'' p r
              else grant_approval rt p r)))" for p
    unfolding approval_validation_error_def close_approval_def grant_approval_def
    by (cases p) (auto split: option.split intro!: yields_rest yields_seq yields_if approval_answers)
  then show ?thesis unfolding answer_pending_def by (intro yields_rest)
qed

lemma respond_answer: "submit_approval_response rt response h = (x, h') \<Longrightarrow> \<exists>d. x = Inr d \<and> well_answered d"
  unfolding submit_approval_response_def
  by (erule rescue_answers, intro yields_rest answer_pending_answer, rule rejection_answer)

lemma answers: "host_answer rt s h = (x, h') \<Longrightarrow> \<exists>d. x = Inr d \<and> well_answered d"
proof (cases s)
  case (Resume i)
  assume "host_answer rt s h = (x, h')"
  with Resume have "resume_approved_tool rt i h = (x, h')" by simp
  then show ?thesis
  proof (cases rule: resume_cases)
    case (refused reason)
    then show ?thesis using error_answer by (simp add: host_failure_def)
  next
    case (resumed p)
    from call_tool_answer [OF resumed(2)] show ?thesis .
  qed
qed (auto dest: call_tool_answer respond_answer)

section \<open>No answer is final\<close>

text \<open>What an answer leaves in place: the waiting approvals, and that there is a store.\<close>

definition has_store :: "('a, 'p, 'c) world \<Rightarrow> ('a, 'p, 'c) world \<Rightarrow> bool" where
  "has_store w w' \<longleftrightarrow> (w_store w' = None \<longleftrightarrow> w_store w = None)"

definition waiting :: "('a, 'p, 'c) host_layer \<Rightarrow> ('a, 'p, 'c) host_layer \<Rightarrow> bool" where
  "waiting h h' \<longleftrightarrow> ho_pending h' = ho_pending h \<and> has_store (ho_world h) (ho_world h')"

interpretation waiting: step_relation waiting
  by unfold_locales (auto simp: waiting_def has_store_def)

lemma on_world_waiting: "keeps has_store m \<Longrightarrow> keeps waiting (on_world m)"
  by (auto simp: keeps_def on_world_def waiting_def split: prod.splits)

lemma quiet_has_store: "keeps quiet m \<Longrightarrow> keeps has_store m"
  by (auto simp: keeps_def quiet_def has_store_def)

lemma set_state_waiting: "keeps waiting (modify_op (set_state i st))"
  by (rule waiting.keeps_modify) (simp add: waiting_def has_store_def set_state_def)

lemma add_to_store_waiting: "keeps has_store (add_to_store g)"
  by (auto simp: keeps_def add_to_store_def has_store_def split: option.splits)

lemmas waiting_steps = waiting.keeps_rules set_state_waiting on_world_waiting [OF add_to_store_waiting]
  on_world_waiting [OF quiet_has_store [OF approval_event_quiet]] on_world_waiting [OF quiet_has_store [OF response_of_quiet]]

lemma answer_pending_waiting: "keeps waiting (answer_pending rt r)"
proof -
  have "keeps waiting (approval_validation_error rt i m a r)" for i m a
    unfolding approval_validation_error_def by (cases a) (auto intro!: waiting_steps split: option.split)
  moreover have "keeps waiting (close_approval rt t st m p r)" for t st m p
    unfolding close_approval_def by (intro waiting_steps)
  moreover have "keeps waiting (grant_approval rt p r)" for p
    unfolding grant_approval_def by (intro waiting_steps)
  ultimately show ?thesis
    unfolding answer_pending_def by (auto split: option.split intro!: waiting_steps)
qed

lemma respond_waiting: "keeps waiting (submit_approval_response rt response)"
  unfolding submit_approval_response_def
  by (rule keeps_rescue) (cases response; auto intro!: waiting_steps answer_pending_waiting intro: waiting.trans)+

lemma responses_wait: "waiting h (run_host rt (map Respond ds) h)"
proof (induction ds rule: rev_induct)
  case Nil
  show ?case by (simp add: run_host_def waiting.refl)
next
  case (snoc d ds)
  obtain x h' where "submit_approval_response rt d (run_host rt (map Respond ds) h) = (x, h')"
    by (cases "submit_approval_response rt d (run_host rt (map Respond ds) h)")
  with keepsD [OF respond_waiting this] snoc show ?case by (auto simp: run_host_snoc intro: waiting.trans)
qed

text \<open>A response that can be recorded: the sink accepts the event that is made of it.\<close>

definition recordable :: "('a, 'p, 'c) mcp_router \<Rightarrow> host_approval \<Rightarrow> bool" where
  "recordable rt a \<longleftrightarrow>
     registry_get DEFAULT_CAPABILITY_REGISTRY (hq_capability a) \<noteq> None \<and>
     \<not> isl (policy_decision_of (hq_policy_decision a)) \<and> \<not> isl (host_approval_to_dict a) \<and>
     (\<forall>e s. \<not> isl (pl_emit (rt_plane rt) e s))"

lemma json_like_pyopt [simp]: "json_like (pyopt v)"
  by (cases v) auto

lemma response_dict: "\<exists>d. host_response_to_dict r = Inr d"
  unfolding host_response_to_dict_def
  by (rule json_fields_total) (auto simp: pdict_def split: option.split)

lemma not_isl: "\<not> isl v \<Longrightarrow> \<exists>y. v = Inr y"
  by (cases v) auto

lemma event_recorded:
  assumes "recordable rt (pa_approval p)" "make_actor OPERATOR (hp_operator_id r) = Inr who"
  shows "\<exists>w'. emit_approval_event rt t p r st w = (Inr (), w')"
proof -
  obtain c d m where "registry_require DEFAULT_CAPABILITY_REGISTRY (hq_capability (pa_approval p)) = Inr c"
    "policy_decision_of (hq_policy_decision (pa_approval p)) = Inr d" "host_approval_to_dict (pa_approval p) = Inr m"
    using assms(1) by (auto simp: recordable_def registry_require_def dest!: not_isl)
  moreover obtain m' where "host_response_to_dict r = Inr m'" using response_dict by blast
  moreover have "\<exists>w'. sink_emit (rt_plane rt) e v = (Inr (), w')" for e v
  proof -
    have "\<not> isl (pl_emit (rt_plane rt) e (w_sink v))" using assms(1) by (simp add: recordable_def)
    then show ?thesis by (auto simp: sink_emit_def dest: not_isl)
  qed
  ultimately show ?thesis using assms(2)
    by (auto simp: emit_approval_event_def bind_op_def tick_def build_audit_event_def make_audit_event_def Let_def)
qed

lemma granting_adds:
  assumes "accepted_as h r g" "w_store (ho_world h) \<noteq> None"
    and rec: "\<And>p. dict_get (ho_pending h) (hp_request_id r) = Some p \<Longrightarrow> recordable rt (pa_approval p)"
  shows "g \<in> set (grants_of (ho_world (snd (submit_approval_response rt (Built r) h))))"
proof -
  obtain p where p: "dict_get (ho_pending h) (hp_request_id r) = Some p" "hp_decision r = HD_GRANTED"
    "approval_mismatch (pa_approval p) r = None" "dt_geq (hp_decided_at r) (hq_expires_at (pa_approval p)) = Inr False"
    "grant_of_response (pa_approval p) r = Inr g" using assms(1) by (auto simp: accepted_as_def)
  then have body: "answer_pending rt r h = grant_approval rt p r h" by (simp add: answer_pending_def)
  obtain who where "make_actor OPERATOR (hp_operator_id r) = Inr who"
    using p(5) by (auto simp: grant_of_response_def bind_res_Inr_iff)
  with rec [OF p(1)] obtain w where w: "emit_approval_event rt APPROVAL_GRANTED p r AS_GRANTED (ho_world h) = (Inr (), w)"
    using event_recorded by blast
  have "w_store w \<noteq> None" using keepsD [OF quiet_has_store [OF approval_event_quiet] w] assms(2) by (simp add: has_store_def)
  then obtain store where "w_store w = Some store" by blast
  then have add: "add_to_store g w = (Inr (), w\<lparr>w_store := Some (store_add_action_grant g store)\<rparr>)"
    by (simp add: add_to_store_def)
  define h2 where "h2 = set_state (hp_request_id r) AS_GRANTED
    (h\<lparr>ho_world := w\<lparr>w_store := Some (store_add_action_grant g store)\<rparr>\<rparr>)"
  have "\<exists>x. grant_approval rt p r h = (x, h2)"
    using p(5) w add by (simp add: grant_approval_def seq_op_def bind_op_def on_world_def h2_def)
  then have "ho_world (snd (submit_approval_response rt (Built r) h)) = ho_world h2"
    using body by (auto simp: submit_approval_response_def rescue_def split: sum.splits)
  then show ?thesis by (simp add: h2_def set_state_def grants_of_def store_add_action_grant_def)
qed

text \<open>
  Redaction goes by the whole name of a key, the check of a payload by parts of it: what the one lets pass
  the other refuses, and the host does not ask it.
\<close>

lemma partial_names_survive:
  "redact_mapping None [(''user_password'', PStr ''hunter2'')] = ([(''user_password'', PStr ''hunter2'')], [])"
  "exposed_key (pdict [(''data'', pdict [(''user_password'', PStr ''hunter2'')])]) = Some ''user_password''"
  by code_simp+

section \<open>Properties\<close>

text \<open>
  C32 (host sessions). In a session over a router without tower, from a world without grants, every
  execution belongs to one call or resumption, of a known tool on an enabled target, with what the tool
  stands for; the policy did not deny it; and if the policy asks for approval, an earlier response of the
  session granted exactly this action, to an approval that waited and before it expired, and the grant was
  not expired.
\<close>

theorem host_executions_approved:
  assumes "registry_ok (rt_capabilities rt)" "pl_client (rt_plane rt) = None" "grants_of w = []"
  shows "\<exists>qs. executions (ho_world (run_host rt ss (new_host w))) = executions w @ qs \<and> length qs \<le> length ss \<and>
     (\<forall>q \<in> set qs. \<exists>xs s ys call tool t p who cp.
        ss = xs @ s # ys \<and> issues s (run_host rt xs (new_host w)) call \<and> routed rt call tool t p who cp \<and> performs tool call q \<and>
        pr_decision (plane_decision cp (request_for call tool who)) \<noteq> DENY \<and>
        (requires_approval (plane_decision cp (request_for call tool who)) \<longrightarrow>
          (\<exists>us v vs g now. xs = us @ v # vs \<and> grants_by rt v (run_host rt us (new_host w)) g \<and>
             grant_bound g (query_for cp (request_for call tool who) now) \<and> dt_less now (ag_expires_at g) = Inr True)))"
proof -
  let ?h = "new_host w"
  obtain qs where qs: "executions (ho_world (run_host rt ss ?h)) = executions w @ qs" "length qs \<le> length ss"
    "\<forall>q \<in> set qs. \<exists>xs s ys call. ss = xs @ s # ys \<and> issues s (run_host rt xs ?h) call \<and>
        call_permitted rt call q (ho_world (run_host rt xs ?h))"
    using session_calls [of rt ss ?h] by (auto simp: new_host_def)
  have granted: "\<exists>us v vs. xs = us @ v # vs \<and> grants_by rt v (run_host rt us ?h) g"
    if "g \<in> set (grants_of (ho_world (run_host rt xs ?h)))" for g xs
    using session_grants [OF that] assms(3) by (simp add: new_host_def)
  have "\<exists>xs s ys call tool t p who cp.
        ss = xs @ s # ys \<and> issues s (run_host rt xs ?h) call \<and> routed rt call tool t p who cp \<and> performs tool call q \<and>
        pr_decision (plane_decision cp (request_for call tool who)) \<noteq> DENY \<and>
        (requires_approval (plane_decision cp (request_for call tool who)) \<longrightarrow>
          (\<exists>us v vs g now. xs = us @ v # vs \<and> grants_by rt v (run_host rt us ?h) g \<and>
             grant_bound g (query_for cp (request_for call tool who) now) \<and> dt_less now (ag_expires_at g) = Inr True))"
    if q: "q \<in> set qs" for q
  proof -
    obtain xs s ys call where c: "ss = xs @ s # ys" "issues s (run_host rt xs ?h) call"
      "call_permitted rt call q (ho_world (run_host rt xs ?h))" using qs(3) q by blast
    obtain tool t p who cp c' where r: "routed rt call tool t p who cp" "performs tool call q"
      "permitted cp (request_for call tool who) c' (ho_world (run_host rt xs ?h)\<lparr>w_consumed := []\<rparr>)"
      using call_performs [OF assms(1) c(3)] by blast
    have "\<exists>us v vs g now. xs = us @ v # vs \<and> grants_by rt v (run_host rt us ?h) g \<and>
        grant_bound g (query_for cp (request_for call tool who) now) \<and> dt_less now (ag_expires_at g) = Inr True"
      if "requires_approval (plane_decision cp (request_for call tool who))"
      using permitted_by_grant [OF r(1) assms(2) r(3) that] granted by (fastforce simp: grants_of_def)
    moreover have "pr_decision (plane_decision cp (request_for call tool who)) \<noteq> DENY"
      using r(3) by (simp add: permitted_def)
    ultimately show ?thesis using c(1,2) r(1,2) by blast
  qed
  with qs(1,2) show ?thesis by blast
qed

text \<open>
  C33 (host answers). Whatever a host asks for, and whatever goes wrong, it gets an answer and no exception:
  a JSON object whose status is one of the statuses of the boundary.
\<close>

theorem host_always_answers:
  "\<exists>d h' st. host_answer rt s h = (Inr d, h') \<and> json_like (pdict d) \<and>
     dict_get d ''status'' = Some (PStr st) \<and> st \<in> set HOST_COMPATIBILITY_STATUSES"
proof -
  obtain x h' where a: "host_answer rt s h = (x, h')" by (cases "host_answer rt s h")
  from answers [OF a] a show ?thesis by (auto simp: well_answered_def)
qed

text \<open>
  C34 (denials are not final). A response that grants a waiting approval in time adds its grant whatever was
  answered to the approval before, denials and expiries included.
\<close>

theorem denial_not_final:
  assumes "accepted_as h r g" "w_store (ho_world h) \<noteq> None"
    and "\<And>p. dict_get (ho_pending h) (hp_request_id r) = Some p \<Longrightarrow> recordable rt (pa_approval p)"
  shows "g \<in> set (grants_of (ho_world (run_host rt (map Respond ds @ [Respond (Built r)]) h)))"
proof -
  let ?h = "run_host rt (map Respond ds) h"
  have w: "ho_pending ?h = ho_pending h" "w_store (ho_world ?h) \<noteq> None"
    using responses_wait [of h rt ds] assms(2) by (auto simp: waiting_def has_store_def)
  have "accepted_as ?h r g" using assms(1) w(1) by (simp add: accepted_as_def)
  from granting_adds [OF this w(2)] assms(3) w(1) show ?thesis by (simp add: run_host_snoc)
qed

section \<open>Witnesses\<close>

definition demo_approval :: host_approval where
  "demo_approval =
     \<lparr>hq_id = ''a1'', hq_session_id = ''s'', hq_target = ''t'', hq_provider = ''p'', hq_capability = ''power.force_off'',
      hq_params_fingerprint = ''f'', hq_expires_at = Aware 60000000 0, hq_policy_decision = ''ask_each_time'',
      hq_operator_message = ''Force power off'', hq_material_risks = [], hq_params_preview = [],
      hq_scope_options = [ONE_TIME, SESSION], hq_correlation_id = None, hq_redactions = []\<rparr>"

definition demo_response :: "approval_decision \<Rightarrow> host_response" where
  "demo_response d =
     \<lparr>hp_request_id = ''a1'', hp_decision = d, hp_operator_id = ''o'', hp_scope = ONE_TIME, hp_reason = Some [],
      hp_decided_at = Aware 0 0, hp_session_id = None, hp_target = None, hp_provider = None, hp_capability = None,
      hp_params_fingerprint = None\<rparr>"

theorem host_executions_approved_witness:
  "length (executions (ho_world (run_host demo_router
     [CallTool (Built demo_call), Respond (Built (demo_response HD_GRANTED)), Resume ''a1'']
     (new_host (demo_world (Some empty_store)))))) \<le> 3"
proof -
  have "registry_ok (rt_capabilities demo_router)"
    by (simp add: rt_capabilities_def demo_router_def registry_ok_def demo_capability_def)
  moreover have "pl_client (rt_plane demo_router) = None" by (simp add: demo_router_def)
  moreover have "grants_of (demo_world (Some empty_store)) = []" by (simp add: grants_of_def demo_world_def empty_store_def)
  ultimately show ?thesis
    using host_executions_approved [of demo_router "demo_world (Some empty_store)"
        "[CallTool (Built demo_call), Respond (Built (demo_response HD_GRANTED)), Resume ''a1'']"] by auto
qed

definition demo_host :: "(audit_event list, nat, unit) host_layer" where
  "demo_host =
     \<lparr>ho_world = demo_world (Some empty_store),
      ho_pending = [(''a1'', \<lparr>pa_call = demo_call, pa_approval = demo_approval\<rparr>)], ho_states = []\<rparr>"

theorem denial_not_final_witness:
  "\<exists>g. ag_capability_id g = ''power.force_off'' \<and>
     g \<in> set (grants_of (ho_world (run_host demo_router
       [Respond (Built (demo_response HD_DENIED)), Respond (Built (demo_response HD_GRANTED))] demo_host)))"
proof -
  let ?r = "demo_response HD_GRANTED"
  obtain g where g: "grant_of_response demo_approval ?r = Inr g" "ag_capability_id g = ''power.force_off''"
    by (simp add: grant_of_response_def demo_approval_def demo_response_def make_actor_def make_action_grant_def
        RESUMPTION_BLOCKED_def)
  have "dt_geq (Aware 0 0) (Aware 60000000 0) = Inr False" by code_simp
  then have "accepted_as demo_host ?r g"
    using g(1) by (auto simp: accepted_as_def demo_host_def demo_response_def approval_mismatch_def demo_approval_def)
  moreover have "w_store (ho_world demo_host) \<noteq> None" by (simp add: demo_host_def demo_world_def)
  moreover have "recordable demo_router (pa_approval p)" if "dict_get (ho_pending demo_host) (hp_request_id ?r) = Some p" for p
  proof -
    have "pa_approval p = demo_approval" using that by (auto simp: demo_host_def demo_response_def)
    moreover have "\<not> isl (host_approval_to_dict demo_approval)" by code_simp
    moreover have "\<not> isl (policy_decision_of ''ask_each_time'')" by code_simp
    moreover have "registry_get DEFAULT_CAPABILITY_REGISTRY ''power.force_off'' \<noteq> None"
      unfolding default_known by (simp add: default_caps_def default_ids del: set_map)
    ultimately show ?thesis by (simp add: recordable_def demo_approval_def demo_router_def demo_plane_def memory_emit_def)
  qed
  ultimately have "g \<in> set (grants_of (ho_world (run_host demo_router
      (map Respond [Built (demo_response HD_DENIED)] @ [Respond (Built ?r)]) demo_host)))"
    by (rule denial_not_final)
  with g(2) show ?thesis by auto
qed

end
