(* ===== verification/HttpClients.thy ===== *)
theory HttpClients
  imports LiveTransports AuditLog
begin

text \<open>
  The HTTPS clients behind the live transports: \<open>live_validation/http_read.py\<close> (credentials, the client
  that only reads) and \<open>live_validation/http_mutate.py\<close> (the client that only mutates). The network is a
  parameter, one operation for each call the clients make on a connection; what they do to it is
  recorded in a trace, so that the order of events can be stated.
\<close>

section \<open>Credentials\<close>

text \<open>What \<open>json.loads(path.read_text())\<close> does for a path, and the environment.\<close>

datatype credential_file = MissingFile | FileFault exn | FileDocument pyval

record credential_sources =
  cs_env :: "(string, string) dict"
  cs_file :: "string \<Rightarrow> credential_file"

definition auth_required :: "string \<Rightarrow> 'a res" where
  "auth_required m = raise ProviderAuthenticationRequiredError m"

definition ENV_SCHEME :: string where "ENV_SCHEME = ''env://''"

definition FILE_SCHEME :: string where "FILE_SCHEME = ''file://''"

definition USERNAME_SUFFIXES :: "string list" where "USERNAME_SUFFIXES = [''_USERNAME'', ''_USER'']"

definition PASSWORD_SUFFIXES :: "string list" where "PASSWORD_SUFFIXES = [''_PASSWORD'', ''_PASS'']"

fun first_env :: "(string, string) dict \<Rightarrow> string \<Rightarrow> string list \<Rightarrow> string" where
  "first_env env name_prefix [] = []"
| "first_env env name_prefix (e # endings) =
     (let v = dict_get_or env (name_prefix @ e) [] in
      if v \<noteq> [] then v else first_env env name_prefix endings)"

definition strip_slash :: "string \<Rightarrow> string" where
  "strip_slash s = rstrip_slash (dropWhile (\<lambda>c. c = CHR ''/'') s)"

definition file_pair :: "credential_file \<Rightarrow> (string \<times> string) res" where
  "file_pair f =
     (case f of
        MissingFile \<Rightarrow> auth_required ''file credential_ref does not exist''
      | FileFault e \<Rightarrow>
          if exn_class_of e = OSError \<or> is_value_error e
          then auth_required ''file credential_ref is unreadable or not valid JSON'' else Inl e
      | FileDocument (PDict d) \<Rightarrow>
          let username = value_str (dict_get_or (dict_entries (PDict d)) ''username'' (PStr []));
              password = value_str (dict_get_or (dict_entries (PDict d)) ''password'' (PStr [])) in
          if username = [] \<or> password = []
          then auth_required ''file credential_ref must provide username and password''
          else Inr (username, password)
      | FileDocument v \<Rightarrow> auth_required ''file credential_ref must contain a JSON object'')"

definition resolve_credential_pair :: "credential_sources \<Rightarrow> string \<Rightarrow> (string \<times> string) res" where
  "resolve_credential_pair cs ref =
     (if starts_with ref ENV_SCHEME
      then let name_prefix = strip_slash (remove_prefix ref ENV_SCHEME) in
        if name_prefix = [] then auth_required ''env credential_ref requires a variable prefix''
        else let username = first_env (cs_env cs) name_prefix USERNAME_SUFFIXES;
                 password = first_env (cs_env cs) name_prefix PASSWORD_SUFFIXES in
          if username = [] \<or> password = []
          then auth_required ''env credential_ref did not resolve to a username and password''
          else Inr (username, password)
      else if starts_with ref FILE_SCHEME then file_pair (cs_file cs (remove_prefix ref FILE_SCHEME))
      else auth_required ''unsupported credential_ref scheme; use env:// or file://'')"

section \<open>The network\<close>

text \<open>
  The two TLS contexts the code builds: one that checks nothing, and the default one. A message has no
  body or the document that \<open>json.dumps\<close> writes. A reply is the status, the content type (empty for
  none) and the bytes read.
\<close>

datatype ssl_context = Unchecked | DefaultContext

record http_message =
  hm_method :: string
  hm_path :: string
  hm_body :: "json option"
  hm_headers :: "(string, string) dict"

record http_reply =
  hr_status :: int
  hr_content_type :: string
  hr_body :: string

text \<open>
  The parameters: the connection factory, \<open>connect\<close>, the certificate of the peer (\<open>None\<close> when there is no
  socket), \<open>request\<close>, the reply with at most so many bytes of its body, \<open>close\<close>, the clock by the number
  of its reading, the hexadecimal SHA-256 digest, and \<open>json.loads(body.decode("utf-8"))\<close>.
\<close>

record 'n network =
  nt_open :: "string \<Rightarrow> int \<Rightarrow> ssl_context \<Rightarrow> rat \<Rightarrow> ('n, unit) op"
  nt_connect :: "('n, unit) op"
  nt_certificate :: "('n, string option) op"
  nt_request :: "http_message \<Rightarrow> ('n, unit) op"
  nt_reply :: "int \<Rightarrow> ('n, http_reply) op"
  nt_close :: "('n, unit) op"
  nt_now :: "nat \<Rightarrow> datetime"
  nt_sha256 :: "string \<Rightarrow> string"
  nt_loads :: "string \<Rightarrow> pyval res"

datatype wire_event =
    ConnOpened string int ssl_context
  | ConnMade
  | PeerShown "string option"
  | RequestSent http_message
  | ConnClosed

record 'n wire =
  wi_net :: 'n
  wi_ticks :: nat
  wi_trace :: "wire_event list"

definition on_net :: "('n, 'a) op \<Rightarrow> ('n wire, 'a) op" where
  "on_net f w = (case f (wi_net w) of (x, n) \<Rightarrow> (x, w\<lparr>wi_net := n\<rparr>))"

definition note_wire :: "wire_event \<Rightarrow> ('n wire, unit) op" where
  "note_wire ev = modify_op (\<lambda>w. w\<lparr>wi_trace := wi_trace w @ [ev]\<rparr>)"

section \<open>One exchange\<close>

definition sha256_fingerprint_for_der :: "(string \<Rightarrow> string) \<Rightarrow> string \<Rightarrow> string res" where
  "sha256_fingerprint_for_der H der = normalize_cert_fingerprint (H der)"

definition build_ssl_context :: "string option \<Rightarrow> ssl_context" where
  "build_ssl_context pin = (if pin \<noteq> None then Unchecked else DefaultContext)"

definition enforce_pin :: "string \<Rightarrow> 'n network \<Rightarrow> string option \<Rightarrow> ('n wire, unit) op" where
  "enforce_pin what nt pin =
     (case pin of
        None \<Rightarrow> ret ()
      | Some expected \<Rightarrow>
          bind_op (on_net (nt_certificate nt)) (\<lambda>der.
          seq_op (note_wire (PeerShown der))
          (if or_empty der = []
           then throw ProviderTLSVerificationError (what @ '' peer presented no certificate; credentials were not sent'')
           else
             bind_op (lift_res (sha256_fingerprint_for_der (nt_sha256 nt) (or_empty der))) (\<lambda>observed.
             if observed \<noteq> expected
             then throw ProviderTLSVerificationError (what @ '' certificate fingerprint mismatch; credentials were not sent'')
             else ret ()))))"

text \<open>\<open>except (OSError, ssl.SSLError)\<close>, and the \<open>finally\<close> that closes the connection whatever happens.\<close>

definition wrap_os_error :: "string \<Rightarrow> ('s, 'a) op \<Rightarrow> ('s, 'a) op" where
  "wrap_os_error m f s =
     (case f s of
        (Inl e, s') \<Rightarrow> (if exn_class_of e = OSError then raise ProviderConnectionError m else Inl e, s')
      | (Inr x, s') \<Rightarrow> (Inr x, s'))"

definition finally_close :: "'n network \<Rightarrow> ('n wire, 'a) op \<Rightarrow> ('n wire, 'a) op" where
  "finally_close nt f w = (case f w of (x, w') \<Rightarrow> (x, snd (seq_op (note_wire ConnClosed) (on_net (nt_close nt)) w')))"

definition where_of :: "http_message \<Rightarrow> string" where
  "where_of m = hm_method m @ '' '' @ hm_path m"

definition dialogue :: "string \<Rightarrow> 'n network \<Rightarrow> string option \<Rightarrow> http_message \<Rightarrow> int \<Rightarrow> ('n wire, http_reply) op" where
  "dialogue what nt pin m limit =
     seq_op (on_net (nt_connect nt))
     (seq_op (note_wire ConnMade)
     (seq_op (enforce_pin what nt pin)
     (seq_op (note_wire (RequestSent m))
     (seq_op (on_net (nt_request nt m))
     (on_net (nt_reply nt (limit + 1)))))))"

definition exchange ::
    "string \<Rightarrow> 'n network \<Rightarrow> string \<Rightarrow> int \<Rightarrow> string option \<Rightarrow> rat \<Rightarrow> http_message \<Rightarrow> int \<Rightarrow> ('n wire, http_reply) op" where
  "exchange what nt host port pin timeout m limit =
     (let tls = build_ssl_context pin in
      seq_op (note_wire (ConnOpened host port tls))
      (seq_op (on_net (nt_open nt host port tls timeout))
      (finally_close nt (wrap_os_error (what @ '' connection failed for '' @ where_of m)
         (dialogue what nt pin m limit)))))"

text \<open>The checks of a reply; only a mutation may be answered by nothing.\<close>

definition checked_reply ::
    "string \<Rightarrow> 'n network \<Rightarrow> bool \<Rightarrow> http_message \<Rightarrow> int \<Rightarrow> http_reply \<Rightarrow> params res" where
  "checked_reply what nt empty_ok m limit r =
     (let invalid = (\<lambda>s. raise ProviderResponseValidationError (what @ '' response for '' @ where_of m @ s)) in
      if hr_status r \<in> {401, 403}
      then raise ProviderAuthenticationFailedError
             (what @ '' authentication failed with status '' @ str_of_int (hr_status r) @ '' for '' @ where_of m)
      else if 300 \<le> hr_status r
      then protocol_error (what @ '' request failed with status '' @ str_of_int (hr_status r) @ '' for '' @ where_of m)
      else if limit < int (length (hr_body r))
      then raise ProviderResponseValidationError (what @ '' response exceeded '' @ str_of_int limit @ '' bytes'')
      else if empty_ok \<and> hr_body r = [] then Inr []
      else if hr_content_type r \<noteq> [] \<and> \<not> contains (str_lower (hr_content_type r)) ''json''
      then invalid '' is not JSON''
      else (case nt_loads nt (hr_body r) of
         Inl e \<Rightarrow> if is_value_error e then invalid '' is not valid JSON'' else Inl e
       | Inr (PDict d) \<Rightarrow> Inr (dict_entries (PDict d))
       | Inr v \<Rightarrow> invalid '' is not a JSON object''))"

section \<open>The client that reads\<close>

record get_client =
  gc_host :: string
  gc_port :: int
  gc_headers :: "(string, string) dict"
  gc_pin :: "string option"
  gc_policy :: transport_policy

definition new_get_client ::
    "string \<Rightarrow> int \<Rightarrow> (string, string) dict \<Rightarrow> string option \<Rightarrow> bool \<Rightarrow> transport_policy option \<Rightarrow> get_client res" where
  "new_get_client host port headers pin verify_tls policy =
     (if pin = None \<and> \<not> verify_tls
      then protocol_error ''unverified TLS without a pinned fingerprint is refused''
      else
        bind_res (if or_empty pin \<noteq> [] then map_sum id Some (normalize_cert_fingerprint (or_empty pin)) else Inr None)
          (\<lambda>normalized_pin.
        Inr \<lparr>gc_host = host, gc_port = port, gc_headers = headers, gc_pin = normalized_pin,
             gc_policy = (case policy of Some p \<Rightarrow> p | None \<Rightarrow> default_transport_policy)\<rparr>))"

definition read_request_json :: "'n network \<Rightarrow> get_client \<Rightarrow> string \<Rightarrow> string \<Rightarrow> rat \<Rightarrow> ('n wire, params) op" where
  "read_request_json nt c verb path timeout =
     (if str_upper verb \<noteq> ''GET''
      then throw ProviderMutationBlockedError ''live read client refuses non-GET methods; mutating operations are not implemented''
      else if \<not> starts_with path ''/''
      then throw ProviderProtocolError ''live read client requires absolute paths''
      else
        let m = \<lparr>hm_method = ''GET'', hm_path = path, hm_body = None, hm_headers = gc_headers c\<rparr>;
            limit = tp_max_response_bytes (gc_policy c) in
        bind_op (exchange ''live read'' nt (gc_host c) (gc_port c) (gc_pin c) timeout m limit) (\<lambda>r.
        lift_res (checked_reply ''live read'' nt False m limit r)))"

definition get_json :: "'n network \<Rightarrow> get_client \<Rightarrow> 'n wire http_get" where
  "get_json nt c path timeout = read_request_json nt c ''GET'' path timeout"

section \<open>The client that mutates\<close>

record mutating_client =
  mc_host :: string
  mc_port :: int
  mc_headers :: "(string, string) dict"
  mc_pin :: string
  mc_clearance :: mutation_handle
  mc_policy :: transport_policy

definition ALLOWED_MUTATING_METHODS :: "string list" where
  "ALLOWED_MUTATING_METHODS = [''POST'', ''PATCH'']"

definition new_mutating_client ::
    "string \<Rightarrow> int \<Rightarrow> (string, string) dict \<Rightarrow> string option \<Rightarrow> candidate \<Rightarrow> transport_policy option \<Rightarrow>
     mutating_client res" where
  "new_mutating_client host port headers pin clearance policy =
     (if or_empty pin = []
      then blocked ''mutating HTTPS client requires a pinned certificate fingerprint; no pin means no mutation''
      else (case clearance of
         NotAHandle \<Rightarrow> blocked ''mutating HTTPS client requires a verified mutation clearance handle''
       | Handle h \<Rightarrow>
           bind_res (normalize_cert_fingerprint (or_empty pin)) (\<lambda>normalized_pin.
           Inr \<lparr>mc_host = host, mc_port = port, mc_headers = headers, mc_pin = normalized_pin, mc_clearance = h,
                mc_policy = (case policy of Some p \<Rightarrow> p | None \<Rightarrow> default_transport_policy)\<rparr>)))"

definition wire_now :: "'n network \<Rightarrow> ('n wire, datetime) op" where
  "wire_now nt w = (Inr (nt_now nt (wi_ticks w)), w\<lparr>wi_ticks := Suc (wi_ticks w)\<rparr>)"

definition encoded_body :: "params \<Rightarrow> json res" where
  "encoded_body body =
     (if py_serializable (pdict body) then Inr (act_json (pdict body))
      else raise TypeError ''Object is not JSON serializable'')"

definition mutate_request_json ::
    "'n network \<Rightarrow> mutating_client \<Rightarrow> string \<Rightarrow> string \<Rightarrow> params \<Rightarrow> rat \<Rightarrow> ('n wire, params) op" where
  "mutate_request_json nt c verb path body timeout =
     (if str_upper verb \<notin> set ALLOWED_MUTATING_METHODS
      then throw ProviderMutationBlockedError ''live mutation client refuses non-mutating methods; use the read layer for reads''
      else if \<not> starts_with path ''/''
      then throw ProviderProtocolError ''live mutation client requires absolute paths''
      else
        bind_op (wire_now nt) (\<lambda>now.
        bind_op (lift_res (dt_geq (to_utc now) (to_utc (mh_expires_at (mc_clearance c))))) (\<lambda>late.
        if late
        then throw ProviderMutationBlockedError ''mutation clearance expired; request refused before connecting''
        else
          bind_op (lift_res (encoded_body body)) (\<lambda>encoded.
          let m = \<lparr>hm_method = str_upper verb, hm_path = path, hm_body = Some encoded,
                   hm_headers = dict_set ''Content-Type'' ''application/json'' (mc_headers c)\<rparr>;
              limit = tp_max_response_bytes (mc_policy c) in
          bind_op (exchange ''live mutation'' nt (mc_host c) (mc_port c) (Some (mc_pin c)) timeout m limit) (\<lambda>r.
          lift_res (checked_reply ''live mutation'' nt True m limit r))))))"

definition post_json :: "'n network \<Rightarrow> mutating_client \<Rightarrow> string \<Rightarrow> params \<Rightarrow> rat \<Rightarrow> ('n wire, params) op" where
  "post_json nt c path body timeout = mutate_request_json nt c ''POST'' path body timeout"

definition patch_json :: "'n network \<Rightarrow> mutating_client \<Rightarrow> string \<Rightarrow> params \<Rightarrow> rat \<Rightarrow> ('n wire, params) op" where
  "patch_json nt c path body timeout = mutate_request_json nt c ''PATCH'' path body timeout"

end
