(* ===== verification/LiveWiring.thy ===== *)
theory LiveWiring
  imports HttpClients
begin

text \<open>
  The wiring of the live transports to real clients and the supervised validation:
  \<open>live_validation/pikvm.py\<close>, \<open>live_validation/redfish.py\<close>, \<open>live_validation/pikvm_mutate.py\<close> and
  \<open>live_validation/redfish_mutate.py\<close>. Files that are read are their parsed documents.
\<close>

section \<open>Client factories\<close>

fun adapter_name :: "live_kind \<Rightarrow> string" where
  "adapter_name PiKVM = ''PiKVM''"
| "adapter_name Redfish = ''Redfish''"

text \<open>\<open>base64.b64encode(text.encode("utf-8"))\<close>\<close>

fun utf8_bytes :: "string \<Rightarrow> nat list" where
  "utf8_bytes [] = []"
| "utf8_bytes (c # s) =
     (if code_of c < 128 then [code_of c] else [192 + code_of c div 64, 128 + code_of c mod 64]) @ utf8_bytes s"

definition B64_ALPHABET :: string where
  "B64_ALPHABET = ''ABCDEFGHIJKLMNOPQRSTUVWXYZabcdefghijklmnopqrstuvwxyz0123456789+/''"

definition b64_digit :: "nat \<Rightarrow> char" where
  "b64_digit n = B64_ALPHABET ! (n mod 64)"

fun b64encode :: "nat list \<Rightarrow> string" where
  "b64encode (a # b # c # bs) =
     [b64_digit (a div 4), b64_digit (a * 16 + b div 16), b64_digit (b * 4 + c div 64), b64_digit c] @ b64encode bs"
| "b64encode [a, b] = [b64_digit (a div 4), b64_digit (a * 16 + b div 16), b64_digit (b * 4), CHR ''='']"
| "b64encode [a] = [b64_digit (a div 4), b64_digit (a * 16), CHR ''='', CHR ''='']"
| "b64encode [] = []"

definition pikvm_headers :: "string \<times> string \<Rightarrow> (string, string) dict" where
  "pikvm_headers pair =
     [(''X-KVMD-User'', fst pair), (''X-KVMD-Passwd'', snd pair), (''Accept'', ''application/json'')]"

definition redfish_headers :: "string \<times> string \<Rightarrow> (string, string) dict" where
  "redfish_headers pair =
     [(''Authorization'', ''Basic '' @ b64encode (utf8_bytes (fst pair @ '':'' @ snd pair))),
      (''Accept'', ''application/json'')]"

text \<open>The factory of a reading client, once its environment is given.\<close>

definition pikvm_read_client :: "credential_sources \<Rightarrow> live_config \<Rightarrow> string \<Rightarrow> string option \<Rightarrow> get_client res" where
  "pikvm_read_client cs c ref trust =
     bind_res (resolve_credential_pair cs ref) (\<lambda>pair.
     new_get_client (live_host c) (lc_port c) (pikvm_headers pair) trust (lc_verify_ssl c) None)"

definition redfish_read_client :: "credential_sources \<Rightarrow> live_config \<Rightarrow> string \<Rightarrow> string option \<Rightarrow> get_client res" where
  "redfish_read_client cs c ref trust =
     bind_res (resolve_credential_pair cs ref) (\<lambda>pair.
     new_get_client (live_host c) (lc_port c) (redfish_headers pair) trust (lc_verify_ssl c) None)"

text \<open>The factory of a mutating client: no credential is resolved without a pin and a handle.\<close>

definition pikvm_mutation_client ::
    "credential_sources \<Rightarrow> live_config \<Rightarrow> string \<Rightarrow> string option \<Rightarrow> candidate \<Rightarrow> mutating_client res" where
  "pikvm_mutation_client cs c ref trust clearance =
     (if trust = None then blocked ''mutating PiKVM client factory requires a pinned trust root''
      else if clearance = NotAHandle
      then blocked ''mutating PiKVM client factory requires a verified mutation clearance handle; credentials were not resolved''
      else
        bind_res (resolve_credential_pair cs ref) (\<lambda>pair.
        new_mutating_client (live_host c) (lc_port c) (pikvm_headers pair) trust clearance None))"

definition redfish_mutation_client ::
    "credential_sources \<Rightarrow> live_config \<Rightarrow> string \<Rightarrow> string option \<Rightarrow> candidate \<Rightarrow> mutating_client res" where
  "redfish_mutation_client cs c ref trust clearance =
     (if trust = None then blocked ''mutating Redfish client factory requires a pinned trust root''
      else if clearance = NotAHandle
      then blocked ''mutating Redfish client factory requires a verified mutation clearance handle; credentials were not resolved''
      else
        bind_res (resolve_credential_pair cs ref) (\<lambda>pair.
        new_mutating_client (live_host c) (lc_port c) (redfish_headers pair) trust clearance None))"

fun auth_headers :: "live_kind \<Rightarrow> string \<times> string \<Rightarrow> (string, string) dict" where
  "auth_headers PiKVM = pikvm_headers"
| "auth_headers Redfish = redfish_headers"

fun read_client_for ::
    "live_kind \<Rightarrow> credential_sources \<Rightarrow> live_config \<Rightarrow> string \<Rightarrow> string option \<Rightarrow> get_client res" where
  "read_client_for PiKVM = pikvm_read_client"
| "read_client_for Redfish = redfish_read_client"

fun mutation_client_for ::
    "live_kind \<Rightarrow> credential_sources \<Rightarrow> live_config \<Rightarrow> string \<Rightarrow> string option \<Rightarrow> candidate \<Rightarrow> mutating_client res" where
  "mutation_client_for PiKVM = pikvm_mutation_client"
| "mutation_client_for Redfish = redfish_mutation_client"

lemma read_client_for_eq:
  "read_client_for device cs c ref trust =
     bind_res (resolve_credential_pair cs ref) (\<lambda>pair.
     new_get_client (live_host c) (lc_port c) (auth_headers device pair) trust (lc_verify_ssl c) None)"
  by (cases device) (simp_all add: pikvm_read_client_def redfish_read_client_def)

lemma mutation_client_for_Inr:
  "mutation_client_for device cs c ref trust clearance = Inr client \<longleftrightarrow>
     trust \<noteq> None \<and> clearance \<noteq> NotAHandle \<and>
     (\<exists>pair. resolve_credential_pair cs ref = Inr pair \<and>
        new_mutating_client (live_host c) (lc_port c) (auth_headers device pair) trust clearance None = Inr client)"
  by (cases device) (auto simp: pikvm_mutation_client_def redfish_mutation_client_def bind_res_Inr_iff)

section \<open>Building the transports\<close>

fun mismatch_error :: "live_kind \<Rightarrow> exn_class" where
  "mismatch_error PiKVM = PiKVMFingerprintMismatchError"
| "mismatch_error Redfish = RedfishFingerprintMismatchError"

fun make_live_config :: "live_kind \<Rightarrow> live_config \<Rightarrow> live_config res" where
  "make_live_config PiKVM c = make_pikvm_config c"
| "make_live_config Redfish c = make_redfish_config c"

definition live_target :: "string \<Rightarrow> string option \<Rightarrow> bool \<Rightarrow> live_config" where
  "live_target base_url cert_fingerprint verify_ssl =
     \<lparr>lc_base_url = base_url, lc_cert_fingerprint = cert_fingerprint, lc_verify_ssl = verify_ssl, lc_port = 443,
      lc_connect_timeout = 2, lc_read_timeout = 5\<rparr>"

text \<open>A read-only transport is its policy and the client its factory built after the preflight.\<close>

definition new_live_reader ::
    "live_kind \<Rightarrow> tls_probe \<Rightarrow> live_config \<Rightarrow> string \<Rightarrow> transport_policy option \<Rightarrow>
     (live_config \<Rightarrow> string \<Rightarrow> string option \<Rightarrow> ('s, 'c) op) \<Rightarrow> ('s, transport_policy \<times> 'c) op" where
  "new_live_reader device probe c ref policy factory =
     bind_op (lift_res (live_policy policy c)) (\<lambda>p.
     bind_op (lift_res (read_preflight_pin (mismatch_error device) (adapter_name device) probe c)) (\<lambda>trust.
     bind_op (factory c ref trust) (\<lambda>client.
     ret (p, client))))"

definition build_live_read_transport ::
    "live_kind \<Rightarrow> tls_probe \<Rightarrow> string \<Rightarrow> string \<Rightarrow> string option \<Rightarrow> bool \<Rightarrow>
     (live_config \<Rightarrow> string \<Rightarrow> string option \<Rightarrow> ('s, 'c) op) \<Rightarrow> ('s, transport_policy \<times> 'c) op" where
  "build_live_read_transport device probe base_url credential_ref cert_fingerprint verify_ssl factory =
     bind_op (lift_res (make_live_config device (live_target base_url cert_fingerprint verify_ssl))) (\<lambda>c.
     bind_op (lift_res (make_credential_ref (adapter_name device) credential_ref)) (\<lambda>ref.
     new_live_reader device probe c ref None factory))"

definition build_live_pikvm_mutation_transport ::
    "tls_probe \<Rightarrow> string \<Rightarrow> string \<Rightarrow> string option \<Rightarrow> string \<Rightarrow> string \<Rightarrow> live_transport res" where
  "build_live_pikvm_mutation_transport probe base_url credential_ref cert_fingerprint target_id provider_id =
     (if or_empty cert_fingerprint = []
      then blocked ''live PiKVM mutation transport requires a pinned certificate fingerprint''
      else
        bind_res (make_pikvm_config (live_target base_url cert_fingerprint False)) (\<lambda>c.
        bind_res (make_credential_ref ''PiKVM'' credential_ref) (\<lambda>ref.
        new_pikvm_mutation_transport probe c ref target_id provider_id None)))"

definition build_live_redfish_mutation_transport ::
    "tls_probe \<Rightarrow> string \<Rightarrow> string \<Rightarrow> string option \<Rightarrow> string \<Rightarrow> string \<Rightarrow> string \<Rightarrow> live_transport res" where
  "build_live_redfish_mutation_transport probe base_url credential_ref cert_fingerprint target_id provider_id system_path =
     (if or_empty cert_fingerprint = []
      then blocked ''live Redfish mutation transport requires a pinned certificate fingerprint''
      else
        bind_res (make_redfish_config (live_target base_url cert_fingerprint False)) (\<lambda>c.
        bind_res (make_credential_ref ''Redfish'' credential_ref) (\<lambda>ref.
        new_redfish_mutation_transport probe c ref target_id provider_id system_path None)))"

fun build_live_mutation_transport ::
    "live_kind \<Rightarrow> tls_probe \<Rightarrow> string \<Rightarrow> string \<Rightarrow> string option \<Rightarrow> string \<Rightarrow> string \<Rightarrow> string \<Rightarrow> live_transport res" where
  "build_live_mutation_transport PiKVM probe base_url ref fp target_id provider_id system_path =
     build_live_pikvm_mutation_transport probe base_url ref fp target_id provider_id"
| "build_live_mutation_transport Redfish probe base_url ref fp target_id provider_id system_path =
     build_live_redfish_mutation_transport probe base_url ref fp target_id provider_id system_path"

text \<open>
  The TLS probe of each adapter: the certificate a handshake shows, without any request. The handshake
  is a parameter.
\<close>

type_synonym handshake = "ssl_context \<Rightarrow> string \<Rightarrow> int \<Rightarrow> rat \<Rightarrow> string option res"

definition pikvm_tls_probe :: "(string \<Rightarrow> string) \<Rightarrow> handshake \<Rightarrow> tls_probe" where
  "pikvm_tls_probe H shake host port timeout =
     bind_res (shake DefaultContext host port timeout) (\<lambda>der.
     if or_empty der = [] then raise PiKVMLiveValidationError ''PiKVM peer did not present a certificate''
     else sha256_fingerprint_for_der H (or_empty der))"

definition redfish_tls_probe :: "(string \<Rightarrow> string) \<Rightarrow> handshake \<Rightarrow> tls_probe" where
  "redfish_tls_probe H shake host port timeout =
     bind_res (shake Unchecked host port timeout) (\<lambda>der.
     if or_empty der = [] then raise RedfishLiveValidationError ''Redfish peer did not present a certificate''
     else sha256_fingerprint_for_der H (or_empty der))"

section \<open>A mutating transport over the real client\<close>

text \<open>The client the transport holds, and the wire. \<open>wired_env\<close> closes the parameters of the transport.\<close>

record 'n wired =
  wd_client :: "mutating_client option"
  wd_wire :: "'n wire"

definition wired_build ::
    "live_kind \<Rightarrow> credential_sources \<Rightarrow> live_transport \<Rightarrow> mutation_handle \<Rightarrow> ('n wired, unit) op" where
  "wired_build device cs t h s =
     (case mutation_client_for device cs (lt_config t) (lt_credential_ref t) (Some (lt_trust t)) (Handle h) of
        Inl e \<Rightarrow> (Inl e, s) | Inr c \<Rightarrow> (Inr (), s\<lparr>wd_client := Some c\<rparr>))"

definition wired_send :: "'n network \<Rightarrow> live_message \<Rightarrow> ('n wired, params) op" where
  "wired_send nt m s =
     (case wd_client s of
        None \<Rightarrow> (raise AttributeError ''http'', s)
      | Some c \<Rightarrow>
          (case (if lm_method m = ''POST'' then post_json else patch_json) nt c (lm_path m) (lm_body m) (lm_timeout m)
                  (wd_wire s) of
             (x, w) \<Rightarrow> (x, s\<lparr>wd_wire := w\<rparr>)))"

definition wired_env :: "live_kind \<Rightarrow> credential_sources \<Rightarrow> 'n network \<Rightarrow> (nat \<Rightarrow> datetime) \<Rightarrow> 'n wired live_env" where
  "wired_env device cs nt now =
     \<lparr>le_sha256 = nt_sha256 nt, le_now = now, le_build = wired_build device cs, le_send = wired_send nt\<rparr>"

section \<open>Evidence of a Redfish session\<close>

datatype redfish_view =
    RfServiceRoot | RfManagerStatus | RfStatus | RfPowerState | RfBootStatus | RfInventory | RfSensors | RfEventLogs

fun redfish_live_view :: "'h http_get \<Rightarrow> transport_policy \<Rightarrow> redfish_view \<Rightarrow> ('h redfish_reader, params) op" where
  "redfish_live_view get p RfServiceRoot = redfish_service_root get p"
| "redfish_live_view get p RfManagerStatus = redfish_manager_status get p"
| "redfish_live_view get p RfStatus = redfish_status get p"
| "redfish_live_view get p RfPowerState = redfish_power_state get p"
| "redfish_live_view get p RfBootStatus = redfish_boot_status get p"
| "redfish_live_view get p RfInventory = redfish_hardware_inventory get p"
| "redfish_live_view get p RfSensors = redfish_sensors get p"
| "redfish_live_view get p RfEventLogs = redfish_event_logs get p"

fun to_plain :: "pyval \<Rightarrow> pyval" where
  "to_plain (PDict d) = pdict (dict_of (map (\<lambda>(k, v). (key_text k, to_plain v)) d) [])"
| "to_plain (PList xs) = PList (map to_plain xs)"
| "to_plain (PTuple xs) = PList (map to_plain xs)"
| "to_plain v = v"

definition EVIDENCE_OPERATIONS :: "(string \<times> redfish_view) list" where
  "EVIDENCE_OPERATIONS =
     [(''observe.status'', RfStatus), (''observe.power_state'', RfPowerState), (''observe.boot_status'', RfBootStatus),
      (''observe.hardware_inventory'', RfInventory), (''observe.sensors'', RfSensors),
      (''observe.event_logs'', RfEventLogs)]"

text \<open>\<open>try: runner() except ProviderError\<close>: any other exception ends the collection.\<close>

definition evidence_of :: "('s, params) op \<Rightarrow> ('s, pyval) op" where
  "evidence_of runner s =
     (case runner s of
        (Inr d, s') \<Rightarrow> (Inr (pdict [(''ok'', PBool True), (''data'', to_plain (pdict d))]), s')
      | (Inl e, s') \<Rightarrow>
          (if is_provider_error e
           then Inr (pdict [(''ok'', PBool False), (''error'', PStr (public_message e))]) else Inl e, s'))"

fun collect_evidence :: "'h http_get \<Rightarrow> transport_policy \<Rightarrow> (string \<times> redfish_view) list \<Rightarrow> ('h redfish_reader, params) op" where
  "collect_evidence get p [] = ret []"
| "collect_evidence get p ((operation, view) # ops) =
     bind_op (evidence_of (redfish_live_view get p view)) (\<lambda>e.
     bind_op (collect_evidence get p ops) (\<lambda>evidence.
     ret ((operation, e) # evidence)))"

definition collect_redfish_read_evidence :: "'h http_get \<Rightarrow> transport_policy \<Rightarrow> ('h redfish_reader, params) op" where
  "collect_redfish_read_evidence get p = collect_evidence get p EVIDENCE_OPERATIONS"

section \<open>Preconditions\<close>

record preconditions =
  vp_sacrificial_target :: string
  vp_isolated_segment :: string
  vp_credential_ref :: string
  vp_firmware_version :: string
  vp_operator :: string
  vp_confirmed_at :: string

definition precondition_values :: "preconditions \<Rightarrow> (string \<times> string) list" where
  "precondition_values v =
     [(''sacrificial_target'', vp_sacrificial_target v), (''isolated_segment'', vp_isolated_segment v),
      (''credential_ref'', vp_credential_ref v), (''firmware_version'', vp_firmware_version v),
      (''operator'', vp_operator v), (''confirmed_at'', vp_confirmed_at v)]"

definition live_validation_error :: "string \<Rightarrow> 'a res" where
  "live_validation_error m = raise PiKVMLiveValidationError m"

definition make_preconditions :: "preconditions \<Rightarrow> preconditions res" where
  "make_preconditions v =
     (let missing = map fst (filter (\<lambda>(k, s). s = []) (precondition_values v)) in
      if missing \<noteq> []
      then live_validation_error (''missing live validation precondition fields: '' @ str_join '', '' missing)
      else if list_ex (contains (str_lower (vp_credential_ref v))) RAW_SECRET_FRAGMENTS
      then live_validation_error ''credential_ref must be a reference, not a raw secret''
      else Inr v)"

definition preconditions_to_dict :: "preconditions \<Rightarrow> params" where
  "preconditions_to_dict v =
     [(''sacrificial_target'', PStr (vp_sacrificial_target v)), (''isolated_segment'', PStr (vp_isolated_segment v)),
      (''credential_ref'', PStr ''[CREDENTIAL_REF]''), (''firmware_version'', PStr (vp_firmware_version v)),
      (''operator'', PStr (vp_operator v)), (''confirmed_at'', PStr (vp_confirmed_at v))]"

definition doc_text :: "params \<Rightarrow> string \<Rightarrow> string" where
  "doc_text d k = value_str (dict_get_or d k (PStr []))"

definition load_preconditions :: "pyval res \<Rightarrow> preconditions res" where
  "load_preconditions doc =
     bind_res doc (\<lambda>v.
     case v of
       PDict kvs \<Rightarrow>
         (let d = dict_entries (PDict kvs) in
          make_preconditions
            \<lparr>vp_sacrificial_target = doc_text d ''sacrificial_target'', vp_isolated_segment = doc_text d ''isolated_segment'',
             vp_credential_ref = doc_text d ''credential_ref'', vp_firmware_version = doc_text d ''firmware_version'',
             vp_operator = doc_text d ''operator'', vp_confirmed_at = doc_text d ''confirmed_at''\<rparr>)
     | _ \<Rightarrow> live_validation_error ''preconditions file must contain a JSON object'')"

section \<open>Checkpoints\<close>

text \<open>The next stage is the value the document has there; the details are a dictionary.\<close>

record stage_checkpoint =
  sc_stage :: string
  sc_status :: string
  sc_operator_confirmed :: bool
  sc_next_stage :: pyval
  sc_details :: params
  sc_generated_at :: string

definition checkpoint_dict :: "stage_checkpoint \<Rightarrow> params" where
  "checkpoint_dict c =
     [(''stage'', PStr (sc_stage c)), (''status'', PStr (sc_status c)),
      (''operator_confirmed'', PBool (sc_operator_confirmed c)), (''next_stage'', sc_next_stage c),
      (''details'', pdict (sc_details c)), (''generated_at'', PStr (sc_generated_at c))]"

definition build_stage_checkpoint :: "datetime \<Rightarrow> string \<Rightarrow> string \<Rightarrow> string option \<Rightarrow> params \<Rightarrow> stage_checkpoint" where
  "build_stage_checkpoint now stage status next_stage details =
     \<lparr>sc_stage = stage, sc_status = status, sc_operator_confirmed = False, sc_next_stage = pyopt next_stage,
      sc_details = details, sc_generated_at = isoformat now\<rparr>"

text \<open>\<open>dict(v)\<close> on the value of a JSON document.\<close>

fun pair_of_item :: "pyval \<Rightarrow> (string \<times> pyval) res" where
  "pair_of_item v =
     bind_res (py_items v) (\<lambda>xs.
     case xs of
       [k, x] \<Rightarrow>
         (case k of
            PStr s \<Rightarrow> Inr (s, x)
          | PList ys \<Rightarrow> raise TypeError ''unhashable type''
          | PDict d \<Rightarrow> raise TypeError ''unhashable type''
          | _ \<Rightarrow> Inr (value_str k, x))
     | _ \<Rightarrow> raise ValueError ''dictionary update sequence element has the wrong length; 2 is required'')"

fun dict_call :: "pyval \<Rightarrow> params res" where
  "dict_call (PDict d) = Inr (dict_entries (PDict d))"
| "dict_call v = bind_res (py_items v) (\<lambda>xs. bind_res (map_res pair_of_item xs) (\<lambda>kvs. Inr (dict_of kvs [])))"

definition validate_prior_checkpoint :: "pyval res \<Rightarrow> string \<Rightarrow> stage_checkpoint res" where
  "validate_prior_checkpoint doc expected_stage =
     bind_res doc (\<lambda>v.
     case v of
       PDict kvs \<Rightarrow>
         (let d = dict_entries (PDict kvs); stage = doc_text d ''stage'' in
          if stage \<noteq> expected_stage
          then live_validation_error (''expected prior checkpoint '' @ expected_stage @ '', got '' @ stage)
          else if dict_get d ''operator_confirmed'' \<noteq> Some (PBool True)
          then live_validation_error (''operator must confirm '' @ expected_stage @ '' before advancing'')
          else
            bind_res (dict_call (dict_get_or d ''details'' (pdict []))) (\<lambda>details.
            Inr \<lparr>sc_stage = stage, sc_status = doc_text d ''status'', sc_operator_confirmed = True,
                 sc_next_stage = (let n = dict_get_or d ''next_stage'' PNone in if py_truthy n then n else PNone),
                 sc_details = details, sc_generated_at = doc_text d ''generated_at''\<rparr>))
     | _ \<Rightarrow> live_validation_error ''checkpoint file must contain a JSON object'')"

section \<open>Stage 1\<close>

definition deliberately_wrong_fingerprint :: "string \<Rightarrow> string res" where
  "deliberately_wrong_fingerprint fingerprint =
     bind_res (normalize_cert_fingerprint fingerprint) (\<lambda>pin.
     Inr ((if \<not> starts_with pin ''00'' then ''00'' else ''ff'') @ drop 2 pin))"

definition verify_ssl_false_without_pin_rejected :: "string \<Rightarrow> bool" where
  "verify_ssl_false_without_pin_rejected base_url =
     (case make_pikvm_config (live_target base_url None False) of Inl e \<Rightarrow> True | Inr c \<Rightarrow> False)"

text \<open>The factory that only records what it was handed; its client is of no interest.\<close>

record recorder =
  rc_credential_ref_received :: bool
  rc_trust_received :: "string option"

definition new_recorder :: recorder where
  "new_recorder = \<lparr>rc_credential_ref_received = False, rc_trust_received = None\<rparr>"

definition recording_factory :: "live_config \<Rightarrow> string \<Rightarrow> string option \<Rightarrow> (recorder, unit) op" where
  "recording_factory c ref trust =
     modify_op (\<lambda>r. r\<lparr>rc_credential_ref_received := True, rc_trust_received := trust\<rparr>)"

definition pinned_match_built :: "tls_probe \<Rightarrow> string \<Rightarrow> bool \<Rightarrow> string \<Rightarrow> string \<Rightarrow> bool res" where
  "pinned_match_built probe base_url verify_ssl credential_ref pin =
     (case build_live_read_transport PiKVM probe base_url credential_ref (Some pin) verify_ssl
             recording_factory new_recorder of
        (Inl e, r) \<Rightarrow> Inl e
      | (Inr t, r) \<Rightarrow> Inr (rc_credential_ref_received r \<and> rc_trust_received r = Some pin))"

definition wrong_fingerprint_aborted :: "tls_probe \<Rightarrow> string \<Rightarrow> bool \<Rightarrow> string \<Rightarrow> string \<Rightarrow> bool res" where
  "wrong_fingerprint_aborted probe base_url verify_ssl credential_ref pin =
     bind_res (deliberately_wrong_fingerprint pin) (\<lambda>wrong.
     case build_live_read_transport PiKVM probe base_url credential_ref (Some wrong) verify_ssl
            recording_factory new_recorder of
       (Inl e, r) \<Rightarrow>
         if exn_class_of e = PiKVMFingerprintMismatchError then Inr (\<not> rc_credential_ref_received r) else Inl e
     | (Inr t, r) \<Rightarrow> Inr False)"

text \<open>The probe is asked up to three times and may answer differently each time.\<close>

definition run_stage1_cert_preflight ::
    "datetime \<Rightarrow> (nat \<Rightarrow> tls_probe) \<Rightarrow> string \<Rightarrow> string \<Rightarrow> string option \<Rightarrow> bool \<Rightarrow> stage_checkpoint res" where
  "run_stage1_cert_preflight now probe base_url credential_ref cert_fingerprint verify_ssl =
     bind_res (make_pikvm_config (live_target base_url cert_fingerprint verify_ssl)) (\<lambda>c.
     bind_res (probe 0 (live_host c) (lc_port c) (lc_connect_timeout c)) (\<lambda>observed.
     let details =
           [(''observed_cert_fingerprint'', PStr observed), (''credential_ref'', PStr ''[CREDENTIAL_REF]''),
            (''verify_ssl_false_without_pin_rejected'', PBool (verify_ssl_false_without_pin_rejected base_url))];
         answer = (\<lambda>ds. Inr (build_stage_checkpoint now ''stage1-cert-pinning-preflight'' ''operator_review_required''
                               (Some ''stage2-observe'') ds)) in
     if or_empty cert_fingerprint = [] then answer details
     else
       bind_res (normalize_cert_fingerprint (or_empty cert_fingerprint)) (\<lambda>pin.
       bind_res (pinned_match_built (probe 1) base_url verify_ssl credential_ref pin) (\<lambda>built.
       bind_res (wrong_fingerprint_aborted (probe 2) base_url verify_ssl credential_ref pin) (\<lambda>aborted.
       answer (details @ [(''pinned_match_built_authenticated_client'', PBool built),
                          (''wrong_fingerprint_aborted_before_credentials'', PBool aborted)]))))))"

end
