(* ===== verification/WireFacts.thy ===== *)
theory WireFacts
  imports LiveWiring LiveProps
begin

text \<open>
  Facts about the wire: the events of one exchange, what a session of reads or one mutating request may
  add to the trace, and what a transport that was built has checked.
\<close>

section \<open>Traces\<close>

definition requests :: "wire_event list \<Rightarrow> http_message list" where
  "requests evs = List.map_filter (\<lambda>ev. case ev of RequestSent m \<Rightarrow> Some m | _ \<Rightarrow> None) evs"

text \<open>
  What comes right before a request: a connection to the peer that was just made, under the default
  TLS checks or after its certificate has shown the pinned fingerprint.
\<close>

definition request_guarded :: "(string \<Rightarrow> string) \<Rightarrow> string \<Rightarrow> int \<Rightarrow> string option \<Rightarrow> wire_event list \<Rightarrow> bool" where
  "request_guarded H host port pin prior \<longleftrightarrow>
     (case pin of
        None \<Rightarrow> \<exists>xs. prior = xs @ [ConnOpened host port DefaultContext, ConnMade]
      | Some p \<Rightarrow> \<exists>xs der. prior = xs @ [ConnOpened host port Unchecked, ConnMade, PeerShown (Some der)] \<and>
          sha256_fingerprint_for_der H der = Inr p)"

definition guarded_trace ::
    "(string \<Rightarrow> string) \<Rightarrow> string \<Rightarrow> int \<Rightarrow> string option \<Rightarrow> (http_message \<Rightarrow> bool) \<Rightarrow> wire_event list \<Rightarrow> bool" where
  "guarded_trace H host port pin ok evs \<longleftrightarrow>
     (\<forall>xs m ys. evs = xs @ RequestSent m # ys \<longrightarrow> ok m \<and> request_guarded H host port pin xs) \<and>
     (\<forall>xs ys. evs = xs @ ConnMade # ys \<longrightarrow> ConnClosed \<in> set ys)"

lemma requests_append [simp]: "requests (xs @ ys) = requests xs @ requests ys"
  by (simp add: requests_def map_filter_def)

lemma requests_simps [simp]:
  "requests [] = []" "requests (ConnOpened h p c # evs) = requests evs" "requests (ConnMade # evs) = requests evs"
  "requests (PeerShown d # evs) = requests evs" "requests (RequestSent m # evs) = m # requests evs"
  "requests (ConnClosed # evs) = requests evs"
  by (simp_all add: requests_def map_filter_def)

lemma request_guarded_later: "request_guarded H host port pin xs \<Longrightarrow> request_guarded H host port pin (us @ xs)"
  unfolding request_guarded_def by (cases pin) (simp_all, metis append_assoc, metis append_assoc)

lemma guarded_trace_append:
  assumes "guarded_trace H host port pin ok us" "guarded_trace H host port pin ok vs"
  shows "guarded_trace H host port pin ok (us @ vs)"
proof -
  have split: "(\<exists>zs. us = xs @ ev # zs \<and> ys = zs @ vs) \<or> (\<exists>zs. xs = us @ zs \<and> vs = zs @ ev # ys)"
    if "us @ vs = xs @ ev # ys" for xs ev ys
    using that by (auto simp: append_eq_append_conv2 append_eq_Cons_conv)
  show ?thesis
    unfolding guarded_trace_def
  proof (intro conjI allI impI)
    fix xs m ys assume e: "us @ vs = xs @ RequestSent m # ys"
    show "ok m" using split [OF e] assms unfolding guarded_trace_def by blast
    show "request_guarded H host port pin xs"
      using split [OF e] assms request_guarded_later unfolding guarded_trace_def by blast
  next
    fix xs ys assume e: "us @ vs = xs @ ConnMade # ys"
    show "ConnClosed \<in> set ys" using split [OF e] assms unfolding guarded_trace_def by auto
  qed
qed

lemma guarded_trace_mono:
  "guarded_trace H host port pin ok evs \<Longrightarrow> (\<And>m. ok m \<Longrightarrow> ok' m) \<Longrightarrow> guarded_trace H host port pin ok' evs"
  unfolding guarded_trace_def by blast

lemma guarded_trace_Nil: "guarded_trace H host port pin ok []"
  by (simp add: guarded_trace_def)

section \<open>One exchange\<close>

inductive exchange_trace ::
    "(string \<Rightarrow> string) \<Rightarrow> string \<Rightarrow> int \<Rightarrow> string option \<Rightarrow> http_message \<Rightarrow> wire_event list \<Rightarrow> bool"
  for H host port pin m where
  not_opened: "exchange_trace H host port pin m [ConnOpened host port (build_ssl_context pin)]"
| not_connected: "exchange_trace H host port pin m [ConnOpened host port (build_ssl_context pin), ConnClosed]"
| not_shown: "exchange_trace H host port pin m [ConnOpened host port (build_ssl_context pin), ConnMade, ConnClosed]"
| refused: "exchange_trace H host port pin m
    [ConnOpened host port (build_ssl_context pin), ConnMade, PeerShown der, ConnClosed]"
| sent_checked: "pin = None \<Longrightarrow> exchange_trace H host port pin m
    [ConnOpened host port (build_ssl_context pin), ConnMade, RequestSent m, ConnClosed]"
| sent_pinned: "pin = Some p \<Longrightarrow> sha256_fingerprint_for_der H der = Inr p \<Longrightarrow> exchange_trace H host port pin m
    [ConnOpened host port (build_ssl_context pin), ConnMade, PeerShown (Some der), RequestSent m, ConnClosed]"

lemma exchange_guarded: "exchange_trace H host port pin m evs \<Longrightarrow> ok m \<Longrightarrow> guarded_trace H host port pin ok evs"
  by (induction rule: exchange_trace.induct)
    (auto simp: guarded_trace_def request_guarded_def build_ssl_context_def Cons_eq_append_conv)

lemma exchange_requests: "exchange_trace H host port pin m evs \<Longrightarrow> requests evs = [] \<or> requests evs = [m]"
  by (induction rule: exchange_trace.induct) simp_all

lemma on_net_trace: "on_net f w = (x, w') \<Longrightarrow> wi_trace w' = wi_trace w"
  by (auto simp: on_net_def split: prod.splits)

lemma note_wire_trace: "note_wire ev w = (x, w') \<longleftrightarrow> x = Inr () \<and> w' = w\<lparr>wi_trace := wi_trace w @ [ev]\<rparr>"
  by (auto simp: note_wire_def)

lemma enforce_pin_effect:
  assumes "enforce_pin what nt pin w = (x, w')"
  obtains (passed) "x = Inr ()" "pin = None" "wi_trace w' = wi_trace w"
  | (matched) p der where "x = Inr ()" "pin = Some p" "wi_trace w' = wi_trace w @ [PeerShown (Some der)]"
      "sha256_fingerprint_for_der (nt_sha256 nt) der = Inr p"
  | (unread) e where "x = Inl e" "wi_trace w' = wi_trace w"
  | (refused) e der where "x = Inl e" "wi_trace w' = wi_trace w @ [PeerShown der]"
proof (cases pin)
  case None
  with assms passed show ?thesis by (simp add: enforce_pin_def)
next
  case (Some p)
  with assms show ?thesis
  proof (simp add: enforce_pin_def, elim bind_opE)
    fix e assume "on_net (nt_certificate nt) w = (Inl e, w')" "x = Inl e"
    with unread show ?thesis by (auto dest: on_net_trace)
  next
    fix der w1
    assume c: "on_net (nt_certificate nt) w = (Inr der, w1)"
    from on_net_trace [OF c] have t: "wi_trace w1 = wi_trace w" .
    assume "seq_op (note_wire (PeerShown der))
      (if Providers.or_empty der = []
       then throw ProviderTLSVerificationError (what @ '' peer presented no certificate; credentials were not sent'')
       else bind_op (lift_res (sha256_fingerprint_for_der (nt_sha256 nt) (Providers.or_empty der))) (\<lambda>observed.
             if observed \<noteq> p
             then throw ProviderTLSVerificationError (what @ '' certificate fingerprint mismatch; credentials were not sent'')
             else ret ())) w1 = (x, w')"
    with t Some refused matched show ?thesis
      by (cases der) (auto simp: note_wire_def Providers.or_empty_def raise_def split: sum.splits if_splits)
  qed
qed


lemma seq_note: "seq_op (note_wire ev) n w = n (w\<lparr>wi_trace := wi_trace w @ [ev]\<rparr>)"
  by (simp add: note_wire_def)

text \<open>What the body of an exchange leaves in the trace, and then the whole exchange.\<close>

lemma dialogue_trace:
  assumes "dialogue what nt pin m limit u = (y, u')"
  shows "wi_trace u' = wi_trace u \<or> wi_trace u' = wi_trace u @ [ConnMade] \<or>
    (\<exists>der. wi_trace u' = wi_trace u @ [ConnMade, PeerShown der]) \<or>
    pin = None \<and> wi_trace u' = wi_trace u @ [ConnMade, RequestSent m] \<or>
    (\<exists>p der. pin = Some p \<and> sha256_fingerprint_for_der (nt_sha256 nt) der = Inr p \<and>
       wi_trace u' = wi_trace u @ [ConnMade, PeerShown (Some der), RequestSent m])"
  using assms unfolding dialogue_def
proof (cases rule: seq_opE)
  case (went_on u1)
  let ?u2 = "u1\<lparr>wi_trace := wi_trace u1 @ [ConnMade]\<rparr>"
  have t: "wi_trace ?u2 = wi_trace u @ [ConnMade]" using on_net_trace [OF went_on(1)] by simp
  have sent: "wi_trace u' = wi_trace v @ [RequestSent m]"
    if "seq_op (on_net (nt_request nt m)) (on_net (nt_reply nt (limit + 1))) (v\<lparr>wi_trace := wi_trace v @ [RequestSent m]\<rparr>) = (y, u')" for v
    using that by (auto elim!: seq_opE dest!: on_net_trace)
  from went_on(2) show ?thesis
    unfolding seq_note
  proof (cases rule: seq_opE)
    case (raised e)
    from raised(1) t show ?thesis by (cases rule: enforce_pin_effect) auto
  next
    case (went_on u3)
    from went_on(1) t sent [OF went_on(2)] show ?thesis by (cases rule: enforce_pin_effect) auto
  qed
qed (auto dest: on_net_trace)

lemma finally_closed:
  assumes "finally_close nt (wrap_os_error t (dialogue what nt pin m limit)) u = (x, w)"
  obtains y v where "dialogue what nt pin m limit u = (y, v)" "wi_trace w = wi_trace v @ [ConnClosed]"
proof -
  obtain y v where d: "dialogue what nt pin m limit u = (y, v)" by (cases "dialogue what nt pin m limit u")
  obtain z n where "nt_close nt (wi_net v) = (z, n)" by (cases "nt_close nt (wi_net v)")
  with assms d have "wi_trace w = wi_trace v @ [ConnClosed]"
    by (auto simp: finally_close_def seq_note wrap_os_error_def on_net_def split: sum.splits)
  with d that show thesis by blast
qed

lemma exchange_traced:
  assumes "exchange what nt host port pin timeout m limit w = (x, w')"
  shows "\<exists>evs. wi_trace w' = wi_trace w @ evs \<and> exchange_trace (nt_sha256 nt) host port pin m evs"
  using assms unfolding exchange_def Let_def seq_note
proof (cases rule: seq_opE)
  case (raised e)
  then show ?thesis by (auto dest!: on_net_trace intro: exchange_trace.not_opened)
next
  case (went_on u)
  have t: "wi_trace u = wi_trace w @ [ConnOpened host port (build_ssl_context pin)]"
    using on_net_trace [OF went_on(1)] by simp
  from went_on(2) obtain y v where v: "dialogue what nt pin m limit u = (y, v)" "wi_trace w' = wi_trace v @ [ConnClosed]"
    by (rule finally_closed)
  from dialogue_trace [OF v(1)] show ?thesis
    unfolding v(2) t
    by (elim disjE exE conjE) (auto intro: exchange_trace.intros)
qed

section \<open>What a sequence of exchanges keeps\<close>

text \<open>The trace grows by guarded exchanges only.\<close>

definition guarded_step ::
    "(string \<Rightarrow> string) \<Rightarrow> string \<Rightarrow> int \<Rightarrow> string option \<Rightarrow> (http_message \<Rightarrow> bool) \<Rightarrow> 'n wire \<Rightarrow> 'n wire \<Rightarrow> bool" where
  "guarded_step H host port pin ok w w' \<longleftrightarrow>
     (\<exists>evs. wi_trace w' = wi_trace w @ evs \<and> guarded_trace H host port pin ok evs)"

lemma guarded_step_relation: "step_relation (guarded_step H host port pin ok)"
proof
  show "guarded_step H host port pin ok s s" for s by (simp add: guarded_step_def guarded_trace_Nil)
  show "guarded_step H host port pin ok s u"
    if "guarded_step H host port pin ok s t" "guarded_step H host port pin ok t u" for s t u
    using that guarded_trace_append unfolding guarded_step_def by fastforce
qed

definition read_message :: "get_client \<Rightarrow> http_message \<Rightarrow> bool" where
  "read_message c m \<longleftrightarrow> hm_method m = ''GET'' \<and> hm_body m = None \<and> hm_headers m = gc_headers c"

lemma read_request_guarded:
  "keeps (guarded_step (nt_sha256 nt) (gc_host c) (gc_port c) (gc_pin c) (read_message c)) (read_request_json nt c verb path timeout)"
proof -
  have "guarded_step (nt_sha256 nt) (gc_host c) (gc_port c) (gc_pin c) (read_message c) w w'"
    if "exchange what nt (gc_host c) (gc_port c) (gc_pin c) timeout
          \<lparr>hm_method = ''GET'', hm_path = path, hm_body = None, hm_headers = gc_headers c\<rparr> limit w = (x, w')" for what limit w x w'
    using exchange_traced [OF that] exchange_guarded [where ok = "read_message c"]
    unfolding guarded_step_def by (fastforce simp: read_message_def)
  moreover have "guarded_step (nt_sha256 nt) (gc_host c) (gc_port c) (gc_pin c) (read_message c) w w" for w
    by (rule step_relation.refl [OF guarded_step_relation])
  ultimately show ?thesis
    by (auto simp: keeps_def read_request_json_def Let_def elim!: bind_opE)
qed

text \<open>
  A reader: a way to get a document that keeps a relation on the connection. Every view of both
  read-only transports, and the collection of evidence, keep it too.
\<close>

locale reader = step_relation R for R :: "'h \<Rightarrow> 'h \<Rightarrow> bool" +
  fixes get :: "'h http_get"
  assumes get_keeps: "keeps R (get path timeout)"
begin

lemma wrap_keeps: "keeps Q m \<Longrightarrow> keeps Q (wrap_transport_error t m)"
  by (fastforce simp: keeps_def wrap_transport_error_def split: prod.splits sum.splits)

lemma option_keeps:
  "(v = None \<Longrightarrow> keeps Q m) \<Longrightarrow> (\<And>y. v = Some y \<Longrightarrow> keeps Q (k y)) \<Longrightarrow> keeps Q (case v of None \<Rightarrow> m | Some y \<Rightarrow> k y)"
  by (cases v) auto

lemma pikvm_view_keeps: "keeps R (pikvm_live_view get p v)"
  by (cases v) (auto simp: pikvm_live_get_def intro!: keeps_rules wrap_keeps get_keeps)

abbreviation RR :: "'h redfish_reader \<Rightarrow> 'h redfish_reader \<Rightarrow> bool" where
  "RR s t \<equiv> R (rr_http s) (rr_http t)"

sublocale cached: step_relation RR
  by unfold_locales (blast intro: refl trans)+

lemma read_http_keeps: "keeps RR (read_http get p path)"
  using keepsD [OF wrap_keeps [OF get_keeps]] by (fastforce simp: keeps_def read_http_def split: prod.splits)

lemma read_raw_keeps: "keeps RR (read_raw get p path)"
proof -
  have "keeps RR (bind_op (read_http get p path) (\<lambda>payload.
          seq_op (modify_op (\<lambda>s. s\<lparr>rr_cache := dict_set path payload (rr_cache s)\<rparr>)) (ret payload)))"
    by (intro cached.keeps_rules read_http_keeps cached.keeps_modify) (simp add: refl)
  from keepsD [OF this] show ?thesis by (auto simp: keeps_def read_raw_def refl split: option.splits)
qed

lemma read_redacted_keeps: "keeps RR (read_redacted get p path)"
  unfolding read_redacted_def by (intro cached.keeps_rules read_http_keeps)

lemma read_json_keeps: "keeps RR (read_json raw get p path)"
  by (simp add: read_json_def read_raw_keeps read_redacted_keeps)

lemmas read_keeps = cached.keeps_rules option_keeps read_raw_keeps read_redacted_keeps read_json_keeps

lemma invalid_keeps: "keeps RR (invalid_response m)"
  unfolding invalid_response_def by (rule cached.keeps_throw)

lemma first_member_keeps: "keeps RR (first_member_resource get p raw k)"
  unfolding first_member_resource_def by (intro read_keeps invalid_keeps)

lemma first_entries_keeps: "keeps RR (first_entries get p ms)"
  by (induction ms) (auto intro!: read_keeps invalid_keeps)

lemma redfish_view_keeps: "keeps RR (redfish_live_view get p v)"
  by (cases v)
    (simp_all add: redfish_service_root_def redfish_manager_status_def redfish_status_def redfish_power_state_def
      redfish_boot_status_def redfish_hardware_inventory_def redfish_sensors_def redfish_event_logs_def
      system_resource_def Let_def,
     (intro read_keeps first_member_keeps first_entries_keeps invalid_keeps)+)

lemma evidence_keeps: "keeps RR (collect_evidence get p ops)"
proof (induction ops)
  case (Cons op ops)
  obtain k v where op: "op = (k, v)" by (cases op)
  have "keeps RR (evidence_of (redfish_live_view get p v))"
    using keepsD [OF redfish_view_keeps] by (fastforce simp: keeps_def evidence_of_def split: prod.splits sum.splits)
  then show ?case unfolding op collect_evidence.simps by (intro cached.keeps_rules Cons.IH)
qed (unfold collect_evidence.simps, rule cached.keeps_ret)

end

interpretation wire_reader: reader "guarded_step (nt_sha256 nt) (gc_host c) (gc_port c) (gc_pin c) (read_message c)" "get_json nt c"
  for nt c
  by (intro reader.intro guarded_step_relation reader_axioms.intro)
    (simp add: keeps_def get_json_def keepsD [OF read_request_guarded])


section \<open>Sessions of reads\<close>

context step_relation
begin

lemma fold_keeps: "(\<And>c. keeps R (f c)) \<Longrightarrow> R s (fold (\<lambda>c s. snd (f c s)) cs s)"
proof (induction cs arbitrary: s)
  case (Cons c cs)
  have "R s (snd (f c s))" using Cons.prems by (rule keepsD) (rule surjective_pairing)
  with Cons show ?case by (auto intro: trans)
qed (simp add: refl)

end

text \<open>A read of a live transport; the PiKVM transport has no cache. An exception ends one read only.\<close>

datatype read_call = PikvmView pikvm_view | RedfishView redfish_view

fun read_call_op :: "'h http_get \<Rightarrow> transport_policy \<Rightarrow> read_call \<Rightarrow> ('h redfish_reader, params) op" where
  "read_call_op get p (PikvmView v) s =
     (case pikvm_live_view get p v (rr_http s) of (x, h) \<Rightarrow> (x, s\<lparr>rr_http := h\<rparr>))"
| "read_call_op get p (RedfishView v) s = redfish_live_view get p v s"

definition run_reads :: "'h http_get \<Rightarrow> transport_policy \<Rightarrow> read_call list \<Rightarrow> 'h redfish_reader \<Rightarrow> 'h redfish_reader" where
  "run_reads get p calls s = fold (\<lambda>c s. snd (read_call_op get p c s)) calls s"

context reader
begin

lemma run_reads_keeps: "RR s (run_reads get p calls s)"
  unfolding run_reads_def
proof (rule cached.fold_keeps)
  show "keeps RR (read_call_op get p c)" for c
  proof (cases c)
    case (PikvmView v)
    then show ?thesis using keepsD [OF pikvm_view_keeps] by (fastforce simp: keeps_def split: prod.splits)
  next
    case (RedfishView v)
    then show ?thesis using keepsD [OF redfish_view_keeps] by (auto simp: keeps_def)
  qed
qed

end

section \<open>What a transport was built from\<close>

lemma make_live_config_Inr:
  assumes "make_live_config device c = Inr c'"
  shows "lc_base_url c' = lc_base_url c" "lc_cert_fingerprint c' = lc_cert_fingerprint c"
    "lc_verify_ssl c' = lc_verify_ssl c" "lc_verify_ssl c \<or> has_pin c"
  using assms by (cases device; auto simp: make_pikvm_config_def make_redfish_config_def protocol_error_def Let_def
      bind_res_Inr_iff split: if_splits prod.splits bool.splits)+

lemma make_credential_ref_Inr: "make_credential_ref name s = Inr r \<Longrightarrow> r = s"
  by (auto simp: make_credential_ref_def split: if_splits)

lemma host_of: "lc_base_url c' = lc_base_url c \<Longrightarrow> live_host c' = live_host c"
  by (simp add: live_host_def url_netloc_def)

lemma normalized_nonempty:
  assumes "normalize_cert_fingerprint s = Inr q"
  shows "q \<noteq> []"
proof
  assume "q = []"
  with normalize_Inr(1) [OF assms] have "filter is_hex_char s = []" by (simp add: str_lower_def)
  with assms show False by (simp add: normalize_cert_fingerprint_def str_lower_def)
qed

lemma new_get_client_pinned:
  assumes "new_get_client host port headers trust verify policy = Inr client"
    "trust = None \<or> (\<exists>q s. trust = Some q \<and> normalize_cert_fingerprint s = Inr q)"
  shows "gc_host client = host" "gc_port client = port" "gc_headers client = headers" "gc_pin client = trust"
    "trust \<noteq> None \<or> verify"
  using assms normalized_nonempty normalize_Inr(2)
  by (fastforce simp: new_get_client_def Providers.or_empty_def protocol_error_def bind_res_Inr_iff split: if_splits)+

lemma read_transport_built:
  assumes "build_live_read_transport device probe base_url ref fp verify
      (\<lambda>c r trust. lift_res (read_client_for device cs c r trust)) s = (Inr (p, client), s')"
  shows "gc_host client = live_host (live_target base_url fp verify)"
    "\<exists>pair. resolve_credential_pair cs ref = Inr pair \<and> gc_headers client = auth_headers device pair"
    "case gc_pin client of
       None \<Rightarrow> Providers.or_empty fp = [] \<and> verify
     | Some q \<Rightarrow> normalize_cert_fingerprint (Providers.or_empty fp) = Inr q"
proof -
  let ?c0 = "live_target base_url fp verify"
  from assms obtain c trust where c: "make_live_config device ?c0 = Inr c"
    "read_preflight_pin (mismatch_error device) (adapter_name device) probe c = Inr trust"
    "read_client_for device cs c ref trust = Inr client"
    unfolding build_live_read_transport_def new_live_reader_def
    by (auto simp: bind_op_Inr make_credential_ref_Inr split: sum.splits dest: make_credential_ref_Inr)
  note cfg = make_live_config_Inr [OF c(1)]
  from c(3) obtain pair where pair: "resolve_credential_pair cs ref = Inr pair"
    "new_get_client (live_host c) (lc_port c) (auth_headers device pair) trust (lc_verify_ssl c) None = Inr client"
    by (auto simp: read_client_for_eq bind_res_Inr_iff)
  have trust: "if has_pin c then \<exists>q. trust = Some q \<and> normalize_cert_fingerprint (Providers.or_empty fp) = Inr q else trust = None"
  proof (cases "has_pin c")
    case True
    with c(2) obtain q where q: "trust = Some q"
      "pinned_trust (mismatch_error device) (adapter_name device) probe c = Inr q"
      by (auto simp: read_preflight_pin_def map_sum_def split: sum.splits)
    from q(2) have "normalize_cert_fingerprint (Providers.or_empty (lc_cert_fingerprint c)) = Inr q"
      by (rule pinned_trust_Inr)
    with q(1) True show ?thesis by (simp add: cfg(2) live_target_def)
  next
    case False
    with c(2) show ?thesis by (simp add: read_preflight_pin_def)
  qed
  then have "trust = None \<or> (\<exists>q s. trust = Some q \<and> normalize_cert_fingerprint s = Inr q)"
    by (auto split: if_splits)
  note made = new_get_client_pinned [OF pair(2) this]
  show "gc_host client = live_host ?c0" using made(1) host_of [OF cfg(1)] by simp
  show "\<exists>pair. resolve_credential_pair cs ref = Inr pair \<and> gc_headers client = auth_headers device pair"
    using pair(1) made(3) by blast
  have "Providers.or_empty fp = [] \<and> verify" if "\<not> has_pin c"
    using that cfg(2-4) by (simp add: has_pin_def live_target_def)
  with trust made(4) show "case gc_pin client of
       None \<Rightarrow> Providers.or_empty fp = [] \<and> verify
     | Some q \<Rightarrow> normalize_cert_fingerprint (Providers.or_empty fp) = Inr q"
    by (auto split: if_splits)
qed

section \<open>Sessions of mutations\<close>

definition wire_says :: "http_message \<Rightarrow> string \<times> string \<times> json option" where
  "wire_says m = (hm_method m, hm_path m, hm_body m)"

definition message_says :: "live_message \<Rightarrow> string \<times> string \<times> json option" where
  "message_says m = (lm_method m, lm_path m, Some (act_json (pdict (lm_body m))))"

definition mutating_message :: "(string, string) dict \<Rightarrow> http_message \<Rightarrow> bool" where
  "mutating_message headers m \<longleftrightarrow>
     hm_method m \<in> {''POST'', ''PATCH''} \<and> hm_headers m = dict_set ''Content-Type'' ''application/json'' headers"

lemma mutate_request_traced:
  assumes "mutate_request_json nt c verb path body timeout w = (x, w')" "verb \<in> {''POST'', ''PATCH''}"
  shows "\<exists>evs. wi_trace w' = wi_trace w @ evs \<and>
     guarded_trace (nt_sha256 nt) (mc_host c) (mc_port c) (Some (mc_pin c)) (mutating_message (mc_headers c)) evs \<and>
     (requests evs = [] \<or> (\<exists>m. requests evs = [m] \<and> wire_says m = (verb, path, Some (act_json (pdict body)))))"
proof -
  have verb: "str_upper verb = verb"
    using assms(2) by (auto simp: str_upper_def upper_char_def is_ascii_lower_def)
  let ?m = "\<lparr>hm_method = verb, hm_path = path, hm_body = Some (act_json (pdict body)),
              hm_headers = dict_set ''Content-Type'' ''application/json'' (mc_headers c)\<rparr>"
  have quiet: ?thesis if "wi_trace w' = wi_trace w"
    using that guarded_trace_Nil by (intro exI [of _ "[]"]) simp
  have sent: ?thesis
    if e: "exchange what nt (mc_host c) (mc_port c) (Some (mc_pin c)) timeout ?m limit w1 = (y, w')"
      and t: "wi_trace w1 = wi_trace w" for what limit w1 y
  proof -
    obtain evs where evs: "wi_trace w' = wi_trace w @ evs"
      "exchange_trace (nt_sha256 nt) (mc_host c) (mc_port c) (Some (mc_pin c)) ?m evs"
      using exchange_traced [OF e] t by auto
    have "mutating_message (mc_headers c) ?m" using assms(2) by (simp add: mutating_message_def)
    from exchange_guarded [where ok = "mutating_message (mc_headers c)", OF evs(2) this] exchange_requests [OF evs(2)] evs(1)
    show ?thesis by (intro exI [of _ evs]) (auto simp: wire_says_def)
  qed
  let ?w1 = "w\<lparr>wi_ticks := Suc (wi_ticks w)\<rparr>"
  have now: "wire_now nt w = (Inr (nt_now nt (wi_ticks w)), ?w1)" by (simp add: wire_now_def)
  show ?thesis
  proof (cases "wi_trace w' = wi_trace w")
    case False
    then obtain what limit y where "exchange what nt (mc_host c) (mc_port c) (Some (mc_pin c)) timeout ?m limit ?w1 = (y, w')"
      using assms(1) unfolding mutate_request_json_def verb
      by (auto simp: bind_op_def [of "wire_now nt"] now encoded_body_def Let_def raise_def split: if_splits elim!: bind_opE)
    then show ?thesis by (rule sent) simp
  qed (rule quiet)
qed

lemma sent_messages_append: "sent_messages (xs @ ys) = sent_messages xs @ sent_messages ys"
  by (simp add: sent_messages_def map_filter_def)

lemma sent_messages_simps: "sent_messages [] = []" "sent_messages [ClientBuilt h] = []" "sent_messages [MessageSent m] = [m]"
  by (simp_all add: sent_messages_def map_filter_def)

end
