(* ===== verification/WireProps.thy ===== *)
theory WireProps
  imports WireFacts "HOL-Library.Sublist"
begin

text \<open>
  What the live transports put on the wire when they run over the real clients: readers only read,
  mutations carry only what was authorised, credentials go only to the peer whose certificate was
  checked; and what the first stage of the supervised validation attests.
\<close>

section \<open>A mutating transport over the real client\<close>

text \<open>The client that is installed belongs to the transport and holds credentials of its reference.\<close>

definition client_of :: "live_kind \<Rightarrow> credential_sources \<Rightarrow> live_transport \<Rightarrow> mutating_client \<Rightarrow> bool" where
  "client_of device cs t c \<longleftrightarrow>
     mc_host c = live_host (lt_config t) \<and> mc_port c = lc_port (lt_config t) \<and> mc_pin c = lt_trust t \<and>
     (\<exists>pair. resolve_credential_pair cs (lt_credential_ref t) = Inr pair \<and> mc_headers c = auth_headers device pair)"

definition wired_message :: "live_kind \<Rightarrow> credential_sources \<Rightarrow> live_transport \<Rightarrow> http_message \<Rightarrow> bool" where
  "wired_message device cs t m \<longleftrightarrow>
     (\<exists>pair. resolve_credential_pair cs (lt_credential_ref t) = Inr pair \<and> mutating_message (auth_headers device pair) m)"

definition wired_trace ::
    "live_kind \<Rightarrow> credential_sources \<Rightarrow> 'n network \<Rightarrow> live_transport \<Rightarrow> live_event list \<Rightarrow> wire_event list \<Rightarrow> bool" where
  "wired_trace device cs nt t evs wevs \<longleftrightarrow>
     guarded_trace (nt_sha256 nt) (live_host (lt_config t)) (lc_port (lt_config t)) (Some (lt_trust t))
       (wired_message device cs t) wevs \<and>
     (\<exists>ms. subseq ms (sent_messages evs) \<and> map wire_says (requests wevs) = map message_says ms)"

abbreviation wire_of :: "'n wired live_world \<Rightarrow> wire_event list" where
  "wire_of w \<equiv> wi_trace (wd_wire (lw_http w))"

definition holds_client :: "live_kind \<Rightarrow> credential_sources \<Rightarrow> live_transport \<Rightarrow> 'n wired live_world \<Rightarrow> bool" where
  "holds_client device cs t w \<longleftrightarrow> (\<forall>c. wd_client (lw_http w) = Some c \<longrightarrow> client_of device cs t c)"

definition wired_step ::
    "live_kind \<Rightarrow> credential_sources \<Rightarrow> 'n network \<Rightarrow> live_transport \<Rightarrow> 'n wired live_world \<Rightarrow> 'n wired live_world \<Rightarrow> bool" where
  "wired_step device cs nt t w w' \<longleftrightarrow>
     (holds_client device cs t w \<longrightarrow>
        holds_client device cs t w' \<and>
        (\<exists>evs wevs. lw_trace w' = lw_trace w @ evs \<and> wire_of w' = wire_of w @ wevs \<and>
           wired_trace device cs nt t evs wevs))"

lemma wired_trace_Nil: "wired_trace device cs nt t evs []"
  unfolding wired_trace_def using guarded_trace_Nil by auto

lemma wired_trace_append:
  "wired_trace device cs nt t us vs \<Longrightarrow> wired_trace device cs nt t us' vs' \<Longrightarrow>
     wired_trace device cs nt t (us @ us') (vs @ vs')"
  unfolding wired_trace_def using guarded_trace_append list_emb_append_mono
  by (fastforce simp: sent_messages_append)

lemma wired_quiet:
  "lw_trace w' = lw_trace w @ evs \<Longrightarrow> lw_http w' = lw_http w \<Longrightarrow> wired_step device cs nt t w w'"
  unfolding wired_step_def holds_client_def using wired_trace_Nil by fastforce

interpretation wired: step_relation "wired_step device cs nt t" for device cs nt t
proof
  show "wired_step device cs nt t s s" for s by (rule wired_quiet [of _ _ "[]"]) simp_all
  show "wired_step device cs nt t s v" if "wired_step device cs nt t s u" "wired_step device cs nt t u v" for s u v
    using that wired_trace_append unfolding wired_step_def by fastforce
qed

lemma authorize_wired: "keeps (wired_step device cs nt t) (live_authorize e t' c capability ps)"
  by (auto simp: keeps_def live_authorize_def split: prod.splits intro!: wired_quiet [of _ _ "[]"])

lemma client_built:
  assumes "mutation_client_for device cs (lt_config t) (lt_credential_ref t) (Some (lt_trust t)) clearance = Inr c"
    "normalize_cert_fingerprint (lt_trust t) = Inr (lt_trust t)"
  shows "client_of device cs t c"
  using assms unfolding mutation_client_for_Inr
  by (cases clearance) (auto simp: new_mutating_client_def client_of_def bind_res_Inr_iff Providers.or_empty_def
      split: if_splits)

lemma build_wired:
  assumes "normalize_cert_fingerprint (lt_trust t) = Inr (lt_trust t)"
  shows "keeps (wired_step device cs nt t) (live_build (wired_env device cs nt now) t h)"
proof -
  have "wired_step device cs nt t w w'" if "on_http (wired_build device cs t h) w = (x, w')" for w x w'
  proof -
    have "holds_client device cs t w \<longrightarrow> holds_client device cs t w'" "lw_trace w' = lw_trace w" "wire_of w' = wire_of w"
      using that client_built [OF _ assms]
      by (auto simp: on_http_def wired_build_def holds_client_def split: sum.splits)
    then show ?thesis unfolding wired_step_def using wired_trace_Nil by fastforce
  qed
  then have "keeps (wired_step device cs nt t) (on_http (wired_build device cs t h))" by (auto simp: keeps_def)
  moreover have "keeps (wired_step device cs nt t) (note_event ev)" for ev
    unfolding note_event_def by (rule wired.keeps_modify, rule wired_quiet) simp_all
  ultimately show ?thesis
    unfolding live_build_def wired_env_def live_env.simps by (intro wired.keeps_rules)
qed

lemma send_wired:
  assumes "verb \<in> {''POST'', ''PATCH''}"
  shows "keeps (wired_step device cs nt t) (live_send name (wired_env device cs nt now) t h verb path body)"
  unfolding keeps_def
proof (intro allI impI)
  fix w x w' assume run: "live_send name (wired_env device cs nt now) t h verb path body w = (x, w')"
  let ?m = "\<lparr>lm_handle = h, lm_method = verb, lm_path = path, lm_body = body, lm_timeout = tp_read_timeout (lt_policy t)\<rparr>"
  let ?w1 = "w\<lparr>lw_trace := lw_trace w @ [MessageSent ?m]\<rparr>"
  obtain y h' where sent: "wired_send nt ?m (lw_http w) = (y, h')" by (cases "wired_send nt ?m (lw_http w)")
  have w': "w' = ?w1\<lparr>lw_http := h'\<rparr>"
    using run sent by (auto simp: live_send_def note_event_def wrap_transport_error_def on_http_def wired_env_def Let_def
        split: sum.splits)
  show "wired_step device cs nt t w w'"
  proof (cases "wd_client (lw_http w)")
    case None
    with sent have "h' = lw_http w" by (simp add: wired_send_def raise_def)
    with w' show ?thesis by (intro wired_quiet [of _ _ "[MessageSent ?m]"]) simp_all
  next
    case (Some c)
    with sent obtain wire where wire: "h' = (lw_http w)\<lparr>wd_wire := wire\<rparr>"
      "mutate_request_json nt c verb path body (tp_read_timeout (lt_policy t)) (wd_wire (lw_http w)) = (y, wire)"
      using assms by (auto simp: wired_send_def post_json_def patch_json_def split: prod.splits if_splits)
    from mutate_request_traced [OF wire(2) assms] obtain evs where evs: "wi_trace wire = wire_of w @ evs"
      "guarded_trace (nt_sha256 nt) (mc_host c) (mc_port c) (Some (mc_pin c)) (mutating_message (mc_headers c)) evs"
      "requests evs = [] \<or> (\<exists>m. requests evs = [m] \<and> wire_says m = (verb, path, Some (act_json (pdict body))))"
      by blast
    have "wired_trace device cs nt t [MessageSent ?m] evs" if "client_of device cs t c"
    proof -
      have "guarded_trace (nt_sha256 nt) (live_host (lt_config t)) (lc_port (lt_config t)) (Some (lt_trust t))
          (wired_message device cs t) evs"
        using evs(2) that unfolding client_of_def by (auto simp: wired_message_def elim!: guarded_trace_mono)
      moreover have "\<exists>ms. subseq ms [?m] \<and> map wire_says (requests evs) = map message_says ms"
        using evs(3) by (elim disjE exE conjE; intro exI [of _ "[]"] exI [of _ "[?m]"]) (auto simp: message_says_def)
      ultimately show ?thesis by (simp add: wired_trace_def sent_messages_simps)
    qed
    then show ?thesis
      unfolding wired_step_def using Some w' wire(1) evs(1)
      by (auto simp: holds_client_def intro!: exI [of _ "[MessageSent ?m]"] exI [of _ evs])
  qed
qed

lemma call_wired:
  assumes "normalize_cert_fingerprint (lt_trust t) = Inr (lt_trust t)"
  shows "keeps (wired_step device cs nt t) (transport_call device (wired_env device cs nt now) t c)"
proof -
  let ?K = "keeps (wired_step device cs nt t)"
  note rules = wired.keeps_rules authorize_wired build_wired [OF assms] send_wired
  have atx: "?K (pikvm_atx (wired_env device cs nt now) t capability x)" for capability x
    unfolding pikvm_atx_def table_get_def by (intro rules) simp
  have mutate: "?K (redfish_mutate (wired_env device cs nt now) t h verb path body)"
    if "verb \<in> {''POST'', ''PATCH''}" for h verb path body
    unfolding redfish_mutate_def by (intro rules that)
  have reset: "?K (redfish_reset (wired_env device cs nt now) t capability x)" for capability x
    unfolding redfish_reset_def redfish_authorize_def table_get_def by (intro rules mutate) simp
  have boot: "?K (redfish_set_boot_override (wired_env device cs nt now) t b x)" for b x
    unfolding redfish_set_boot_override_def redfish_authorize_def by (intro rules mutate) simp
  show ?thesis
    using atx reset boot by (cases device; cases c) (simp_all add: wired.keeps_throw)
qed

lemma session_wired:
  assumes "normalize_cert_fingerprint (lt_trust t) = Inr (lt_trust t)"
  shows "wired_step device cs nt t w (run_calls (transport_call device (wired_env device cs nt now) t) calls w)"
  unfolding run_calls_def by (rule wired.fold_keeps) (rule call_wired [OF assms])

lemma mutation_transport_built:
  assumes "build_live_mutation_transport device probe base_url ref fp target provider path = Inr t"
  shows "live_host (lt_config t) = live_host (live_target base_url fp False)" "lt_credential_ref t = ref"
    "normalize_cert_fingerprint (Providers.or_empty fp) = Inr (lt_trust t)"
    "normalize_cert_fingerprint (lt_trust t) = Inr (lt_trust t)"
proof -
  let ?c0 = "live_target base_url fp False"
  from assms obtain c r where c: "make_live_config device ?c0 = Inr c" "make_credential_ref (adapter_name device) ref = Inr r"
    "(case device of PiKVM \<Rightarrow> new_pikvm_mutation_transport probe c r target provider None
      | Redfish \<Rightarrow> new_redfish_mutation_transport probe c r target provider path None) = Inr t"
    by (cases device) (auto simp: build_live_pikvm_mutation_transport_def build_live_redfish_mutation_transport_def
        bind_res_Inr_iff split: if_splits)
  then obtain mismatch name syspath where b: "build_transport mismatch name probe c r target provider syspath None = Inr t"
    unfolding new_pikvm_mutation_transport_def new_redfish_mutation_transport_def by (cases device) auto
  then have t: "lt_config t = c" "lt_credential_ref t = r" "pinned_trust mismatch name probe c = Inr (lt_trust t)"
    by (auto simp: build_transport_def bind_res_Inr_iff split: if_splits)
  show "live_host (lt_config t) = live_host ?c0" using t(1) host_of [OF make_live_config_Inr(1) [OF c(1)]] by simp
  show "lt_credential_ref t = ref" using t(2) make_credential_ref_Inr [OF c(2)] by simp
  from t(3) have pin: "normalize_cert_fingerprint (Providers.or_empty (lc_cert_fingerprint c)) = Inr (lt_trust t)"
    by (rule pinned_trust_Inr)
  then show "normalize_cert_fingerprint (Providers.or_empty fp) = Inr (lt_trust t)"
    by (simp add: make_live_config_Inr(2) [OF c(1)] live_target_def)
  from normalize_Inr(2) [OF pin] show "normalize_cert_fingerprint (lt_trust t) = Inr (lt_trust t)" .
qed

lemma subseq_distinct_map: "subseq xs ys \<Longrightarrow> distinct (map f ys) \<Longrightarrow> distinct (map f xs)"
  by (auto simp: subseq_conv_nths nths_map [symmetric] intro: distinct_nthsI)

lemma subseq_set: "subseq xs ys \<Longrightarrow> set xs \<subseteq> set ys"
  by (auto simp: subseq_conv_nths dest: in_set_nthsD)

section \<open>Stage 1\<close>

lemma normal_form:
  assumes "length r = 62" "\<forall>c \<in> set r. is_hex_char c" "str_lower r = r" "p = ''00'' \<or> p = ''ff''"
  shows "normalize_cert_fingerprint (p @ concat (map (\<lambda>y. '':'' @ y) (pairs r))) =
    Inr (p @ concat (map (\<lambda>y. '':'' @ y) (pairs r)))"
proof -
  have "is_hex_char CHR ''0''" "is_hex_char CHR ''f''"
    by (simp_all add: is_hex_char_def is_digit_def one_of_def)
  moreover have "str_lower ''00'' = ''00''" "str_lower ''ff'' = ''ff''"
    by (simp_all add: str_lower_def lower_char_def is_ascii_upper_def)
  ultimately obtain a b where p: "p = [a, b]" "is_hex_char a" "is_hex_char b" "str_lower [a, b] = [a, b]"
    using assms(4) by metis
  have join: "p @ concat (map (\<lambda>y. '':'' @ y) (pairs r)) = str_join '':'' (pairs (p @ r))"
    by (simp add: p(1) str_join_concat)
  have hex: "\<forall>c \<in> set (p @ r). is_hex_char c" using assms(2) p by auto
  have low: "str_lower (p @ r) = p @ r" using assms(3) p by (simp add: str_lower_def)
  show ?thesis
    unfolding join normalize_cert_fingerprint_def Let_def filter_joined [OF hex] low using assms(1) p(1) by simp
qed

lemma wrong_fingerprint:
  assumes "normalize_cert_fingerprint s = Inr n" "deliberately_wrong_fingerprint n = Inr w"
  shows "normalize_cert_fingerprint w = Inr w" "w \<noteq> n"
proof -
  let ?c = "str_lower (filter is_hex_char s)"
  from assms(1) have n: "n = str_join '':'' (pairs ?c)" "length ?c = 64"
    by (auto simp: normalize_cert_fingerprint_def Let_def split: if_splits)
  then obtain a b r where c: "?c = a # b # r" "length r = 62"
    by (cases ?c; cases "tl ?c") auto
  have hex: "\<forall>x \<in> set ?c. is_hex_char x" by (auto simp: str_lower_def lower_hex)
  have low: "str_lower r = r" using lower_idem [of "filter is_hex_char s"] by (simp add: c(1)) (simp add: str_lower_def)
  have n': "n = [a, b] @ concat (map (\<lambda>y. '':'' @ y) (pairs r))" by (simp add: n(1) c(1) str_join_concat)
  let ?p = "if \<not> starts_with n ''00'' then ''00'' else ''ff''"
  have w: "w = ?p @ concat (map (\<lambda>y. '':'' @ y) (pairs r))"
    using assms(2) normalize_Inr(2) [OF assms(1)] by (simp add: deliberately_wrong_fingerprint_def n')
  have "\<forall>x \<in> set r. is_hex_char x" using hex c(1) by simp
  from normal_form [OF c(2) this low, of ?p] show "normalize_cert_fingerprint w = Inr w" by (simp add: w)
  show "w \<noteq> n" by (auto simp: w n')
qed

text \<open>What a transport over the recording factory shows of its build.\<close>

lemma recorded_build:
  assumes "build_live_read_transport PiKVM probe base_url ref (Some pin) verify recording_factory s = (x, r)"
    "normalize_cert_fingerprint pin = Inr pin"
  shows "case x of
      Inl e \<Rightarrow> r = s
    | Inr t \<Rightarrow> rc_credential_ref_received r \<and> rc_trust_received r = Some pin \<and>
        (\<exists>answer. probe (live_host (live_target base_url (Some pin) verify)) 443 2 = Inr answer \<and>
           normalize_cert_fingerprint answer = Inr pin)"
proof -
  let ?c = "live_target base_url (Some pin) verify"
  have pinned: "has_pin ?c" using normalized_nonempty [OF assms(2)] by (simp add: has_pin_def live_target_def Providers.or_empty_def)
  have trust: "q = pin \<and> (\<exists>answer. probe (live_host ?c) 443 2 = Inr answer \<and> normalize_cert_fingerprint answer = Inr pin)"
    if "pinned_trust mismatch name probe ?c = Inr q" for mismatch name q
    using that by (rule pinned_trust_Inr) (use assms(2) in \<open>auto simp: live_target_def Providers.or_empty_def\<close>)
  have cfg: "make_live_config PiKVM ?c = Inr c \<longleftrightarrow> c = ?c \<and> make_pikvm_config ?c = Inr ?c" for c
    by (auto simp: make_pikvm_config_def protocol_error_def)
  show ?thesis
  proof (cases x)
    case (Inl e)
    with assms(1) show ?thesis
      by (auto simp: build_live_read_transport_def new_live_reader_def recording_factory_def split: sum.splits)
  next
    case (Inr t)
    with assms(1) obtain c q where c: "make_live_config PiKVM ?c = Inr c"
      "read_preflight_pin (mismatch_error PiKVM) (adapter_name PiKVM) probe c = Inr q"
      "r = s\<lparr>rc_credential_ref_received := True, rc_trust_received := q\<rparr>"
      by (auto simp: build_live_read_transport_def new_live_reader_def recording_factory_def bind_op_Inr
          split: sum.splits)
    from c(2,3) c(1) [unfolded cfg] have q: "read_preflight_pin (mismatch_error PiKVM) (adapter_name PiKVM) probe ?c = Inr q"
      "r = s\<lparr>rc_credential_ref_received := True, rc_trust_received := q\<rparr>" by simp_all
    from q(1) pinned obtain q' where q': "q = Some q'" "pinned_trust (mismatch_error PiKVM) (adapter_name PiKVM) probe ?c = Inr q'"
      unfolding read_preflight_pin_def by (cases "pinned_trust (mismatch_error PiKVM) (adapter_name PiKVM) probe ?c") auto
    from trust [OF q'(2)] q(2) q'(1) show ?thesis by (simp add: Inr)
  qed
qed

lemma match_attested:
  assumes "pinned_match_built probe base_url verify ref pin = Inr b" "normalize_cert_fingerprint pin = Inr pin"
  shows "b" "\<exists>answer. probe (live_host (live_target base_url (Some pin) verify)) 443 2 = Inr answer \<and>
      normalize_cert_fingerprint answer = Inr pin"
  using recorded_build [OF _ assms(2), of probe base_url ref verify new_recorder] assms(1)
  by (auto simp: pinned_match_built_def split: prod.splits sum.splits)

lemma live_host_pin: "live_host (live_target base_url a v) = live_host (live_target base_url b w)"
  by (rule host_of) (simp add: live_target_def)

lemma abort_attested:
  assumes "wrong_fingerprint_aborted probe base_url verify ref pin = Inr b"
    "normalize_cert_fingerprint s = Inr pin"
    "probe (live_host (live_target base_url fp v)) 443 2 = Inr answer" "normalize_cert_fingerprint answer = Inr pin"
  shows "b"
proof -
  obtain w where w: "deliberately_wrong_fingerprint pin = Inr w"
    using assms(1) by (auto simp: wrong_fingerprint_aborted_def bind_res_Inr_iff)
  note wrong = wrong_fingerprint [OF assms(2) w]
  obtain x r where x: "build_live_read_transport PiKVM probe base_url ref (Some w) verify recording_factory new_recorder = (x, r)"
    by (cases "build_live_read_transport PiKVM probe base_url ref (Some w) verify recording_factory new_recorder")
  show ?thesis
  proof (cases x)
    case (Inl e)
    with assms(1) w x recorded_build [OF x wrong(1)] show ?thesis
      by (auto simp: wrong_fingerprint_aborted_def new_recorder_def split: if_splits)
  next
    case (Inr t)
    with recorded_build [OF x wrong(1)] assms(3,4) wrong(2) live_host_pin [of base_url "Some w" verify fp v]
    show ?thesis by auto
  qed
qed

lemma stage1_Inr:
  assumes "run_stage1_cert_preflight now probe base_url ref fp verify = Inr cp" "Providers.or_empty fp \<noteq> []"
  obtains observed pin built aborted where
    "normalize_cert_fingerprint (Providers.or_empty fp) = Inr pin"
    "pinned_match_built (probe 1) base_url verify ref pin = Inr built"
    "wrong_fingerprint_aborted (probe 2) base_url verify ref pin = Inr aborted"
    "cp = build_stage_checkpoint now ''stage1-cert-pinning-preflight'' ''operator_review_required'' (Some ''stage2-observe'')
       [(''observed_cert_fingerprint'', PStr observed), (''credential_ref'', PStr ''[CREDENTIAL_REF]''),
        (''verify_ssl_false_without_pin_rejected'', PBool (verify_ssl_false_without_pin_rejected base_url)),
        (''pinned_match_built_authenticated_client'', PBool built),
        (''wrong_fingerprint_aborted_before_credentials'', PBool aborted)]"
  using assms unfolding run_stage1_cert_preflight_def Let_def by (auto simp: bind_res_Inr_iff)

lemma unpinned_rejected: "verify_ssl_false_without_pin_rejected base_url"
  by (simp add: verify_ssl_false_without_pin_rejected_def make_pikvm_config_def live_target_def has_pin_def
      Providers.or_empty_def protocol_error_def raise_def)

lemma unconfirmed_refused:
  assumes "\<not> sc_operator_confirmed cp"
  shows "\<exists>m. validate_prior_checkpoint (Inr (pdict (checkpoint_dict cp))) stage = Inl (Exn PiKVMLiveValidationError m)"
  using assms by (simp add: validate_prior_checkpoint_def checkpoint_dict_def pdict_def doc_text_def dict_get_or_def
      live_validation_error_def raise_def value_str_def Let_def)

text \<open>
  A field that is null in the operator's file counts as given: its text is \<open>None\<close>. The same holds of the
  user name and the password of a credential file.
\<close>

lemma null_preconditions_accepted:
  "load_preconditions (Inr (pdict (map (\<lambda>k. (k, PNone))
     [''sacrificial_target'', ''isolated_segment'', ''credential_ref'', ''firmware_version'', ''operator'', ''confirmed_at''])))
   = Inr \<lparr>vp_sacrificial_target = ''None'', vp_isolated_segment = ''None'', vp_credential_ref = ''None'',
         vp_firmware_version = ''None'', vp_operator = ''None'', vp_confirmed_at = ''None''\<rparr>"
  by code_simp

lemma null_credentials_accepted:
  "file_pair (FileDocument (pdict [(''username'', PNone), (''password'', PNone)])) = Inr (''None'', ''None'')"
  by code_simp

section \<open>Properties\<close>

text \<open>
  C9 (reads on the wire). Whatever is read through a live read transport over the real client, on
  whatever network: the wire carries only GET requests without a body, with the headers of the resolved
  credentials; each request follows at once on a new connection to the configured host, under the
  default TLS checks if no fingerprint was given, and otherwise after the peer has shown a certificate
  with that fingerprint; and every connection that was made is closed.
\<close>

theorem live_reads_pinned:
  assumes "build_live_read_transport device probe base_url ref fp verify
      (\<lambda>c r trust. lift_res (read_client_for device cs c r trust)) s = (Inr (p, client), s')"
  shows "\<exists>evs pair.
     wi_trace (rr_http (run_reads (get_json nt client) p calls r)) = wi_trace (rr_http r) @ evs \<and>
     resolve_credential_pair cs ref = Inr pair \<and>
     guarded_trace (nt_sha256 nt) (live_host (live_target base_url fp verify)) (gc_port client) (gc_pin client)
       (\<lambda>m. hm_method m = ''GET'' \<and> hm_body m = None \<and> hm_headers m = auth_headers device pair) evs \<and>
     (case gc_pin client of
        None \<Rightarrow> Providers.or_empty fp = [] \<and> verify
      | Some q \<Rightarrow> normalize_cert_fingerprint (Providers.or_empty fp) = Inr q)"
proof -
  note built = read_transport_built [OF assms]
  obtain pair where pair: "resolve_credential_pair cs ref = Inr pair" "gc_headers client = auth_headers device pair"
    using built(2) by blast
  obtain evs where evs: "wi_trace (rr_http (run_reads (get_json nt client) p calls r)) = wi_trace (rr_http r) @ evs"
    "guarded_trace (nt_sha256 nt) (gc_host client) (gc_port client) (gc_pin client) (read_message client) evs"
    using wire_reader.run_reads_keeps [where nt = nt and c = client and p = p and calls = calls and s = r]
    unfolding guarded_step_def by blast
  from evs(2) have "guarded_trace (nt_sha256 nt) (live_host (live_target base_url fp verify)) (gc_port client) (gc_pin client)
       (\<lambda>m. hm_method m = ''GET'' \<and> hm_body m = None \<and> hm_headers m = auth_headers device pair) evs"
    unfolding built(1) by (rule guarded_trace_mono) (simp add: read_message_def pair(2))
  with evs(1) pair(1) built(3) show ?thesis by blast
qed

text \<open>
  C8 (mutations on the wire). Whatever calls are made to a live mutating transport over the real client,
  with whatever clearances and on whatever network: the requests on the wire are, in order, messages of
  calls that were authorised by their handles when they were made, no two for one handle; they are POST
  or PATCH with the headers of the resolved credentials; and each follows at once on a new connection to
  the configured host whose peer has shown a certificate with the configured fingerprint.
\<close>

theorem wire_mutations_gated:
  assumes "build_live_mutation_transport device probe base_url ref fp target provider path = Inr t"
    and "lw_trace w = []" and "wire_of w = []" and "wd_client (lw_http w) = None"
  shows "\<exists>ms.
     map wire_says (requests (wire_of (run_calls (transport_call device (wired_env device cs nt now) t) calls w))) =
       map message_says ms \<and>
     distinct (map (\<lambda>m. mh_request_id (lm_handle m)) ms) \<and>
     (\<forall>m \<in> set ms. \<exists>xs c ys. calls = xs @ c # ys \<and>
        authorised (wired_env device cs nt now) t c (lm_handle m)
          (run_calls (transport_call device (wired_env device cs nt now) t) xs w) \<and>
        call_message device t c = Some (says m)) \<and>
     guarded_trace (nt_sha256 nt) (live_host (live_target base_url fp False)) (lc_port (lt_config t)) (Some (lt_trust t))
       (\<lambda>m. \<exists>pair. resolve_credential_pair cs ref = Inr pair \<and> mutating_message (auth_headers device pair) m)
       (wire_of (run_calls (transport_call device (wired_env device cs nt now) t) calls w)) \<and>
     normalize_cert_fingerprint (Providers.or_empty fp) = Inr (lt_trust t)"
proof -
  note built = mutation_transport_built [OF assms(1)]
  let ?e = "wired_env device cs nt now"
  let ?w = "run_calls (transport_call device ?e t) calls w"
  have "holds_client device cs t w" using assms(4) by (simp add: holds_client_def)
  then have wired: "wired_trace device cs nt t (lw_trace ?w) (wire_of ?w)"
    using session_wired [OF built(4), of device cs nt w now calls] assms(2,3) unfolding wired_step_def by auto
  then obtain ms where ms: "subseq ms (sent_messages (lw_trace ?w))"
    "map wire_says (requests (wire_of ?w)) = map message_says ms" unfolding wired_trace_def by blast
  obtain evs where evs: "lw_trace ?w = evs" "distinct (sent_ids evs)" "\<forall>ev \<in> set evs. allowed_in device ?e t calls w ev"
    using device_session [of device ?e t calls w] assms(2) by auto
  have "distinct (map (\<lambda>m. mh_request_id (lm_handle m)) ms)"
    using subseq_distinct_map [OF ms(1)] evs(1,2) by (simp add: sent_ids_def)
  moreover have "\<exists>xs c ys. calls = xs @ c # ys \<and>
        authorised ?e t c (lm_handle m) (run_calls (transport_call device ?e t) xs w) \<and>
        call_message device t c = Some (says m)" if "m \<in> set ms" for m
  proof -
    have "MessageSent m \<in> set evs"
      using subseq_set [OF ms(1)] that evs(1) by (auto simp: sent_messages_def map_filter_def split: live_event.splits)
    with evs(3) show ?thesis unfolding allowed_in_def by fastforce
  qed
  ultimately show ?thesis
    using ms(2) wired built unfolding wired_trace_def wired_message_def by (intro exI [of _ ms]) auto
qed

text \<open>
  C27 (stage 1). A stage 1 that ends for a configured fingerprint, with a peer that shows the same
  certificate to both rehearsals, attests what it rehearsed: the matching certificate led to a client with
  that very pin, the wrong fingerprint stopped the build before any credential was handed over, and
  unverified TLS without a pin was refused. Its checkpoint is not confirmed, and as written it admits no
  next stage.
\<close>

theorem stage1_attests:
  assumes "run_stage1_cert_preflight now probe base_url ref fp verify = Inr cp"
    and "Providers.or_empty fp \<noteq> []" and "probe 2 = probe 1"
  shows "(\<exists>pin answer. normalize_cert_fingerprint (Providers.or_empty fp) = Inr pin \<and>
       probe 1 (live_host (live_target base_url fp verify)) 443 2 = Inr answer \<and>
       normalize_cert_fingerprint answer = Inr pin) \<and>
     dict_get (sc_details cp) ''pinned_match_built_authenticated_client'' = Some (PBool True) \<and>
     dict_get (sc_details cp) ''wrong_fingerprint_aborted_before_credentials'' = Some (PBool True) \<and>
     dict_get (sc_details cp) ''verify_ssl_false_without_pin_rejected'' = Some (PBool True) \<and>
     dict_get (sc_details cp) ''credential_ref'' = Some (PStr ''[CREDENTIAL_REF]'') \<and>
     \<not> sc_operator_confirmed cp \<and>
     (\<exists>m. validate_prior_checkpoint (Inr (pdict (checkpoint_dict cp))) stage = Inl (Exn PiKVMLiveValidationError m))"
proof -
  from assms(1,2) obtain observed pin built aborted where s:
    "normalize_cert_fingerprint (Providers.or_empty fp) = Inr pin"
    "pinned_match_built (probe 1) base_url verify ref pin = Inr built"
    "wrong_fingerprint_aborted (probe 2) base_url verify ref pin = Inr aborted"
    "cp = build_stage_checkpoint now ''stage1-cert-pinning-preflight'' ''operator_review_required'' (Some ''stage2-observe'')
       [(''observed_cert_fingerprint'', PStr observed), (''credential_ref'', PStr ''[CREDENTIAL_REF]''),
        (''verify_ssl_false_without_pin_rejected'', PBool (verify_ssl_false_without_pin_rejected base_url)),
        (''pinned_match_built_authenticated_client'', PBool built),
        (''wrong_fingerprint_aborted_before_credentials'', PBool aborted)]"
    by (rule stage1_Inr)
  note built = match_attested [OF s(2) normalize_Inr(2) [OF s(1)]]
  then obtain answer where a: "probe 1 (live_host (live_target base_url fp verify)) 443 2 = Inr answer"
    "normalize_cert_fingerprint answer = Inr pin" using live_host_pin by metis
  have "aborted" using abort_attested [OF s(3,1), of fp verify answer] a unfolding assms(3) by blast
  moreover have "\<not> sc_operator_confirmed cp" by (simp add: s(4) build_stage_checkpoint_def)
  ultimately show ?thesis
    using s(1) a built(1) unpinned_rejected unconfirmed_refused by (auto simp: s(4) build_stage_checkpoint_def)
qed

section \<open>Witnesses\<close>

text \<open>A peer that shows one certificate and answers every request with a document.\<close>

definition DEMO_DIGEST :: string where
  "DEMO_DIGEST = replicate 64 CHR ''a''"

definition demo_network :: "unit network" where
  "demo_network =
     \<lparr>nt_open = (\<lambda>host port tls timeout. ret ()), nt_connect = ret (), nt_certificate = ret (Some ''der''),
      nt_request = (\<lambda>m. ret ()), nt_reply = (\<lambda>n. ret \<lparr>hr_status = 200, hr_content_type = [], hr_body = ''{}''\<rparr>),
      nt_close = ret (), nt_now = (\<lambda>n. Aware 0 0), nt_sha256 = (\<lambda>s. DEMO_DIGEST),
      nt_loads = (\<lambda>s. Inr (pdict [(''health'', PStr ''ok'')]))\<rparr>"

definition demo_credentials :: credential_sources where
  "demo_credentials =
     \<lparr>cs_env = [(''KVM_USER'', ''u''), (''KVM_PASS'', ''p'')], cs_file = (\<lambda>path. MissingFile)\<rparr>"

abbreviation demo_probe :: tls_probe where
  "demo_probe \<equiv> (\<lambda>host port timeout. Inr DEMO_DIGEST)"

lemma demo_pair: "resolve_credential_pair demo_credentials ''env://KVM'' = Inr (''u'', ''p'')"
  by code_simp

lemma demo_digest: "\<exists>n. normalize_cert_fingerprint DEMO_DIGEST = Inr n \<and> normalize_cert_fingerprint n = Inr n \<and> n \<noteq> []"
proof -
  have "is_hex_char CHR ''a''" by (simp add: is_hex_char_def one_of_def)
  then obtain n where "normalize_cert_fingerprint DEMO_DIGEST = Inr n"
    by (auto simp: normalize_cert_fingerprint_def DEMO_DIGEST_def str_lower_def)
  with normalize_Inr(2) normalized_nonempty show ?thesis by blast
qed

lemma demo_target:
  assumes "q \<noteq> []"
  shows "make_live_config PiKVM (live_target ''https://10.0.0.1'' (Some q) verify) =
     Inr (live_target ''https://10.0.0.1'' (Some q) verify)"
  "has_pin (live_target ''https://10.0.0.1'' (Some q) verify)"
  "make_credential_ref (adapter_name PiKVM) ''env://KVM'' = Inr ''env://KVM''"
  "\<exists>p. live_policy None (live_target ''https://10.0.0.1'' (Some q) verify) = Inr p"
  using assms by (simp_all add: make_pikvm_config_def live_target_def has_pin_def Providers.or_empty_def
      make_credential_ref_def RAW_SECRET_FRAGMENTS_def str_lower_def lower_char_def is_ascii_upper_def
      live_policy_def make_transport_policy_def default_transport_policy_def Let_def)

lemma demo_digest_nonempty: "DEMO_DIGEST \<noteq> []"
  by (simp add: DEMO_DIGEST_def)

lemma demo_pinned:
  assumes "normalize_cert_fingerprint DEMO_DIGEST = Inr n"
  shows "pinned_trust mismatch name demo_probe (live_target ''https://10.0.0.1'' (Some DEMO_DIGEST) verify) = Inr n"
  using assms normalize_Inr(2) [OF assms] by (simp add: pinned_trust_def live_target_def Providers.or_empty_def)

theorem live_reads_pinned_witness:
  "\<exists>p client. build_live_read_transport PiKVM demo_probe ''https://10.0.0.1'' ''env://KVM'' (Some DEMO_DIGEST) False
       (\<lambda>c r trust. lift_res (read_client_for PiKVM demo_credentials c r trust)) () = (Inr (p, client), ()) \<and>
     gc_pin client \<noteq> None \<and>
     (\<exists>evs. wi_trace (rr_http (run_reads (get_json demo_network client) p [PikvmView PkHealth]
         \<lparr>rr_http = \<lparr>wi_net = (), wi_ticks = 0, wi_trace = []\<rparr>, rr_cache = []\<rparr>)) = evs \<and>
       guarded_trace (\<lambda>s. DEMO_DIGEST) ''10.0.0.1'' (gc_port client) (gc_pin client)
         (\<lambda>m. hm_method m = ''GET'' \<and> hm_body m = None \<and> hm_headers m = auth_headers PiKVM (''u'', ''p'')) evs)"
proof -
  let ?c = "live_target ''https://10.0.0.1'' (Some DEMO_DIGEST) False"
  let ?r = "\<lparr>rr_http = \<lparr>wi_net = (), wi_ticks = 0, wi_trace = []\<rparr>, rr_cache = []\<rparr>"
  note target = demo_target [OF demo_digest_nonempty]
  obtain n where n: "normalize_cert_fingerprint DEMO_DIGEST = Inr n" "normalize_cert_fingerprint n = Inr n" "n \<noteq> []"
    using demo_digest by blast
  obtain pol where pol: "live_policy None ?c = Inr pol" using target(4) by blast
  obtain client where client: "read_client_for PiKVM demo_credentials ?c ''env://KVM'' (Some n) = Inr client" "gc_pin client = Some n"
    by (simp add: read_client_for_eq demo_pair new_get_client_def n Providers.or_empty_def del: read_client_for.simps)
  have built: "build_live_read_transport PiKVM demo_probe ''https://10.0.0.1'' ''env://KVM'' (Some DEMO_DIGEST) False
      (\<lambda>c r trust. lift_res (read_client_for PiKVM demo_credentials c r trust)) () = (Inr (pol, client), ())"
    by (simp add: build_live_read_transport_def new_live_reader_def target pol read_preflight_pin_def demo_pinned [OF n(1)] client
        del: adapter_name.simps make_live_config.simps read_client_for.simps)
  have host: "live_host ?c = ''10.0.0.1''" by code_simp
  have sha: "nt_sha256 demo_network = (\<lambda>s. DEMO_DIGEST)" by (simp add: demo_network_def)
  from live_reads_pinned [OF built, of demo_network "[PikvmView PkHealth]" ?r]
  obtain evs pair where "wi_trace (rr_http (run_reads (get_json demo_network client) pol [PikvmView PkHealth] ?r)) = evs"
    "resolve_credential_pair demo_credentials ''env://KVM'' = Inr pair"
    "guarded_trace (\<lambda>s. DEMO_DIGEST) ''10.0.0.1'' (gc_port client) (gc_pin client)
       (\<lambda>m. hm_method m = ''GET'' \<and> hm_body m = None \<and> hm_headers m = auth_headers PiKVM pair) evs"
    unfolding host sha by auto
  with built client(2) demo_pair show ?thesis by auto
qed

definition demo_wired_world :: "unit wired live_world" where
  "demo_wired_world =
     \<lparr>lw_spent = [], lw_ticks = 0,
      lw_http = \<lparr>wd_client = None, wd_wire = \<lparr>wi_net = (), wi_ticks = 0, wi_trace = []\<rparr>\<rparr>, lw_trace = []\<rparr>"

theorem wire_mutations_gated_witness:
  "\<exists>t ms. build_live_mutation_transport PiKVM demo_probe ''https://10.0.0.1'' ''env://KVM'' (Some DEMO_DIGEST) ''t'' ''p'' [] = Inr t \<and>
     map wire_says (requests (wire_of (run_calls (transport_call PiKVM (wired_env PiKVM demo_credentials demo_network (\<lambda>n. Aware 0 0)) t)
        [PowerForceOff (Handle (demo_handle\<lparr>mh_params_fingerprint := DEMO_DIGEST\<rparr>))] demo_wired_world))) = map message_says ms \<and>
     distinct (map (\<lambda>m. mh_request_id (lm_handle m)) ms)"
proof -
  let ?c = "live_target ''https://10.0.0.1'' (Some DEMO_DIGEST) False"
  obtain n where n: "normalize_cert_fingerprint DEMO_DIGEST = Inr n" using demo_digest by blast
  note target = demo_target [OF demo_digest_nonempty]
  obtain pol where pol: "live_policy None ?c = Inr pol" using target(4) by blast
  obtain t where t: "build_live_mutation_transport PiKVM demo_probe ''https://10.0.0.1'' ''env://KVM'' (Some DEMO_DIGEST) ''t'' ''p'' [] = Inr t"
    by (simp add: build_live_pikvm_mutation_transport_def new_pikvm_mutation_transport_def build_transport_def
        target(1) [unfolded make_live_config.simps] target(2) target(3) [unfolded adapter_name.simps] pol
        demo_digest_nonempty demo_pinned [OF n] missing_identity_def Providers.or_empty_def)
  have start: "lw_trace demo_wired_world = []" "wire_of demo_wired_world = []" "wd_client (lw_http demo_wired_world) = None"
    by (simp_all add: demo_wired_world_def)
  from wire_mutations_gated [OF t start] t show ?thesis by blast
qed

text \<open>The rehearsals against the peer of the witness.\<close>

lemma demo_rehearsal:
  assumes "normalize_cert_fingerprint DEMO_DIGEST = Inr n" "normalize_cert_fingerprint q = Inr q"
  shows "\<exists>p m. build_live_read_transport PiKVM demo_probe ''https://10.0.0.1'' ''env://KVM'' (Some q) False recording_factory s =
     (if q = n then (Inr (p, ()), s\<lparr>rc_credential_ref_received := True, rc_trust_received := Some q\<rparr>)
      else (raise PiKVMFingerprintMismatchError m, s))"
proof -
  let ?c = "live_target ''https://10.0.0.1'' (Some q) False"
  note target = demo_target [OF normalized_nonempty [OF assms(2)]]
  obtain p where p: "live_policy None ?c = Inr p" using target(4) by blast
  have "pinned_trust mismatch name demo_probe ?c =
      (if q = n then Inr q else raise mismatch (name @ '' certificate fingerprint mismatch; credentials were not sent''))" for mismatch name
    using assms by (auto simp: pinned_trust_def live_target_def Providers.or_empty_def)
  then show ?thesis
    by (intro exI [of _ p] exI [of _ "adapter_name PiKVM @ '' certificate fingerprint mismatch; credentials were not sent''"])
      (simp add: build_live_read_transport_def new_live_reader_def target p read_preflight_pin_def recording_factory_def
        raise_def del: adapter_name.simps make_live_config.simps)
qed

theorem stage1_attests_witness:
  "\<exists>cp. run_stage1_cert_preflight (Aware 0 0) (\<lambda>i. demo_probe) ''https://10.0.0.1'' ''env://KVM'' (Some DEMO_DIGEST) False = Inr cp \<and>
     dict_get (sc_details cp) ''wrong_fingerprint_aborted_before_credentials'' = Some (PBool True) \<and> \<not> sc_operator_confirmed cp"
proof -
  obtain n where n: "normalize_cert_fingerprint DEMO_DIGEST = Inr n" "normalize_cert_fingerprint n = Inr n"
    using demo_digest by blast
  obtain w where w: "deliberately_wrong_fingerprint n = Inr w" by (simp add: deliberately_wrong_fingerprint_def n(2))
  note wrong = wrong_fingerprint [OF n(1) w]
  have "pinned_match_built demo_probe ''https://10.0.0.1'' False ''env://KVM'' n = Inr True"
    using demo_rehearsal [OF n, of new_recorder] by (auto simp: pinned_match_built_def)
  moreover have "\<exists>b. wrong_fingerprint_aborted demo_probe ''https://10.0.0.1'' False ''env://KVM'' n = Inr b"
    using demo_rehearsal [OF n(1) wrong(1), of new_recorder] wrong(2) w
    by (auto simp: wrong_fingerprint_aborted_def raise_def)
  ultimately obtain cp where cp: "run_stage1_cert_preflight (Aware 0 0) (\<lambda>i. demo_probe) ''https://10.0.0.1'' ''env://KVM''
      (Some DEMO_DIGEST) False = Inr cp"
    using demo_target(1) [OF demo_digest_nonempty, of False] n(1) demo_digest_nonempty
    by (auto simp: run_stage1_cert_preflight_def Let_def Providers.or_empty_def)
  have "Providers.or_empty (Some DEMO_DIGEST) \<noteq> []" by (simp add: Providers.or_empty_def demo_digest_nonempty)
  from stage1_attests [OF cp this refl] cp show ?thesis by blast
qed

end
