(* ===== verification/Placeholders.thy ===== *)
theory Placeholders
  imports Providers
begin

text \<open>
  \<open>providers/placeholders.py\<close>: the providers that stand for real hardware before it is enabled. They
  answer for themselves and refuse every request.
\<close>

definition OBSERVE_ONLY_REAL_PROVIDER_CAPABILITIES :: "string list" where
  "OBSERVE_ONLY_REAL_PROVIDER_CAPABILITIES =
     [''observe.power_state'', ''observe.hardware_inventory'', ''observe.sensors'', ''observe.event_logs'',
      ''observe.boot_status'', ''observe.screen'', ''observe.screenshot'']"

definition placeholder_info :: "string \<Rightarrow> string \<Rightarrow> adapter_info" where
  "placeholder_info provider_id provider_kind =
     \<lparr>ad_provider_id = provider_id, ad_provider_kind = provider_kind, ad_enabled = False,
      ad_is_real_hardware = True, ad_risk_class = ''real_hardware_disabled'',
      ad_supported = OBSERVE_ONLY_REAL_PROVIDER_CAPABILITIES\<rparr>"

definition pikvm_placeholder :: "string \<Rightarrow> adapter_info" where
  "pikvm_placeholder provider_id = placeholder_info provider_id ''pikvm''"

definition redfish_placeholder :: "string \<Rightarrow> adapter_info" where
  "redfish_placeholder provider_id = placeholder_info provider_id ''redfish''"

definition placeholder_status :: "adapter_info \<Rightarrow> provider_status" where
  "placeholder_status a =
     (status_of a)\<lparr>pst_message := ''real provider placeholder is disabled; no network calls performed''\<rparr>"

definition placeholder_validate :: "adapter_info \<Rightarrow> provider_request \<Rightarrow> provider_validation" where
  "placeholder_validate a r =
     \<lparr>pvr_ok = False, pvr_provider_id = ad_provider_id a, pvr_capability = prq_capability r,
      pvr_message = ''real provider placeholder is disabled''\<rparr>"

definition placeholder_execute :: "adapter_info \<Rightarrow> provider_request \<Rightarrow> ('s, provider_result) op" where
  "placeholder_execute a r =
     throw RealProviderNotEnabledError (''Real provider placeholder is disabled: '' @ ad_provider_id a)"

text \<open>A placeholder keeps the contract of an adapter, and its refusals agree with the base class.\<close>

interpretation placeholder: adapter "placeholder_info i k" "placeholder_execute (placeholder_info i k)" for i k
  by unfold_locales (simp_all add: placeholder_execute_def raise_def)

lemma placeholder_refuses: "\<not> pvr_ok (placeholder_validate (placeholder_info i k) r) \<and>
    \<not> pvr_ok (validate_authorized (placeholder_info i k) r)"
  by (simp add: placeholder_validate_def placeholder_info_def)

end
