(* ===== verification/Spec2Isabelle.thy ===== *)
theory Spec2Isabelle
  imports EngineLive AuditProps AuthorityProps QueueProps McpProps LiveProps FixtureProps ConfigProps PlaybookProps HostProps WireProps Placeholders
begin

text \<open>
  AgenticKVM lets an agent operate the console, power, media and firmware of machines through a
  control plane (\<open>src/agentickvm/control_plane\<close>) that decides by policy, asks an operator or a
  control tower for approval, records everything in a hash-chained audit log and only then calls a
  hardware provider (\<open>src/agentickvm/providers\<close>). This library models that core from its Python
  source and proves what makes it safe to put in front of hardware.

  How the parts interact. \<open>ControlPlane.handle\<close> (\<open>engine.py\<close>, theory \<open>Engine\<close>) takes a request, looks
  its capability up (\<open>Capabilities\<close>), asks the policy (\<open>Policy\<close>), and emits the opening audit events.
  A decision that needs approval goes to the control tower on the mobile channel (\<open>AuthChannel\<close>,
  \<open>Clearance\<close>, \<open>ActProof\<close>, \<open>ActClient\<close>), or else to a signed grant of the request (\<open>Grants\<close>), a stored
  grant (\<open>Approvals\<close>) or a new request to the operator. Execution goes to a provider (\<open>Providers\<close>);
  every event goes to an audit sink (\<open>AuditLog\<close>, \<open>AuditSqlite\<close>), redacted first (\<open>Redaction\<close>).
  Checkpoints, retention and export read the log back (\<open>AuditStore\<close>).

  How code is represented. Python strings are HOL strings, ints are \<open>int\<close>, dicts are association
  lists in insertion order, JSON values and Python values are the datatypes \<open>json\<close> and \<open>pyval\<close>
  (\<open>PyJson\<close>), datetimes are naive or aware instants in microseconds (\<open>PyTime\<close>), regular expressions
  are a datatype with the backtracking matcher as a function (\<open>PyRegex\<close>). An exception is a value of
  the type \<open>exn\<close>; a function that may raise returns \<open>exn + 'a\<close> (\<open>'a res\<close>, \<open>Prelude\<close>), a method that
  changes state maps a state to a result and a new state (\<open>('s, 'a) op\<close>, \<open>StateRes\<close>). The world of the
  engine holds the sink, the provider, the clearance client, the approval store, the consumed grant
  ids, a tick that every reading of the clock and every fresh id advances, and the trace of its
  effects. SHA-256, SHA-512 and the MAC are parameters; where a property needs collision resistance
  it concludes the property or a \<open>collision\<close>, two texts with one digest. Clock, fresh ids, transports,
  sinks and providers are parameters of the plane; \<open>mock.py\<close> and the two persistent sinks are modelled.

  Theories.
  \<open>Prelude\<close>, \<open>PyText\<close>, \<open>PyRegex\<close>, \<open>PyTime\<close>, \<open>PyJson\<close>: the language and the library functions it uses, with
  the injectivity of the JSON printer that the digests rest on.
  \<open>Fingerprints\<close> (\<open>fingerprints.py\<close>, \<open>act_fingerprint.py\<close>): canonical JSON and digests.
  \<open>Redaction\<close> (\<open>redaction.py\<close>): secret patterns and redaction; nothing recognisable survives.
  \<open>Capabilities\<close> (\<open>capabilities.py\<close>, \<open>decisions.py\<close>, \<open>risk_families.py\<close>): the default registry is well-formed.
  \<open>Policy\<close> (\<open>policy.py\<close>): what a decision means, order of the modes, the loader.
  \<open>Approvals\<close> (\<open>approvals.py\<close>): requests, responses, grants; the locale \<open>consumable_store\<close> of stores that spend.
  \<open>AuthChannel\<close> (\<open>auth_channel.py\<close>); \<open>Grants\<close> (\<open>grants.py\<close>, \<open>approval_broker.py\<close>, \<open>signer_trust.py\<close>,
  \<open>approval_store.py\<close>, \<open>notifiers.py\<close>) with \<open>GrantFacts\<close>: signing, verification, trust, the cache.
  \<open>Clearance\<close>, \<open>ActProof\<close>, \<open>ActClient\<close> (\<open>clearance.py\<close>, \<open>act_proof.py\<close>, \<open>act_client.py\<close>,
  \<open>act_http_client.py\<close>): the tower's protocol, Ed25519, the verifier, the clients and their contract.
  \<open>AuditLog\<close>, \<open>AuditStore\<close>, \<open>AuditSqlite\<close> (\<open>audit*.py\<close>): events, the chain, the locale \<open>audit_sink\<close> and
  its interpretations, checkpoints, retention, export, the database; \<open>AuditProps\<close> holds their properties.
  \<open>StateRes\<close>: operations on a state with exceptions, their relations and triples.
  \<open>Providers\<close> (\<open>base.py\<close>, \<open>mock.py\<close>): the adapter contract and the simulated provider.
  \<open>Engine\<close> (\<open>engine.py\<close>); \<open>EngineFacts\<close> (the protocol automaton), \<open>EngineAuthority\<close> (what authorises an
  execution, what is spent), \<open>EngineAudit\<close> (what the sink holds), \<open>EngineProps\<close>, \<open>EngineLive\<close>.
  \<open>PyTimeFacts\<close>: the ISO text of a time reads back to the same time.
  \<open>ApprovalQueue\<close> (\<open>approval_transport.py\<close>), \<open>QueueFacts\<close>, \<open>QueueProps\<close>: the operators' file-backed queue, its
  refinement of an abstract lifecycle, what an approval gives, and when its file becomes unreadable.
  \<open>Registries\<close> (\<open>registry.py\<close>, \<open>targets.py\<close>): which providers and targets can be used; \<open>McpTools\<close>,
  \<open>McpRouter\<close>, \<open>McpProps\<close> (\<open>mcp/\<close>): the tool table, results, and the router from an agent's tool call to a
  control plane, with what an agent's session can execute and what it is told.
  \<open>MutationGate\<close> (\<open>mutation_gate.py\<close>): clearance handles and the ledger that spends them.
  \<open>ProviderSafety\<close> (\<open>errors.py\<close>, \<open>transport_policy.py\<close>, \<open>artifacts.py\<close>, \<open>preflight.py\<close>, \<open>transports.py\<close>,
  \<open>pikvm_calibration.py\<close>): what surrounds a transport. \<open>LiveTransports\<close> (\<open>pikvm_transport.py\<close>,
  \<open>redfish_transport.py\<close> and their mutating counterparts): the transports to hardware over an HTTP client
  as a parameter; \<open>LiveProps\<close>: which messages reach hardware, and what is shown of the answers.
  \<open>HttpClients\<close> (\<open>http_read.py\<close>, \<open>http_mutate.py\<close>): credentials and the two HTTPS clients over a network as a
  parameter, with a trace of what they do on the wire; \<open>LiveWiring\<close> (the rest of \<open>live_validation/\<close>): the client
  factories, the builders of transports over them, evidence, preconditions, checkpoints and stage 1.
  \<open>WireFacts\<close> (the locale \<open>reader\<close> of documents got over a connection, interpreted by the real client),
  \<open>WireProps\<close>: what sessions of reads and of mutations put on the wire, and what stage 1 attests.
  \<open>Placeholders\<close> (\<open>placeholders.py\<close>): the disabled providers, interpreted as adapters.
  \<open>FixtureProviders\<close> (\<open>pikvm.py\<close>, \<open>redfish.py\<close>): the two adapters over offline fixtures, interpreted as adapters;
  \<open>FixtureProps\<close>: their traffic.
  \<open>Config\<close> (\<open>config/\<close>): validation, loading and the runtime built from a configuration; \<open>ConfigProps\<close>: what is
  refused, what is built, and that a configured session stays offline.
  \<open>JsonCopy\<close>: the copy of a value through JSON. \<open>Playbooks\<close> (\<open>playbooks.py\<close>), \<open>PlaybookProps\<close>: playbooks, their runner
  over the router, and what they execute.
  \<open>HostModels\<close>, \<open>HostApprovals\<close>, \<open>Host\<close> (\<open>mcp_sdk/\<close>): the adapter, calls, results and approvals of a tool
  host, and the layer that keeps what waits for approval; \<open>HostProps\<close>: what a host session executes, that it
  is always answered, and that no answer is final.
  \<open>AuthorityProps\<close>: the properties of policy, grants, fingerprints and clearances.
  This theory: the properties that span engine, sinks, trust and tower.

  Bounds. All recursions are structural or on explicit measures; the only fuel is the number of
  steps of the regular-expression search, which is the length of the text. The Ed25519 ladder recurs
  on the bits of the scalar. The pointer calibration is exact integer arithmetic where the code rounds
  a float: they agree on screens below 2^36 pixels across.

  Not modelled, and why: reading, locking and replacing files, SQL, sockets and TLS, \<open>http.client\<close>,
  \<open>urllib\<close> and the keychain are input and output, and their contents and answers enter as arguments;
  \<open>cli/main.py\<close> is argument parsing and printing over the parts modelled here; text outside Latin-1 and
  floating-point formatting are outside the string model (a float carries its text).
\<close>

section \<open>Deployments for the witnesses\<close>

definition demo_jsonl_plane :: "(jsonl_sink, nat, unit) plane" where
  "demo_jsonl_plane =
     \<lparr>pl_policy = demo_policy, pl_registry = [(''power.force_off'', demo_capability)],
      pl_provider = demo_provider, pl_execute = demo_execute, pl_emit = jsonl_emit (\<lambda>s. s),
      pl_now = (\<lambda>n. Aware 0 0), pl_utcnow = (\<lambda>n. Aware 0 0), pl_uuid = (\<lambda>n. nat_digits n),
      pl_grant_verifier = Some demo_grant_verifier, pl_client = None, pl_clearance_verifier = None,
      pl_timeout = 20, pl_channel = select_channel MOBILE_SIGNED LOCAL_TERMINAL, pl_act_parity = False,
      pl_sha256 = (\<lambda>s. s)\<rparr>"

definition demo_jsonl_world :: "(jsonl_sink, nat, unit) world" where
  "demo_jsonl_world =
     \<lparr>w_sink = \<lparr>jl_lines = [], jl_previous_hash = JNull\<rparr>, w_provider = 0, w_client = (), w_store = None,
      w_consumed = [], w_ticks = 0, w_trace = []\<rparr>"

definition demo_signer :: signer where
  "demo_signer = \<lparr>signer_key = ''k'', signer_algorithm = ''hmac'', signer_sign = (\<lambda>p. raise ValueError []),
     signer_verify = (\<lambda>g. Inr True)\<rparr>"

definition demo_trust :: trust_registry where
  "demo_trust = \<lparr>tg_allow_development = False,
     tg_trust = [(''k'', \<lparr>tr_signer = demo_signer, tr_development = False, tr_label = ''production''\<rparr>)]\<rparr>"

definition demo_trust_plane :: "(audit_event list, nat, unit) plane" where
  "demo_trust_plane = demo_plane\<lparr>pl_grant_verifier := Some (verify_grant (trusted_signers demo_trust))\<rparr>"

lemma demo_trust_signers: "trusted_signers demo_trust = [(''k'', demo_signer)]" "registry_wf demo_trust"
  by (simp_all add: trusted_signers_def demo_trust_def is_trusted_def registry_wf_def demo_signer_def)

lemma demo_trust_plane_simps [simp]:
  "pl_emit demo_trust_plane = memory_emit" "pl_execute demo_trust_plane = demo_execute"
  "pl_now demo_trust_plane = (\<lambda>n. Aware 0 0)" "pl_registry demo_trust_plane = pl_registry demo_plane"
  "pl_provider demo_trust_plane = demo_provider" "pl_sha256 demo_trust_plane = (\<lambda>s. s)"
  "\<not> tower_channel demo_trust_plane" "plane_decision demo_trust_plane = plane_decision demo_plane"
  "pl_grant_verifier demo_trust_plane = Some (verify_grant (trusted_signers demo_trust))"
  by (simp_all add: demo_trust_plane_def plane_decision_def fun_eq_iff) (simp add: tower_channel_def demo_plane_def)

lemma demo_verify_grant:
  "verify_grant (trusted_signers demo_trust) (Some demo_signed)
     \<lparr>gc_request_id = ''rid'', gc_session_id = ''s'', gc_target = ''t'', gc_provider = ''p'',
      gc_capability = ''power.force_off'', gc_params_fingerprint = ''{}'', gc_risk_family = ''power'',
      gc_now = Aware 0 0, gc_conversational = [''observe'', ''runtime'']\<rparr> =
   Inr (verification (sgn_payload demo_signed) VALID ''grant verified'')"
  by (simp add: verify_grant_def demo_trust_signers demo_signed_def demo_signer_def payload_bindings_def Let_def
      RESUMPTION_BLOCKED_def dt_geq_def)

lemma demo_trust_run:
  "executions (snd (handle demo_trust_plane (demo_request (Some demo_signed)) (demo_world None))) =
     [provider_request_for (demo_request (Some demo_signed)) demo_capability]"
proof -
  have reg: "registry_get (pl_registry demo_trust_plane) (rq_capability_id (demo_request g)) = Some demo_capability" for g
    by (simp add: registry_get_def demo_request_def)
  have fam: "ref_family (ref_of_capability demo_capability) = ''power''"
    by (simp add: ref_of_capability_def demo_capability_def)
  have hw: "pol_target_scope (pl_policy demo_trust_plane) = pol_target_scope (pl_policy demo_plane)"
    by (simp add: demo_trust_plane_def)
  show ?thesis
    unfolding handle_def Let_def reg
    by (simp add: seq_op_after handle_approval_split local_approval_def bind_op_def
        verify_signed_approval_grant_def apply_verification_def demo_context tick_eq fam
        demo_verify_grant vr_valid_def verification_def emit_approval_def Let_def)
qed

lemma run_delivers: "delivers cp w (run_requests cp rs w)"
proof (induction rs arbitrary: w)
  case Nil
  show ?case by (simp add: delivery.refl)
next
  case (Cons r rs)
  have "delivers cp w (snd (handle cp r w))" by (rule keepsD [where x = "fst (handle cp r w)", OF handle_delivers]) simp
  with Cons show ?case by (auto intro: delivery.trans)
qed

section \<open>Properties of the whole\<close>

text \<open>
  C10 (the audit log). A control plane on the JSONL sink, started on an intact log, leaves a log
  whose hash chain verifies, and which holds the old entries followed by exactly the redacted
  payloads of the events it emitted, after every sequence of requests.
\<close>

theorem jsonl_run_intact:
  assumes "pl_emit cp = jsonl_emit H" "jsonl_intact H (w_sink w)"
  shows "verify_audit_chain H (Some (jl_lines (w_sink (run_requests cp rs w)))) = Inr True \<and>
    (\<exists>es. w_trace (run_requests cp rs w) = w_trace w @ es \<and>
      map (\<lambda>r. rget r ''event'') (records_of (jl_lines (w_sink (run_requests cp rs w)))) =
      map (\<lambda>r. rget r ''event'') (records_of (jl_lines (w_sink w))) @
      map (\<lambda>e. canon (act_json (pdict (redacted_event_payload e)))) (emitted es))"
proof -
  obtain es where es: "w_trace (run_requests cp rs w) = w_trace w @ es"
    "emit_all (jsonl_emit H) (emitted es) (w_sink w) = Inr (w_sink (run_requests cp rs w))"
    using run_delivers [of cp w rs] assms(1) by (auto simp: delivers_def)
  have "jsonl_intact H (w_sink (run_requests cp rs w))"
    by (rule jsonl_sink.emit_all_intact [OF es(2) assms(2)])
  with es(1) jsonl_sink.emit_all_appends [OF es(2)] show ?thesis
    by (auto simp: jsonl_intact_def verify_audit_chain_def)
qed

theorem jsonl_run_intact_witness:
  "verify_audit_chain (\<lambda>s. s)
     (Some (jl_lines (w_sink (run_requests demo_jsonl_plane [demo_request None] demo_jsonl_world)))) = Inr True"
  using jsonl_run_intact [of demo_jsonl_plane "\<lambda>s. s" demo_jsonl_world "[demo_request None]"]
  by (simp add: demo_jsonl_plane_def demo_jsonl_world_def jsonl_intact_def records_of_def)

text \<open>
  C22 (observe mode). Under a policy in observe mode without rules, what reaches the provider is
  the request's own capability, of the families observe and session, and not dangerous.
\<close>

theorem observe_mode_safe:
  assumes "pol_mode (pl_policy cp) = OBSERVE" "pol_rules (pl_policy cp) = []"
  shows "executions (snd (handle cp r w)) = executions w \<or>
    (\<exists>c. executions (snd (handle cp r w)) = executions w @ [provider_request_for r c] \<and>
      registry_get (pl_registry cp) (rq_capability_id r) = Some c \<and>
      cap_family c \<in> {''observe'', ''session''} \<and> \<not> cap_dangerous c)"
proof -
  have h: "handle cp r w = (fst (handle cp r w), snd (handle cp r w))" by simp
  from handle_permitted [OF h] show ?thesis
  proof
    assume "\<exists>c. executions (snd (handle cp r w)) = executions w @ [provider_request_for r c] \<and> permitted cp r c w"
    then show ?thesis
      using observe_mode_only_observes [OF assms] unfolding permitted_def plane_decision_def by fastforce
  qed simp
qed

theorem observe_mode_safe_witness:
  "executions (snd (handle (demo_plane\<lparr>pl_policy := mode_preset OBSERVE None\<rparr>) (demo_request None) (demo_world None))) = []"
  using observe_mode_safe [of "demo_plane\<lparr>pl_policy := mode_preset OBSERVE None\<rparr>" "demo_request None" "demo_world None"]
  by (simp add: mode_preset_def registry_get_def demo_capability_def)

text \<open>
  C4 (signed grants and trust). Where approvals can only come from signed grants checked by the
  verifier over the trust registry, an execution that needs approval was let through by a grant
  whose signer the registry trusts and whose signature that signer verifies, bound to the session,
  target, provider, capability and parameter fingerprint of the request, neither consumed before nor
  expired at the clock reading.
\<close>

theorem signed_execution_trusted:
  assumes "\<not> tower_channel cp" "w_store w = None" "registry_wf reg"
    and "pl_grant_verifier cp = Some (verify_grant (trusted_signers reg))"
    and "requires_approval (plane_decision cp r)" "executions (snd (handle cp r w)) \<noteq> executions w"
  shows "\<exists>g s. rq_signed_grant r = Some g \<and> signer_for reg (gp_signer_key_id (sgn_payload g)) = Some s \<and>
    signer_verify s g = Inr True \<and> gp_session_id (sgn_payload g) = rq_session_id r \<and>
    gp_target (sgn_payload g) = rq_target_id r \<and> gp_provider (sgn_payload g) = ad_provider_id (pl_provider cp) \<and>
    gp_capability (sgn_payload g) = rq_capability_id r \<and>
    fingerprint_parameters (pl_sha256 cp) (rq_parameters r) = Inr (gp_params_fingerprint (sgn_payload g)) \<and>
    gp_grant_id (sgn_payload g) \<notin> set (w_consumed w) \<and>
    (\<exists>now. reads cp w now \<and> dt_less now (gp_expires_at (sgn_payload g)) = Inr True)"
proof -
  have h: "handle cp r w = (fst (handle cp r w), snd (handle cp r w))" by simp
  have "spends cp r (ref_for cp r) w (snd (handle cp r w))"
    using handle_facts [OF h] assms(1,5,6) by (auto simp: quiet_def outcome_def)
  then obtain g rid now ctx v where
      g: "rq_signed_grant r = Some g" "gp_grant_id (sgn_payload g) \<notin> set (w_consumed w)" "reads cp w now"
    and ctx: "context_from_parameters (pl_sha256 cp) rid (rq_session_id r) (rq_target_id r)
          (ad_provider_id (pl_provider cp)) (rq_capability_id r) (rq_parameters r) (ref_family (ref_for cp r)) now = Inr ctx"
    and v: "verify_grant (trusted_signers reg) (Some g) ctx = Inr v" "vr_valid v"
    using assms(2,4) by (auto simp: spends_def signed_authority_def)
  from verify_grant_valid [OF v] g ctx trusted_signers_lookup [OF assms(3)] show ?thesis
    by (auto simp: grant_acceptable_def context_from_parameters_def bind_res_Inr_iff Let_def)
qed

theorem signed_execution_trusted_witness:
  "\<exists>g s. rq_signed_grant (demo_request (Some demo_signed)) = Some g \<and>
     signer_for demo_trust (gp_signer_key_id (sgn_payload g)) = Some s \<and> signer_verify s g = Inr True"
proof -
  have "executions (snd (handle demo_trust_plane (demo_request (Some demo_signed)) (demo_world None))) \<noteq>
      executions (demo_world None)" by (simp add: demo_trust_run)
  from signed_execution_trusted [OF _ _ demo_trust_signers(2) _ _ this] show ?thesis by auto
qed

text \<open>
  Fail closed without a proof verifier. On the mobile channel, while the ACT verifier still
  has the pending proof verifier, no request that needs approval ever reaches the provider, whatever
  the tower answers.
\<close>

theorem pending_tower_blocks:
  assumes "tower_channel cp" "pl_clearance_verifier cp = Some (verify_clearance sha512 v)"
    and "av_proof_verifier v = PendingVerifier" "requires_approval (plane_decision cp r)"
  shows "executions (snd (handle cp r w)) = executions w"
proof -
  have h: "handle cp r w = (fst (handle cp r w), snd (handle cp r w))" by simp
  have "\<not> tower_authority cp r c d w" for c d
    using pending_never_valid [OF assms(3)] assms(2) by (auto simp: tower_authority_def)
  with handle_facts [OF h] assms(1,4) show ?thesis by (auto simp: quiet_def outcome_def)
qed

theorem pending_tower_blocks_witness:
  "executions (snd (handle (demo_tower_plane\<lparr>pl_clearance_verifier :=
       Some (verify_clearance (\<lambda>s. s) (demo_act\<lparr>av_proof_verifier := PendingVerifier\<rparr>))\<rparr>)
     (demo_request None) (demo_world None))) = []"
proof -
  let ?cp = "demo_tower_plane\<lparr>pl_clearance_verifier :=
       Some (verify_clearance (\<lambda>s. s) (demo_act\<lparr>av_proof_verifier := PendingVerifier\<rparr>))\<rparr>"
  have "plane_decision ?cp = plane_decision demo_plane" by (simp add: plane_decision_def fun_eq_iff)
  moreover have "tower_channel ?cp" using demo_tower_simps(9) by (simp add: tower_channel_def)
  ultimately show ?thesis
    using pending_tower_blocks [of ?cp "\<lambda>s. s" "demo_act\<lparr>av_proof_verifier := PendingVerifier\<rparr>"
        "demo_request None" "demo_world None"] by simp
qed

end
